(* ===== verification/Prelude.thy ===== *)
theory Prelude
  imports Main "HOL-Library.Word"
begin

text \<open>
  Facts the components share: the error monad of the models (a sum whose left side is the way the
  C code fails, used through \<open>bindR\<close> and \<open>assertR\<close>), updates of one list in a family of
  pairwise disjoint lists, and small facts on words.

  The collection \<open>state_simps\<close> gathers, per component, the equations that push a read of the
  state through a write; \<open>frame_simps\<close> the equations that say which writes a predicate on the
  state ignores.
\<close>

named_theorems state_simps \<open>reads after writes\<close>
named_theorems frame_simps \<open>predicates that ignore a write\<close>

subsection \<open>Results\<close>

definition bindR :: "'e + 'a \<Rightarrow> ('a \<Rightarrow> 'e + 'b) \<Rightarrow> 'e + 'b" where
  "bindR r f = (case r of Inl e \<Rightarrow> Inl e | Inr x \<Rightarrow> f x)"

definition assertR :: "'e \<Rightarrow> bool \<Rightarrow> 'e + unit" where
  "assertR e b = (if b then Inr () else Inl e)"

lemma bindR_simps [simp]:
  "bindR (Inl e) f = Inl e"
  "bindR (Inr x) f = f x"
  by (simp_all add: bindR_def)

lemma bindR_Inr_iff:
  "bindR r f = Inr y \<longleftrightarrow> (\<exists>x. r = Inr x \<and> f x = Inr y)"
  by (cases r) auto

lemma bindR_assoc: "bindR (bindR r f) g = bindR r (\<lambda>x. bindR (f x) g)"
  by (cases r) auto

lemma assertR_simps [simp]:
  "assertR e True = Inr ()"
  "assertR e False = Inl e"
  "assertR e b = Inr u \<longleftrightarrow> b"
  by (simp_all add: assertR_def)

text \<open>Results whose value may also be an ordinary refusal (an early return with an error code).\<close>

definition bindRO :: "'e + 'a option \<Rightarrow> ('a \<Rightarrow> 'e + 'b option) \<Rightarrow> 'e + 'b option" where
  "bindRO r f = bindR r (\<lambda>x. case x of None \<Rightarrow> Inr None | Some y \<Rightarrow> f y)"

lemma bindRO_simps [simp]:
  "bindRO (Inl e) f = Inl e"
  "bindRO (Inr None) f = Inr None"
  "bindRO (Inr (Some x)) f = f x"
  by (simp_all add: bindRO_def)

subsection \<open>A family of disjoint lists\<close>

text \<open>
  Several queues live in one memory: list number \<open>h\<close> of the family is the content of queue head
  \<open>h\<close>, and no element is linked twice, \<open>distinct (concat L)\<close>.
\<close>

lemma in_concat_nth: "h < length L \<Longrightarrow> x \<in> set (L ! h) \<Longrightarrow> x \<in> set (concat L)"
  using nth_mem[of h L] by auto

lemma concat_in_nth: "x \<in> set (concat L) \<Longrightarrow> \<exists>h<length L. x \<in> set (L ! h)"
  by (metis UN_E in_set_conv_nth set_concat)

text \<open>Everything outside list \<open>h\<close> of the family, before and behind it.\<close>

lemma concat_split_nth:
  assumes "h < length L"
  obtains A B where "concat L = A @ L ! h @ B"
    and "\<And>ys. concat (L[h := ys]) = A @ ys @ B"
    and "\<And>k. k < length L \<Longrightarrow> k \<noteq> h \<Longrightarrow> set (L ! k) \<subseteq> set A \<union> set B"
proof
  show "concat L = concat (take h L) @ L ! h @ concat (drop (Suc h) L)"
    using assms by (metis concat.simps(2) concat_append id_take_nth_drop)
  show "concat (L[h := ys]) = concat (take h L) @ ys @ concat (drop (Suc h) L)" for ys
    using assms by (simp add: upd_conv_take_nth_drop)
  show "set (L ! k) \<subseteq> set (concat (take h L)) \<union> set (concat (drop (Suc h) L))"
    if "k < length L" "k \<noteq> h" for k
  proof (cases "k < h")
    case True
    then have "L ! k = take h L ! k" by simp
    moreover have "k < length (take h L)" using True assms by simp
    ultimately have "L ! k \<in> set (take h L)" by (metis nth_mem)
    then show ?thesis by auto
  next
    case False
    with that have "Suc h \<le> k" by simp
    then have "L ! k = drop (Suc h) L ! (k - Suc h)" using that by simp
    moreover have "k - Suc h < length (drop (Suc h) L)" using that \<open>Suc h \<le> k\<close> by simp
    ultimately have "L ! k \<in> set (drop (Suc h) L)" by (metis nth_mem)
    then show ?thesis by auto
  qed
qed

lemma distinct_concat_nth:
  assumes "distinct (concat L)" and "h < length L"
  shows "distinct (L ! h)"
  by (rule concat_split_nth[OF assms(2)]) (use assms in auto)

lemma distinct_concat_disjoint:
  assumes "distinct (concat L)" and "h < length L" and "k < length L" and "h \<noteq> k"
    and "x \<in> set (L ! h)"
  shows "x \<notin> set (L ! k)"
proof (rule concat_split_nth[OF assms(2)])
  fix A B
  assume L: "concat L = A @ L ! h @ B"
    and sub: "\<And>k. k < length L \<Longrightarrow> k \<noteq> h \<Longrightarrow> set (L ! k) \<subseteq> set A \<union> set B"
  have "set (L ! k) \<subseteq> set A \<union> set B" using sub[of k] assms(3,4) by blast
  moreover have "x \<notin> set A \<union> set B" using assms(1,5) unfolding L by auto
  ultimately show ?thesis by blast
qed

lemma distinct_concat_update:
  assumes "distinct (concat L)" and "h < length L" and "distinct ys"
    and "\<And>x. x \<in> set ys \<Longrightarrow> x \<in> set (L ! h) \<or> x \<notin> set (concat L)"
  shows "distinct (concat (L[h := ys]))"
proof (rule concat_split_nth[OF assms(2)])
  fix A B
  assume L: "concat L = A @ L ! h @ B" and upd: "\<And>ys. concat (L[h := ys]) = A @ ys @ B"
  have "x \<notin> set A \<union> set B" if "x \<in> set ys" for x
    using assms(4)[OF that] assms(1) unfolding L by auto
  moreover have "distinct A" "distinct B" "set A \<inter> set B = {}"
    using assms(1) unfolding L by auto
  ultimately show ?thesis using assms(3) by (auto simp: upd)
qed

subsection \<open>Lists split at an element\<close>

text \<open>\<open>insert_after p e xs\<close> puts \<open>e\<close> behind the first occurrence of \<open>p\<close>.\<close>

fun insert_after :: "'a \<Rightarrow> 'a \<Rightarrow> 'a list \<Rightarrow> 'a list" where
  "insert_after p e [] = []"
| "insert_after p e (x # xs) = (if x = p then x # e # xs else x # insert_after p e xs)"

fun insert_before :: "'a \<Rightarrow> 'a \<Rightarrow> 'a list \<Rightarrow> 'a list" where
  "insert_before p e [] = []"
| "insert_before p e (x # xs) = (if x = p then e # x # xs else x # insert_before p e xs)"

fun replace1 :: "'a \<Rightarrow> 'a \<Rightarrow> 'a list \<Rightarrow> 'a list" where
  "replace1 p e [] = []"
| "replace1 p e (x # xs) = (if x = p then e # xs else x # replace1 p e xs)"

fun delete_after :: "'a \<Rightarrow> 'a list \<Rightarrow> 'a list" where
  "delete_after p [] = []"
| "delete_after p (x # xs) = (if x = p then x # tl xs else x # delete_after p xs)"

lemma split_at_simps [simp]:
  assumes "p \<notin> set xs"
  shows "insert_after p e (xs @ p # ys) = xs @ p # e # ys"
    and "insert_before p e (xs @ p # ys) = xs @ e # p # ys"
    and "replace1 p e (xs @ p # ys) = xs @ e # ys"
    and "delete_after p (xs @ p # ys) = xs @ p # tl ys"
    and "remove1 p (xs @ p # ys) = xs @ ys"
  using assms by (induction xs) auto

subsection \<open>Characters\<close>

text \<open>\<open>isspace\<close> of the C library, in the C locale.\<close>

definition isspace :: "char \<Rightarrow> bool" where
  "isspace c \<longleftrightarrow> c \<in> {CHR '' '', CHR 0x09, CHR 0x0A, CHR 0x0B, CHR 0x0C, CHR 0x0D}"

subsection \<open>Bits of words\<close>

type_synonym u32 = "32 word"
type_synonym byte = "8 word"

lemma word_bit_bound:
  fixes w :: "'a::len word"
  assumes "w < 2 ^ n" and "n \<le> k"
  shows "\<not> bit w k"
proof
  assume b: "bit w k"
  then have "bit (unat w) k" by (simp add: bit_unsigned_iff)
  moreover have "unat w < 2 ^ n"
  proof (cases "n < LENGTH('a)")
    case True
    then show ?thesis using assms(1) word_less_nat_alt[of w "2 ^ n"] unat_of_nat[of "2 ^ n", where ?'a = 'a]
      by simp
  next
    case False
    then have "LENGTH('a) \<le> k" using assms(2) by simp
    with b show ?thesis using bit_imp_le_length not_le by blast
  qed
  ultimately show False
    using assms(2) by (metis bit_take_bit_iff not_le take_bit_nat_eq_self)
qed

end
