(* ===== verification/Queue_Base.thy ===== *)
theory Queue_Base
  imports Prelude
begin

text \<open>
  What the queue families of \<open>sys-queue.h\<close> share: the two kinds of pointer their links hold, the
  ways a macro fails, the operations a queue supports with their specification on a family of
  lists, and the contract \<open>queue_impl\<close> every family is interpreted against.
\<close>

subsection \<open>Pointers\<close>

text \<open>
  Queue heads and elements are numbered. A \<^theory_text>\<open>struct type *\<close> is \<open>Null\<close>, the address of an
  element, or the value \<^theory_text>\<open>(void *)1L\<close> that a removed element is poisoned with under
  \<^theory_text>\<open>QUEUEDEBUG\<close>. A \<^theory_text>\<open>struct type **\<close> is the address of a link: of a head's
  first-element field, of an element's next field, or the poison.
\<close>

type_synonym elem = nat
type_synonym head = nat

datatype ptr = Null | Elm elem | Poison

datatype slot = HeadSlot head | NextSlot elem | PoisonSlot

text \<open>
  A macro fails by dereferencing \<open>Null\<close> or the poison, by the abort of a \<^theory_text>\<open>QUEUEDEBUG\<close>
  check (with the text of its message), by computing an element's address from a link that is
  not inside an element, or by a loop that does not end.
\<close>

datatype fault = Null_deref | Poison_deref | Abort string | Not_an_element | Diverges

fun deref :: "ptr \<Rightarrow> fault + elem" where
  "deref Null = Inl Null_deref"
| "deref (Elm e) = Inr e"
| "deref Poison = Inl Poison_deref"

lemma deref_Inr [simp]: "deref p = Inr e \<longleftrightarrow> p = Elm e"
  by (cases p) auto

text \<open>The first pointer of a chain of elements that ends in \<open>q\<close>.\<close>

fun hdp :: "elem list \<Rightarrow> ptr \<Rightarrow> ptr" where
  "hdp [] q = q"
| "hdp (x # xs) q = Elm x"

lemma hdp_append [simp]: "hdp (xs @ ys) q = hdp xs (hdp ys q)"
  by (cases xs) auto

lemma hdp_Null_iff [simp]: "hdp xs Null = Null \<longleftrightarrow> xs = []" "Null = hdp xs Null \<longleftrightarrow> xs = []"
  by (cases xs; simp)+

lemma hdp_Elm_iff: "hdp xs Null = Elm e \<longleftrightarrow> (\<exists>ys. xs = e # ys)"
  by (cases xs) auto

lemma hdp_not_Poison [simp]: "hdp xs Null \<noteq> Poison"
  by (cases xs) auto

text \<open>The link that points behind the last element of a list whose first link is \<open>sl\<close>.\<close>

definition end_slot :: "slot \<Rightarrow> elem list \<Rightarrow> slot" where
  "end_slot sl xs = (if xs = [] then sl else NextSlot (last xs))"

lemma end_slot_simps [simp]:
  "end_slot sl [] = sl"
  "end_slot sl (x # xs) = end_slot (NextSlot x) xs"
  "end_slot sl (xs @ ys) = end_slot (end_slot sl xs) ys"
  by (auto simp: end_slot_def)

subsection \<open>Walking a list\<close>

text \<open>
  The \<^theory_text>\<open>FOREACH\<close> loops: start at \<open>p\<close>, stop at \<open>Null\<close>, step along \<open>nx\<close>; the value
  is the list of elements the body sees. \<open>None\<close> is a loop that does not end.
\<close>

partial_function (option) foreach :: "(elem \<Rightarrow> ptr) \<Rightarrow> ptr \<Rightarrow> (fault + elem list) option" where
  "foreach nx p = (case p of Null \<Rightarrow> Some (Inr [])
     | Poison \<Rightarrow> Some (Inl Poison_deref)
     | Elm e \<Rightarrow> Option.bind (foreach nx (nx e)) (\<lambda>r. Some (bindR r (\<lambda>es. Inr (e # es)))))"

text \<open>
  The \<^theory_text>\<open>FOREACH_SAFE\<close> loops: the body may change the state (it may remove the
  element it is given), so the following element is read before the body runs.
\<close>

partial_function (option) foreach_safe ::
    "('s \<Rightarrow> elem \<Rightarrow> fault + ptr) \<Rightarrow> (elem \<Rightarrow> 's \<Rightarrow> fault + 's) \<Rightarrow> ptr \<Rightarrow> 's \<Rightarrow> (fault + 's) option"
  where
  "foreach_safe nx body v s = (case v of Null \<Rightarrow> Some (Inr s)
     | Poison \<Rightarrow> Some (Inl Poison_deref)
     | Elm e \<Rightarrow> (case nx s e of Inl f \<Rightarrow> Some (Inl f)
         | Inr tvar \<Rightarrow> (case body e s of Inl f \<Rightarrow> Some (Inl f)
             | Inr s' \<Rightarrow> foreach_safe nx body tvar s')))"

text \<open>
  The search loops of the removal macros: from \<open>cur\<close> follow next links until an element whose
  successor is \<open>elm\<close>.
\<close>

partial_function (option) find_pred :: "(elem \<Rightarrow> ptr) \<Rightarrow> elem \<Rightarrow> ptr \<Rightarrow> (fault + elem) option" where
  "find_pred nx elm cur = (case cur of Null \<Rightarrow> Some (Inl Null_deref)
     | Poison \<Rightarrow> Some (Inl Poison_deref)
     | Elm c \<Rightarrow> (if nx c \<noteq> Elm elm then find_pred nx elm (nx c) else Some (Inr c)))"

text \<open>A chain of next links: each element's link is the following one's address, the last's \<open>q\<close>.\<close>

fun sseg :: "(elem \<Rightarrow> ptr) \<Rightarrow> elem list \<Rightarrow> ptr \<Rightarrow> bool" where
  "sseg nx [] q = True"
| "sseg nx (x # xs) q = (nx x = hdp xs q \<and> sseg nx xs q)"

lemma sseg_append [simp]: "sseg nx (xs @ ys) q \<longleftrightarrow> sseg nx xs (hdp ys q) \<and> sseg nx ys q"
  by (induction xs) auto

lemma sseg_upd [frame_simps]: "e \<notin> set xs \<Longrightarrow> sseg (nx(e := v)) xs q \<longleftrightarrow> sseg nx xs q"
  by (induction xs) auto

lemma sseg_cong: "(\<And>x. x \<in> set xs \<Longrightarrow> nx x = nx' x) \<Longrightarrow> sseg nx xs q \<longleftrightarrow> sseg nx' xs q"
  by (induction xs) auto

lemma foreach_sseg: "sseg nx xs Null \<Longrightarrow> foreach nx (hdp xs Null) = Some (Inr xs)"
proof (induction xs)
  case (Cons x xs)
  then show ?case by (simp add: foreach.simps[of nx "Elm x"])
qed (simp add: foreach.simps)

lemma find_pred_found:
  "sseg nx (xs @ [c]) (Elm e) \<Longrightarrow> e \<notin> set (xs @ [c]) \<Longrightarrow>
   find_pred nx e (hdp (xs @ [c]) q) = Some (Inr c)"
proof (induction xs)
  case Nil
  then show ?case by (simp add: find_pred.simps)
next
  case (Cons x xs)
  then have "nx x = hdp (xs @ [c]) q" by (cases xs) auto
  moreover from Cons.prems have "hdp (xs @ [c]) q \<noteq> Elm e" by (cases xs) auto
  ultimately show ?case using Cons by (simp add: find_pred.simps[of nx e "Elm x"])
qed

lemma find_pred_missing:
  "sseg nx xs Null \<Longrightarrow> e \<notin> set xs \<Longrightarrow> find_pred nx e (hdp xs Null) = Some (Inl Null_deref)"
proof (induction xs)
  case (Cons x xs)
  then have "hdp xs Null \<noteq> Elm e" by (cases xs) auto
  with Cons show ?case by (simp add: find_pred.simps[of nx e "Elm x"])
qed (simp add: find_pred.simps)

text \<open>
  A doubly linked chain: \<open>pv\<close> holds, for each element, the address of the link that points to
  it; \<open>sl\<close> is that address for the first element.
\<close>

fun dseg :: "(elem \<Rightarrow> ptr) \<Rightarrow> (elem \<Rightarrow> slot) \<Rightarrow> slot \<Rightarrow> elem list \<Rightarrow> ptr \<Rightarrow> bool" where
  "dseg nx pv sl [] q = True"
| "dseg nx pv sl (x # xs) q = (pv x = sl \<and> nx x = hdp xs q \<and> dseg nx pv (NextSlot x) xs q)"

lemma dseg_append [simp]:
  "dseg nx pv sl (xs @ ys) q \<longleftrightarrow> dseg nx pv sl xs (hdp ys q) \<and> dseg nx pv (end_slot sl xs) ys q"
  by (induction xs arbitrary: sl) auto

lemma dseg_upd [frame_simps]:
  "e \<notin> set xs \<Longrightarrow> dseg (nx(e := v)) pv sl xs q \<longleftrightarrow> dseg nx pv sl xs q"
  "e \<notin> set xs \<Longrightarrow> dseg nx (pv(e := w)) sl xs q \<longleftrightarrow> dseg nx pv sl xs q"
  by (induction xs arbitrary: sl) auto

lemma dseg_sseg: "dseg nx pv sl xs q \<Longrightarrow> sseg nx xs q"
  by (induction xs arbitrary: sl) auto

lemma dseg_split_first:
  "dseg nx pv sl (x # xs) q \<Longrightarrow> x \<notin> set xs \<Longrightarrow> dseg nx (pv(x := sl')) sl' (x # xs) q"
  by (simp add: frame_simps)

lemma end_slot_neq: "e \<notin> set xs \<Longrightarrow> sl \<noteq> NextSlot e \<Longrightarrow> end_slot sl xs \<noteq> NextSlot e"
  by (auto simp: end_slot_def)

lemma end_slot_cases:
  obtains "xs = []" "end_slot sl xs = sl"
  | zs z where "xs = zs @ [z]" "end_slot sl xs = NextSlot z"
  by (cases xs rule: rev_cases) (auto simp: end_slot_def)

subsection \<open>Operations and their specification\<close>

text \<open>
  One constructor per modifying macro. The head argument is the head the macro is given, or for
  the macros that take none, the head of the queue the list element is on.
\<close>

datatype queue_op =
    Init head
  | Insert_head head elem
  | Insert_tail head elem
  | Insert_after head elem elem
  | Insert_before head elem elem
  | Remove head elem
  | Remove_head head
  | Remove_after head elem
  | Replace head elem elem
  | Concat head head

text \<open>
  What an operation does to the list of its own head, \<open>None\<close> where its precondition on that list
  does not hold; the head it works on; and the element it links in.
\<close>

fun local_spec :: "queue_op \<Rightarrow> elem list \<Rightarrow> elem list option" where
  "local_spec (Insert_head h e) xs = (if e \<notin> set xs then Some (e # xs) else None)"
| "local_spec (Insert_tail h e) xs = (if e \<notin> set xs then Some (xs @ [e]) else None)"
| "local_spec (Insert_after h p e) xs =
     (if p \<in> set xs \<and> e \<notin> set xs then Some (insert_after p e xs) else None)"
| "local_spec (Insert_before h p e) xs =
     (if p \<in> set xs \<and> e \<notin> set xs then Some (insert_before p e xs) else None)"
| "local_spec (Remove h e) xs = (if e \<in> set xs then Some (remove1 e xs) else None)"
| "local_spec (Remove_head h) xs = (if xs \<noteq> [] then Some (tl xs) else None)"
| "local_spec (Remove_after h p) xs =
     (if p \<in> set xs \<and> p \<noteq> last xs then Some (delete_after p xs) else None)"
| "local_spec (Replace h e e2) xs =
     (if e \<in> set xs \<and> e2 \<notin> set xs then Some (replace1 e e2 xs) else None)"
| "local_spec (Init h) xs = Some []"
| "local_spec (Concat h k) xs = None"

fun op_head :: "queue_op \<Rightarrow> head" where
  "op_head (Init h) = h"
| "op_head (Insert_head h e) = h"
| "op_head (Insert_tail h e) = h"
| "op_head (Insert_after h p e) = h"
| "op_head (Insert_before h p e) = h"
| "op_head (Remove h e) = h"
| "op_head (Remove_head h) = h"
| "op_head (Remove_after h p) = h"
| "op_head (Replace h e e2) = h"
| "op_head (Concat h k) = h"

fun op_new :: "queue_op \<Rightarrow> elem list" where
  "op_new (Insert_head h e) = [e]"
| "op_new (Insert_tail h e) = [e]"
| "op_new (Insert_after h p e) = [e]"
| "op_new (Insert_before h p e) = [e]"
| "op_new (Replace h e e2) = [e2]"
| "op_new _ = []"

text \<open>
  The specification works on a family of lists, the contents of heads \<open>0, 1, \<dots>\<close>: \<open>Init\<close>
  creates the next head or empties one, \<open>Concat\<close> moves one list behind another, and the rest
  changes the list of one head, linking in only elements that are on no list.
\<close>

fun spec_step :: "queue_op \<Rightarrow> elem list list \<Rightarrow> elem list list option" where
  "spec_step (Init h) L =
     (if h < length L then Some (L[h := []]) else if h = length L then Some (L @ [[]]) else None)"
| "spec_step (Concat h1 h2) L =
     (if h1 < length L \<and> h2 < length L \<and> h1 \<noteq> h2
      then Some (L[h1 := L ! h1 @ L ! h2, h2 := []]) else None)"
| "spec_step op L =
     (if op_head op < length L \<and> set (op_new op) \<inter> set (concat L) = {}
      then map_option (\<lambda>ys. L[op_head op := ys]) (local_spec op (L ! op_head op))
      else None)"

text \<open>The lists before and after an operation, split at the element it works on.\<close>

lemma local_spec_split:
  assumes "local_spec op xs = Some ys" and "distinct xs"
  shows "case op of
      Init h \<Rightarrow> ys = []
    | Insert_head h e \<Rightarrow> ys = e # xs \<and> e \<notin> set xs
    | Insert_tail h e \<Rightarrow> ys = xs @ [e] \<and> e \<notin> set xs
    | Insert_after h p e \<Rightarrow>
        \<exists>as bs. xs = as @ p # bs \<and> e \<notin> set xs \<and> ys = as @ p # e # bs
    | Insert_before h p e \<Rightarrow>
        \<exists>as bs. xs = as @ p # bs \<and> e \<notin> set xs \<and> ys = as @ e # p # bs
    | Remove h p \<Rightarrow> \<exists>as bs. xs = as @ p # bs \<and> ys = as @ bs
    | Remove_head h \<Rightarrow> \<exists>x. xs = x # ys
    | Remove_after h p \<Rightarrow> \<exists>as x bs. xs = as @ p # x # bs \<and> ys = as @ p # bs
    | Replace h p e \<Rightarrow> \<exists>as bs. xs = as @ p # bs \<and> e \<notin> set xs \<and> ys = as @ e # bs
    | Concat h k \<Rightarrow> False"
proof -
  have split: "\<exists>as bs. xs = as @ p # bs \<and> p \<notin> set as" if "p \<in> set xs" for p
    using split_list_first[OF that] by blast
  show ?thesis
  proof (cases op)
    case (Remove_after h p)
    with assms have p: "p \<in> set xs" "p \<noteq> last xs" "ys = delete_after p xs"
      by (auto split: if_splits)
    with split obtain as bs where as: "xs = as @ p # bs" "p \<notin> set as" by blast
    with p(2) obtain x bs' where "bs = x # bs'" by (cases bs) auto
    with as p(3) Remove_after show ?thesis by auto
  qed (use assms split in \<open>fastforce split: if_splits simp: neq_Nil_conv\<close>)+
qed

fun spec_run :: "queue_op list \<Rightarrow> elem list list \<Rightarrow> elem list list option" where
  "spec_run [] L = Some L"
| "spec_run (op # ops) L = (case spec_step op L of None \<Rightarrow> None | Some L' \<Rightarrow> spec_run ops L')"

text \<open>Running a sequence of macros on the concrete state; the first failure stops the run.\<close>

fun run :: "(queue_op \<Rightarrow> 's \<Rightarrow> fault + 's) \<Rightarrow> queue_op list \<Rightarrow> 's \<Rightarrow> fault + 's" where
  "run step [] s = Inr s"
| "run step (op # ops) s = bindR (step op s) (run step ops)"

subsection \<open>The contract\<close>

text \<open>
  An implementation gives the macros it has as \<open>step\<close> (those outside \<open>supported\<close> do not exist
  for it), the walk of its \<^theory_text>\<open>FOREACH\<close> macro and its emptiness test. \<open>repr s L\<close> says that
  the memory \<open>s\<close> holds the queues \<open>L\<close>. The law \<open>step_ok\<close> is a forward simulation: where the
  specification takes a step, the macro does not fail and its result holds the new queues; it
  covers the queues of the other heads, so no framing condition is left to the client.
\<close>

locale queue_impl =
  fixes repr :: "'s \<Rightarrow> elem list list \<Rightarrow> bool"
    and step :: "queue_op \<Rightarrow> 's \<Rightarrow> fault + 's"
    and supported :: "queue_op \<Rightarrow> bool"
    and walk :: "'s \<Rightarrow> head \<Rightarrow> (fault + elem list) option"
    and is_empty :: "'s \<Rightarrow> head \<Rightarrow> bool"
  assumes repr_start: "repr s []"
    and step_ok: "supported op \<Longrightarrow> repr s L \<Longrightarrow> spec_step op L = Some L' \<Longrightarrow>
      \<exists>s'. step op s = Inr s' \<and> repr s' L'"
    and walk_ok: "repr s L \<Longrightarrow> h < length L \<Longrightarrow> walk s h = Some (Inr (L ! h))"
    and empty_ok: "repr s L \<Longrightarrow> h < length L \<Longrightarrow> is_empty s h \<longleftrightarrow> L ! h = []"
begin

lemma run_ok:
  "list_all supported ops \<Longrightarrow> repr s L \<Longrightarrow> spec_run ops L = Some L' \<Longrightarrow>
   \<exists>s'. run step ops s = Inr s' \<and> repr s' L'"
proof (induction ops arbitrary: s L)
  case (Cons op ops)
  from Cons.prems obtain L1 where L1: "spec_step op L = Some L1" "spec_run ops L1 = Some L'"
    by (auto split: option.splits)
  with Cons.prems obtain s1 where "step op s = Inr s1" "repr s1 L1"
    using step_ok[of op s L L1] by auto
  with Cons.IH[of s1 L1] Cons.prems L1 show ?case by auto
qed auto

text \<open>
  What a client sees: from any memory, after a sequence of macros that starts by initialising
  heads and keeps the preconditions, walking and testing each queue answers as the
  specification says, and nothing has failed on the way.
\<close>

lemma run_observe:
  assumes "list_all supported ops" and "spec_run ops [] = Some L"
  shows "\<exists>s'. run step ops s = Inr s' \<and>
    (\<forall>h<length L. walk s' h = Some (Inr (L ! h)) \<and> (is_empty s' h \<longleftrightarrow> L ! h = []))"
  using run_ok[OF assms(1) repr_start assms(2)] walk_ok empty_ok by blast

lemma repr_unique:
  assumes "repr s L" and "repr s L'" and "length L = length L'"
  shows "L = L'"
proof (rule nth_equalityI)
  fix h assume "h < length L"
  with walk_ok[OF assms(1)] walk_ok[OF assms(2)] assms(3) show "L ! h = L' ! h" by fastforce
qed (rule assms(3))

end

text \<open>A queue with links in both directions can also be walked from its last element.\<close>

locale bidir_queue_impl = queue_impl repr step supported walk is_empty
  for repr :: "'s \<Rightarrow> elem list list \<Rightarrow> bool"
    and step :: "queue_op \<Rightarrow> 's \<Rightarrow> fault + 's"
    and supported :: "queue_op \<Rightarrow> bool"
    and walk :: "'s \<Rightarrow> head \<Rightarrow> (fault + elem list) option"
    and is_empty :: "'s \<Rightarrow> head \<Rightarrow> bool" +
  fixes walk_rev :: "'s \<Rightarrow> head \<Rightarrow> (fault + elem list) option"
  assumes walk_rev_ok: "repr s L \<Longrightarrow> h < length L \<Longrightarrow> walk_rev s h = Some (Inr (rev (L ! h)))"
begin

lemma run_observe_rev:
  assumes "list_all supported ops" and "spec_run ops [] = Some L"
  shows "\<exists>s'. run step ops s = Inr s' \<and>
    (\<forall>h<length L. walk s' h = Some (Inr (L ! h)) \<and> walk_rev s' h = Some (Inr (rev (L ! h))))"
  using run_ok[OF assms(1) repr_start assms(2)] walk_ok walk_rev_ok by blast

end

subsection \<open>From one queue to all of them\<close>

text \<open>
  Every family describes one head at a time: \<open>holds s h xs\<close> says that head \<open>h\<close> holds \<open>xs\<close>, and
  \<open>frame s s' H A\<close> that \<open>s'\<close> differs from \<open>s\<close> only in the heads \<open>H\<close> and the links of the
  elements \<open>A\<close>. The laws below are about one head. As no element is on two lists, they give the
  contract for all heads at once.
\<close>

definition family :: "('s \<Rightarrow> head \<Rightarrow> elem list \<Rightarrow> bool) \<Rightarrow> 's \<Rightarrow> elem list list \<Rightarrow> bool" where
  "family holds s L \<longleftrightarrow> distinct (concat L) \<and> (\<forall>h<length L. holds s h (L ! h))"

lemma familyD:
  assumes "family holds s L" and "h < length L"
  shows "holds s h (L ! h)" and "distinct (L ! h)"
  using assms by (auto simp: family_def distinct_concat_nth)

locale single_queue =
  fixes holds :: "'s \<Rightarrow> head \<Rightarrow> elem list \<Rightarrow> bool"
    and frame :: "'s \<Rightarrow> 's \<Rightarrow> head set \<Rightarrow> elem set \<Rightarrow> bool"
    and step :: "queue_op \<Rightarrow> 's \<Rightarrow> fault + 's"
    and supported :: "queue_op \<Rightarrow> bool"
    and walk :: "'s \<Rightarrow> head \<Rightarrow> (fault + elem list) option"
    and is_empty :: "'s \<Rightarrow> head \<Rightarrow> bool"
  assumes holds_frame: "holds s k xs \<Longrightarrow> frame s s' H A \<Longrightarrow> k \<notin> H \<Longrightarrow> set xs \<inter> A = {} \<Longrightarrow>
      holds s' k xs"
    and init_holds: "\<exists>s'. step (Init h) s = Inr s' \<and> holds s' h [] \<and> frame s s' {h} {}"
    and step_holds: "supported op \<Longrightarrow> op \<noteq> Init (op_head op) \<Longrightarrow> holds s (op_head op) xs \<Longrightarrow>
      distinct xs \<Longrightarrow> local_spec op xs = Some ys \<Longrightarrow>
      \<exists>s'. step op s = Inr s' \<and> holds s' (op_head op) ys \<and>
        frame s s' {op_head op} (set (op_new op) \<union> set xs)"
    and concat_holds: "supported (Concat h k) \<Longrightarrow> h \<noteq> k \<Longrightarrow> holds s h xs \<Longrightarrow> holds s k ys \<Longrightarrow>
      distinct (xs @ ys) \<Longrightarrow>
      \<exists>s'. step (Concat h k) s = Inr s' \<and> holds s' h (xs @ ys) \<and> holds s' k [] \<and>
        frame s s' {h, k} (set xs \<union> set ys)"
    and walk_holds: "holds s h xs \<Longrightarrow> distinct xs \<Longrightarrow> walk s h = Some (Inr xs)"
    and empty_holds: "holds s h xs \<Longrightarrow> is_empty s h \<longleftrightarrow> xs = []"
begin

lemma family_update:
  assumes L: "family holds s L" "h < length L"
    and s': "holds s' h ys" "frame s s' {h} A"
    and ys: "distinct ys" "set ys \<subseteq> A"
    and A: "A \<inter> set (concat L) \<subseteq> set (L ! h)"
  shows "family holds s' (L[h := ys])"
  unfolding family_def
proof (intro conjI allI impI)
  show "distinct (concat (L[h := ys]))"
    using L ys A by (intro distinct_concat_update) (auto simp: family_def)
  fix k assume "k < length (L[h := ys])"
  then have k: "k < length L" by simp
  show "holds s' k (L[h := ys] ! k)"
  proof (cases "k = h")
    case False
    have "x \<notin> A" if x: "x \<in> set (L ! k)" for x
    proof
      assume "x \<in> A"
      with A in_concat_nth[OF k x] have "x \<in> set (L ! h)" by blast
      moreover have "x \<notin> set (L ! h)"
        using distinct_concat_disjoint[of L k h x] L k False x by (simp add: family_def)
      ultimately show False by blast
    qed
    then have "holds s' k (L ! k)"
      using holds_frame[OF familyD(1)[OF L(1) k] s'(2)] False by blast
    with False show ?thesis by simp
  qed (use s' k in simp)
qed

lemma init_family:
  assumes "family holds s L" and "spec_step (Init h) L = Some L'"
  shows "\<exists>s'. step (Init h) s = Inr s' \<and> family holds s' L'"
proof -
  obtain s' where s': "step (Init h) s = Inr s'" "holds s' h []" "frame s s' {h} {}"
    using init_holds by blast
  consider "h < length L" "L' = L[h := []]" | "h = length L" "L' = L @ [[]]"
    using assms(2) by (auto split: if_splits)
  then have "family holds s' L'"
  proof cases
    case 1
    with s' assms(1) show ?thesis by (auto intro: family_update)
  next
    case 2
    have "holds s' k (L ! k)" if "k < length L" for k
      using holds_frame[OF familyD(1)[OF assms(1) that] s'(3)] that 2 by simp
    with 2 s' assms(1) show ?thesis by (auto simp: family_def nth_append less_Suc_eq)
  qed
  with s' show ?thesis by blast
qed

lemma concat_family:
  assumes sup: "supported (Concat h k)" and L: "family holds s L"
    and L': "spec_step (Concat h k) L = Some L'"
  shows "\<exists>s'. step (Concat h k) s = Inr s' \<and> family holds s' L'"
proof -
  from L' have h: "h < length L" "k < length L" "h \<noteq> k"
    and L'_eq: "L' = L[h := L ! h @ L ! k, k := []]" by (auto split: if_splits)
  have disj: "set (L ! i) \<inter> set (L ! j) = {}" if "i < length L" "j < length L" "i \<noteq> j" for i j
    using distinct_concat_disjoint[of L i j] L that by (auto simp: family_def)
  have dist: "distinct (L ! h @ L ! k)"
    using familyD(2)[OF L] h disj[of h k] by simp
  obtain s' where s': "step (Concat h k) s = Inr s'" "holds s' h (L ! h @ L ! k)" "holds s' k []"
      "frame s s' {h, k} (set (L ! h) \<union> set (L ! k))"
    using concat_holds[OF sup h(3) familyD(1)[OF L h(1)] familyD(1)[OF L h(2)] dist] by blast
  have "distinct (concat (L[k := []]))"
    using L h by (intro distinct_concat_update) (auto simp: family_def)
  moreover have k: "x \<notin> set (concat (L[k := []]))" if x: "x \<in> set (L ! k)" for x
  proof
    assume "x \<in> set (concat (L[k := []]))"
    then obtain i where "i < length L" "x \<in> set (L[k := []] ! i)"
      using concat_in_nth by fastforce
    with h x disj[of k i] show False by (cases "i = k") auto
  qed
  ultimately have "distinct (concat (L[k := [], h := L ! h @ L ! k]))"
    using h dist k by - (rule distinct_concat_update, auto)
  then have "distinct (concat L')"
    using h L'_eq by (simp add: list_update_swap)
  moreover have "holds s' i (L' ! i)" if "i < length L" for i
  proof (cases "i = h \<or> i = k")
    case False
    then have "holds s' i (L ! i)"
      using holds_frame[OF familyD(1)[OF L that] s'(4)] disj that h by blast
    with False L'_eq show ?thesis by simp
  qed (use s' h L'_eq in auto)
  ultimately show ?thesis using s' L'_eq by (auto simp: family_def)
qed

lemma step_family:
  assumes sup: "supported op" and L: "family holds s L" and L': "spec_step op L = Some L'"
  shows "\<exists>s'. step op s = Inr s' \<and> family holds s' L'"
proof (cases "(\<exists>h. op = Init h) \<or> (\<exists>h k. op = Concat h k)")
  case True
  with assms init_family concat_family show ?thesis by blast
next
  case False
  let ?h = "op_head op"
  have "spec_step op L =
      (if ?h < length L \<and> set (op_new op) \<inter> set (concat L) = {}
       then map_option (\<lambda>ys. L[?h := ys]) (local_spec op (L ! ?h)) else None)"
    using False by (cases op) auto
  with L' obtain ys where h: "?h < length L" "set (op_new op) \<inter> set (concat L) = {}"
    and ys: "local_spec op (L ! ?h) = Some ys" "L' = L[?h := ys]"
    by (auto split: if_splits)
  obtain s' where s': "step op s = Inr s'" "holds s' ?h ys"
      "frame s s' {?h} (set (op_new op) \<union> set (L ! ?h))"
    using step_holds[OF sup _ familyD[OF L h(1)] ys(1)] False by auto
  have "distinct ys \<and> set ys \<subseteq> set (op_new op) \<union> set (L ! ?h)"
    using local_spec_split[OF ys(1) familyD(2)[OF L h(1)]] familyD(2)[OF L h(1)] False
    by (cases op) auto
  then have "family holds s' L'"
    using family_update[OF L h(1) s'(2,3)] h(2) ys(2) by blast
  with s' show ?thesis by blast
qed

lemma remove_split:
  assumes "supported (Remove h x)" and "family holds s L" and "h < length L"
    and "L ! h = as @ x # bs"
  shows "\<exists>s'. step (Remove h x) s = Inr s' \<and> family holds s' (L[h := as @ bs])"
proof -
  have "x \<notin> set as" using familyD(2)[OF assms(2,3)] assms(4) by simp
  then have "spec_step (Remove h x) L = Some (L[h := as @ bs])"
    using assms(3,4) by (simp add: remove1_append)
  from step_family[OF assms(1,2) this] show ?thesis .
qed

end

sublocale single_queue \<subseteq> queue_impl "family holds" step supported walk is_empty
proof unfold_locales
  show "family holds s []" for s
    by (simp add: family_def)
  show "\<exists>s'. step op s = Inr s' \<and> family holds s' L'"
    if "supported op" "family holds s L" "spec_step op L = Some L'" for op s L L'
    using that by (rule step_family)
  show "walk s h = Some (Inr (L ! h))" if "family holds s L" "h < length L" for s L h
    using walk_holds[OF familyD[OF that]] .
  show "is_empty s h \<longleftrightarrow> L ! h = []" if "family holds s L" "h < length L" for s L h
    using empty_holds[OF familyD(1)[OF that]] .
qed

subsection \<open>Removing while walking\<close>

text \<open>
  What the \<^theory_text>\<open>FOREACH_SAFE\<close> loops need of a family: the first element, the element
  behind a linked one, and that the removal macro takes one element out. A loop over the reverse
  order instantiates it with the reversed lists.
\<close>

locale safe_walk =
  fixes fam :: "'s \<Rightarrow> elem list list \<Rightarrow> bool"
    and first :: "'s \<Rightarrow> head \<Rightarrow> fault + ptr"
    and nx :: "'s \<Rightarrow> elem \<Rightarrow> fault + ptr"
    and remove :: "head \<Rightarrow> elem \<Rightarrow> 's \<Rightarrow> fault + 's"
  assumes first_fam: "fam s L \<Longrightarrow> h < length L \<Longrightarrow> first s h = Inr (hdp (L ! h) Null)"
    and nx_fam: "fam s L \<Longrightarrow> h < length L \<Longrightarrow> L ! h = as @ x # bs \<Longrightarrow> nx s x = Inr (hdp bs Null)"
    and remove_fam: "fam s L \<Longrightarrow> h < length L \<Longrightarrow> L ! h = as @ x # bs \<Longrightarrow>
      \<exists>s'. remove h x s = Inr s' \<and> fam s' (L[h := as @ bs])"
begin

lemma safe_loop_filter:
  assumes "fam s L" and "h < length L" and "L ! h = ys @ xs"
  shows "\<exists>s'. foreach_safe nx (\<lambda>e s. if P e then remove h e s else Inr s) (hdp xs Null) s =
      Some (Inr s') \<and> fam s' (L[h := ys @ filter (\<lambda>e. \<not> P e) xs])"
  using assms
proof (induction xs arbitrary: s L ys)
  case Nil
  then have "L[h := ys] = L" by (metis append_Nil2 list_update_id)
  with Nil show ?case by (simp add: foreach_safe.simps)
next
  case (Cons x xs)
  note nx = nx_fam[OF Cons.prems]
  show ?case
  proof (cases "P x")
    case True
    obtain s1 where s1: "remove h x s = Inr s1" "fam s1 (L[h := ys @ xs])"
      using remove_fam[OF Cons.prems] by blast
    with Cons.IH[of s1 "L[h := ys @ xs]" ys] Cons.prems True nx show ?thesis
      by (simp add: foreach_safe.simps[of _ _ "Elm x"])
  next
    case False
    with Cons.IH[of s L "ys @ [x]"] Cons.prems nx show ?thesis
      by (simp add: foreach_safe.simps[of _ _ "Elm x"])
  qed
qed

lemma safe_filter:
  assumes "fam s L" and "h < length L"
  shows "\<exists>p s'. first s h = Inr p \<and>
    foreach_safe nx (\<lambda>e s. if P e then remove h e s else Inr s) p s = Some (Inr s') \<and>
    fam s' (L[h := filter (\<lambda>e. \<not> P e) (L ! h)])"
  using first_fam[OF assms] safe_loop_filter[OF assms, of "[]" "L ! h"] by simp

end

end
