(* ===== verification/Queue_List.thy ===== *)
theory Queue_List
  imports Queue_Base
begin

text \<open>
  The \<^theory_text>\<open>LIST\<close> macros of \<open>sys-queue.h\<close>: a head with one pointer, elements with a next
  pointer and the address of the link that points to them. The flag \<open>dbg\<close> says whether the
  header is compiled with \<^theory_text>\<open>QUEUEDEBUG\<close>.
\<close>

record list_st =
  lh_first :: "head \<Rightarrow> ptr"
  le_next :: "elem \<Rightarrow> ptr"
  le_prev :: "elem \<Rightarrow> slot"

definition set_lh_first :: "head \<Rightarrow> ptr \<Rightarrow> list_st \<Rightarrow> list_st" where
  [simp]: "set_lh_first h p s = s\<lparr>lh_first := (lh_first s)(h := p)\<rparr>"

definition set_le_next :: "elem \<Rightarrow> ptr \<Rightarrow> list_st \<Rightarrow> list_st" where
  [simp]: "set_le_next e p s = s\<lparr>le_next := (le_next s)(e := p)\<rparr>"

definition set_le_prev :: "elem \<Rightarrow> slot \<Rightarrow> list_st \<Rightarrow> list_st" where
  [simp]: "set_le_prev e sl s = s\<lparr>le_prev := (le_prev s)(e := sl)\<rparr>"

text \<open>Reading and writing through a \<^theory_text>\<open>struct type **\<close>.\<close>

fun list_load :: "list_st \<Rightarrow> slot \<Rightarrow> fault + ptr" where
  "list_load s (HeadSlot h) = Inr (lh_first s h)"
| "list_load s (NextSlot e) = Inr (le_next s e)"
| "list_load s PoisonSlot = Inl Poison_deref"

fun list_store :: "slot \<Rightarrow> ptr \<Rightarrow> list_st \<Rightarrow> fault + list_st" where
  "list_store (HeadSlot h) p s = Inr (set_lh_first h p s)"
| "list_store (NextSlot e) p s = Inr (set_le_next e p s)"
| "list_store PoisonSlot p s = Inl Poison_deref"

subsection \<open>Checks under \<^theory_text>\<open>QUEUEDEBUG\<close>\<close>

definition QUEUEDEBUG_LIST_INSERT_HEAD :: "bool \<Rightarrow> head \<Rightarrow> list_st \<Rightarrow> fault + unit" where
  "QUEUEDEBUG_LIST_INSERT_HEAD dbg h s =
     (if \<not> dbg then Inr () else
      if lh_first s h \<noteq> Null
      then bindR (deref (lh_first s h)) (\<lambda>f.
             assertR (Abort ''LIST_INSERT_HEAD'') (le_prev s f = HeadSlot h))
      else Inr ())"

definition QUEUEDEBUG_LIST_OP :: "bool \<Rightarrow> elem \<Rightarrow> list_st \<Rightarrow> fault + unit" where
  "QUEUEDEBUG_LIST_OP dbg e s =
     (if \<not> dbg then Inr () else
      bindR (if le_next s e \<noteq> Null
             then bindR (deref (le_next s e)) (\<lambda>n.
                    assertR (Abort ''LIST_* forw'') (le_prev s n = NextSlot e))
             else Inr ()) (\<lambda>_.
      bindR (list_load s (le_prev s e)) (\<lambda>p.
        assertR (Abort ''LIST_* back'') (p = Elm e))))"

definition QUEUEDEBUG_LIST_POSTREMOVE :: "bool \<Rightarrow> elem \<Rightarrow> list_st \<Rightarrow> list_st" where
  "QUEUEDEBUG_LIST_POSTREMOVE dbg e s =
     (if dbg then set_le_prev e PoisonSlot (set_le_next e Poison s) else s)"

subsection \<open>The macros\<close>

definition LIST_FIRST :: "list_st \<Rightarrow> head \<Rightarrow> ptr" where
  "LIST_FIRST s h = lh_first s h"

definition LIST_EMPTY :: "list_st \<Rightarrow> head \<Rightarrow> bool" where
  "LIST_EMPTY s h \<longleftrightarrow> lh_first s h = Null"

definition LIST_NEXT :: "list_st \<Rightarrow> elem \<Rightarrow> ptr" where
  "LIST_NEXT s e = le_next s e"

definition LIST_FOREACH :: "list_st \<Rightarrow> head \<Rightarrow> (fault + elem list) option" where
  "LIST_FOREACH s h = foreach (le_next s) (lh_first s h)"

definition LIST_FOREACH_SAFE ::
    "(elem \<Rightarrow> list_st \<Rightarrow> fault + list_st) \<Rightarrow> head \<Rightarrow> list_st \<Rightarrow> (fault + list_st) option" where
  "LIST_FOREACH_SAFE body h s = foreach_safe (\<lambda>s e. Inr (LIST_NEXT s e)) body (LIST_FIRST s h) s"

definition LIST_INIT :: "head \<Rightarrow> list_st \<Rightarrow> list_st" where
  "LIST_INIT h s = set_lh_first h Null s"

definition LIST_MOVE :: "head \<Rightarrow> head \<Rightarrow> list_st \<Rightarrow> list_st" where
  "LIST_MOVE h1 h2 s =
     (let s = LIST_INIT h2 s in
      if \<not> LIST_EMPTY s h1
      then LIST_INIT h1 (set_lh_first h2 (lh_first s h1) s)
      else s)"

definition LIST_INSERT_AFTER :: "bool \<Rightarrow> elem \<Rightarrow> elem \<Rightarrow> list_st \<Rightarrow> fault + list_st" where
  "LIST_INSERT_AFTER dbg le e s =
     bindR (QUEUEDEBUG_LIST_OP dbg le s) (\<lambda>_.
     let s = set_le_next e (le_next s le) s in
     bindR (if le_next s e \<noteq> Null
            then bindR (deref (le_next s le)) (\<lambda>n. Inr (set_le_prev n (NextSlot e) s))
            else Inr s) (\<lambda>s.
     let s = set_le_next le (Elm e) s in
     Inr (set_le_prev e (NextSlot le) s)))"

definition LIST_INSERT_BEFORE :: "bool \<Rightarrow> elem \<Rightarrow> elem \<Rightarrow> list_st \<Rightarrow> fault + list_st" where
  "LIST_INSERT_BEFORE dbg le e s =
     bindR (QUEUEDEBUG_LIST_OP dbg le s) (\<lambda>_.
     let s = set_le_prev e (le_prev s le) s;
         s = set_le_next e (Elm le) s in
     bindR (list_store (le_prev s le) (Elm e) s) (\<lambda>s.
     Inr (set_le_prev le (NextSlot e) s)))"

definition LIST_INSERT_HEAD :: "bool \<Rightarrow> head \<Rightarrow> elem \<Rightarrow> list_st \<Rightarrow> fault + list_st" where
  "LIST_INSERT_HEAD dbg h e s =
     bindR (QUEUEDEBUG_LIST_INSERT_HEAD dbg h s) (\<lambda>_.
     let s = set_le_next e (lh_first s h) s in
     bindR (if le_next s e \<noteq> Null
            then bindR (deref (lh_first s h)) (\<lambda>f. Inr (set_le_prev f (NextSlot e) s))
            else Inr s) (\<lambda>s.
     let s = set_lh_first h (Elm e) s in
     Inr (set_le_prev e (HeadSlot h) s)))"

definition LIST_REMOVE :: "bool \<Rightarrow> elem \<Rightarrow> list_st \<Rightarrow> fault + list_st" where
  "LIST_REMOVE dbg e s =
     bindR (QUEUEDEBUG_LIST_OP dbg e s) (\<lambda>_.
     bindR (if le_next s e \<noteq> Null
            then bindR (deref (le_next s e)) (\<lambda>n. Inr (set_le_prev n (le_prev s e) s))
            else Inr s) (\<lambda>s.
     bindR (list_store (le_prev s e) (le_next s e) s) (\<lambda>s.
     Inr (QUEUEDEBUG_LIST_POSTREMOVE dbg e s))))"

definition LIST_REPLACE :: "bool \<Rightarrow> elem \<Rightarrow> elem \<Rightarrow> list_st \<Rightarrow> fault + list_st" where
  "LIST_REPLACE dbg e e2 s =
     (let s = set_le_next e2 (le_next s e) s in
     bindR (if le_next s e2 \<noteq> Null
            then bindR (deref (le_next s e2)) (\<lambda>n. Inr (set_le_prev n (NextSlot e2) s))
            else Inr s) (\<lambda>s.
     let s = set_le_prev e2 (le_prev s e) s in
     bindR (list_store (le_prev s e2) (Elm e2) s) (\<lambda>s.
     Inr (QUEUEDEBUG_LIST_POSTREMOVE dbg e s))))"

fun list_step :: "bool \<Rightarrow> queue_op \<Rightarrow> list_st \<Rightarrow> fault + list_st" where
  "list_step dbg (Init h) s = Inr (LIST_INIT h s)"
| "list_step dbg (Insert_head h e) s = LIST_INSERT_HEAD dbg h e s"
| "list_step dbg (Insert_after h p e) s = LIST_INSERT_AFTER dbg p e s"
| "list_step dbg (Insert_before h p e) s = LIST_INSERT_BEFORE dbg p e s"
| "list_step dbg (Remove h e) s = LIST_REMOVE dbg e s"
| "list_step dbg (Replace h e e2) s = LIST_REPLACE dbg e e2 s"
| "list_step dbg _ s = Inl (Abort ''no such macro'')"

fun list_supported :: "queue_op \<Rightarrow> bool" where
  "list_supported (Insert_tail h e) = False"
| "list_supported (Remove_head h) = False"
| "list_supported (Remove_after h e) = False"
| "list_supported (Concat h k) = False"
| "list_supported _ = True"

subsection \<open>Correctness of one macro\<close>

definition list_at :: "list_st \<Rightarrow> head \<Rightarrow> elem list \<Rightarrow> bool" where
  "list_at s h xs \<longleftrightarrow>
     lh_first s h = hdp xs Null \<and> dseg (le_next s) (le_prev s) (HeadSlot h) xs Null"

text \<open>On a well-formed queue no debug check aborts.\<close>

lemma list_debug_ok:
  assumes "list_at s h (xs @ e # ys)"
  shows "QUEUEDEBUG_LIST_OP dbg e s = Inr ()"
proof -
  have "list_load s (end_slot (HeadSlot h) xs) = Inr (Elm e)"
    using assms by (cases xs rule: rev_cases) (auto simp: list_at_def end_slot_def)
  then show ?thesis
    using assms by (cases ys) (auto simp: list_at_def QUEUEDEBUG_LIST_OP_def)
qed

lemma list_debug_head_ok:
  "list_at s h xs \<Longrightarrow> QUEUEDEBUG_LIST_INSERT_HEAD dbg h s = Inr ()"
  by (cases xs) (auto simp: list_at_def QUEUEDEBUG_LIST_INSERT_HEAD_def)

text \<open>\<open>s'\<close> differs from \<open>s\<close> only in the heads \<open>H\<close> and the links of the elements \<open>A\<close>.\<close>

definition list_frame :: "list_st \<Rightarrow> list_st \<Rightarrow> head set \<Rightarrow> elem set \<Rightarrow> bool" where
  "list_frame s s' H A \<longleftrightarrow> (\<forall>k. k \<notin> H \<longrightarrow> lh_first s' k = lh_first s k) \<and>
     (\<forall>x. x \<notin> A \<longrightarrow> le_next s' x = le_next s x \<and> le_prev s' x = le_prev s x)"

lemma list_at_frame:
  assumes "list_at s k xs" and "list_frame s s' H A" and "k \<notin> H" and "set xs \<inter> A = {}"
  shows "list_at s' k xs"
proof -
  have "dseg (le_next s') (le_prev s') sl xs q = dseg (le_next s) (le_prev s) sl xs q" for sl q
    using assms(2,4) by (induction xs arbitrary: sl) (auto simp: list_frame_def)
  with assms show ?thesis by (simp add: list_at_def list_frame_def)
qed

lemma list_insert_head_at:
  assumes "list_at s h xs" and "e \<notin> set xs" and "distinct xs"
  shows "\<exists>s'. LIST_INSERT_HEAD dbg h e s = Inr s' \<and> list_at s' h (e # xs) \<and>
    list_frame s s' {h} (insert e (set xs))"
  using assms list_debug_head_ok[OF assms(1)]
  by (cases xs) (auto simp: LIST_INSERT_HEAD_def list_at_def list_frame_def frame_simps)

lemma list_insert_after_at:
  assumes "list_at s h (xs @ p # ys)" and "e \<notin> set (xs @ p # ys)" and "distinct (xs @ p # ys)"
  shows "\<exists>s'. LIST_INSERT_AFTER dbg p e s = Inr s' \<and> list_at s' h (xs @ p # e # ys) \<and>
    list_frame s s' {h} (insert e (set (xs @ p # ys)))"
  using assms list_debug_ok[OF assms(1)]
  by (cases ys) (auto simp: LIST_INSERT_AFTER_def list_at_def list_frame_def frame_simps)

lemma list_insert_before_at:
  assumes "list_at s h (xs @ p # ys)" and "e \<notin> set (xs @ p # ys)" and "distinct (xs @ p # ys)"
  shows "\<exists>s'. LIST_INSERT_BEFORE dbg p e s = Inr s' \<and> list_at s' h (xs @ e # p # ys) \<and>
    list_frame s s' {h} (insert e (set (xs @ p # ys)))"
  using assms list_debug_ok[OF assms(1)]
  by (cases xs rule: rev_cases)
    (auto simp: LIST_INSERT_BEFORE_def list_at_def list_frame_def frame_simps)

lemma list_remove_at:
  assumes "list_at s h (xs @ p # ys)" and "distinct (xs @ p # ys)"
  shows "\<exists>s'. LIST_REMOVE dbg p s = Inr s' \<and> list_at s' h (xs @ ys) \<and>
    list_frame s s' {h} (set (xs @ p # ys))"
  using assms list_debug_ok[OF assms(1)]
  by (cases xs rule: rev_cases; cases ys)
    (auto simp: LIST_REMOVE_def QUEUEDEBUG_LIST_POSTREMOVE_def list_at_def list_frame_def
      frame_simps)

lemma list_replace_at:
  assumes "list_at s h (xs @ p # ys)" and "e \<notin> set (xs @ p # ys)" and "distinct (xs @ p # ys)"
  shows "\<exists>s'. LIST_REPLACE dbg p e s = Inr s' \<and> list_at s' h (xs @ e # ys) \<and>
    list_frame s s' {h} (insert e (set (xs @ p # ys)))"
  using assms
  by (cases xs rule: rev_cases; cases ys)
    (auto simp: LIST_REPLACE_def QUEUEDEBUG_LIST_POSTREMOVE_def list_at_def list_frame_def
      frame_simps Let_def)

subsection \<open>All queues\<close>

lemma list_step_at:
  assumes "list_supported op" and "op \<noteq> Init (op_head op)" and "list_at s (op_head op) xs"
    and "distinct xs" and "local_spec op xs = Some ys"
  shows "\<exists>s'. list_step dbg op s = Inr s' \<and> list_at s' (op_head op) ys \<and>
    list_frame s s' {op_head op} (set (op_new op) \<union> set xs)"
  using local_spec_split[OF assms(5,4)] assms
    list_insert_head_at list_insert_after_at list_insert_before_at list_remove_at list_replace_at
  by (cases op) fastforce+

interpretation listq: single_queue list_at list_frame "list_step dbg" list_supported
    LIST_FOREACH LIST_EMPTY for dbg
proof unfold_locales
  show "\<exists>s'. list_step dbg (Init h) s = Inr s' \<and> list_at s' h [] \<and> list_frame s s' {h} {}" for h s
    by (simp add: LIST_INIT_def list_at_def list_frame_def)
  show "LIST_FOREACH s h = Some (Inr xs)" if "list_at s h xs" for s h xs
    using that foreach_sseg[OF dseg_sseg] by (auto simp: LIST_FOREACH_def list_at_def)
  show "LIST_EMPTY s h \<longleftrightarrow> xs = []" if "list_at s h xs" for s h xs
    using that by (simp add: LIST_EMPTY_def list_at_def)
qed (use list_at_frame list_step_at in auto)

subsection \<open>Properties\<close>

text \<open>
  C13: From any memory, with or without \<^theory_text>\<open>QUEUEDEBUG\<close>, any sequence of initialisations,
  insertions, removals and replacements by the \<^theory_text>\<open>LIST\<close> macros that keeps their preconditions runs without a null or poison dereference and without a
  debug abort, and then \<^theory_text>\<open>LIST_FOREACH\<close> on every head visits exactly the elements the
  list specification predicts, in its order, and \<^theory_text>\<open>LIST_EMPTY\<close> tells the empty heads.
  \<^theory_text>\<open>LIST_MOVE\<close> is not one of these operations: it leaves a stale back link (below).
\<close>

theorem list_runs_as_specified:
  assumes "list_all list_supported ops" and "spec_run ops [] = Some L"
  shows "\<exists>s'. run (list_step dbg) ops s = Inr s' \<and>
    (\<forall>h<length L. LIST_FOREACH s' h = Some (Inr (L ! h)) \<and> (LIST_EMPTY s' h \<longleftrightarrow> L ! h = []))"
  using assms by (rule listq.run_observe)

definition list_scratch :: list_st where
  "list_scratch = \<lparr>lh_first = (\<lambda>_. Poison), le_next = (\<lambda>_. Poison), le_prev = (\<lambda>_. PoisonSlot)\<rparr>"

lemma list_runs_as_specified_witness:
  "\<exists>s'. run (list_step True) [Init 0, Init 1, Insert_head 0 7, Insert_after 0 7 8,
      Insert_before 0 8 9, Insert_head 1 5, Remove 0 7, Replace 0 8 6] list_scratch = Inr s' \<and>
    (\<forall>h<length [[9, 6], [5 :: nat]]. LIST_FOREACH s' h = Some (Inr ([[9, 6], [5]] ! h)) \<and>
      (LIST_EMPTY s' h \<longleftrightarrow> [[9, 6], [5 :: nat]] ! h = []))"
  by (rule list_runs_as_specified) simp_all

interpretation listw: safe_walk "family list_at" "\<lambda>s h. Inr (LIST_FIRST s h)"
    "\<lambda>s e. Inr (LIST_NEXT s e)" "\<lambda>h. LIST_REMOVE dbg" for dbg
proof unfold_locales
  fix s L h as x bs
  assume L: "family list_at s L" "h < length L"
  show "Inr (LIST_FIRST s h) = Inr (hdp (L ! h) Null)"
    using familyD(1)[OF L] by (simp add: LIST_FIRST_def list_at_def)
  assume split: "L ! h = as @ x # bs"
  show "Inr (LIST_NEXT s x) = Inr (hdp bs Null)"
    using familyD(1)[OF L] split by (simp add: LIST_NEXT_def list_at_def)
  show "\<exists>s'. LIST_REMOVE dbg x s = Inr s' \<and> family list_at s' (L[h := as @ bs])"
    using listq.remove_split[of h x s L as bs, where dbg = dbg] L split by simp
qed

text \<open>
  A \<^theory_text>\<open>LIST_FOREACH_SAFE\<close> loop whose body removes the elements that satisfy \<open>P\<close> ends,
  never touches a removed element again (also when \<^theory_text>\<open>QUEUEDEBUG\<close> poisons it), leaves
  exactly the other elements on the list, in order, and does not change any other list.
\<close>

theorem list_foreach_safe_filters:
  assumes "family list_at s L" and "h < length L"
  shows "\<exists>s'. LIST_FOREACH_SAFE (\<lambda>e s. if P e then LIST_REMOVE dbg e s else Inr s) h s =
      Some (Inr s') \<and> family list_at s' (L[h := filter (\<lambda>e. \<not> P e) (L ! h)])"
  using listw.safe_filter[OF assms] by (simp add: LIST_FOREACH_SAFE_def)

definition list_three :: list_st where
  "list_three = \<lparr>lh_first = (\<lambda>_. Elm 1),
     le_next = (\<lambda>_. Null)(1 := Elm 2, 2 := Elm 3),
     le_prev = (\<lambda>_. PoisonSlot)(1 := HeadSlot 0, 2 := NextSlot 1, 3 := NextSlot 2)\<rparr>"

lemma list_foreach_safe_filters_witness:
  "\<exists>s'. LIST_FOREACH_SAFE (\<lambda>e s. if odd e then LIST_REMOVE True e s else Inr s) 0 list_three =
      Some (Inr s') \<and> family list_at s' ([[1, 2, 3]][0 := filter (\<lambda>e. \<not> odd e) ([[1, 2, 3]] ! 0)])"
  by (rule list_foreach_safe_filters)
    (simp_all add: family_def list_at_def list_three_def)

text \<open>
  \<^theory_text>\<open>LIST_MOVE\<close> relinks the head but not the back link of the first element, which
  still names the old head. Walking the new head shows all elements, but removing the first one
  afterwards (without \<^theory_text>\<open>QUEUEDEBUG\<close>) writes the old head: the new queue still holds the
  removed element and the emptied queue holds the rest. With \<^theory_text>\<open>QUEUEDEBUG\<close> it aborts.
\<close>

theorem list_move_stale_back_link:
  assumes "list_at s h1 (x # xs)" and "distinct (x # xs)" and "h1 \<noteq> h2"
  shows "LIST_FOREACH (LIST_MOVE h1 h2 s) h2 = Some (Inr (x # xs)) \<and>
    LIST_FOREACH (LIST_MOVE h1 h2 s) h1 = Some (Inr []) \<and>
    LIST_REMOVE True x (LIST_MOVE h1 h2 s) = Inl (Abort ''LIST_* back'') \<and>
    (\<exists>s'. LIST_REMOVE False x (LIST_MOVE h1 h2 s) = Inr s' \<and>
      LIST_FOREACH s' h2 = Some (Inr (x # xs)) \<and> LIST_FOREACH s' h1 = Some (Inr xs))"
proof (intro conjI)
  let ?m = "LIST_MOVE h1 h2 s"
  have m: "lh_first ?m = (lh_first s)(h2 := Elm x, h1 := Null)" "le_next ?m = le_next s"
    "le_prev ?m = le_prev s"
    using assms by (auto simp: LIST_MOVE_def LIST_INIT_def LIST_EMPTY_def list_at_def Let_def
        fun_upd_twist)
  have at: "le_prev s x = HeadSlot h1" "le_next s x = hdp xs Null"
    "dseg (le_next s) (le_prev s) (NextSlot x) xs Null" "x \<notin> set xs"
    using assms by (auto simp: list_at_def)
  then have walk: "foreach (le_next s) (Elm x) = Some (Inr (x # xs))"
    and walk_xs: "foreach (le_next s) (hdp xs Null) = Some (Inr xs)"
    using foreach_sseg[of "le_next s" "x # xs"] foreach_sseg[of "le_next s" xs] dseg_sseg by auto
  show "LIST_FOREACH ?m h2 = Some (Inr (x # xs))" "LIST_FOREACH ?m h1 = Some (Inr [])"
    using walk m assms(3) by (auto simp: LIST_FOREACH_def foreach.simps)
  show "LIST_REMOVE True x ?m = Inl (Abort ''LIST_* back'')"
    using m at assms(3) by (cases xs) (auto simp: LIST_REMOVE_def QUEUEDEBUG_LIST_OP_def)
  show "\<exists>s'. LIST_REMOVE False x ?m = Inr s' \<and>
      LIST_FOREACH s' h2 = Some (Inr (x # xs)) \<and> LIST_FOREACH s' h1 = Some (Inr xs)"
    using m at assms(3) walk walk_xs
    by (cases xs) (auto simp: LIST_REMOVE_def QUEUEDEBUG_LIST_OP_def
        QUEUEDEBUG_LIST_POSTREMOVE_def LIST_FOREACH_def)
qed

lemma list_move_stale_back_link_witness:
  "LIST_FOREACH (LIST_MOVE 0 1 list_three) 1 = Some (Inr [1, 2, 3]) \<and>
    LIST_FOREACH (LIST_MOVE 0 1 list_three) 0 = Some (Inr []) \<and>
    LIST_REMOVE True 1 (LIST_MOVE 0 1 list_three) = Inl (Abort ''LIST_* back'') \<and>
    (\<exists>s'. LIST_REMOVE False 1 (LIST_MOVE 0 1 list_three) = Inr s' \<and>
      LIST_FOREACH s' 1 = Some (Inr [1, 2, 3]) \<and> LIST_FOREACH s' 0 = Some (Inr [2, 3]))"
  by (rule list_move_stale_back_link) (simp_all add: list_at_def list_three_def)

end
