(* ===== verification/Queue_Slist.thy ===== *)
theory Queue_Slist
  imports Queue_Base
begin

text \<open>
  The \<^theory_text>\<open>SLIST\<close> macros of \<open>sys-queue.h\<close>: one pointer per head and per element. There
  is no back link, so \<^theory_text>\<open>SLIST_REMOVE\<close> searches the predecessor, and the loop of that
  search relies on the element being on the list.
\<close>

record slist_st =
  slh_first :: "head \<Rightarrow> ptr"
  sle_next :: "elem \<Rightarrow> ptr"

definition set_slh_first :: "head \<Rightarrow> ptr \<Rightarrow> slist_st \<Rightarrow> slist_st" where
  [simp]: "set_slh_first h p s = s\<lparr>slh_first := (slh_first s)(h := p)\<rparr>"

definition set_sle_next :: "elem \<Rightarrow> ptr \<Rightarrow> slist_st \<Rightarrow> slist_st" where
  [simp]: "set_sle_next e p s = s\<lparr>sle_next := (sle_next s)(e := p)\<rparr>"

definition SLIST_FIRST :: "slist_st \<Rightarrow> head \<Rightarrow> ptr" where
  "SLIST_FIRST s h = slh_first s h"

definition SLIST_EMPTY :: "slist_st \<Rightarrow> head \<Rightarrow> bool" where
  "SLIST_EMPTY s h \<longleftrightarrow> slh_first s h = Null"

definition SLIST_NEXT :: "slist_st \<Rightarrow> elem \<Rightarrow> ptr" where
  "SLIST_NEXT s e = sle_next s e"

definition SLIST_FOREACH :: "slist_st \<Rightarrow> head \<Rightarrow> (fault + elem list) option" where
  "SLIST_FOREACH s h = foreach (sle_next s) (slh_first s h)"

definition SLIST_INIT :: "head \<Rightarrow> slist_st \<Rightarrow> slist_st" where
  "SLIST_INIT h s = set_slh_first h Null s"

definition SLIST_INSERT_AFTER :: "elem \<Rightarrow> elem \<Rightarrow> slist_st \<Rightarrow> slist_st" where
  "SLIST_INSERT_AFTER sle e s =
     (let s = set_sle_next e (sle_next s sle) s in set_sle_next sle (Elm e) s)"

definition SLIST_INSERT_HEAD :: "head \<Rightarrow> elem \<Rightarrow> slist_st \<Rightarrow> slist_st" where
  "SLIST_INSERT_HEAD h e s =
     (let s = set_sle_next e (slh_first s h) s in set_slh_first h (Elm e) s)"

definition SLIST_REMOVE_AFTER :: "elem \<Rightarrow> slist_st \<Rightarrow> fault + slist_st" where
  "SLIST_REMOVE_AFTER sle s =
     bindR (deref (SLIST_NEXT s sle)) (\<lambda>n. Inr (set_sle_next sle (SLIST_NEXT s n) s))"

definition SLIST_REMOVE_HEAD :: "head \<Rightarrow> slist_st \<Rightarrow> fault + slist_st" where
  "SLIST_REMOVE_HEAD h s =
     bindR (deref (slh_first s h)) (\<lambda>f. Inr (set_slh_first h (sle_next s f) s))"

definition SLIST_REMOVE :: "head \<Rightarrow> elem \<Rightarrow> slist_st \<Rightarrow> fault + slist_st" where
  "SLIST_REMOVE h e s =
     (if slh_first s h = Elm e then SLIST_REMOVE_HEAD h s
      else case find_pred (sle_next s) e (slh_first s h) of
             None \<Rightarrow> Inl Diverges
           | Some r \<Rightarrow> bindR r (\<lambda>cur. bindR (deref (sle_next s cur)) (\<lambda>n.
               Inr (set_sle_next cur (sle_next s n) s))))"

fun slist_step :: "queue_op \<Rightarrow> slist_st \<Rightarrow> fault + slist_st" where
  "slist_step (Init h) s = Inr (SLIST_INIT h s)"
| "slist_step (Insert_head h e) s = Inr (SLIST_INSERT_HEAD h e s)"
| "slist_step (Insert_after h p e) s = Inr (SLIST_INSERT_AFTER p e s)"
| "slist_step (Remove h e) s = SLIST_REMOVE h e s"
| "slist_step (Remove_head h) s = SLIST_REMOVE_HEAD h s"
| "slist_step (Remove_after h p) s = SLIST_REMOVE_AFTER p s"
| "slist_step _ s = Inl (Abort ''no such macro'')"

fun slist_supported :: "queue_op \<Rightarrow> bool" where
  "slist_supported (Insert_tail h e) = False"
| "slist_supported (Insert_before h p e) = False"
| "slist_supported (Replace h e e2) = False"
| "slist_supported (Concat h k) = False"
| "slist_supported _ = True"

subsection \<open>Correctness of one macro\<close>

definition slist_at :: "slist_st \<Rightarrow> head \<Rightarrow> elem list \<Rightarrow> bool" where
  "slist_at s h xs \<longleftrightarrow> slh_first s h = hdp xs Null \<and> sseg (sle_next s) xs Null"

definition slist_frame :: "slist_st \<Rightarrow> slist_st \<Rightarrow> head set \<Rightarrow> elem set \<Rightarrow> bool" where
  "slist_frame s s' H A \<longleftrightarrow> (\<forall>k. k \<notin> H \<longrightarrow> slh_first s' k = slh_first s k) \<and>
     (\<forall>x. x \<notin> A \<longrightarrow> sle_next s' x = sle_next s x)"

lemma slist_at_frame:
  assumes "slist_at s k xs" and "slist_frame s s' H A" and "k \<notin> H" and "set xs \<inter> A = {}"
  shows "slist_at s' k xs"
proof -
  have "sseg (sle_next s') xs Null \<longleftrightarrow> sseg (sle_next s) xs Null"
    using assms(2,4) by (intro sseg_cong) (auto simp: slist_frame_def)
  with assms show ?thesis by (simp add: slist_at_def slist_frame_def)
qed

lemma slist_remove_at:
  assumes "slist_at s h (as @ p # bs)" and "distinct (as @ p # bs)"
  shows "\<exists>s'. SLIST_REMOVE h p s = Inr s' \<and> slist_at s' h (as @ bs) \<and>
    slist_frame s s' {h} (set (as @ p # bs))"
proof (cases as rule: rev_cases)
  case Nil
  with assms show ?thesis
    by (auto simp: SLIST_REMOVE_def SLIST_REMOVE_HEAD_def slist_at_def slist_frame_def)
next
  case (snoc zs c)
  have "find_pred (sle_next s) p (hdp (zs @ [c]) (Elm p)) = Some (Inr c)"
    using assms snoc by (intro find_pred_found) (auto simp: slist_at_def)
  moreover have "hdp (zs @ [c]) (Elm p) \<noteq> Elm p"
    using assms snoc by (cases zs) auto
  ultimately show ?thesis
    using assms snoc by (auto simp: SLIST_REMOVE_def slist_at_def slist_frame_def frame_simps)
qed

lemma slist_step_at:
  assumes "slist_supported op" and "op \<noteq> Init (op_head op)" and "slist_at s (op_head op) xs"
    and "distinct xs" and "local_spec op xs = Some ys"
  shows "\<exists>s'. slist_step op s = Inr s' \<and> slist_at s' (op_head op) ys \<and>
    slist_frame s s' {op_head op} (set (op_new op) \<union> set xs)"
proof (cases op)
  case (Remove h p)
  with local_spec_split[OF assms(5,4)] assms slist_remove_at show ?thesis by fastforce
next
  case (Remove_after h p)
  with local_spec_split[OF assms(5,4)] assms show ?thesis
    by (auto simp: SLIST_REMOVE_AFTER_def SLIST_NEXT_def slist_at_def slist_frame_def frame_simps)
qed (use local_spec_split[OF assms(5,4)] assms in
    \<open>auto simp: SLIST_INSERT_HEAD_def SLIST_INSERT_AFTER_def SLIST_REMOVE_HEAD_def
      slist_at_def slist_frame_def frame_simps\<close>)

interpretation slistq: single_queue slist_at slist_frame slist_step slist_supported
    SLIST_FOREACH SLIST_EMPTY
proof unfold_locales
  show "\<exists>s'. slist_step (Init h) s = Inr s' \<and> slist_at s' h [] \<and> slist_frame s s' {h} {}" for h s
    by (simp add: SLIST_INIT_def slist_at_def slist_frame_def)
  show "SLIST_FOREACH s h = Some (Inr xs)" if "slist_at s h xs" for s h xs
    using that foreach_sseg by (auto simp: SLIST_FOREACH_def slist_at_def)
  show "SLIST_EMPTY s h \<longleftrightarrow> xs = []" if "slist_at s h xs" for s h xs
    using that by (simp add: SLIST_EMPTY_def slist_at_def)
qed (use slist_at_frame slist_step_at in auto)

subsection \<open>Properties\<close>

text \<open>
  C39: Any sequence of the \<^theory_text>\<open>SLIST\<close> macros INIT, INSERT_HEAD, INSERT_AFTER,
  REMOVE, REMOVE_HEAD and REMOVE_AFTER that keeps their preconditions runs without a fault, its search loops end, and afterwards \<^theory_text>\<open>SLIST_FOREACH\<close> visits on every head
  the elements the list specification predicts.
\<close>

theorem slist_runs_as_specified:
  assumes "list_all slist_supported ops" and "spec_run ops [] = Some L"
  shows "\<exists>s'. run slist_step ops s = Inr s' \<and>
    (\<forall>h<length L. SLIST_FOREACH s' h = Some (Inr (L ! h)) \<and> (SLIST_EMPTY s' h \<longleftrightarrow> L ! h = []))"
  using assms by (rule slistq.run_observe)

lemma slist_runs_as_specified_witness:
  "\<exists>s'. run slist_step [Init 0, Insert_head 0 3, Insert_head 0 2, Insert_after 0 3 4,
      Init 1, Insert_head 1 9, Remove 0 3, Remove_head 1, Remove_after 0 2]
      \<lparr>slh_first = (\<lambda>_. Poison), sle_next = (\<lambda>_. Poison)\<rparr> = Inr s' \<and>
    (\<forall>h<length [[2], [] :: nat list]. SLIST_FOREACH s' h = Some (Inr ([[2], []] ! h)) \<and>
      (SLIST_EMPTY s' h \<longleftrightarrow> [[2], [] :: nat list] ! h = []))"
  by (rule slist_runs_as_specified) simp_all

text \<open>
  \<^theory_text>\<open>SLIST_REMOVE\<close> of an element that is not on the list always runs off its end: it
  dereferences the null pointer behind the last element (or the empty head's), and never returns.
\<close>

theorem slist_remove_absent_faults:
  assumes "slist_at s h xs" and "e \<notin> set xs"
  shows "SLIST_REMOVE h e s = Inl Null_deref"
proof -
  have "hdp xs Null \<noteq> Elm e" using assms(2) by (cases xs) auto
  with assms find_pred_missing[of "sle_next s" xs e] show ?thesis
    by (auto simp: SLIST_REMOVE_def slist_at_def)
qed

lemma slist_remove_absent_faults_witness:
  "SLIST_REMOVE 0 5 \<lparr>slh_first = (\<lambda>_. Elm 1), sle_next = (\<lambda>_. Null)(1 := Elm 2)\<rparr> = Inl Null_deref"
  by (rule slist_remove_absent_faults[where xs = "[1, 2]"]) (simp_all add: slist_at_def)

end
