(* ===== verification/Queue_Simpleq.thy ===== *)
theory Queue_Simpleq
  imports Queue_Base
begin

text \<open>
  The \<^theory_text>\<open>SIMPLEQ\<close> macros of \<open>sys-queue.h\<close>: singly linked elements and a head that
  also holds the address of the last link, so that appending takes constant time. The
  \<^theory_text>\<open>STAILQ\<close> macros are the same structure under other field names and follow at the end
  as operations on a record of their own.
\<close>

record simpleq_st =
  sqh_first :: "head \<Rightarrow> ptr"
  sqh_last :: "head \<Rightarrow> slot"
  sqe_next :: "elem \<Rightarrow> ptr"

definition set_sqh_first :: "head \<Rightarrow> ptr \<Rightarrow> simpleq_st \<Rightarrow> simpleq_st" where
  [simp]: "set_sqh_first h p s = s\<lparr>sqh_first := (sqh_first s)(h := p)\<rparr>"

definition set_sqh_last :: "head \<Rightarrow> slot \<Rightarrow> simpleq_st \<Rightarrow> simpleq_st" where
  [simp]: "set_sqh_last h sl s = s\<lparr>sqh_last := (sqh_last s)(h := sl)\<rparr>"

definition set_sqe_next :: "elem \<Rightarrow> ptr \<Rightarrow> simpleq_st \<Rightarrow> simpleq_st" where
  [simp]: "set_sqe_next e p s = s\<lparr>sqe_next := (sqe_next s)(e := p)\<rparr>"

fun simpleq_store :: "slot \<Rightarrow> ptr \<Rightarrow> simpleq_st \<Rightarrow> fault + simpleq_st" where
  "simpleq_store (HeadSlot h) p s = Inr (set_sqh_first h p s)"
| "simpleq_store (NextSlot e) p s = Inr (set_sqe_next e p s)"
| "simpleq_store PoisonSlot p s = Inl Poison_deref"

definition SIMPLEQ_FIRST :: "simpleq_st \<Rightarrow> head \<Rightarrow> ptr" where
  "SIMPLEQ_FIRST s h = sqh_first s h"

definition SIMPLEQ_EMPTY :: "simpleq_st \<Rightarrow> head \<Rightarrow> bool" where
  "SIMPLEQ_EMPTY s h \<longleftrightarrow> sqh_first s h = Null"

definition SIMPLEQ_NEXT :: "simpleq_st \<Rightarrow> elem \<Rightarrow> ptr" where
  "SIMPLEQ_NEXT s e = sqe_next s e"

definition SIMPLEQ_FOREACH :: "simpleq_st \<Rightarrow> head \<Rightarrow> (fault + elem list) option" where
  "SIMPLEQ_FOREACH s h = foreach (sqe_next s) (sqh_first s h)"

definition SIMPLEQ_FOREACH_SAFE ::
    "(elem \<Rightarrow> simpleq_st \<Rightarrow> fault + simpleq_st) \<Rightarrow> head \<Rightarrow> simpleq_st \<Rightarrow>
     (fault + simpleq_st) option" where
  "SIMPLEQ_FOREACH_SAFE body h s = foreach_safe (\<lambda>s e. Inr (sqe_next s e)) body (sqh_first s h) s"

definition SIMPLEQ_INIT :: "head \<Rightarrow> simpleq_st \<Rightarrow> simpleq_st" where
  "SIMPLEQ_INIT h s = (let s = set_sqh_first h Null s in set_sqh_last h (HeadSlot h) s)"

definition SIMPLEQ_INSERT_HEAD :: "head \<Rightarrow> elem \<Rightarrow> simpleq_st \<Rightarrow> simpleq_st" where
  "SIMPLEQ_INSERT_HEAD h e s =
     (let s = set_sqe_next e (sqh_first s h) s;
          s = (if sqe_next s e = Null then set_sqh_last h (NextSlot e) s else s)
      in set_sqh_first h (Elm e) s)"

definition SIMPLEQ_INSERT_TAIL :: "head \<Rightarrow> elem \<Rightarrow> simpleq_st \<Rightarrow> fault + simpleq_st" where
  "SIMPLEQ_INSERT_TAIL h e s =
     (let s = set_sqe_next e Null s in
      bindR (simpleq_store (sqh_last s h) (Elm e) s) (\<lambda>s.
      Inr (set_sqh_last h (NextSlot e) s)))"

definition SIMPLEQ_INSERT_AFTER :: "head \<Rightarrow> elem \<Rightarrow> elem \<Rightarrow> simpleq_st \<Rightarrow> simpleq_st" where
  "SIMPLEQ_INSERT_AFTER h le e s =
     (let s = set_sqe_next e (sqe_next s le) s;
          s = (if sqe_next s e = Null then set_sqh_last h (NextSlot e) s else s)
      in set_sqe_next le (Elm e) s)"

definition SIMPLEQ_REMOVE_HEAD :: "head \<Rightarrow> simpleq_st \<Rightarrow> fault + simpleq_st" where
  "SIMPLEQ_REMOVE_HEAD h s =
     bindR (deref (sqh_first s h)) (\<lambda>f.
     let s = set_sqh_first h (sqe_next s f) s in
     Inr (if sqh_first s h = Null then set_sqh_last h (HeadSlot h) s else s))"

definition SIMPLEQ_REMOVE_AFTER :: "head \<Rightarrow> elem \<Rightarrow> simpleq_st \<Rightarrow> fault + simpleq_st" where
  "SIMPLEQ_REMOVE_AFTER h e s =
     bindR (deref (sqe_next s e)) (\<lambda>n.
     let s = set_sqe_next e (sqe_next s n) s in
     Inr (if sqe_next s e = Null then set_sqh_last h (NextSlot e) s else s))"

definition SIMPLEQ_REMOVE :: "head \<Rightarrow> elem \<Rightarrow> simpleq_st \<Rightarrow> fault + simpleq_st" where
  "SIMPLEQ_REMOVE h e s =
     (if sqh_first s h = Elm e then SIMPLEQ_REMOVE_HEAD h s
      else case find_pred (sqe_next s) e (sqh_first s h) of
             None \<Rightarrow> Inl Diverges
           | Some r \<Rightarrow> bindR r (\<lambda>cur. bindR (deref (sqe_next s cur)) (\<lambda>n.
               let s = set_sqe_next cur (sqe_next s n) s in
               Inr (if sqe_next s cur = Null then set_sqh_last h (NextSlot cur) s else s))))"

definition SIMPLEQ_CONCAT :: "head \<Rightarrow> head \<Rightarrow> simpleq_st \<Rightarrow> fault + simpleq_st" where
  "SIMPLEQ_CONCAT h1 h2 s =
     (if \<not> SIMPLEQ_EMPTY s h2
      then bindR (simpleq_store (sqh_last s h1) (sqh_first s h2) s) (\<lambda>s.
           let s = set_sqh_last h1 (sqh_last s h2) s in
           Inr (SIMPLEQ_INIT h2 s))
      else Inr s)"

text \<open>
  \<^theory_text>\<open>SIMPLEQ_LAST\<close> subtracts the offset of the entry from the address of the last link,
  which is an element's address only when that link is inside an element.
\<close>

fun entry_container :: "slot \<Rightarrow> fault + ptr" where
  "entry_container (NextSlot e) = Inr (Elm e)"
| "entry_container (HeadSlot h) = Inl Not_an_element"
| "entry_container PoisonSlot = Inl Poison_deref"

definition SIMPLEQ_LAST :: "simpleq_st \<Rightarrow> head \<Rightarrow> fault + ptr" where
  "SIMPLEQ_LAST s h = (if SIMPLEQ_EMPTY s h then Inr Null else entry_container (sqh_last s h))"

fun simpleq_step :: "queue_op \<Rightarrow> simpleq_st \<Rightarrow> fault + simpleq_st" where
  "simpleq_step (Init h) s = Inr (SIMPLEQ_INIT h s)"
| "simpleq_step (Insert_head h e) s = Inr (SIMPLEQ_INSERT_HEAD h e s)"
| "simpleq_step (Insert_tail h e) s = SIMPLEQ_INSERT_TAIL h e s"
| "simpleq_step (Insert_after h p e) s = Inr (SIMPLEQ_INSERT_AFTER h p e s)"
| "simpleq_step (Remove h e) s = SIMPLEQ_REMOVE h e s"
| "simpleq_step (Remove_head h) s = SIMPLEQ_REMOVE_HEAD h s"
| "simpleq_step (Remove_after h p) s = SIMPLEQ_REMOVE_AFTER h p s"
| "simpleq_step (Concat h k) s = SIMPLEQ_CONCAT h k s"
| "simpleq_step _ s = Inl (Abort ''no such macro'')"

fun simpleq_supported :: "queue_op \<Rightarrow> bool" where
  "simpleq_supported (Insert_before h p e) = False"
| "simpleq_supported (Replace h e e2) = False"
| "simpleq_supported _ = True"

subsection \<open>Correctness of one macro\<close>

definition simpleq_at :: "simpleq_st \<Rightarrow> head \<Rightarrow> elem list \<Rightarrow> bool" where
  "simpleq_at s h xs \<longleftrightarrow> sqh_first s h = hdp xs Null \<and> sseg (sqe_next s) xs Null \<and>
     sqh_last s h = end_slot (HeadSlot h) xs"

definition simpleq_frame :: "simpleq_st \<Rightarrow> simpleq_st \<Rightarrow> head set \<Rightarrow> elem set \<Rightarrow> bool" where
  "simpleq_frame s s' H A \<longleftrightarrow>
     (\<forall>k. k \<notin> H \<longrightarrow> sqh_first s' k = sqh_first s k \<and> sqh_last s' k = sqh_last s k) \<and>
     (\<forall>x. x \<notin> A \<longrightarrow> sqe_next s' x = sqe_next s x)"

lemma simpleq_at_frame:
  assumes "simpleq_at s k xs" and "simpleq_frame s s' H A" and "k \<notin> H" and "set xs \<inter> A = {}"
  shows "simpleq_at s' k xs"
proof -
  have "sseg (sqe_next s') xs Null \<longleftrightarrow> sseg (sqe_next s) xs Null"
    using assms(2,4) by (intro sseg_cong) (auto simp: simpleq_frame_def)
  with assms show ?thesis by (simp add: simpleq_at_def simpleq_frame_def)
qed

lemma simpleq_insert_tail_at:
  assumes "simpleq_at s h xs" and "e \<notin> set xs" and "distinct xs"
  shows "\<exists>s'. SIMPLEQ_INSERT_TAIL h e s = Inr s' \<and> simpleq_at s' h (xs @ [e]) \<and>
    simpleq_frame s s' {h} (insert e (set xs))"
  using assms by (cases xs rule: rev_cases)
    (auto simp: SIMPLEQ_INSERT_TAIL_def simpleq_at_def simpleq_frame_def frame_simps Let_def)

lemma simpleq_remove_at:
  assumes "simpleq_at s h (as @ p # bs)" and "distinct (as @ p # bs)"
  shows "\<exists>s'. SIMPLEQ_REMOVE h p s = Inr s' \<and> simpleq_at s' h (as @ bs) \<and>
    simpleq_frame s s' {h} (set (as @ p # bs))"
proof (cases as rule: rev_cases)
  case Nil
  with assms show ?thesis
    by (cases bs) (auto simp: SIMPLEQ_REMOVE_def SIMPLEQ_REMOVE_HEAD_def simpleq_at_def
        simpleq_frame_def)
next
  case (snoc zs c)
  have "find_pred (sqe_next s) p (hdp (zs @ [c]) (Elm p)) = Some (Inr c)"
    using assms snoc by (intro find_pred_found) (auto simp: simpleq_at_def)
  moreover have "hdp (zs @ [c]) (Elm p) \<noteq> Elm p"
    using assms snoc by (cases zs) auto
  ultimately show ?thesis
    using assms snoc by (cases bs)
      (auto simp: SIMPLEQ_REMOVE_def simpleq_at_def simpleq_frame_def frame_simps Let_def)
qed

lemma simpleq_concat_at:
  assumes "h \<noteq> k" and "simpleq_at s h xs" and "simpleq_at s k ys" and "distinct (xs @ ys)"
  shows "\<exists>s'. SIMPLEQ_CONCAT h k s = Inr s' \<and> simpleq_at s' h (xs @ ys) \<and>
    simpleq_at s' k [] \<and> simpleq_frame s s' {h, k} (set xs \<union> set ys)"
  using assms
  by (cases xs rule: rev_cases; cases ys)
    (auto simp: SIMPLEQ_CONCAT_def SIMPLEQ_INIT_def SIMPLEQ_EMPTY_def simpleq_at_def
      simpleq_frame_def frame_simps Let_def)

lemma simpleq_step_at:
  assumes "simpleq_supported op" and "op \<noteq> Init (op_head op)" and "simpleq_at s (op_head op) xs"
    and "distinct xs" and "local_spec op xs = Some ys"
  shows "\<exists>s'. simpleq_step op s = Inr s' \<and> simpleq_at s' (op_head op) ys \<and>
    simpleq_frame s s' {op_head op} (set (op_new op) \<union> set xs)"
proof (cases op)
  case (Remove h p)
  with local_spec_split[OF assms(5,4)] assms simpleq_remove_at show ?thesis by fastforce
next
  case (Insert_tail h e)
  with local_spec_split[OF assms(5,4)] assms simpleq_insert_tail_at show ?thesis by fastforce
next
  case (Remove_head h)
  with local_spec_split[OF assms(5,4)] assms show ?thesis
    by (cases ys) (auto simp: SIMPLEQ_REMOVE_HEAD_def simpleq_at_def simpleq_frame_def)
next
  case (Remove_after h p)
  with local_spec_split[OF assms(5,4)] obtain as x bs
    where "xs = as @ p # x # bs" "ys = as @ p # bs" by auto
  with Remove_after assms show ?thesis
    by (cases bs) (auto simp: SIMPLEQ_REMOVE_AFTER_def simpleq_at_def simpleq_frame_def
        frame_simps Let_def)
next
  case (Insert_after h p e)
  with local_spec_split[OF assms(5,4)] obtain as bs
    where "xs = as @ p # bs" "e \<notin> set xs" "ys = as @ p # e # bs" by auto
  with Insert_after assms show ?thesis
    by (cases bs) (auto simp: SIMPLEQ_INSERT_AFTER_def simpleq_at_def simpleq_frame_def
        frame_simps Let_def)
next
  case (Insert_head h e)
  with local_spec_split[OF assms(5,4)] assms show ?thesis
    by (cases xs) (auto simp: SIMPLEQ_INSERT_HEAD_def simpleq_at_def simpleq_frame_def
        frame_simps Let_def)
qed (use assms in auto)

interpretation simpleq: single_queue simpleq_at simpleq_frame simpleq_step simpleq_supported
    SIMPLEQ_FOREACH SIMPLEQ_EMPTY
proof unfold_locales
  show "\<exists>s'. simpleq_step (Init h) s = Inr s' \<and> simpleq_at s' h [] \<and> simpleq_frame s s' {h} {}"
    for h s
    by (simp add: SIMPLEQ_INIT_def simpleq_at_def simpleq_frame_def Let_def)
  show "SIMPLEQ_FOREACH s h = Some (Inr xs)" if "simpleq_at s h xs" for s h xs
    using that foreach_sseg by (auto simp: SIMPLEQ_FOREACH_def simpleq_at_def)
  show "SIMPLEQ_EMPTY s h \<longleftrightarrow> xs = []" if "simpleq_at s h xs" for s h xs
    using that by (simp add: SIMPLEQ_EMPTY_def simpleq_at_def)
qed (use simpleq_at_frame simpleq_step_at simpleq_concat_at in auto)

lemma simpleq_last_at:
  "simpleq_at s h xs \<Longrightarrow> SIMPLEQ_LAST s h = Inr (if xs = [] then Null else Elm (last xs))"
  by (auto simp: SIMPLEQ_LAST_def SIMPLEQ_EMPTY_def simpleq_at_def end_slot_def)

interpretation simpleqw: safe_walk "family simpleq_at" "\<lambda>s h. Inr (sqh_first s h)"
    "\<lambda>s e. Inr (sqe_next s e)" SIMPLEQ_REMOVE
proof unfold_locales
  fix s L h as x bs
  assume L: "family simpleq_at s L" "h < length L"
  show "Inr (sqh_first s h) = Inr (hdp (L ! h) Null)"
    using familyD(1)[OF L] by (simp add: simpleq_at_def)
  assume split: "L ! h = as @ x # bs"
  show "Inr (sqe_next s x) = Inr (hdp bs Null)"
    using familyD(1)[OF L] split by (simp add: simpleq_at_def)
  show "\<exists>s'. SIMPLEQ_REMOVE h x s = Inr s' \<and> family simpleq_at s' (L[h := as @ bs])"
    using simpleq.remove_split[of h x s L as bs] L split by simp
qed

subsection \<open>Singly linked tail queues\<close>

record stailq_st =
  stqh_first :: "head \<Rightarrow> ptr"
  stqh_last :: "head \<Rightarrow> slot"
  stqe_next :: "elem \<Rightarrow> ptr"

definition set_stqh_first :: "head \<Rightarrow> ptr \<Rightarrow> stailq_st \<Rightarrow> stailq_st" where
  [simp]: "set_stqh_first h p s = s\<lparr>stqh_first := (stqh_first s)(h := p)\<rparr>"

definition set_stqh_last :: "head \<Rightarrow> slot \<Rightarrow> stailq_st \<Rightarrow> stailq_st" where
  [simp]: "set_stqh_last h sl s = s\<lparr>stqh_last := (stqh_last s)(h := sl)\<rparr>"

definition set_stqe_next :: "elem \<Rightarrow> ptr \<Rightarrow> stailq_st \<Rightarrow> stailq_st" where
  [simp]: "set_stqe_next e p s = s\<lparr>stqe_next := (stqe_next s)(e := p)\<rparr>"

fun stailq_store :: "slot \<Rightarrow> ptr \<Rightarrow> stailq_st \<Rightarrow> fault + stailq_st" where
  "stailq_store (HeadSlot h) p s = Inr (set_stqh_first h p s)"
| "stailq_store (NextSlot e) p s = Inr (set_stqe_next e p s)"
| "stailq_store PoisonSlot p s = Inl Poison_deref"

definition STAILQ_FIRST :: "stailq_st \<Rightarrow> head \<Rightarrow> ptr" where
  "STAILQ_FIRST s h = stqh_first s h"

definition STAILQ_NEXT :: "stailq_st \<Rightarrow> elem \<Rightarrow> ptr" where
  "STAILQ_NEXT s e = stqe_next s e"

definition STAILQ_EMPTY :: "stailq_st \<Rightarrow> head \<Rightarrow> bool" where
  "STAILQ_EMPTY s h \<longleftrightarrow> STAILQ_FIRST s h = Null"

definition STAILQ_INIT :: "head \<Rightarrow> stailq_st \<Rightarrow> stailq_st" where
  "STAILQ_INIT h s = (let s = set_stqh_first h Null s in set_stqh_last h (HeadSlot h) s)"

definition STAILQ_INSERT_HEAD :: "head \<Rightarrow> elem \<Rightarrow> stailq_st \<Rightarrow> stailq_st" where
  "STAILQ_INSERT_HEAD h e s =
     (let s = set_stqe_next e (stqh_first s h) s;
          s = (if stqe_next s e = Null then set_stqh_last h (NextSlot e) s else s)
      in set_stqh_first h (Elm e) s)"

definition STAILQ_INSERT_TAIL :: "head \<Rightarrow> elem \<Rightarrow> stailq_st \<Rightarrow> fault + stailq_st" where
  "STAILQ_INSERT_TAIL h e s =
     (let s = set_stqe_next e Null s in
      bindR (stailq_store (stqh_last s h) (Elm e) s) (\<lambda>s.
      Inr (set_stqh_last h (NextSlot e) s)))"

definition STAILQ_INSERT_AFTER :: "head \<Rightarrow> elem \<Rightarrow> elem \<Rightarrow> stailq_st \<Rightarrow> stailq_st" where
  "STAILQ_INSERT_AFTER h le e s =
     (let s = set_stqe_next e (stqe_next s le) s;
          s = (if stqe_next s e = Null then set_stqh_last h (NextSlot e) s else s)
      in set_stqe_next le (Elm e) s)"

definition STAILQ_REMOVE_HEAD :: "head \<Rightarrow> stailq_st \<Rightarrow> fault + stailq_st" where
  "STAILQ_REMOVE_HEAD h s =
     bindR (deref (stqh_first s h)) (\<lambda>f.
     let s = set_stqh_first h (stqe_next s f) s in
     Inr (if stqh_first s h = Null then set_stqh_last h (HeadSlot h) s else s))"

definition STAILQ_REMOVE :: "head \<Rightarrow> elem \<Rightarrow> stailq_st \<Rightarrow> fault + stailq_st" where
  "STAILQ_REMOVE h e s =
     (if stqh_first s h = Elm e then STAILQ_REMOVE_HEAD h s
      else case find_pred (stqe_next s) e (stqh_first s h) of
             None \<Rightarrow> Inl Diverges
           | Some r \<Rightarrow> bindR r (\<lambda>cur. bindR (deref (stqe_next s cur)) (\<lambda>n.
               let s = set_stqe_next cur (stqe_next s n) s in
               Inr (if stqe_next s cur = Null then set_stqh_last h (NextSlot cur) s else s))))"

definition STAILQ_FOREACH :: "stailq_st \<Rightarrow> head \<Rightarrow> (fault + elem list) option" where
  "STAILQ_FOREACH s h = foreach (stqe_next s) (stqh_first s h)"

definition STAILQ_FOREACH_SAFE ::
    "(elem \<Rightarrow> stailq_st \<Rightarrow> fault + stailq_st) \<Rightarrow> head \<Rightarrow> stailq_st \<Rightarrow>
     (fault + stailq_st) option" where
  "STAILQ_FOREACH_SAFE body h s =
     foreach_safe (\<lambda>s e. Inr (STAILQ_NEXT s e)) body (STAILQ_FIRST s h) s"

definition STAILQ_CONCAT :: "head \<Rightarrow> head \<Rightarrow> stailq_st \<Rightarrow> fault + stailq_st" where
  "STAILQ_CONCAT h1 h2 s =
     (if \<not> STAILQ_EMPTY s h2
      then bindR (stailq_store (stqh_last s h1) (stqh_first s h2) s) (\<lambda>s.
           let s = set_stqh_last h1 (stqh_last s h2) s in
           Inr (STAILQ_INIT h2 s))
      else Inr s)"

definition STAILQ_LAST :: "stailq_st \<Rightarrow> head \<Rightarrow> fault + ptr" where
  "STAILQ_LAST s h = (if STAILQ_EMPTY s h then Inr Null else entry_container (stqh_last s h))"

fun stailq_step :: "queue_op \<Rightarrow> stailq_st \<Rightarrow> fault + stailq_st" where
  "stailq_step (Init h) s = Inr (STAILQ_INIT h s)"
| "stailq_step (Insert_head h e) s = Inr (STAILQ_INSERT_HEAD h e s)"
| "stailq_step (Insert_tail h e) s = STAILQ_INSERT_TAIL h e s"
| "stailq_step (Insert_after h p e) s = Inr (STAILQ_INSERT_AFTER h p e s)"
| "stailq_step (Remove h e) s = STAILQ_REMOVE h e s"
| "stailq_step (Remove_head h) s = STAILQ_REMOVE_HEAD h s"
| "stailq_step (Concat h k) s = STAILQ_CONCAT h k s"
| "stailq_step _ s = Inl (Abort ''no such macro'')"

fun stailq_supported :: "queue_op \<Rightarrow> bool" where
  "stailq_supported (Remove_after h p) = False"
| "stailq_supported op = simpleq_supported op"

text \<open>The renaming of the fields, which turns every macro into its \<^theory_text>\<open>SIMPLEQ\<close> twin.\<close>

definition as_simpleq :: "stailq_st \<Rightarrow> simpleq_st" where
  "as_simpleq s = \<lparr>sqh_first = stqh_first s, sqh_last = stqh_last s, sqe_next = stqe_next s\<rparr>"

lemma as_simpleq_sel [simp]:
  "sqh_first (as_simpleq s) = stqh_first s"
  "sqh_last (as_simpleq s) = stqh_last s"
  "sqe_next (as_simpleq s) = stqe_next s"
  by (simp_all add: as_simpleq_def)

lemma as_simpleq_upd [simp]:
  "as_simpleq (s\<lparr>stqh_first := f\<rparr>) = (as_simpleq s)\<lparr>sqh_first := f\<rparr>"
  "as_simpleq (s\<lparr>stqh_last := g\<rparr>) = (as_simpleq s)\<lparr>sqh_last := g\<rparr>"
  "as_simpleq (s\<lparr>stqe_next := k\<rparr>) = (as_simpleq s)\<lparr>sqe_next := k\<rparr>"
  by (simp_all add: as_simpleq_def)

lemma map_sum_bindR: "map_sum id f (bindR r g) = bindR r (\<lambda>x. map_sum id f (g x))"
  by (cases r) auto

lemma stailq_store_sim:
  "simpleq_store sl p (as_simpleq s) = map_sum id as_simpleq (stailq_store sl p s)"
  by (cases sl) auto

lemma stailq_store_upd_sim:
  "simpleq_store sl p ((as_simpleq s)\<lparr>sqe_next := f\<rparr>) =
   map_sum id as_simpleq (stailq_store sl p (s\<lparr>stqe_next := f\<rparr>))"
  by (cases sl) auto

lemma bindR_map_sum: "bindR (map_sum id f r) g = bindR r (\<lambda>x. g (f x))"
  by (cases r) auto

lemma stailq_init_sim: "SIMPLEQ_INIT h (as_simpleq s) = as_simpleq (STAILQ_INIT h s)"
  by (simp add: STAILQ_INIT_def SIMPLEQ_INIT_def)

lemma stailq_remove_head_sim:
  "SIMPLEQ_REMOVE_HEAD h (as_simpleq s) = map_sum id as_simpleq (STAILQ_REMOVE_HEAD h s)"
  by (simp add: STAILQ_REMOVE_HEAD_def SIMPLEQ_REMOVE_HEAD_def map_sum_bindR Let_def if_distrib
        cong: if_cong)

lemma stailq_remove_sim:
  "SIMPLEQ_REMOVE h e (as_simpleq s) = map_sum id as_simpleq (STAILQ_REMOVE h e s)"
proof (cases "stqh_first s h = Elm e")
  case False
  then show ?thesis
    by (cases "find_pred (stqe_next s) e (stqh_first s h)")
      (simp_all add: STAILQ_REMOVE_def SIMPLEQ_REMOVE_def map_sum_bindR Let_def
        if_distrib cong: if_cong)
qed (simp add: STAILQ_REMOVE_def SIMPLEQ_REMOVE_def stailq_remove_head_sim)

lemma stailq_step_sim:
  assumes "stailq_supported op"
  shows "simpleq_step op (as_simpleq s) = map_sum id as_simpleq (stailq_step op s)"
proof (cases op)
  case (Remove h e)
  then show ?thesis by (simp add: stailq_remove_sim)
next
  case (Remove_head h)
  then show ?thesis by (simp add: stailq_remove_head_sim)
next
  case (Init h)
  then show ?thesis by (simp add: stailq_init_sim)
next
  case (Concat h k)
  then show ?thesis
    by (simp add: STAILQ_CONCAT_def SIMPLEQ_CONCAT_def STAILQ_EMPTY_def SIMPLEQ_EMPTY_def
        STAILQ_FIRST_def map_sum_bindR bindR_map_sum stailq_store_sim Let_def
        flip: stailq_init_sim)
qed (use assms in \<open>simp_all add: STAILQ_INSERT_HEAD_def SIMPLEQ_INSERT_HEAD_def
    STAILQ_INSERT_TAIL_def SIMPLEQ_INSERT_TAIL_def STAILQ_INSERT_AFTER_def SIMPLEQ_INSERT_AFTER_def
    map_sum_bindR bindR_map_sum stailq_store_upd_sim Let_def\<close>)

lemma stailq_step_lift:
  assumes "stailq_supported op" and "simpleq_step op (as_simpleq s) = Inr t"
  obtains s' where "stailq_step op s = Inr s'" and "as_simpleq s' = t"
  using assms stailq_step_sim[of op s] by (cases "stailq_step op s") auto

lemma stailq_supported_simpleq: "stailq_supported op \<Longrightarrow> simpleq_supported op"
  by (cases op) auto

definition stailq_at :: "stailq_st \<Rightarrow> head \<Rightarrow> elem list \<Rightarrow> bool" where
  "stailq_at s h xs \<longleftrightarrow> simpleq_at (as_simpleq s) h xs"

definition stailq_frame :: "stailq_st \<Rightarrow> stailq_st \<Rightarrow> head set \<Rightarrow> elem set \<Rightarrow> bool" where
  "stailq_frame s s' H A \<longleftrightarrow> simpleq_frame (as_simpleq s) (as_simpleq s') H A"

interpretation stailq: single_queue stailq_at stailq_frame stailq_step stailq_supported
    STAILQ_FOREACH STAILQ_EMPTY
proof unfold_locales
  show "stailq_at s' k xs"
    if "stailq_at s k xs" "stailq_frame s s' H A" "k \<notin> H" "set xs \<inter> A = {}" for s k xs s' H A
    using that simpleq_at_frame by (simp add: stailq_at_def stailq_frame_def)
  show "\<exists>s'. stailq_step (Init h) s = Inr s' \<and> stailq_at s' h [] \<and> stailq_frame s s' {h} {}" for h s
    using simpleq.init_holds[of h "as_simpleq s"] stailq_step_lift[of "Init h" s]
    by (metis stailq_at_def stailq_frame_def stailq_supported.simps(2) simpleq_supported.simps(3))
  show "\<exists>s'. stailq_step op s = Inr s' \<and> stailq_at s' (op_head op) ys \<and>
      stailq_frame s s' {op_head op} (set (op_new op) \<union> set xs)"
    if "stailq_supported op" "op \<noteq> Init (op_head op)" "stailq_at s (op_head op) xs" "distinct xs"
      "local_spec op xs = Some ys" for op s xs ys
    using simpleq.step_holds[OF stailq_supported_simpleq[OF that(1)] that(2), of "as_simpleq s" xs ys]
      that stailq_step_lift[OF that(1), of s] by (metis stailq_at_def stailq_frame_def)
  show "\<exists>s'. stailq_step (Concat h k) s = Inr s' \<and> stailq_at s' h (xs @ ys) \<and>
      stailq_at s' k [] \<and> stailq_frame s s' {h, k} (set xs \<union> set ys)"
    if "stailq_supported (Concat h k)" "h \<noteq> k" "stailq_at s h xs" "stailq_at s k ys"
      "distinct (xs @ ys)" for h k s xs ys
    using simpleq_concat_at[OF that(2), of "as_simpleq s" xs ys] that
      stailq_step_lift[OF that(1), of s] simpleq_step.simps(8)
    by (metis stailq_at_def stailq_frame_def)
  show "STAILQ_FOREACH s h = Some (Inr xs)" if "stailq_at s h xs" for s h xs
    using that foreach_sseg by (auto simp: STAILQ_FOREACH_def stailq_at_def simpleq_at_def)
  show "STAILQ_EMPTY s h \<longleftrightarrow> xs = []" if "stailq_at s h xs" for s h xs
    using that by (simp add: STAILQ_EMPTY_def STAILQ_FIRST_def stailq_at_def simpleq_at_def)
qed

lemma stailq_last_sim: "STAILQ_LAST s h = SIMPLEQ_LAST (as_simpleq s) h"
  by (simp add: STAILQ_LAST_def SIMPLEQ_LAST_def STAILQ_EMPTY_def SIMPLEQ_EMPTY_def
      STAILQ_FIRST_def)

subsection \<open>Properties\<close>

text \<open>
  C18: Any sequence of \<^theory_text>\<open>SIMPLEQ\<close> macros that keeps their preconditions, appending
  and concatenating included, runs without a fault; afterwards \<^theory_text>\<open>SIMPLEQ_FOREACH\<close>
  visits on every head what the list specification predicts, and \<^theory_text>\<open>SIMPLEQ_LAST\<close>
  is the last of these elements (null for an empty queue), so the address of the last link is right
  after every removal.
\<close>

theorem simpleq_runs_as_specified:
  assumes "list_all simpleq_supported ops" and "spec_run ops [] = Some L"
  shows "\<exists>s'. run simpleq_step ops s = Inr s' \<and>
    (\<forall>h<length L. SIMPLEQ_FOREACH s' h = Some (Inr (L ! h)) \<and>
      SIMPLEQ_LAST s' h = Inr (if L ! h = [] then Null else Elm (last (L ! h))))"
  using simpleq.run_ok[OF assms(1) simpleq.repr_start assms(2)] simpleq.walk_ok
    simpleq_last_at familyD(1) by meson

lemma simpleq_runs_as_specified_witness:
  "\<exists>s'. run simpleq_step [Init 0, Init 1, Insert_tail 0 3, Insert_tail 0 4, Insert_head 1 5,
      Insert_after 1 5 6, Concat 0 1, Remove 0 6, Insert_tail 0 7, Remove_head 0, Remove_after 0 4]
      \<lparr>sqh_first = (\<lambda>_. Poison), sqh_last = (\<lambda>_. PoisonSlot), sqe_next = (\<lambda>_. Poison)\<rparr> = Inr s' \<and>
    (\<forall>h<length [[4, 7], [] :: nat list]. SIMPLEQ_FOREACH s' h = Some (Inr ([[4, 7], []] ! h)) \<and>
      SIMPLEQ_LAST s' h =
        Inr (if [[4, 7], [] :: nat list] ! h = [] then Null else Elm (last ([[4, 7], []] ! h))))"
  by (rule simpleq_runs_as_specified) simp_all

text \<open>
  The \<^theory_text>\<open>STAILQ\<close> macros are the \<^theory_text>\<open>SIMPLEQ\<close> macros under other field
  names, faults included: whatever sequence of them is run from whatever memory, the two
  outcomes correspond; \<^theory_text>\<open>STAILQ_FOREACH\<close> and \<^theory_text>\<open>STAILQ_LAST\<close> agree too.
\<close>

theorem stailq_equals_simpleq:
  assumes "list_all stailq_supported ops"
  shows "run simpleq_step ops (as_simpleq s) = map_sum id as_simpleq (run stailq_step ops s) \<and>
    STAILQ_FOREACH s h = SIMPLEQ_FOREACH (as_simpleq s) h \<and>
    STAILQ_LAST s h = SIMPLEQ_LAST (as_simpleq s) h"
proof -
  have "run simpleq_step ops (as_simpleq s) = map_sum id as_simpleq (run stailq_step ops s)"
    using assms
  proof (induction ops arbitrary: s)
    case (Cons op ops)
    then show ?case by (cases "stailq_step op s") (simp_all add: stailq_step_sim)
  qed simp
  then show ?thesis
    by (simp add: stailq_last_sim STAILQ_FOREACH_def SIMPLEQ_FOREACH_def)
qed

definition stailq_scratch :: stailq_st where
  "stailq_scratch = \<lparr>stqh_first = (\<lambda>_. Null), stqh_last = HeadSlot, stqe_next = (\<lambda>_. Poison)\<rparr>"

lemma stailq_equals_simpleq_witness:
  "run simpleq_step [Insert_tail 0 3, Insert_head 0 2, Remove 0 3] (as_simpleq stailq_scratch) =
     map_sum id as_simpleq
       (run stailq_step [Insert_tail 0 3, Insert_head 0 2, Remove 0 3] stailq_scratch) \<and>
    STAILQ_FOREACH stailq_scratch 0 = SIMPLEQ_FOREACH (as_simpleq stailq_scratch) 0 \<and>
    STAILQ_LAST stailq_scratch 0 = SIMPLEQ_LAST (as_simpleq stailq_scratch) 0"
  by (rule stailq_equals_simpleq) simp_all

end
