(* ===== verification/Queue_Tailq.thy ===== *)
theory Queue_Tailq
  imports Queue_Base
begin

text \<open>
  The \<^theory_text>\<open>TAILQ\<close> macros of \<open>sys-queue.h\<close>: links in both directions and a head with
  the address of the last link. A head and an entry are both a pointer to an element followed by
  the address of a link, and \<^theory_text>\<open>TAILQ_LAST\<close> and \<^theory_text>\<open>TAILQ_PREV\<close> rely on it:
  they cast the address of a link to a head and read the word behind it. The flag \<open>dbg\<close> says
  whether the header is compiled with \<^theory_text>\<open>QUEUEDEBUG\<close>.
\<close>

record tailq_st =
  tqh_first :: "head \<Rightarrow> ptr"
  tqh_last :: "head \<Rightarrow> slot"
  tqe_next :: "elem \<Rightarrow> ptr"
  tqe_prev :: "elem \<Rightarrow> slot"

definition set_tqh_first :: "head \<Rightarrow> ptr \<Rightarrow> tailq_st \<Rightarrow> tailq_st" where
  [simp]: "set_tqh_first h p s = s\<lparr>tqh_first := (tqh_first s)(h := p)\<rparr>"

definition set_tqh_last :: "head \<Rightarrow> slot \<Rightarrow> tailq_st \<Rightarrow> tailq_st" where
  [simp]: "set_tqh_last h sl s = s\<lparr>tqh_last := (tqh_last s)(h := sl)\<rparr>"

definition set_tqe_next :: "elem \<Rightarrow> ptr \<Rightarrow> tailq_st \<Rightarrow> tailq_st" where
  [simp]: "set_tqe_next e p s = s\<lparr>tqe_next := (tqe_next s)(e := p)\<rparr>"

definition set_tqe_prev :: "elem \<Rightarrow> slot \<Rightarrow> tailq_st \<Rightarrow> tailq_st" where
  [simp]: "set_tqe_prev e sl s = s\<lparr>tqe_prev := (tqe_prev s)(e := sl)\<rparr>"

text \<open>Reading and writing the pointer at a link, and the word behind it.\<close>

fun tailq_load :: "tailq_st \<Rightarrow> slot \<Rightarrow> fault + ptr" where
  "tailq_load s (HeadSlot h) = Inr (tqh_first s h)"
| "tailq_load s (NextSlot e) = Inr (tqe_next s e)"
| "tailq_load s PoisonSlot = Inl Poison_deref"

fun tailq_store :: "slot \<Rightarrow> ptr \<Rightarrow> tailq_st \<Rightarrow> fault + tailq_st" where
  "tailq_store (HeadSlot h) p s = Inr (set_tqh_first h p s)"
| "tailq_store (NextSlot e) p s = Inr (set_tqe_next e p s)"
| "tailq_store PoisonSlot p s = Inl Poison_deref"

fun cast_tqh_last :: "tailq_st \<Rightarrow> slot \<Rightarrow> fault + slot" where
  "cast_tqh_last s (HeadSlot h) = Inr (tqh_last s h)"
| "cast_tqh_last s (NextSlot e) = Inr (tqe_prev s e)"
| "cast_tqh_last s PoisonSlot = Inl Poison_deref"

subsection \<open>Access\<close>

definition TAILQ_FIRST :: "tailq_st \<Rightarrow> head \<Rightarrow> ptr" where
  "TAILQ_FIRST s h = tqh_first s h"

definition TAILQ_NEXT :: "tailq_st \<Rightarrow> elem \<Rightarrow> ptr" where
  "TAILQ_NEXT s e = tqe_next s e"

definition TAILQ_LAST :: "tailq_st \<Rightarrow> head \<Rightarrow> fault + ptr" where
  "TAILQ_LAST s h = bindR (cast_tqh_last s (tqh_last s h)) (tailq_load s)"

definition TAILQ_PREV :: "tailq_st \<Rightarrow> elem \<Rightarrow> fault + ptr" where
  "TAILQ_PREV s e = bindR (cast_tqh_last s (tqe_prev s e)) (tailq_load s)"

definition TAILQ_EMPTY :: "tailq_st \<Rightarrow> head \<Rightarrow> bool" where
  "TAILQ_EMPTY s h \<longleftrightarrow> TAILQ_FIRST s h = Null"

definition TAILQ_FOREACH :: "tailq_st \<Rightarrow> head \<Rightarrow> (fault + elem list) option" where
  "TAILQ_FOREACH s h = foreach (tqe_next s) (tqh_first s h)"

definition TAILQ_FOREACH_SAFE ::
    "(elem \<Rightarrow> tailq_st \<Rightarrow> fault + tailq_st) \<Rightarrow> head \<Rightarrow> tailq_st \<Rightarrow> (fault + tailq_st) option" where
  "TAILQ_FOREACH_SAFE body h s =
     foreach_safe (\<lambda>s e. Inr (TAILQ_NEXT s e)) body (tqh_first s h) s"

text \<open>The reverse loop, whose steps can themselves fault.\<close>

partial_function (option) foreach_back :: "(elem \<Rightarrow> fault + ptr) \<Rightarrow> ptr \<Rightarrow> (fault + elem list) option"
  where
  "foreach_back pv p = (case p of Null \<Rightarrow> Some (Inr [])
     | Poison \<Rightarrow> Some (Inl Poison_deref)
     | Elm e \<Rightarrow> (case pv e of Inl f \<Rightarrow> Some (Inl f)
         | Inr q \<Rightarrow> Option.bind (foreach_back pv q) (\<lambda>r. Some (bindR r (\<lambda>es. Inr (e # es))))))"

definition TAILQ_FOREACH_REVERSE :: "tailq_st \<Rightarrow> head \<Rightarrow> (fault + elem list) option" where
  "TAILQ_FOREACH_REVERSE s h = (case TAILQ_LAST s h of Inl f \<Rightarrow> Some (Inl f)
     | Inr p \<Rightarrow> foreach_back (TAILQ_PREV s) p)"

definition TAILQ_FOREACH_REVERSE_SAFE ::
    "(elem \<Rightarrow> tailq_st \<Rightarrow> fault + tailq_st) \<Rightarrow> head \<Rightarrow> tailq_st \<Rightarrow> (fault + tailq_st) option" where
  "TAILQ_FOREACH_REVERSE_SAFE body h s = (case TAILQ_LAST s h of Inl f \<Rightarrow> Some (Inl f)
     | Inr p \<Rightarrow> foreach_safe TAILQ_PREV body p s)"

subsection \<open>Checks under \<^theory_text>\<open>QUEUEDEBUG\<close>\<close>

definition QUEUEDEBUG_TAILQ_INSERT_HEAD :: "bool \<Rightarrow> head \<Rightarrow> tailq_st \<Rightarrow> fault + unit" where
  "QUEUEDEBUG_TAILQ_INSERT_HEAD dbg h s =
     (if \<not> dbg then Inr () else
      if tqh_first s h \<noteq> Null
      then bindR (deref (tqh_first s h)) (\<lambda>f.
             assertR (Abort ''TAILQ_INSERT_HEAD'') (tqe_prev s f = HeadSlot h))
      else Inr ())"

definition QUEUEDEBUG_TAILQ_INSERT_TAIL :: "bool \<Rightarrow> head \<Rightarrow> tailq_st \<Rightarrow> fault + unit" where
  "QUEUEDEBUG_TAILQ_INSERT_TAIL dbg h s =
     (if \<not> dbg then Inr () else
      bindR (tailq_load s (tqh_last s h)) (\<lambda>p. assertR (Abort ''TAILQ_INSERT_TAIL'') (p = Null)))"

definition QUEUEDEBUG_TAILQ_OP :: "bool \<Rightarrow> elem \<Rightarrow> tailq_st \<Rightarrow> fault + unit" where
  "QUEUEDEBUG_TAILQ_OP dbg e s =
     (if \<not> dbg then Inr () else
      bindR (if tqe_next s e \<noteq> Null
             then bindR (deref (tqe_next s e)) (\<lambda>n.
                    assertR (Abort ''TAILQ_* forw'') (tqe_prev s n = NextSlot e))
             else Inr ()) (\<lambda>_.
      bindR (tailq_load s (tqe_prev s e)) (\<lambda>p.
        assertR (Abort ''TAILQ_* back'') (p = Elm e))))"

definition QUEUEDEBUG_TAILQ_PREREMOVE :: "bool \<Rightarrow> head \<Rightarrow> elem \<Rightarrow> tailq_st \<Rightarrow> fault + unit" where
  "QUEUEDEBUG_TAILQ_PREREMOVE dbg h e s =
     (if \<not> dbg then Inr () else
      assertR (Abort ''TAILQ_PREREMOVE head'')
        (\<not> (tqe_next s e = Null \<and> tqh_last s h \<noteq> NextSlot e)))"

definition QUEUEDEBUG_TAILQ_POSTREMOVE :: "bool \<Rightarrow> elem \<Rightarrow> tailq_st \<Rightarrow> tailq_st" where
  "QUEUEDEBUG_TAILQ_POSTREMOVE dbg e s =
     (if dbg then set_tqe_prev e PoisonSlot (set_tqe_next e Poison s) else s)"

subsection \<open>The macros\<close>

definition TAILQ_INIT :: "head \<Rightarrow> tailq_st \<Rightarrow> tailq_st" where
  "TAILQ_INIT h s = (let s = set_tqh_first h Null s in set_tqh_last h (HeadSlot h) s)"

definition TAILQ_INSERT_HEAD :: "bool \<Rightarrow> head \<Rightarrow> elem \<Rightarrow> tailq_st \<Rightarrow> fault + tailq_st" where
  "TAILQ_INSERT_HEAD dbg h e s =
     bindR (QUEUEDEBUG_TAILQ_INSERT_HEAD dbg h s) (\<lambda>_.
     let s = set_tqe_next e (tqh_first s h) s in
     bindR (if tqe_next s e \<noteq> Null
            then bindR (deref (tqh_first s h)) (\<lambda>f. Inr (set_tqe_prev f (NextSlot e) s))
            else Inr (set_tqh_last h (NextSlot e) s)) (\<lambda>s.
     let s = set_tqh_first h (Elm e) s in
     Inr (set_tqe_prev e (HeadSlot h) s)))"

definition TAILQ_INSERT_TAIL :: "bool \<Rightarrow> head \<Rightarrow> elem \<Rightarrow> tailq_st \<Rightarrow> fault + tailq_st" where
  "TAILQ_INSERT_TAIL dbg h e s =
     bindR (QUEUEDEBUG_TAILQ_INSERT_TAIL dbg h s) (\<lambda>_.
     let s = set_tqe_next e Null s;
         s = set_tqe_prev e (tqh_last s h) s in
     bindR (tailq_store (tqh_last s h) (Elm e) s) (\<lambda>s.
     Inr (set_tqh_last h (NextSlot e) s)))"

definition TAILQ_INSERT_AFTER :: "bool \<Rightarrow> head \<Rightarrow> elem \<Rightarrow> elem \<Rightarrow> tailq_st \<Rightarrow> fault + tailq_st" where
  "TAILQ_INSERT_AFTER dbg h le e s =
     bindR (QUEUEDEBUG_TAILQ_OP dbg le s) (\<lambda>_.
     let s = set_tqe_next e (tqe_next s le) s in
     bindR (if tqe_next s e \<noteq> Null
            then bindR (deref (tqe_next s e)) (\<lambda>n. Inr (set_tqe_prev n (NextSlot e) s))
            else Inr (set_tqh_last h (NextSlot e) s)) (\<lambda>s.
     let s = set_tqe_next le (Elm e) s in
     Inr (set_tqe_prev e (NextSlot le) s)))"

definition TAILQ_INSERT_BEFORE :: "bool \<Rightarrow> elem \<Rightarrow> elem \<Rightarrow> tailq_st \<Rightarrow> fault + tailq_st" where
  "TAILQ_INSERT_BEFORE dbg le e s =
     bindR (QUEUEDEBUG_TAILQ_OP dbg le s) (\<lambda>_.
     let s = set_tqe_prev e (tqe_prev s le) s;
         s = set_tqe_next e (Elm le) s in
     bindR (tailq_store (tqe_prev s le) (Elm e) s) (\<lambda>s.
     Inr (set_tqe_prev le (NextSlot e) s)))"

definition TAILQ_REMOVE :: "bool \<Rightarrow> head \<Rightarrow> elem \<Rightarrow> tailq_st \<Rightarrow> fault + tailq_st" where
  "TAILQ_REMOVE dbg h e s =
     bindR (QUEUEDEBUG_TAILQ_PREREMOVE dbg h e s) (\<lambda>_.
     bindR (QUEUEDEBUG_TAILQ_OP dbg e s) (\<lambda>_.
     bindR (if tqe_next s e \<noteq> Null
            then bindR (deref (tqe_next s e)) (\<lambda>n. Inr (set_tqe_prev n (tqe_prev s e) s))
            else Inr (set_tqh_last h (tqe_prev s e) s)) (\<lambda>s.
     bindR (tailq_store (tqe_prev s e) (tqe_next s e) s) (\<lambda>s.
     Inr (QUEUEDEBUG_TAILQ_POSTREMOVE dbg e s)))))"

definition TAILQ_REPLACE :: "bool \<Rightarrow> head \<Rightarrow> elem \<Rightarrow> elem \<Rightarrow> tailq_st \<Rightarrow> fault + tailq_st" where
  "TAILQ_REPLACE dbg h e e2 s =
     (let s = set_tqe_next e2 (tqe_next s e) s in
     bindR (if tqe_next s e2 \<noteq> Null
            then bindR (deref (tqe_next s e2)) (\<lambda>n. Inr (set_tqe_prev n (NextSlot e2) s))
            else Inr (set_tqh_last h (NextSlot e2) s)) (\<lambda>s.
     let s = set_tqe_prev e2 (tqe_prev s e) s in
     bindR (tailq_store (tqe_prev s e2) (Elm e2) s) (\<lambda>s.
     Inr (QUEUEDEBUG_TAILQ_POSTREMOVE dbg e s))))"

definition TAILQ_CONCAT :: "head \<Rightarrow> head \<Rightarrow> tailq_st \<Rightarrow> fault + tailq_st" where
  "TAILQ_CONCAT h1 h2 s =
     (if \<not> TAILQ_EMPTY s h2
      then bindR (tailq_store (tqh_last s h1) (tqh_first s h2) s) (\<lambda>s.
           bindR (deref (tqh_first s h2)) (\<lambda>f.
           let s = set_tqe_prev f (tqh_last s h1) s;
               s = set_tqh_last h1 (tqh_last s h2) s in
           Inr (TAILQ_INIT h2 s)))
      else Inr s)"

fun tailq_step :: "bool \<Rightarrow> queue_op \<Rightarrow> tailq_st \<Rightarrow> fault + tailq_st" where
  "tailq_step dbg (Init h) s = Inr (TAILQ_INIT h s)"
| "tailq_step dbg (Insert_head h e) s = TAILQ_INSERT_HEAD dbg h e s"
| "tailq_step dbg (Insert_tail h e) s = TAILQ_INSERT_TAIL dbg h e s"
| "tailq_step dbg (Insert_after h p e) s = TAILQ_INSERT_AFTER dbg h p e s"
| "tailq_step dbg (Insert_before h p e) s = TAILQ_INSERT_BEFORE dbg p e s"
| "tailq_step dbg (Remove h e) s = TAILQ_REMOVE dbg h e s"
| "tailq_step dbg (Replace h e e2) s = TAILQ_REPLACE dbg h e e2 s"
| "tailq_step dbg (Concat h k) s = TAILQ_CONCAT h k s"
| "tailq_step dbg _ s = Inl (Abort ''no such macro'')"

fun tailq_supported :: "queue_op \<Rightarrow> bool" where
  "tailq_supported (Remove_head h) = False"
| "tailq_supported (Remove_after h p) = False"
| "tailq_supported _ = True"

subsection \<open>Correctness of one macro\<close>

definition tailq_at :: "tailq_st \<Rightarrow> head \<Rightarrow> elem list \<Rightarrow> bool" where
  "tailq_at s h xs \<longleftrightarrow> tqh_first s h = hdp xs Null \<and>
     dseg (tqe_next s) (tqe_prev s) (HeadSlot h) xs Null \<and>
     tqh_last s h = end_slot (HeadSlot h) xs"

definition tailq_frame :: "tailq_st \<Rightarrow> tailq_st \<Rightarrow> head set \<Rightarrow> elem set \<Rightarrow> bool" where
  "tailq_frame s s' H A \<longleftrightarrow>
     (\<forall>k. k \<notin> H \<longrightarrow> tqh_first s' k = tqh_first s k \<and> tqh_last s' k = tqh_last s k) \<and>
     (\<forall>x. x \<notin> A \<longrightarrow> tqe_next s' x = tqe_next s x \<and> tqe_prev s' x = tqe_prev s x)"

lemmas tailq_defs = tailq_at_def tailq_frame_def frame_simps Let_def

lemma tailq_at_frame:
  assumes "tailq_at s k xs" and "tailq_frame s s' H A" and "k \<notin> H" and "set xs \<inter> A = {}"
  shows "tailq_at s' k xs"
proof -
  have "dseg (tqe_next s') (tqe_prev s') sl xs q = dseg (tqe_next s) (tqe_prev s) sl xs q" for sl q
    using assms(2,4) by (induction xs arbitrary: sl) (auto simp: tailq_frame_def)
  with assms show ?thesis by (simp add: tailq_at_def tailq_frame_def)
qed

text \<open>On a well-formed queue no debug check aborts.\<close>

lemma tailq_debug_ok:
  assumes "tailq_at s h (xs @ e # ys)"
  shows "QUEUEDEBUG_TAILQ_OP dbg e s = Inr ()"
proof -
  have "tailq_load s (end_slot (HeadSlot h) xs) = Inr (Elm e)"
    using assms by (cases xs rule: rev_cases) (auto simp: tailq_at_def end_slot_def)
  then show ?thesis
    using assms by (cases ys) (auto simp: tailq_at_def QUEUEDEBUG_TAILQ_OP_def)
qed

lemma tailq_debug_head_ok:
  "tailq_at s h xs \<Longrightarrow> QUEUEDEBUG_TAILQ_INSERT_HEAD dbg h s = Inr ()"
  by (cases xs) (auto simp: tailq_at_def QUEUEDEBUG_TAILQ_INSERT_HEAD_def)

lemma tailq_debug_tail_ok:
  "tailq_at s h xs \<Longrightarrow> QUEUEDEBUG_TAILQ_INSERT_TAIL dbg h s = Inr ()"
  by (cases xs rule: rev_cases) (auto simp: tailq_at_def QUEUEDEBUG_TAILQ_INSERT_TAIL_def)

lemma tailq_debug_preremove_ok:
  "tailq_at s h (xs @ e # ys) \<Longrightarrow> QUEUEDEBUG_TAILQ_PREREMOVE dbg h e s = Inr ()"
  by (cases ys) (auto simp: tailq_at_def QUEUEDEBUG_TAILQ_PREREMOVE_def)

lemma tailq_insert_head_at:
  assumes "tailq_at s h xs" and "e \<notin> set xs" and "distinct xs"
  shows "\<exists>s'. TAILQ_INSERT_HEAD dbg h e s = Inr s' \<and> tailq_at s' h (e # xs) \<and>
    tailq_frame s s' {h} (insert e (set xs))"
  using assms tailq_debug_head_ok[OF assms(1)]
  by (cases xs) (auto simp: TAILQ_INSERT_HEAD_def tailq_defs)

lemma tailq_insert_tail_at:
  assumes "tailq_at s h xs" and "e \<notin> set xs" and "distinct xs"
  shows "\<exists>s'. TAILQ_INSERT_TAIL dbg h e s = Inr s' \<and> tailq_at s' h (xs @ [e]) \<and>
    tailq_frame s s' {h} (insert e (set xs))"
  using assms tailq_debug_tail_ok[OF assms(1)]
  by (cases xs rule: rev_cases) (auto simp: TAILQ_INSERT_TAIL_def tailq_defs)

lemma tailq_insert_after_at:
  assumes "tailq_at s h (xs @ p # ys)" and "e \<notin> set (xs @ p # ys)" and "distinct (xs @ p # ys)"
  shows "\<exists>s'. TAILQ_INSERT_AFTER dbg h p e s = Inr s' \<and> tailq_at s' h (xs @ p # e # ys) \<and>
    tailq_frame s s' {h} (insert e (set (xs @ p # ys)))"
  using assms tailq_debug_ok[OF assms(1)]
  by (cases ys) (auto simp: TAILQ_INSERT_AFTER_def tailq_defs)

lemma tailq_insert_before_at:
  assumes "tailq_at s h (xs @ p # ys)" and "e \<notin> set (xs @ p # ys)" and "distinct (xs @ p # ys)"
  shows "\<exists>s'. TAILQ_INSERT_BEFORE dbg p e s = Inr s' \<and> tailq_at s' h (xs @ e # p # ys) \<and>
    tailq_frame s s' {h} (insert e (set (xs @ p # ys)))"
  using assms tailq_debug_ok[OF assms(1)]
  by (cases xs rule: rev_cases) (auto simp: TAILQ_INSERT_BEFORE_def tailq_defs)

lemma tailq_remove_at:
  assumes "tailq_at s h (xs @ p # ys)" and "distinct (xs @ p # ys)"
  shows "\<exists>s'. TAILQ_REMOVE dbg h p s = Inr s' \<and> tailq_at s' h (xs @ ys) \<and>
    tailq_frame s s' {h} (set (xs @ p # ys))"
  using assms tailq_debug_ok[OF assms(1)] tailq_debug_preremove_ok[OF assms(1)]
  by (cases xs rule: rev_cases; cases ys)
    (auto simp: TAILQ_REMOVE_def QUEUEDEBUG_TAILQ_POSTREMOVE_def tailq_defs)

lemma tailq_replace_at:
  assumes "tailq_at s h (xs @ p # ys)" and "e \<notin> set (xs @ p # ys)" and "distinct (xs @ p # ys)"
  shows "\<exists>s'. TAILQ_REPLACE dbg h p e s = Inr s' \<and> tailq_at s' h (xs @ e # ys) \<and>
    tailq_frame s s' {h} (insert e (set (xs @ p # ys)))"
  using assms
  by (cases xs rule: rev_cases; cases ys)
    (auto simp: TAILQ_REPLACE_def QUEUEDEBUG_TAILQ_POSTREMOVE_def tailq_defs)

lemma tailq_concat_at:
  assumes "h \<noteq> k" and "tailq_at s h xs" and "tailq_at s k ys" and "distinct (xs @ ys)"
  shows "\<exists>s'. TAILQ_CONCAT h k s = Inr s' \<and> tailq_at s' h (xs @ ys) \<and>
    tailq_at s' k [] \<and> tailq_frame s s' {h, k} (set xs \<union> set ys)"
  using assms
  by (cases xs rule: rev_cases; cases ys)
    (auto simp: TAILQ_CONCAT_def TAILQ_INIT_def TAILQ_EMPTY_def TAILQ_FIRST_def tailq_defs)

lemma tailq_step_at:
  assumes "tailq_supported op" and "op \<noteq> Init (op_head op)" and "tailq_at s (op_head op) xs"
    and "distinct xs" and "local_spec op xs = Some ys"
  shows "\<exists>s'. tailq_step dbg op s = Inr s' \<and> tailq_at s' (op_head op) ys \<and>
    tailq_frame s s' {op_head op} (set (op_new op) \<union> set xs)"
  using local_spec_split[OF assms(5,4)] assms tailq_insert_head_at tailq_insert_tail_at
    tailq_insert_after_at tailq_insert_before_at tailq_remove_at tailq_replace_at
  by (cases op) fastforce+

subsection \<open>Walking backwards\<close>

lemma tailq_last_at:
  "tailq_at s h xs \<Longrightarrow> TAILQ_LAST s h = Inr (hdp (rev xs) Null)"
proof (cases xs rule: rev_cases)
  case (snoc ys z)
  assume "tailq_at s h xs"
  with snoc show ?thesis
    by (cases ys rule: rev_cases) (auto simp: TAILQ_LAST_def tailq_at_def)
qed (auto simp: TAILQ_LAST_def tailq_at_def)

lemma tailq_prev_at:
  assumes "tailq_at s h (xs @ e # ys)"
  shows "TAILQ_PREV s e = Inr (hdp (rev xs) Null)"
proof (cases xs rule: rev_cases)
  case Nil
  from assms have "tailq_load s (tqh_last s h) = Inr Null"
    by (cases ys rule: rev_cases) (auto simp: tailq_at_def)
  with Nil assms show ?thesis by (auto simp: TAILQ_PREV_def tailq_at_def)
next
  case (snoc zs z)
  with assms show ?thesis
    by (cases zs rule: rev_cases) (auto simp: TAILQ_PREV_def tailq_at_def)
qed

lemma tailq_foreach_back_at:
  "tailq_at s h (xs @ ys) \<Longrightarrow>
   foreach_back (TAILQ_PREV s) (hdp (rev xs) Null) = Some (Inr (rev xs))"
proof (induction xs arbitrary: ys rule: rev_induct)
  case (snoc x xs)
  then show ?case
    using tailq_prev_at[of s h xs x ys]
    by (simp add: foreach_back.simps[of _ "Elm x"])
qed (simp add: foreach_back.simps)

interpretation tailq: single_queue tailq_at tailq_frame "tailq_step dbg" tailq_supported
    TAILQ_FOREACH TAILQ_EMPTY for dbg
proof unfold_locales
  show "\<exists>s'. tailq_step dbg (Init h) s = Inr s' \<and> tailq_at s' h [] \<and> tailq_frame s s' {h} {}"
    for h s
    by (simp add: TAILQ_INIT_def tailq_at_def tailq_frame_def Let_def)
  show "TAILQ_FOREACH s h = Some (Inr xs)" if "tailq_at s h xs" for s h xs
    using that foreach_sseg[OF dseg_sseg] by (auto simp: TAILQ_FOREACH_def tailq_at_def)
  show "TAILQ_EMPTY s h \<longleftrightarrow> xs = []" if "tailq_at s h xs" for s h xs
    using that by (simp add: TAILQ_EMPTY_def TAILQ_FIRST_def tailq_at_def)
qed (use tailq_at_frame tailq_step_at tailq_concat_at in auto)

interpretation tailqb: bidir_queue_impl "family tailq_at" "tailq_step dbg" tailq_supported
    TAILQ_FOREACH TAILQ_EMPTY TAILQ_FOREACH_REVERSE for dbg
proof unfold_locales
  show "TAILQ_FOREACH_REVERSE s h = Some (Inr (rev (L ! h)))"
    if "family tailq_at s L" "h < length L" for s L h
    using tailq_last_at[OF familyD(1)[OF that]]
      tailq_foreach_back_at[of s h "L ! h" "[]"] familyD(1)[OF that]
    by (simp add: TAILQ_FOREACH_REVERSE_def)
qed

interpretation tailqw: safe_walk "family tailq_at" "\<lambda>s h. Inr (tqh_first s h)"
    "\<lambda>s e. Inr (TAILQ_NEXT s e)" "TAILQ_REMOVE dbg" for dbg
proof unfold_locales
  fix s L h as x bs
  assume L: "family tailq_at s L" "h < length L"
  show "Inr (tqh_first s h) = Inr (hdp (L ! h) Null)"
    using familyD(1)[OF L] by (simp add: tailq_at_def)
  assume split: "L ! h = as @ x # bs"
  show "Inr (TAILQ_NEXT s x) = Inr (hdp bs Null)"
    using familyD(1)[OF L] split by (simp add: TAILQ_NEXT_def tailq_at_def)
  show "\<exists>s'. TAILQ_REMOVE dbg h x s = Inr s' \<and> family tailq_at s' (L[h := as @ bs])"
    using tailq.remove_split[of h x s L as bs, where dbg = dbg] L split by simp
qed

text \<open>The reverse loop sees the reversed lists.\<close>

interpretation tailqrw: safe_walk "\<lambda>s L. family tailq_at s (map rev L)" TAILQ_LAST TAILQ_PREV
    "TAILQ_REMOVE dbg" for dbg
proof unfold_locales
  fix s L h as x bs
  assume L: "family tailq_at s (map rev L)" "h < length L"
  then have at: "tailq_at s h (rev (L ! h))"
    using familyD(1)[OF L(1), of h] by simp
  show "TAILQ_LAST s h = Inr (hdp (L ! h) Null)"
    using tailq_last_at[OF at] by simp
  assume split: "L ! h = as @ x # bs"
  show "TAILQ_PREV s x = Inr (hdp bs Null)"
    using tailq_prev_at[of s h "rev bs" x "rev as"] at split by simp
  show "\<exists>s'. TAILQ_REMOVE dbg h x s = Inr s' \<and> family tailq_at s' (map rev (L[h := as @ bs]))"
    using tailq.remove_split[of h x s "map rev L" "rev bs" "rev as", where dbg = dbg] L split
    by (simp add: map_update)
qed

subsection \<open>Properties\<close>

text \<open>
  C3: From any memory, with or without \<^theory_text>\<open>QUEUEDEBUG\<close>, any sequence of
  \<^theory_text>\<open>TAILQ\<close> macros that keeps their preconditions runs without a fault and without a
  debug abort; afterwards \<^theory_text>\<open>TAILQ_FOREACH\<close> visits on every head the elements the list
  specification predicts, \<^theory_text>\<open>TAILQ_FOREACH_REVERSE\<close> the same elements in the opposite
  order, and \<^theory_text>\<open>TAILQ_EMPTY\<close> tells the empty heads.
\<close>

theorem tailq_runs_as_specified:
  assumes "list_all tailq_supported ops" and "spec_run ops [] = Some L"
  shows "\<exists>s'. run (tailq_step dbg) ops s = Inr s' \<and>
    (\<forall>h<length L. TAILQ_FOREACH s' h = Some (Inr (L ! h)) \<and>
      TAILQ_FOREACH_REVERSE s' h = Some (Inr (rev (L ! h))) \<and>
      (TAILQ_EMPTY s' h \<longleftrightarrow> L ! h = []))"
  using tailq.run_ok[OF assms(1) tailq.repr_start assms(2)] tailq.walk_ok tailqb.walk_rev_ok
    tailq.empty_ok by meson

definition tailq_scratch :: tailq_st where
  "tailq_scratch = \<lparr>tqh_first = (\<lambda>_. Poison), tqh_last = (\<lambda>_. PoisonSlot),
     tqe_next = (\<lambda>_. Poison), tqe_prev = (\<lambda>_. PoisonSlot)\<rparr>"

lemma tailq_runs_as_specified_witness:
  "\<exists>s'. run (tailq_step True) [Init 0, Init 1, Insert_tail 0 3, Insert_head 0 2, Insert_tail 1 6,
      Insert_before 1 6 5, Concat 0 1, Remove 0 6, Insert_after 0 5 7, Replace 0 3 4]
      tailq_scratch = Inr s' \<and>
    (\<forall>h<length [[2, 4, 5, 7], [] :: nat list].
      TAILQ_FOREACH s' h = Some (Inr ([[2, 4, 5, 7], []] ! h)) \<and>
      TAILQ_FOREACH_REVERSE s' h = Some (Inr (rev ([[2, 4, 5, 7], []] ! h))) \<and>
      (TAILQ_EMPTY s' h \<longleftrightarrow> [[2, 4, 5, 7], [] :: nat list] ! h = []))"
  by (rule tailq_runs_as_specified) simp_all

text \<open>
  C40: Both safe loops of the tail queue, forwards and backwards, with a body that removes the
  elements that satisfy \<open>P\<close>, end without touching a removed element again and leave exactly the
  other elements on the queue, in order, with every other queue unchanged.
\<close>

theorem tailq_safe_loops_filter:
  assumes "family tailq_at s L" and "h < length L"
  shows "(\<exists>s'. TAILQ_FOREACH_SAFE (\<lambda>e s. if P e then TAILQ_REMOVE dbg h e s else Inr s) h s =
      Some (Inr s') \<and> family tailq_at s' (L[h := filter (\<lambda>e. \<not> P e) (L ! h)])) \<and>
    (\<exists>s'. TAILQ_FOREACH_REVERSE_SAFE (\<lambda>e s. if P e then TAILQ_REMOVE dbg h e s else Inr s) h s =
      Some (Inr s') \<and> family tailq_at s' (L[h := filter (\<lambda>e. \<not> P e) (L ! h)]))"
proof -
  have rev: "map rev (map rev L) = L" by (simp add: comp_def)
  then have "family tailq_at s (map rev (map rev L))" "h < length (map rev L)"
    using assms by simp_all
  from tailqrw.safe_filter[OF this, where dbg = dbg and P = P] obtain p s' where
    "TAILQ_LAST s h = Inr p" and
    "foreach_safe TAILQ_PREV (\<lambda>e s. if P e then TAILQ_REMOVE dbg h e s else Inr s) p s =
      Some (Inr s')" and
    "family tailq_at s' (map rev ((map rev L)[h := filter (\<lambda>e. \<not> P e) (map rev L ! h)]))"
    by blast
  then show ?thesis
    using tailqw.safe_filter[OF assms, where dbg = dbg and P = P] assms(2) rev
    by (auto simp: TAILQ_FOREACH_SAFE_def TAILQ_FOREACH_REVERSE_SAFE_def map_update rev_filter)
qed

definition tailq_three :: tailq_st where
  "tailq_three = \<lparr>tqh_first = (\<lambda>_. Elm 1), tqh_last = (\<lambda>_. NextSlot 3),
     tqe_next = (\<lambda>_. Null)(1 := Elm 2, 2 := Elm 3),
     tqe_prev = (\<lambda>_. PoisonSlot)(1 := HeadSlot 0, 2 := NextSlot 1, 3 := NextSlot 2)\<rparr>"

lemma tailq_safe_loops_filter_witness:
  "(\<exists>s'. TAILQ_FOREACH_SAFE (\<lambda>e s. if odd e then TAILQ_REMOVE True 0 e s else Inr s) 0 tailq_three =
      Some (Inr s') \<and> family tailq_at s' ([[1, 2, 3]][0 := filter (\<lambda>e. \<not> odd e) ([[1, 2, 3]] ! 0)])) \<and>
    (\<exists>s'. TAILQ_FOREACH_REVERSE_SAFE (\<lambda>e s. if odd e then TAILQ_REMOVE True 0 e s else Inr s) 0
        tailq_three =
      Some (Inr s') \<and> family tailq_at s' ([[1, 2, 3]][0 := filter (\<lambda>e. \<not> odd e) ([[1, 2, 3]] ! 0)]))"
  by (rule tailq_safe_loops_filter) (simp_all add: family_def tailq_at_def tailq_three_def)

end
