(* ===== verification/Queue_Circleq.thy ===== *)
theory Queue_Circleq
  imports Queue_Base
begin

text \<open>
  The \<^theory_text>\<open>CIRCLEQ\<close> macros of \<open>sys-queue.h\<close>. The links at both ends hold the address of
  the head itself, so a link is an element's address or a head's; using a head's address as an
  element is a fault of the model. \<open>dbg\<close> says whether the header is compiled with
  \<^theory_text>\<open>QUEUEDEBUG\<close>.
\<close>

datatype cptr = CNull | CElm elem | CHead head | CPoison

record circleq_st =
  cqh_first :: "head \<Rightarrow> cptr"
  cqh_last :: "head \<Rightarrow> cptr"
  cqe_next :: "elem \<Rightarrow> cptr"
  cqe_prev :: "elem \<Rightarrow> cptr"

definition set_cqh_first :: "head \<Rightarrow> cptr \<Rightarrow> circleq_st \<Rightarrow> circleq_st" where
  [simp]: "set_cqh_first h p s = s\<lparr>cqh_first := (cqh_first s)(h := p)\<rparr>"

definition set_cqh_last :: "head \<Rightarrow> cptr \<Rightarrow> circleq_st \<Rightarrow> circleq_st" where
  [simp]: "set_cqh_last h p s = s\<lparr>cqh_last := (cqh_last s)(h := p)\<rparr>"

definition set_cqe_next :: "elem \<Rightarrow> cptr \<Rightarrow> circleq_st \<Rightarrow> circleq_st" where
  [simp]: "set_cqe_next e p s = s\<lparr>cqe_next := (cqe_next s)(e := p)\<rparr>"

definition set_cqe_prev :: "elem \<Rightarrow> cptr \<Rightarrow> circleq_st \<Rightarrow> circleq_st" where
  [simp]: "set_cqe_prev e p s = s\<lparr>cqe_prev := (cqe_prev s)(e := p)\<rparr>"

fun cderef :: "cptr \<Rightarrow> fault + elem" where
  "cderef CNull = Inl Null_deref"
| "cderef (CElm e) = Inr e"
| "cderef (CHead h) = Inl Not_an_element"
| "cderef CPoison = Inl Poison_deref"

subsection \<open>Access\<close>

definition CIRCLEQ_FIRST :: "circleq_st \<Rightarrow> head \<Rightarrow> cptr" where
  "CIRCLEQ_FIRST s h = cqh_first s h"

definition CIRCLEQ_LAST :: "circleq_st \<Rightarrow> head \<Rightarrow> cptr" where
  "CIRCLEQ_LAST s h = cqh_last s h"

definition CIRCLEQ_NEXT :: "circleq_st \<Rightarrow> elem \<Rightarrow> cptr" where
  "CIRCLEQ_NEXT s e = cqe_next s e"

definition CIRCLEQ_PREV :: "circleq_st \<Rightarrow> elem \<Rightarrow> cptr" where
  "CIRCLEQ_PREV s e = cqe_prev s e"

definition CIRCLEQ_EMPTY :: "circleq_st \<Rightarrow> head \<Rightarrow> bool" where
  "CIRCLEQ_EMPTY s h \<longleftrightarrow> CIRCLEQ_FIRST s h = CHead h"

definition CIRCLEQ_LOOP_NEXT :: "circleq_st \<Rightarrow> head \<Rightarrow> elem \<Rightarrow> cptr" where
  "CIRCLEQ_LOOP_NEXT s h e = (if cqe_next s e = CHead h then cqh_first s h else cqe_next s e)"

definition CIRCLEQ_LOOP_PREV :: "circleq_st \<Rightarrow> head \<Rightarrow> elem \<Rightarrow> cptr" where
  "CIRCLEQ_LOOP_PREV s h e = (if cqe_prev s e = CHead h then cqh_last s h else cqe_prev s e)"

partial_function (option) circleq_loop ::
    "(elem \<Rightarrow> cptr) \<Rightarrow> head \<Rightarrow> cptr \<Rightarrow> (fault + elem list) option" where
  "circleq_loop nx h p = (if p = CHead h then Some (Inr []) else
     (case cderef p of Inl f \<Rightarrow> Some (Inl f)
      | Inr e \<Rightarrow> Option.bind (circleq_loop nx h (nx e)) (\<lambda>r. Some (bindR r (\<lambda>es. Inr (e # es))))))"

definition CIRCLEQ_FOREACH :: "circleq_st \<Rightarrow> head \<Rightarrow> (fault + elem list) option" where
  "CIRCLEQ_FOREACH s h = circleq_loop (cqe_next s) h (cqh_first s h)"

definition CIRCLEQ_FOREACH_REVERSE :: "circleq_st \<Rightarrow> head \<Rightarrow> (fault + elem list) option" where
  "CIRCLEQ_FOREACH_REVERSE s h = circleq_loop (cqe_prev s) h (cqh_last s h)"

subsection \<open>Checks under \<^theory_text>\<open>QUEUEDEBUG\<close>\<close>

definition QUEUEDEBUG_CIRCLEQ_HEAD :: "bool \<Rightarrow> head \<Rightarrow> circleq_st \<Rightarrow> fault + unit" where
  "QUEUEDEBUG_CIRCLEQ_HEAD dbg h s =
     (if \<not> dbg then Inr () else
      bindR (if cqh_first s h \<noteq> CHead h
             then bindR (cderef (cqh_first s h)) (\<lambda>f.
                    assertR (Abort ''CIRCLEQ head forw'') (cqe_prev s f = CHead h))
             else Inr ()) (\<lambda>_.
      if cqh_last s h \<noteq> CHead h
      then bindR (cderef (cqh_last s h)) (\<lambda>l.
             assertR (Abort ''CIRCLEQ head back'') (cqe_next s l = CHead h))
      else Inr ()))"

definition QUEUEDEBUG_CIRCLEQ_ELM :: "bool \<Rightarrow> head \<Rightarrow> elem \<Rightarrow> circleq_st \<Rightarrow> fault + unit" where
  "QUEUEDEBUG_CIRCLEQ_ELM dbg h e s =
     (if \<not> dbg then Inr () else
      bindR (if cqe_next s e = CHead h
             then assertR (Abort ''CIRCLEQ elm last'') (cqh_last s h = CElm e)
             else bindR (cderef (cqe_next s e)) (\<lambda>n.
                    assertR (Abort ''CIRCLEQ elm forw'') (cqe_prev s n = CElm e))) (\<lambda>_.
      if cqe_prev s e = CHead h
      then assertR (Abort ''CIRCLEQ elm first'') (cqh_first s h = CElm e)
      else bindR (cderef (cqe_prev s e)) (\<lambda>p.
             assertR (Abort ''CIRCLEQ elm prev'') (cqe_next s p = CElm e))))"

definition QUEUEDEBUG_CIRCLEQ_POSTREMOVE :: "bool \<Rightarrow> elem \<Rightarrow> circleq_st \<Rightarrow> circleq_st" where
  "QUEUEDEBUG_CIRCLEQ_POSTREMOVE dbg e s =
     (if dbg then set_cqe_prev e CPoison (set_cqe_next e CPoison s) else s)"

subsection \<open>The macros\<close>

definition CIRCLEQ_INIT :: "head \<Rightarrow> circleq_st \<Rightarrow> circleq_st" where
  "CIRCLEQ_INIT h s = (let s = set_cqh_first h (CHead h) s in set_cqh_last h (CHead h) s)"

definition CIRCLEQ_INSERT_AFTER ::
    "bool \<Rightarrow> head \<Rightarrow> elem \<Rightarrow> elem \<Rightarrow> circleq_st \<Rightarrow> fault + circleq_st" where
  "CIRCLEQ_INSERT_AFTER dbg h le e s =
     bindR (QUEUEDEBUG_CIRCLEQ_HEAD dbg h s) (\<lambda>_.
     bindR (QUEUEDEBUG_CIRCLEQ_ELM dbg h le s) (\<lambda>_.
     let s = set_cqe_next e (cqe_next s le) s;
         s = set_cqe_prev e (CElm le) s in
     bindR (if cqe_next s le = CHead h
            then Inr (set_cqh_last h (CElm e) s)
            else bindR (cderef (cqe_next s le)) (\<lambda>n. Inr (set_cqe_prev n (CElm e) s))) (\<lambda>s.
     Inr (set_cqe_next le (CElm e) s))))"

definition CIRCLEQ_INSERT_BEFORE ::
    "bool \<Rightarrow> head \<Rightarrow> elem \<Rightarrow> elem \<Rightarrow> circleq_st \<Rightarrow> fault + circleq_st" where
  "CIRCLEQ_INSERT_BEFORE dbg h le e s =
     bindR (QUEUEDEBUG_CIRCLEQ_HEAD dbg h s) (\<lambda>_.
     bindR (QUEUEDEBUG_CIRCLEQ_ELM dbg h le s) (\<lambda>_.
     let s = set_cqe_next e (CElm le) s;
         s = set_cqe_prev e (cqe_prev s le) s in
     bindR (if cqe_prev s le = CHead h
            then Inr (set_cqh_first h (CElm e) s)
            else bindR (cderef (cqe_prev s le)) (\<lambda>p. Inr (set_cqe_next p (CElm e) s))) (\<lambda>s.
     Inr (set_cqe_prev le (CElm e) s))))"

definition CIRCLEQ_INSERT_HEAD :: "bool \<Rightarrow> head \<Rightarrow> elem \<Rightarrow> circleq_st \<Rightarrow> fault + circleq_st" where
  "CIRCLEQ_INSERT_HEAD dbg h e s =
     bindR (QUEUEDEBUG_CIRCLEQ_HEAD dbg h s) (\<lambda>_.
     let s = set_cqe_next e (cqh_first s h) s;
         s = set_cqe_prev e (CHead h) s in
     bindR (if cqh_last s h = CHead h
            then Inr (set_cqh_last h (CElm e) s)
            else bindR (cderef (cqh_first s h)) (\<lambda>f. Inr (set_cqe_prev f (CElm e) s))) (\<lambda>s.
     Inr (set_cqh_first h (CElm e) s)))"

definition CIRCLEQ_INSERT_TAIL :: "bool \<Rightarrow> head \<Rightarrow> elem \<Rightarrow> circleq_st \<Rightarrow> fault + circleq_st" where
  "CIRCLEQ_INSERT_TAIL dbg h e s =
     bindR (QUEUEDEBUG_CIRCLEQ_HEAD dbg h s) (\<lambda>_.
     let s = set_cqe_next e (CHead h) s;
         s = set_cqe_prev e (cqh_last s h) s in
     bindR (if cqh_first s h = CHead h
            then Inr (set_cqh_first h (CElm e) s)
            else bindR (cderef (cqh_last s h)) (\<lambda>l. Inr (set_cqe_next l (CElm e) s))) (\<lambda>s.
     Inr (set_cqh_last h (CElm e) s)))"

definition CIRCLEQ_REMOVE :: "bool \<Rightarrow> head \<Rightarrow> elem \<Rightarrow> circleq_st \<Rightarrow> fault + circleq_st" where
  "CIRCLEQ_REMOVE dbg h e s =
     bindR (QUEUEDEBUG_CIRCLEQ_HEAD dbg h s) (\<lambda>_.
     bindR (QUEUEDEBUG_CIRCLEQ_ELM dbg h e s) (\<lambda>_.
     bindR (if cqe_next s e = CHead h
            then Inr (set_cqh_last h (cqe_prev s e) s)
            else bindR (cderef (cqe_next s e)) (\<lambda>n. Inr (set_cqe_prev n (cqe_prev s e) s))) (\<lambda>s.
     bindR (if cqe_prev s e = CHead h
            then Inr (set_cqh_first h (cqe_next s e) s)
            else bindR (cderef (cqe_prev s e)) (\<lambda>p. Inr (set_cqe_next p (cqe_next s e) s))) (\<lambda>s.
     Inr (QUEUEDEBUG_CIRCLEQ_POSTREMOVE dbg e s)))))"

fun circleq_step :: "bool \<Rightarrow> queue_op \<Rightarrow> circleq_st \<Rightarrow> fault + circleq_st" where
  "circleq_step dbg (Init h) s = Inr (CIRCLEQ_INIT h s)"
| "circleq_step dbg (Insert_head h e) s = CIRCLEQ_INSERT_HEAD dbg h e s"
| "circleq_step dbg (Insert_tail h e) s = CIRCLEQ_INSERT_TAIL dbg h e s"
| "circleq_step dbg (Insert_after h p e) s = CIRCLEQ_INSERT_AFTER dbg h p e s"
| "circleq_step dbg (Insert_before h p e) s = CIRCLEQ_INSERT_BEFORE dbg h p e s"
| "circleq_step dbg (Remove h e) s = CIRCLEQ_REMOVE dbg h e s"
| "circleq_step dbg _ s = Inl (Abort ''no such macro'')"

fun circleq_supported :: "queue_op \<Rightarrow> bool" where
  "circleq_supported (Remove_head h) = False"
| "circleq_supported (Remove_after h p) = False"
| "circleq_supported (Replace h p e) = False"
| "circleq_supported (Concat h k) = False"
| "circleq_supported _ = True"

subsection \<open>Rings\<close>

fun chd :: "elem list \<Rightarrow> cptr \<Rightarrow> cptr" where
  "chd [] q = q"
| "chd (x # xs) q = CElm x"

definition cend :: "cptr \<Rightarrow> elem list \<Rightarrow> cptr" where
  "cend p xs = (if xs = [] then p else CElm (last xs))"

fun cseg :: "(elem \<Rightarrow> cptr) \<Rightarrow> (elem \<Rightarrow> cptr) \<Rightarrow> cptr \<Rightarrow> elem list \<Rightarrow> cptr \<Rightarrow> bool" where
  "cseg nx pv p [] q = True"
| "cseg nx pv p (x # xs) q = (pv x = p \<and> nx x = chd xs q \<and> cseg nx pv (CElm x) xs q)"

lemma chd_append [simp]: "chd (xs @ ys) q = chd xs (chd ys q)"
  by (cases xs) auto

lemma chd_CHead_iff [simp]: "chd xs (CHead h) = CHead k \<longleftrightarrow> xs = [] \<and> h = k"
  by (cases xs) auto

lemma chd_CElm_CHead [simp]: "chd xs (CElm y) \<noteq> CHead h"
  by (cases xs) auto

lemma cend_CElm_CHead [simp]: "cend (CElm y) xs \<noteq> CHead h"
  by (simp add: cend_def)

lemma cend_simps [simp]:
  "cend p [] = p"
  "cend p (x # xs) = cend (CElm x) xs"
  "cend p (xs @ ys) = cend (cend p xs) ys"
  by (auto simp: cend_def)

lemma cend_rev: "cend p (rev xs) = chd xs p"
  by (cases xs) (auto simp: cend_def)

lemma cseg_append [simp]:
  "cseg nx pv p (xs @ ys) q \<longleftrightarrow> cseg nx pv p xs (chd ys q) \<and> cseg nx pv (cend p xs) ys q"
  by (induction xs arbitrary: p) auto

lemma cseg_upd [frame_simps]:
  "e \<notin> set xs \<Longrightarrow> cseg (nx(e := v)) pv p xs q \<longleftrightarrow> cseg nx pv p xs q"
  "e \<notin> set xs \<Longrightarrow> cseg nx (pv(e := w)) p xs q \<longleftrightarrow> cseg nx pv p xs q"
  by (induction xs arbitrary: p) auto

text \<open>A ring read against its direction is a ring.\<close>

lemma cseg_rev: "cseg nx pv p xs q \<longleftrightarrow> cseg pv nx q (rev xs) p"
proof (induction xs arbitrary: p)
  case (Cons x xs)
  then show ?case by (simp add: cend_rev) (metis chd.simps)
qed simp

definition circleq_at :: "circleq_st \<Rightarrow> head \<Rightarrow> elem list \<Rightarrow> bool" where
  "circleq_at s h xs \<longleftrightarrow> cqh_first s h = chd xs (CHead h) \<and> cqh_last s h = cend (CHead h) xs \<and>
     cseg (cqe_next s) (cqe_prev s) (CHead h) xs (CHead h)"

definition circleq_frame :: "circleq_st \<Rightarrow> circleq_st \<Rightarrow> head set \<Rightarrow> elem set \<Rightarrow> bool" where
  "circleq_frame s s' H A \<longleftrightarrow>
     (\<forall>k. k \<notin> H \<longrightarrow> cqh_first s' k = cqh_first s k \<and> cqh_last s' k = cqh_last s k) \<and>
     (\<forall>x. x \<notin> A \<longrightarrow> cqe_next s' x = cqe_next s x \<and> cqe_prev s' x = cqe_prev s x)"

lemmas circleq_defs = circleq_at_def circleq_frame_def frame_simps Let_def

lemma circleq_at_frame:
  assumes "circleq_at s k xs" and "circleq_frame s s' H A" and "k \<notin> H" and "set xs \<inter> A = {}"
  shows "circleq_at s' k xs"
proof -
  have "cseg (cqe_next s') (cqe_prev s') p xs q = cseg (cqe_next s) (cqe_prev s) p xs q" for p q
    using assms(2,4) by (induction xs arbitrary: p) (auto simp: circleq_frame_def)
  with assms show ?thesis by (simp add: circleq_at_def circleq_frame_def)
qed

lemma circleq_debug_head_ok:
  assumes "circleq_at s h xs"
  shows "QUEUEDEBUG_CIRCLEQ_HEAD dbg h s = Inr ()"
proof -
  have "cqe_prev s f = CHead h" if "cqh_first s h = CElm f" for f
    using assms that by (cases xs) (auto simp: circleq_at_def)
  moreover have "cqe_next s l = CHead h" if "cqh_last s h = CElm l" for l
    using assms that by (cases xs rule: rev_cases) (auto simp: circleq_at_def)
  moreover have "cqh_first s h = CHead h \<or> (\<exists>f. cqh_first s h = CElm f)"
    using assms by (cases xs) (auto simp: circleq_at_def)
  moreover have "cqh_last s h = CHead h \<or> (\<exists>l. cqh_last s h = CElm l)"
    using assms by (auto simp: circleq_at_def cend_def)
  ultimately show ?thesis by (auto simp: QUEUEDEBUG_CIRCLEQ_HEAD_def)
qed

lemma circleq_debug_elm_ok:
  "circleq_at s h (xs @ e # ys) \<Longrightarrow> QUEUEDEBUG_CIRCLEQ_ELM dbg h e s = Inr ()"
  by (cases xs rule: rev_cases; cases ys)
    (auto simp: circleq_at_def QUEUEDEBUG_CIRCLEQ_ELM_def)

subsection \<open>Correctness of one macro\<close>

lemma circleq_insert_head_at:
  assumes "circleq_at s h xs" and "e \<notin> set xs" and "distinct xs"
  shows "\<exists>s'. CIRCLEQ_INSERT_HEAD dbg h e s = Inr s' \<and> circleq_at s' h (e # xs) \<and>
    circleq_frame s s' {h} (insert e (set xs))"
  using assms circleq_debug_head_ok[OF assms(1)]
  by (cases xs) (auto simp: CIRCLEQ_INSERT_HEAD_def circleq_defs cend_def)

lemma circleq_insert_tail_at:
  assumes "circleq_at s h xs" and "e \<notin> set xs" and "distinct xs"
  shows "\<exists>s'. CIRCLEQ_INSERT_TAIL dbg h e s = Inr s' \<and> circleq_at s' h (xs @ [e]) \<and>
    circleq_frame s s' {h} (insert e (set xs))"
  using assms circleq_debug_head_ok[OF assms(1)]
  by (cases xs rule: rev_cases) (auto simp: CIRCLEQ_INSERT_TAIL_def circleq_defs)

lemma circleq_insert_after_at:
  assumes "circleq_at s h (xs @ p # ys)" and "e \<notin> set (xs @ p # ys)" and "distinct (xs @ p # ys)"
  shows "\<exists>s'. CIRCLEQ_INSERT_AFTER dbg h p e s = Inr s' \<and> circleq_at s' h (xs @ p # e # ys) \<and>
    circleq_frame s s' {h} (insert e (set (xs @ p # ys)))"
  using assms circleq_debug_head_ok[OF assms(1)] circleq_debug_elm_ok[OF assms(1)]
  by (cases ys) (auto simp: CIRCLEQ_INSERT_AFTER_def circleq_defs)

lemma circleq_insert_before_at:
  assumes "circleq_at s h (xs @ p # ys)" and "e \<notin> set (xs @ p # ys)" and "distinct (xs @ p # ys)"
  shows "\<exists>s'. CIRCLEQ_INSERT_BEFORE dbg h p e s = Inr s' \<and> circleq_at s' h (xs @ e # p # ys) \<and>
    circleq_frame s s' {h} (insert e (set (xs @ p # ys)))"
  using assms circleq_debug_head_ok[OF assms(1)] circleq_debug_elm_ok[OF assms(1)]
  by (cases xs rule: rev_cases) (auto simp: CIRCLEQ_INSERT_BEFORE_def circleq_defs)

lemma circleq_remove_at:
  assumes "circleq_at s h (xs @ p # ys)" and "distinct (xs @ p # ys)"
  shows "\<exists>s'. CIRCLEQ_REMOVE dbg h p s = Inr s' \<and> circleq_at s' h (xs @ ys) \<and>
    circleq_frame s s' {h} (set (xs @ p # ys))"
  using assms circleq_debug_head_ok[OF assms(1)] circleq_debug_elm_ok[OF assms(1)]
  by (cases xs rule: rev_cases; cases ys)
    (auto simp: CIRCLEQ_REMOVE_def QUEUEDEBUG_CIRCLEQ_POSTREMOVE_def circleq_defs)

lemma circleq_step_at:
  assumes "circleq_supported op" and "op \<noteq> Init (op_head op)" and "circleq_at s (op_head op) xs"
    and "distinct xs" and "local_spec op xs = Some ys"
  shows "\<exists>s'. circleq_step dbg op s = Inr s' \<and> circleq_at s' (op_head op) ys \<and>
    circleq_frame s s' {op_head op} (set (op_new op) \<union> set xs)"
  using local_spec_split[OF assms(5,4)] assms circleq_insert_head_at circleq_insert_tail_at
    circleq_insert_after_at circleq_insert_before_at circleq_remove_at
  by (cases op) fastforce+

lemma circleq_loop_cseg:
  "cseg nx pv p xs (CHead h) \<Longrightarrow> circleq_loop nx h (chd xs (CHead h)) = Some (Inr xs)"
proof (induction xs arbitrary: p)
  case (Cons x xs)
  from Cons.prems have "nx x = chd xs (CHead h)" "cseg nx pv (CElm x) xs (CHead h)" by auto
  with Cons.IH show ?case by (simp add: circleq_loop.simps[of nx h "CElm x"])
qed (simp add: circleq_loop.simps)

interpretation circleq: single_queue circleq_at circleq_frame "circleq_step dbg" circleq_supported
    CIRCLEQ_FOREACH CIRCLEQ_EMPTY for dbg
proof unfold_locales
  show "\<exists>s'. circleq_step dbg (Init h) s = Inr s' \<and> circleq_at s' h [] \<and> circleq_frame s s' {h} {}"
    for h s
    by (simp add: CIRCLEQ_INIT_def circleq_at_def circleq_frame_def Let_def)
  show "CIRCLEQ_FOREACH s h = Some (Inr xs)" if "circleq_at s h xs" for s h xs
    using that circleq_loop_cseg by (auto simp: CIRCLEQ_FOREACH_def circleq_at_def)
  show "CIRCLEQ_EMPTY s h \<longleftrightarrow> xs = []" if "circleq_at s h xs" for s h xs
    using that by (simp add: CIRCLEQ_EMPTY_def CIRCLEQ_FIRST_def circleq_at_def)
qed (use circleq_at_frame circleq_step_at in auto)

interpretation circleqb: bidir_queue_impl "family circleq_at" "circleq_step dbg" circleq_supported
    CIRCLEQ_FOREACH CIRCLEQ_EMPTY CIRCLEQ_FOREACH_REVERSE for dbg
proof unfold_locales
  show "CIRCLEQ_FOREACH_REVERSE s h = Some (Inr (rev (L ! h)))"
    if "family circleq_at s L" "h < length L" for s L h
  proof -
    have at: "circleq_at s h (L ! h)" using familyD(1)[OF that] .
    then have "cseg (cqe_prev s) (cqe_next s) (CHead h) (rev (L ! h)) (CHead h)"
      by (simp add: circleq_at_def flip: cseg_rev)
    then show ?thesis
      using circleq_loop_cseg at cend_rev[of _ "rev (L ! h)"]
      by (auto simp: CIRCLEQ_FOREACH_REVERSE_def circleq_at_def)
  qed
qed

subsection \<open>Properties\<close>

text \<open>
  C14: From any memory, with or without \<^theory_text>\<open>QUEUEDEBUG\<close>, any sequence of
  \<^theory_text>\<open>CIRCLEQ\<close> macros that keeps their preconditions runs without a fault or a debug abort
  and never uses a head as an element; afterwards \<^theory_text>\<open>CIRCLEQ_FOREACH\<close> visits on every
  head the elements the list specification predicts and \<^theory_text>\<open>CIRCLEQ_FOREACH_REVERSE\<close>
  the same in the opposite order.
\<close>

theorem circleq_runs_as_specified:
  assumes "list_all circleq_supported ops" and "spec_run ops [] = Some L"
  shows "\<exists>s'. run (circleq_step dbg) ops s = Inr s' \<and>
    (\<forall>h<length L. CIRCLEQ_FOREACH s' h = Some (Inr (L ! h)) \<and>
      CIRCLEQ_FOREACH_REVERSE s' h = Some (Inr (rev (L ! h))))"
  using assms by (rule circleqb.run_observe_rev)

lemma circleq_runs_as_specified_witness:
  "\<exists>s'. run (circleq_step True) [Init 0, Init 1, Insert_head 0 3, Insert_tail 0 4, Insert_tail 1 8,
      Insert_before 0 3 2, Insert_after 0 3 9, Remove 0 3, Remove 1 8]
      \<lparr>cqh_first = (\<lambda>_. CNull), cqh_last = (\<lambda>_. CNull), cqe_next = (\<lambda>_. CPoison),
       cqe_prev = (\<lambda>_. CPoison)\<rparr> = Inr s' \<and>
    (\<forall>h<length [[2, 9, 4], [] :: nat list].
      CIRCLEQ_FOREACH s' h = Some (Inr ([[2, 9, 4], []] ! h)) \<and>
      CIRCLEQ_FOREACH_REVERSE s' h = Some (Inr (rev ([[2, 9, 4], []] ! h))))"
  by (rule circleq_runs_as_specified) simp_all

text \<open>
  \<^theory_text>\<open>CIRCLEQ_LOOP_NEXT\<close> and \<^theory_text>\<open>CIRCLEQ_LOOP_PREV\<close> walk the ring
  without its head: from the element at position \<open>i\<close> of \<open>n\<close> they lead to the positions \<open>i + 1\<close>
  and \<open>i - 1\<close> modulo \<open>n\<close>.
\<close>

theorem circleq_loop_steps:
  assumes "circleq_at s h xs" and "i < length xs"
  shows "CIRCLEQ_LOOP_NEXT s h (xs ! i) = CElm (xs ! ((i + 1) mod length xs)) \<and>
    CIRCLEQ_LOOP_PREV s h (xs ! i) = CElm (xs ! ((i + length xs - 1) mod length xs))"
proof -
  define as bs where "as = take i xs" and "bs = drop (Suc i) xs"
  have xs: "xs = as @ xs ! i # bs" "length as = i"
    using assms(2) id_take_nth_drop[of i xs] by (simp_all add: as_def bs_def)
  have links: "cqe_next s (xs ! i) = chd bs (CHead h)" "cqe_prev s (xs ! i) = cend (CHead h) as"
    "cqh_first s h = chd xs (CHead h)" "cqh_last s h = cend (CHead h) xs"
    using assms(1) xs(1) by (auto simp: circleq_at_def) (metis cseg.simps(2) cseg_append)+
  have "CIRCLEQ_LOOP_NEXT s h (xs ! i) = CElm (xs ! ((i + 1) mod length xs))"
  proof (cases bs)
    case Nil
    then have "length xs = Suc i" using xs by (metis length_append_singleton)
    then show ?thesis
      using Nil links by (cases xs) (auto simp: CIRCLEQ_LOOP_NEXT_def)
  next
    case (Cons b cs)
    then have "xs = (as @ [xs ! i]) @ b # cs" and "length (as @ [xs ! i]) = Suc i"
      using xs by auto
    then have "xs ! Suc i = b" "Suc i < length xs"
      by (metis nth_append_length, metis length_append length_Cons less_add_Suc1 add_Suc_right)
    then show ?thesis
      using Cons links by (simp add: CIRCLEQ_LOOP_NEXT_def)
  qed
  moreover have "CIRCLEQ_LOOP_PREV s h (xs ! i) = CElm (xs ! ((i + length xs - 1) mod length xs))"
  proof (cases i)
    case 0
    then have "as = []" using xs by simp
    then show ?thesis
      using 0 links assms(2) by (auto simp: CIRCLEQ_LOOP_PREV_def cend_def last_conv_nth)
  next
    case (Suc j)
    then have "last as = xs ! j" "as \<noteq> []"
      using assms(2) by (auto simp: as_def take_Suc_conv_app_nth)
    moreover have "(i + length xs - 1) mod length xs = j" using Suc assms(2) by simp
    ultimately show ?thesis using links by (simp add: CIRCLEQ_LOOP_PREV_def cend_def)
  qed
  ultimately show ?thesis ..
qed

lemma circleq_loop_steps_witness:
  "CIRCLEQ_LOOP_NEXT \<lparr>cqh_first = (\<lambda>_. CElm 5), cqh_last = (\<lambda>_. CElm 6),
      cqe_next = (\<lambda>_. CHead 0)(5 := CElm 6), cqe_prev = (\<lambda>_. CHead 0)(6 := CElm 5)\<rparr> 0 ([5, 6] ! 1) =
      CElm ([5, 6] ! ((1 + 1) mod length [5, 6 :: nat])) \<and>
    CIRCLEQ_LOOP_PREV \<lparr>cqh_first = (\<lambda>_. CElm 5), cqh_last = (\<lambda>_. CElm 6),
      cqe_next = (\<lambda>_. CHead 0)(5 := CElm 6), cqe_prev = (\<lambda>_. CHead 0)(6 := CElm 5)\<rparr> 0 ([5, 6] ! 1) =
      CElm ([5, 6] ! ((1 + length [5, 6 :: nat] - 1) mod length [5, 6 :: nat]))"
  by (rule circleq_loop_steps[where xs = "[5, 6]"]) (simp_all add: circleq_at_def)

end
