(* ===== verification/Calendar.thy ===== *)
theory Calendar
  imports Prelude
begin

text \<open>
  What the C code uses of the C library's calendar: broken-down times (\<^theory_text>\<open>struct tm\<close>),
  the conversion of a broken-down time to seconds since the Epoch (as \<^theory_text>\<open>mktime\<close> does it,
  fields out of range included) and back, and that the two are inverse. The calendar is the
  proleptic Gregorian one; days are numbered from 1970-01-01, and a month is numbered from 0 as in
  \<^theory_text>\<open>tm_mon\<close>.
\<close>

record tm =
  tm_sec :: int
  tm_min :: int
  tm_hour :: int
  tm_mday :: int
  tm_mon :: int
  tm_year :: int
  tm_isdst :: int

subsection \<open>Years\<close>

definition leap_year :: "int \<Rightarrow> bool" where
  "leap_year y \<longleftrightarrow> y mod 4 = 0 \<and> (y mod 100 \<noteq> 0 \<or> y mod 400 = 0)"

definition year_length :: "int \<Rightarrow> int" where
  "year_length y = (if leap_year y then 366 else 365)"

definition leaps_before :: "int \<Rightarrow> int" where
  "leaps_before y = (y - 1) div 4 - (y - 1) div 100 + (y - 1) div 400"

text \<open>The number of the first day of a year.\<close>

definition year_start :: "int \<Rightarrow> int" where
  "year_start y = 365 * (y - 1970) + leaps_before y - 477"

lemma div_bounds:
  fixes y k :: int
  assumes "0 < k"
  shows "k * (y div k) \<le> y" and "y < k * (y div k) + k"
  using pos_mod_bound[of k y] pos_mod_sign[of k y] mult_div_mod_eq[of k y] assms by linarith+

lemma div_step: "0 < k \<Longrightarrow> y div k = (y - 1) div k + (if y mod k = 0 then 1 else 0)" for y k :: int
proof -
  assume k: "0 < k"
  have y: "y = k * (y div k) + y mod k" "0 \<le> y mod k" "y mod k < k" using k by simp_all
  have "(y - 1) div k = (if y mod k = 0 then y div k - 1 else y div k)"
  proof (cases "y mod k = 0")
    case True
    have "(y - 1) div k = y div k - 1"
      by (rule int_div_pos_eq[where r = "k - 1"]) (use y True k in \<open>auto simp: algebra_simps\<close>)
    with True show ?thesis by simp
  next
    case False
    have "(y - 1) div k = y div k"
      by (rule int_div_pos_eq[where r = "y mod k - 1"]) (use y False k in linarith)+
    with False show ?thesis by simp
  qed
  then show ?thesis by simp
qed

lemma mod_400_100_4:
  "y mod 400 = 0 \<Longrightarrow> y mod 100 = 0" "y mod 100 = 0 \<Longrightarrow> y mod 4 = 0" for y :: int
proof -
  assume "y mod 400 = 0"
  then obtain k where "y = 400 * k" by (auto elim: dvdE simp: mod_eq_0_iff_dvd)
  then have "y = 100 * (4 * k)" by simp
  then show "y mod 100 = 0" by (metis mod_mult_self1_is_0)
next
  assume "y mod 100 = 0"
  then obtain k where "y = 100 * k" by (auto elim: dvdE simp: mod_eq_0_iff_dvd)
  then have "y = 4 * (25 * k)" by simp
  then show "y mod 4 = 0" by (metis mod_mult_self1_is_0)
qed

lemma count_step:
  fixes a b c a' b' c' :: int
  assumes "a = a' + (if p then 1 else 0)" "b = b' + (if q then 1 else 0)"
    "c = c' + (if r then 1 else 0)" "r \<Longrightarrow> q" "q \<Longrightarrow> p"
  shows "a - b + c = a' - b' + c' + (if p \<and> (\<not> q \<or> r) then 1 else 0)"
  using assms(4,5) unfolding assms(1-3) by (cases p; cases q; cases r) simp_all

lemma year_start_Suc: "year_start (y + 1) = year_start y + year_length y"
proof -
  have "y div 4 - y div 100 + y div 400 =
      (y - 1) div 4 - (y - 1) div 100 + (y - 1) div 400 + (if leap_year y then 1 else 0)"
    unfolding leap_year_def
    by (rule count_step[OF div_step[OF zero_less_numeral] div_step[OF zero_less_numeral]
        div_step[OF zero_less_numeral] mod_400_100_4])
  then have "leaps_before (y + 1) = leaps_before y + (if leap_year y then 1 else 0)"
    by (simp only: leaps_before_def add_diff_cancel_right')
  then show ?thesis
    by (simp add: year_start_def year_length_def)
qed

lemma year_length_pos: "0 < year_length y"
  by (simp add: year_length_def)

lemma year_start_mono: "y \<le> z \<Longrightarrow> year_start y \<le> year_start z"
proof (induction z rule: int_ge_induct)
  case (step z)
  then show ?case using year_start_Suc[of z] year_length_pos[of z] by linarith
qed simp

text \<open>The mean year has 365.2425 days; the start of a year is within two days of its multiple.\<close>

lemma year_start_mean:
  "146097 * y - 287811596 \<le> 400 * year_start y"
  "400 * year_start y \<le> 146097 * y - 287810501"
proof -
  define a b c where "a = (y - 1) div 4" and "b = (y - 1) div 100" and "c = (y - 1) div 400"
  have "4 * a \<le> y - 1" "y - 1 < 4 * a + 4" "100 * b \<le> y - 1" "y - 1 < 100 * b + 100"
    "400 * c \<le> y - 1" "y - 1 < 400 * c + 400"
    unfolding a_def b_def c_def by (rule div_bounds, simp)+
  moreover have "year_start y = 365 * y + a - b + c - 719527"
    by (simp add: year_start_def leaps_before_def a_def b_def c_def)
  ultimately show "146097 * y - 287811596 \<le> 400 * year_start y"
    "400 * year_start y \<le> 146097 * y - 287810501" by linarith+
qed

definition year_of_day :: "int \<Rightarrow> int" where
  "year_of_day d = (let e = 1970 + (400 * d) div 146097 in
     if d < year_start e then e - 1 else if year_start (e + 1) \<le> d then e + 1 else e)"

lemma year_of_day:
  "year_start (year_of_day d) \<le> d \<and> d < year_start (year_of_day d + 1)"
proof -
  define q e where "q = 400 * d div 146097" and "e = 1970 + q"
  have "146097 * q \<le> 400 * d" "400 * d < 146097 * q + 146097"
    unfolding q_def by (rule div_bounds, simp)+
  then have e: "146097 * e - 287811090 \<le> 400 * d" "400 * d < 146097 * e - 287664993"
    by (simp_all add: e_def)
  have "year_start (e - 1) \<le> d" using year_start_mean(2)[of "e - 1"] e by (simp add: right_diff_distrib)
  moreover have "d < year_start (e + 2)" using year_start_mean(1)[of "e + 2"] e by (simp add: distrib_left)
  ultimately show ?thesis
    unfolding year_of_day_def q_def[symmetric] e_def[symmetric] by (auto simp: Let_def add.assoc)
qed

lemma year_of_day_unique:
  assumes "year_start y \<le> d" and "d < year_start (y + 1)"
  shows "year_of_day d = y"
proof -
  have "\<not> year_of_day d < y" "\<not> y < year_of_day d"
    using year_start_mono[of "year_of_day d + 1" y] year_start_mono[of "y + 1" "year_of_day d"]
      year_of_day[of d] assms by auto
  then show ?thesis by simp
qed

subsection \<open>Months\<close>

definition month_lengths :: "int \<Rightarrow> int list" where
  "month_lengths y = [31, if leap_year y then 29 else 28, 31, 30, 31, 30, 31, 31, 30, 31, 30, 31]"

lemma month_lengths_simps [simp]:
  "length (month_lengths y) = 12"
  "sum_list (month_lengths y) = year_length y"
  by (simp_all add: month_lengths_def year_length_def)

lemma month_lengths_pos: "n \<in> set (month_lengths y) \<Longrightarrow> 0 < n"
  by (auto simp: month_lengths_def)

text \<open>The month and the day in it (from 0) of a day of the year.\<close>

fun split_days :: "int list \<Rightarrow> int \<Rightarrow> nat \<times> int" where
  "split_days [] d = (0, d)"
| "split_days (n # ns) d =
     (if d < n then (0, d) else case split_days ns (d - n) of (m, r) \<Rightarrow> (Suc m, r))"

lemma split_days_sound:
  assumes "0 \<le> d" and "d < sum_list ns" and "split_days ns d = (m, r)"
  shows "m < length ns \<and> 0 \<le> r \<and> r < ns ! m \<and> sum_list (take m ns) + r = d"
  using assms
proof (induction ns arbitrary: d m r)
  case (Cons n ns)
  show ?case
  proof (cases "d < n")
    case False
    then obtain m' where "split_days ns (d - n) = (m', r)" "m = Suc m'"
      using Cons.prems(3) by (auto split: prod.splits)
    with Cons.IH[of "d - n" m' r] Cons.prems False show ?thesis by simp
  qed (use Cons.prems in auto)
qed simp

lemma split_days_complete:
  assumes "m < length ns" and "0 \<le> r" and "r < ns ! m" and "\<And>n. n \<in> set ns \<Longrightarrow> 0 < n"
  shows "split_days ns (sum_list (take m ns) + r) = (m, r)"
  using assms
proof (induction ns arbitrary: m)
  case (Cons n ns)
  show ?case
  proof (cases m)
    case (Suc k)
    have "0 \<le> sum_list (take k ns)"
      using Cons.prems(4) by (intro sum_list_nonneg) (auto dest: in_set_takeD intro: less_imp_le)
    with Suc Cons.IH[of k] Cons.prems show ?thesis by (auto simp: add.assoc)
  qed (use Cons.prems in simp)
qed simp

subsection \<open>Seconds\<close>

text \<open>
  Seconds since the Epoch of a broken-down time in UTC. As in \<^theory_text>\<open>mktime\<close>, months outside
  0 to 11 carry into the year and every other field may be out of its range.
\<close>

definition timegm :: "tm \<Rightarrow> int" where
  "timegm t =
     (let y = tm_year t + 1900 + tm_mon t div 12; m = nat (tm_mon t mod 12);
          day = year_start y + sum_list (take m (month_lengths y)) + tm_mday t - 1
      in ((day * 24 + tm_hour t) * 60 + tm_min t) * 60 + tm_sec t)"

definition gmtime :: "int \<Rightarrow> tm" where
  "gmtime t =
     (let day = t div 86400; s = t mod 86400; y = year_of_day day in
      case split_days (month_lengths y) (day - year_start y) of (m, r) \<Rightarrow>
      \<lparr>tm_sec = s mod 60, tm_min = s div 60 mod 60, tm_hour = s div 3600,
       tm_mday = r + 1, tm_mon = int m, tm_year = y - 1900, tm_isdst = 0\<rparr>)"

text \<open>A date of the calendar and a time of the day, without leap seconds.\<close>

definition valid_tm :: "tm \<Rightarrow> bool" where
  "valid_tm t \<longleftrightarrow> 0 \<le> tm_sec t \<and> tm_sec t < 60 \<and> 0 \<le> tm_min t \<and> tm_min t < 60 \<and>
     0 \<le> tm_hour t \<and> tm_hour t < 24 \<and> 0 \<le> tm_mon t \<and> tm_mon t < 12 \<and>
     1 \<le> tm_mday t \<and> tm_mday t \<le> month_lengths (tm_year t + 1900) ! nat (tm_mon t)"

text \<open>The fields that name a time.\<close>

definition same_time :: "tm \<Rightarrow> tm \<Rightarrow> bool" where
  "same_time a b \<longleftrightarrow> tm_year a = tm_year b \<and> tm_mon a = tm_mon b \<and> tm_mday a = tm_mday b \<and>
     tm_hour a = tm_hour b \<and> tm_min a = tm_min b \<and> tm_sec a = tm_sec b"

lemma same_time_refl [simp]: "same_time t t"
  by (simp add: same_time_def)

lemma same_time_sym: "same_time a b \<Longrightarrow> same_time b a"
  by (simp add: same_time_def)

lemma same_time_trans: "same_time a b \<Longrightarrow> same_time b c \<Longrightarrow> same_time a c"
  by (simp add: same_time_def)

lemma same_time_timegm: "same_time a b \<Longrightarrow> timegm a = timegm b"
  by (simp add: same_time_def timegm_def)

lemma same_time_valid: "same_time a b \<Longrightarrow> valid_tm a = valid_tm b"
  by (simp add: same_time_def valid_tm_def)

lemma seconds_split:
  fixes s m h d :: int
  assumes "0 \<le> s" "s < 60" "0 \<le> m" "m < 60" "0 \<le> h" "h < 24"
  shows "((d * 24 + h) * 60 + m) * 60 + s = 86400 * d + ((h * 60 + m) * 60 + s)"
    and "(86400 * d + ((h * 60 + m) * 60 + s)) div 86400 = d"
    and "(86400 * d + ((h * 60 + m) * 60 + s)) mod 86400 = (h * 60 + m) * 60 + s"
proof -
  show "((d * 24 + h) * 60 + m) * 60 + s = 86400 * d + ((h * 60 + m) * 60 + s)" by simp
  have "0 \<le> (h * 60 + m) * 60 + s" "(h * 60 + m) * 60 + s < 86400" using assms by auto
  then show "(86400 * d + ((h * 60 + m) * 60 + s)) div 86400 = d"
    "(86400 * d + ((h * 60 + m) * 60 + s)) mod 86400 = (h * 60 + m) * 60 + s"
    by (simp_all add: div_pos_pos_trivial mod_pos_pos_trivial)
qed

lemma div_3600: "x div 3600 = x div 60 div 60" for x :: int
proof -
  have "x div (60 * 60) = x div 60 div 60" by (rule zdiv_zmult2_eq) simp
  moreover have "60 * 60 = (3600 :: int)" by simp
  ultimately show ?thesis by (simp only:)
qed

lemma day_split:
  fixes s m h :: int
  assumes "0 \<le> s" "s < 60" "0 \<le> m" "m < 60" "0 \<le> h"
  shows "((h * 60 + m) * 60 + s) mod 60 = s" "((h * 60 + m) * 60 + s) div 60 mod 60 = m"
    and "((h * 60 + m) * 60 + s) div 3600 = h"
proof -
  show "((h * 60 + m) * 60 + s) mod 60 = s"
    by (rule int_mod_pos_eq[where q = "h * 60 + m"]) (use assms in simp_all)
  have a: "((h * 60 + m) * 60 + s) div 60 = h * 60 + m"
    by (rule int_div_pos_eq[where r = s]) (use assms in simp_all)
  show "((h * 60 + m) * 60 + s) div 60 mod 60 = m"
    unfolding a by (rule int_mod_pos_eq[where q = h]) (use assms in simp_all)
  show "((h * 60 + m) * 60 + s) div 3600 = h"
    unfolding div_3600 a
    by (rule int_div_pos_eq[where r = m]) (use assms in simp_all)
qed

lemma gmtime_timegm:
  assumes "valid_tm t"
  shows "same_time (gmtime (timegm t)) t"
proof -
  let ?y = "tm_year t + 1900" and ?m = "nat (tm_mon t)"
  define day where "day = year_start ?y + (sum_list (take ?m (month_lengths ?y)) + (tm_mday t - 1))"
  define s where "s = (tm_hour t * 60 + tm_min t) * 60 + tm_sec t"
  have t: "timegm t = 86400 * day + s"
    using assms by (simp add: timegm_def Let_def day_def s_def valid_tm_def)
  have ds: "(86400 * day + s) div 86400 = day" "(86400 * day + s) mod 86400 = s"
    using seconds_split[of "tm_sec t" "tm_min t" "tm_hour t" day] assms
    by (simp_all add: s_def valid_tm_def)
  have m: "?m < 12" "0 \<le> tm_mday t - 1" "tm_mday t - 1 < month_lengths ?y ! ?m"
    using assms by (auto simp: valid_tm_def)
  have sd: "split_days (month_lengths ?y) (day - year_start ?y) = (?m, tm_mday t - 1)"
    using split_days_complete[of ?m "month_lengths ?y" "tm_mday t - 1"] m month_lengths_pos
    by (simp add: day_def)
  have take_le: "sum_list (take k ns) \<ge> 0" if "\<And>n. n \<in> set ns \<Longrightarrow> 0 < n" for k and ns :: "int list"
    using that by (intro sum_list_nonneg) (auto dest: in_set_takeD intro: less_imp_le)
  have "sum_list (month_lengths ?y) = sum_list (take ?m (month_lengths ?y)) +
      (month_lengths ?y ! ?m + sum_list (drop (Suc ?m) (month_lengths ?y)))"
    using m(1) by (metis id_take_nth_drop month_lengths_simps(1) sum_list.append sum_list.Cons)
  moreover have "0 \<le> sum_list (drop (Suc ?m) (month_lengths ?y))"
    using month_lengths_pos by (intro sum_list_nonneg) (auto dest: in_set_dropD intro: less_imp_le)
  ultimately have "year_start ?y \<le> day" "day < year_start (?y + 1)"
    using m take_le[of "month_lengths ?y" ?m, OF month_lengths_pos] year_start_Suc[of ?y] by (auto simp: day_def)
  then have "year_of_day day = ?y" by (rule year_of_day_unique)
  with t ds sd have "gmtime (timegm t) =
      \<lparr>tm_sec = s mod 60, tm_min = s div 60 mod 60, tm_hour = s div 3600,
       tm_mday = tm_mday t, tm_mon = int ?m, tm_year = tm_year t, tm_isdst = 0\<rparr>"
    by (simp add: gmtime_def)
  with assms day_split[of "tm_sec t" "tm_min t" "tm_hour t"] show ?thesis
    by (simp add: same_time_def s_def valid_tm_def)
qed

lemma gmtime_parts:
  fixes t :: int
  defines "day \<equiv> t div 86400" and "s \<equiv> t mod 86400" and "y \<equiv> year_of_day (t div 86400)"
  obtains m r where "gmtime t = \<lparr>tm_sec = s mod 60, tm_min = s div 60 mod 60,
       tm_hour = s div 3600, tm_mday = r + 1, tm_mon = int m, tm_year = y - 1900, tm_isdst = 0\<rparr>"
    and "m < 12" and "0 \<le> r" and "r < month_lengths y ! m"
    and "year_start y + sum_list (take m (month_lengths y)) + r = day"
proof -
  obtain m r where mr: "split_days (month_lengths y) (day - year_start y) = (m, r)" by fastforce
  have "0 \<le> day - year_start y" "day - year_start y < sum_list (month_lengths y)"
    using year_of_day[of day] year_start_Suc[of y] by (auto simp: y_def day_def)
  from split_days_sound[OF this mr] have "m < 12" "0 \<le> r" "r < month_lengths y ! m"
    "year_start y + sum_list (take m (month_lengths y)) + r = day" by auto
  moreover have "gmtime t = \<lparr>tm_sec = s mod 60, tm_min = s div 60 mod 60,
       tm_hour = s div 3600, tm_mday = r + 1, tm_mon = int m, tm_year = y - 1900, tm_isdst = 0\<rparr>"
    using mr by (simp add: gmtime_def day_def s_def y_def Let_def)
  ultimately show ?thesis using that by blast
qed

lemma valid_gmtime: "valid_tm (gmtime t)"
proof (rule gmtime_parts[of t])
  fix m r
  let ?s = "t mod 86400"
  have "0 \<le> ?s" "?s < 86400" by simp_all
  then have "0 \<le> ?s div 3600" "?s div 3600 < 24" by (simp_all add: pos_imp_zdiv_nonneg_iff)
  then show "gmtime t = \<lparr>tm_sec = ?s mod 60, tm_min = ?s div 60 mod 60, tm_hour = ?s div 3600,
      tm_mday = r + 1, tm_mon = int m, tm_year = year_of_day (t div 86400) - 1900, tm_isdst = 0\<rparr> \<Longrightarrow>
    m < 12 \<Longrightarrow> 0 \<le> r \<Longrightarrow> r < month_lengths (year_of_day (t div 86400)) ! m \<Longrightarrow> ?thesis"
    by (simp add: valid_tm_def)
qed

lemma timegm_record:
  "m < 12 \<Longrightarrow> timegm \<lparr>tm_sec = s, tm_min = mi, tm_hour = h, tm_mday = r + 1, tm_mon = int m,
     tm_year = y - 1900, tm_isdst = z\<rparr> =
   86400 * (year_start y + sum_list (take m (month_lengths y)) + r) + ((h * 60 + mi) * 60 + s)"
  by (simp add: timegm_def Let_def)

lemma timegm_gmtime: "timegm (gmtime t) = t"
proof (rule gmtime_parts[of t])
  fix m r
  let ?s = "t mod 86400" and ?y = "year_of_day (t div 86400)"
  assume g: "gmtime t = \<lparr>tm_sec = ?s mod 60, tm_min = ?s div 60 mod 60, tm_hour = ?s div 3600,
      tm_mday = r + 1, tm_mon = int m, tm_year = ?y - 1900, tm_isdst = 0\<rparr>"
    and m: "m < 12" and day: "year_start ?y + sum_list (take m (month_lengths ?y)) + r = t div 86400"
  have s: "(?s div 3600 * 60 + ?s div 60 mod 60) * 60 + ?s mod 60 = ?s"
    unfolding div_3600 by (simp only: div_mult_mod_eq)
  show "timegm (gmtime t) = t"
    unfolding g timegm_record[OF m] day s by (rule mult_div_mod_eq)
qed

end
