(* ===== verification/Posixtm.thy ===== *)
theory Posixtm
  imports Calendar
begin

unbundle bit_operations_syntax

text \<open>
  \<open>at/posixtm.c\<close> and \<open>posixtm.h\<close>: parsing the dates of \<^theory_text>\<open>touch -t\<close>,
  \<^theory_text>\<open>date\<close> and \<^theory_text>\<open>at -t\<close>. The time functions of the C library are
  arguments of the model; \<open>local_time\<close> states what POSIX promises of them, and a clock at a fixed
  offset from UTC with a \<^theory_text>\<open>time_t\<close> of some range is shown to keep that promise.

  A function that returns 0 or 1 is modelled by \<open>Some\<close> of what it wrote or \<open>None\<close>: what a failing
  call leaves in the structure is not used by its callers. \<open>abort ()\<close> and reading outside the
  string or the initialised part of the array of digit pairs are faults.
\<close>

definition PDS_LEADING_YEAR :: "32 word" where "PDS_LEADING_YEAR = 1"
definition PDS_TRAILING_YEAR :: "32 word" where "PDS_TRAILING_YEAR = 2"
definition PDS_CENTURY :: "32 word" where "PDS_CENTURY = 4"
definition PDS_SECONDS :: "32 word" where "PDS_SECONDS = 8"
definition PDS_PRE_2000 :: "32 word" where "PDS_PRE_2000 = 16"

lemmas PDS_defs = PDS_LEADING_YEAR_def PDS_TRAILING_YEAR_def PDS_CENTURY_def PDS_SECONDS_def
  PDS_PRE_2000_def

datatype parse_fault = Aborted | Out_of_bounds

subsection \<open>The parser\<close>

text \<open>A \<^theory_text>\<open>char\<close> as an int; it is signed on the targets. The string ends in a zero byte.\<close>

definition char_int :: "char \<Rightarrow> int" where
  "char_int c = (let n = of_char c :: int in if n < 128 then n else n - 256)"

definition str_at :: "string \<Rightarrow> nat \<Rightarrow> parse_fault + int" where
  "str_at s i = (if i < length s then Inr (char_int (s ! i))
     else if i = length s then Inr 0 else Inl Out_of_bounds)"

definition pair_at :: "int list \<Rightarrow> nat \<Rightarrow> parse_fault + int" where
  "pair_at ps i = (if i < length ps then Inr (ps ! i) else Inl Out_of_bounds)"

definition ISDIGIT :: "int \<Rightarrow> bool" where
  "ISDIGIT c \<longleftrightarrow> (word_of_int c :: 32 word) - 48 \<le> 9"

fun strchr :: "string \<Rightarrow> char \<Rightarrow> nat option" where
  "strchr [] c = None"
| "strchr (x # xs) c = (if x = c then Some 0 else map_option Suc (strchr xs c))"

definition year ::
    "int \<Rightarrow> (int \<Rightarrow> tm option) \<Rightarrow> tm \<Rightarrow> int list \<Rightarrow> nat \<Rightarrow> nat \<Rightarrow> 32 word \<Rightarrow> parse_fault + tm option"
  where
  "year now localtime tm pair p n syntax_bits =
     (if n = 1 then
        bindR (pair_at pair p) (\<lambda>y.
        let tm = tm\<lparr>tm_year := y\<rparr> in
        if y \<le> 68
        then if syntax_bits AND PDS_PRE_2000 \<noteq> 0 then Inr None
             else Inr (Some (tm\<lparr>tm_year := tm_year tm + 100\<rparr>))
        else Inr (Some tm))
      else if n = 2 then
        if \<not> (syntax_bits AND PDS_CENTURY \<noteq> 0) then Inr None
        else bindR (pair_at pair p) (\<lambda>c. bindR (pair_at pair (p + 1)) (\<lambda>y.
             Inr (Some (tm\<lparr>tm_year := c * 100 + y - 1900\<rparr>))))
      else if n = 0 then
        case localtime now of None \<Rightarrow> Inr None
        | Some tmp \<Rightarrow> Inr (Some (tm\<lparr>tm_year := tm_year tmp\<rparr>))
      else Inl Aborted)"

text \<open>The two loops over the string: all of the first \<open>n\<close> characters from \<open>i\<close>, and \<open>n\<close> pairs.\<close>

fun digits_loop :: "string \<Rightarrow> nat \<Rightarrow> nat \<Rightarrow> parse_fault + bool" where
  "digits_loop s i 0 = Inr True"
| "digits_loop s i (Suc n) =
     bindR (str_at s i) (\<lambda>c. if \<not> ISDIGIT c then Inr False else digits_loop s (i + 1) n)"

fun pairs_loop :: "string \<Rightarrow> nat \<Rightarrow> nat \<Rightarrow> parse_fault + int list" where
  "pairs_loop s i 0 = Inr []"
| "pairs_loop s i (Suc n) =
     (if i < 6 then
        bindR (str_at s (2 * i)) (\<lambda>a. bindR (str_at s (2 * i + 1)) (\<lambda>b.
        bindR (pairs_loop s (i + 1) n) (\<lambda>ps. Inr ((10 * (a - 48) + b - 48) # ps))))
      else Inl Out_of_bounds)"

text \<open>The end of the parser: the seconds behind the point.\<close>

definition parse_seconds :: "string \<Rightarrow> nat option \<Rightarrow> tm \<Rightarrow> parse_fault + tm option" where
  "parse_seconds s dot tm =
     (case dot of None \<Rightarrow> Inr (Some (tm\<lparr>tm_sec := 0\<rparr>))
      | Some dot \<Rightarrow>
          bindR (str_at s (dot + 1)) (\<lambda>a. bindR (str_at s (dot + 2)) (\<lambda>b.
          if \<not> ISDIGIT a \<or> \<not> ISDIGIT b then Inr None
          else Inr (Some (tm\<lparr>tm_sec := 10 * (a - 48) + b - 48\<rparr>)))))"

text \<open>The part that distributes the \<open>len\<close> pairs over the year and the other fields.\<close>

definition parse_pairs ::
    "int \<Rightarrow> (int \<Rightarrow> tm option) \<Rightarrow> int list \<Rightarrow> nat \<Rightarrow> 32 word \<Rightarrow> tm \<Rightarrow> parse_fault + tm option" where
  "parse_pairs now localtime pair len syntax_bits tm =
     bindRO (if syntax_bits AND PDS_LEADING_YEAR \<noteq> 0
             then bindRO (year now localtime tm pair 0 (len - 4) syntax_bits) (\<lambda>tm.
                  Inr (Some (tm, len - 4, 4)))
             else Inr (Some (tm, 0, len))) (\<lambda>(tm, p, len).
     bindR (pair_at pair p) (\<lambda>v. let tm = tm\<lparr>tm_mon := v - 1\<rparr> in
     bindR (pair_at pair (p + 1)) (\<lambda>v. let tm = tm\<lparr>tm_mday := v\<rparr> in
     bindR (pair_at pair (p + 2)) (\<lambda>v. let tm = tm\<lparr>tm_hour := v\<rparr> in
     bindR (pair_at pair (p + 3)) (\<lambda>v. let tm = tm\<lparr>tm_min := v\<rparr>; p = p + 4; len = len - 4 in
     if syntax_bits AND PDS_TRAILING_YEAR \<noteq> 0
     then year now localtime tm pair p len syntax_bits
     else Inr (Some tm))))))"

definition posix_time_parse ::
    "int \<Rightarrow> (int \<Rightarrow> tm option) \<Rightarrow> tm \<Rightarrow> string \<Rightarrow> 32 word \<Rightarrow> parse_fault + tm option" where
  "posix_time_parse now localtime tm s syntax_bits =
     (let dot = (if syntax_bits AND PDS_SECONDS \<noteq> 0 then strchr s (CHR ''.'') else None);
          s_len = length s;
          len = (case dot of Some d \<Rightarrow> d | None \<Rightarrow> s_len)
      in
      if len \<noteq> 8 \<and> len \<noteq> 10 \<and> len \<noteq> 12 then Inr None
      else if dot \<noteq> None \<and> (syntax_bits AND PDS_SECONDS = 0 \<or> s_len - len \<noteq> 3) then Inr None
      else
      bindR (digits_loop s 0 len) (\<lambda>ok. if \<not> ok then Inr None else
      bindR (pairs_loop s 0 (len div 2)) (\<lambda>pair.
      bindRO (parse_pairs now localtime pair (len div 2) syntax_bits tm) (parse_seconds s dot))))"

text \<open>
  \<^theory_text>\<open>mktime\<close> returns the time and the normalised broken-down time, \<open>- 1\<close> for an error.
\<close>

definition posixtime ::
    "int \<Rightarrow> (int \<Rightarrow> tm option) \<Rightarrow> (tm \<Rightarrow> int \<times> tm) \<Rightarrow> tm \<Rightarrow> string \<Rightarrow> 32 word \<Rightarrow>
     parse_fault + int option" where
  "posixtime now localtime mktime uninit s syntax_bits =
     bindRO (posix_time_parse now localtime uninit s syntax_bits) (\<lambda>tm0.
     let (t, tm1) = mktime (tm0\<lparr>tm_isdst := - 1\<rparr>) in
     case (if t \<noteq> - 1 then Some tm1 else localtime t) of
       None \<Rightarrow> Inr None
     | Some tm \<Rightarrow>
         if (tm_year tm0 XOR tm_year tm) OR (tm_mon tm0 XOR tm_mon tm)
            OR (tm_mday tm0 XOR tm_mday tm) OR (tm_hour tm0 XOR tm_hour tm)
            OR (tm_min tm0 XOR tm_min tm) OR (tm_sec tm0 XOR tm_sec tm) \<noteq> 0
         then Inr None
         else Inr (Some t))"

subsection \<open>What the parser computes\<close>

definition is_digit :: "char \<Rightarrow> bool" where
  "is_digit c \<longleftrightarrow> 48 \<le> (of_char c :: int) \<and> (of_char c :: int) \<le> 57"

definition digit_val :: "char \<Rightarrow> int" where
  "digit_val c = of_char c - 48"

fun pairs_of :: "int list \<Rightarrow> int list" where
  "pairs_of (a # b # ds) = (10 * a + b) # pairs_of ds"
| "pairs_of _ = []"

text \<open>
  The reference definition: the text before the point (where seconds are allowed) is four, five or
  six pairs of digits; four of them are month, day, hour and minute, the others the year.
\<close>

fun spec_year :: "int option \<Rightarrow> 32 word \<Rightarrow> int list \<Rightarrow> int option" where
  "spec_year this_year bits [] = this_year"
| "spec_year this_year bits [yy] =
     (if 68 < yy then Some yy else if bits AND PDS_PRE_2000 \<noteq> 0 then None else Some (yy + 100))"
| "spec_year this_year bits [cc, yy] =
     (if bits AND PDS_CENTURY \<noteq> 0 then Some (100 * cc + yy - 1900) else None)"
| "spec_year this_year bits _ = None"

fun spec_seconds :: "string \<Rightarrow> int option" where
  "spec_seconds [] = Some 0"
| "spec_seconds [p, a, b] =
     (if is_digit a \<and> is_digit b then Some (10 * digit_val a + digit_val b) else None)"
| "spec_seconds _ = None"

definition date_spec :: "int option \<Rightarrow> tm \<Rightarrow> string \<Rightarrow> 32 word \<Rightarrow> tm option" where
  "date_spec this_year tm s bits =
     (let point = (\<lambda>c. bits AND PDS_SECONDS \<noteq> 0 \<and> c = CHR ''.'');
          body = takeWhile (\<lambda>c. \<not> point c) s; rest = dropWhile (\<lambda>c. \<not> point c) s;
          ps = pairs_of (map digit_val body);
          k = (if bits AND PDS_LEADING_YEAR \<noteq> 0 then length ps - 4 else 0);
          time = take 4 (drop k ps); yr = take k ps @ drop (k + 4) ps
      in if length body \<in> {8, 10, 12} \<and> list_all is_digit body
         then Option.bind (spec_year this_year bits yr) (\<lambda>y.
              map_option (\<lambda>sec. tm\<lparr>tm_year := y, tm_mon := time ! 0 - 1, tm_mday := time ! 1,
                tm_hour := time ! 2, tm_min := time ! 3, tm_sec := sec\<rparr>) (spec_seconds rest))
         else None)"

lemma of_char_bounds: "0 \<le> (of_char c :: int)" "(of_char c :: int) < 256"
proof -
  have "(of_char c :: int) = of_char c mod 256" by (metis char_of_char of_char_of)
  then show "0 \<le> (of_char c :: int)" "(of_char c :: int) < 256"
    using pos_mod_sign[of 256 "of_char c :: int"] pos_mod_bound[of 256 "of_char c :: int"] by simp_all
qed

lemma ISDIGIT_range:
  assumes "- 128 \<le> c" and "c < 128"
  shows "ISDIGIT c \<longleftrightarrow> 48 \<le> c \<and> c \<le> 57"
proof -
  have "uint ((word_of_int c :: 32 word) - 48) = (c - 48) mod 2 ^ 32"
  proof -
    have "(word_of_int c :: 32 word) - 48 = word_of_int (c - 48)" by simp
    then show ?thesis by (simp only: uint_word_of_int_eq take_bit_eq_mod) simp
  qed
  also have "\<dots> = (if 48 \<le> c then c - 48 else c - 48 + 2 ^ 32)"
    using assms by (auto intro!: int_mod_pos_eq[where q = 0] int_mod_pos_eq[where q = "- 1"])
  finally have "uint ((word_of_int c :: 32 word) - 48) =
      (if 48 \<le> c then c - 48 else c - 48 + 2 ^ 32)" .
  then show ?thesis
    using assms by (auto simp: ISDIGIT_def word_le_def)
qed

lemma ISDIGIT_char [simp]: "ISDIGIT (char_int c) \<longleftrightarrow> is_digit c"
  using of_char_bounds[of c]
  by (subst ISDIGIT_range) (auto simp: char_int_def is_digit_def Let_def)

lemma char_int_digit [simp]: "is_digit c \<Longrightarrow> char_int c = digit_val c + 48"
  by (simp add: is_digit_def char_int_def digit_val_def)

lemma digit_val_bounds: "is_digit c \<Longrightarrow> 0 \<le> digit_val c" "is_digit c \<Longrightarrow> digit_val c \<le> 9"
  by (simp_all add: is_digit_def digit_val_def)

lemma str_at_nth [simp]: "i < length s \<Longrightarrow> str_at s i = Inr (char_int (s ! i))"
  by (simp add: str_at_def)

lemma digits_loop_eq:
  "i + n \<le> length s \<Longrightarrow> digits_loop s i n = Inr (list_all is_digit (take n (drop i s)))"
proof (induction n arbitrary: i)
  case (Suc n)
  then have "take (Suc n) (drop i s) = s ! i # take n (drop (Suc i) s)"
    by (metis Cons_nth_drop_Suc Suc_le_lessD add.commute add_Suc le_add1 le_trans not_less_eq_eq
        take_Suc_Cons)
  with Suc show ?case by simp
qed simp

lemma pairs_loop_eq:
  assumes "2 * (i + n) \<le> length s" and "i + n \<le> 6"
    and "list_all is_digit (take (2 * n) (drop (2 * i) s))"
  shows "pairs_loop s i n = Inr (pairs_of (map digit_val (take (2 * n) (drop (2 * i) s))))"
  using assms
proof (induction n arbitrary: i)
  case (Suc n)
  have "drop (2 * i) s = s ! (2 * i) # s ! (2 * i + 1) # drop (2 * (i + 1)) s"
    using Suc.prems(1) by (simp add: Cons_nth_drop_Suc)
  with Suc show ?case by simp
qed simp

lemma strchr_eq:
  "strchr s c = (if c \<in> set s then Some (length (takeWhile (\<lambda>x. x \<noteq> c) s)) else None)"
  by (induction s) auto

lemma length_pairs_of: "length (pairs_of ds) = length ds div 2"
  by (induction ds rule: pairs_of.induct) auto

lemma list_4_5_6:
  "length ps = 4 \<Longrightarrow> \<exists>a b c d. ps = [a, b, c, d]"
  "length ps = 5 \<Longrightarrow> \<exists>a b c d e. ps = [a, b, c, d, e]"
  "length ps = 6 \<Longrightarrow> \<exists>a b c d e f. ps = [a, b, c, d, e, f]"
  by (auto simp: numeral_eq_Suc length_Suc_conv)

lemma tm_year_first:
  "tm\<lparr>tm_mon := a, tm_mday := b, tm_hour := c, tm_min := d, tm_year := y\<rparr> =
   tm\<lparr>tm_year := y, tm_mon := a, tm_mday := b, tm_hour := c, tm_min := d\<rparr>"
  by (cases tm) simp

lemma parse_pairs_eq:
  fixes bits :: "32 word"
  assumes ps: "length ps \<in> {4, 5, 6}"
    and one: "(bits AND PDS_LEADING_YEAR \<noteq> 0) \<noteq> (bits AND PDS_TRAILING_YEAR \<noteq> 0)"
  defines "k \<equiv> (if bits AND PDS_LEADING_YEAR \<noteq> 0 then length ps - 4 else 0)"
  shows "parse_pairs now localtime ps (length ps) bits tm = Inr (map_option
      (\<lambda>y. tm\<lparr>tm_year := y, tm_mon := take 4 (drop k ps) ! 0 - 1,
         tm_mday := take 4 (drop k ps) ! 1, tm_hour := take 4 (drop k ps) ! 2,
         tm_min := take 4 (drop k ps) ! 3\<rparr>)
      (spec_year (map_option tm_year (localtime now)) bits (take k ps @ drop (k + 4) ps)))"
proof -
  consider (four) a b c d where "ps = [a, b, c, d]" | (five) a b c d e where "ps = [a, b, c, d, e]"
    | (six) a b c d e f where "ps = [a, b, c, d, e, f]"
    using ps list_4_5_6[of ps] by auto
  then show ?thesis
  proof cases
    case four
    then show ?thesis
      using one by (cases "localtime now"; cases "bits AND PDS_LEADING_YEAR \<noteq> 0")
        (simp_all add: k_def year_def pair_at_def numeral_eq_Suc Let_def parse_pairs_def
          tm_year_first)
  next
    case five
    then show ?thesis
      using one by (cases "bits AND PDS_LEADING_YEAR \<noteq> 0")
        (auto simp: k_def year_def pair_at_def numeral_eq_Suc Let_def parse_pairs_def
          tm_year_first)
  next
    case six
    then show ?thesis
      using one by (cases "bits AND PDS_LEADING_YEAR \<noteq> 0")
        (auto simp: k_def year_def pair_at_def numeral_eq_Suc Let_def parse_pairs_def
          tm_year_first algebra_simps)
  qed
qed

definition one_year_flag :: "32 word \<Rightarrow> bool" where
  "one_year_flag bits \<longleftrightarrow> (bits AND PDS_LEADING_YEAR \<noteq> 0) \<noteq> (bits AND PDS_TRAILING_YEAR \<noteq> 0)"

lemma posix_time_parse_matches_spec_aux:
  assumes "one_year_flag bits"
  shows "posix_time_parse now localtime tm s bits =
    Inr (date_spec (map_option tm_year (localtime now)) tm s bits)"
proof -
  define point where "point = (\<lambda>c. bits AND PDS_SECONDS \<noteq> 0 \<and> c = CHR ''.'')"
  define body rest where "body = takeWhile (\<lambda>c. \<not> point c) s" and "rest = dropWhile (\<lambda>c. \<not> point c) s"
  have s: "s = body @ rest" by (simp add: body_def rest_def)
  have dot: "(if bits AND PDS_SECONDS \<noteq> 0 then strchr s (CHR ''.'') else None) =
      (if rest = [] then None else Some (length body))"
    by (auto simp: strchr_eq rest_def body_def point_def dropWhile_eq_Nil_conv)
  have len: "(case if rest = [] then None else Some (length body) of Some d \<Rightarrow> d
      | None \<Rightarrow> length s) = length body"
    by (simp add: s)
  have sec: "bits AND PDS_SECONDS \<noteq> 0" if "rest \<noteq> []"
    using that by (auto simp: rest_def point_def dropWhile_eq_Nil_conv)
  have spec: "date_spec (map_option tm_year (localtime now)) tm s bits = None"
    if "\<not> (length body \<in> {8, 10, 12} \<and> list_all is_digit body \<and> length rest \<in> {0, 3})"
  proof -
    have "spec_seconds rest = None" if "length rest \<notin> {0, 3}"
      using that by (cases rest rule: spec_seconds.cases) auto
    with that show ?thesis
      by (auto simp: date_spec_def Let_def point_def[symmetric] body_def[symmetric]
          rest_def[symmetric] split: option.splits)
  qed
  show ?thesis
  proof (cases "length body \<in> {8, 10, 12} \<and> list_all is_digit body \<and> length rest \<in> {0, 3}")
    case False
    then show ?thesis
      unfolding spec[OF False] posix_time_parse_def dot Let_def len
      using digits_loop_eq[of 0 "length body" s] by (auto simp: s)
  next
    case True
    define ps where "ps = pairs_of (map digit_val body)"
    have ps: "length ps \<in> {4, 5, 6}" "length body div 2 = length ps"
      using True by (auto simp: ps_def length_pairs_of)
    have two: "2 * (length body div 2) = length body" using True by auto
    have digits: "digits_loop s 0 (length body) = Inr True"
      using digits_loop_eq[of 0 "length body" s] True by (simp add: s)
    have pairs: "pairs_loop s 0 (length body div 2) = Inr ps"
      using pairs_loop_eq[of 0 "length body div 2" s] True two by (auto simp: s ps_def)
    have tail: "parse_seconds s (if rest = [] then None else Some (length body)) u =
      Inr (map_option (\<lambda>x. u\<lparr>tm_sec := x\<rparr>) (spec_seconds rest))" for u
    proof (cases "rest = []")
      case False
      with True obtain p a b where "rest = [p, a, b]"
        by (auto simp: numeral_eq_Suc length_Suc_conv)
      then show ?thesis by (simp add: s nth_append parse_seconds_def)
    qed (simp add: parse_seconds_def)
    have len3: "length s - length body = 3" if "rest \<noteq> []" using True that by (auto simp: s)
    have run: "posix_time_parse now localtime tm s bits =
        bindRO (parse_pairs now localtime ps (length ps) bits tm)
          (parse_seconds s (if rest = [] then None else Some (length body)))"
      unfolding posix_time_parse_def dot Let_def len digits pairs
      using True ps(2) sec len3 by (auto simp: digits pairs)
    have bind: "bindRO (Inr (map_option g y)) (\<lambda>u. Inr (map_option (h u) sec)) =
        Inr (Option.bind y (\<lambda>x. map_option (h (g x)) sec))" for g h y and sec :: "int option"
      by (cases y) simp_all
    from True have ok: "length body \<in> {8, 10, 12} \<and> list_all is_digit body" by blast
    show ?thesis
      unfolding run parse_pairs_eq[OF ps(1) assms[unfolded one_year_flag_def]] tail bind
        date_spec_def Let_def point_def[symmetric] body_def[symmetric] rest_def[symmetric]
        ps_def[symmetric] if_P[OF ok] ..
  qed
qed

lemma xor_zero_iff: "a XOR b = 0 \<longleftrightarrow> a = b" for a b :: int
  by (metis xor.assoc xor.right_neutral xor_self_eq xor.left_neutral)

lemma fields_differ_iff:
  "(tm_year a XOR tm_year b) OR (tm_mon a XOR tm_mon b) OR (tm_mday a XOR tm_mday b) OR
   (tm_hour a XOR tm_hour b) OR (tm_min a XOR tm_min b) OR (tm_sec a XOR tm_sec b) = 0 \<longleftrightarrow>
   same_time a b"
  by (simp add: or_eq_0_iff xor_zero_iff same_time_def conj_assoc)

subsection \<open>The time functions of the C library\<close>

text \<open>
  What POSIX promises of \<^theory_text>\<open>mktime\<close> and \<^theory_text>\<open>localtime\<close> in any time zone: a
  successful \<^theory_text>\<open>mktime\<close> rewrites the fields to the local time of its result, and it does
  not fail nor rewrite the fields when they name a time that occurs. (When it occurs twice, at the
  end of daylight saving time, either may be returned.) As \<open>- 1\<close> is a time as well as the error
  value, the fields are only known to be rewritten when the result is another one.
\<close>

locale local_time =
  fixes localtime :: "int \<Rightarrow> tm option" and mktime :: "tm \<Rightarrow> int \<times> tm"
  assumes mktime_known: "localtime t = Some u \<Longrightarrow> same_time u tm \<Longrightarrow> tm_isdst tm = - 1 \<Longrightarrow>
      \<exists>t' v w. mktime tm = (t', v) \<and> localtime t' = Some w \<and> same_time w tm \<and>
        (t' \<noteq> - 1 \<longrightarrow> same_time v tm)"
    and mktime_ok: "mktime tm = (t, v) \<Longrightarrow> t \<noteq> - 1 \<Longrightarrow> \<exists>u. localtime t = Some u \<and> same_time u v"
begin

lemma posixtime_refuses:
  assumes "posix_time_parse now localtime uninit s bits = Inr r"
    and "\<And>tm t u. r = Some tm \<Longrightarrow> localtime t = Some u \<Longrightarrow> \<not> same_time u tm"
  shows "posixtime now localtime mktime uninit s bits = Inr None"
proof (cases r)
  case (Some tm0)
  obtain t tm1 where mk: "mktime (tm0\<lparr>tm_isdst := - 1\<rparr>) = (t, tm1)" by fastforce
  have "\<not> same_time tm0 tm" if "(if t \<noteq> - 1 then Some tm1 else localtime t) = Some tm" for tm
    using assms(2)[OF Some] mktime_ok[OF mk] that same_time_sym same_time_trans
    by (metis option.inject)
  with Some assms(1) mk show ?thesis
    by (auto simp: posixtime_def Let_def same_time_def fields_differ_iff split: option.split)
qed (use assms(1) in \<open>simp add: posixtime_def\<close>)

lemma posixtime_accepts:
  assumes "posix_time_parse now localtime uninit s bits = Inr (Some tm0)"
    and "localtime t = Some u" and "same_time u tm0"
  shows "\<exists>t' w. posixtime now localtime mktime uninit s bits = Inr (Some t') \<and>
    localtime t' = Some w \<and> same_time w tm0"
proof -
  have "same_time u (tm0\<lparr>tm_isdst := - 1\<rparr>)" using assms(3) by (simp add: same_time_def)
  then obtain t' v w where mk: "mktime (tm0\<lparr>tm_isdst := - 1\<rparr>) = (t', v)" "localtime t' = Some w"
      "same_time w tm0" "t' \<noteq> - 1 \<longrightarrow> same_time v tm0"
    using mktime_known[OF assms(2), of "tm0\<lparr>tm_isdst := - 1\<rparr>"] by (auto simp: same_time_def)
  then have "posixtime now localtime mktime uninit s bits = Inr (Some t')"
    using assms(1) by (auto simp: posixtime_def Let_def same_time_def fields_differ_iff)
  with mk show ?thesis by blast
qed

end

text \<open>A clock that is \<open>gmtoff\<close> seconds ahead of UTC all year, with the bounds of its \<^theory_text>\<open>time_t\<close>.\<close>

record clock =
  gmtoff :: int
  time_min :: int
  time_max :: int

definition valid_clock :: "clock \<Rightarrow> bool" where
  "valid_clock c \<longleftrightarrow> time_min c \<le> - 1 \<and> - 1 \<le> time_max c"

definition clock_localtime :: "clock \<Rightarrow> int \<Rightarrow> tm option" where
  "clock_localtime c t =
     (if time_min c \<le> t \<and> t \<le> time_max c then Some (gmtime (t + gmtoff c)) else None)"

definition clock_mktime :: "clock \<Rightarrow> tm \<Rightarrow> int \<times> tm" where
  "clock_mktime c tm = (let t = timegm tm - gmtoff c in
     if time_min c \<le> t \<and> t \<le> time_max c then (t, gmtime (t + gmtoff c)) else (- 1, tm))"

interpretation fixed_clock: local_time "clock_localtime c" "clock_mktime c" for c
proof unfold_locales
  fix t u tm
  assume "clock_localtime c t = Some u" and same: "same_time u tm"
  then have u: "u = gmtime (t + gmtoff c)" "time_min c \<le> t" "t \<le> time_max c"
    by (auto simp: clock_localtime_def split: if_splits)
  then have "timegm tm = t + gmtoff c"
    using same_time_timegm[OF same] timegm_gmtime by simp
  with u same show "\<exists>t' v w. clock_mktime c tm = (t', v) \<and> clock_localtime c t' = Some w \<and>
      same_time w tm \<and> (t' \<noteq> - 1 \<longrightarrow> same_time v tm)"
    by (simp add: clock_mktime_def clock_localtime_def)
qed (auto simp: clock_mktime_def clock_localtime_def Let_def split: if_splits)

subsection \<open>Properties\<close>

definition any_tm :: tm where
  "any_tm = \<lparr>tm_sec = 7, tm_min = 7, tm_hour = 7, tm_mday = 7, tm_mon = 7, tm_year = 7, tm_isdst = 7\<rparr>"

text \<open>
  C25: With exactly one of the two year flags (as all users pass), the parser computes what the
  reference definition says, for every string and every clock: it never calls \<open>abort ()\<close>, never
  reads outside the string or the pairs it has stored, refuses exactly the strings the reference
  refuses, and sets every field of the result, whatever the structure held before.
\<close>

theorem posix_time_parse_matches_spec:
  assumes "one_year_flag bits"
  shows "posix_time_parse now localtime tm s bits =
    Inr (date_spec (map_option tm_year (localtime now)) tm s bits)"
  using assms by (rule posix_time_parse_matches_spec_aux)

lemma posix_time_parse_matches_spec_witness:
  "posix_time_parse 0 (\<lambda>_. None) any_tm ''12131415'' 2 =
    Inr (date_spec (map_option tm_year (None :: tm option)) any_tm ''12131415'' 2)"
  by (rule posix_time_parse_matches_spec[where now = 0 and localtime = "\<lambda>_. None"])
    (simp add: one_year_flag_def PDS_defs)

lemma posixtime_on_clock:
  assumes "one_year_flag bits"
  shows "posixtime now (clock_localtime c) (clock_mktime c) uninit s bits =
    Inr (case date_spec (map_option tm_year (clock_localtime c now)) uninit s bits of
      None \<Rightarrow> None
    | Some tm \<Rightarrow> (let t = timegm tm - gmtoff c in
        if valid_tm tm \<and> time_min c \<le> t \<and> t \<le> time_max c then Some t else None))"
proof -
  let ?r = "date_spec (map_option tm_year (clock_localtime c now)) uninit s bits"
  note parse = posix_time_parse_matches_spec_aux[OF assms, of now "clock_localtime c" uninit s]
  have known: "t = timegm tm - gmtoff c \<and> valid_tm tm \<and> time_min c \<le> t \<and> t \<le> time_max c"
    if "clock_localtime c t = Some u" "same_time u tm" for t u tm
    using that same_time_timegm[OF that(2)] same_time_valid[OF that(2)] timegm_gmtime valid_gmtime
    by (auto simp: clock_localtime_def split: if_splits)
  show ?thesis
  proof (cases "\<exists>tm. ?r = Some tm \<and> valid_tm tm \<and> time_min c \<le> timegm tm - gmtoff c \<and>
      timegm tm - gmtoff c \<le> time_max c")
    case True
    then obtain tm where tm: "?r = Some tm" "valid_tm tm"
      "time_min c \<le> timegm tm - gmtoff c" "timegm tm - gmtoff c \<le> time_max c" by blast
    then have "clock_localtime c (timegm tm - gmtoff c) = Some (gmtime (timegm tm))"
      by (simp add: clock_localtime_def)
    from fixed_clock.posixtime_accepts[OF parse[unfolded tm(1)] this gmtime_timegm[OF tm(2)]]
    show ?thesis using known tm by fastforce
  next
    case False
    then have "posixtime now (clock_localtime c) (clock_mktime c) uninit s bits = Inr None"
      using known by (intro fixed_clock.posixtime_refuses[OF parse]) blast
    with False show ?thesis by (auto simp: Let_def split: option.split)
  qed
qed

text \<open>
  C24: Where exactly one year flag is given, and \<^theory_text>\<open>mktime\<close> and
  \<^theory_text>\<open>localtime\<close> keep the proleptic Gregorian calendar at a fixed offset,
  \<^theory_text>\<open>posixtime\<close> accepts exactly the dates that exist: it succeeds if and only if
  the parsed fields are a date of that calendar and a time of day and the result fits in
  \<^theory_text>\<open>time_t\<close>, and then the result is the number of seconds from the Epoch to that
  local time. In particular \<^theory_text>\<open>- 1\<close> is a result for the last second of 1969
  and not taken for an error. The row of the test table for the first day of year 0 does not follow
  this calendar; see \<^theory_text>\<open>posixtime_test_table\<close>.
\<close>

theorem posixtime_accepts_exactly:
  assumes "one_year_flag bits"
  shows "posixtime now (clock_localtime c) (clock_mktime c) uninit s bits =
    Inr (case date_spec (map_option tm_year (clock_localtime c now)) uninit s bits of
      None \<Rightarrow> None
    | Some tm \<Rightarrow> (let t = timegm tm - gmtoff c in
        if valid_tm tm \<and> time_min c \<le> t \<and> t \<le> time_max c then Some t else None))"
  using assms by (rule posixtime_on_clock)

definition utc :: clock where
  "utc = \<lparr>gmtoff = 0, time_min = - (2 ^ 63), time_max = 2 ^ 63 - 1\<rparr>"

lemma posixtime_accepts_exactly_witness:
  "posixtime 0 (clock_localtime utc) (clock_mktime utc) any_tm ''196912312359.59'' 13 =
    Inr (case date_spec (map_option tm_year (clock_localtime utc 0)) any_tm ''196912312359.59'' 13 of
      None \<Rightarrow> None
    | Some tm \<Rightarrow> (let t = timegm tm - gmtoff utc in
        if valid_tm tm \<and> time_min utc \<le> t \<and> t \<le> time_max utc then Some t else None))"
  by (rule posixtime_accepts_exactly) (simp add: one_year_flag_def PDS_defs)

lemmas posixtime_13 = posixtime_on_clock[of 13, unfolded one_year_flag_def PDS_defs, simplified]
lemmas posixtime_2 = posixtime_on_clock[of 2, unfolded one_year_flag_def PDS_defs, simplified]

text \<open>
  The rows of the test table in the comment at the end of \<open>posixtm.c\<close> hold in UTC with a
  64-bit \<^theory_text>\<open>time_t\<close> and the current year 2002, except the one for year 0: midnight of
  1 January 0000 is 86400 seconds before the value in the table, which is that of 2 January.
\<close>

theorem posixtime_test_table:
  "list_all (\<lambda>(s, bits, r).
     posixtime 1039788916 (clock_localtime utc) (clock_mktime utc) any_tm s bits = Inr r)
   [(''12131415.16'', 13, Some 1039788916),
    (''000001010000.00'', 13, Some (- 62167219200)),
    (''000001020000.00'', 13, Some (- 62167132800)),
    (''190112132045.52'', 13, Some (- 2147483648)),
    (''190112132045.53'', 13, Some (- 2147483647)),
    (''190112132046.52'', 13, Some (- 2147483588)),
    (''190112132145.52'', 13, Some (- 2147480048)),
    (''190112142045.52'', 13, Some (- 2147397248)),
    (''190201132045.52'', 13, Some (- 2144805248)),
    (''196912312359.59'', 13, Some (- 1)),
    (''197001010000.00'', 13, Some 0),
    (''197001010000.01'', 13, Some 1),
    (''197001010001.00'', 13, Some 60),
    (''197001010100.00'', 13, Some 3600),
    (''197001020000.00'', 13, Some 86400),
    (''197002010000.00'', 13, Some 2678400),
    (''197101010000.00'', 13, Some 31536000),
    (''197001000000.00'', 13, None),
    (''197000010000.00'', 13, None),
    (''197001010000.60'', 13, None),
    (''197001010060.00'', 13, None),
    (''197001012400.00'', 13, None),
    (''197001320000.00'', 13, None),
    (''197013010000.00'', 13, None),
    (''203801190314.06'', 13, Some 2147483646),
    (''203801190314.07'', 13, Some 2147483647),
    (''203801190314.08'', 13, Some 2147483648),
    (''999912312359.59'', 13, Some 253402300799),
    (''1112131415'', 13, Some 1323785700),
    (''1112131415.16'', 13, Some 1323785716),
    (''201112131415.16'', 13, Some 1323785716),
    (''191112131415.16'', 13, Some (- 1831974284)),
    (''203712131415.16'', 13, Some 2144326516),
    (''3712131415.16'', 13, Some 2144326516),
    (''6812131415.16'', 13, Some 3122633716),
    (''6912131415.16'', 13, Some (- 1590284)),
    (''7012131415.16'', 13, Some 29945716),
    (''1213141599'', 2, Some 945094500),
    (''1213141500'', 2, Some 976716900)]"
  by (simp only: list.pred_inject prod.case posixtime_13 posixtime_2) code_simp

text \<open>Printing a time in the full form \<^theory_text>\<open>CCYYMMDDhhmm.ss\<close>.\<close>

definition digit_char :: "int \<Rightarrow> char" where
  "digit_char k = char_of (48 + k)"

definition two :: "int \<Rightarrow> string" where
  "two n = [digit_char (n div 10), digit_char (n mod 10)]"

definition touch_format :: "tm \<Rightarrow> string" where
  "touch_format t = two ((tm_year t + 1900) div 100) @ two ((tm_year t + 1900) mod 100) @
     two (tm_mon t + 1) @ two (tm_mday t) @ two (tm_hour t) @ two (tm_min t) @ ''.'' @ two (tm_sec t)"

lemma digit_char_simps:
  assumes "0 \<le> k" and "k < 10"
  shows "is_digit (digit_char k)" and "digit_val (digit_char k) = k" and "digit_char k \<noteq> CHR ''.''"
proof -
  have c: "(of_char (digit_char k) :: int) = 48 + k"
    using assms by (simp add: digit_char_def of_char_of)
  then show "is_digit (digit_char k)" "digit_val (digit_char k) = k"
    using assms by (simp_all add: is_digit_def digit_val_def)
  show "digit_char k \<noteq> CHR ''.''" using c assms by auto
qed

lemma two_simps:
  assumes "0 \<le> n" and "n < 100"
  shows "list_all is_digit (two n)" and "map digit_val (two n) = [n div 10, n mod 10]"
    and "CHR ''.'' \<notin> set (two n)" and "length (two n) = 2"
proof -
  have "0 \<le> n div 10" "n div 10 < 10" using assms by (auto simp: pos_imp_zdiv_nonneg_iff)
  then show "list_all is_digit (two n)" "map digit_val (two n) = [n div 10, n mod 10]"
    "CHR ''.'' \<notin> set (two n)" "length (two n) = 2"
    using digit_char_simps[of "n div 10"] digit_char_simps[of "n mod 10"] by (auto simp: two_def)
qed

definition touch_bits :: "32 word" where
  "touch_bits = PDS_LEADING_YEAR OR PDS_CENTURY OR PDS_SECONDS"

lemma touch_bits_simps [simp]:
  "touch_bits AND PDS_LEADING_YEAR \<noteq> 0" "touch_bits AND PDS_CENTURY \<noteq> 0"
  "touch_bits AND PDS_SECONDS \<noteq> 0" "touch_bits AND PDS_TRAILING_YEAR = 0"
  by (simp_all add: touch_bits_def PDS_defs)

lemma date_spec_touch_format:
  assumes t: "valid_tm t" and y: "0 \<le> tm_year t + 1900" "tm_year t + 1900 < 10000"
  shows "\<exists>u. date_spec this_year tm (touch_format t) touch_bits = Some u \<and> same_time u t"
proof -
  define cc yy where "cc = (tm_year t + 1900) div 100" and "yy = (tm_year t + 1900) mod 100"
  define body where "body = two cc @ two yy @ two (tm_mon t + 1) @ two (tm_mday t) @
    two (tm_hour t) @ two (tm_min t)"
  have "month_lengths y ! m \<le> 31" if "m < 12" for y m
    using that by (auto simp: month_lengths_def numeral_eq_Suc less_Suc_eq)
  from this[of "nat (tm_mon t)" "tm_year t + 1900"] have mday: "tm_mday t < 100"
    using t by (auto simp: valid_tm_def nat_less_iff)
  have range: "0 \<le> cc" "cc < 100" "0 \<le> yy" "yy < 100" "0 \<le> tm_mon t + 1" "tm_mon t + 1 < 100"
    "0 \<le> tm_mday t" "0 \<le> tm_hour t" "tm_hour t < 100" "0 \<le> tm_min t" "tm_min t < 100"
    "0 \<le> tm_sec t" "tm_sec t < 100"
    using t y by (auto simp: valid_tm_def cc_def yy_def pos_imp_zdiv_nonneg_iff)
  note two = two_simps[OF range(1,2)] two_simps[OF range(3,4)] two_simps[OF range(5,6)]
    two_simps[OF range(7) mday] two_simps[OF range(8,9)] two_simps[OF range(10,11)]
    two_simps[OF range(12,13)]
  have s: "touch_format t = body @ ''.'' @ two (tm_sec t)"
    by (simp add: touch_format_def body_def cc_def yy_def)
  have body: "CHR ''.'' \<notin> set body" "length body = 12" "list_all is_digit body"
    using two by (auto simp: body_def)
  have split: "takeWhile (\<lambda>c. c \<noteq> CHR ''.'') (touch_format t) = body"
    "dropWhile (\<lambda>c. c \<noteq> CHR ''.'') (touch_format t) = ''.'' @ two (tm_sec t)"
    unfolding s using body(1) by (auto simp: takeWhile_append dropWhile_append)
  have ps: "pairs_of (map digit_val body) =
      [cc, yy, tm_mon t + 1, tm_mday t, tm_hour t, tm_min t]"
    unfolding body_def map_append two by simp
  have "spec_seconds (''.'' @ two (tm_sec t)) = Some (tm_sec t)"
    using two_simps(1,2)[OF range(12,13)] by (simp add: two_def)
  moreover have "100 * cc + yy - 1900 = tm_year t" by (simp add: cc_def yy_def)
  ultimately show ?thesis
    using body split by (simp add: date_spec_def ps same_time_def)
qed

text \<open>
  C26: Parsing a printed time gives it back: on every clock at a fixed offset, every time whose
  local year lies between 0 and 9999, printed as \<^theory_text>\<open>CCYYMMDDhhmm.ss\<close>, is accepted by
  \<^theory_text>\<open>posixtime\<close> with the flags of \<^theory_text>\<open>touch -t\<close> and yields that very time.
\<close>

theorem posixtime_touch_round_trip:
  assumes "clock_localtime c t = Some u" and "0 \<le> tm_year u + 1900" and "tm_year u + 1900 < 10000"
  shows "posixtime now (clock_localtime c) (clock_mktime c) uninit (touch_format u) touch_bits =
    Inr (Some t)"
proof -
  have u: "u = gmtime (t + gmtoff c)" "time_min c \<le> t" "t \<le> time_max c"
    using assms(1) by (auto simp: clock_localtime_def split: if_splits)
  then obtain v where v: "date_spec (map_option tm_year (clock_localtime c now)) uninit
      (touch_format u) touch_bits = Some v" "same_time v u"
    using date_spec_touch_format[OF _ assms(2,3)] valid_gmtime by blast
  then have "valid_tm v" "timegm v = t + gmtoff c"
    using u same_time_valid same_time_timegm valid_gmtime timegm_gmtime by metis+
  then show ?thesis
    using posixtime_on_clock[of touch_bits now c uninit "touch_format u"] v u
    by (simp add: one_year_flag_def)
qed

lemma posixtime_touch_round_trip_witness:
  "posixtime 0 (clock_localtime utc) (clock_mktime utc) any_tm
     (touch_format \<lparr>tm_sec = 40, tm_min = 46, tm_hour = 1, tm_mday = 9, tm_mon = 8, tm_year = 101,
       tm_isdst = 0\<rparr>) touch_bits = Inr (Some 1000000000)"
  by (rule posixtime_touch_round_trip) code_simp+

text \<open>
  Without either year flag the parser accepts eight, ten or twelve digits and leaves the year
  as it was before the call: \<^theory_text>\<open>posixtime\<close> then reads an uninitialised field, although the
  comment in it says that the parser sets all of the structure when it returns 0.
\<close>

theorem posix_time_parse_leaves_year:
  assumes "bits AND PDS_LEADING_YEAR = 0" and "bits AND PDS_TRAILING_YEAR = 0"
    and "bits AND PDS_SECONDS = 0" and "length s \<in> {8, 10, 12}" and "list_all is_digit s"
  shows "\<exists>u. posix_time_parse now localtime tm s bits = Inr (Some u) \<and> tm_year u = tm_year tm"
proof -
  define ps where "ps = pairs_of (map digit_val s)"
  have two: "2 * (length s div 2) = length s" and ps: "4 \<le> length ps"
    using assms(4) by (auto simp: ps_def length_pairs_of)
  have digits: "digits_loop s 0 (length s) = Inr True"
    using digits_loop_eq[of 0 "length s" s] assms(5) by simp
  have pairs: "pairs_loop s 0 (length s div 2) = Inr ps"
    using pairs_loop_eq[of 0 "length s div 2" s] assms(4,5) two by (auto simp: ps_def)
  show ?thesis
    using assms ps by (auto simp: posix_time_parse_def digits pairs parse_pairs_def pair_at_def
        parse_seconds_def Let_def)
qed

lemma posix_time_parse_leaves_year_witness:
  "\<exists>u. posix_time_parse 0 (clock_localtime utc) any_tm ''12131415'' PDS_CENTURY = Inr (Some u) \<and>
     tm_year u = tm_year any_tm"
  by (rule posix_time_parse_leaves_year) code_simp+

end
