(* ===== verification/Makedevs_Os.thy ===== *)
theory Makedevs_Os
  imports Prelude
begin

unbundle bit_operations_syntax

text \<open>
  What \<open>makedevs.c\<close> uses of a Linux system: path names relative to a working directory, inodes
  with type and permission bits, and the calls that create and change them, run by root with
  \<^theory_text>\<open>umask (0)\<close> as the program sets it. A path is a list of components; empty ones and
  \<^theory_text>\<open>.\<close> are dropped. Symbolic links and \<^theory_text>\<open>..\<close> are not modelled.

  Two documented effects of Linux matter to the program: \<^theory_text>\<open>mkdir\<close> only honours the
  permission and sticky bits of its mode (mask octal 1777), and \<^theory_text>\<open>chown\<close> of anything but
  a directory clears the set-user-ID bit, and the set-group-ID bit when the group execute bit is
  set, for root too.
\<close>

type_synonym path = "string list"

record inode =
  i_mode :: "32 word"
  i_uid :: "32 word"
  i_gid :: "32 word"
  i_rdev :: "64 word"
  i_data :: string

text \<open>\<open>openable\<close> says for which existing device nodes \<^theory_text>\<open>open\<close> finds a driver.\<close>

record os =
  fs :: "path \<Rightarrow> inode option"
  cwd :: path
  openable :: "64 word \<Rightarrow> bool"

datatype errno = EEXIST | ENOENT | EISDIR | ENXIO

definition S_IFMT :: "32 word" where "S_IFMT = 0xF000"
definition S_IFDIR :: "32 word" where "S_IFDIR = 0x4000"
definition S_IFCHR :: "32 word" where "S_IFCHR = 0x2000"
definition S_IFBLK :: "32 word" where "S_IFBLK = 0x6000"
definition S_IFREG :: "32 word" where "S_IFREG = 0x8000"
definition S_IFIFO :: "32 word" where "S_IFIFO = 0x1000"
definition S_ISUID :: "32 word" where "S_ISUID = 0x800"
definition S_ISGID :: "32 word" where "S_ISGID = 0x400"
definition S_IXGRP :: "32 word" where "S_IXGRP = 8"

lemmas S_defs = S_IFMT_def S_IFDIR_def S_IFCHR_def S_IFBLK_def S_IFREG_def S_IFIFO_def
  S_ISUID_def S_ISGID_def S_IXGRP_def

definition is_dir :: "inode \<Rightarrow> bool" where
  "is_dir i \<longleftrightarrow> i_mode i AND S_IFMT = S_IFDIR"

subsection \<open>Path names\<close>

fun split_on :: "char \<Rightarrow> string \<Rightarrow> string list" where
  "split_on c [] = [[]]"
| "split_on c (x # xs) = (if x = c then [] # split_on c xs
     else case split_on c xs of [] \<Rightarrow> [[x]] | y # ys \<Rightarrow> (x # y) # ys)"

definition components :: "string \<Rightarrow> path" where
  "components s = filter (\<lambda>c. c \<noteq> [] \<and> c \<noteq> ''.'') (split_on (CHR ''/'') s)"

text \<open>The empty path names nothing.\<close>

definition resolve :: "os \<Rightarrow> string \<Rightarrow> path option" where
  "resolve os s = (if s = [] then None
     else if hd s = CHR ''/'' then Some (components s) else Some (cwd os @ components s))"

lemma split_on_not_Nil [simp]: "split_on c s \<noteq> []"
  by (induction s) (auto split: list.splits)

lemma split_on_append:
  "split_on c (s @ c # t) = split_on c s @ split_on c t"
  by (induction s) (auto split: list.splits)

lemma split_on_free: "c \<notin> set s \<Longrightarrow> split_on c s = [s]"
  by (induction s) auto

lemma components_slash: "components (s @ CHR ''/'' # t) = components s @ components t"
  by (simp add: components_def split_on_append)

lemma components_one:
  "CHR ''/'' \<notin> set s \<Longrightarrow> s \<noteq> [] \<Longrightarrow> s \<noteq> ''.'' \<Longrightarrow> components s = [s]"
  by (simp add: components_def split_on_free)

lemma components_Nil [simp]: "components [] = []"
  by (simp add: components_def)

subsection \<open>Calls\<close>

definition lookup :: "os \<Rightarrow> string \<Rightarrow> inode option" where
  "lookup os s = (case resolve os s of None \<Rightarrow> None | Some p \<Rightarrow> fs os p)"

definition set_inode :: "path \<Rightarrow> inode \<Rightarrow> os \<Rightarrow> os" where
  "set_inode p i os = os\<lparr>fs := (fs os)(p \<mapsto> i)\<rparr>"

text \<open>Creating a name needs that it is free and that its parent is a directory.\<close>

definition create :: "string \<Rightarrow> inode \<Rightarrow> os \<Rightarrow> errno option \<times> os" where
  "create s i os = (case resolve os s of None \<Rightarrow> (Some ENOENT, os)
     | Some p \<Rightarrow>
         if fs os p \<noteq> None then (Some EEXIST, os)
         else if p = [] then (Some ENOENT, os)
         else (case fs os (butlast p) of
             Some d \<Rightarrow> if is_dir d then (None, set_inode p i os) else (Some ENOENT, os)
           | None \<Rightarrow> (Some ENOENT, os)))"

definition sys_mkdir :: "string \<Rightarrow> 32 word \<Rightarrow> os \<Rightarrow> errno option \<times> os" where
  "sys_mkdir s mode =
     create s \<lparr>i_mode = S_IFDIR OR (mode AND 0x3FF), i_uid = 0, i_gid = 0, i_rdev = 0, i_data = []\<rparr>"

definition sys_mknod :: "string \<Rightarrow> 32 word \<Rightarrow> 64 word \<Rightarrow> os \<Rightarrow> errno option \<times> os" where
  "sys_mknod s mode dev =
     create s \<lparr>i_mode = mode AND (S_IFMT OR 0xFFF), i_uid = 0, i_gid = 0,
       i_rdev = (if mode AND S_IFMT = S_IFCHR \<or> mode AND S_IFMT = S_IFBLK then dev else 0),
       i_data = []\<rparr>"

text \<open>
  \<^theory_text>\<open>open (path, O_CREAT | O_WRONLY, mode)\<close>, closed at once by the caller. \<open>None\<close> is
  a call that does not return: opening an existing fifo for writing waits for a reader.
\<close>

definition sys_open_creat :: "string \<Rightarrow> 32 word \<Rightarrow> os \<Rightarrow> (errno option \<times> os) option" where
  "sys_open_creat s mode os = (case lookup os s of
       None \<Rightarrow> Some (create s \<lparr>i_mode = S_IFREG OR (mode AND 0xFFF), i_uid = 0, i_gid = 0,
         i_rdev = 0, i_data = []\<rparr> os)
     | Some i \<Rightarrow>
         if is_dir i then Some (Some EISDIR, os)
         else if i_mode i AND S_IFMT = S_IFIFO then None
         else if i_mode i AND S_IFMT = S_IFCHR \<or> i_mode i AND S_IFMT = S_IFBLK
         then Some (if openable os (i_rdev i) then None else Some ENXIO, os)
         else Some (None, os))"

text \<open>The result of the remaining calls is not looked at by the program.\<close>

definition sys_chmod :: "string \<Rightarrow> 32 word \<Rightarrow> os \<Rightarrow> os" where
  "sys_chmod s mode os = (case resolve os s of None \<Rightarrow> os | Some p \<Rightarrow>
     (case fs os p of None \<Rightarrow> os
      | Some i \<Rightarrow> set_inode p (i\<lparr>i_mode := (i_mode i AND S_IFMT) OR (mode AND 0xFFF)\<rparr>) os))"

definition drop_suid :: "inode \<Rightarrow> inode" where
  "drop_suid i = (if is_dir i then i else
     let m = i_mode i AND NOT S_ISUID;
         m = (if m AND S_IXGRP \<noteq> 0 then m AND NOT S_ISGID else m)
     in i\<lparr>i_mode := m\<rparr>)"

definition sys_chown :: "string \<Rightarrow> 32 word \<Rightarrow> 32 word \<Rightarrow> os \<Rightarrow> os" where
  "sys_chown s uid gid os = (case resolve os s of None \<Rightarrow> os | Some p \<Rightarrow>
     (case fs os p of None \<Rightarrow> os
      | Some i \<Rightarrow> set_inode p ((drop_suid i)
          \<lparr>i_uid := (if uid = - 1 then i_uid i else uid),
           i_gid := (if gid = - 1 then i_gid i else gid)\<rparr>) os))"

subsection \<open>Laws\<close>

text \<open>A tree: the root is a directory and everything else lies in a directory.\<close>

definition tree_ok :: "os \<Rightarrow> bool" where
  "tree_ok os \<longleftrightarrow> (\<exists>r. fs os [] = Some r \<and> is_dir r) \<and>
     (\<forall>p c i. fs os (p @ [c]) = Some i \<longrightarrow> (\<exists>d. fs os p = Some d \<and> is_dir d))"

definition same_type :: "inode \<Rightarrow> inode \<Rightarrow> bool" where
  "same_type i j \<longleftrightarrow> i_mode i AND S_IFMT = i_mode j AND S_IFMT"

lemma same_type_simps [simp]:
  "same_type i i"
  "same_type (i\<lparr>i_uid := u, i_gid := g\<rparr>) j = same_type i j"
  by (simp_all add: same_type_def)

lemma same_type_trans: "same_type i j \<Longrightarrow> same_type j k \<Longrightarrow> same_type i k"
  by (simp add: same_type_def)

lemma same_type_dir: "same_type i j \<Longrightarrow> is_dir i = is_dir j"
  by (simp add: same_type_def is_dir_def)

text \<open>\<open>os'\<close> is \<open>os\<close> with at most the inode of one path created or changed, its type kept.\<close>

definition changed_at :: "path option \<Rightarrow> os \<Rightarrow> os \<Rightarrow> bool" where
  "changed_at p os os' \<longleftrightarrow> cwd os' = cwd os \<and> openable os' = openable os \<and>
     (\<forall>q. Some q \<noteq> p \<longrightarrow> fs os' q = fs os q) \<and>
     (\<forall>q i. fs os q = Some i \<longrightarrow> (\<exists>i'. fs os' q = Some i' \<and> same_type i' i)) \<and>
     (\<forall>q i. fs os q = None \<longrightarrow> fs os' q = Some i \<longrightarrow>
        q \<noteq> [] \<and> (\<exists>d. fs os (butlast q) = Some d \<and> is_dir d))"

lemma changed_at_refl [simp]: "changed_at p os os"
  by (simp add: changed_at_def)

lemma changed_at_new:
  "changed_at p os os' \<Longrightarrow> fs os q = None \<Longrightarrow> fs os' q = Some i \<Longrightarrow>
   q \<noteq> [] \<and> (\<exists>d. fs os (butlast q) = Some d \<and> is_dir d)"
  by (simp add: changed_at_def)

lemma changed_at_old:
  "changed_at p os os' \<Longrightarrow> fs os q = Some i \<Longrightarrow> \<exists>i'. fs os' q = Some i' \<and> same_type i' i"
  by (simp add: changed_at_def)

lemma changed_at_trans:
  assumes "changed_at p a b" and "changed_at p b c"
  shows "changed_at p a c"
proof -
  have "q \<noteq> [] \<and> (\<exists>d. fs a (butlast q) = Some d \<and> is_dir d)"
    if new: "fs a q = None" "fs c q = Some i" for q i
  proof (cases "fs b q")
    case None
    then obtain d where "q \<noteq> []" "fs b (butlast q) = Some d" "is_dir d"
      using changed_at_new[OF assms(2) None new(2)] by blast
    moreover have "p = Some q"
      using assms(2) None new(2) by (force simp: changed_at_def)
    moreover have "butlast q \<noteq> q" using \<open>q \<noteq> []\<close>
      by (metis append_butlast_last_id append_self_conv not_Cons_self2)
    ultimately show ?thesis using assms(1) by (auto simp: changed_at_def)
  next
    case (Some i')
    then show ?thesis using changed_at_new[OF assms(1) new(1)] by blast
  qed
  moreover have "\<exists>i''. fs c q = Some i'' \<and> same_type i'' i" if "fs a q = Some i" for q i
    using changed_at_old[OF assms(1) that] changed_at_old[OF assms(2)] same_type_trans by blast
  ultimately show ?thesis using assms by (simp add: changed_at_def)
qed

lemma changed_at_tree_ok:
  assumes "tree_ok os" and "changed_at p os os'"
  shows "tree_ok os'"
proof -
  have root: "\<exists>r. fs os' [] = Some r \<and> is_dir r"
    using assms changed_at_old[OF assms(2)] same_type_dir by (metis tree_ok_def)
  have "\<exists>d. fs os' q = Some d \<and> is_dir d" if "fs os' (q @ [c]) = Some i" for q c i
  proof -
    have "\<exists>d. fs os q = Some d \<and> is_dir d"
    proof (cases "fs os (q @ [c])")
      case None
      then show ?thesis using changed_at_new[OF assms(2) _ that] by simp
    next
      case (Some j)
      then show ?thesis using assms(1) by (auto simp: tree_ok_def)
    qed
    then show ?thesis using changed_at_old[OF assms(2)] same_type_dir by blast
  qed
  with root show ?thesis by (auto simp: tree_ok_def)
qed

lemma changed_at_resolve [simp]: "changed_at p os os' \<Longrightarrow> resolve os' s = resolve os s"
  by (simp add: changed_at_def resolve_def)

lemma create_changed: "changed_at (resolve os s) os (snd (create s i os))"
  by (auto simp: create_def changed_at_def set_inode_def split: option.splits)

lemma same_type_chmod [simp]:
  "same_type (i\<lparr>i_mode := (i_mode i AND S_IFMT) OR (m AND 0xFFF)\<rparr>) i"
proof -
  have "((w AND S_IFMT) OR (m AND 0xFFF)) AND S_IFMT = w AND S_IFMT" for w :: "32 word"
    by (simp add: S_IFMT_def bit.conj_disj_distrib2 and.assoc)
  then show ?thesis by (simp add: same_type_def)
qed

lemma same_type_drop_suid [simp]: "same_type (drop_suid i) i"
proof -
  have "(w AND NOT S_ISUID) AND S_IFMT = w AND S_IFMT"
    "((w AND NOT S_ISUID) AND NOT S_ISGID) AND S_IFMT = w AND S_IFMT" for w :: "32 word"
    by (simp_all add: S_defs and.assoc)
  then show ?thesis by (simp add: drop_suid_def same_type_def Let_def)
qed

lemma chmod_changed: "changed_at (resolve os s) os (sys_chmod s m os)"
  by (auto simp: sys_chmod_def changed_at_def set_inode_def split: option.splits)

lemma chown_changed: "changed_at (resolve os s) os (sys_chown s u g os)"
  by (auto simp: sys_chown_def changed_at_def set_inode_def split: option.splits)

lemma open_changed:
  "sys_open_creat s m os = Some (r, os') \<Longrightarrow> changed_at (resolve os s) os os'"
  using create_changed[of os s] by (auto simp: sys_open_creat_def split: option.splits if_splits)
    (metis snd_conv)

end
