(* ===== verification/C_Numbers.thy ===== *)
theory C_Numbers
  imports Prelude
begin

text \<open>
  Reading and printing numbers as the C library does: the value of a digit, the longest run of digits of
  a base, the saturation of \<open>strtol\<close> at the bounds of a \<open>long\<close>, and decimal output.
\<close>

definition base_digit :: "char \<Rightarrow> nat" where
  "base_digit c =
     (let k = (of_char c :: nat) in
      if 48 \<le> k \<and> k \<le> 57 then k - 48
      else if 97 \<le> k \<and> k \<le> 102 then k - 87
      else if 65 \<le> k \<and> k \<le> 70 then k - 55
      else 99)"

text \<open>The longest outcome of digits of the base, as a number.\<close>

fun scan_digits :: "nat \<Rightarrow> string \<Rightarrow> nat \<Rightarrow> nat" where
  "scan_digits b [] acc = acc"
| "scan_digits b (c # s) acc =
     (if base_digit c < b then scan_digits b s (acc * b + base_digit c) else acc)"

text \<open>The bounds of a signed integer of \<open>w\<close> bits.\<close>

definition saturate :: "nat \<Rightarrow> int \<Rightarrow> int" where
  "saturate w i = max (- (2 ^ (w - 1))) (min i (2 ^ (w - 1) - 1))"

text \<open>\<open>strtol (s, NULL, 16)\<close>: blanks, a sign, the optional prefix, and the digits.\<close>

definition hex_prefix :: "string \<Rightarrow> bool" where
  "hex_prefix s =
     (case s of
        c # d # e # _ \<Rightarrow> c = CHR ''0'' \<and> (d = CHR ''x'' \<or> d = CHR ''X'') \<and> base_digit e < 16
      | _ \<Rightarrow> False)"

definition strtol16 :: "nat \<Rightarrow> string \<Rightarrow> int" where
  "strtol16 w s =
     (let s = dropWhile isspace s;
          neg = (s \<noteq> [] \<and> hd s = CHR ''-'');
          s = (if s \<noteq> [] \<and> (hd s = CHR ''-'' \<or> hd s = CHR ''+'') then tl s else s);
          n = int (scan_digits 16 (if hex_prefix s then drop 2 s else s) 0)
      in saturate w (if neg then - n else n))"

subsection \<open>Decimal and octal numbers\<close>

definition isdigit :: "char \<Rightarrow> bool" where
  "isdigit c \<longleftrightarrow> 48 \<le> (of_char c :: nat) \<and> (of_char c :: nat) \<le> 57"

definition digit_below :: "nat \<Rightarrow> char \<Rightarrow> bool" where
  "digit_below base c \<longleftrightarrow> isdigit c \<and> (of_char c :: nat) - 48 < base"

definition num_of :: "nat \<Rightarrow> string \<Rightarrow> nat" where
  "num_of base s = foldl (\<lambda>n c. n * base + (of_char c - 48)) 0 s"

fun digits_of :: "nat \<Rightarrow> nat \<Rightarrow> string" where
  "digits_of b n = (if b < 2 \<or> n < b then [char_of (48 + n)]
     else digits_of b (n div b) @ [char_of (48 + n mod b)])"

declare digits_of.simps [simp del]

abbreviation dec :: "nat \<Rightarrow> string" where "dec \<equiv> digits_of 10"

definition show_int :: "int \<Rightarrow> string" where
  "show_int i = (if i < 0 then CHR ''-'' # dec (nat (- i)) else dec (nat i))"

text \<open>An optional sign: the sign and the rest.\<close>

definition split_sign :: "string \<Rightarrow> bool \<times> string" where
  "split_sign s = (case s of c # cs \<Rightarrow> if c = CHR ''-'' then (True, cs)
     else if c = CHR ''+'' then (False, cs) else (False, s) | [] \<Rightarrow> (False, []))"

definition atol :: "string \<Rightarrow> 64 word" where
  "atol s = (let (neg, t) = split_sign (dropWhile isspace s);
                 n = int (num_of 10 (takeWhile isdigit t));
                 v = (if neg then - n else n)
             in word_of_int (max (- (2 ^ 63)) (min (2 ^ 63 - 1) v)))"

subsection \<open>Numbers of any base\<close>

text \<open>
  \<open>strtol (s, &end, 0)\<close> and \<open>strtoul (s, &end, 0)\<close>: the base is told by the prefix. The value is whether
  a minus sign was there, the digits as a number and \<open>end\<close>, which is \<open>s\<close> itself when there is no digit.
\<close>

definition find_base :: "string \<Rightarrow> nat \<times> string" where
  "find_base s =
     (if hex_prefix s then (16, drop 2 s)
      else if s \<noteq> [] \<and> hd s = CHR ''0'' then (8, s) else (10, s))"

definition scan_base0 :: "string \<Rightarrow> bool \<times> nat \<times> string" where
  "scan_base0 s =
     (let (neg, t) = split_sign (dropWhile isspace s); (b, t) = find_base t;
          ds = takeWhile (\<lambda>c. base_digit c < b) t
      in if ds = [] then (False, 0, s) else (neg, scan_digits b ds 0, drop (length ds) t))"

definition strtol0 :: "string \<Rightarrow> int \<times> string" where
  "strtol0 s = (let (neg, n, rest) = scan_base0 s in
     (saturate 64 (if neg then - int n else int n), rest))"

definition strtoul0 :: "string \<Rightarrow> 64 word \<times> string" where
  "strtoul0 s = (let (neg, n, rest) = scan_base0 s in
     (if 2 ^ 64 \<le> n then - 1 else if neg then - of_nat n else of_nat n, rest))"

subsection \<open>Words\<close>

text \<open>The conversion of \<open>scanf\<close> for a word of at most \<open>n\<close> characters, and when it reads a word back.\<close>

definition scan_string :: "nat \<Rightarrow> string \<Rightarrow> (string \<times> string) option" where
  "scan_string n s = (let t = dropWhile isspace s; w = take n (takeWhile (\<lambda>c. \<not> isspace c) t)
     in if w = [] then None else Some (w, drop (length w) t))"

definition word_ok :: "nat \<Rightarrow> string \<Rightarrow> bool" where
  "word_ok n w \<longleftrightarrow> w \<noteq> [] \<and> length w \<le> n \<and> list_all (\<lambda>c. \<not> isspace c) w"

definition ends_word :: "string \<Rightarrow> bool" where
  "ends_word r \<longleftrightarrow> (case r of [] \<Rightarrow> True | c # _ \<Rightarrow> c = CHR '' '')"

lemma isspace_blank [simp]: "isspace (CHR '' '')"
  by (simp add: isspace_def)

lemma scan_string_word:
  assumes "word_ok n w" and "ends_word r"
  shows "scan_string n (w @ r) = Some (w, r)" and "scan_string n (CHR '' '' # w @ r) = Some (w, r)"
proof -
  have drop: "dropWhile isspace (w @ r) = w @ r"
    using assms(1) by (cases w) (auto simp: word_ok_def)
  have "takeWhile (\<lambda>c. \<not> isspace c) (w @ r) = w"
    using assms by (cases r) (auto simp: word_ok_def ends_word_def list_all_iff takeWhile_append2)
  moreover have "0 < n" using assms(1) by (cases w) (auto simp: word_ok_def)
  ultimately show "scan_string n (w @ r) = Some (w, r)"
    "scan_string n (CHR '' '' # w @ r) = Some (w, r)"
    using drop assms(1) by (simp_all add: scan_string_def word_ok_def Let_def)
qed

subsection \<open>Printed numbers read back\<close>

lemma of_char_digit: "n < 10 \<Longrightarrow> (of_char (char_of (48 + n)) :: nat) = 48 + n" for n :: nat
  by (simp add: of_char_of)

lemma digit_below_digit: "n < b \<Longrightarrow> b \<le> 10 \<Longrightarrow> digit_below b (char_of (48 + n))" for n :: nat
  by (simp add: digit_below_def isdigit_def of_char_of)

lemma digits_of_digits: "2 \<le> b \<Longrightarrow> b \<le> 10 \<Longrightarrow> list_all (digit_below b) (digits_of b n)"
proof (induction b n rule: digits_of.induct)
  case (1 b n)
  then show ?case
    by (subst digits_of.simps) (auto simp: digit_below_digit)
qed

lemma dec_digits: "list_all isdigit (dec n)"
  using digits_of_digits[of 10 n] by (auto simp: list_all_iff digit_below_def)

lemma num_of_append: "num_of b (s @ [c]) = num_of b s * b + (of_char c - 48)"
  by (simp add: num_of_def)

lemma num_of_digits_of: "2 \<le> b \<Longrightarrow> b \<le> 10 \<Longrightarrow> num_of b (digits_of b n) = n"
proof (induction b n rule: digits_of.induct)
  case (1 b n)
  show ?case
  proof (cases "n < b")
    case True
    with 1(3) show ?thesis
      by (subst digits_of.simps) (simp add: num_of_def of_char_of)
  next
    case False
    then have "num_of b (digits_of b (n div b)) = n div b" using 1 by auto
    moreover have "n mod b < 10" using 1(2,3) by (meson mod_less_divisor less_le_trans zero_less_numeral)
    ultimately show ?thesis
      using 1(2) False by (subst digits_of.simps) (simp add: num_of_append of_char_digit)
  qed
qed

lemmas num_of_dec = num_of_digits_of[of 10, simplified]

lemma digits_of_inj: "2 \<le> b \<Longrightarrow> b \<le> 10 \<Longrightarrow> digits_of b m = digits_of b n \<longleftrightarrow> m = n"
  by (metis num_of_digits_of)

lemma digits_of_not_Nil [simp]: "digits_of b n \<noteq> []"
  by (subst digits_of.simps) simp

lemma digits_head:
  assumes "list_all isdigit s"
  shows "dropWhile isspace s = s" "split_sign s = (False, s)" "takeWhile isdigit s = s"
proof -
  show "takeWhile isdigit s = s" using assms by (simp add: list_all_iff takeWhile_eq_all_conv)
  show "dropWhile isspace s = s" "split_sign s = (False, s)"
    using assms by (cases s; auto simp: split_sign_def isdigit_def isspace_def)+
qed

end
