(* ===== verification/Makedevs.thy ===== *)
theory Makedevs
  imports Makedevs_Os C_Numbers
begin

text \<open>
  \<open>makedevs.c\<close>: reading the user and group lists of the target, resolving names in device table
  entries, and creating the entries under a root directory. A command takes the system and gives
  its result and the system it leaves; \<^theory_text>\<open>error_msg_and_die\<close> keeps the changes made so
  far. Writing past a buffer, reading a variable that was never set, reading behind the end of a
  string and signed overflow are stops of their own. Output, tracing included, is not modelled.
  \<^theory_text>\<open>unsigned long\<close> has 64 bits, \<^theory_text>\<open>int\<close> 32.
\<close>

datatype md_stop = Die string | Exit nat | Buffer_overflow string | Uninitialised string
  | Read_past_end string | Int_overflow | Blocks

type_synonym 'a cmd = "os \<Rightarrow> (md_stop + 'a) \<times> os"

definition retC :: "'a \<Rightarrow> 'a cmd" where
  "retC x os = (Inr x, os)"

definition stopC :: "md_stop \<Rightarrow> 'a cmd" where
  "stopC e os = (Inl e, os)"

definition liftC :: "md_stop + 'a \<Rightarrow> 'a cmd" where
  "liftC r os = (r, os)"

definition modC :: "(os \<Rightarrow> os) \<Rightarrow> unit cmd" where
  "modC f os = (Inr (), f os)"

definition bindC :: "'a cmd \<Rightarrow> ('a \<Rightarrow> 'b cmd) \<Rightarrow> 'b cmd" where
  "bindC c f os = (case c os of (Inl e, os') \<Rightarrow> (Inl e, os') | (Inr x, os') \<Rightarrow> f x os')"

lemmas cmd_defs = retC_def stopC_def liftC_def modC_def bindC_def

subsection \<open>User and group lists\<close>

definition MAX_ID_LEN :: nat where "MAX_ID_LEN = 40"
definition MAX_NAME_LEN :: nat where "MAX_NAME_LEN = 40"

text \<open>The array of a node holds \<open>MAX_NAME_LEN + 1\<close> characters, the terminating zero included.\<close>

record name_id =
  nm_name :: string
  nm_id :: "64 word"

definition alloc_node :: name_id where
  "alloc_node = \<lparr>nm_name = [], nm_id = 0xFFFFFFFF\<rparr>"

text \<open>
  The copying loop of both fields: characters up to a colon go to position \<open>i\<close> on of an array of
  \<open>lim + 1\<close>, then the zero is written. The value is the copied text and what follows the colon.
\<close>

fun copy_field :: "string \<Rightarrow> string \<Rightarrow> nat \<Rightarrow> nat \<Rightarrow> string \<Rightarrow> md_stop + string \<times> string" where
  "copy_field buf msg lim i [] = Inl (Read_past_end buf)"
| "copy_field buf msg lim i (c # cs) =
     (if c = CHR '':'' then (if i < lim + 1 then Inr ([], cs) else Inl (Buffer_overflow buf))
      else if i > lim then Inl (Die msg)
      else bindR (copy_field buf msg lim (i + 1) cs) (\<lambda>(f, r). Inr (c # f, r)))"

fun skip_field :: "string \<Rightarrow> md_stop + string" where
  "skip_field [] = Inl (Read_past_end ''line'')"
| "skip_field (c # cs) = (if c = CHR '':'' then Inr cs else skip_field cs)"

definition parse_line :: "string \<Rightarrow> md_stop + name_id" where
  "parse_line line =
     bindR (copy_field ''name'' ''Name field too long'' MAX_NAME_LEN 0 line) (\<lambda>(name, p).
     bindR (skip_field p) (\<lambda>p.
     bindR (copy_field ''id_buf'' ''ID filed too long'' MAX_ID_LEN 0 p) (\<lambda>(id_buf, p).
     Inr (alloc_node\<lparr>nm_name := name, nm_id := atol id_buf\<rparr>))))"

text \<open>
  The lines of a file as \<^theory_text>\<open>getline\<close> returns them, with their newline.
\<close>

fun getlines :: "string \<Rightarrow> string list" where
  "getlines [] = []"
| "getlines (c # cs) =
     (if c = CHR 0x0A then [c] # getlines cs
      else case getlines cs of [] \<Rightarrow> [[c]] | l # ls \<Rightarrow> (c # l) # ls)"

text \<open>
  Nodes are appended at the end. The pointer to the last node is only set when the list was empty
  at the first line; \<open>cur\<close> says whether it has been.
\<close>

fun list_loop :: "string list \<Rightarrow> bool \<Rightarrow> name_id list \<Rightarrow> md_stop + name_id list" where
  "list_loop [] cur plist = Inr plist"
| "list_loop (l # ls) cur plist =
     bindR (parse_line l) (\<lambda>node.
     if plist = [] then list_loop ls True [node]
     else if cur then list_loop ls True (plist @ [node])
     else Inl (Uninitialised ''cur''))"

definition get_list_from_file :: "string \<Rightarrow> name_id list \<Rightarrow> md_stop + name_id list" where
  "get_list_from_file file plist = list_loop (getlines file) False plist"

definition strncmp_equal :: "string \<Rightarrow> string \<Rightarrow> nat \<Rightarrow> bool" where
  "strncmp_equal a b n \<longleftrightarrow> take n a = take n b"

fun search_list :: "string \<Rightarrow> name_id list \<Rightarrow> name_id option" where
  "search_list id_buf [] = None"
| "search_list id_buf (node # ns) =
     (if strncmp_equal (nm_name node) id_buf (length id_buf) then Some node
      else search_list id_buf ns)"

definition convert2guid :: "string \<Rightarrow> name_id list \<Rightarrow> md_stop + 64 word" where
  "convert2guid id_buf nodes =
     (if list_all isdigit id_buf then Inr (atol id_buf)
      else case search_list id_buf nodes of
        Some node \<Rightarrow> Inr (nm_id node)
      | None \<Rightarrow> Inl (Die ''No entry for %s in search list''))"

subsection \<open>Creating entries\<close>

text \<open>The mode, user and group of an entry are \<^theory_text>\<open>unsigned long\<close>; the calls take 32 bits.\<close>

definition add_new_directory :: "string \<Rightarrow> 64 word \<Rightarrow> 64 word \<Rightarrow> 64 word \<Rightarrow> unit cmd" where
  "add_new_directory path uid gid mode os =
     (case sys_mkdir path (ucast mode) os of (err, os) \<Rightarrow>
      let os = (if err = Some EEXIST then sys_chmod path (ucast mode AND NOT S_IFMT) os else os)
      in (Inr (), sys_chown path (ucast uid) (ucast gid) os))"

definition add_new_device ::
    "string \<Rightarrow> 64 word \<Rightarrow> 64 word \<Rightarrow> 64 word \<Rightarrow> 64 word \<Rightarrow> unit cmd" where
  "add_new_device path uid gid mode rdev os =
     (case lookup os path of
        Some sb \<Rightarrow>
          if mode AND ucast S_IFMT \<noteq> ucast (i_mode sb AND S_IFMT)
          then (Inl (Die ''existing file type does not match specified file type''), os)
          else
            let os = (if mode \<noteq> ucast (i_mode sb)
                      then sys_chmod path (ucast mode AND NOT S_IFMT) os else os)
            in (Inr (), sys_chown path (ucast uid) (ucast gid) os)
      | None \<Rightarrow>
          (let os = snd (sys_mknod path (ucast mode) rdev os)
           in (Inr (), sys_chown path (ucast uid) (ucast gid) os)))"

definition add_new_file :: "string \<Rightarrow> 64 word \<Rightarrow> 64 word \<Rightarrow> 64 word \<Rightarrow> unit cmd" where
  "add_new_file path uid gid mode os =
     (case sys_open_creat path (ucast mode) os of
        None \<Rightarrow> (Inl Blocks, os)
      | Some (Some err, os) \<Rightarrow> (Inl (Die ''file can not be created!''), os)
      | Some (None, os) \<Rightarrow>
          let os = sys_chmod path (ucast mode) os
          in (Inr (), sys_chown path (ucast uid) (ucast gid) os))"

definition S_ISFIFO :: "32 word \<Rightarrow> bool" where
  "S_ISFIFO m \<longleftrightarrow> m AND S_IFMT = S_IFIFO"

definition add_new_fifo :: "string \<Rightarrow> 64 word \<Rightarrow> 64 word \<Rightarrow> 64 word \<Rightarrow> unit cmd" where
  "add_new_fifo path uid gid mode os =
     (if (case lookup os path of Some sb \<Rightarrow> S_ISFIFO (i_mode sb) | None \<Rightarrow> False)
      then let os = sys_chmod path (ucast mode) os
           in (Inr (), sys_chown path (ucast uid) (ucast gid) os)
      else case sys_mknod path (ucast mode) 0 os of
          (Some err, os) \<Rightarrow> (Inl (Die ''file can not be created with mknod!''), os)
        | (None, os) \<Rightarrow> (Inr (), sys_chown path (ucast uid) (ucast gid) os))"

definition MKDEV :: "64 word \<Rightarrow> 64 word \<Rightarrow> 64 word" where
  "MKDEV ma mi = push_bit 8 ma OR mi"

subsection \<open>Scanning an entry\<close>

text \<open>
  The format \<^theory_text>\<open>%4095s %c %lo %39s %39s %lu %lu %lu %lu %lu\<close>. Scanning stops at the
  first conversion that fails; the variables behind it keep their values: the numbers their
  defaults, the others none.
\<close>

record entry =
  e_path :: "string option"
  e_type :: "char option"
  e_mode :: "64 word"
  e_usr :: "string option"
  e_grp :: "string option"
  e_major :: "64 word"
  e_minor :: "64 word"
  e_start :: "64 word"
  e_increment :: "64 word"
  e_count :: "64 word"

definition empty_entry :: entry where
  "empty_entry = \<lparr>e_path = None, e_type = None, e_mode = 493, e_usr = None, e_grp = None,
     e_major = 0, e_minor = 0, e_start = 0, e_increment = 1, e_count = 0\<rparr>"

definition scan_char :: "string \<Rightarrow> (char \<times> string) option" where
  "scan_char s = (case dropWhile isspace s of [] \<Rightarrow> None | c # cs \<Rightarrow> Some (c, cs))"

text \<open>As \<^theory_text>\<open>strtoul\<close>: a value too large gives the largest one, a minus sign negates.\<close>

definition scan_ulong :: "nat \<Rightarrow> string \<Rightarrow> (64 word \<times> string) option" where
  "scan_ulong base s = (let (neg, t) = split_sign (dropWhile isspace s);
       ds = takeWhile (digit_below base) t; n = num_of base ds
     in if ds = [] then None
        else Some (if 2 ^ 64 \<le> n then - 1 else if neg then - of_nat n else of_nat n,
                   drop (length ds) t))"

definition scan_numbers :: "string \<Rightarrow> entry \<Rightarrow> entry" where
  "scan_numbers s e = (case scan_ulong 10 s of None \<Rightarrow> e
     | Some (v, s) \<Rightarrow> let e = e\<lparr>e_major := v\<rparr> in (case scan_ulong 10 s of None \<Rightarrow> e
     | Some (v, s) \<Rightarrow> let e = e\<lparr>e_minor := v\<rparr> in (case scan_ulong 10 s of None \<Rightarrow> e
     | Some (v, s) \<Rightarrow> let e = e\<lparr>e_start := v\<rparr> in (case scan_ulong 10 s of None \<Rightarrow> e
     | Some (v, s) \<Rightarrow> let e = e\<lparr>e_increment := v\<rparr> in (case scan_ulong 10 s of None \<Rightarrow> e
     | Some (v, s) \<Rightarrow> e\<lparr>e_count := v\<rparr>)))))"

text \<open>\<open>None\<close> is the end of the input before the first conversion, a negative result.\<close>

definition scan_entry :: "string \<Rightarrow> entry option" where
  "scan_entry line = (case scan_string 4095 line of None \<Rightarrow> None
     | Some (w, s) \<Rightarrow> Some (let e = empty_entry\<lparr>e_path := Some w\<rparr> in
         case scan_char s of None \<Rightarrow> e
       | Some (c, s) \<Rightarrow> let e = e\<lparr>e_type := Some c\<rparr> in (case scan_ulong 8 s of None \<Rightarrow> e
       | Some (v, s) \<Rightarrow> let e = e\<lparr>e_mode := v\<rparr> in (case scan_string 39 s of None \<Rightarrow> e
       | Some (w, s) \<Rightarrow> let e = e\<lparr>e_usr := Some w\<rparr> in (case scan_string 39 s of None \<Rightarrow> e
       | Some (w, s) \<Rightarrow> scan_numbers s (e\<lparr>e_grp := Some w\<rparr>))))))"

definition needC :: "string \<Rightarrow> 'a option \<Rightarrow> 'a cmd" where
  "needC var x = (case x of None \<Rightarrow> stopC (Uninitialised var) | Some v \<Rightarrow> retC v)"

definition PATH_BUF :: nat where "PATH_BUF = 4096"

text \<open>Writing a string of this length and its zero into a buffer.\<close>

definition fitsC :: "string \<Rightarrow> nat \<Rightarrow> string \<Rightarrow> unit cmd" where
  "fitsC var cap s = (if length s < cap then retC () else stopC (Buffer_overflow var))"

text \<open>
  The loop over a range of devices. Its \<^theory_text>\<open>int\<close> counter is compared and subtracted as
  \<^theory_text>\<open>unsigned long\<close>.
\<close>

function device_loop ::
    "string \<Rightarrow> string \<Rightarrow> 64 word \<Rightarrow> 64 word \<Rightarrow> 64 word \<Rightarrow> entry \<Rightarrow> int \<Rightarrow> unit cmd" where
  "device_loop rootdir name uid gid mode e i =
     (if word_of_int i < e_start e + e_count e then
        let buf = name @ show_int i; path = rootdir @ ''/'' @ name @ show_int i in
        bindC (fitsC ''buf'' 80 buf) (\<lambda>_.
        bindC (fitsC ''path'' PATH_BUF path) (\<lambda>_.
        let rdev = MKDEV (e_major e) (e_minor e + (word_of_int i - e_start e) * e_increment e);
            path = rootdir @ ''/'' @ buf in
        bindC (add_new_device path uid gid mode rdev) (\<lambda>_.
        if i + 1 < 2 ^ 31 then device_loop rootdir name uid gid mode e (i + 1)
        else stopC Int_overflow)))
      else retC ())"
  by pat_completeness auto
termination
  by (relation "measure (\<lambda>(rootdir, name, uid, gid, mode, e, i). nat (2 ^ 31 - i))") auto

declare device_loop.simps [simp del]

definition interpret_table_entry :: "string \<Rightarrow> name_id list \<Rightarrow> name_id list \<Rightarrow> string \<Rightarrow> nat cmd" where
  "interpret_table_entry rootdir usr_list grp_list line = (case scan_entry line of
       None \<Rightarrow> retC 1
     | Some e \<Rightarrow>
       bindC (bindC (needC ''usr_buf'' (e_usr e)) (\<lambda>u. liftC (convert2guid u usr_list))) (\<lambda>uid.
       bindC (bindC (needC ''grp_buf'' (e_grp e)) (\<lambda>g. liftC (convert2guid g grp_list))) (\<lambda>gid.
       bindC (needC ''path'' (e_path e)) (\<lambda>path0.
       if \<not> strncmp_equal path0 ''/'' 1
       then stopC (Die ''Device table entries require absolute paths'')
       else let name = tl path0; path = rootdir @ ''/'' @ name in
       bindC (fitsC ''path'' PATH_BUF path) (\<lambda>_.
       bindC (needC ''type'' (e_type e)) (\<lambda>type.
       bindC (if type = CHR ''d'' then
                add_new_directory path uid gid (e_mode e OR ucast S_IFDIR)
              else if type = CHR ''f'' then add_new_file path uid gid (e_mode e OR ucast S_IFREG)
              else if type = CHR ''p'' then add_new_fifo path uid gid (e_mode e OR ucast S_IFIFO)
              else if type = CHR ''c'' \<or> type = CHR ''b'' then
                let mode = e_mode e OR ucast (if type = CHR ''c'' then S_IFCHR else S_IFBLK) in
                if e_count e > 0
                then device_loop rootdir name uid gid mode e (sint (ucast (e_start e) :: 32 word))
                else add_new_device path uid gid mode (MKDEV (e_major e) (e_minor e))
              else stopC (Die ''Unsupported file type'')) (\<lambda>_.
       retC 0)))))))"

subsection \<open>The table and the program\<close>

text \<open>\<^theory_text>\<open>strspn\<close> with the set of the source, which lacks the form feed.\<close>

definition leading_space :: "char \<Rightarrow> bool" where
  "leading_space c \<longleftrightarrow> c \<in> {CHR '' '', CHR 0x0A, CHR 0x0D, CHR 0x09, CHR 0x0B}"

definition trim_line :: "string \<Rightarrow> string" where
  "trim_line line = dropWhile leading_space (rev (dropWhile isspace (rev line)))"

fun table_loop :: "string \<Rightarrow> name_id list \<Rightarrow> name_id list \<Rightarrow> string list \<Rightarrow> unit cmd" where
  "table_loop rootdir usr grp [] = retC ()"
| "table_loop rootdir usr grp (l # ls) =
     (let line = trim_line l in
      bindC (if line \<noteq> [] \<and> hd line \<noteq> CHR ''#''
             then interpret_table_entry rootdir usr grp line else retC 0) (\<lambda>_.
      table_loop rootdir usr grp ls))"

definition parse_device_table :: "string \<Rightarrow> name_id list \<Rightarrow> name_id list \<Rightarrow> string \<Rightarrow> unit cmd" where
  "parse_device_table rootdir usr grp file = table_loop rootdir usr grp (getlines file)"

definition sys_chdir :: "string \<Rightarrow> os \<Rightarrow> os option" where
  "sys_chdir s os = (case resolve os s of None \<Rightarrow> None
     | Some p \<Rightarrow> (case fs os p of None \<Rightarrow> None
        | Some i \<Rightarrow> if is_dir i then Some (os\<lparr>cwd := p\<rparr>) else None))"

definition parse_devtable :: "string \<Rightarrow> name_id list \<Rightarrow> name_id list \<Rightarrow> string \<Rightarrow> nat cmd" where
  "parse_devtable rootdir usr grp devtable os =
     (if lookup os rootdir = None then (Inl (Die rootdir), os)
      else case sys_chdir rootdir os of
          None \<Rightarrow> (Inl (Die rootdir), os)
        | Some os \<Rightarrow> bindC (parse_device_table rootdir usr grp devtable) (\<lambda>_. retC 0) os)"

text \<open>
  The options as \<^theory_text>\<open>getopt_long\<close> delivers them, and whether arguments are left behind
  them. A regular file is read through \<open>i_data\<close>.
\<close>

datatype option_arg = Opt_D string | Opt_h | Opt_r string | Opt_t | Opt_v | Opt_other

fun options_loop :: "option_arg list \<Rightarrow> string option \<Rightarrow> string option \<Rightarrow>
    (string \<times> string option) cmd" where
  "options_loop [] root table = retC (case root of None \<Rightarrow> ''.'' | Some r \<Rightarrow> r, table)"
| "options_loop (Opt_D f # os) root table = (\<lambda>sys. case lookup sys f of
       None \<Rightarrow> (Inl (Die f), sys)
     | Some i \<Rightarrow> if length (i_data i) < 10
                 then (Inl (Die ''not a proper device table file''), sys)
                 else options_loop os root (Some (i_data i)) sys)"
| "options_loop (Opt_h # os) root table = stopC (Exit 0)"
| "options_loop (Opt_r d # os) root table = (\<lambda>sys.
     if root \<noteq> None then (Inl (Die ''root directory specified more than once''), sys)
     else case lookup sys d of
       None \<Rightarrow> (Inl (Die d), sys)
     | Some i \<Rightarrow> if is_dir i
                 then options_loop os (Some (if d = ''/'' then '''' else d)) table sys
                 else (Inl (Die d), sys))"
| "options_loop (Opt_t # os) root table = options_loop os root table"
| "options_loop (Opt_v # os) root table = stopC (Exit 0)"
| "options_loop (Opt_other # os) root table = stopC (Exit 1)"

text \<open>Reading a list, if the file can be opened.\<close>

definition read_list :: "string \<Rightarrow> name_id list cmd" where
  "read_list path os = (case lookup os path of
       None \<Rightarrow> (Inr [], os) | Some i \<Rightarrow> (get_list_from_file (i_data i) [], os))"

definition main :: "option_arg list \<Rightarrow> bool \<Rightarrow> nat cmd" where
  "main opts extra_args =
     (if opts = [] \<and> \<not> extra_args then stopC (Exit 1) else
      bindC (options_loop opts None None) (\<lambda>(rootdir, devtable).
      if extra_args then stopC (Exit 1) else
      bindC (fitsC ''passwd_path'' PATH_BUF (rootdir @ ''/etc/passwd'')) (\<lambda>_.
      bindC (fitsC ''group_path'' PATH_BUF (rootdir @ ''/etc/group'')) (\<lambda>_.
      bindC (read_list (rootdir @ ''/etc/passwd'')) (\<lambda>usr_list.
      bindC (read_list (rootdir @ ''/etc/group'')) (\<lambda>grp_list.
      bindC (case devtable of None \<Rightarrow> retC 0
             | Some t \<Rightarrow> parse_devtable rootdir usr_list grp_list t) (\<lambda>_.
      retC 0)))))))"

end
