(* ===== verification/Makedevs_Tree.thy ===== *)
theory Makedevs_Tree
  imports Makedevs
begin

text \<open>
  What every run of \<open>makedevs\<close> keeps: no file disappears or changes its type, and whatever is
  created lies in a directory. The four functions that create entries share one contract.
\<close>

definition evolves :: "os \<Rightarrow> os \<Rightarrow> bool" where
  "evolves os os' \<longleftrightarrow> (tree_ok os \<longrightarrow> tree_ok os') \<and>
     (\<forall>q i. fs os q = Some i \<longrightarrow> (\<exists>i'. fs os' q = Some i' \<and> same_type i' i))"

lemma evolves_refl [simp]: "evolves os os"
  by (simp add: evolves_def)

lemma evolves_trans:
  assumes "evolves a b" and "evolves b c"
  shows "evolves a c"
proof -
  have "\<exists>i''. fs c q = Some i'' \<and> same_type i'' i" if "fs a q = Some i" for q i
  proof -
    obtain i' where i': "fs b q = Some i'" "same_type i' i"
      using assms(1) \<open>fs a q = Some i\<close> by (auto simp: evolves_def)
    then obtain i'' where "fs c q = Some i''" "same_type i'' i'"
      using assms(2) by (fastforce simp: evolves_def)
    with i' show ?thesis using same_type_trans by blast
  qed
  then show ?thesis using assms by (simp add: evolves_def)
qed

lemma changed_at_evolves: "changed_at p os os' \<Longrightarrow> evolves os os'"
  unfolding evolves_def using changed_at_tree_ok changed_at_old by blast

definition keeps :: "'a cmd \<Rightarrow> bool" where
  "keeps c \<longleftrightarrow> (\<forall>os. evolves os (snd (c os)))"

lemma keepsD: "keeps c \<Longrightarrow> c os = (r, os') \<Longrightarrow> evolves os os'"
  by (auto simp: keeps_def dest: spec[of _ os])

lemma keeps_simps [simp]:
  "keeps (retC x)" "keeps (stopC e)" "keeps (liftC r)" "keeps (needC v y)" "keeps (fitsC v n s)"
  by (simp_all add: keeps_def retC_def stopC_def liftC_def needC_def fitsC_def split: option.split)

lemma keeps_bindC [intro]:
  assumes "keeps c" and "\<And>x. keeps (f x)"
  shows "keeps (bindC c f)"
  unfolding keeps_def
proof
  fix os
  obtain r os1 where c: "c os = (r, os1)" by fastforce
  show "evolves os (snd (bindC c f os))"
  proof (cases r)
    case (Inr x)
    with c keepsD[OF assms(1) c] assms(2)[of x] show ?thesis
      by (auto simp: bindC_def keeps_def intro: evolves_trans)
  qed (use c keepsD[OF assms(1) c] in \<open>simp add: bindC_def\<close>)
qed

subsection \<open>The contract of the creating functions\<close>

locale entry_adder =
  fixes add :: "'a \<Rightarrow> string \<Rightarrow> unit cmd"
  assumes add_changes: "changed_at (resolve os path) os (snd (add a path os))"
begin

lemma add_keeps: "keeps (add a path)"
  unfolding keeps_def using changed_at_evolves[OF add_changes] by blast

lemma add_elsewhere: "add a path os = (r, os') \<Longrightarrow> resolve os path \<noteq> Some q \<Longrightarrow> fs os' q = fs os q"
  using add_changes[of os path a] by (auto simp: changed_at_def)

lemma add_resolve: "add a path os = (r, os') \<Longrightarrow> resolve os' s = resolve os s"
  using add_changes[of os path a] changed_at_resolve by fastforce

end

lemma chown_after: "changed_at (resolve os s) os os' \<Longrightarrow>
    changed_at (resolve os s) os (sys_chown s u g os')"
  using chown_changed[of os' s u g] by (auto intro: changed_at_trans)

lemma chmod_after: "changed_at (resolve os s) os os' \<Longrightarrow>
    changed_at (resolve os s) os (sys_chmod s m os')"
  using chmod_changed[of os' s m] by (auto intro: changed_at_trans)

interpretation dir_adder: entry_adder
  "\<lambda>(uid, gid, mode) path. add_new_directory path uid gid mode"
proof
  fix os path and a :: "64 word \<times> 64 word \<times> 64 word"
  obtain uid gid mode where a: "a = (uid, gid, mode)" by (cases a)
  show "changed_at (resolve os path) os
      (snd ((\<lambda>(uid, gid, mode) path. add_new_directory path uid gid mode) a path os))"
    using create_changed[of os path] unfolding a
    by (auto simp: add_new_directory_def sys_mkdir_def Let_def split: prod.split
        intro!: chown_after chmod_after) (metis snd_conv)+
qed

interpretation device_adder: entry_adder
  "\<lambda>(uid, gid, mode, rdev) path. add_new_device path uid gid mode rdev"
proof
  fix os path and a :: "64 word \<times> 64 word \<times> 64 word \<times> 64 word"
  obtain uid gid mode rdev where a: "a = (uid, gid, mode, rdev)" by (cases a)
  show "changed_at (resolve os path) os
      (snd ((\<lambda>(uid, gid, mode, rdev) path. add_new_device path uid gid mode rdev) a path os))"
    using create_changed[of os path] unfolding a
    by (auto simp: add_new_device_def sys_mknod_def Let_def split: option.split
        intro!: chown_after chmod_after)
qed

interpretation file_adder: entry_adder
  "\<lambda>(uid, gid, mode) path. add_new_file path uid gid mode"
proof
  fix os path and a :: "64 word \<times> 64 word \<times> 64 word"
  obtain uid gid mode where a: "a = (uid, gid, mode)" by (cases a)
  show "changed_at (resolve os path) os
      (snd ((\<lambda>(uid, gid, mode) path. add_new_file path uid gid mode) a path os))"
    using open_changed[of path "ucast mode" os] unfolding a
    by (auto simp: add_new_file_def Let_def split: option.split intro!: chown_after chmod_after)
qed

interpretation fifo_adder: entry_adder
  "\<lambda>(uid, gid, mode) path. add_new_fifo path uid gid mode"
proof
  fix os path and a :: "64 word \<times> 64 word \<times> 64 word"
  obtain uid gid mode where a: "a = (uid, gid, mode)" by (cases a)
  show "changed_at (resolve os path) os
      (snd ((\<lambda>(uid, gid, mode) path. add_new_fifo path uid gid mode) a path os))"
    using create_changed[of os path] unfolding a
    by (auto simp: add_new_fifo_def sys_mknod_def Let_def split: option.split prod.split
        intro!: chown_after chmod_after) (metis snd_conv)+
qed

lemma adders_keep [simp]:
  "keeps (add_new_directory path uid gid mode)" "keeps (add_new_device path uid gid mode rdev)"
  "keeps (add_new_file path uid gid mode)" "keeps (add_new_fifo path uid gid mode)"
  using dir_adder.add_keeps[of "(uid, gid, mode)" path]
    device_adder.add_keeps[of "(uid, gid, mode, rdev)" path]
    file_adder.add_keeps[of "(uid, gid, mode)" path]
    fifo_adder.add_keeps[of "(uid, gid, mode)" path] by simp_all

lemma device_loop_keeps: "keeps (device_loop rootdir name uid gid mode e i)"
proof (induction rootdir name uid gid mode e i rule: device_loop.induct)
  case (1 rootdir name uid gid mode e i)
  then show ?case
    by (subst device_loop.simps) (auto simp: Let_def intro!: keeps_bindC)
qed

lemma entry_keeps: "keeps (interpret_table_entry rootdir usr grp line)"
  by (auto simp: interpret_table_entry_def Let_def device_loop_keeps intro!: keeps_bindC
      split: option.split)

lemma table_keeps: "keeps (table_loop rootdir usr grp ls)"
  by (induction ls) (auto simp: Let_def entry_keeps)

lemma devtable_keeps: "keeps (parse_devtable rootdir usr grp t)"
  unfolding keeps_def
proof
  fix os
  have "evolves os (snd (bindC (parse_device_table rootdir usr grp t) (\<lambda>_. retC (0 :: nat)) os1))"
    if "sys_chdir rootdir os = Some os1" for os1
  proof -
    have "fs os1 = fs os" using that by (auto simp: sys_chdir_def split: option.splits if_splits)
    then have "evolves os os1" by (simp add: evolves_def tree_ok_def)
    moreover have "keeps (bindC (parse_device_table rootdir usr grp t) (\<lambda>_. retC (0 :: nat)))"
      by (auto simp: parse_device_table_def table_keeps)
    ultimately show ?thesis by (metis evolves_trans keeps_def)
  qed
  then show "evolves os (snd (parse_devtable rootdir usr grp t os))"
    by (auto simp: parse_devtable_def split: option.split)
qed

lemma options_state: "snd (options_loop opts root table os) = os"
  by (induction opts root table rule: options_loop.induct)
    (auto simp: retC_def stopC_def split: option.split)

lemma main_keeps: "keeps (main opts extra)"
proof -
  have "keeps (options_loop opts None None)" by (simp add: keeps_def options_state)
  moreover have "keeps (read_list p)" for p
    by (simp add: keeps_def read_list_def split: option.split)
  ultimately show ?thesis
    by (auto simp: main_def devtable_keeps intro!: keeps_bindC split: option.split)
qed

text \<open>
  Whatever the options, lists and device table are and however the run ends, \<open>makedevs\<close>
  leaves a tree if it found one: no path disappears, none changes between directory, file, device
  and fifo, and everything that is created lies in a directory.
\<close>

theorem makedevs_keeps_tree:
  assumes "tree_ok os"
  shows "tree_ok (snd (main opts extra os)) \<and>
    (\<forall>q i. fs os q = Some i \<longrightarrow>
      (\<exists>i'. fs (snd (main opts extra os)) q = Some i' \<and> same_type i' i))"
  using main_keeps[of opts extra] assms by (simp add: keeps_def evolves_def)

text \<open>A system with a root directory and a device table in it.\<close>

definition small_os :: "string \<Rightarrow> os" where
  "small_os table = \<lparr>fs = [[] \<mapsto> \<lparr>i_mode = 0x41ED, i_uid = 0, i_gid = 0, i_rdev = 0, i_data = []\<rparr>,
     [''t''] \<mapsto> \<lparr>i_mode = 0x81A4, i_uid = 0, i_gid = 0, i_rdev = 0, i_data = table\<rparr>],
     cwd = [], openable = (\<lambda>_. False)\<rparr>"

lemma small_os_tree: "tree_ok (small_os table)"
  by (auto simp: tree_ok_def small_os_def is_dir_def S_defs split: if_splits)

lemma makedevs_keeps_tree_witness:
  "tree_ok (snd (main [Opt_D ''t''] False (small_os ''/dev d 755 0 0''))) \<and>
    (\<exists>i'. fs (snd (main [Opt_D ''t''] False (small_os ''/dev d 755 0 0''))) [''t''] = Some i' \<and>
       same_type i' \<lparr>i_mode = 0x81A4, i_uid = 0, i_gid = 0, i_rdev = 0, i_data = ''/dev d 755 0 0''\<rparr>)"
proof -
  have "fs (small_os ''/dev d 755 0 0'') [''t''] =
      Some \<lparr>i_mode = 0x81A4, i_uid = 0, i_gid = 0, i_rdev = 0, i_data = ''/dev d 755 0 0''\<rparr>"
    by (simp add: small_os_def)
  then show ?thesis using makedevs_keeps_tree[OF small_os_tree] by blast
qed

end
