(* ===== verification/Makedevs_Lists.thy ===== *)
theory Makedevs_Lists
  imports Makedevs_Tree
begin

text \<open>
  The user and group lists of \<open>makedevs.c\<close>: what a line of \<^theory_text>\<open>passwd\<close> is parsed to,
  with the lengths at which it goes wrong, that a whole file is read back entry by entry, and
  which entry a name of the device table is resolved to.
\<close>

subsection \<open>One line\<close>

abbreviation colon :: char where "colon \<equiv> CHR '':''"

lemma copy_field_eq:
  assumes "colon \<notin> set f" and "i \<le> lim + 1"
  shows "copy_field buf msg lim i (f @ colon # r) =
    (if i + length f \<le> lim then Inr (f, r)
     else if i + length f = lim + 1 then Inl (Buffer_overflow buf) else Inl (Die msg))"
  using assms by (induction f arbitrary: i) auto

lemma skip_field_eq: "colon \<notin> set f \<Longrightarrow> skip_field (f @ colon # r) = Inr r"
  by (induction f) auto

lemma parse_line_lengths_aux:
  assumes "colon \<notin> set name" and "colon \<notin> set pw" and "colon \<notin> set id_buf"
  shows "parse_line (name @ colon # pw @ colon # id_buf @ colon # rest) =
    (if length name = 41 then Inl (Buffer_overflow ''name'')
     else if length name > 41 then Inl (Die ''Name field too long'')
     else if length id_buf = 41 then Inl (Buffer_overflow ''id_buf'')
     else if length id_buf > 41 then Inl (Die ''ID filed too long'')
     else Inr \<lparr>nm_name = name, nm_id = atol id_buf\<rparr>)"
  using assms
  by (simp add: parse_line_def copy_field_eq skip_field_eq MAX_NAME_LEN_def MAX_ID_LEN_def
      alloc_node_def)

text \<open>
  A line with three fields that end in colons is parsed to its first and third field when
  both have at most 40 characters; a field of more than 41 characters ends the program with its
  message. A field of exactly 41 passes the length check and the terminating zero is then written
  behind the end of the 41 byte array.
\<close>

theorem parse_line_lengths:
  assumes "colon \<notin> set name" and "colon \<notin> set pw" and "colon \<notin> set id_buf"
  shows "parse_line (name @ colon # pw @ colon # id_buf @ colon # rest) =
    (if length name = 41 then Inl (Buffer_overflow ''name'')
     else if length name > 41 then Inl (Die ''Name field too long'')
     else if length id_buf = 41 then Inl (Buffer_overflow ''id_buf'')
     else if length id_buf > 41 then Inl (Die ''ID filed too long'')
     else Inr \<lparr>nm_name = name, nm_id = atol id_buf\<rparr>)"
  using assms by (rule parse_line_lengths_aux)

lemma parse_line_lengths_witness:
  "parse_line (replicate 41 (CHR ''a'') @ colon # ''x'' @ colon # ''0'' @ colon # ''0'') =
    (if length (replicate 41 (CHR ''a'')) = 41 then Inl (Buffer_overflow ''name'')
     else if length (replicate 41 (CHR ''a'')) > 41 then Inl (Die ''Name field too long'')
     else if length ''0'' = 41 then Inl (Buffer_overflow ''id_buf'')
     else if length ''0'' > 41 then Inl (Die ''ID filed too long'')
     else Inr \<lparr>nm_name = replicate 41 (CHR ''a''), nm_id = atol ''0''\<rparr>)"
  by (rule parse_line_lengths) simp_all

subsection \<open>Decimal numbers\<close>

lemma isdigit_chars:
  assumes "isdigit c"
  shows "\<not> isspace c" "c \<noteq> CHR ''-''" "c \<noteq> CHR ''+''" "c \<noteq> colon" "c \<noteq> CHR 0x0A" "c \<noteq> CHR ''/''"
  using assms by (auto simp: isdigit_def isspace_def)

lemma atol_dec: "n < 2 ^ 63 \<Longrightarrow> atol (dec n) = of_nat n"
proof -
  assume "n < 2 ^ 63"
  then have "max (- (2 ^ 63)) (min (2 ^ 63 - 1) (int n)) = int n" by simp
  then have "word_of_int (max (- (2 ^ 63)) (min (2 ^ 63 - 1) (int n))) = (of_nat n :: 64 word)"
    by (simp only: of_int_of_nat_eq)
  then show ?thesis
    by (simp only: atol_def digits_head[OF dec_digits] num_of_dec Let_def prod.case if_False)
qed

subsection \<open>A whole file\<close>

text \<open>One line of \<^theory_text>\<open>passwd\<close> or \<^theory_text>\<open>group\<close>.\<close>

definition passwd_line :: "string \<times> string \<times> nat \<times> string \<Rightarrow> string" where
  "passwd_line = (\<lambda>(name, pw, no, rest). name @ colon # pw @ colon # dec no @ colon # rest @ [CHR 0x0A])"

definition plain :: "string \<Rightarrow> bool" where
  "plain s \<longleftrightarrow> colon \<notin> set s \<and> CHR 0x0A \<notin> set s"

definition passwd_entry_ok :: "string \<times> string \<times> nat \<times> string \<Rightarrow> bool" where
  "passwd_entry_ok = (\<lambda>(name, pw, no, rest). plain name \<and> plain pw \<and> CHR 0x0A \<notin> set rest \<and>
     length name \<le> MAX_NAME_LEN \<and> no < 2 ^ 32)"

lemma getlines_line: "CHR 0x0A \<notin> set l \<Longrightarrow> getlines (l @ CHR 0x0A # r) = (l @ [CHR 0x0A]) # getlines r"
  by (induction l) auto

lemma dec_length: "n < 10 ^ k \<Longrightarrow> 0 < k \<Longrightarrow> length (dec n) \<le> k"
proof (induction k arbitrary: n)
  case (Suc k)
  show ?case
  proof (cases "n < 10")
    case False
    then have "0 < k" using Suc.prems by (cases k) auto
    moreover have "n div 10 < 10 ^ k" using Suc.prems by auto
    ultimately have "length (dec (n div 10)) \<le> k" using Suc.IH by blast
    with False show ?thesis by (subst digits_of.simps) simp
  qed (subst digits_of.simps, simp)
qed simp

lemma parse_passwd_line:
  assumes "passwd_entry_ok (name, pw, no, rest)"
  shows "parse_line (passwd_line (name, pw, no, rest)) = Inr \<lparr>nm_name = name, nm_id = of_nat no\<rparr>"
proof -
  have "colon \<notin> set (dec no)" using dec_digits isdigit_chars(4) by (auto simp: list_all_iff)
  moreover have "length (dec no) \<le> 10"
    using assms by (intro dec_length) (auto simp: passwd_entry_ok_def)
  ultimately show ?thesis
    using assms by (simp add: passwd_line_def parse_line_lengths_aux passwd_entry_ok_def plain_def
        MAX_NAME_LEN_def atol_dec)
qed

lemma list_loop_passwd:
  assumes "list_all passwd_entry_ok es" and "cur \<or> acc = []"
  shows "list_loop (map passwd_line es) cur acc =
    Inr (acc @ map (\<lambda>(name, pw, no, rest). \<lparr>nm_name = name, nm_id = of_nat no\<rparr>) es)"
  using assms
proof (induction es arbitrary: cur acc)
  case (Cons e es)
  obtain name pw no rest where e: "e = (name, pw, no, rest)" by (cases e)
  with Cons parse_passwd_line[of name pw no rest] show ?case by auto
qed simp

lemma getlines_passwd:
  assumes "list_all passwd_entry_ok es"
  shows "getlines (concat (map passwd_line es)) = map passwd_line es"
  using assms
proof (induction es)
  case (Cons e es)
  obtain name pw no rest where e: "e = (name, pw, no, rest)" by (cases e)
  have "CHR 0x0A \<notin> set (dec no)" using dec_digits isdigit_chars(5) by (auto simp: list_all_iff)
  with Cons e getlines_line[of "name @ colon # pw @ colon # dec no @ colon # rest"]
  show ?case by (simp add: passwd_line_def passwd_entry_ok_def plain_def)
qed simp

text \<open>
  C38: A \<^theory_text>\<open>passwd\<close> or \<^theory_text>\<open>group\<close> file of lines \<open>name:password:id:rest\<close>, with
  names of at most 40 characters and identifiers of 32 bits printed in decimal, is read back as exactly
  its list of names and identifiers, in order: no line is lost, split or merged.
\<close>

theorem get_list_reads_file:
  assumes "list_all passwd_entry_ok es"
  shows "get_list_from_file (concat (map passwd_line es)) [] =
    Inr (map (\<lambda>(name, pw, no, rest). \<lparr>nm_name = name, nm_id = of_nat no\<rparr>) es)"
  using assms by (simp add: get_list_from_file_def getlines_passwd list_loop_passwd)

lemma get_list_reads_file_witness:
  "get_list_from_file (concat (map passwd_line
      [(''root'', ''x'', 0, ''0:root:/root:/bin/sh''), (''daemon'', ''*'', 1, ''1:daemon'')])) [] =
    Inr (map (\<lambda>(name, pw, no, rest). \<lparr>nm_name = name, nm_id = of_nat no\<rparr>)
      [(''root'', ''x'', 0, ''0:root:/root:/bin/sh''), (''daemon'', ''*'', 1, ''1:daemon'')])"
  by (rule get_list_reads_file) (simp add: passwd_entry_ok_def plain_def MAX_NAME_LEN_def)

subsection \<open>Resolving a name\<close>

definition prefix_of :: "string \<Rightarrow> string \<Rightarrow> bool" where
  "prefix_of p s \<longleftrightarrow> (\<exists>t. s = p @ t)"

lemma strncmp_prefix: "strncmp_equal s p (length p) \<longleftrightarrow> prefix_of p s"
  by (auto simp: strncmp_equal_def prefix_of_def) (metis append_take_drop_id)

text \<open>
  A user or group that is not a number gets the identifier of the first entry whose name it
  is a prefix of; a number stands for itself. The comparison stops at the end of the given name,
  so an entry \<^theory_text>\<open>audio-extra\<close> in front of \<^theory_text>\<open>audio\<close> is taken for it.
\<close>

theorem convert2guid_first_prefix:
  assumes "\<not> list_all isdigit u" and "\<And>n. n \<in> set before \<Longrightarrow> \<not> prefix_of u (nm_name n)"
    and "prefix_of u (nm_name node)"
  shows "convert2guid u (before @ node # after) = Inr (nm_id node) \<and>
    (\<forall>n<2 ^ 63. convert2guid (dec n) (before @ node # after) = Inr (of_nat n))"
proof -
  have "search_list u (before @ node # after) = Some node"
    using assms(2,3) by (induction before) (auto simp: strncmp_prefix)
  with assms(1) show ?thesis
    by (auto simp: convert2guid_def dec_digits atol_dec)
qed

lemma convert2guid_first_prefix_witness:
  "convert2guid ''audio'' ([\<lparr>nm_name = ''root'', nm_id = 0\<rparr>] @
      \<lparr>nm_name = ''audio-extra'', nm_id = 70\<rparr> # [\<lparr>nm_name = ''audio'', nm_id = 29\<rparr>]) = Inr 70 \<and>
    convert2guid (dec 29) ([\<lparr>nm_name = ''root'', nm_id = 0\<rparr>] @
      \<lparr>nm_name = ''audio-extra'', nm_id = 70\<rparr> # [\<lparr>nm_name = ''audio'', nm_id = 29\<rparr>]) = Inr 29"
proof -
  have "convert2guid ''audio'' ([\<lparr>nm_name = ''root'', nm_id = 0\<rparr>] @
      \<lparr>nm_name = ''audio-extra'', nm_id = 70\<rparr> # [\<lparr>nm_name = ''audio'', nm_id = 29\<rparr>]) =
      Inr (nm_id \<lparr>nm_name = ''audio-extra'', nm_id = 70\<rparr>) \<and>
    (\<forall>n<2 ^ 63. convert2guid (dec n) ([\<lparr>nm_name = ''root'', nm_id = 0\<rparr>] @
      \<lparr>nm_name = ''audio-extra'', nm_id = 70\<rparr> # [\<lparr>nm_name = ''audio'', nm_id = 29\<rparr>]) =
      Inr (of_nat n))"
    by (rule convert2guid_first_prefix) (auto simp: prefix_of_def isdigit_def)
  then have "convert2guid ''audio'' ([\<lparr>nm_name = ''root'', nm_id = 0\<rparr>] @
      \<lparr>nm_name = ''audio-extra'', nm_id = 70\<rparr> # [\<lparr>nm_name = ''audio'', nm_id = 29\<rparr>]) =
      Inr (nm_id \<lparr>nm_name = ''audio-extra'', nm_id = 70\<rparr>)"
    and n: "\<And>n. n < 2 ^ 63 \<Longrightarrow> convert2guid (dec n) ([\<lparr>nm_name = ''root'', nm_id = 0\<rparr>] @
      \<lparr>nm_name = ''audio-extra'', nm_id = 70\<rparr> # [\<lparr>nm_name = ''audio'', nm_id = 29\<rparr>]) =
      Inr (of_nat n)"
    by blast+
  with n[of 29] show ?thesis by simp
qed

end
