(* ===== verification/Makedevs_Table.thy ===== *)
theory Makedevs_Table
  imports Makedevs_Lists
begin

text \<open>
  Device table entries: scanning gives back what was printed, ranges of device nodes are created
  as the table format says, and the inputs and options on which the program does something else.
\<close>

subsection \<open>Scanning\<close>

lemma not_digit_blank [simp]: "\<not> digit_below b (CHR '' '')"
  by (simp add: digit_below_def isdigit_def)

lemma scan_char_word: "\<not> isspace c \<Longrightarrow> scan_char (CHR '' '' # c # r) = Some (c, r)"
  by (simp add: scan_char_def)

lemma scan_ulong_word:
  assumes "2 \<le> b" "b \<le> 10" and "n < 2 ^ 64" and "ends_word r"
  shows "scan_ulong b (CHR '' '' # digits_of b n @ r) = Some (of_nat n, r)"
proof -
  note digits = digits_of_digits[OF assms(1,2), of n]
  then have "list_all isdigit (digits_of b n)" by (auto simp: list_all_iff digit_below_def)
  then obtain c cs where c: "digits_of b n = c # cs" "isdigit c"
    by (cases "digits_of b n") auto
  have t: "takeWhile (digit_below b) (digits_of b n @ r) = digits_of b n"
    using digits assms(4) by (cases r) (auto simp: ends_word_def list_all_iff takeWhile_append2)
  have "split_sign (digits_of b n @ r) = (False, digits_of b n @ r)"
    "dropWhile isspace (digits_of b n @ r) = digits_of b n @ r"
    using c isdigit_chars[of c] by (auto simp: split_sign_def)
  with t assms show ?thesis
    by (simp add: scan_ulong_def num_of_digits_of Let_def not_le)
qed

lemma scan_ulong_dash: "scan_ulong b (CHR '' '' # CHR ''-'' # CHR '' '' # r) = None"
  by (simp add: scan_ulong_def split_sign_def isspace_def)

text \<open>An entry printed as the comment in the source shows them, with blanks between the fields.\<close>

definition entry_start ::
    "string \<Rightarrow> char \<Rightarrow> nat \<Rightarrow> string \<Rightarrow> string \<Rightarrow> nat \<Rightarrow> nat \<Rightarrow> string \<Rightarrow> string" where
  "entry_start path type mode usr grp major minor rest =
     path @ '' '' @ type # '' '' @ digits_of 8 mode @ '' '' @ usr @ '' '' @ grp @ '' '' @
     dec major @ '' '' @ dec minor @ '' '' @ rest"

definition full_rest :: "nat \<Rightarrow> nat \<Rightarrow> nat \<Rightarrow> string" where
  "full_rest start inc count = dec start @ '' '' @ dec inc @ '' '' @ dec count"

lemma scan_entry_printed:
  assumes "word_ok 4095 path" and "\<not> isspace type" and "word_ok 39 usr" and "word_ok 39 grp"
    and "list_all (\<lambda>n. n < 2 ^ 64) [mode, major, minor, start, inc, count]"
  shows "scan_entry (entry_start path type mode usr grp major minor (full_rest start inc count)) =
      Some \<lparr>e_path = Some path, e_type = Some type, e_mode = of_nat mode, e_usr = Some usr,
        e_grp = Some grp, e_major = of_nat major, e_minor = of_nat minor, e_start = of_nat start,
        e_increment = of_nat inc, e_count = of_nat count\<rparr> \<and>
    scan_entry (entry_start path type mode usr grp major minor ''- - -'') =
      Some \<lparr>e_path = Some path, e_type = Some type, e_mode = of_nat mode, e_usr = Some usr,
        e_grp = Some grp, e_major = of_nat major, e_minor = of_nat minor, e_start = 0,
        e_increment = 1, e_count = 0\<rparr>"
proof -
  have blank: "ends_word (CHR '' '' # r)" "ends_word []" for r by (simp_all add: ends_word_def)
  have num: "scan_ulong 10 (CHR '' '' # dec n @ r) = Some (of_nat n, r)"
    if "n < 2 ^ 64" "ends_word r" for n r
    using scan_ulong_word[of 10 n r] that by simp
  have last: "scan_ulong 10 (CHR '' '' # dec n) = Some (of_nat n, [])" if "n < 2 ^ 64" for n
    using num[of n "[]"] that blank by simp
  have oct: "scan_ulong 8 (CHR '' '' # digits_of 8 n @ r) = Some (of_nat n, r)"
    if "n < 2 ^ 64" "ends_word r" for n r
    using scan_ulong_word[of 8 n r] that by simp
  note nums = assms(5)[unfolded list.pred_inject]
  show ?thesis
    using assms(2) nums
    by (simp add: scan_entry_def entry_start_def full_rest_def scan_numbers_def empty_entry_def
        scan_string_word[OF assms(1) blank(1)] scan_string_word[OF assms(3) blank(1)]
        scan_string_word[OF assms(4) blank(1)] scan_char_word num oct last blank scan_ulong_dash
        Let_def)
qed

lemmas scan_dashes = scan_entry_printed[THEN conjunct2]

text \<open>
  A device table line with all ten fields scans to exactly these fields, numbers up to 64
  bits and the mode in octal; with the dashes of the comment behind the minor number the range
  keeps its defaults, start 0, increment 1 and count 0.
\<close>

theorem scan_entry_round_trip:
  assumes "word_ok 4095 path" and "\<not> isspace type" and "word_ok 39 usr" and "word_ok 39 grp"
    and "list_all (\<lambda>n. n < 2 ^ 64) [mode, major, minor, start, inc, count]"
  shows "scan_entry (entry_start path type mode usr grp major minor (full_rest start inc count)) =
      Some \<lparr>e_path = Some path, e_type = Some type, e_mode = of_nat mode, e_usr = Some usr,
        e_grp = Some grp, e_major = of_nat major, e_minor = of_nat minor, e_start = of_nat start,
        e_increment = of_nat inc, e_count = of_nat count\<rparr> \<and>
    scan_entry (entry_start path type mode usr grp major minor ''- - -'') =
      Some \<lparr>e_path = Some path, e_type = Some type, e_mode = of_nat mode, e_usr = Some usr,
        e_grp = Some grp, e_major = of_nat major, e_minor = of_nat minor, e_start = 0,
        e_increment = 1, e_count = 0\<rparr>"
  using assms by (rule scan_entry_printed)

lemma scan_entry_round_trip_witness:
  "scan_entry (entry_start ''/dev/tty'' (CHR ''c'') 438 ''root'' ''tty'' 4 64 (full_rest 0 1 4)) =
      Some \<lparr>e_path = Some ''/dev/tty'', e_type = Some (CHR ''c''), e_mode = of_nat 438,
        e_usr = Some ''root'', e_grp = Some ''tty'', e_major = of_nat 4, e_minor = of_nat 64,
        e_start = of_nat 0, e_increment = of_nat 1, e_count = of_nat 4\<rparr> \<and>
    scan_entry (entry_start ''/dev/tty'' (CHR ''c'') 438 ''root'' ''tty'' 4 64 ''- - -'') =
      Some \<lparr>e_path = Some ''/dev/tty'', e_type = Some (CHR ''c''), e_mode = of_nat 438,
        e_usr = Some ''root'', e_grp = Some ''tty'', e_major = of_nat 4, e_minor = of_nat 64,
        e_start = 0, e_increment = 1, e_count = 0\<rparr>"
  by (rule scan_entry_round_trip) (simp_all add: word_ok_def isspace_def)

text \<open>
  The result of the scan is only compared with 0, so an entry that is a path and nothing else
  goes on to look up a user name in a buffer that was never written.
\<close>

theorem incomplete_entry_reads_garbage:
  assumes "word_ok 4095 path"
  shows "interpret_table_entry rootdir usr_list grp_list path os =
    (Inl (Uninitialised ''usr_buf''), os)"
proof -
  have "scan_string 4095 path = Some (path, [])"
    using scan_string_word(1)[OF assms, of "[]"] by (simp add: ends_word_def)
  then have "scan_entry path = Some (empty_entry\<lparr>e_path := Some path\<rparr>)"
    by (simp add: scan_entry_def scan_char_def)
  then show ?thesis
    by (simp add: interpret_table_entry_def empty_entry_def needC_def bindC_def stopC_def)
qed

lemma incomplete_entry_reads_garbage_witness:
  "interpret_table_entry ''.'' [] [] ''/dev/null'' (small_os []) =
    (Inl (Uninitialised ''usr_buf''), small_os [])"
  by (rule incomplete_entry_reads_garbage) (simp add: word_ok_def isspace_def)

subsection \<open>Device numbers\<close>

text \<open>
  \<^theory_text>\<open>MKDEV\<close> encodes a minor number below 256 so that both parts can be read
  back, and ors the bits of a larger one into the major number: the node belongs to another
  device, with no message.
\<close>

theorem mkdev_minor_spills:
  "MKDEV ma mi = MKDEV (ma OR drop_bit 8 mi) (mi AND 255) \<and>
   (ma < 2 ^ 56 \<longrightarrow> mi < 256 \<longrightarrow> drop_bit 8 (MKDEV ma mi) = ma \<and> MKDEV ma mi AND 255 = mi)"
proof (intro conjI impI)
  have mask: "(255 :: 64 word) = mask 8" by (simp add: mask_eq_exp_minus_1)
  show "MKDEV ma mi = MKDEV (ma OR drop_bit 8 mi) (mi AND 255)"
    unfolding MKDEV_def mask by (rule bit_word_eqI) (auto simp: bit_simps)
  assume ma: "ma < 2 ^ 56" and "mi < 256"
  then have "mi < 2 ^ 8" by simp
  with ma have bits: "bit ma n \<Longrightarrow> n < 56" and mi_bits: "bit mi n \<Longrightarrow> n < 8" for n
    using word_bit_bound[of ma 56 n] word_bit_bound[of mi 8 n] by (metis not_le)+
  show "drop_bit 8 (MKDEV ma mi) = ma"
    unfolding MKDEV_def by (rule bit_word_eqI) (auto simp: bit_simps dest: bits mi_bits)
  show "MKDEV ma mi AND 255 = mi"
    unfolding MKDEV_def mask by (rule bit_word_eqI) (auto simp: bit_simps dest: mi_bits)
qed

lemma mkdev_minor_spills_witness:
  "MKDEV 1 255 = MKDEV (1 OR drop_bit 8 255) (255 AND 255) \<and>
   drop_bit 8 (MKDEV 1 255) = 1 \<and> MKDEV 1 255 AND 255 = 255"
proof -
  have "(1 :: 64 word) < 2 ^ 56" "(255 :: 64 word) < 256" by simp_all
  then show ?thesis using mkdev_minor_spills[of 1 255] by blast
qed

subsection \<open>Ranges of devices\<close>

text \<open>The inode \<^theory_text>\<open>add_new_device\<close> leaves where there was none.\<close>

definition device_inode :: "64 word \<Rightarrow> 64 word \<Rightarrow> 64 word \<Rightarrow> 64 word \<Rightarrow> inode" where
  "device_inode uid gid mode rdev = (drop_suid \<lparr>i_mode = ucast mode AND (S_IFMT OR 0xFFF),
       i_uid = 0, i_gid = 0, i_rdev = rdev, i_data = []\<rparr>)
     \<lparr>i_uid := (if (ucast uid :: 32 word) = - 1 then 0 else ucast uid),
      i_gid := (if (ucast gid :: 32 word) = - 1 then 0 else ucast gid)\<rparr>"

definition device_mode :: "64 word \<Rightarrow> bool" where
  "device_mode mode \<longleftrightarrow> ucast mode AND S_IFMT = S_IFCHR \<or> ucast mode AND S_IFMT = S_IFBLK"

lemma resolve_set_inode [simp]: "resolve (set_inode p i os) s = resolve os s"
  by (simp add: resolve_def set_inode_def)

lemma add_device_fresh:
  assumes "resolve os path = Some (D @ [c])" and "fs os (D @ [c]) = None"
    and "fs os D = Some d" and "is_dir d" and "device_mode mode"
  shows "add_new_device path uid gid mode rdev os =
    (Inr (), set_inode (D @ [c]) (device_inode uid gid mode rdev) os)"
proof -
  have u: "i_uid (drop_suid i) = i_uid i" "i_gid (drop_suid i) = i_gid i" for i
    by (simp_all add: drop_suid_def Let_def)
  show ?thesis
    using assms by (simp add: add_new_device_def lookup_def sys_mknod_def create_def sys_chown_def
        device_inode_def device_mode_def) (simp add: set_inode_def)
qed

lemma resolve_child:
  assumes "s \<noteq> []" and "resolve os s = Some D" and "CHR ''/'' \<notin> set b" and "b \<noteq> []" and "b \<noteq> ''.''"
  shows "resolve os (s @ CHR ''/'' # b) = Some (D @ [b])"
  using assms components_one[of b] by (auto simp: resolve_def components_slash split: if_splits)

lemma numbered_name:
  assumes "CHR ''/'' \<notin> set base"
  shows "CHR ''/'' \<notin> set (base @ dec n)" and "base @ dec n \<noteq> []" and "base @ dec n \<noteq> ''.''"
proof -
  have d: "isdigit c" if "c \<in> set (dec n)" for c
    using dec_digits[of n] that by (simp add: list_all_iff)
  show "CHR ''/'' \<notin> set (base @ dec n)" using assms d isdigit_chars(6) by auto
  show "base @ dec n \<noteq> []" by simp
  have "last (base @ dec n) \<in> set (dec n)" by simp
  then have "isdigit (last (base @ dec n))" by (rule d)
  moreover have "\<not> isdigit (last ''.'')" by (simp add: isdigit_def)
  ultimately show "base @ dec n \<noteq> ''.''" by metis
qed

lemma show_int_nat: "show_int (int n) = dec n"
  by (simp add: show_int_def)

lemma of_nat_word_less: "m < 2 ^ 64 \<Longrightarrow> n < 2 ^ 64 \<Longrightarrow> (of_nat m :: 64 word) < of_nat n \<longleftrightarrow> m < n"
  by (simp add: word_less_nat_alt unat_of_nat take_bit_nat_eq_self)

text \<open>The system with the nodes \<open>k\<close> to \<open>count - 1\<close> of a range added.\<close>

definition with_devices ::
    "path \<Rightarrow> string \<Rightarrow> nat \<Rightarrow> (nat \<Rightarrow> inode) \<Rightarrow> nat list \<Rightarrow> os \<Rightarrow> os" where
  "with_devices D base start node js os =
     fold (\<lambda>j. set_inode (D @ [base @ dec (start + j)]) (node j)) js os"

lemma with_devices_fs:
  assumes "distinct js"
  shows "fs (with_devices D base start node js os) p =
    (case find (\<lambda>j. p = D @ [base @ dec (start + j)]) js of Some j \<Rightarrow> Some (node j) | None \<Rightarrow> fs os p)"
  using assms
proof (induction js arbitrary: os)
  case (Cons j js)
  have "find (\<lambda>i. D @ [base @ dec (start + j)] = D @ [base @ dec (start + i)]) js = None"
    using Cons.prems by (auto simp: find_None_iff digits_of_inj)
  with Cons show ?case
    by (auto simp: with_devices_def set_inode_def split: option.split)
qed (simp add: with_devices_def)

lemma with_devices_at:
  assumes "distinct js" and "j \<in> set js"
  shows "fs (with_devices D base start node js os) (D @ [base @ dec (start + j)]) = Some (node j)"
proof -
  have "find (\<lambda>i. D @ [base @ dec (start + j)] = D @ [base @ dec (start + i)]) js = Some j"
    using assms(2) by (induction js) (auto simp: digits_of_inj)
  then show ?thesis using assms(1) by (simp add: with_devices_fs)
qed

lemma with_devices_else:
  assumes "distinct js" and "\<And>j. j \<in> set js \<Longrightarrow> p \<noteq> D @ [base @ dec (start + j)]"
  shows "fs (with_devices D base start node js os) p = fs os p"
proof -
  have "find (\<lambda>j. p = D @ [base @ dec (start + j)]) js = None"
    using assms(2) by (auto simp: find_None_iff)
  with assms(1) show ?thesis by (simp add: with_devices_fs)
qed

lemma device_loop_fresh:
  fixes uid gid mode :: "64 word" and e :: entry
  assumes e: "e_start e = of_nat start" "e_count e = of_nat count" "start + count < 2 ^ 31"
    and fit: "length (dir @ ''/'' @ base) + 10 < 80" "length rootdir < 4000"
    and base: "CHR ''/'' \<notin> set base" and mode: "device_mode mode"
    and D: "resolve os (rootdir @ ''/'' @ dir) = Some D" "fs os D = Some d" "is_dir d"
    and free: "\<And>j. k \<le> j \<Longrightarrow> j < count \<Longrightarrow> fs os (D @ [base @ dec (start + j)]) = None"
    and k: "k \<le> count"
  defines "node \<equiv> (\<lambda>j. device_inode uid gid mode
      (MKDEV (e_major e) (e_minor e + of_nat j * e_increment e)))"
  shows "device_loop rootdir (dir @ ''/'' @ base) uid gid mode e (int (start + k)) os =
    (Inr (), with_devices D base start node [k..<count] os)"
  using D free k
proof (induction "count - k" arbitrary: k os)
  case 0
  then have "k = count" by simp
  with e show ?case
    by (subst device_loop.simps) (simp add: retC_def with_devices_def)
next
  case (Suc x)
  let ?name = "dir @ ''/'' @ base" and ?i = "int (start + k)"
  have kc: "k < count" using Suc.hyps(2) by simp
  have cond: "word_of_int ?i < e_start e + e_count e"
    using e kc of_nat_word_less[of "start + k" "start + count"] by simp
  have len: "length (dec (start + k)) \<le> 10" using e(3) kc by (intro dec_length) auto
  have fits: "fitsC v n t = retC ()" if "length t < n" for v n t using that by (simp add: fitsC_def)
  have shown: "show_int ?i = dec (start + k)" by (rule show_int_nat)
  have "length (?name @ show_int ?i) < 80"
    "length (rootdir @ ''/'' @ ?name @ show_int ?i) < PATH_BUF"
    unfolding shown using len fit by (simp_all add: PATH_BUF_def)
  note fits = fits[OF this(1)] fits[OF this(2)]
  have path: "resolve os (rootdir @ ''/'' @ ?name @ show_int ?i) = Some (D @ [base @ dec (start + k)])"
    using resolve_child[OF _ Suc.prems(1) numbered_name[OF base], of "start + k"]
    unfolding shown by simp
  have rdev: "word_of_int ?i - e_start e = of_nat k" using e(1) by simp
  let ?os = "set_inode (D @ [base @ dec (start + k)]) (node k) os"
  have step: "add_new_device (rootdir @ ''/'' @ ?name @ show_int ?i) uid gid mode
      (MKDEV (e_major e) (e_minor e + (word_of_int ?i - e_start e) * e_increment e)) os = (Inr (), ?os)"
    unfolding rdev node_def
    by (rule add_device_fresh[OF path _ Suc.prems(2,3) mode]) (rule Suc.prems(4), use kc in auto)
  have "device_loop rootdir ?name uid gid mode e ?i os =
      device_loop rootdir ?name uid gid mode e (int (start + Suc k)) ?os"
    using cond fits step e(3) kc
    by (subst device_loop.simps) (simp add: Let_def bindC_def retC_def add.commute del: of_nat_add)
  also have "\<dots> = (Inr (), with_devices D base start node [Suc k..<count] ?os)"
  proof (rule Suc.hyps(1))
    show "resolve ?os (rootdir @ ''/'' @ dir) = Some D"
      using Suc.prems(1) by simp
    show "fs ?os D = Some d" "is_dir d" using Suc.prems(2,3) by (simp_all add: set_inode_def)
    show "fs ?os (D @ [base @ dec (start + j)]) = None" if "Suc k \<le> j" "j < count" for j
      using Suc.prems(4)[of j] that by (simp add: set_inode_def digits_of_inj)
  qed (use Suc.hyps(2) kc in auto)
  also have "with_devices D base start node [Suc k..<count] ?os =
      with_devices D base start node [k..<count] os"
    using kc by (simp add: with_devices_def upt_conv_Cons)
  finally show ?case .
qed

text \<open>The entry of a range of character or block devices, as scanned, and its mode.\<close>

definition entry_mode :: "entry \<Rightarrow> 64 word" where
  "entry_mode e = e_mode e OR ucast (if e_type e = Some (CHR ''c'') then S_IFCHR else S_IFBLK)"

lemma interpret_range:
  assumes "scan_entry line = Some e" and "e_path e = Some (CHR ''/'' # name)"
    and "e_type e = Some (CHR ''c'') \<or> e_type e = Some (CHR ''b'')"
    and "e_usr e = Some u" and "convert2guid u usr_list = Inr uid"
    and "e_grp e = Some g" and "convert2guid g grp_list = Inr gid"
    and "0 < e_count e" and "length (rootdir @ ''/'' @ name) < PATH_BUF"
  shows "interpret_table_entry rootdir usr_list grp_list line os =
    bindC (device_loop rootdir name uid gid (entry_mode e) e (sint (ucast (e_start e) :: 32 word)))
      (\<lambda>_. retC 0) os"
  using assms
  by (auto simp: interpret_table_entry_def needC_def bindC_def retC_def liftC_def fitsC_def Let_def
      strncmp_equal_def entry_mode_def)

lemma sint_start: "n < 2 ^ 31 \<Longrightarrow> sint (ucast (of_nat n :: 64 word) :: 32 word) = int n"
proof -
  assume n: "n < 2 ^ 31"
  have "(ucast (of_nat n :: 64 word) :: 32 word) = of_nat n"
    by (rule bit_word_eqI) (simp add: bit_simps)
  then show ?thesis
    using n by (simp add: signed_of_nat signed_take_bit_int_eq_self)
qed

lemma device_range_at:
  assumes "scan_entry line = Some e" and "e_path e = Some (CHR ''/'' # dir @ ''/'' @ base)"
    and "e_type e = Some (CHR ''c'') \<or> e_type e = Some (CHR ''b'')"
    and "e_usr e = Some u" and "convert2guid u usr_list = Inr uid"
    and "e_grp e = Some g" and "convert2guid g grp_list = Inr gid"
    and "e_start e = of_nat start" and "e_count e = of_nat count" and "start + count < 2 ^ 31"
    and "0 < count" and "length (dir @ ''/'' @ base) < 70" and "length rootdir < 4000"
    and "CHR ''/'' \<notin> set base" and "device_mode (entry_mode e)"
    and "resolve os (rootdir @ ''/'' @ dir) = Some D" and "fs os D = Some d" and "is_dir d"
    and "\<And>j. j < count \<Longrightarrow> fs os (D @ [base @ dec (start + j)]) = None"
  shows "\<exists>os'. interpret_table_entry rootdir usr_list grp_list line os = (Inr 0, os') \<and>
    (\<forall>j<count. fs os' (D @ [base @ dec (start + j)]) = Some (device_inode uid gid (entry_mode e)
       (MKDEV (e_major e) (e_minor e + of_nat j * e_increment e)))) \<and>
    (\<forall>p. (\<forall>j<count. p \<noteq> D @ [base @ dec (start + j)]) \<longrightarrow> fs os' p = fs os p)"
proof -
  let ?node = "\<lambda>j. device_inode uid gid (entry_mode e)
      (MKDEV (e_major e) (e_minor e + of_nat j * e_increment e))"
  let ?os = "with_devices D base start ?node [0..<count] os"
  have "device_loop rootdir (dir @ ''/'' @ base) uid gid (entry_mode e) e (int (start + 0)) os =
      (Inr (), ?os)"
    by (rule device_loop_fresh[OF assms(8-10) _ assms(13-18)]) (use assms(12,19) in auto)
  moreover have "0 < e_count e"
    using assms(9-11) of_nat_word_less[of 0 count] by simp
  moreover have "sint (ucast (e_start e) :: 32 word) = int (start + 0)"
    using assms(8,10) sint_start[of start] by simp
  moreover have "length (rootdir @ ''/'' @ dir @ ''/'' @ base) < PATH_BUF"
    using assms(12,13) by (simp add: PATH_BUF_def)
  ultimately have "interpret_table_entry rootdir usr_list grp_list line os = (Inr 0, ?os)"
    using interpret_range[OF assms(1-7), of rootdir os] by (simp add: bindC_def retC_def)
  then show ?thesis
    using with_devices_at[of "[0..<count]"] with_devices_else[of "[0..<count]"] by auto
qed

text \<open>
  A mode with permission bits alone: the node gets them and its type, and nothing that \<open>chown\<close> clears.
\<close>

lemma plain_device:
  assumes "mode < 512" and "t = S_IFCHR \<or> t = S_IFBLK"
  shows "device_mode (mode OR ucast t)" "i_mode (device_inode uid gid (mode OR ucast t) rdev) = t OR ucast mode"
proof -
  define w where "w = (ucast mode :: 32 word)"
  have bits: "bit mode k \<Longrightarrow> k < 9" for k using word_bit_bound[of mode 9 k] assms(1) by fastforce
  have w: "w = w AND mask 9"
    by (rule bit_word_eqI) (auto simp: w_def bit_simps dest: bits)
  have m: "(ucast (mode OR ucast t) :: 32 word) = w AND 0x1FF OR t"
    using w by (simp add: w_def mask_eq_exp_minus_1) (rule bit_word_eqI; auto simp: bit_simps)
  show "device_mode (mode OR ucast t)"
    unfolding device_mode_def m using assms(2)
    by (elim disjE) (simp_all add: S_defs bit.conj_disj_distrib2 and.assoc)
  show "i_mode (device_inode uid gid (mode OR ucast t) rdev) = t OR ucast mode"
    unfolding device_inode_def m w_def[symmetric] using assms(2)
    by (subst w, elim disjE) (simp_all add: S_defs drop_suid_def is_dir_def bit.conj_disj_distrib2 and.assoc Let_def mask_eq_exp_minus_1 or.commute)
qed

text \<open>
  C27: A table entry for a range of character or block devices creates exactly its nodes: with a free range in
  an existing directory, a mode of permission bits alone, a major number below 4096 and minor numbers below
  256, node \<open>start + j\<close> has the type of the entry, the major number, the minor number plus \<open>j\<close> times the
  increment, the mode and the owner, for every \<open>j\<close> below the count, and nothing else in the system changes.
  (For these numbers the C library packs a device number in the same way. Larger minor numbers spill into the
  major number, and \<open>chown\<close> clears a setuid bit: both are lemmas.)
\<close>
theorem device_range_created:
  assumes "scan_entry line = Some e" and "e_path e = Some (CHR ''/'' # dir @ ''/'' @ base)"
    and "e_type e = Some (CHR ''c'') \<or> e_type e = Some (CHR ''b'')"
    and "e_usr e = Some u" and "convert2guid u usr_list = Inr uid"
    and "e_grp e = Some g" and "convert2guid g grp_list = Inr gid"
    and "e_start e = of_nat start" and "e_count e = of_nat count" and "start + count < 2 ^ 31"
    and "0 < count" and "length (dir @ ''/'' @ base) < 70" and "length rootdir < 4000"
    and "CHR ''/'' \<notin> set base" and "e_mode e < 512" and "e_major e < 4096"
    and "\<And>j. j < count \<Longrightarrow> e_minor e + of_nat j * e_increment e < 256"
    and "(ucast uid :: 32 word) \<noteq> - 1" and "(ucast gid :: 32 word) \<noteq> - 1"
    and "resolve os (rootdir @ ''/'' @ dir) = Some D" and "fs os D = Some d" and "is_dir d"
    and "\<And>j. j < count \<Longrightarrow> fs os (D @ [base @ dec (start + j)]) = None"
  shows "\<exists>os'. interpret_table_entry rootdir usr_list grp_list line os = (Inr 0, os') \<and>
    (\<forall>j<count. \<exists>nd. fs os' (D @ [base @ dec (start + j)]) = Some nd \<and>
       i_mode nd = (if e_type e = Some (CHR ''c'') then S_IFCHR else S_IFBLK) OR ucast (e_mode e) \<and>
       drop_bit 8 (i_rdev nd) = e_major e \<and> i_rdev nd AND 255 = e_minor e + of_nat j * e_increment e \<and>
       i_uid nd = ucast uid \<and> i_gid nd = ucast gid) \<and>
    (\<forall>p. (\<forall>j<count. p \<noteq> D @ [base @ dec (start + j)]) \<longrightarrow> fs os' p = fs os p)"
proof -
  let ?t = "if e_type e = Some (CHR ''c'') then S_IFCHR else S_IFBLK"
  have t: "?t = S_IFCHR \<or> ?t = S_IFBLK" by simp
  have mode: "device_mode (entry_mode e)" "i_mode (device_inode uid gid (entry_mode e) r) = ?t OR ucast (e_mode e)" for r
    using plain_device[OF assms(15) t] by (simp_all add: entry_mode_def)
  have own: "i_uid (device_inode uid gid (entry_mode e) r) = ucast uid"
    "i_gid (device_inode uid gid (entry_mode e) r) = ucast gid" "i_rdev (device_inode uid gid (entry_mode e) r) = r" for r
    using assms(18,19) by (simp_all add: device_inode_def drop_suid_def Let_def)
  have "e_major e < 2 ^ 56" using assms(16) by (rule order.strict_trans) simp
  then have numbers: "drop_bit 8 (MKDEV (e_major e) m) = e_major e" "MKDEV (e_major e) m AND 255 = m" if "m < 256" for m
    using mkdev_minor_spills[of "e_major e" m] that by blast+
  from device_range_at[OF assms(1-14) mode(1) assms(20-23)] obtain os' where
    "interpret_table_entry rootdir usr_list grp_list line os = (Inr 0, os')"
    "\<forall>j<count. fs os' (D @ [base @ dec (start + j)]) = Some (device_inode uid gid (entry_mode e)
       (MKDEV (e_major e) (e_minor e + of_nat j * e_increment e)))"
    "\<forall>p. (\<forall>j<count. p \<noteq> D @ [base @ dec (start + j)]) \<longrightarrow> fs os' p = fs os p" by blast
  with mode(2) own numbers[OF assms(17)] show ?thesis by (intro exI[of _ os']) simp
qed

text \<open>A system with an empty directory for devices, and an entry for three terminals.\<close>

definition dev_os :: os where
  "dev_os = \<lparr>fs = [[] \<mapsto> \<lparr>i_mode = 0x41ED, i_uid = 0, i_gid = 0, i_rdev = 0, i_data = []\<rparr>,
     [''dev''] \<mapsto> \<lparr>i_mode = 0x41ED, i_uid = 0, i_gid = 0, i_rdev = 0, i_data = []\<rparr>],
     cwd = [], openable = (\<lambda>_. False)\<rparr>"

definition range_entry :: "string \<Rightarrow> entry" where
  "range_entry path = \<lparr>e_path = Some path, e_type = Some (CHR ''c''), e_mode = of_nat 432,
     e_usr = Some ''0'', e_grp = Some ''5'', e_major = of_nat 4, e_minor = of_nat 64,
     e_start = of_nat 8, e_increment = of_nat 1, e_count = of_nat 3\<rparr>"

lemma range_entry_scan:
  assumes "word_ok 4095 path"
  shows "scan_entry (entry_start path (CHR ''c'') 432 ''0'' ''5'' 4 64 (full_rest 8 1 3)) =
    Some (range_entry path)"
  unfolding range_entry_def
  by (rule scan_entry_printed[OF assms, THEN conjunct1]) (simp_all add: word_ok_def isspace_def)

lemma guid_0_5: "convert2guid ''0'' [] = Inr (atol ''0'')" "convert2guid ''5'' [] = Inr (atol ''5'')"
  by (simp_all add: convert2guid_def isdigit_def)

lemma device_range_created_witness:
  "\<exists>os'. interpret_table_entry ''.'' [] []
      (entry_start ''/dev/tty'' (CHR ''c'') 432 ''0'' ''5'' 4 64 (full_rest 8 1 3)) dev_os = (Inr 0, os') \<and>
    (\<forall>j<3. \<exists>nd. fs os' ([''dev''] @ [''tty'' @ dec (8 + j)]) = Some nd \<and>
       i_mode nd = (if e_type (range_entry ''/dev/tty'') = Some (CHR ''c'') then S_IFCHR else S_IFBLK) OR
         ucast (e_mode (range_entry ''/dev/tty'')) \<and>
       drop_bit 8 (i_rdev nd) = e_major (range_entry ''/dev/tty'') \<and>
       i_rdev nd AND 255 = e_minor (range_entry ''/dev/tty'') + of_nat j * e_increment (range_entry ''/dev/tty'') \<and>
       i_uid nd = ucast (atol ''0'') \<and> i_gid nd = ucast (atol ''5'')) \<and>
    (\<forall>p. (\<forall>j<3. p \<noteq> [''dev''] @ [''tty'' @ dec (8 + j)]) \<longrightarrow> fs os' p = fs dev_os p)"
proof (rule device_range_created[where start = 8 and count = 3 and dir = "''dev''" and base = "''tty''"
      and u = "''0''" and g = "''5''" and
      d = "\<lparr>i_mode = 0x41ED, i_uid = 0, i_gid = 0, i_rdev = 0, i_data = []\<rparr>"])
  show "scan_entry (entry_start ''/dev/tty'' (CHR ''c'') 432 ''0'' ''5'' 4 64 (full_rest 8 1 3)) =
      Some (range_entry ''/dev/tty'')"
    by (rule range_entry_scan) (simp add: word_ok_def isspace_def)
  show "e_minor (range_entry ''/dev/tty'') + of_nat j * e_increment (range_entry ''/dev/tty'') < 256" if "j < 3" for j
    using that by (auto simp: range_entry_def less_Suc_eq numeral_3_eq_3)
  show "resolve dev_os (''.'' @ ''/'' @ ''dev'') = Some [''dev'']"
    by (simp add: resolve_def components_def dev_os_def)
  show "(ucast (atol ''0'') :: 32 word) \<noteq> - 1" "(ucast (atol ''5'') :: 32 word) \<noteq> - 1" by code_simp+
qed (simp_all add: range_entry_def guid_0_5 dev_os_def is_dir_def S_defs)

text \<open>
  A range entry whose name without the leading slash has 79 characters or more overruns the 80
  byte buffer for the numbered name, before anything is created.
\<close>

theorem long_range_name_overflows:
  assumes "scan_entry line = Some e" and "e_path e = Some (CHR ''/'' # name)"
    and "e_type e = Some (CHR ''c'') \<or> e_type e = Some (CHR ''b'')"
    and "e_usr e = Some u" and "convert2guid u usr_list = Inr uid"
    and "e_grp e = Some g" and "convert2guid g grp_list = Inr gid"
    and "e_start e = of_nat start" and "e_count e = of_nat count" and "start + count < 2 ^ 31"
    and "0 < count" and "79 \<le> length name" and "length (rootdir @ ''/'' @ name) < PATH_BUF"
  shows "interpret_table_entry rootdir usr_list grp_list line os =
    (Inl (Buffer_overflow ''buf''), os)"
proof -
  have "0 < e_count e" using assms(9-11) of_nat_word_less[of 0 count] by simp
  note range = interpret_range[OF assms(1-7) this assms(13), of os]
  have start: "sint (ucast (e_start e) :: 32 word) = int start"
    using assms(8,10) sint_start[of start] by simp
  have "word_of_int (int start) < e_start e + e_count e"
    using assms(8-11) of_nat_word_less[of start "start + count"] by simp
  moreover obtain c cs where "show_int (int start) = c # cs"
    by (cases "show_int (int start)") (auto simp: show_int_nat)
  then have "\<not> length (name @ show_int (int start)) < 80" using assms(12) by simp
  ultimately show ?thesis
    unfolding range start
    by (subst device_loop.simps) (simp add: Let_def fitsC_def bindC_def stopC_def)
qed

lemma long_range_name_overflows_witness:
  "interpret_table_entry ''.'' [] [] (entry_start (CHR ''/'' # replicate 79 (CHR ''a''))
      (CHR ''c'') 432 ''0'' ''5'' 4 64 (full_rest 8 1 3)) dev_os =
    (Inl (Buffer_overflow ''buf''), dev_os)"
proof (rule long_range_name_overflows[where start = 8 and count = 3 and
      u = "''0''" and g = "''5''" and name = "replicate 79 (CHR ''a'')"])
  show "scan_entry (entry_start (CHR ''/'' # replicate 79 (CHR ''a''))
      (CHR ''c'') 432 ''0'' ''5'' 4 64 (full_rest 8 1 3)) =
      Some (range_entry (CHR ''/'' # replicate 79 (CHR ''a'')))"
    by (rule range_entry_scan) (auto simp: word_ok_def isspace_def list_all_iff)
qed (simp_all add: range_entry_def guid_0_5 PATH_BUF_def)

end
