(* ===== verification/Makedevs_Root.thy ===== *)
theory Makedevs_Root
  imports Makedevs_Table
begin

text \<open>
  Where the entries of \<open>makedevs.c\<close> end up for the root directories it accepts, and what becomes of
  the set-user-ID and set-group-ID bits of an entry.
\<close>

subsection \<open>Root directories\<close>

text \<open>
  After the change to the root directory an entry's path still starts with it: an absolute root is
  found again, a relative one is looked for inside itself.
\<close>

lemma entry_path_after_chdir:
  assumes "sys_chdir r os = Some os1"
  shows "resolve os1 (r @ CHR ''/'' # name) =
    Some ((if hd r = CHR ''/'' then [] else cwd os @ components r) @ components r @ components name)"
proof -
  have "r \<noteq> []" using assms by (auto simp: sys_chdir_def resolve_def)
  moreover from this have "cwd os1 = (if hd r = CHR ''/'' then [] else cwd os) @ components r"
    using assms by (auto simp: sys_chdir_def resolve_def split: option.splits if_splits)
  ultimately show ?thesis by (simp add: resolve_def components_slash)
qed

lemma chdir_fs: "sys_chdir r os = Some os1 \<Longrightarrow> fs os1 = fs os"
  by (auto simp: sys_chdir_def split: option.splits if_splits)

lemma tree_no_child:
  assumes "tree_ok os" and "fs os p = None"
  shows "fs os (p @ [c]) = None"
proof (rule ccontr)
  assume "fs os (p @ [c]) \<noteq> None"
  then obtain i where "fs os (p @ [c]) = Some i" by blast
  with assms show False by (fastforce simp: tree_ok_def)
qed

text \<open>Creating a directory below a missing one does nothing, and nothing is reported.\<close>

lemma mkdir_missing_parent:
  assumes "tree_ok os" and "resolve os path = Some (D @ [c])" and "fs os D = None"
  shows "add_new_directory path uid gid mode os = (Inr (), os)"
  using assms tree_no_child[OF assms(1,3), of c]
  by (simp add: add_new_directory_def sys_mkdir_def create_def sys_chown_def)

text \<open>
  With a relative root directory other than the working directory, a directory entry is looked
  for under the root directory a second time: unless the root contains its own path again, nothing
  is created and the program still reports success.
\<close>

theorem relative_root_creates_nothing:
  assumes "tree_ok os" and "sys_chdir r os = Some os1" and "hd r \<noteq> CHR ''/''"
    and "getlines table = [line]" and "trim_line line \<noteq> []" and "hd (trim_line line) \<noteq> CHR ''#''"
    and "scan_entry (trim_line line) = Some e" and "e_path e = Some (CHR ''/'' # c)"
    and "e_type e = Some (CHR ''d'')" and "CHR ''/'' \<notin> set c" and "c \<noteq> []" and "c \<noteq> ''.''"
    and "e_usr e = Some u" and "convert2guid u usr_list = Inr uid"
    and "e_grp e = Some g" and "convert2guid g grp_list = Inr gid"
    and "length (r @ ''/'' @ c) < PATH_BUF"
    and "fs os (cwd os @ components r @ components r) = None"
  shows "parse_devtable r usr_list grp_list table os = (Inr 0, os1)"
proof -
  have path: "resolve os1 (r @ CHR ''/'' # c) = Some ((cwd os @ components r @ components r) @ [c])"
    using entry_path_after_chdir[OF assms(2), of c] components_one[OF assms(10-12)] assms(3) by simp
  have tree: "tree_ok os1" using assms(1) chdir_fs[OF assms(2)] by (simp add: tree_ok_def)
  have add: "add_new_directory (r @ CHR ''/'' # c) uid gid m os1 = (Inr (), os1)" for m
    using mkdir_missing_parent[OF tree path] assms(18) chdir_fs[OF assms(2)] by simp
  have "lookup os r \<noteq> None"
    using assms(2) by (auto simp: sys_chdir_def lookup_def split: option.splits)
  moreover have "interpret_table_entry r usr_list grp_list (trim_line line) os1 = (Inr 0, os1)"
    using assms(7-9,13-17) add
    by (simp add: interpret_table_entry_def needC_def bindC_def retC_def liftC_def fitsC_def Let_def
        strncmp_equal_def)
  ultimately show ?thesis
    using assms(2,4-6) by (simp add: parse_devtable_def parse_device_table_def bindC_def retC_def)
qed

text \<open>A root directory \<^theory_text>\<open>build\<close> in the working directory.\<close>

definition build_os :: os where
  "build_os = \<lparr>fs = [[] \<mapsto> \<lparr>i_mode = 0x41ED, i_uid = 0, i_gid = 0, i_rdev = 0, i_data = []\<rparr>,
     [''build''] \<mapsto> \<lparr>i_mode = 0x41ED, i_uid = 0, i_gid = 0, i_rdev = 0, i_data = []\<rparr>],
     cwd = [], openable = (\<lambda>_. False)\<rparr>"

lemma build_os_tree: "tree_ok build_os"
proof -
  have "p = []" if "p @ [c] = [''build'']" for p :: path and c using that by (cases p) auto
  then show ?thesis
    by (auto simp: tree_ok_def build_os_def is_dir_def S_defs split: if_splits)
qed

definition dev_line :: string where
  "dev_line = entry_start ''/dev'' (CHR ''d'') 493 ''0'' ''0'' 0 0 ''- - -''"

lemma dev_line_text: "dev_line = ''/dev d 755 0 0 0 0 - - -''"
  by code_simp

lemma relative_root_creates_nothing_witness:
  "parse_devtable ''build'' [] [] dev_line build_os = (Inr 0, build_os\<lparr>cwd := [''build'']\<rparr>)"
proof (rule relative_root_creates_nothing[OF build_os_tree, where c = "''dev''" and
      u = "''0''" and g = "''0''" and e = "\<lparr>e_path = Some ''/dev'',
      e_type = Some (CHR ''d''), e_mode = of_nat 493, e_usr = Some ''0'', e_grp = Some ''0'',
      e_major = of_nat 0, e_minor = of_nat 0, e_start = 0, e_increment = 1, e_count = 0\<rparr>"])
  have trim: "trim_line dev_line = dev_line"
    by (simp add: dev_line_text trim_line_def isspace_def leading_space_def)
  then show "trim_line dev_line \<noteq> []" "hd (trim_line dev_line) \<noteq> CHR ''#''"
    by (simp_all add: dev_line_text)
  show "scan_entry (trim_line dev_line) = Some \<lparr>e_path = Some ''/dev'',
      e_type = Some (CHR ''d''), e_mode = of_nat 493, e_usr = Some ''0'', e_grp = Some ''0'',
      e_major = of_nat 0, e_minor = of_nat 0, e_start = 0, e_increment = 1, e_count = 0\<rparr>"
    unfolding trim unfolding dev_line_def
    by (rule scan_dashes[where start = 0 and inc = 0 and count = 0]) (simp_all add: word_ok_def isspace_def)
  show "getlines dev_line = [dev_line]" by (simp add: dev_line_text)
  show "sys_chdir ''build'' build_os = Some (build_os\<lparr>cwd := [''build'']\<rparr>)"
    by (simp add: sys_chdir_def resolve_def components_def build_os_def is_dir_def S_defs)
  show "fs build_os (cwd build_os @ components ''build'' @ components ''build'') = None"
    by (simp add: build_os_def components_def)
  show "convert2guid ''0'' [] = Inr (atol ''0'')" by (simp add: convert2guid_def isdigit_def)
  then show "convert2guid ''0'' [] = Inr (atol ''0'')" .
qed (simp_all add: PATH_BUF_def)

text \<open>
  The root directory \<^theory_text>\<open>/\<close> is replaced by the empty string, and the first thing
  done with a device table is to look up that string: the program always ends with an error
  message and an empty name before any entry, and nothing is created.
\<close>

theorem root_slash_always_fails:
  assumes "tree_ok os" and "lookup os f = Some i" and "10 \<le> length (i_data i)"
    and "read_list ''/etc/passwd'' os = (Inr usr_list, os)"
    and "read_list ''/etc/group'' os = (Inr grp_list, os)"
  shows "main [Opt_r ''/'', Opt_D f] False os = (Inl (Die ''''), os)"
proof -
  have "resolve os ''/'' = Some []" by (simp add: resolve_def components_def)
  then obtain d where "lookup os ''/'' = Some d" "is_dir d"
    using assms(1) by (auto simp: lookup_def tree_ok_def)
  moreover have "lookup os [] = None" by (simp add: lookup_def resolve_def)
  ultimately show ?thesis
    using assms(2-5)
    by (simp add: main_def bindC_def retC_def fitsC_def PATH_BUF_def parse_devtable_def)
qed

lemma root_slash_always_fails_witness:
  "main [Opt_r ''/'', Opt_D ''t''] False (small_os ''/dev d 755 0 0'') =
    (Inl (Die ''''), small_os ''/dev d 755 0 0'')"
  by (rule root_slash_always_fails[OF small_os_tree, where usr_list = "[]" and grp_list = "[]" and
        i = "\<lparr>i_mode = 0x81A4, i_uid = 0, i_gid = 0, i_rdev = 0, i_data = ''/dev d 755 0 0''\<rparr>"])
    (simp_all add: small_os_def lookup_def resolve_def components_def read_list_def)

subsection \<open>Set-user-ID and set-group-ID bits\<close>

lemma drop_suid_clears:
  "\<not> is_dir i \<Longrightarrow> i_mode (drop_suid i) AND S_ISUID = 0"
  "\<not> is_dir i \<Longrightarrow> i_mode (drop_suid i) AND S_IXGRP \<noteq> 0 \<Longrightarrow> i_mode (drop_suid i) AND S_ISGID = 0"
proof -
  have "(w AND NOT S_ISUID) AND S_ISUID = 0"
    "((w AND NOT S_ISUID) AND NOT S_ISGID) AND S_ISUID = 0"
    "((w AND NOT S_ISUID) AND NOT S_ISGID) AND S_ISGID = 0" for w :: "32 word"
    by (simp_all add: S_defs and.assoc)
  then show "\<not> is_dir i \<Longrightarrow> i_mode (drop_suid i) AND S_ISUID = 0"
    "\<not> is_dir i \<Longrightarrow> i_mode (drop_suid i) AND S_IXGRP \<noteq> 0 \<Longrightarrow> i_mode (drop_suid i) AND S_ISGID = 0"
    by (auto simp: drop_suid_def Let_def)
qed

lemma lookup_chown:
  assumes "lookup os path = Some i"
  shows "lookup (sys_chown path u g os) path = Some ((drop_suid i)
    \<lparr>i_uid := (if u = - 1 then i_uid i else u), i_gid := (if g = - 1 then i_gid i else g)\<rparr>)"
  using assms by (auto simp: lookup_def sys_chown_def split: option.splits) (simp_all add: set_inode_def)

lemma lookup_chmod:
  assumes "lookup os path = Some i"
  shows "lookup (sys_chmod path m os) path =
    Some (i\<lparr>i_mode := (i_mode i AND S_IFMT) OR (m AND 0xFFF)\<rparr>)"
  using assms by (auto simp: lookup_def sys_chmod_def split: option.splits) (simp_all add: set_inode_def)

lemma lookup_create:
  assumes "create path i os = (None, os')"
  shows "lookup os' path = Some i"
  using assms by (auto simp: create_def lookup_def split: option.splits if_splits) (simp_all add: set_inode_def)

text \<open>
  The mode of a regular file entry is set before its owner, and changing the owner clears the
  set-user-ID bit, and the set-group-ID bit of a group-executable file: a file entry never ends
  with these bits, whatever its mode says and whether or not the file existed.
\<close>

theorem file_entry_loses_setuid:
  assumes "add_new_file path uid gid mode os = (Inr (), os')"
  shows "\<exists>i. lookup os' path = Some i \<and> i_mode i AND S_ISUID = 0 \<and>
    (i_mode i AND S_IXGRP \<noteq> 0 \<longrightarrow> i_mode i AND S_ISGID = 0)"
proof -
  obtain os1 where opened: "sys_open_creat path (ucast mode) os = Some (None, os1)"
    and os': "os' = sys_chown path (ucast uid) (ucast gid) (sys_chmod path (ucast mode) os1)"
    using assms by (auto simp: add_new_file_def Let_def split: option.splits prod.splits)
  have "\<exists>i. lookup os1 path = Some i \<and> \<not> is_dir i"
  proof (cases "lookup os path")
    case None
    let ?i = "\<lparr>i_mode = S_IFREG OR (ucast mode AND 0xFFF), i_uid = 0, i_gid = 0, i_rdev = 0,
      i_data = []\<rparr>"
    from None opened have "lookup os1 path = Some ?i"
      by (intro lookup_create) (simp add: sys_open_creat_def)
    moreover have "(S_IFREG OR (w AND 0xFFF)) AND S_IFMT = S_IFREG" for w :: "32 word"
      by (simp add: S_defs bit.conj_disj_distrib2 and.assoc)
    then have "\<not> is_dir ?i" by (simp add: is_dir_def) (simp add: S_defs)
    ultimately show ?thesis by blast
  next
    case (Some i)
    with opened show ?thesis by (auto simp: sys_open_creat_def split: if_splits)
  qed
  then obtain i where i: "lookup os1 path = Some i" "\<not> is_dir i" by blast
  let ?m = "i\<lparr>i_mode := (i_mode i AND S_IFMT) OR (ucast mode AND 0xFFF)\<rparr>"
  have "\<not> is_dir ?m" using i(2) same_type_dir[OF same_type_chmod] by blast
  with drop_suid_clears[of ?m] lookup_chown[OF lookup_chmod[OF i(1)]] show ?thesis
    unfolding os' by auto
qed

lemma file_entry_loses_setuid_witness:
  "\<exists>i. lookup (snd (add_new_file ''t'' 0 0 (ucast S_IFREG OR 2541) (small_os []))) ''t'' = Some i \<and>
    i_mode i AND S_ISUID = 0 \<and> (i_mode i AND S_IXGRP \<noteq> 0 \<longrightarrow> i_mode i AND S_ISGID = 0)"
  by (rule file_entry_loses_setuid[of _ 0 0 "ucast S_IFREG OR 2541" "small_os []"])
    (simp add: add_new_file_def sys_open_creat_def lookup_def resolve_def components_def small_os_def
      is_dir_def S_defs)

text \<open>
  A directory entry gives a new directory only the permission and sticky bits of its mode,
  an existing directory all of them: with a set-group-ID bit in the table, the second run of the
  program leaves another mode than the first.
\<close>

theorem directory_entry_mode:
  assumes "resolve os path = Some (D @ [c])" and "fs os D = Some d" and "is_dir d"
    and "fs os (D @ [c]) = None"
  shows "\<exists>os1 i1 os2 i2.
    add_new_directory path uid gid (ucast S_IFDIR OR mode) os = (Inr (), os1) \<and>
    lookup os1 path = Some i1 \<and> i_mode i1 = S_IFDIR OR (ucast mode AND 0x3FF) \<and>
    add_new_directory path uid gid (ucast S_IFDIR OR mode) os1 = (Inr (), os2) \<and>
    lookup os2 path = Some i2 \<and> i_mode i2 = S_IFDIR OR (ucast mode AND 0xFFF)"
proof -
  let ?m = "ucast (ucast S_IFDIR OR mode) :: 32 word" and ?w = "ucast mode :: 32 word"
  let ?i = "\<lparr>i_mode = S_IFDIR OR (?w AND 0x3FF), i_uid = 0, i_gid = 0, i_rdev = 0, i_data = []\<rparr>"
  have m: "?m = S_IFDIR OR ?w"
    by (rule bit_word_eqI) (simp add: bit_simps S_IFDIR_def)
  have masks: "(S_IFDIR OR w) AND 0x3FF = w AND 0x3FF"
    "(S_IFDIR OR (w AND 0x3FF)) AND S_IFMT = S_IFDIR"
    "((S_IFDIR OR w) AND NOT S_IFMT) AND 0xFFF = w AND 0xFFF" for w :: "32 word"
    by (simp_all add: S_defs bit.conj_disj_distrib2 and.assoc)
  have dir: "is_dir ?i" "is_dir (?i\<lparr>i_mode := S_IFDIR OR (?w AND 0xFFF)\<rparr>)"
    using masks by (simp_all add: is_dir_def) (simp add: S_defs bit.conj_disj_distrib2 and.assoc)
  have "sys_mkdir path ?m os = (None, set_inode (D @ [c]) ?i os)"
    using assms by (simp add: sys_mkdir_def create_def m masks)
  moreover have "lookup (set_inode (D @ [c]) ?i os) path = Some ?i"
    using assms(1) by (simp add: lookup_def) (simp add: set_inode_def)
  ultimately obtain os1 i1 where one: "add_new_directory path uid gid (ucast S_IFDIR OR mode) os = (Inr (), os1)"
    "lookup os1 path = Some i1" "i_mode i1 = S_IFDIR OR (?w AND 0x3FF)" "resolve os1 path = Some (D @ [c])"
    using lookup_chown assms(1) dir(1)
    by (fastforce simp: add_new_directory_def drop_suid_def changed_at_resolve[OF chown_changed])
  let ?j = "i1\<lparr>i_mode := (i_mode i1 AND S_IFMT) OR ((?m AND NOT S_IFMT) AND 0xFFF)\<rparr>"
  let ?os2 = "sys_chown path (ucast uid) (ucast gid) (sys_chmod path (?m AND NOT S_IFMT) os1)"
  have mode: "i_mode ?j = S_IFDIR OR (?w AND 0xFFF)" by (simp add: one(3) m masks)
  have "sys_mkdir path ?m os1 = (Some EEXIST, os1)"
    using one(2,4) by (simp add: sys_mkdir_def create_def lookup_def)
  then have "add_new_directory path uid gid (ucast S_IFDIR OR mode) os1 = (Inr (), ?os2)"
    by (simp add: add_new_directory_def)
  moreover have "is_dir ?j" using mode dir(2) by (simp add: is_dir_def)
  with lookup_chown[OF lookup_chmod[OF one(2)]] mode
  obtain i2 where "lookup ?os2 path = Some i2" "i_mode i2 = S_IFDIR OR (?w AND 0xFFF)"
    by (auto simp: drop_suid_def)
  ultimately show ?thesis using one by blast
qed

lemma directory_entry_mode_witness:
  "\<exists>os1 i1 os2 i2.
    add_new_directory ''spool'' 0 0 (ucast S_IFDIR OR 0x5ED) (small_os []) = (Inr (), os1) \<and>
    lookup os1 ''spool'' = Some i1 \<and> i_mode i1 = S_IFDIR OR (ucast (0x5ED :: 64 word) AND 0x3FF) \<and>
    add_new_directory ''spool'' 0 0 (ucast S_IFDIR OR 0x5ED) os1 = (Inr (), os2) \<and>
    lookup os2 ''spool'' = Some i2 \<and> i_mode i2 = S_IFDIR OR (ucast (0x5ED :: 64 word) AND 0xFFF)"
  by (rule directory_entry_mode[where D = "[]" and c = "''spool''" and
        d = "\<lparr>i_mode = 0x41ED, i_uid = 0, i_gid = 0, i_rdev = 0, i_data = []\<rparr>"])
    (simp_all add: resolve_def components_def small_os_def is_dir_def S_defs)

end
