(* ===== verification/Pxaregs.thy ===== *)
theory Pxaregs
  imports C_Numbers
begin

text \<open>
  The operations of \<open>pxaregs.c\<close> (lines 1768 to 1975): reading and writing a physical register
  through \<open>/dev/mem\<close>, the dump of one entry, of all entries and of the entries whose name contains a
  string, the read-modify-write of a field, and \<open>main\<close>.

  The registers themselves are hardware: \<open>dev_read\<close> and \<open>dev_write\<close> are parameters, over a device
  state of any type, and a read may change the device (as status registers do). The outcomes of
  \<open>open\<close> and \<open>mmap\<close> are parameters too. An operation ends normally (\<open>Inr\<close>) or in \<open>exit\<close> (\<open>Inl\<close>,
  with the exit status and the state at that point).
\<close>

unbundle bit_operations_syntax

subsection \<open>The rows of the table\<close>

record reg_info =
  ri_name :: string
  ri_addr :: u32
  ri_shift :: nat
  ri_mask :: u32
  ri_type :: char
  ri_desc :: string

definition reg :: "string \<Rightarrow> u32 \<Rightarrow> nat \<Rightarrow> u32 \<Rightarrow> char \<Rightarrow> string \<Rightarrow> reg_info" where
  "reg n a s m t d =
     \<lparr>ri_name = n, ri_addr = a, ri_shift = s, ri_mask = m, ri_type = t, ri_desc = d\<rparr>"

subsection \<open>State and outside world\<close>

record 'd env =
  dev_read :: "'d \<Rightarrow> u32 \<Rightarrow> u32 \<times> 'd"
  dev_write :: "'d \<Rightarrow> u32 \<Rightarrow> u32 \<Rightarrow> 'd"
  os_open :: "nat \<Rightarrow> int"        \<comment> \<open>what the n-th \<open>open\<close> of \<open>/dev/mem\<close> returns\<close>
  os_mmap :: "nat \<Rightarrow> bool"       \<comment> \<open>whether \<open>mmap\<close> succeeds when n mappings are live\<close>
  long_bits :: nat               \<comment> \<open>width of \<open>long\<close>: 32 on the PXA\<close>

record 'd pstate =
  dev :: 'd
  stdout :: string
  stderr :: "string list"        \<comment> \<open>the arguments of \<open>perror\<close>\<close>
  opens :: nat
  maps :: "u32 list"             \<comment> \<open>page addresses of the live mappings\<close>
  fd :: int                      \<comment> \<open>the file-level \<open>fd\<close>, used by \<open>getmem\<close>\<close>
  putmem_fd :: int               \<comment> \<open>the \<open>static int fd\<close> inside \<open>putmem\<close>\<close>
  lastaddr :: u32
  newaddr :: u32
  data :: u32
  shiftdata :: u32

definition init_state :: "'d \<Rightarrow> 'd pstate" where
  "init_state d =
     \<lparr>dev = d, stdout = [], stderr = [], opens = 0, maps = [], fd = -1, putmem_fd = -1,
      lastaddr = 0, newaddr = 1, data = 0, shiftdata = 0\<rparr>"

type_synonym ('d, 'a) outcome = "(nat \<times> 'd pstate) + 'a \<times> 'd pstate"

definition perror_exit :: "string \<Rightarrow> 'd pstate \<Rightarrow> ('d, 'a) outcome" where
  "perror_exit s st = Inl (1, st\<lparr>stderr := stderr st @ [s]\<rparr>)"

definition printf :: "string \<Rightarrow> 'd pstate \<Rightarrow> 'd pstate" where
  "printf s st = st\<lparr>stdout := stdout st @ s\<rparr>"

subsection \<open>Access to physical memory\<close>

definition MAP_SIZE :: u32 where "MAP_SIZE = 4096"
definition MAP_MASK :: u32 where "MAP_MASK = MAP_SIZE - 1"

text \<open>The mapping is of the page of the address; the access is at the offset in that page.\<close>

definition map_page :: "'d env \<Rightarrow> u32 \<Rightarrow> 'd pstate \<Rightarrow> ('d, u32) outcome" where
  "map_page e addr st =
     (if os_mmap e (length (maps st)) then
        Inr (addr AND NOT MAP_MASK, st\<lparr>maps := (addr AND NOT MAP_MASK) # maps st\<rparr>)
      else perror_exit ''mmap()'' st)"

text \<open>
  \<open>munmap (0, MAP_SIZE)\<close>: the call names address 0 instead of the mapping, and nothing is mapped
  there, so it releases nothing.
\<close>

definition munmap_null :: "'d pstate \<Rightarrow> 'd pstate" where
  "munmap_null st = st"

definition open_message :: string where
  "open_message = ''open('' @ [CHR 0x22] @ ''/dev/mem'' @ [CHR 0x22] @ '')''"

definition getmem :: "'d env \<Rightarrow> u32 \<Rightarrow> 'd pstate \<Rightarrow> ('d, u32) outcome" where
  "getmem e addr st =
     bindR
       (if fd st = -1 then
          (let f = os_open e (opens st); st = st\<lparr>fd := f, opens := opens st + 1\<rparr> in
           if f < 0 then perror_exit open_message st else Inr ((), st))
        else Inr ((), st))
       (\<lambda>(_, st). bindR (map_page e addr st)
         (\<lambda>(m, st).
            let regaddr = m + (addr AND MAP_MASK);
                (val, d) = dev_read e (dev st) regaddr
            in Inr (val, munmap_null (st\<lparr>dev := d\<rparr>))))"

definition putmem :: "'d env \<Rightarrow> u32 \<Rightarrow> u32 \<Rightarrow> 'd pstate \<Rightarrow> ('d, unit) outcome" where
  "putmem e addr val st =
     bindR
       (if putmem_fd st = -1 then
          (let f = os_open e (opens st); st = st\<lparr>putmem_fd := f, opens := opens st + 1\<rparr> in
           if f < 0 then perror_exit open_message st else Inr ((), st))
        else Inr ((), st))
       (\<lambda>(_, st). bindR (map_page e addr st)
         (\<lambda>(m, st).
            let regaddr = m + (addr AND MAP_MASK)
            in Inr ((), munmap_null (st\<lparr>dev := dev_write e (dev st) regaddr val\<rparr>))))"

subsection \<open>Formatted output\<close>

definition digit :: "nat \<Rightarrow> char" where
  "digit k = ''0123456789abcdef'' ! k"

function to_base :: "nat \<Rightarrow> nat \<Rightarrow> string" where
  "to_base b n = (if b < 2 \<or> n < b then [digit n] else to_base b (n div b) @ [digit (n mod b)])"
  by auto
termination by (relation "measure snd") auto

declare to_base.simps [simp del]

definition pad_left :: "nat \<Rightarrow> char \<Rightarrow> string \<Rightarrow> string" where
  "pad_left w c s = replicate (w - length s) c @ s"

definition pad_right :: "nat \<Rightarrow> string \<Rightarrow> string" where
  "pad_right w s = s @ replicate (w - length s) CHR '' ''"

definition fmt_08x :: "u32 \<Rightarrow> string" where
  "fmt_08x v = pad_left 8 CHR ''0'' (to_base 16 (unat v))"

definition fmt_8x :: "u32 \<Rightarrow> string" where
  "fmt_8x v = pad_left 8 CHR '' '' (to_base 16 (unat v))"

definition fmt_8u :: "u32 \<Rightarrow> string" where
  "fmt_8u v = pad_left 8 CHR '' '' (to_base 10 (unat v))"

abbreviation newline :: string where "newline \<equiv> [CHR 0x0A]"

text \<open>The loop over \<open>j = 32 .. 1\<close> that prints the word in binary, with a blank after each byte.\<close>

fun print_bits :: "nat \<Rightarrow> 'd pstate \<Rightarrow> 'd pstate" where
  "print_bits 0 st = st"
| "print_bits (Suc j') st =
     (let j = Suc j';
          st = printf [if shiftdata st AND 0x80000000 \<noteq> 0 then CHR ''1'' else CHR ''0''] st;
          st = st\<lparr>shiftdata := push_bit 1 (shiftdata st)\<rparr>;
          st = (if j = 9 \<or> j = 17 \<or> j = 25 then printf '' '' st else st)
      in print_bits j' st)"

subsection \<open>Dumping\<close>

definition dump_word :: "'d env \<Rightarrow> reg_info \<Rightarrow> 'd pstate \<Rightarrow> ('d, unit) outcome" where
  "dump_word e r st =
     (let st = st\<lparr>newaddr := 0, lastaddr := ri_addr r\<rparr> in
      bindR (getmem e (lastaddr st) st) (\<lambda>(v, st).
        let st = st\<lparr>data := v\<rparr>;
            st = printf (newline @ ri_desc r @ newline) st;
            st = printf (pad_right 24 (ri_name r) @ '' 0x'' @ fmt_08x (data st) @ ''  '') st;
            st = print_bits 32 (st\<lparr>shiftdata := data st\<rparr>)
        in Inr ((), printf newline st)))"

definition dump_field :: "reg_info \<Rightarrow> 'd pstate \<Rightarrow> 'd pstate" where
  "dump_field r st =
     (let st = st\<lparr>shiftdata := drop_bit (ri_shift r) (data st) AND ri_mask r\<rparr>;
          st = printf (pad_right 25 (ri_name r) @ ''  '') st;
          st = printf
                 (if ri_type r = CHR ''x'' then fmt_8x (shiftdata st)
                  else if ri_type r = CHR ''<'' then fmt_8u (push_bit (unat (shiftdata st)) 1)
                  else fmt_8u (shiftdata st)) st
      in printf (''  '' @ ri_desc r @ newline) st)"

definition dumpentry :: "'d env \<Rightarrow> reg_info \<Rightarrow> 'd pstate \<Rightarrow> ('d, unit) outcome" where
  "dumpentry e r st =
     (let st = (if ri_addr r \<noteq> lastaddr st then st\<lparr>newaddr := 1\<rparr> else st) in
      bindR (if newaddr st \<noteq> 0 then dump_word e r st else Inr ((), st)) (\<lambda>(_, st).
        Inr ((), if ri_shift r \<noteq> 0 \<or> ri_mask r \<noteq> 0xffffffff then dump_field r st else st)))"

fun dumpall :: "'d env \<Rightarrow> reg_info list \<Rightarrow> 'd pstate \<Rightarrow> ('d, unit) outcome" where
  "dumpall e [] st = Inr ((), st)"
| "dumpall e (r # rs) st = bindR (dumpentry e r st) (\<lambda>(_, st). dumpall e rs st)"

fun strstr :: "string \<Rightarrow> string \<Rightarrow> bool" where
  "strstr [] needle = (needle = [])"
| "strstr (c # s) needle = (take (length needle) (c # s) = needle \<or> strstr s needle)"

fun dumpmatching :: "'d env \<Rightarrow> reg_info list \<Rightarrow> string \<Rightarrow> 'd pstate \<Rightarrow> ('d, unit) outcome" where
  "dumpmatching e [] name st = Inr ((), st)"
| "dumpmatching e (r # rs) name st =
     bindR (if strstr (ri_name r) name then dumpentry e r st else Inr ((), st))
       (\<lambda>(_, st). dumpmatching e rs name st)"

subsection \<open>Setting a field\<close>

text \<open>The search loop: index of the last match and number of matches, from row \<open>i\<close> on.\<close>

fun match_loop :: "string \<Rightarrow> nat \<Rightarrow> reg_info list \<Rightarrow> nat \<times> nat \<Rightarrow> nat \<times> nat" where
  "match_loop name i [] (found, count) = (found, count)"
| "match_loop name i (r # rs) (found, count) =
     match_loop name (Suc i) rs
       (if ri_name r = name then (i, count + 1) else (found, count))"

definition setreg :: "'d env \<Rightarrow> reg_info list \<Rightarrow> string \<Rightarrow> u32 \<Rightarrow> 'd pstate \<Rightarrow> ('d, unit) outcome" where
  "setreg e rs name val st =
     (let (found, count) = match_loop name 0 rs (0, 0) in
      if count \<noteq> 1 then
        Inl (1, printf (''No or more than one matching register found'' @ newline) st)
      else
        let r = rs ! found in
        bindR (getmem e (ri_addr r) st) (\<lambda>(m, st).
          let m = m AND NOT (push_bit (ri_shift r) (ri_mask r));
              v = val AND ri_mask r;
              m = m OR push_bit (ri_shift r) v
          in putmem e (ri_addr r) m st))"

subsection \<open>The value argument: \<open>sscanf (s, "%i", &val)\<close>\<close>

text \<open>
  The prefix decides the base (\<open>0x\<close>: 16, \<open>0\<close>: 8, else 10); without a digit nothing is converted. The
  number goes through a \<open>long\<close>, saturating as \<open>strtol\<close> does, and is then stored as an \<open>int\<close>.
\<close>

definition scan_unsigned :: "string \<Rightarrow> nat option" where
  "scan_unsigned s =
     (case s of
        [] \<Rightarrow> None
      | c # t \<Rightarrow>
          if c = CHR ''0'' then
            (case t of
               d # u \<Rightarrow> if d = CHR ''x'' \<or> d = CHR ''X'' then Some (scan_digits 16 u 0)
                        else Some (scan_digits 8 t 0)
             | [] \<Rightarrow> Some 0)
          else if base_digit c < 10 then Some (scan_digits 10 s 0)
          else None)"

definition sscanf_i :: "nat \<Rightarrow> string \<Rightarrow> u32 option" where
  "sscanf_i w s =
     (let s = dropWhile isspace s;
          neg = (s \<noteq> [] \<and> hd s = CHR ''-'');
          s = (if s \<noteq> [] \<and> (hd s = CHR ''-'' \<or> hd s = CHR ''+'') then tl s else s)
      in case scan_unsigned s of
           None \<Rightarrow> None
         | Some n \<Rightarrow> Some (word_of_int (saturate w (if neg then - int n else int n))))"

subsection \<open>\<open>main\<close>\<close>

definition toupper :: "char \<Rightarrow> char" where
  "toupper c = (let k = (of_char c :: nat) in if 97 \<le> k \<and> k \<le> 122 then char_of (k - 32) else c)"

definition usage :: "string \<Rightarrow> string" where
  "usage arg0 =
     ''Usage: '' @ arg0 @ ''                - to dump all known registers'' @ newline @
     ''       '' @ arg0 @ '' <name>         - to dump named register'' @ newline @
     ''       '' @ arg0 @ '' <name> <value> - to set named register'' @ newline"

text \<open>
  \<open>val\<close> has no initialiser: \<open>junk\<close> is what it holds, and what is written when the second argument is
  not a number, because the result of \<open>sscanf\<close> is not looked at. The result is the exit status and
  the final state.
\<close>

definition status :: "nat \<Rightarrow> ('d, unit) outcome \<Rightarrow> nat \<times> 'd pstate" where
  "status ok r = (case r of Inl x \<Rightarrow> x | Inr (_, st) \<Rightarrow> (ok, st))"

fun pxaregs_main :: "'d env \<Rightarrow> reg_info list \<Rightarrow> u32 \<Rightarrow> string list \<Rightarrow> 'd pstate \<Rightarrow> nat \<times> 'd pstate" where
  "pxaregs_main e rs junk [arg0] st = status 0 (dumpall e rs st)"
| "pxaregs_main e rs junk [arg0, name] st = status 0 (dumpmatching e rs (map toupper name) st)"
| "pxaregs_main e rs junk [arg0, name, arg] st =
     (let val = (case sscanf_i (long_bits e) arg of None \<Rightarrow> junk | Some v \<Rightarrow> v)
      in status 0 (setreg e rs (map toupper name) val st))"
| "pxaregs_main e rs junk (arg0 # _) st = (1, printf (usage arg0) st)"
| "pxaregs_main e rs junk [] st = (1, printf (usage ''(null)'') st)"

end
