(* ===== verification/Pxaregs_Table.thy ===== *)
theory Pxaregs_Table
  imports Pxaregs
begin

text \<open>
  The register table of \<open>pxaregs.c\<close> (lines 42 to 1764): one definition per block of registers, in
  the order of the initialiser, with the \<open>#if\<close> branches of the source as conditionals on the
  build configuration. \<open>regs\<close> is the whole array; \<open>regs_default\<close> is what the recipe builds, which
  defines neither symbol. Every row is
  \<open>reg name addr shift mask type desc\<close>.
\<close>

text \<open>The preprocessor symbols the table depends on.\<close>

record config =
  CONFIG_ARCH_RAMSES :: bool
  CONFIG_ARCH_PXA_IDP :: bool

subsection \<open>I2C\<close>

definition regs_i2c :: "reg_info list" where
  "regs_i2c =
  [reg ''IBMR'' 0x40301680 0 0xffffffff (CHR ''x'') ''I2C Bus Monitor Register'',
   reg ''IBMR_SDAS'' 0x40301680 0 0x00000001 (CHR ''x'') ''SDA Status'',
   reg ''IBMR_SCLS'' 0x40301680 1 0x00000001 (CHR ''x'') ''SDA Status'',
   reg ''IDBR'' 0x40301688 0 0xffffffff (CHR ''x'') ''I2C Data Buffer Register'',
   reg ''IDBR_IDB'' 0x40301688 0 0x000000ff (CHR ''x'') ''I2C Data Buffer'',
   reg ''ICR'' 0x40301690 0 0xffffffff (CHR ''x'') ''I2C Control Register'',
   reg ''ICR_START'' 0x40301690 0 1 (CHR ''x'') '' start bit '',
   reg ''ICR_STOP'' 0x40301690 1 1 (CHR ''x'') '' stop bit '',
   reg ''ICR_ACKNAK'' 0x40301690 2 1 (CHR ''x'') '' send ACK(0) or NAK(1)'',
   reg ''ICR_TB'' 0x40301690 3 1 (CHR ''x'') '' transfer byte bit '',
   reg ''ICR_MA'' 0x40301690 4 1 (CHR ''x'') '' master abort '',
   reg ''ICR_SCLE'' 0x40301690 5 1 (CHR ''x'') '' master clock enable '',
   reg ''ICR_IUE'' 0x40301690 6 1 (CHR ''x'') '' unit enable '',
   reg ''ICR_GCD'' 0x40301690 7 1 (CHR ''x'') '' general call disable '',
   reg ''ICR_ITEIE'' 0x40301690 8 1 (CHR ''x'') '' enable tx interrupts '',
   reg ''ICR_IRFIE'' 0x40301690 9 1 (CHR ''x'') '' enable rx interrupts '',
   reg ''ICR_BEIE'' 0x40301690 10 1 (CHR ''x'') '' enable bus error ints '',
   reg ''ICR_SSDIE'' 0x40301690 11 1 (CHR ''x'') '' slave STOP detected int enable '',
   reg ''ICR_ALDIE'' 0x40301690 12 1 (CHR ''x'') '' enable arbitration interrupt '',
   reg ''ICR_SADIE'' 0x40301690 13 1 (CHR ''x'') '' slave address detected int enable '',
   reg ''ICR_UR'' 0x40301690 14 1 (CHR ''x'') '' unit reset '',
   reg ''ICR_FM'' 0x40301690 15 1 (CHR ''x'') '' fast mode '',
   reg ''ISR'' 0x40301698 0 0xffffffff (CHR ''x'') ''I2C Status Register'',
   reg ''ISR_RWM'' 0x40301698 0 1 (CHR ''x'') '' read/write mode '',
   reg ''ISR_ACKNAK'' 0x40301698 1 1 (CHR ''x'') '' ack/nak status '',
   reg ''ISR_UB'' 0x40301698 2 1 (CHR ''x'') '' unit busy '',
   reg ''ISR_IBB'' 0x40301698 3 1 (CHR ''x'') '' bus busy '',
   reg ''ISR_SSD'' 0x40301698 4 1 (CHR ''x'') '' slave stop detected '',
   reg ''ISR_ALD'' 0x40301698 5 1 (CHR ''x'') '' arbitration loss detected '',
   reg ''ISR_ITE'' 0x40301698 6 1 (CHR ''x'') '' tx buffer empty '',
   reg ''ISR_IRF'' 0x40301698 7 1 (CHR ''x'') '' rx buffer full '',
   reg ''ISR_GCAD'' 0x40301698 8 1 (CHR ''x'') '' general call address detected '',
   reg ''ISR_SAD'' 0x40301698 9 1 (CHR ''x'') '' slave address detected '',
   reg ''ISR_BED'' 0x40301698 10 1 (CHR ''x'') '' bus error no ACK/NAK '',
   reg ''ISAR'' 0x403016A0 0 0xffffffff (CHR ''x'') ''I2C Slave Address Register'',
   reg ''ISAR_SA'' 0x403016A0 0 0x0000007f (CHR ''x'') ''I2C Slave Address'']"

subsection \<open>Power manager: wake-up, edge and status registers\<close>

definition regs_pm :: "reg_info list" where
  "regs_pm =
  [reg ''PMCR'' 0x40F00000 0 0xffffffff (CHR ''x'') ''Power Manager Control Register (3-23)'',
   reg ''PMCR_IDAE'' 0x40F00000 0 0x00000001 (CHR ''d'') ''PM imprecise data abort abort signal'',
   reg ''PSSR'' 0x40F00004 0 0xffffffff (CHR ''x'') ''Power Manager Sleep Status Register (3-29)'',
   reg ''PSSR_SSS'' 0x40F00004 0 0x00000001 (CHR ''d'') ''PM chip was in sleep by setting sleep mode bit'',
   reg ''PSSR_BFS'' 0x40F00004 1 0x00000001 (CHR ''d'') ''PM nBATT_FAULT has been asserted'',
   reg ''PSSR_VFS'' 0x40F00004 2 0x00000001 (CHR ''d'') ''PM nVDD_FAULT was asserted while in Run or Idle'',
   reg ''PSSR_PH'' 0x40F00004 4 0x00000001 (CHR ''d'') ''PM GPIO pins are held in their sleep state'',
   reg ''PSSR_RDH'' 0x40F00004 5 0x00000001 (CHR ''d'') ''PM receivers of all input GPIO are disabled'',
   reg ''PSPR'' 0x40F00008 0 0xffffffff (CHR ''x'') ''Power Manager Scratch Pad Register (3-30)'',
   reg ''PWER'' 0x40F0000C 0 0xffffffff (CHR ''x'') ''Power Manager Wake-Up Enable Register (3-25)'',
   reg ''PWER_WE0'' 0x40F0000C 0 0x00000001 (CHR ''d'') ''PM wake up due to GPIO 0 edge detect enabled'',
   reg ''PWER_WE1'' 0x40F0000C 1 0x00000001 (CHR ''d'') ''PM wake up due to GPIO 1 edge detect enabled'',
   reg ''PWER_WE2'' 0x40F0000C 2 0x00000001 (CHR ''d'') ''PM wake up due to GPIO 2 edge detect enabled'',
   reg ''PWER_WE3'' 0x40F0000C 3 0x00000001 (CHR ''d'') ''PM wake up due to GPIO 3 edge detect enabled'',
   reg ''PWER_WE4'' 0x40F0000C 4 0x00000001 (CHR ''d'') ''PM wake up due to GPIO 4 edge detect enabled'',
   reg ''PWER_WE5'' 0x40F0000C 5 0x00000001 (CHR ''d'') ''PM wake up due to GPIO 5 edge detect enabled'',
   reg ''PWER_WE6'' 0x40F0000C 6 0x00000001 (CHR ''d'') ''PM wake up due to GPIO 6 edge detect enabled'',
   reg ''PWER_WE7'' 0x40F0000C 7 0x00000001 (CHR ''d'') ''PM wake up due to GPIO 7 edge detect enabled'',
   reg ''PWER_WE8'' 0x40F0000C 8 0x00000001 (CHR ''d'') ''PM wake up due to GPIO 8 edge detect enabled'',
   reg ''PWER_WE9'' 0x40F0000C 9 0x00000001 (CHR ''d'') ''PM wake up due to GPIO 9 edge detect enabled'',
   reg ''PWER_WE10'' 0x40F0000C 10 0x00000001 (CHR ''d'') ''PM wake up due to GPIO10 edge detect enabled'',
   reg ''PWER_WE11'' 0x40F0000C 11 0x00000001 (CHR ''d'') ''PM wake up due to GPIO11 edge detect enabled'',
   reg ''PWER_WE12'' 0x40F0000C 12 0x00000001 (CHR ''d'') ''PM wake up due to GPIO12 edge detect enabled'',
   reg ''PWER_WE13'' 0x40F0000C 13 0x00000001 (CHR ''d'') ''PM wake up due to GPIO13 edge detect enabled'',
   reg ''PWER_WE14'' 0x40F0000C 14 0x00000001 (CHR ''d'') ''PM wake up due to GPIO14 edge detect enabled'',
   reg ''PWER_WE15'' 0x40F0000C 15 0x00000001 (CHR ''d'') ''PM wake up due to GPIO15 edge detect enabled'',
   reg ''PWER_WERTC'' 0x40F0000C 31 0x00000001 (CHR ''d'') ''PM wake up due to RTC alarm enabled'',
   reg ''PRER'' 0x40F00010 0 0xffffffff (CHR ''x'') ''Power Manager Rising Edge Detect Enable Register (3-26)'',
   reg ''PRER_RE0'' 0x40F00010 0 0x00000001 (CHR ''d'') ''PM wake up due to GPIO 0 rising edge detect enabled'',
   reg ''PRER_RE1'' 0x40F00010 1 0x00000001 (CHR ''d'') ''PM wake up due to GPIO 1 rising edge detect enabled'',
   reg ''PRER_RE2'' 0x40F00010 2 0x00000001 (CHR ''d'') ''PM wake up due to GPIO 2 rising edge detect enabled'',
   reg ''PRER_RE3'' 0x40F00010 3 0x00000001 (CHR ''d'') ''PM wake up due to GPIO 3 rising edge detect enabled'',
   reg ''PRER_RE4'' 0x40F00010 4 0x00000001 (CHR ''d'') ''PM wake up due to GPIO 4 rising edge detect enabled'',
   reg ''PRER_RE5'' 0x40F00010 5 0x00000001 (CHR ''d'') ''PM wake up due to GPIO 5 rising edge detect enabled'',
   reg ''PRER_RE6'' 0x40F00010 6 0x00000001 (CHR ''d'') ''PM wake up due to GPIO 6 rising edge detect enabled'',
   reg ''PRER_RE7'' 0x40F00010 7 0x00000001 (CHR ''d'') ''PM wake up due to GPIO 7 rising edge detect enabled'',
   reg ''PRER_RE8'' 0x40F00010 8 0x00000001 (CHR ''d'') ''PM wake up due to GPIO 8 rising edge detect enabled'',
   reg ''PRER_RE9'' 0x40F00010 9 0x00000001 (CHR ''d'') ''PM wake up due to GPIO 9 rising edge detect enabled'',
   reg ''PRER_RE10'' 0x40F00010 10 0x00000001 (CHR ''d'') ''PM wake up due to GPIO10 rising edge detect enabled'',
   reg ''PRER_RE11'' 0x40F00010 11 0x00000001 (CHR ''d'') ''PM wake up due to GPIO11 rising edge detect enabled'',
   reg ''PRER_RE12'' 0x40F00010 12 0x00000001 (CHR ''d'') ''PM wake up due to GPIO12 rising edge detect enabled'',
   reg ''PRER_RE13'' 0x40F00010 13 0x00000001 (CHR ''d'') ''PM wake up due to GPIO13 rising edge detect enabled'',
   reg ''PRER_RE14'' 0x40F00010 14 0x00000001 (CHR ''d'') ''PM wake up due to GPIO14 rising edge detect enabled'',
   reg ''PRER_RE15'' 0x40F00010 15 0x00000001 (CHR ''d'') ''PM wake up due to GPIO15 rising edge detect enabled'',
   reg ''PFER'' 0x40F00014 0 0xffffffff (CHR ''x'') ''Power Manager Falling Detect Enable Register (3-27)'',
   reg ''PFER_FE0'' 0x40F00014 0 0x00000001 (CHR ''d'') ''PM wake up due to GPIO 0 falling edge detect enabled'',
   reg ''PFER_FE1'' 0x40F00014 1 0x00000001 (CHR ''d'') ''PM wake up due to GPIO 1 falling edge detect enabled'',
   reg ''PFER_FE2'' 0x40F00014 2 0x00000001 (CHR ''d'') ''PM wake up due to GPIO 2 falling edge detect enabled'',
   reg ''PFER_FE3'' 0x40F00014 3 0x00000001 (CHR ''d'') ''PM wake up due to GPIO 3 falling edge detect enabled'',
   reg ''PFER_FE4'' 0x40F00014 4 0x00000001 (CHR ''d'') ''PM wake up due to GPIO 4 falling edge detect enabled'',
   reg ''PFER_FE5'' 0x40F00014 5 0x00000001 (CHR ''d'') ''PM wake up due to GPIO 5 falling edge detect enabled'',
   reg ''PFER_FE6'' 0x40F00014 6 0x00000001 (CHR ''d'') ''PM wake up due to GPIO 6 falling edge detect enabled'',
   reg ''PFER_FE7'' 0x40F00014 7 0x00000001 (CHR ''d'') ''PM wake up due to GPIO 7 falling edge detect enabled'',
   reg ''PFER_FE8'' 0x40F00014 8 0x00000001 (CHR ''d'') ''PM wake up due to GPIO 8 falling edge detect enabled'',
   reg ''PFER_FE9'' 0x40F00014 9 0x00000001 (CHR ''d'') ''PM wake up due to GPIO 9 falling edge detect enabled'',
   reg ''PFER_FE10'' 0x40F00014 10 0x00000001 (CHR ''d'') ''PM wake up due to GPIO10 falling edge detect enabled'',
   reg ''PFER_FE11'' 0x40F00014 11 0x00000001 (CHR ''d'') ''PM wake up due to GPIO11 falling edge detect enabled'',
   reg ''PFER_FE12'' 0x40F00014 12 0x00000001 (CHR ''d'') ''PM wake up due to GPIO12 falling edge detect enabled'',
   reg ''PFER_FE13'' 0x40F00014 13 0x00000001 (CHR ''d'') ''PM wake up due to GPIO13 falling edge detect enabled'',
   reg ''PFER_FE14'' 0x40F00014 14 0x00000001 (CHR ''d'') ''PM wake up due to GPIO14 falling edge detect enabled'',
   reg ''PFER_FE15'' 0x40F00014 15 0x00000001 (CHR ''d'') ''PM wake up due to GPIO15 falling edge detect enabled'',
   reg ''PEDR'' 0x40F00018 0 0xffffffff (CHR ''x'') ''Power Manager Edge Detect Status Register (3-28)'',
   reg ''PEDR_ED0'' 0x40F00018 0 0x00000001 (CHR ''d'') ''PM wake up due to edge on GPIO 0 detected'',
   reg ''PEDR_ED1'' 0x40F00018 1 0x00000001 (CHR ''d'') ''PM wake up due to edge on GPIO 1 detected'',
   reg ''PEDR_ED2'' 0x40F00018 2 0x00000001 (CHR ''d'') ''PM wake up due to edge on GPIO 2 detected'',
   reg ''PEDR_ED3'' 0x40F00018 3 0x00000001 (CHR ''d'') ''PM wake up due to edge on GPIO 3 detected'',
   reg ''PEDR_ED4'' 0x40F00018 4 0x00000001 (CHR ''d'') ''PM wake up due to edge on GPIO 4 detected'',
   reg ''PEDR_ED5'' 0x40F00018 5 0x00000001 (CHR ''d'') ''PM wake up due to edge on GPIO 5 detected'',
   reg ''PEDR_ED6'' 0x40F00018 6 0x00000001 (CHR ''d'') ''PM wake up due to edge on GPIO 6 detected'',
   reg ''PEDR_ED7'' 0x40F00018 7 0x00000001 (CHR ''d'') ''PM wake up due to edge on GPIO 7 detected'',
   reg ''PEDR_ED8'' 0x40F00018 8 0x00000001 (CHR ''d'') ''PM wake up due to edge on GPIO 8 detected'',
   reg ''PEDR_ED9'' 0x40F00018 9 0x00000001 (CHR ''d'') ''PM wake up due to edge on GPIO 9 detected'',
   reg ''PEDR_ED10'' 0x40F00018 10 0x00000001 (CHR ''d'') ''PM wake up due to edge on GPIO10 detected'',
   reg ''PEDR_ED11'' 0x40F00018 11 0x00000001 (CHR ''d'') ''PM wake up due to edge on GPIO11 detected'',
   reg ''PEDR_ED12'' 0x40F00018 12 0x00000001 (CHR ''d'') ''PM wake up due to edge on GPIO12 detected'',
   reg ''PEDR_ED13'' 0x40F00018 13 0x00000001 (CHR ''d'') ''PM wake up due to edge on GPIO13 detected'',
   reg ''PEDR_ED14'' 0x40F00018 14 0x00000001 (CHR ''d'') ''PM wake up due to edge on GPIO14 detected'',
   reg ''PEDR_ED15'' 0x40F00018 15 0x00000001 (CHR ''d'') ''PM wake up due to edge on GPIO15 detected'',
   reg ''PCFR'' 0x40F0001C 0 0xffffffff (CHR ''x'') ''Power Manager General Configuration Register (3-24)'',
   reg ''PCFR_OPDE'' 0x40F0001C 0 0x00000001 (CHR ''d'') ''PM stop 3.6864 MHz oscillator during sleep'',
   reg ''PCFR_FP'' 0x40F0001C 1 0x00000001 (CHR ''d'') ''PM PCMCIA signals float during sleep'',
   reg ''PCFR_FS'' 0x40F0001C 2 0x00000001 (CHR ''d'') ''PM static chip select signals float during sleep'']"

subsection \<open>Power manager: GPIO sleep state\<close>

definition regs_pgsr :: "reg_info list" where
  "regs_pgsr =
  [reg ''PGSR0'' 0x40F00020 0 0xffffffff (CHR ''x'') ''Power Manager GPIO Sleep State Register 0 (3-32)'',
   reg ''PGSR_SS0'' 0x40F00020 0 0x00000001 (CHR ''d'') ''PM GPIO pin 0 is driven to 1 during sleep'',
   reg ''PGSR_SS1'' 0x40F00020 1 0x00000001 (CHR ''d'') ''PM GPIO pin 1 is driven to 1 during sleep'',
   reg ''PGSR_SS2'' 0x40F00020 2 0x00000001 (CHR ''d'') ''PM GPIO pin 2 is driven to 1 during sleep'',
   reg ''PGSR_SS3'' 0x40F00020 3 0x00000001 (CHR ''d'') ''PM GPIO pin 3 is driven to 1 during sleep'',
   reg ''PGSR_SS4'' 0x40F00020 4 0x00000001 (CHR ''d'') ''PM GPIO pin 4 is driven to 1 during sleep'',
   reg ''PGSR_SS5'' 0x40F00020 5 0x00000001 (CHR ''d'') ''PM GPIO pin 5 is driven to 1 during sleep'',
   reg ''PGSR_SS6'' 0x40F00020 6 0x00000001 (CHR ''d'') ''PM GPIO pin 6 is driven to 1 during sleep'',
   reg ''PGSR_SS7'' 0x40F00020 7 0x00000001 (CHR ''d'') ''PM GPIO pin 7 is driven to 1 during sleep'',
   reg ''PGSR_SS8'' 0x40F00020 8 0x00000001 (CHR ''d'') ''PM GPIO pin 8 is driven to 1 during sleep'',
   reg ''PGSR_SS9'' 0x40F00020 9 0x00000001 (CHR ''d'') ''PM GPIO pin 9 is driven to 1 during sleep'',
   reg ''PGSR_SS10'' 0x40F00020 10 0x00000001 (CHR ''d'') ''PM GPIO pin 10 is driven to 1 during sleep'',
   reg ''PGSR_SS11'' 0x40F00020 11 0x00000001 (CHR ''d'') ''PM GPIO pin 11 is driven to 1 during sleep'',
   reg ''PGSR_SS12'' 0x40F00020 12 0x00000001 (CHR ''d'') ''PM GPIO pin 12 is driven to 1 during sleep'',
   reg ''PGSR_SS13'' 0x40F00020 13 0x00000001 (CHR ''d'') ''PM GPIO pin 13 is driven to 1 during sleep'',
   reg ''PGSR_SS14'' 0x40F00020 14 0x00000001 (CHR ''d'') ''PM GPIO pin 14 is driven to 1 during sleep'',
   reg ''PGSR_SS15'' 0x40F00020 15 0x00000001 (CHR ''d'') ''PM GPIO pin 15 is driven to 1 during sleep'',
   reg ''PGSR_SS16'' 0x40F00020 16 0x00000001 (CHR ''d'') ''PM GPIO pin 16 is driven to 1 during sleep'',
   reg ''PGSR_SS17'' 0x40F00020 17 0x00000001 (CHR ''d'') ''PM GPIO pin 17 is driven to 1 during sleep'',
   reg ''PGSR_SS18'' 0x40F00020 18 0x00000001 (CHR ''d'') ''PM GPIO pin 18 is driven to 1 during sleep'',
   reg ''PGSR_SS19'' 0x40F00020 19 0x00000001 (CHR ''d'') ''PM GPIO pin 19 is driven to 1 during sleep'',
   reg ''PGSR_SS20'' 0x40F00020 20 0x00000001 (CHR ''d'') ''PM GPIO pin 20 is driven to 1 during sleep'',
   reg ''PGSR_SS21'' 0x40F00020 21 0x00000001 (CHR ''d'') ''PM GPIO pin 21 is driven to 1 during sleep'',
   reg ''PGSR_SS22'' 0x40F00020 22 0x00000001 (CHR ''d'') ''PM GPIO pin 22 is driven to 1 during sleep'',
   reg ''PGSR_SS23'' 0x40F00020 23 0x00000001 (CHR ''d'') ''PM GPIO pin 23 is driven to 1 during sleep'',
   reg ''PGSR_SS24'' 0x40F00020 24 0x00000001 (CHR ''d'') ''PM GPIO pin 24 is driven to 1 during sleep'',
   reg ''PGSR_SS25'' 0x40F00020 25 0x00000001 (CHR ''d'') ''PM GPIO pin 25 is driven to 1 during sleep'',
   reg ''PGSR_SS26'' 0x40F00020 26 0x00000001 (CHR ''d'') ''PM GPIO pin 26 is driven to 1 during sleep'',
   reg ''PGSR_SS27'' 0x40F00020 27 0x00000001 (CHR ''d'') ''PM GPIO pin 27 is driven to 1 during sleep'',
   reg ''PGSR_SS28'' 0x40F00020 28 0x00000001 (CHR ''d'') ''PM GPIO pin 28 is driven to 1 during sleep'',
   reg ''PGSR_SS29'' 0x40F00020 29 0x00000001 (CHR ''d'') ''PM GPIO pin 29 is driven to 1 during sleep'',
   reg ''PGSR_SS30'' 0x40F00020 30 0x00000001 (CHR ''d'') ''PM GPIO pin 30 is driven to 1 during sleep'',
   reg ''PGSR_SS31'' 0x40F00020 31 0x00000001 (CHR ''d'') ''PM GPIO pin 31 is driven to 1 during sleep'',
   reg ''PGSR1'' 0x40F00024 0 0xffffffff (CHR ''x'') ''Power Manager GPIO Sleep State Register 1 (3-32)'',
   reg ''PGSR_SS32'' 0x40F00024 0 0x00000001 (CHR ''d'') ''PM GPIO pin 32 is driven to 1 during sleep'',
   reg ''PGSR_SS33'' 0x40F00024 1 0x00000001 (CHR ''d'') ''PM GPIO pin 33 is driven to 1 during sleep'',
   reg ''PGSR_SS34'' 0x40F00024 2 0x00000001 (CHR ''d'') ''PM GPIO pin 34 is driven to 1 during sleep'',
   reg ''PGSR_SS35'' 0x40F00024 3 0x00000001 (CHR ''d'') ''PM GPIO pin 35 is driven to 1 during sleep'',
   reg ''PGSR_SS36'' 0x40F00024 4 0x00000001 (CHR ''d'') ''PM GPIO pin 36 is driven to 1 during sleep'',
   reg ''PGSR_SS37'' 0x40F00024 5 0x00000001 (CHR ''d'') ''PM GPIO pin 37 is driven to 1 during sleep'',
   reg ''PGSR_SS38'' 0x40F00024 6 0x00000001 (CHR ''d'') ''PM GPIO pin 38 is driven to 1 during sleep'',
   reg ''PGSR_SS39'' 0x40F00024 7 0x00000001 (CHR ''d'') ''PM GPIO pin 39 is driven to 1 during sleep'',
   reg ''PGSR_SS40'' 0x40F00024 8 0x00000001 (CHR ''d'') ''PM GPIO pin 40 is driven to 1 during sleep'',
   reg ''PGSR_SS41'' 0x40F00024 9 0x00000001 (CHR ''d'') ''PM GPIO pin 41 is driven to 1 during sleep'',
   reg ''PGSR_SS42'' 0x40F00024 10 0x00000001 (CHR ''d'') ''PM GPIO pin 42 is driven to 1 during sleep'',
   reg ''PGSR_SS43'' 0x40F00024 11 0x00000001 (CHR ''d'') ''PM GPIO pin 43 is driven to 1 during sleep'',
   reg ''PGSR_SS44'' 0x40F00024 12 0x00000001 (CHR ''d'') ''PM GPIO pin 44 is driven to 1 during sleep'',
   reg ''PGSR_SS45'' 0x40F00024 13 0x00000001 (CHR ''d'') ''PM GPIO pin 45 is driven to 1 during sleep'',
   reg ''PGSR_SS46'' 0x40F00024 14 0x00000001 (CHR ''d'') ''PM GPIO pin 46 is driven to 1 during sleep'',
   reg ''PGSR_SS47'' 0x40F00024 15 0x00000001 (CHR ''d'') ''PM GPIO pin 47 is driven to 1 during sleep'',
   reg ''PGSR_SS48'' 0x40F00024 16 0x00000001 (CHR ''d'') ''PM GPIO pin 48 is driven to 1 during sleep'',
   reg ''PGSR_SS49'' 0x40F00024 17 0x00000001 (CHR ''d'') ''PM GPIO pin 49 is driven to 1 during sleep'',
   reg ''PGSR_SS50'' 0x40F00024 18 0x00000001 (CHR ''d'') ''PM GPIO pin 50 is driven to 1 during sleep'',
   reg ''PGSR_SS51'' 0x40F00024 19 0x00000001 (CHR ''d'') ''PM GPIO pin 51 is driven to 1 during sleep'',
   reg ''PGSR_SS52'' 0x40F00024 20 0x00000001 (CHR ''d'') ''PM GPIO pin 52 is driven to 1 during sleep'',
   reg ''PGSR_SS53'' 0x40F00024 21 0x00000001 (CHR ''d'') ''PM GPIO pin 53 is driven to 1 during sleep'',
   reg ''PGSR_SS54'' 0x40F00024 22 0x00000001 (CHR ''d'') ''PM GPIO pin 54 is driven to 1 during sleep'',
   reg ''PGSR_SS55'' 0x40F00024 23 0x00000001 (CHR ''d'') ''PM GPIO pin 55 is driven to 1 during sleep'',
   reg ''PGSR_SS56'' 0x40F00024 24 0x00000001 (CHR ''d'') ''PM GPIO pin 56 is driven to 1 during sleep'',
   reg ''PGSR_SS57'' 0x40F00024 25 0x00000001 (CHR ''d'') ''PM GPIO pin 57 is driven to 1 during sleep'',
   reg ''PGSR_SS58'' 0x40F00024 26 0x00000001 (CHR ''d'') ''PM GPIO pin 58 is driven to 1 during sleep'',
   reg ''PGSR_SS59'' 0x40F00024 27 0x00000001 (CHR ''d'') ''PM GPIO pin 59 is driven to 1 during sleep'',
   reg ''PGSR_SS60'' 0x40F00024 28 0x00000001 (CHR ''d'') ''PM GPIO pin 60 is driven to 1 during sleep'',
   reg ''PGSR_SS61'' 0x40F00024 29 0x00000001 (CHR ''d'') ''PM GPIO pin 61 is driven to 1 during sleep'',
   reg ''PGSR_SS62'' 0x40F00024 30 0x00000001 (CHR ''d'') ''PM GPIO pin 62 is driven to 1 during sleep'',
   reg ''PGSR_SS63'' 0x40F00024 31 0x00000001 (CHR ''d'') ''PM GPIO pin 63 is driven to 1 during sleep'',
   reg ''PGSR2'' 0x40F00028 0 0xffffffff (CHR ''x'') ''Power Manager GPIO Sleep State Register 2 (3-33)'',
   reg ''PGSR_SS64'' 0x40F00028 0 0x00000001 (CHR ''d'') ''PM GPIO pin 64 is driven to 1 during sleep'',
   reg ''PGSR_SS65'' 0x40F00028 1 0x00000001 (CHR ''d'') ''PM GPIO pin 65 is driven to 1 during sleep'',
   reg ''PGSR_SS66'' 0x40F00028 2 0x00000001 (CHR ''d'') ''PM GPIO pin 66 is driven to 1 during sleep'',
   reg ''PGSR_SS67'' 0x40F00028 3 0x00000001 (CHR ''d'') ''PM GPIO pin 67 is driven to 1 during sleep'',
   reg ''PGSR_SS68'' 0x40F00028 4 0x00000001 (CHR ''d'') ''PM GPIO pin 68 is driven to 1 during sleep'',
   reg ''PGSR_SS69'' 0x40F00028 5 0x00000001 (CHR ''d'') ''PM GPIO pin 69 is driven to 1 during sleep'',
   reg ''PGSR_SS70'' 0x40F00028 6 0x00000001 (CHR ''d'') ''PM GPIO pin 70 is driven to 1 during sleep'',
   reg ''PGSR_SS71'' 0x40F00028 7 0x00000001 (CHR ''d'') ''PM GPIO pin 71 is driven to 1 during sleep'',
   reg ''PGSR_SS72'' 0x40F00028 8 0x00000001 (CHR ''d'') ''PM GPIO pin 72 is driven to 1 during sleep'',
   reg ''PGSR_SS73'' 0x40F00028 9 0x00000001 (CHR ''d'') ''PM GPIO pin 73 is driven to 1 during sleep'',
   reg ''PGSR_SS74'' 0x40F00028 10 0x00000001 (CHR ''d'') ''PM GPIO pin 74 is driven to 1 during sleep'',
   reg ''PGSR_SS75'' 0x40F00028 11 0x00000001 (CHR ''d'') ''PM GPIO pin 75 is driven to 1 during sleep'',
   reg ''PGSR_SS76'' 0x40F00028 12 0x00000001 (CHR ''d'') ''PM GPIO pin 76 is driven to 1 during sleep'',
   reg ''PGSR_SS77'' 0x40F00028 13 0x00000001 (CHR ''d'') ''PM GPIO pin 77 is driven to 1 during sleep'',
   reg ''PGSR_SS78'' 0x40F00028 14 0x00000001 (CHR ''d'') ''PM GPIO pin 78 is driven to 1 during sleep'',
   reg ''PGSR_SS79'' 0x40F00028 15 0x00000001 (CHR ''d'') ''PM GPIO pin 79 is driven to 1 during sleep'',
   reg ''PGSR_SS80'' 0x40F00028 16 0x00000001 (CHR ''d'') ''PM GPIO pin 80 is driven to 1 during sleep'']"

subsection \<open>Reset status, core clock and clock enable\<close>

definition regs_clock :: "reg_info list" where
  "regs_clock =
  [reg ''RCSR'' 0x40F00030 0 0xffffffff (CHR ''x'') ''Power Manager Reset Controller Status Register (3-34)'',
   reg ''RCSR_HWR'' 0x40F00030 0 0x00000001 (CHR ''d'') ''PM hardware reset occurred'',
   reg ''RCSR_WDR'' 0x40F00030 1 0x00000001 (CHR ''d'') ''PM watchdog reset occurred'',
   reg ''RCSR_SMR'' 0x40F00030 2 0x00000001 (CHR ''d'') ''PM sleep mode occurred'',
   reg ''RCSR_GFR'' 0x40F00030 3 0x00000001 (CHR ''d'') ''PM GPIO reset  occurred'',
   reg ''PMFW'' 0x40F00034 0 0xffffffff (CHR ''x'') ''Power Manager Fast Sleep Wakeup Register (3-31)'',
   reg ''PMFW_FWAKE'' 0x40F00034 1 0x00000001 (CHR ''x'') ''Fast Wakeup Enable'',
   reg ''CCCR'' 0x41300000 0 0xffffffff (CHR ''x'') ''Core Clock Configuration Register (3-35)'',
   reg ''CCCR_L'' 0x41300000 0 0x0000001f (CHR ''x'') ''CM crystal freq to memory freq multiplier'',
   reg ''CCCR_M'' 0x41300000 5 0x00000003 (CHR ''x'') ''CM memory freq to run mode freq multiplier'',
   reg ''CCCR_N'' 0x41300000 7 0x00000007 (CHR ''x'') ''CM run mode freq to turbo freq multiplier'',
   reg ''CKEN'' 0x41300004 0 0xffffffff (CHR ''x'') ''Clock Enable Register (3-36)'',
   reg ''CKEN_0'' 0x41300004 0 0x00000001 (CHR ''d'') ''CM PWM0 clock enabled'',
   reg ''CKEN_1'' 0x41300004 1 0x00000001 (CHR ''d'') ''CM PWM1 clock enabled'',
   reg ''CKEN_2'' 0x41300004 2 0x00000001 (CHR ''d'') ''CM AC97 clock enabled'',
   reg ''CKEN_3'' 0x41300004 3 0x00000001 (CHR ''d'') ''CM SSP clock enabled'',
   reg ''CKEN_5'' 0x41300004 5 0x00000001 (CHR ''d'') ''CM STUART clock enabled'',
   reg ''CKEN_6'' 0x41300004 6 0x00000001 (CHR ''d'') ''CM FFUART clock enabled'',
   reg ''CKEN_7'' 0x41300004 7 0x00000001 (CHR ''d'') ''CM BTUART clock enabled'',
   reg ''CKEN_8'' 0x41300004 8 0x00000001 (CHR ''d'') ''CM I2S clock enabled'',
   reg ''CKEN_11'' 0x41300004 11 0x00000001 (CHR ''d'') ''CM USB clock enabled'',
   reg ''CKEN_12'' 0x41300004 12 0x00000001 (CHR ''d'') ''CM MMC clock enabled'',
   reg ''CKEN_13'' 0x41300004 13 0x00000001 (CHR ''d'') ''CM FIPC clock enabled'',
   reg ''CKEN_14'' 0x41300004 14 0x00000001 (CHR ''d'') ''CM I2C clock enabled'',
   reg ''CKEN_16'' 0x41300004 16 0x00000001 (CHR ''d'') ''CM LCD clock enabled'',
   reg ''OSCC'' 0x41300008 0 0xffffffff (CHR ''x'') ''Oscillator Configuration Register (3-38)'',
   reg ''OSCC_OOK'' 0x41300008 0 0x00000001 (CHR ''d'') ''CM 32.768 kHz oscillator enabled and stabilized'',
   reg ''OSCC_OON'' 0x41300008 1 0x00000001 (CHR ''d'') ''CM 32.768 kHz oscillator enabled'']"

subsection \<open>GPIO pin levels 0 and 1, two variants\<close>

definition regs_gplr01 :: "config \<Rightarrow> reg_info list" where
  "regs_gplr01 cfg =
  [reg ''GPLR0'' 0x40E00000 0 0xffffffff (CHR ''x'') ''GPIO Pin Level Register 0 (4-7)''] @
  (if CONFIG_ARCH_RAMSES cfg then
    [reg ''GPLR0_0'' 0x40E00000 0 0x00000001 (CHR ''d'') ''GPIO 0 (nc) level'',
     reg ''GPLR0_1'' 0x40E00000 1 0x00000001 (CHR ''d'') ''GPIO 1 (nPFI) level'',
     reg ''GPLR0_2'' 0x40E00000 2 0x00000001 (CHR ''d'') ''GPIO 2 (BAT_DATA) level'',
     reg ''GPLR0_3'' 0x40E00000 3 0x00000001 (CHR ''d'') ''GPIO 3 (IRQ_KEY) level'',
     reg ''GPLR0_4'' 0x40E00000 4 0x00000001 (CHR ''d'') ''GPIO 4 (IRQ_ETH) level'',
     reg ''GPLR0_5'' 0x40E00000 5 0x00000001 (CHR ''d'') ''GPIO 5 (nc) level'',
     reg ''GPLR0_6'' 0x40E00000 6 0x00000001 (CHR ''d'') ''GPIO 6 (MMC_CLK) level'',
     reg ''GPLR0_7'' 0x40E00000 7 0x00000001 (CHR ''d'') ''GPIO 7 (IRQ_GSM) level'',
     reg ''GPLR0_8'' 0x40E00000 8 0x00000001 (CHR ''d'') ''GPIO 8 (nPCC_S1_CD) level'',
     reg ''GPLR0_9'' 0x40E00000 9 0x00000001 (CHR ''d'') ''GPIO 9 (MMC_CD) level'',
     reg ''GPLR0_10'' 0x40E00000 10 0x00000001 (CHR ''d'') ''GPIO 10 (IRQ_RTC) level'',
     reg ''GPLR0_11'' 0x40E00000 11 0x00000001 (CHR ''d'') ''GPIO 11 (nc 3M6) level'',
     reg ''GPLR0_12'' 0x40E00000 12 0x00000001 (CHR ''d'') ''GPIO 12 (nc) level'',
     reg ''GPLR0_13'' 0x40E00000 13 0x00000001 (CHR ''d'') ''GPIO 13 (IRQ_DOCK) level'',
     reg ''GPLR0_14'' 0x40E00000 14 0x00000001 (CHR ''d'') ''GPIO 14 (nc) level'',
     reg ''GPLR0_15'' 0x40E00000 15 0x00000001 (CHR ''d'') ''GPIO 15 (nCS1) level'',
     reg ''GPLR0_16'' 0x40E00000 16 0x00000001 (CHR ''d'') ''GPIO 16 (PWM0) level'',
     reg ''GPLR0_17'' 0x40E00000 17 0x00000001 (CHR ''d'') ''GPIO 17 (PWM1) level'',
     reg ''GPLR0_18'' 0x40E00000 18 0x00000001 (CHR ''d'') ''GPIO 18 (RDY) level'',
     reg ''GPLR0_19'' 0x40E00000 19 0x00000001 (CHR ''d'') ''GPIO 19 (nc nPCC_S0_IRQ) level'',
     reg ''GPLR0_20'' 0x40E00000 20 0x00000001 (CHR ''d'') ''GPIO 20 (nc) level'',
     reg ''GPLR0_21'' 0x40E00000 21 0x00000001 (CHR ''d'') ''GPIO 21 (AC97_IRQ) level'',
     reg ''GPLR0_22'' 0x40E00000 22 0x00000001 (CHR ''d'') ''GPIO 22 (nPCC_S1_IRQ) level'',
     reg ''GPLR0_23'' 0x40E00000 23 0x00000001 (CHR ''d'') ''GPIO 23 (UART_INTA) level'',
     reg ''GPLR0_24'' 0x40E00000 24 0x00000001 (CHR ''d'') ''GPIO 24 (UART_INTB) level'',
     reg ''GPLR0_25'' 0x40E00000 25 0x00000001 (CHR ''d'') ''GPIO 25 (UART_INTC) level'',
     reg ''GPLR0_26'' 0x40E00000 26 0x00000001 (CHR ''d'') ''GPIO 26 (UART_INTD) level'',
     reg ''GPLR0_27'' 0x40E00000 27 0x00000001 (CHR ''d'') ''GPIO 27 (nc CPLD_FREE) level'',
     reg ''GPLR0_28'' 0x40E00000 28 0x00000001 (CHR ''d'') ''GPIO 28 (AUD_BITCLK) level'',
     reg ''GPLR0_29'' 0x40E00000 29 0x00000001 (CHR ''d'') ''GPIO 29 (AUD_SDIN0) level'',
     reg ''GPLR0_30'' 0x40E00000 30 0x00000001 (CHR ''d'') ''GPIO 30 (AUD_SDOUT) level'',
     reg ''GPLR0_31'' 0x40E00000 31 0x00000001 (CHR ''d'') ''GPIO 31 (AUD_SYNC) level'']
  else
    [reg ''GPLR0_0'' 0x40E00000 0 0x00000001 (CHR ''d'') ''GPIO 0 level'',
     reg ''GPLR0_1'' 0x40E00000 1 0x00000001 (CHR ''d'') ''GPIO 1 level'',
     reg ''GPLR0_2'' 0x40E00000 2 0x00000001 (CHR ''d'') ''GPIO 2 level'',
     reg ''GPLR0_3'' 0x40E00000 3 0x00000001 (CHR ''d'') ''GPIO 3 level'',
     reg ''GPLR0_4'' 0x40E00000 4 0x00000001 (CHR ''d'') ''GPIO 4 level'',
     reg ''GPLR0_5'' 0x40E00000 5 0x00000001 (CHR ''d'') ''GPIO 5 level'',
     reg ''GPLR0_6'' 0x40E00000 6 0x00000001 (CHR ''d'') ''GPIO 6 level'',
     reg ''GPLR0_7'' 0x40E00000 7 0x00000001 (CHR ''d'') ''GPIO 7 level'',
     reg ''GPLR0_8'' 0x40E00000 8 0x00000001 (CHR ''d'') ''GPIO 8 level'',
     reg ''GPLR0_9'' 0x40E00000 9 0x00000001 (CHR ''d'') ''GPIO 9 level'',
     reg ''GPLR0_10'' 0x40E00000 10 0x00000001 (CHR ''d'') ''GPIO 10 level'',
     reg ''GPLR0_11'' 0x40E00000 11 0x00000001 (CHR ''d'') ''GPIO 11 level'',
     reg ''GPLR0_12'' 0x40E00000 12 0x00000001 (CHR ''d'') ''GPIO 12 level'',
     reg ''GPLR0_13'' 0x40E00000 13 0x00000001 (CHR ''d'') ''GPIO 13 level'',
     reg ''GPLR0_14'' 0x40E00000 14 0x00000001 (CHR ''d'') ''GPIO 14 level'',
     reg ''GPLR0_15'' 0x40E00000 15 0x00000001 (CHR ''d'') ''GPIO 15 level'',
     reg ''GPLR0_16'' 0x40E00000 16 0x00000001 (CHR ''d'') ''GPIO 16 level'',
     reg ''GPLR0_17'' 0x40E00000 17 0x00000001 (CHR ''d'') ''GPIO 17 level'',
     reg ''GPLR0_18'' 0x40E00000 18 0x00000001 (CHR ''d'') ''GPIO 18 level'',
     reg ''GPLR0_19'' 0x40E00000 19 0x00000001 (CHR ''d'') ''GPIO 19 level'',
     reg ''GPLR0_20'' 0x40E00000 20 0x00000001 (CHR ''d'') ''GPIO 20 level'',
     reg ''GPLR0_21'' 0x40E00000 21 0x00000001 (CHR ''d'') ''GPIO 21 level'',
     reg ''GPLR0_22'' 0x40E00000 22 0x00000001 (CHR ''d'') ''GPIO 22 level'',
     reg ''GPLR0_23'' 0x40E00000 23 0x00000001 (CHR ''d'') ''GPIO 23 level'',
     reg ''GPLR0_24'' 0x40E00000 24 0x00000001 (CHR ''d'') ''GPIO 24 level'',
     reg ''GPLR0_25'' 0x40E00000 25 0x00000001 (CHR ''d'') ''GPIO 25 level'',
     reg ''GPLR0_26'' 0x40E00000 26 0x00000001 (CHR ''d'') ''GPIO 26 level'',
     reg ''GPLR0_27'' 0x40E00000 27 0x00000001 (CHR ''d'') ''GPIO 27 level'',
     reg ''GPLR0_28'' 0x40E00000 28 0x00000001 (CHR ''d'') ''GPIO 28 level'',
     reg ''GPLR0_29'' 0x40E00000 29 0x00000001 (CHR ''d'') ''GPIO 29 level'',
     reg ''GPLR0_30'' 0x40E00000 30 0x00000001 (CHR ''d'') ''GPIO 30 level'',
     reg ''GPLR0_31'' 0x40E00000 31 0x00000001 (CHR ''d'') ''GPIO 31 level'']) @
  [reg ''GPLR1'' 0x40E00004 0 0xffffffff (CHR ''x'') ''GPIO Level Register 1 (4-8)''] @
  (if CONFIG_ARCH_RAMSES cfg then
    [reg ''GPLR1_32'' 0x40E00004 0 0x00000001 (CHR ''d'') ''GPIO 32 (AUD_SDIN1) level'',
     reg ''GPLR1_33'' 0x40E00004 1 0x00000001 (CHR ''d'') ''GPIO 33 (nCS5) level'',
     reg ''GPLR1_34'' 0x40E00004 2 0x00000001 (CHR ''d'') ''GPIO 34 (FF_RXD) level'',
     reg ''GPLR1_35'' 0x40E00004 3 0x00000001 (CHR ''d'') ''GPIO 35 (FF_CTS) level'',
     reg ''GPLR1_36'' 0x40E00004 4 0x00000001 (CHR ''d'') ''GPIO 36 (FF_DCD) level'',
     reg ''GPLR1_37'' 0x40E00004 5 0x00000001 (CHR ''d'') ''GPIO 37 (FF_DSR) level'',
     reg ''GPLR1_38'' 0x40E00004 6 0x00000001 (CHR ''d'') ''GPIO 38 (FF_RI) level'',
     reg ''GPLR1_39'' 0x40E00004 7 0x00000001 (CHR ''d'') ''GPIO 39 (FF_TXD) level'',
     reg ''GPLR1_40'' 0x40E00004 8 0x00000001 (CHR ''d'') ''GPIO 40 (FF_DTR) level'',
     reg ''GPLR1_41'' 0x40E00004 9 0x00000001 (CHR ''d'') ''GPIO 41 (FF_RTS) level'',
     reg ''GPLR1_42'' 0x40E00004 10 0x00000001 (CHR ''d'') ''GPIO 42 (BT_RXD) level'',
     reg ''GPLR1_43'' 0x40E00004 11 0x00000001 (CHR ''d'') ''GPIO 43 (BT_TXD) level'',
     reg ''GPLR1_44'' 0x40E00004 12 0x00000001 (CHR ''d'') ''GPIO 44 (BT_CTS) level'',
     reg ''GPLR1_45'' 0x40E00004 13 0x00000001 (CHR ''d'') ''GPIO 45 (BT_RTS) level'',
     reg ''GPLR1_46'' 0x40E00004 14 0x00000001 (CHR ''d'') ''GPIO 46 (IR_RXD) level'',
     reg ''GPLR1_47'' 0x40E00004 15 0x00000001 (CHR ''d'') ''GPIO 47 (IR_TXD) level'',
     reg ''GPLR1_48'' 0x40E00004 16 0x00000001 (CHR ''d'') ''GPIO 48 (nPOE) level'',
     reg ''GPLR1_49'' 0x40E00004 17 0x00000001 (CHR ''d'') ''GPIO 49 (nPWE) level'',
     reg ''GPLR1_50'' 0x40E00004 18 0x00000001 (CHR ''d'') ''GPIO 50 (nPIOR) level'',
     reg ''GPLR1_51'' 0x40E00004 19 0x00000001 (CHR ''d'') ''GPIO 51 (nPIOW) level'',
     reg ''GPLR1_52'' 0x40E00004 20 0x00000001 (CHR ''d'') ''GPIO 52 (nPCE1) level'',
     reg ''GPLR1_53'' 0x40E00004 21 0x00000001 (CHR ''d'') ''GPIO 53 (nPCE2) level'',
     reg ''GPLR1_54'' 0x40E00004 22 0x00000001 (CHR ''d'') ''GPIO 54 (nPKTSEL) level'',
     reg ''GPLR1_55'' 0x40E00004 23 0x00000001 (CHR ''d'') ''GPIO 55 (nPREG) level'',
     reg ''GPLR1_56'' 0x40E00004 24 0x00000001 (CHR ''d'') ''GPIO 56 (nPWAIT) level'',
     reg ''GPLR1_57'' 0x40E00004 25 0x00000001 (CHR ''d'') ''GPIO 57 (nIOIS16) level'',
     reg ''GPLR1_58'' 0x40E00004 26 0x00000001 (CHR ''d'') ''GPIO 58 (LDD0) level'',
     reg ''GPLR1_59'' 0x40E00004 27 0x00000001 (CHR ''d'') ''GPIO 59 (LDD1) level'',
     reg ''GPLR1_60'' 0x40E00004 28 0x00000001 (CHR ''d'') ''GPIO 60 (LDD2) level'',
     reg ''GPLR1_61'' 0x40E00004 29 0x00000001 (CHR ''d'') ''GPIO 61 (LDD3) level'',
     reg ''GPLR1_62'' 0x40E00004 30 0x00000001 (CHR ''d'') ''GPIO 62 (LDD4) level'',
     reg ''GPLR1_63'' 0x40E00004 31 0x00000001 (CHR ''d'') ''GPIO 63 (LDD5) level'']
  else
    [reg ''GPLR1_32'' 0x40E00004 0 0x00000001 (CHR ''d'') ''GPIO 32 level'',
     reg ''GPLR1_33'' 0x40E00004 1 0x00000001 (CHR ''d'') ''GPIO 33 level'',
     reg ''GPLR1_34'' 0x40E00004 2 0x00000001 (CHR ''d'') ''GPIO 34 level'',
     reg ''GPLR1_35'' 0x40E00004 3 0x00000001 (CHR ''d'') ''GPIO 35 level'',
     reg ''GPLR1_36'' 0x40E00004 4 0x00000001 (CHR ''d'') ''GPIO 36 level'',
     reg ''GPLR1_37'' 0x40E00004 5 0x00000001 (CHR ''d'') ''GPIO 37 level'',
     reg ''GPLR1_38'' 0x40E00004 6 0x00000001 (CHR ''d'') ''GPIO 38 level'',
     reg ''GPLR1_39'' 0x40E00004 7 0x00000001 (CHR ''d'') ''GPIO 39 level'',
     reg ''GPLR1_40'' 0x40E00004 8 0x00000001 (CHR ''d'') ''GPIO 40 level'',
     reg ''GPLR1_41'' 0x40E00004 9 0x00000001 (CHR ''d'') ''GPIO 41 level'',
     reg ''GPLR1_42'' 0x40E00004 10 0x00000001 (CHR ''d'') ''GPIO 42 level'',
     reg ''GPLR1_43'' 0x40E00004 11 0x00000001 (CHR ''d'') ''GPIO 43 level'',
     reg ''GPLR1_44'' 0x40E00004 12 0x00000001 (CHR ''d'') ''GPIO 44 level'',
     reg ''GPLR1_45'' 0x40E00004 13 0x00000001 (CHR ''d'') ''GPIO 45 level'',
     reg ''GPLR1_46'' 0x40E00004 14 0x00000001 (CHR ''d'') ''GPIO 46 level'',
     reg ''GPLR1_47'' 0x40E00004 15 0x00000001 (CHR ''d'') ''GPIO 47 level'',
     reg ''GPLR1_48'' 0x40E00004 16 0x00000001 (CHR ''d'') ''GPIO 48 level'',
     reg ''GPLR1_49'' 0x40E00004 17 0x00000001 (CHR ''d'') ''GPIO 49 level'',
     reg ''GPLR1_50'' 0x40E00004 18 0x00000001 (CHR ''d'') ''GPIO 50 level'',
     reg ''GPLR1_51'' 0x40E00004 19 0x00000001 (CHR ''d'') ''GPIO 51 level'',
     reg ''GPLR1_52'' 0x40E00004 20 0x00000001 (CHR ''d'') ''GPIO 52 level'',
     reg ''GPLR1_53'' 0x40E00004 21 0x00000001 (CHR ''d'') ''GPIO 53 level'',
     reg ''GPLR1_54'' 0x40E00004 22 0x00000001 (CHR ''d'') ''GPIO 54 level'',
     reg ''GPLR1_55'' 0x40E00004 23 0x00000001 (CHR ''d'') ''GPIO 55 level'',
     reg ''GPLR1_56'' 0x40E00004 24 0x00000001 (CHR ''d'') ''GPIO 56 level'',
     reg ''GPLR1_57'' 0x40E00004 25 0x00000001 (CHR ''d'') ''GPIO 57 level'',
     reg ''GPLR1_58'' 0x40E00004 26 0x00000001 (CHR ''d'') ''GPIO 58 level'',
     reg ''GPLR1_59'' 0x40E00004 27 0x00000001 (CHR ''d'') ''GPIO 59 level'',
     reg ''GPLR1_60'' 0x40E00004 28 0x00000001 (CHR ''d'') ''GPIO 60 level'',
     reg ''GPLR1_61'' 0x40E00004 29 0x00000001 (CHR ''d'') ''GPIO 61 level'',
     reg ''GPLR1_62'' 0x40E00004 30 0x00000001 (CHR ''d'') ''GPIO 62 level'',
     reg ''GPLR1_63'' 0x40E00004 31 0x00000001 (CHR ''d'') ''GPIO 63 level''])"

subsection \<open>GPIO pin levels 2, two variants\<close>

definition regs_gplr2 :: "config \<Rightarrow> reg_info list" where
  "regs_gplr2 cfg =
  [reg ''GPLR2'' 0x40E00008 0 0xffffffff (CHR ''x'') ''GPIO Level Register 2 (4-8)''] @
  (if CONFIG_ARCH_RAMSES cfg then
    [reg ''GPLR2_64'' 0x40E00008 0 0x00000001 (CHR ''d'') ''GPIO 64 (LDD6) level'',
     reg ''GPLR2_65'' 0x40E00008 1 0x00000001 (CHR ''d'') ''GPIO 65 (LDD7) level'',
     reg ''GPLR2_66'' 0x40E00008 2 0x00000001 (CHR ''d'') ''GPIO 66 (nc) level'',
     reg ''GPLR2_67'' 0x40E00008 3 0x00000001 (CHR ''d'') ''GPIO 67 (nc) level'',
     reg ''GPLR2_68'' 0x40E00008 4 0x00000001 (CHR ''d'') ''GPIO 68 (nc) level'',
     reg ''GPLR2_69'' 0x40E00008 5 0x00000001 (CHR ''d'') ''GPIO 69 (nc) level'',
     reg ''GPLR2_70'' 0x40E00008 6 0x00000001 (CHR ''d'') ''GPIO 70 (nc) level'',
     reg ''GPLR2_71'' 0x40E00008 7 0x00000001 (CHR ''d'') ''GPIO 71 (nc) level'',
     reg ''GPLR2_72'' 0x40E00008 8 0x00000001 (CHR ''d'') ''GPIO 72 (nc) level'',
     reg ''GPLR2_73'' 0x40E00008 9 0x00000001 (CHR ''d'') ''GPIO 73 (nc) level'',
     reg ''GPLR2_74'' 0x40E00008 10 0x00000001 (CHR ''d'') ''GPIO 74 (FCLK) level'',
     reg ''GPLR2_75'' 0x40E00008 11 0x00000001 (CHR ''d'') ''GPIO 75 (LCLK) level'',
     reg ''GPLR2_76'' 0x40E00008 12 0x00000001 (CHR ''d'') ''GPIO 76 (PCLK) level'',
     reg ''GPLR2_77'' 0x40E00008 13 0x00000001 (CHR ''d'') ''GPIO 77 (BIAS) level'',
     reg ''GPLR2_78'' 0x40E00008 14 0x00000001 (CHR ''d'') ''GPIO 78 (nCS2) level'',
     reg ''GPLR2_79'' 0x40E00008 15 0x00000001 (CHR ''d'') ''GPIO 79 (nCS3) level'',
     reg ''GPLR2_80'' 0x40E00008 16 0x00000001 (CHR ''d'') ''GPIO 80 (nCS4) level'',
     reg ''GPLR2_81'' 0x40E00008 17 0x00000001 (CHR ''d'') ''GPIO 81 (nc) level'',
     reg ''GPLR2_82'' 0x40E00008 18 0x00000001 (CHR ''d'') ''GPIO 82 (nc) level'',
     reg ''GPLR2_83'' 0x40E00008 19 0x00000001 (CHR ''d'') ''GPIO 83 (nc) level'',
     reg ''GPLR2_84'' 0x40E00008 20 0x00000001 (CHR ''d'') ''GPIO 84 (nc) level'']
  else
    [reg ''GPLR2_64'' 0x40E00008 0 0x00000001 (CHR ''d'') ''GPIO 64 level'',
     reg ''GPLR2_65'' 0x40E00008 1 0x00000001 (CHR ''d'') ''GPIO 65 level'',
     reg ''GPLR2_66'' 0x40E00008 2 0x00000001 (CHR ''d'') ''GPIO 66 level'',
     reg ''GPLR2_67'' 0x40E00008 3 0x00000001 (CHR ''d'') ''GPIO 67 level'',
     reg ''GPLR2_68'' 0x40E00008 4 0x00000001 (CHR ''d'') ''GPIO 68 level'',
     reg ''GPLR2_69'' 0x40E00008 5 0x00000001 (CHR ''d'') ''GPIO 69 level'',
     reg ''GPLR2_70'' 0x40E00008 6 0x00000001 (CHR ''d'') ''GPIO 70 level'',
     reg ''GPLR2_71'' 0x40E00008 7 0x00000001 (CHR ''d'') ''GPIO 71 level'',
     reg ''GPLR2_72'' 0x40E00008 8 0x00000001 (CHR ''d'') ''GPIO 72 level'',
     reg ''GPLR2_73'' 0x40E00008 9 0x00000001 (CHR ''d'') ''GPIO 73 level'',
     reg ''GPLR2_74'' 0x40E00008 10 0x00000001 (CHR ''d'') ''GPIO 74 level'',
     reg ''GPLR2_75'' 0x40E00008 11 0x00000001 (CHR ''d'') ''GPIO 75 level'',
     reg ''GPLR2_76'' 0x40E00008 12 0x00000001 (CHR ''d'') ''GPIO 76 level'',
     reg ''GPLR2_77'' 0x40E00008 13 0x00000001 (CHR ''d'') ''GPIO 77 level'',
     reg ''GPLR2_78'' 0x40E00008 14 0x00000001 (CHR ''d'') ''GPIO 78 level'',
     reg ''GPLR2_79'' 0x40E00008 15 0x00000001 (CHR ''d'') ''GPIO 79 level'',
     reg ''GPLR2_80'' 0x40E00008 16 0x00000001 (CHR ''d'') ''GPIO 80 level'',
     reg ''GPLR2_81'' 0x40E00008 17 0x00000001 (CHR ''d'') ''GPIO 81 level'',
     reg ''GPLR2_82'' 0x40E00008 18 0x00000001 (CHR ''d'') ''GPIO 82 level'',
     reg ''GPLR2_83'' 0x40E00008 19 0x00000001 (CHR ''d'') ''GPIO 83 level'',
     reg ''GPLR2_84'' 0x40E00008 20 0x00000001 (CHR ''d'') ''GPIO 84 level''])"

subsection \<open>GPIO direction\<close>

definition regs_gpdr :: "reg_info list" where
  "regs_gpdr =
  [reg ''GPDR0'' 0x40E0000C 0 0xffffffff (CHR ''x'') ''GPIO Direction Register 0 (4-9)'',
   reg ''GPDR0_0'' 0x40E0000C 0 0x00000001 (CHR ''d'') ''GPIO 0 i/o direction (1=output)'',
   reg ''GPDR0_1'' 0x40E0000C 1 0x00000001 (CHR ''d'') ''GPIO 1 i/o direction (1=output)'',
   reg ''GPDR0_2'' 0x40E0000C 2 0x00000001 (CHR ''d'') ''GPIO 2 i/o direction (1=output)'',
   reg ''GPDR0_3'' 0x40E0000C 3 0x00000001 (CHR ''d'') ''GPIO 3 i/o direction (1=output)'',
   reg ''GPDR0_4'' 0x40E0000C 4 0x00000001 (CHR ''d'') ''GPIO 4 i/o direction (1=output)'',
   reg ''GPDR0_5'' 0x40E0000C 5 0x00000001 (CHR ''d'') ''GPIO 5 i/o direction (1=output)'',
   reg ''GPDR0_6'' 0x40E0000C 6 0x00000001 (CHR ''d'') ''GPIO 6 i/o direction (1=output)'',
   reg ''GPDR0_7'' 0x40E0000C 7 0x00000001 (CHR ''d'') ''GPIO 7 i/o direction (1=output)'',
   reg ''GPDR0_8'' 0x40E0000C 8 0x00000001 (CHR ''d'') ''GPIO 8 i/o direction (1=output)'',
   reg ''GPDR0_9'' 0x40E0000C 9 0x00000001 (CHR ''d'') ''GPIO 9 i/o direction (1=output)'',
   reg ''GPDR0_10'' 0x40E0000C 10 0x00000001 (CHR ''d'') ''GPIO 10 i/o direction (1=output)'',
   reg ''GPDR0_11'' 0x40E0000C 11 0x00000001 (CHR ''d'') ''GPIO 11 i/o direction (1=output)'',
   reg ''GPDR0_12'' 0x40E0000C 12 0x00000001 (CHR ''d'') ''GPIO 12 i/o direction (1=output)'',
   reg ''GPDR0_13'' 0x40E0000C 13 0x00000001 (CHR ''d'') ''GPIO 13 i/o direction (1=output)'',
   reg ''GPDR0_14'' 0x40E0000C 14 0x00000001 (CHR ''d'') ''GPIO 14 i/o direction (1=output)'',
   reg ''GPDR0_15'' 0x40E0000C 15 0x00000001 (CHR ''d'') ''GPIO 15 i/o direction (1=output)'',
   reg ''GPDR0_16'' 0x40E0000C 16 0x00000001 (CHR ''d'') ''GPIO 16 i/o direction (1=output)'',
   reg ''GPDR0_17'' 0x40E0000C 17 0x00000001 (CHR ''d'') ''GPIO 17 i/o direction (1=output)'',
   reg ''GPDR0_18'' 0x40E0000C 18 0x00000001 (CHR ''d'') ''GPIO 18 i/o direction (1=output)'',
   reg ''GPDR0_19'' 0x40E0000C 19 0x00000001 (CHR ''d'') ''GPIO 19 i/o direction (1=output)'',
   reg ''GPDR0_20'' 0x40E0000C 20 0x00000001 (CHR ''d'') ''GPIO 20 i/o direction (1=output)'',
   reg ''GPDR0_21'' 0x40E0000C 21 0x00000001 (CHR ''d'') ''GPIO 21 i/o direction (1=output)'',
   reg ''GPDR0_22'' 0x40E0000C 22 0x00000001 (CHR ''d'') ''GPIO 22 i/o direction (1=output)'',
   reg ''GPDR0_23'' 0x40E0000C 23 0x00000001 (CHR ''d'') ''GPIO 23 i/o direction (1=output)'',
   reg ''GPDR0_24'' 0x40E0000C 24 0x00000001 (CHR ''d'') ''GPIO 24 i/o direction (1=output)'',
   reg ''GPDR0_25'' 0x40E0000C 25 0x00000001 (CHR ''d'') ''GPIO 25 i/o direction (1=output)'',
   reg ''GPDR0_26'' 0x40E0000C 26 0x00000001 (CHR ''d'') ''GPIO 26 i/o direction (1=output)'',
   reg ''GPDR0_27'' 0x40E0000C 27 0x00000001 (CHR ''d'') ''GPIO 27 i/o direction (1=output)'',
   reg ''GPDR0_28'' 0x40E0000C 28 0x00000001 (CHR ''d'') ''GPIO 28 i/o direction (1=output)'',
   reg ''GPDR0_29'' 0x40E0000C 29 0x00000001 (CHR ''d'') ''GPIO 29 i/o direction (1=output)'',
   reg ''GPDR0_30'' 0x40E0000C 30 0x00000001 (CHR ''d'') ''GPIO 30 i/o direction (1=output)'',
   reg ''GPDR0_31'' 0x40E0000C 31 0x00000001 (CHR ''d'') ''GPIO 31 i/o direction (1=output)'',
   reg ''GPDR1'' 0x40E00010 0 0xffffffff (CHR ''x'') ''GPIO Direction Register 1 (4-9)'',
   reg ''GPDR1_32'' 0x40E00010 0 0x00000001 (CHR ''d'') ''GPIO 32 i/o direction (1=output)'',
   reg ''GPDR1_33'' 0x40E00010 1 0x00000001 (CHR ''d'') ''GPIO 33 i/o direction (1=output)'',
   reg ''GPDR1_34'' 0x40E00010 2 0x00000001 (CHR ''d'') ''GPIO 34 i/o direction (1=output)'',
   reg ''GPDR1_35'' 0x40E00010 3 0x00000001 (CHR ''d'') ''GPIO 35 i/o direction (1=output)'',
   reg ''GPDR1_36'' 0x40E00010 4 0x00000001 (CHR ''d'') ''GPIO 36 i/o direction (1=output)'',
   reg ''GPDR1_37'' 0x40E00010 5 0x00000001 (CHR ''d'') ''GPIO 37 i/o direction (1=output)'',
   reg ''GPDR1_38'' 0x40E00010 6 0x00000001 (CHR ''d'') ''GPIO 38 i/o direction (1=output)'',
   reg ''GPDR1_39'' 0x40E00010 7 0x00000001 (CHR ''d'') ''GPIO 39 i/o direction (1=output)'',
   reg ''GPDR1_40'' 0x40E00010 8 0x00000001 (CHR ''d'') ''GPIO 40 i/o direction (1=output)'',
   reg ''GPDR1_41'' 0x40E00010 9 0x00000001 (CHR ''d'') ''GPIO 41 i/o direction (1=output)'',
   reg ''GPDR1_42'' 0x40E00010 10 0x00000001 (CHR ''d'') ''GPIO 42 i/o direction (1=output)'',
   reg ''GPDR1_43'' 0x40E00010 11 0x00000001 (CHR ''d'') ''GPIO 43 i/o direction (1=output)'',
   reg ''GPDR1_44'' 0x40E00010 12 0x00000001 (CHR ''d'') ''GPIO 44 i/o direction (1=output)'',
   reg ''GPDR1_45'' 0x40E00010 13 0x00000001 (CHR ''d'') ''GPIO 45 i/o direction (1=output)'',
   reg ''GPDR1_46'' 0x40E00010 14 0x00000001 (CHR ''d'') ''GPIO 46 i/o direction (1=output)'',
   reg ''GPDR1_47'' 0x40E00010 15 0x00000001 (CHR ''d'') ''GPIO 47 i/o direction (1=output)'',
   reg ''GPDR1_48'' 0x40E00010 16 0x00000001 (CHR ''d'') ''GPIO 48 i/o direction (1=output)'',
   reg ''GPDR1_49'' 0x40E00010 17 0x00000001 (CHR ''d'') ''GPIO 49 i/o direction (1=output)'',
   reg ''GPDR1_50'' 0x40E00010 18 0x00000001 (CHR ''d'') ''GPIO 50 i/o direction (1=output)'',
   reg ''GPDR1_51'' 0x40E00010 19 0x00000001 (CHR ''d'') ''GPIO 51 i/o direction (1=output)'',
   reg ''GPDR1_52'' 0x40E00010 20 0x00000001 (CHR ''d'') ''GPIO 52 i/o direction (1=output)'',
   reg ''GPDR1_53'' 0x40E00010 21 0x00000001 (CHR ''d'') ''GPIO 53 i/o direction (1=output)'',
   reg ''GPDR1_54'' 0x40E00010 22 0x00000001 (CHR ''d'') ''GPIO 54 i/o direction (1=output)'',
   reg ''GPDR1_55'' 0x40E00010 23 0x00000001 (CHR ''d'') ''GPIO 55 i/o direction (1=output)'',
   reg ''GPDR1_56'' 0x40E00010 24 0x00000001 (CHR ''d'') ''GPIO 56 i/o direction (1=output)'',
   reg ''GPDR1_57'' 0x40E00010 25 0x00000001 (CHR ''d'') ''GPIO 57 i/o direction (1=output)'',
   reg ''GPDR1_58'' 0x40E00010 26 0x00000001 (CHR ''d'') ''GPIO 58 i/o direction (1=output)'',
   reg ''GPDR1_59'' 0x40E00010 27 0x00000001 (CHR ''d'') ''GPIO 59 i/o direction (1=output)'',
   reg ''GPDR1_60'' 0x40E00010 28 0x00000001 (CHR ''d'') ''GPIO 60 i/o direction (1=output)'',
   reg ''GPDR1_61'' 0x40E00010 29 0x00000001 (CHR ''d'') ''GPIO 61 i/o direction (1=output)'',
   reg ''GPDR1_62'' 0x40E00010 30 0x00000001 (CHR ''d'') ''GPIO 62 i/o direction (1=output)'',
   reg ''GPDR1_63'' 0x40E00010 31 0x00000001 (CHR ''d'') ''GPIO 63 i/o direction (1=output)'',
   reg ''GPDR2'' 0x40E00014 0 0xffffffff (CHR ''x'') ''GPIO Direction Register 2 (4-9)'',
   reg ''GPDR2_64'' 0x40E00014 0 0x00000001 (CHR ''d'') ''GPIO 64 i/o direction (1=output)'',
   reg ''GPDR2_65'' 0x40E00014 1 0x00000001 (CHR ''d'') ''GPIO 65 i/o direction (1=output)'',
   reg ''GPDR2_66'' 0x40E00014 2 0x00000001 (CHR ''d'') ''GPIO 66 i/o direction (1=output)'',
   reg ''GPDR2_67'' 0x40E00014 3 0x00000001 (CHR ''d'') ''GPIO 67 i/o direction (1=output)'',
   reg ''GPDR2_68'' 0x40E00014 4 0x00000001 (CHR ''d'') ''GPIO 68 i/o direction (1=output)'',
   reg ''GPDR2_69'' 0x40E00014 5 0x00000001 (CHR ''d'') ''GPIO 69 i/o direction (1=output)'',
   reg ''GPDR2_70'' 0x40E00014 6 0x00000001 (CHR ''d'') ''GPIO 70 i/o direction (1=output)'',
   reg ''GPDR2_71'' 0x40E00014 7 0x00000001 (CHR ''d'') ''GPIO 71 i/o direction (1=output)'',
   reg ''GPDR2_72'' 0x40E00014 8 0x00000001 (CHR ''d'') ''GPIO 72 i/o direction (1=output)'',
   reg ''GPDR2_73'' 0x40E00014 9 0x00000001 (CHR ''d'') ''GPIO 73 i/o direction (1=output)'',
   reg ''GPDR2_74'' 0x40E00014 10 0x00000001 (CHR ''d'') ''GPIO 74 i/o direction (1=output)'',
   reg ''GPDR2_75'' 0x40E00014 11 0x00000001 (CHR ''d'') ''GPIO 75 i/o direction (1=output)'',
   reg ''GPDR2_76'' 0x40E00014 12 0x00000001 (CHR ''d'') ''GPIO 76 i/o direction (1=output)'',
   reg ''GPDR2_77'' 0x40E00014 13 0x00000001 (CHR ''d'') ''GPIO 77 i/o direction (1=output)'',
   reg ''GPDR2_78'' 0x40E00014 14 0x00000001 (CHR ''d'') ''GPIO 78 i/o direction (1=output)'',
   reg ''GPDR2_79'' 0x40E00014 15 0x00000001 (CHR ''d'') ''GPIO 79 i/o direction (1=output)'',
   reg ''GPDR2_80'' 0x40E00014 16 0x00000001 (CHR ''d'') ''GPIO 80 i/o direction (1=output)'',
   reg ''GPDR2_81'' 0x40E00014 17 0x00000001 (CHR ''d'') ''GPIO 81 i/o direction (1=output)'',
   reg ''GPDR2_82'' 0x40E00014 18 0x00000001 (CHR ''d'') ''GPIO 82 i/o direction (1=output)'',
   reg ''GPDR2_83'' 0x40E00014 19 0x00000001 (CHR ''d'') ''GPIO 83 i/o direction (1=output)'',
   reg ''GPDR2_84'' 0x40E00014 20 0x00000001 (CHR ''d'') ''GPIO 84 i/o direction (1=output)'']"

subsection \<open>GPIO set\<close>

definition regs_gpsr :: "reg_info list" where
  "regs_gpsr =
  [reg ''GPSR0'' 0x40E00018 0 0xffffffff (CHR ''x'') ''GPIO Set Register 0 (4-10)'',
   reg ''GPSR0_0'' 0x40E00018 0 0x00000001 (CHR ''d'') ''GPIO 0 set'',
   reg ''GPSR0_1'' 0x40E00018 1 0x00000001 (CHR ''d'') ''GPIO 1 set'',
   reg ''GPSR0_2'' 0x40E00018 2 0x00000001 (CHR ''d'') ''GPIO 2 set'',
   reg ''GPSR0_3'' 0x40E00018 3 0x00000001 (CHR ''d'') ''GPIO 3 set'',
   reg ''GPSR0_4'' 0x40E00018 4 0x00000001 (CHR ''d'') ''GPIO 4 set'',
   reg ''GPSR0_5'' 0x40E00018 5 0x00000001 (CHR ''d'') ''GPIO 5 set'',
   reg ''GPSR0_6'' 0x40E00018 6 0x00000001 (CHR ''d'') ''GPIO 6 set'',
   reg ''GPSR0_7'' 0x40E00018 7 0x00000001 (CHR ''d'') ''GPIO 7 set'',
   reg ''GPSR0_8'' 0x40E00018 8 0x00000001 (CHR ''d'') ''GPIO 8 set'',
   reg ''GPSR0_9'' 0x40E00018 9 0x00000001 (CHR ''d'') ''GPIO 9 set'',
   reg ''GPSR0_10'' 0x40E00018 10 0x00000001 (CHR ''d'') ''GPIO 10 set'',
   reg ''GPSR0_11'' 0x40E00018 11 0x00000001 (CHR ''d'') ''GPIO 11 set'',
   reg ''GPSR0_12'' 0x40E00018 12 0x00000001 (CHR ''d'') ''GPIO 12 set'',
   reg ''GPSR0_13'' 0x40E00018 13 0x00000001 (CHR ''d'') ''GPIO 13 set'',
   reg ''GPSR0_14'' 0x40E00018 14 0x00000001 (CHR ''d'') ''GPIO 14 set'',
   reg ''GPSR0_15'' 0x40E00018 15 0x00000001 (CHR ''d'') ''GPIO 15 set'',
   reg ''GPSR0_16'' 0x40E00018 16 0x00000001 (CHR ''d'') ''GPIO 16 set'',
   reg ''GPSR0_17'' 0x40E00018 17 0x00000001 (CHR ''d'') ''GPIO 17 set'',
   reg ''GPSR0_18'' 0x40E00018 18 0x00000001 (CHR ''d'') ''GPIO 18 set'',
   reg ''GPSR0_19'' 0x40E00018 19 0x00000001 (CHR ''d'') ''GPIO 19 set'',
   reg ''GPSR0_20'' 0x40E00018 20 0x00000001 (CHR ''d'') ''GPIO 20 set'',
   reg ''GPSR0_21'' 0x40E00018 21 0x00000001 (CHR ''d'') ''GPIO 21 set'',
   reg ''GPSR0_22'' 0x40E00018 22 0x00000001 (CHR ''d'') ''GPIO 22 set'',
   reg ''GPSR0_23'' 0x40E00018 23 0x00000001 (CHR ''d'') ''GPIO 23 set'',
   reg ''GPSR0_24'' 0x40E00018 24 0x00000001 (CHR ''d'') ''GPIO 24 set'',
   reg ''GPSR0_25'' 0x40E00018 25 0x00000001 (CHR ''d'') ''GPIO 25 set'',
   reg ''GPSR0_26'' 0x40E00018 26 0x00000001 (CHR ''d'') ''GPIO 26 set'',
   reg ''GPSR0_27'' 0x40E00018 27 0x00000001 (CHR ''d'') ''GPIO 27 set'',
   reg ''GPSR0_28'' 0x40E00018 28 0x00000001 (CHR ''d'') ''GPIO 28 set'',
   reg ''GPSR0_29'' 0x40E00018 29 0x00000001 (CHR ''d'') ''GPIO 29 set'',
   reg ''GPSR0_30'' 0x40E00018 30 0x00000001 (CHR ''d'') ''GPIO 30 set'',
   reg ''GPSR0_31'' 0x40E00018 31 0x00000001 (CHR ''d'') ''GPIO 31 set'',
   reg ''GPSR1'' 0x40E0001C 0 0xffffffff (CHR ''x'') ''GPIO Set Register 1 (4-10)'',
   reg ''GPSR1_32'' 0x40E0001C 0 0x00000001 (CHR ''d'') ''GPIO 32 set'',
   reg ''GPSR1_33'' 0x40E0001C 1 0x00000001 (CHR ''d'') ''GPIO 33 set'',
   reg ''GPSR1_34'' 0x40E0001C 2 0x00000001 (CHR ''d'') ''GPIO 34 set'',
   reg ''GPSR1_35'' 0x40E0001C 3 0x00000001 (CHR ''d'') ''GPIO 35 set'',
   reg ''GPSR1_36'' 0x40E0001C 4 0x00000001 (CHR ''d'') ''GPIO 36 set'',
   reg ''GPSR1_37'' 0x40E0001C 5 0x00000001 (CHR ''d'') ''GPIO 37 set'',
   reg ''GPSR1_38'' 0x40E0001C 6 0x00000001 (CHR ''d'') ''GPIO 38 set'',
   reg ''GPSR1_39'' 0x40E0001C 7 0x00000001 (CHR ''d'') ''GPIO 39 set'',
   reg ''GPSR1_40'' 0x40E0001C 8 0x00000001 (CHR ''d'') ''GPIO 40 set'',
   reg ''GPSR1_41'' 0x40E0001C 9 0x00000001 (CHR ''d'') ''GPIO 41 set'',
   reg ''GPSR1_42'' 0x40E0001C 10 0x00000001 (CHR ''d'') ''GPIO 42 set'',
   reg ''GPSR1_43'' 0x40E0001C 11 0x00000001 (CHR ''d'') ''GPIO 43 set'',
   reg ''GPSR1_44'' 0x40E0001C 12 0x00000001 (CHR ''d'') ''GPIO 44 set'',
   reg ''GPSR1_45'' 0x40E0001C 13 0x00000001 (CHR ''d'') ''GPIO 45 set'',
   reg ''GPSR1_46'' 0x40E0001C 14 0x00000001 (CHR ''d'') ''GPIO 46 set'',
   reg ''GPSR1_47'' 0x40E0001C 15 0x00000001 (CHR ''d'') ''GPIO 47 set'',
   reg ''GPSR1_48'' 0x40E0001C 16 0x00000001 (CHR ''d'') ''GPIO 48 set'',
   reg ''GPSR1_49'' 0x40E0001C 17 0x00000001 (CHR ''d'') ''GPIO 49 set'',
   reg ''GPSR1_50'' 0x40E0001C 18 0x00000001 (CHR ''d'') ''GPIO 50 set'',
   reg ''GPSR1_51'' 0x40E0001C 19 0x00000001 (CHR ''d'') ''GPIO 51 set'',
   reg ''GPSR1_52'' 0x40E0001C 20 0x00000001 (CHR ''d'') ''GPIO 52 set'',
   reg ''GPSR1_53'' 0x40E0001C 21 0x00000001 (CHR ''d'') ''GPIO 53 set'',
   reg ''GPSR1_54'' 0x40E0001C 22 0x00000001 (CHR ''d'') ''GPIO 54 set'',
   reg ''GPSR1_55'' 0x40E0001C 23 0x00000001 (CHR ''d'') ''GPIO 55 set'',
   reg ''GPSR1_56'' 0x40E0001C 24 0x00000001 (CHR ''d'') ''GPIO 56 set'',
   reg ''GPSR1_57'' 0x40E0001C 25 0x00000001 (CHR ''d'') ''GPIO 57 set'',
   reg ''GPSR1_58'' 0x40E0001C 26 0x00000001 (CHR ''d'') ''GPIO 58 set'',
   reg ''GPSR1_59'' 0x40E0001C 27 0x00000001 (CHR ''d'') ''GPIO 59 set'',
   reg ''GPSR1_60'' 0x40E0001C 28 0x00000001 (CHR ''d'') ''GPIO 60 set'',
   reg ''GPSR1_61'' 0x40E0001C 29 0x00000001 (CHR ''d'') ''GPIO 61 set'',
   reg ''GPSR1_62'' 0x40E0001C 30 0x00000001 (CHR ''d'') ''GPIO 62 set'',
   reg ''GPSR1_63'' 0x40E0001C 31 0x00000001 (CHR ''d'') ''GPIO 63 set'',
   reg ''GPSR2'' 0x40E00020 0 0xffffffff (CHR ''x'') ''GPIO Set Register 2 (4-11)'',
   reg ''GPSR2_64'' 0x40E00020 0 0x00000001 (CHR ''d'') ''GPIO 64 set'',
   reg ''GPSR2_65'' 0x40E00020 1 0x00000001 (CHR ''d'') ''GPIO 65 set'',
   reg ''GPSR2_66'' 0x40E00020 2 0x00000001 (CHR ''d'') ''GPIO 66 set'',
   reg ''GPSR2_67'' 0x40E00020 3 0x00000001 (CHR ''d'') ''GPIO 67 set'',
   reg ''GPSR2_68'' 0x40E00020 4 0x00000001 (CHR ''d'') ''GPIO 68 set'',
   reg ''GPSR2_69'' 0x40E00020 5 0x00000001 (CHR ''d'') ''GPIO 69 set'',
   reg ''GPSR2_70'' 0x40E00020 6 0x00000001 (CHR ''d'') ''GPIO 70 set'',
   reg ''GPSR2_71'' 0x40E00020 7 0x00000001 (CHR ''d'') ''GPIO 71 set'',
   reg ''GPSR2_72'' 0x40E00020 8 0x00000001 (CHR ''d'') ''GPIO 72 set'',
   reg ''GPSR2_73'' 0x40E00020 9 0x00000001 (CHR ''d'') ''GPIO 73 set'',
   reg ''GPSR2_74'' 0x40E00020 10 0x00000001 (CHR ''d'') ''GPIO 74 set'',
   reg ''GPSR2_75'' 0x40E00020 11 0x00000001 (CHR ''d'') ''GPIO 75 set'',
   reg ''GPSR2_76'' 0x40E00020 12 0x00000001 (CHR ''d'') ''GPIO 76 set'',
   reg ''GPSR2_77'' 0x40E00020 13 0x00000001 (CHR ''d'') ''GPIO 77 set'',
   reg ''GPSR2_78'' 0x40E00020 14 0x00000001 (CHR ''d'') ''GPIO 78 set'',
   reg ''GPSR2_79'' 0x40E00020 15 0x00000001 (CHR ''d'') ''GPIO 79 set'',
   reg ''GPSR2_80'' 0x40E00020 16 0x00000001 (CHR ''d'') ''GPIO 80 set'',
   reg ''GPSR2_81'' 0x40E00020 17 0x00000001 (CHR ''d'') ''GPIO 81 set'',
   reg ''GPSR2_82'' 0x40E00020 18 0x00000001 (CHR ''d'') ''GPIO 82 set'',
   reg ''GPSR2_83'' 0x40E00020 19 0x00000001 (CHR ''d'') ''GPIO 83 set'',
   reg ''GPSR2_84'' 0x40E00020 20 0x00000001 (CHR ''d'') ''GPIO 84 set'']"

subsection \<open>GPIO clear\<close>

definition regs_gpcr :: "reg_info list" where
  "regs_gpcr =
  [reg ''GPCR0'' 0x40E00024 0 0xffffffff (CHR ''x'') ''GPIO Clear Register 0 (4-11)'',
   reg ''GPCR0_0'' 0x40E00024 0 0x00000001 (CHR ''d'') ''GPIO 0 clear'',
   reg ''GPCR0_1'' 0x40E00024 1 0x00000001 (CHR ''d'') ''GPIO 1 clear'',
   reg ''GPCR0_2'' 0x40E00024 2 0x00000001 (CHR ''d'') ''GPIO 2 clear'',
   reg ''GPCR0_3'' 0x40E00024 3 0x00000001 (CHR ''d'') ''GPIO 3 clear'',
   reg ''GPCR0_4'' 0x40E00024 4 0x00000001 (CHR ''d'') ''GPIO 4 clear'',
   reg ''GPCR0_5'' 0x40E00024 5 0x00000001 (CHR ''d'') ''GPIO 5 clear'',
   reg ''GPCR0_6'' 0x40E00024 6 0x00000001 (CHR ''d'') ''GPIO 6 clear'',
   reg ''GPCR0_7'' 0x40E00024 7 0x00000001 (CHR ''d'') ''GPIO 7 clear'',
   reg ''GPCR0_8'' 0x40E00024 8 0x00000001 (CHR ''d'') ''GPIO 8 clear'',
   reg ''GPCR0_9'' 0x40E00024 9 0x00000001 (CHR ''d'') ''GPIO 9 clear'',
   reg ''GPCR0_10'' 0x40E00024 10 0x00000001 (CHR ''d'') ''GPIO 10 clear'',
   reg ''GPCR0_11'' 0x40E00024 11 0x00000001 (CHR ''d'') ''GPIO 11 clear'',
   reg ''GPCR0_12'' 0x40E00024 12 0x00000001 (CHR ''d'') ''GPIO 12 clear'',
   reg ''GPCR0_13'' 0x40E00024 13 0x00000001 (CHR ''d'') ''GPIO 13 clear'',
   reg ''GPCR0_14'' 0x40E00024 14 0x00000001 (CHR ''d'') ''GPIO 14 clear'',
   reg ''GPCR0_15'' 0x40E00024 15 0x00000001 (CHR ''d'') ''GPIO 15 clear'',
   reg ''GPCR0_16'' 0x40E00024 16 0x00000001 (CHR ''d'') ''GPIO 16 clear'',
   reg ''GPCR0_17'' 0x40E00024 17 0x00000001 (CHR ''d'') ''GPIO 17 clear'',
   reg ''GPCR0_18'' 0x40E00024 18 0x00000001 (CHR ''d'') ''GPIO 18 clear'',
   reg ''GPCR0_19'' 0x40E00024 19 0x00000001 (CHR ''d'') ''GPIO 19 clear'',
   reg ''GPCR0_20'' 0x40E00024 20 0x00000001 (CHR ''d'') ''GPIO 20 clear'',
   reg ''GPCR0_21'' 0x40E00024 21 0x00000001 (CHR ''d'') ''GPIO 21 clear'',
   reg ''GPCR0_22'' 0x40E00024 22 0x00000001 (CHR ''d'') ''GPIO 22 clear'',
   reg ''GPCR0_23'' 0x40E00024 23 0x00000001 (CHR ''d'') ''GPIO 23 clear'',
   reg ''GPCR0_24'' 0x40E00024 24 0x00000001 (CHR ''d'') ''GPIO 24 clear'',
   reg ''GPCR0_25'' 0x40E00024 25 0x00000001 (CHR ''d'') ''GPIO 25 clear'',
   reg ''GPCR0_26'' 0x40E00024 26 0x00000001 (CHR ''d'') ''GPIO 26 clear'',
   reg ''GPCR0_27'' 0x40E00024 27 0x00000001 (CHR ''d'') ''GPIO 27 clear'',
   reg ''GPCR0_28'' 0x40E00024 28 0x00000001 (CHR ''d'') ''GPIO 28 clear'',
   reg ''GPCR0_29'' 0x40E00024 29 0x00000001 (CHR ''d'') ''GPIO 29 clear'',
   reg ''GPCR0_30'' 0x40E00024 30 0x00000001 (CHR ''d'') ''GPIO 30 clear'',
   reg ''GPCR0_31'' 0x40E00024 31 0x00000001 (CHR ''d'') ''GPIO 31 clear'',
   reg ''GPCR1'' 0x40E00028 0 0xffffffff (CHR ''x'') ''GPIO Clear Register 1 (4-11)'',
   reg ''GPCR1_32'' 0x40E00028 0 0x00000001 (CHR ''d'') ''GPIO 32 clear'',
   reg ''GPCR1_33'' 0x40E00028 1 0x00000001 (CHR ''d'') ''GPIO 33 clear'',
   reg ''GPCR1_34'' 0x40E00028 2 0x00000001 (CHR ''d'') ''GPIO 34 clear'',
   reg ''GPCR1_35'' 0x40E00028 3 0x00000001 (CHR ''d'') ''GPIO 35 clear'',
   reg ''GPCR1_36'' 0x40E00028 4 0x00000001 (CHR ''d'') ''GPIO 36 clear'',
   reg ''GPCR1_37'' 0x40E00028 5 0x00000001 (CHR ''d'') ''GPIO 37 clear'',
   reg ''GPCR1_38'' 0x40E00028 6 0x00000001 (CHR ''d'') ''GPIO 38 clear'',
   reg ''GPCR1_39'' 0x40E00028 7 0x00000001 (CHR ''d'') ''GPIO 39 clear'',
   reg ''GPCR1_40'' 0x40E00028 8 0x00000001 (CHR ''d'') ''GPIO 40 clear'',
   reg ''GPCR1_41'' 0x40E00028 9 0x00000001 (CHR ''d'') ''GPIO 41 clear'',
   reg ''GPCR1_42'' 0x40E00028 10 0x00000001 (CHR ''d'') ''GPIO 42 clear'',
   reg ''GPCR1_43'' 0x40E00028 11 0x00000001 (CHR ''d'') ''GPIO 43 clear'',
   reg ''GPCR1_44'' 0x40E00028 12 0x00000001 (CHR ''d'') ''GPIO 44 clear'',
   reg ''GPCR1_45'' 0x40E00028 13 0x00000001 (CHR ''d'') ''GPIO 45 clear'',
   reg ''GPCR1_46'' 0x40E00028 14 0x00000001 (CHR ''d'') ''GPIO 46 clear'',
   reg ''GPCR1_47'' 0x40E00028 15 0x00000001 (CHR ''d'') ''GPIO 47 clear'',
   reg ''GPCR1_48'' 0x40E00028 16 0x00000001 (CHR ''d'') ''GPIO 48 clear'',
   reg ''GPCR1_49'' 0x40E00028 17 0x00000001 (CHR ''d'') ''GPIO 49 clear'',
   reg ''GPCR1_50'' 0x40E00028 18 0x00000001 (CHR ''d'') ''GPIO 50 clear'',
   reg ''GPCR1_51'' 0x40E00028 19 0x00000001 (CHR ''d'') ''GPIO 51 clear'',
   reg ''GPCR1_52'' 0x40E00028 20 0x00000001 (CHR ''d'') ''GPIO 52 clear'',
   reg ''GPCR1_53'' 0x40E00028 21 0x00000001 (CHR ''d'') ''GPIO 53 clear'',
   reg ''GPCR1_54'' 0x40E00028 22 0x00000001 (CHR ''d'') ''GPIO 54 clear'',
   reg ''GPCR1_55'' 0x40E00028 23 0x00000001 (CHR ''d'') ''GPIO 55 clear'',
   reg ''GPCR1_56'' 0x40E00028 24 0x00000001 (CHR ''d'') ''GPIO 56 clear'',
   reg ''GPCR1_57'' 0x40E00028 25 0x00000001 (CHR ''d'') ''GPIO 57 clear'',
   reg ''GPCR1_58'' 0x40E00028 26 0x00000001 (CHR ''d'') ''GPIO 58 clear'',
   reg ''GPCR1_59'' 0x40E00028 27 0x00000001 (CHR ''d'') ''GPIO 59 clear'',
   reg ''GPCR1_60'' 0x40E00028 28 0x00000001 (CHR ''d'') ''GPIO 60 clear'',
   reg ''GPCR1_61'' 0x40E00028 29 0x00000001 (CHR ''d'') ''GPIO 61 clear'',
   reg ''GPCR1_62'' 0x40E00028 30 0x00000001 (CHR ''d'') ''GPIO 62 clear'',
   reg ''GPCR1_63'' 0x40E00028 31 0x00000001 (CHR ''d'') ''GPIO 63 clear'',
   reg ''GPCR2'' 0x40E0002C 0 0xffffffff (CHR ''x'') ''GPIO Clear Register 2 (4-12)'',
   reg ''GPCR2_64'' 0x40E0002C 0 0x00000001 (CHR ''d'') ''GPIO 64 clear'',
   reg ''GPCR2_65'' 0x40E0002C 1 0x00000001 (CHR ''d'') ''GPIO 65 clear'',
   reg ''GPCR2_66'' 0x40E0002C 2 0x00000001 (CHR ''d'') ''GPIO 66 clear'',
   reg ''GPCR2_67'' 0x40E0002C 3 0x00000001 (CHR ''d'') ''GPIO 67 clear'',
   reg ''GPCR2_68'' 0x40E0002C 4 0x00000001 (CHR ''d'') ''GPIO 68 clear'',
   reg ''GPCR2_69'' 0x40E0002C 5 0x00000001 (CHR ''d'') ''GPIO 69 clear'',
   reg ''GPCR2_70'' 0x40E0002C 6 0x00000001 (CHR ''d'') ''GPIO 70 clear'',
   reg ''GPCR2_71'' 0x40E0002C 7 0x00000001 (CHR ''d'') ''GPIO 71 clear'',
   reg ''GPCR2_72'' 0x40E0002C 8 0x00000001 (CHR ''d'') ''GPIO 72 clear'',
   reg ''GPCR2_73'' 0x40E0002C 9 0x00000001 (CHR ''d'') ''GPIO 73 clear'',
   reg ''GPCR2_74'' 0x40E0002C 10 0x00000001 (CHR ''d'') ''GPIO 74 clear'',
   reg ''GPCR2_75'' 0x40E0002C 11 0x00000001 (CHR ''d'') ''GPIO 75 clear'',
   reg ''GPCR2_76'' 0x40E0002C 12 0x00000001 (CHR ''d'') ''GPIO 76 clear'',
   reg ''GPCR2_77'' 0x40E0002C 13 0x00000001 (CHR ''d'') ''GPIO 77 clear'',
   reg ''GPCR2_78'' 0x40E0002C 14 0x00000001 (CHR ''d'') ''GPIO 78 clear'',
   reg ''GPCR2_79'' 0x40E0002C 15 0x00000001 (CHR ''d'') ''GPIO 79 clear'',
   reg ''GPCR2_80'' 0x40E0002C 16 0x00000001 (CHR ''d'') ''GPIO 80 clear'',
   reg ''GPCR2_81'' 0x40E0002C 17 0x00000001 (CHR ''d'') ''GPIO 81 clear'',
   reg ''GPCR2_82'' 0x40E0002C 18 0x00000001 (CHR ''d'') ''GPIO 82 clear'',
   reg ''GPCR2_83'' 0x40E0002C 19 0x00000001 (CHR ''d'') ''GPIO 83 clear'',
   reg ''GPCR2_84'' 0x40E0002C 20 0x00000001 (CHR ''d'') ''GPIO 84 clear'']"

subsection \<open>GPIO rising edge\<close>

definition regs_grer :: "reg_info list" where
  "regs_grer =
  [reg ''GRER0'' 0x40E00030 0 0xffffffff (CHR ''x'') ''GPIO Raising Edge Detect Enable Register 0 (4-13)'',
   reg ''GRER0_0'' 0x40E00030 0 0x00000001 (CHR ''d'') ''GPIO 0 raising edge detect enabled'',
   reg ''GRER0_1'' 0x40E00030 1 0x00000001 (CHR ''d'') ''GPIO 1 raising edge detect enabled'',
   reg ''GRER0_2'' 0x40E00030 2 0x00000001 (CHR ''d'') ''GPIO 2 raising edge detect enabled'',
   reg ''GRER0_3'' 0x40E00030 3 0x00000001 (CHR ''d'') ''GPIO 3 raising edge detect enabled'',
   reg ''GRER0_4'' 0x40E00030 4 0x00000001 (CHR ''d'') ''GPIO 4 raising edge detect enabled'',
   reg ''GRER0_5'' 0x40E00030 5 0x00000001 (CHR ''d'') ''GPIO 5 raising edge detect enabled'',
   reg ''GRER0_6'' 0x40E00030 6 0x00000001 (CHR ''d'') ''GPIO 6 raising edge detect enabled'',
   reg ''GRER0_7'' 0x40E00030 7 0x00000001 (CHR ''d'') ''GPIO 7 raising edge detect enabled'',
   reg ''GRER0_8'' 0x40E00030 8 0x00000001 (CHR ''d'') ''GPIO 8 raising edge detect enabled'',
   reg ''GRER0_9'' 0x40E00030 9 0x00000001 (CHR ''d'') ''GPIO 9 raising edge detect enabled'',
   reg ''GRER0_10'' 0x40E00030 10 0x00000001 (CHR ''d'') ''GPIO 10 raising edge detect enabled'',
   reg ''GRER0_11'' 0x40E00030 11 0x00000001 (CHR ''d'') ''GPIO 11 raising edge detect enabled'',
   reg ''GRER0_12'' 0x40E00030 12 0x00000001 (CHR ''d'') ''GPIO 12 raising edge detect enabled'',
   reg ''GRER0_13'' 0x40E00030 13 0x00000001 (CHR ''d'') ''GPIO 13 raising edge detect enabled'',
   reg ''GRER0_14'' 0x40E00030 14 0x00000001 (CHR ''d'') ''GPIO 14 raising edge detect enabled'',
   reg ''GRER0_15'' 0x40E00030 15 0x00000001 (CHR ''d'') ''GPIO 15 raising edge detect enabled'',
   reg ''GRER0_16'' 0x40E00030 16 0x00000001 (CHR ''d'') ''GPIO 16 raising edge detect enabled'',
   reg ''GRER0_17'' 0x40E00030 17 0x00000001 (CHR ''d'') ''GPIO 17 raising edge detect enabled'',
   reg ''GRER0_18'' 0x40E00030 18 0x00000001 (CHR ''d'') ''GPIO 18 raising edge detect enabled'',
   reg ''GRER0_19'' 0x40E00030 19 0x00000001 (CHR ''d'') ''GPIO 19 raising edge detect enabled'',
   reg ''GRER0_20'' 0x40E00030 20 0x00000001 (CHR ''d'') ''GPIO 20 raising edge detect enabled'',
   reg ''GRER0_21'' 0x40E00030 21 0x00000001 (CHR ''d'') ''GPIO 21 raising edge detect enabled'',
   reg ''GRER0_22'' 0x40E00030 22 0x00000001 (CHR ''d'') ''GPIO 22 raising edge detect enabled'',
   reg ''GRER0_23'' 0x40E00030 23 0x00000001 (CHR ''d'') ''GPIO 23 raising edge detect enabled'',
   reg ''GRER0_24'' 0x40E00030 24 0x00000001 (CHR ''d'') ''GPIO 24 raising edge detect enabled'',
   reg ''GRER0_25'' 0x40E00030 25 0x00000001 (CHR ''d'') ''GPIO 25 raising edge detect enabled'',
   reg ''GRER0_26'' 0x40E00030 26 0x00000001 (CHR ''d'') ''GPIO 26 raising edge detect enabled'',
   reg ''GRER0_27'' 0x40E00030 27 0x00000001 (CHR ''d'') ''GPIO 27 raising edge detect enabled'',
   reg ''GRER0_28'' 0x40E00030 28 0x00000001 (CHR ''d'') ''GPIO 28 raising edge detect enabled'',
   reg ''GRER0_29'' 0x40E00030 29 0x00000001 (CHR ''d'') ''GPIO 29 raising edge detect enabled'',
   reg ''GRER0_30'' 0x40E00030 30 0x00000001 (CHR ''d'') ''GPIO 30 raising edge detect enabled'',
   reg ''GRER0_31'' 0x40E00030 31 0x00000001 (CHR ''d'') ''GPIO 31 raising edge detect enabled'',
   reg ''GRER1'' 0x40E00034 0 0xffffffff (CHR ''x'') ''GPIO Raising Edge Detect Enable Register 1 (4-13)'',
   reg ''GRER1_32'' 0x40E00034 0 0x00000001 (CHR ''d'') ''GPIO 32 raising edge detect enabled'',
   reg ''GRER1_33'' 0x40E00034 1 0x00000001 (CHR ''d'') ''GPIO 33 raising edge detect enabled'',
   reg ''GRER1_34'' 0x40E00034 2 0x00000001 (CHR ''d'') ''GPIO 34 raising edge detect enabled'',
   reg ''GRER1_35'' 0x40E00034 3 0x00000001 (CHR ''d'') ''GPIO 35 raising edge detect enabled'',
   reg ''GRER1_36'' 0x40E00034 4 0x00000001 (CHR ''d'') ''GPIO 36 raising edge detect enabled'',
   reg ''GRER1_37'' 0x40E00034 5 0x00000001 (CHR ''d'') ''GPIO 37 raising edge detect enabled'',
   reg ''GRER1_38'' 0x40E00034 6 0x00000001 (CHR ''d'') ''GPIO 38 raising edge detect enabled'',
   reg ''GRER1_39'' 0x40E00034 7 0x00000001 (CHR ''d'') ''GPIO 39 raising edge detect enabled'',
   reg ''GRER1_40'' 0x40E00034 8 0x00000001 (CHR ''d'') ''GPIO 40 raising edge detect enabled'',
   reg ''GRER1_41'' 0x40E00034 9 0x00000001 (CHR ''d'') ''GPIO 41 raising edge detect enabled'',
   reg ''GRER1_42'' 0x40E00034 10 0x00000001 (CHR ''d'') ''GPIO 42 raising edge detect enabled'',
   reg ''GRER1_43'' 0x40E00034 11 0x00000001 (CHR ''d'') ''GPIO 43 raising edge detect enabled'',
   reg ''GRER1_44'' 0x40E00034 12 0x00000001 (CHR ''d'') ''GPIO 44 raising edge detect enabled'',
   reg ''GRER1_45'' 0x40E00034 13 0x00000001 (CHR ''d'') ''GPIO 45 raising edge detect enabled'',
   reg ''GRER1_46'' 0x40E00034 14 0x00000001 (CHR ''d'') ''GPIO 46 raising edge detect enabled'',
   reg ''GRER1_47'' 0x40E00034 15 0x00000001 (CHR ''d'') ''GPIO 47 raising edge detect enabled'',
   reg ''GRER1_48'' 0x40E00034 16 0x00000001 (CHR ''d'') ''GPIO 48 raising edge detect enabled'',
   reg ''GRER1_49'' 0x40E00034 17 0x00000001 (CHR ''d'') ''GPIO 49 raising edge detect enabled'',
   reg ''GRER1_50'' 0x40E00034 18 0x00000001 (CHR ''d'') ''GPIO 50 raising edge detect enabled'',
   reg ''GRER1_51'' 0x40E00034 19 0x00000001 (CHR ''d'') ''GPIO 51 raising edge detect enabled'',
   reg ''GRER1_52'' 0x40E00034 20 0x00000001 (CHR ''d'') ''GPIO 52 raising edge detect enabled'',
   reg ''GRER1_53'' 0x40E00034 21 0x00000001 (CHR ''d'') ''GPIO 53 raising edge detect enabled'',
   reg ''GRER1_54'' 0x40E00034 22 0x00000001 (CHR ''d'') ''GPIO 54 raising edge detect enabled'',
   reg ''GRER1_55'' 0x40E00034 23 0x00000001 (CHR ''d'') ''GPIO 55 raising edge detect enabled'',
   reg ''GRER1_56'' 0x40E00034 24 0x00000001 (CHR ''d'') ''GPIO 56 raising edge detect enabled'',
   reg ''GRER1_57'' 0x40E00034 25 0x00000001 (CHR ''d'') ''GPIO 57 raising edge detect enabled'',
   reg ''GRER1_58'' 0x40E00034 26 0x00000001 (CHR ''d'') ''GPIO 58 raising edge detect enabled'',
   reg ''GRER1_59'' 0x40E00034 27 0x00000001 (CHR ''d'') ''GPIO 59 raising edge detect enabled'',
   reg ''GRER1_60'' 0x40E00034 28 0x00000001 (CHR ''d'') ''GPIO 60 raising edge detect enabled'',
   reg ''GRER1_61'' 0x40E00034 29 0x00000001 (CHR ''d'') ''GPIO 61 raising edge detect enabled'',
   reg ''GRER1_62'' 0x40E00034 30 0x00000001 (CHR ''d'') ''GPIO 62 raising edge detect enabled'',
   reg ''GRER1_63'' 0x40E00034 31 0x00000001 (CHR ''d'') ''GPIO 63 raising edge detect enabled'',
   reg ''GRER2'' 0x40E00038 0 0xffffffff (CHR ''x'') ''GPIO Raising Edge Detect Enable Register 2 (4-13)'',
   reg ''GRER2_64'' 0x40E00038 0 0x00000001 (CHR ''d'') ''GPIO 64 raising edge detect enabled'',
   reg ''GRER2_65'' 0x40E00038 1 0x00000001 (CHR ''d'') ''GPIO 65 raising edge detect enabled'',
   reg ''GRER2_66'' 0x40E00038 2 0x00000001 (CHR ''d'') ''GPIO 66 raising edge detect enabled'',
   reg ''GRER2_67'' 0x40E00038 3 0x00000001 (CHR ''d'') ''GPIO 67 raising edge detect enabled'',
   reg ''GRER2_68'' 0x40E00038 4 0x00000001 (CHR ''d'') ''GPIO 68 raising edge detect enabled'',
   reg ''GRER2_69'' 0x40E00038 5 0x00000001 (CHR ''d'') ''GPIO 69 raising edge detect enabled'',
   reg ''GRER2_70'' 0x40E00038 6 0x00000001 (CHR ''d'') ''GPIO 70 raising edge detect enabled'',
   reg ''GRER2_71'' 0x40E00038 7 0x00000001 (CHR ''d'') ''GPIO 71 raising edge detect enabled'',
   reg ''GRER2_72'' 0x40E00038 8 0x00000001 (CHR ''d'') ''GPIO 72 raising edge detect enabled'',
   reg ''GRER2_73'' 0x40E00038 9 0x00000001 (CHR ''d'') ''GPIO 73 raising edge detect enabled'',
   reg ''GRER2_74'' 0x40E00038 10 0x00000001 (CHR ''d'') ''GPIO 74 raising edge detect enabled'',
   reg ''GRER2_75'' 0x40E00038 11 0x00000001 (CHR ''d'') ''GPIO 75 raising edge detect enabled'',
   reg ''GRER2_76'' 0x40E00038 12 0x00000001 (CHR ''d'') ''GPIO 76 raising edge detect enabled'',
   reg ''GRER2_77'' 0x40E00038 13 0x00000001 (CHR ''d'') ''GPIO 77 raising edge detect enabled'',
   reg ''GRER2_78'' 0x40E00038 14 0x00000001 (CHR ''d'') ''GPIO 78 raising edge detect enabled'',
   reg ''GRER2_79'' 0x40E00038 15 0x00000001 (CHR ''d'') ''GPIO 79 raising edge detect enabled'',
   reg ''GRER2_80'' 0x40E00038 16 0x00000001 (CHR ''d'') ''GPIO 80 raising edge detect enabled'',
   reg ''GRER2_81'' 0x40E00038 17 0x00000001 (CHR ''d'') ''GPIO 81 raising edge detect enabled'',
   reg ''GRER2_82'' 0x40E00038 18 0x00000001 (CHR ''d'') ''GPIO 82 raising edge detect enabled'',
   reg ''GRER2_83'' 0x40E00038 19 0x00000001 (CHR ''d'') ''GPIO 83 raising edge detect enabled'',
   reg ''GRER2_84'' 0x40E00038 20 0x00000001 (CHR ''d'') ''GPIO 84 raising edge detect enabled'']"

subsection \<open>GPIO falling edge\<close>

definition regs_gfer :: "reg_info list" where
  "regs_gfer =
  [reg ''GFER0'' 0x40E0003C 0 0xffffffff (CHR ''x'') ''GPIO Falling Edge Detect Enable Register 0 (4-14)'',
   reg ''GFER0_0'' 0x40E0003C 0 0x00000001 (CHR ''d'') ''GPIO 0 falling edge detect enabled'',
   reg ''GFER0_1'' 0x40E0003C 1 0x00000001 (CHR ''d'') ''GPIO 1 falling edge detect enabled'',
   reg ''GFER0_2'' 0x40E0003C 2 0x00000001 (CHR ''d'') ''GPIO 2 falling edge detect enabled'',
   reg ''GFER0_3'' 0x40E0003C 3 0x00000001 (CHR ''d'') ''GPIO 3 falling edge detect enabled'',
   reg ''GFER0_4'' 0x40E0003C 4 0x00000001 (CHR ''d'') ''GPIO 4 falling edge detect enabled'',
   reg ''GFER0_5'' 0x40E0003C 5 0x00000001 (CHR ''d'') ''GPIO 5 falling edge detect enabled'',
   reg ''GFER0_6'' 0x40E0003C 6 0x00000001 (CHR ''d'') ''GPIO 6 falling edge detect enabled'',
   reg ''GFER0_7'' 0x40E0003C 7 0x00000001 (CHR ''d'') ''GPIO 7 falling edge detect enabled'',
   reg ''GFER0_8'' 0x40E0003C 8 0x00000001 (CHR ''d'') ''GPIO 8 falling edge detect enabled'',
   reg ''GFER0_9'' 0x40E0003C 9 0x00000001 (CHR ''d'') ''GPIO 9 falling edge detect enabled'',
   reg ''GFER0_10'' 0x40E0003C 10 0x00000001 (CHR ''d'') ''GPIO 10 falling edge detect enabled'',
   reg ''GFER0_11'' 0x40E0003C 11 0x00000001 (CHR ''d'') ''GPIO 11 falling edge detect enabled'',
   reg ''GFER0_12'' 0x40E0003C 12 0x00000001 (CHR ''d'') ''GPIO 12 falling edge detect enabled'',
   reg ''GFER0_13'' 0x40E0003C 13 0x00000001 (CHR ''d'') ''GPIO 13 falling edge detect enabled'',
   reg ''GFER0_14'' 0x40E0003C 14 0x00000001 (CHR ''d'') ''GPIO 14 falling edge detect enabled'',
   reg ''GFER0_15'' 0x40E0003C 15 0x00000001 (CHR ''d'') ''GPIO 15 falling edge detect enabled'',
   reg ''GFER0_16'' 0x40E0003C 16 0x00000001 (CHR ''d'') ''GPIO 16 falling edge detect enabled'',
   reg ''GFER0_17'' 0x40E0003C 17 0x00000001 (CHR ''d'') ''GPIO 17 falling edge detect enabled'',
   reg ''GFER0_18'' 0x40E0003C 18 0x00000001 (CHR ''d'') ''GPIO 18 falling edge detect enabled'',
   reg ''GFER0_19'' 0x40E0003C 19 0x00000001 (CHR ''d'') ''GPIO 19 falling edge detect enabled'',
   reg ''GFER0_20'' 0x40E0003C 20 0x00000001 (CHR ''d'') ''GPIO 20 falling edge detect enabled'',
   reg ''GFER0_21'' 0x40E0003C 21 0x00000001 (CHR ''d'') ''GPIO 21 falling edge detect enabled'',
   reg ''GFER0_22'' 0x40E0003C 22 0x00000001 (CHR ''d'') ''GPIO 22 falling edge detect enabled'',
   reg ''GFER0_23'' 0x40E0003C 23 0x00000001 (CHR ''d'') ''GPIO 23 falling edge detect enabled'',
   reg ''GFER0_24'' 0x40E0003C 24 0x00000001 (CHR ''d'') ''GPIO 24 falling edge detect enabled'',
   reg ''GFER0_25'' 0x40E0003C 25 0x00000001 (CHR ''d'') ''GPIO 25 falling edge detect enabled'',
   reg ''GFER0_26'' 0x40E0003C 26 0x00000001 (CHR ''d'') ''GPIO 26 falling edge detect enabled'',
   reg ''GFER0_27'' 0x40E0003C 27 0x00000001 (CHR ''d'') ''GPIO 27 falling edge detect enabled'',
   reg ''GFER0_28'' 0x40E0003C 28 0x00000001 (CHR ''d'') ''GPIO 28 falling edge detect enabled'',
   reg ''GFER0_29'' 0x40E0003C 29 0x00000001 (CHR ''d'') ''GPIO 29 falling edge detect enabled'',
   reg ''GFER0_30'' 0x40E0003C 30 0x00000001 (CHR ''d'') ''GPIO 30 falling edge detect enabled'',
   reg ''GFER0_31'' 0x40E0003C 31 0x00000001 (CHR ''d'') ''GPIO 31 falling edge detect enabled'',
   reg ''GFER1'' 0x40E00040 0 0xffffffff (CHR ''x'') ''GPIO Falling Edge Detect Enable Register 1 (4-14)'',
   reg ''GFER1_32'' 0x40E00040 0 0x00000001 (CHR ''d'') ''GPIO 32 falling edge detect enabled'',
   reg ''GFER1_33'' 0x40E00040 1 0x00000001 (CHR ''d'') ''GPIO 33 falling edge detect enabled'',
   reg ''GFER1_34'' 0x40E00040 2 0x00000001 (CHR ''d'') ''GPIO 34 falling edge detect enabled'',
   reg ''GFER1_35'' 0x40E00040 3 0x00000001 (CHR ''d'') ''GPIO 35 falling edge detect enabled'',
   reg ''GFER1_36'' 0x40E00040 4 0x00000001 (CHR ''d'') ''GPIO 36 falling edge detect enabled'',
   reg ''GFER1_37'' 0x40E00040 5 0x00000001 (CHR ''d'') ''GPIO 37 falling edge detect enabled'',
   reg ''GFER1_38'' 0x40E00040 6 0x00000001 (CHR ''d'') ''GPIO 38 falling edge detect enabled'',
   reg ''GFER1_39'' 0x40E00040 7 0x00000001 (CHR ''d'') ''GPIO 39 falling edge detect enabled'',
   reg ''GFER1_40'' 0x40E00040 8 0x00000001 (CHR ''d'') ''GPIO 40 falling edge detect enabled'',
   reg ''GFER1_41'' 0x40E00040 9 0x00000001 (CHR ''d'') ''GPIO 41 falling edge detect enabled'',
   reg ''GFER1_42'' 0x40E00040 10 0x00000001 (CHR ''d'') ''GPIO 42 falling edge detect enabled'',
   reg ''GFER1_43'' 0x40E00040 11 0x00000001 (CHR ''d'') ''GPIO 43 falling edge detect enabled'',
   reg ''GFER1_44'' 0x40E00040 12 0x00000001 (CHR ''d'') ''GPIO 44 falling edge detect enabled'',
   reg ''GFER1_45'' 0x40E00040 13 0x00000001 (CHR ''d'') ''GPIO 45 falling edge detect enabled'',
   reg ''GFER1_46'' 0x40E00040 14 0x00000001 (CHR ''d'') ''GPIO 46 falling edge detect enabled'',
   reg ''GFER1_47'' 0x40E00040 15 0x00000001 (CHR ''d'') ''GPIO 47 falling edge detect enabled'',
   reg ''GFER1_48'' 0x40E00040 16 0x00000001 (CHR ''d'') ''GPIO 48 falling edge detect enabled'',
   reg ''GFER1_49'' 0x40E00040 17 0x00000001 (CHR ''d'') ''GPIO 49 falling edge detect enabled'',
   reg ''GFER1_50'' 0x40E00040 18 0x00000001 (CHR ''d'') ''GPIO 50 falling edge detect enabled'',
   reg ''GFER1_51'' 0x40E00040 19 0x00000001 (CHR ''d'') ''GPIO 51 falling edge detect enabled'',
   reg ''GFER1_52'' 0x40E00040 20 0x00000001 (CHR ''d'') ''GPIO 52 falling edge detect enabled'',
   reg ''GFER1_53'' 0x40E00040 21 0x00000001 (CHR ''d'') ''GPIO 53 falling edge detect enabled'',
   reg ''GFER1_54'' 0x40E00040 22 0x00000001 (CHR ''d'') ''GPIO 54 falling edge detect enabled'',
   reg ''GFER1_55'' 0x40E00040 23 0x00000001 (CHR ''d'') ''GPIO 55 falling edge detect enabled'',
   reg ''GFER1_56'' 0x40E00040 24 0x00000001 (CHR ''d'') ''GPIO 56 falling edge detect enabled'',
   reg ''GFER1_57'' 0x40E00040 25 0x00000001 (CHR ''d'') ''GPIO 57 falling edge detect enabled'',
   reg ''GFER1_58'' 0x40E00040 26 0x00000001 (CHR ''d'') ''GPIO 58 falling edge detect enabled'',
   reg ''GFER1_59'' 0x40E00040 27 0x00000001 (CHR ''d'') ''GPIO 59 falling edge detect enabled'',
   reg ''GFER1_60'' 0x40E00040 28 0x00000001 (CHR ''d'') ''GPIO 60 falling edge detect enabled'',
   reg ''GFER1_61'' 0x40E00040 29 0x00000001 (CHR ''d'') ''GPIO 61 falling edge detect enabled'',
   reg ''GFER1_62'' 0x40E00040 30 0x00000001 (CHR ''d'') ''GPIO 62 falling edge detect enabled'',
   reg ''GFER1_63'' 0x40E00040 31 0x00000001 (CHR ''d'') ''GPIO 63 falling edge detect enabled'',
   reg ''GFER2'' 0x40E00044 0 0xffffffff (CHR ''x'') ''GPIO Falling Edge Detect Enable Register 2 (4-14)'',
   reg ''GFER2_64'' 0x40E00044 0 0x00000001 (CHR ''d'') ''GPIO 64 falling edge detect enabled'',
   reg ''GFER2_65'' 0x40E00044 1 0x00000001 (CHR ''d'') ''GPIO 65 falling edge detect enabled'',
   reg ''GFER2_66'' 0x40E00044 2 0x00000001 (CHR ''d'') ''GPIO 66 falling edge detect enabled'',
   reg ''GFER2_67'' 0x40E00044 3 0x00000001 (CHR ''d'') ''GPIO 67 falling edge detect enabled'',
   reg ''GFER2_68'' 0x40E00044 4 0x00000001 (CHR ''d'') ''GPIO 68 falling edge detect enabled'',
   reg ''GFER2_69'' 0x40E00044 5 0x00000001 (CHR ''d'') ''GPIO 69 falling edge detect enabled'',
   reg ''GFER2_70'' 0x40E00044 6 0x00000001 (CHR ''d'') ''GPIO 70 falling edge detect enabled'',
   reg ''GFER2_71'' 0x40E00044 7 0x00000001 (CHR ''d'') ''GPIO 71 falling edge detect enabled'',
   reg ''GFER2_72'' 0x40E00044 8 0x00000001 (CHR ''d'') ''GPIO 72 falling edge detect enabled'',
   reg ''GFER2_73'' 0x40E00044 9 0x00000001 (CHR ''d'') ''GPIO 73 falling edge detect enabled'',
   reg ''GFER2_74'' 0x40E00044 10 0x00000001 (CHR ''d'') ''GPIO 74 falling edge detect enabled'',
   reg ''GFER2_75'' 0x40E00044 11 0x00000001 (CHR ''d'') ''GPIO 75 falling edge detect enabled'',
   reg ''GFER2_76'' 0x40E00044 12 0x00000001 (CHR ''d'') ''GPIO 76 falling edge detect enabled'',
   reg ''GFER2_77'' 0x40E00044 13 0x00000001 (CHR ''d'') ''GPIO 77 falling edge detect enabled'',
   reg ''GFER2_78'' 0x40E00044 14 0x00000001 (CHR ''d'') ''GPIO 78 falling edge detect enabled'',
   reg ''GFER2_79'' 0x40E00044 15 0x00000001 (CHR ''d'') ''GPIO 79 falling edge detect enabled'',
   reg ''GFER2_80'' 0x40E00044 16 0x00000001 (CHR ''d'') ''GPIO 80 falling edge detect enabled'',
   reg ''GFER2_81'' 0x40E00044 17 0x00000001 (CHR ''d'') ''GPIO 81 falling edge detect enabled'',
   reg ''GFER2_82'' 0x40E00044 18 0x00000001 (CHR ''d'') ''GPIO 82 falling edge detect enabled'',
   reg ''GFER2_83'' 0x40E00044 19 0x00000001 (CHR ''d'') ''GPIO 83 falling edge detect enabled'',
   reg ''GFER2_84'' 0x40E00044 20 0x00000001 (CHR ''d'') ''GPIO 84 falling edge detect enabled'']"

subsection \<open>GPIO edge status\<close>

definition regs_gedr :: "reg_info list" where
  "regs_gedr =
  [reg ''GEDR0'' 0x40E00048 0 0xffffffff (CHR ''x'') ''GPIO Edge Detect Register 0 (4-15)'',
   reg ''GEDR0_0'' 0x40E00048 0 0x00000001 (CHR ''d'') ''GPIO 0 edge detected'',
   reg ''GEDR0_1'' 0x40E00048 1 0x00000001 (CHR ''d'') ''GPIO 1 edge detected'',
   reg ''GEDR0_2'' 0x40E00048 2 0x00000001 (CHR ''d'') ''GPIO 2 edge detected'',
   reg ''GEDR0_3'' 0x40E00048 3 0x00000001 (CHR ''d'') ''GPIO 3 edge detected'',
   reg ''GEDR0_4'' 0x40E00048 4 0x00000001 (CHR ''d'') ''GPIO 4 edge detected'',
   reg ''GEDR0_5'' 0x40E00048 5 0x00000001 (CHR ''d'') ''GPIO 5 edge detected'',
   reg ''GEDR0_6'' 0x40E00048 6 0x00000001 (CHR ''d'') ''GPIO 6 edge detected'',
   reg ''GEDR0_7'' 0x40E00048 7 0x00000001 (CHR ''d'') ''GPIO 7 edge detected'',
   reg ''GEDR0_8'' 0x40E00048 8 0x00000001 (CHR ''d'') ''GPIO 8 edge detected'',
   reg ''GEDR0_9'' 0x40E00048 9 0x00000001 (CHR ''d'') ''GPIO 9 edge detected'',
   reg ''GEDR0_10'' 0x40E00048 10 0x00000001 (CHR ''d'') ''GPIO 10 edge detected'',
   reg ''GEDR0_11'' 0x40E00048 11 0x00000001 (CHR ''d'') ''GPIO 11 edge detected'',
   reg ''GEDR0_12'' 0x40E00048 12 0x00000001 (CHR ''d'') ''GPIO 12 edge detected'',
   reg ''GEDR0_13'' 0x40E00048 13 0x00000001 (CHR ''d'') ''GPIO 13 edge detected'',
   reg ''GEDR0_14'' 0x40E00048 14 0x00000001 (CHR ''d'') ''GPIO 14 edge detected'',
   reg ''GEDR0_15'' 0x40E00048 15 0x00000001 (CHR ''d'') ''GPIO 15 edge detected'',
   reg ''GEDR0_16'' 0x40E00048 16 0x00000001 (CHR ''d'') ''GPIO 16 edge detected'',
   reg ''GEDR0_17'' 0x40E00048 17 0x00000001 (CHR ''d'') ''GPIO 17 edge detected'',
   reg ''GEDR0_18'' 0x40E00048 18 0x00000001 (CHR ''d'') ''GPIO 18 edge detected'',
   reg ''GEDR0_19'' 0x40E00048 19 0x00000001 (CHR ''d'') ''GPIO 19 edge detected'',
   reg ''GEDR0_20'' 0x40E00048 20 0x00000001 (CHR ''d'') ''GPIO 20 edge detected'',
   reg ''GEDR0_21'' 0x40E00048 21 0x00000001 (CHR ''d'') ''GPIO 21 edge detected'',
   reg ''GEDR0_22'' 0x40E00048 22 0x00000001 (CHR ''d'') ''GPIO 22 edge detected'',
   reg ''GEDR0_23'' 0x40E00048 23 0x00000001 (CHR ''d'') ''GPIO 23 edge detected'',
   reg ''GEDR0_24'' 0x40E00048 24 0x00000001 (CHR ''d'') ''GPIO 24 edge detected'',
   reg ''GEDR0_25'' 0x40E00048 25 0x00000001 (CHR ''d'') ''GPIO 25 edge detected'',
   reg ''GEDR0_26'' 0x40E00048 26 0x00000001 (CHR ''d'') ''GPIO 26 edge detected'',
   reg ''GEDR0_27'' 0x40E00048 27 0x00000001 (CHR ''d'') ''GPIO 27 edge detected'',
   reg ''GEDR0_28'' 0x40E00048 28 0x00000001 (CHR ''d'') ''GPIO 28 edge detected'',
   reg ''GEDR0_29'' 0x40E00048 29 0x00000001 (CHR ''d'') ''GPIO 29 edge detected'',
   reg ''GEDR0_30'' 0x40E00048 30 0x00000001 (CHR ''d'') ''GPIO 30 edge detected'',
   reg ''GEDR0_31'' 0x40E00048 31 0x00000001 (CHR ''d'') ''GPIO 31 edge detected'',
   reg ''GEDR1'' 0x40E0004C 0 0xffffffff (CHR ''x'') ''GPIO Edge Detect Register 1 (4-16)'',
   reg ''GEDR1_32'' 0x40E0004C 0 0x00000001 (CHR ''d'') ''GPIO 32 edge detected'',
   reg ''GEDR1_33'' 0x40E0004C 1 0x00000001 (CHR ''d'') ''GPIO 33 edge detected'',
   reg ''GEDR1_34'' 0x40E0004C 2 0x00000001 (CHR ''d'') ''GPIO 34 edge detected'',
   reg ''GEDR1_35'' 0x40E0004C 3 0x00000001 (CHR ''d'') ''GPIO 35 edge detected'',
   reg ''GEDR1_36'' 0x40E0004C 4 0x00000001 (CHR ''d'') ''GPIO 36 edge detected'',
   reg ''GEDR1_37'' 0x40E0004C 5 0x00000001 (CHR ''d'') ''GPIO 37 edge detected'',
   reg ''GEDR1_38'' 0x40E0004C 6 0x00000001 (CHR ''d'') ''GPIO 38 edge detected'',
   reg ''GEDR1_39'' 0x40E0004C 7 0x00000001 (CHR ''d'') ''GPIO 39 edge detected'',
   reg ''GEDR1_40'' 0x40E0004C 8 0x00000001 (CHR ''d'') ''GPIO 40 edge detected'',
   reg ''GEDR1_41'' 0x40E0004C 9 0x00000001 (CHR ''d'') ''GPIO 41 edge detected'',
   reg ''GEDR1_42'' 0x40E0004C 10 0x00000001 (CHR ''d'') ''GPIO 42 edge detected'',
   reg ''GEDR1_43'' 0x40E0004C 11 0x00000001 (CHR ''d'') ''GPIO 43 edge detected'',
   reg ''GEDR1_44'' 0x40E0004C 12 0x00000001 (CHR ''d'') ''GPIO 44 edge detected'',
   reg ''GEDR1_45'' 0x40E0004C 13 0x00000001 (CHR ''d'') ''GPIO 45 edge detected'',
   reg ''GEDR1_46'' 0x40E0004C 14 0x00000001 (CHR ''d'') ''GPIO 46 edge detected'',
   reg ''GEDR1_47'' 0x40E0004C 15 0x00000001 (CHR ''d'') ''GPIO 47 edge detected'',
   reg ''GEDR1_48'' 0x40E0004C 16 0x00000001 (CHR ''d'') ''GPIO 48 edge detected'',
   reg ''GEDR1_49'' 0x40E0004C 17 0x00000001 (CHR ''d'') ''GPIO 49 edge detected'',
   reg ''GEDR1_50'' 0x40E0004C 18 0x00000001 (CHR ''d'') ''GPIO 50 edge detected'',
   reg ''GEDR1_51'' 0x40E0004C 19 0x00000001 (CHR ''d'') ''GPIO 51 edge detected'',
   reg ''GEDR1_52'' 0x40E0004C 20 0x00000001 (CHR ''d'') ''GPIO 52 edge detected'',
   reg ''GEDR1_53'' 0x40E0004C 21 0x00000001 (CHR ''d'') ''GPIO 53 edge detected'',
   reg ''GEDR1_54'' 0x40E0004C 22 0x00000001 (CHR ''d'') ''GPIO 54 edge detected'',
   reg ''GEDR1_55'' 0x40E0004C 23 0x00000001 (CHR ''d'') ''GPIO 55 edge detected'',
   reg ''GEDR1_56'' 0x40E0004C 24 0x00000001 (CHR ''d'') ''GPIO 56 edge detected'',
   reg ''GEDR1_57'' 0x40E0004C 25 0x00000001 (CHR ''d'') ''GPIO 57 edge detected'',
   reg ''GEDR1_58'' 0x40E0004C 26 0x00000001 (CHR ''d'') ''GPIO 58 edge detected'',
   reg ''GEDR1_59'' 0x40E0004C 27 0x00000001 (CHR ''d'') ''GPIO 59 edge detected'',
   reg ''GEDR1_60'' 0x40E0004C 28 0x00000001 (CHR ''d'') ''GPIO 60 edge detected'',
   reg ''GEDR1_61'' 0x40E0004C 29 0x00000001 (CHR ''d'') ''GPIO 61 edge detected'',
   reg ''GEDR1_62'' 0x40E0004C 30 0x00000001 (CHR ''d'') ''GPIO 62 edge detected'',
   reg ''GEDR1_63'' 0x40E0004C 31 0x00000001 (CHR ''d'') ''GPIO 63 edge detected'',
   reg ''GEDR2'' 0x40E00050 0 0xffffffff (CHR ''x'') ''GPIO Edge Detect Register 2 (4-16)'',
   reg ''GEDR2_64'' 0x40E00050 0 0x00000001 (CHR ''d'') ''GPIO 64 edge detected'',
   reg ''GEDR2_65'' 0x40E00050 1 0x00000001 (CHR ''d'') ''GPIO 65 edge detected'',
   reg ''GEDR2_66'' 0x40E00050 2 0x00000001 (CHR ''d'') ''GPIO 66 edge detected'',
   reg ''GEDR2_67'' 0x40E00050 3 0x00000001 (CHR ''d'') ''GPIO 67 edge detected'',
   reg ''GEDR2_68'' 0x40E00050 4 0x00000001 (CHR ''d'') ''GPIO 68 edge detected'',
   reg ''GEDR2_69'' 0x40E00050 5 0x00000001 (CHR ''d'') ''GPIO 69 edge detected'',
   reg ''GEDR2_70'' 0x40E00050 6 0x00000001 (CHR ''d'') ''GPIO 70 edge detected'',
   reg ''GEDR2_71'' 0x40E00050 7 0x00000001 (CHR ''d'') ''GPIO 71 edge detected'',
   reg ''GEDR2_72'' 0x40E00050 8 0x00000001 (CHR ''d'') ''GPIO 72 edge detected'',
   reg ''GEDR2_73'' 0x40E00050 9 0x00000001 (CHR ''d'') ''GPIO 73 edge detected'',
   reg ''GEDR2_74'' 0x40E00050 10 0x00000001 (CHR ''d'') ''GPIO 74 edge detected'',
   reg ''GEDR2_75'' 0x40E00050 11 0x00000001 (CHR ''d'') ''GPIO 75 edge detected'',
   reg ''GEDR2_76'' 0x40E00050 12 0x00000001 (CHR ''d'') ''GPIO 76 edge detected'',
   reg ''GEDR2_77'' 0x40E00050 13 0x00000001 (CHR ''d'') ''GPIO 77 edge detected'',
   reg ''GEDR2_78'' 0x40E00050 14 0x00000001 (CHR ''d'') ''GPIO 78 edge detected'',
   reg ''GEDR2_79'' 0x40E00050 15 0x00000001 (CHR ''d'') ''GPIO 79 edge detected'',
   reg ''GEDR2_80'' 0x40E00050 16 0x00000001 (CHR ''d'') ''GPIO 80 edge detected'',
   reg ''GEDR2_81'' 0x40E00050 17 0x00000001 (CHR ''d'') ''GPIO 81 edge detected'',
   reg ''GEDR2_82'' 0x40E00050 18 0x00000001 (CHR ''d'') ''GPIO 82 edge detected'',
   reg ''GEDR2_83'' 0x40E00050 19 0x00000001 (CHR ''d'') ''GPIO 83 edge detected'',
   reg ''GEDR2_84'' 0x40E00050 20 0x00000001 (CHR ''d'') ''GPIO 84 edge detected'']"

subsection \<open>GPIO alternate functions\<close>

definition regs_gafr :: "reg_info list" where
  "regs_gafr =
  [reg ''GAFR0L'' 0x40E00054 0 0xffffffff (CHR ''x'') ''GPIO Alternate Function Register 0 Lower (4-17)'',
   reg ''GAFR0L_0'' 0x40E00054 0 0x00000003 (CHR ''x'') ''GPIO 0 alternate function select'',
   reg ''GAFR0L_1'' 0x40E00054 2 0x00000003 (CHR ''x'') ''GPIO 1 alternate function select'',
   reg ''GAFR0L_2'' 0x40E00054 4 0x00000003 (CHR ''x'') ''GPIO 2 alternate function select'',
   reg ''GAFR0L_3'' 0x40E00054 6 0x00000003 (CHR ''x'') ''GPIO 3 alternate function select'',
   reg ''GAFR0L_4'' 0x40E00054 8 0x00000003 (CHR ''x'') ''GPIO 4 alternate function select'',
   reg ''GAFR0L_5'' 0x40E00054 10 0x00000003 (CHR ''x'') ''GPIO 5 alternate function select'',
   reg ''GAFR0L_6'' 0x40E00054 12 0x00000003 (CHR ''x'') ''GPIO 6 alternate function select'',
   reg ''GAFR0L_7'' 0x40E00054 14 0x00000003 (CHR ''x'') ''GPIO 7 alternate function select'',
   reg ''GAFR0L_8'' 0x40E00054 16 0x00000003 (CHR ''x'') ''GPIO 8 alternate function select'',
   reg ''GAFR0L_9'' 0x40E00054 18 0x00000003 (CHR ''x'') ''GPIO 9 alternate function select'',
   reg ''GAFR0L_10'' 0x40E00054 20 0x00000003 (CHR ''x'') ''GPIO 10 alternate function select'',
   reg ''GAFR0L_11'' 0x40E00054 22 0x00000003 (CHR ''x'') ''GPIO 11 alternate function select'',
   reg ''GAFR0L_12'' 0x40E00054 24 0x00000003 (CHR ''x'') ''GPIO 12 alternate function select'',
   reg ''GAFR0L_13'' 0x40E00054 26 0x00000003 (CHR ''x'') ''GPIO 13 alternate function select'',
   reg ''GAFR0L_14'' 0x40E00054 28 0x00000003 (CHR ''x'') ''GPIO 14 alternate function select'',
   reg ''GAFR0L_15'' 0x40E00054 30 0x00000003 (CHR ''x'') ''GPIO 15 alternate function select'',
   reg ''GAFR0U'' 0x40E00058 0 0xffffffff (CHR ''x'') ''GPIO Alternate Function Register 0 Upper (4-18)'',
   reg ''GAFR0U_16'' 0x40E00058 0 0x00000003 (CHR ''x'') ''GPIO 16 alternate function select'',
   reg ''GAFR0U_17'' 0x40E00058 2 0x00000003 (CHR ''x'') ''GPIO 17 alternate function select'',
   reg ''GAFR0U_18'' 0x40E00058 4 0x00000003 (CHR ''x'') ''GPIO 18 alternate function select'',
   reg ''GAFR0U_19'' 0x40E00058 6 0x00000003 (CHR ''x'') ''GPIO 19 alternate function select'',
   reg ''GAFR0U_20'' 0x40E00058 8 0x00000003 (CHR ''x'') ''GPIO 20 alternate function select'',
   reg ''GAFR0U_21'' 0x40E00058 10 0x00000003 (CHR ''x'') ''GPIO 21 alternate function select'',
   reg ''GAFR0U_22'' 0x40E00058 12 0x00000003 (CHR ''x'') ''GPIO 22 alternate function select'',
   reg ''GAFR0U_23'' 0x40E00058 14 0x00000003 (CHR ''x'') ''GPIO 23 alternate function select'',
   reg ''GAFR0U_24'' 0x40E00058 16 0x00000003 (CHR ''x'') ''GPIO 24 alternate function select'',
   reg ''GAFR0U_25'' 0x40E00058 18 0x00000003 (CHR ''x'') ''GPIO 25 alternate function select'',
   reg ''GAFR0U_26'' 0x40E00058 20 0x00000003 (CHR ''x'') ''GPIO 26 alternate function select'',
   reg ''GAFR0U_27'' 0x40E00058 22 0x00000003 (CHR ''x'') ''GPIO 27 alternate function select'',
   reg ''GAFR0U_28'' 0x40E00058 24 0x00000003 (CHR ''x'') ''GPIO 28 alternate function select'',
   reg ''GAFR0U_29'' 0x40E00058 26 0x00000003 (CHR ''x'') ''GPIO 29 alternate function select'',
   reg ''GAFR0U_30'' 0x40E00058 28 0x00000003 (CHR ''x'') ''GPIO 30 alternate function select'',
   reg ''GAFR0U_31'' 0x40E00058 30 0x00000003 (CHR ''x'') ''GPIO 31 alternate function select'',
   reg ''GAFR1L'' 0x40E0005C 0 0xffffffff (CHR ''x'') ''GPIO Alternate Function Register 1 Lower (4-18)'',
   reg ''GAFR1L_32'' 0x40E0005C 0 0x00000003 (CHR ''x'') ''GPIO 32 alternate function select'',
   reg ''GAFR1L_33'' 0x40E0005C 2 0x00000003 (CHR ''x'') ''GPIO 33 alternate function select'',
   reg ''GAFR1L_34'' 0x40E0005C 4 0x00000003 (CHR ''x'') ''GPIO 34 alternate function select'',
   reg ''GAFR1L_35'' 0x40E0005C 6 0x00000003 (CHR ''x'') ''GPIO 35 alternate function select'',
   reg ''GAFR1L_36'' 0x40E0005C 8 0x00000003 (CHR ''x'') ''GPIO 36 alternate function select'',
   reg ''GAFR1L_37'' 0x40E0005C 10 0x00000003 (CHR ''x'') ''GPIO 37 alternate function select'',
   reg ''GAFR1L_38'' 0x40E0005C 12 0x00000003 (CHR ''x'') ''GPIO 38 alternate function select'',
   reg ''GAFR1L_39'' 0x40E0005C 14 0x00000003 (CHR ''x'') ''GPIO 39 alternate function select'',
   reg ''GAFR1L_40'' 0x40E0005C 16 0x00000003 (CHR ''x'') ''GPIO 40 alternate function select'',
   reg ''GAFR1L_41'' 0x40E0005C 18 0x00000003 (CHR ''x'') ''GPIO 41 alternate function select'',
   reg ''GAFR1L_42'' 0x40E0005C 20 0x00000003 (CHR ''x'') ''GPIO 42 alternate function select'',
   reg ''GAFR1L_43'' 0x40E0005C 22 0x00000003 (CHR ''x'') ''GPIO 43 alternate function select'',
   reg ''GAFR1L_44'' 0x40E0005C 24 0x00000003 (CHR ''x'') ''GPIO 44 alternate function select'',
   reg ''GAFR1L_45'' 0x40E0005C 26 0x00000003 (CHR ''x'') ''GPIO 45 alternate function select'',
   reg ''GAFR1L_46'' 0x40E0005C 28 0x00000003 (CHR ''x'') ''GPIO 46 alternate function select'',
   reg ''GAFR1L_47'' 0x40E0005C 30 0x00000003 (CHR ''x'') ''GPIO 47 alternate function select'',
   reg ''GAFR1U'' 0x40E00060 0 0xffffffff (CHR ''x'') ''GPIO Alternate Function Register 1 Upper (4-19)'',
   reg ''GAFR1U_48'' 0x40E00060 0 0x00000003 (CHR ''x'') ''GPIO 48 alternate function select'',
   reg ''GAFR1U_49'' 0x40E00060 2 0x00000003 (CHR ''x'') ''GPIO 49 alternate function select'',
   reg ''GAFR1U_50'' 0x40E00060 4 0x00000003 (CHR ''x'') ''GPIO 50 alternate function select'',
   reg ''GAFR1U_51'' 0x40E00060 6 0x00000003 (CHR ''x'') ''GPIO 51 alternate function select'',
   reg ''GAFR1U_52'' 0x40E00060 8 0x00000003 (CHR ''x'') ''GPIO 52 alternate function select'',
   reg ''GAFR1U_53'' 0x40E00060 10 0x00000003 (CHR ''x'') ''GPIO 53 alternate function select'',
   reg ''GAFR1U_54'' 0x40E00060 12 0x00000003 (CHR ''x'') ''GPIO 54 alternate function select'',
   reg ''GAFR1U_55'' 0x40E00060 14 0x00000003 (CHR ''x'') ''GPIO 55 alternate function select'',
   reg ''GAFR1U_56'' 0x40E00060 16 0x00000003 (CHR ''x'') ''GPIO 56 alternate function select'',
   reg ''GAFR1U_57'' 0x40E00060 18 0x00000003 (CHR ''x'') ''GPIO 57 alternate function select'',
   reg ''GAFR1U_58'' 0x40E00060 20 0x00000003 (CHR ''x'') ''GPIO 58 alternate function select'',
   reg ''GAFR1U_59'' 0x40E00060 22 0x00000003 (CHR ''x'') ''GPIO 59 alternate function select'',
   reg ''GAFR1U_60'' 0x40E00060 24 0x00000003 (CHR ''x'') ''GPIO 60 alternate function select'',
   reg ''GAFR1U_61'' 0x40E00060 26 0x00000003 (CHR ''x'') ''GPIO 61 alternate function select'',
   reg ''GAFR1U_62'' 0x40E00060 28 0x00000003 (CHR ''x'') ''GPIO 62 alternate function select'',
   reg ''GAFR1U_63'' 0x40E00060 30 0x00000003 (CHR ''x'') ''GPIO 63 alternate function select'',
   reg ''GAFR2L'' 0x40E00064 0 0xffffffff (CHR ''x'') ''GPIO Alternate Function Register 2 Lower (4-19)'',
   reg ''GAFR2L_64'' 0x40E00064 0 0x00000003 (CHR ''x'') ''GPIO 64 alternate function select'',
   reg ''GAFR2L_65'' 0x40E00064 2 0x00000003 (CHR ''x'') ''GPIO 65 alternate function select'',
   reg ''GAFR2L_66'' 0x40E00064 4 0x00000003 (CHR ''x'') ''GPIO 66 alternate function select'',
   reg ''GAFR2L_67'' 0x40E00064 6 0x00000003 (CHR ''x'') ''GPIO 67 alternate function select'',
   reg ''GAFR2L_68'' 0x40E00064 8 0x00000003 (CHR ''x'') ''GPIO 68 alternate function select'',
   reg ''GAFR2L_69'' 0x40E00064 10 0x00000003 (CHR ''x'') ''GPIO 69 alternate function select'',
   reg ''GAFR2L_70'' 0x40E00064 12 0x00000003 (CHR ''x'') ''GPIO 70 alternate function select'',
   reg ''GAFR2L_71'' 0x40E00064 14 0x00000003 (CHR ''x'') ''GPIO 71 alternate function select'',
   reg ''GAFR2L_72'' 0x40E00064 16 0x00000003 (CHR ''x'') ''GPIO 72 alternate function select'',
   reg ''GAFR2L_73'' 0x40E00064 18 0x00000003 (CHR ''x'') ''GPIO 73 alternate function select'',
   reg ''GAFR2L_74'' 0x40E00064 20 0x00000003 (CHR ''x'') ''GPIO 74 alternate function select'',
   reg ''GAFR2L_75'' 0x40E00064 22 0x00000003 (CHR ''x'') ''GPIO 75 alternate function select'',
   reg ''GAFR2L_76'' 0x40E00064 24 0x00000003 (CHR ''x'') ''GPIO 76 alternate function select'',
   reg ''GAFR2L_77'' 0x40E00064 26 0x00000003 (CHR ''x'') ''GPIO 77 alternate function select'',
   reg ''GAFR2L_78'' 0x40E00064 28 0x00000003 (CHR ''x'') ''GPIO 78 alternate function select'',
   reg ''GAFR2L_79'' 0x40E00064 30 0x00000003 (CHR ''x'') ''GPIO 79 alternate function select'',
   reg ''GAFR2U'' 0x40E00068 0 0xffffffff (CHR ''x'') ''GPIO Alternate Function Register 2 Upper (4-19)'',
   reg ''GAFR2U_80'' 0x40E00068 0 0x00000003 (CHR ''x'') ''GPIO 80 alternate function select'',
   reg ''GAFR2U_81'' 0x40E00068 2 0x00000003 (CHR ''x'') ''GPIO 81 alternate function select'',
   reg ''GAFR2U_82'' 0x40E00068 4 0x00000003 (CHR ''x'') ''GPIO 82 alternate function select'',
   reg ''GAFR2U_83'' 0x40E00068 6 0x00000003 (CHR ''x'') ''GPIO 83 alternate function select'',
   reg ''GAFR2U_84'' 0x40E00068 8 0x00000003 (CHR ''x'') ''GPIO 84 alternate function select'']"

subsection \<open>Interrupt controller\<close>

definition regs_icr :: "reg_info list" where
  "regs_icr =
  [reg ''ICMR'' 0x40D00004 0 0xffffffff (CHR ''x'') ''Interrupt Controller Mask Register (4-22)'',
   reg ''ICMR_IM7'' 0x40D00004 7 0x00000001 (CHR ''x'') ''Pending IRQ 7 (HWUART) unmasked?'',
   reg ''ICMR_IM8'' 0x40D00004 8 0x00000001 (CHR ''x'') ''Pending IRQ 8 (GPIO0) unmasked'',
   reg ''ICMR_IM9'' 0x40D00004 9 0x00000001 (CHR ''x'') ''Pending IRQ 9 (GPIO1) unmasked'',
   reg ''ICMR_IM10'' 0x40D00004 10 0x00000001 (CHR ''x'') ''Pending IRQ 10 (GPIO2_80) unmasked'',
   reg ''ICMR_IM11'' 0x40D00004 11 0x00000001 (CHR ''x'') ''Pending IRQ 11 (USB) unmasked'',
   reg ''ICMR_IM12'' 0x40D00004 12 0x00000001 (CHR ''x'') ''Pending IRQ 12 (PMU) unmasked'',
   reg ''ICMR_IM13'' 0x40D00004 13 0x00000001 (CHR ''x'') ''Pending IRQ 13 (I2S) unmasked'',
   reg ''ICMR_IM14'' 0x40D00004 14 0x00000001 (CHR ''x'') ''Pending IRQ 14 (AC97) unmasked'',
   reg ''ICMR_IM17'' 0x40D00004 17 0x00000001 (CHR ''x'') ''Pending IRQ 17 (LCD) unmasked'',
   reg ''ICMR_IM18'' 0x40D00004 18 0x00000001 (CHR ''x'') ''Pending IRQ 18 (I2C) unmasked'',
   reg ''ICMR_IM19'' 0x40D00004 19 0x00000001 (CHR ''x'') ''Pending IRQ 19 (ICP) unmasked'',
   reg ''ICMR_IM20'' 0x40D00004 20 0x00000001 (CHR ''x'') ''Pending IRQ 20 (STUART) unmasked'',
   reg ''ICMR_IM21'' 0x40D00004 21 0x00000001 (CHR ''x'') ''Pending IRQ 21 (BTUART) unmasked'',
   reg ''ICMR_IM22'' 0x40D00004 22 0x00000001 (CHR ''x'') ''Pending IRQ 22 (FFUART) unmasked'',
   reg ''ICMR_IM23'' 0x40D00004 23 0x00000001 (CHR ''x'') ''Pending IRQ 23 (MMC) unmasked'',
   reg ''ICMR_IM24'' 0x40D00004 24 0x00000001 (CHR ''x'') ''Pending IRQ 24 (SSP) unmasked'',
   reg ''ICMR_IM25'' 0x40D00004 25 0x00000001 (CHR ''x'') ''Pending IRQ 25 (DMA) unmasked'',
   reg ''ICMR_IM26'' 0x40D00004 26 0x00000001 (CHR ''x'') ''Pending IRQ 26 (OSMR0) unmasked'',
   reg ''ICMR_IM27'' 0x40D00004 27 0x00000001 (CHR ''x'') ''Pending IRQ 27 (OSMR1) unmasked'',
   reg ''ICMR_IM28'' 0x40D00004 28 0x00000001 (CHR ''x'') ''Pending IRQ 28 (OSMR2) unmasked'',
   reg ''ICMR_IM29'' 0x40D00004 29 0x00000001 (CHR ''x'') ''Pending IRQ 29 (OSMR3) unmasked'',
   reg ''ICMR_IM30'' 0x40D00004 30 0x00000001 (CHR ''x'') ''Pending IRQ 30 (RTCCLK) unmasked'',
   reg ''ICMR_IM31'' 0x40D00004 31 0x00000001 (CHR ''x'') ''Pending IRQ 31 (RTCALM) unmasked'',
   reg ''ICLR'' 0x40D00008 0 0xffffffff (CHR ''x'') ''Interrupt Controller Level Register (4-23)'',
   reg ''ICLR_IL7'' 0x40D00008 7 0x00000001 (CHR ''x'') ''IRQ 8 (HWUART) generates FIQ?'',
   reg ''ICLR_IL8'' 0x40D00008 8 0x00000001 (CHR ''x'') ''IRQ 8 (GPIO0) generates FIQ'',
   reg ''ICLR_IL9'' 0x40D00008 9 0x00000001 (CHR ''x'') ''IRQ 9 (GPIO1) generates FIQ'',
   reg ''ICLR_IL10'' 0x40D00008 10 0x00000001 (CHR ''x'') ''IRQ 10 (GPIO2_80) generates FIQ'',
   reg ''ICLR_IL11'' 0x40D00008 11 0x00000001 (CHR ''x'') ''IRQ 11 (USB) generates FIQ'',
   reg ''ICLR_IL12'' 0x40D00008 12 0x00000001 (CHR ''x'') ''IRQ 12 (PMU) generates FIQ'',
   reg ''ICLR_IL13'' 0x40D00008 13 0x00000001 (CHR ''x'') ''IRQ 13 (I2S) generates FIQ'',
   reg ''ICLR_IL14'' 0x40D00008 14 0x00000001 (CHR ''x'') ''IRQ 14 (AC97) generates FIQ'',
   reg ''ICLR_IL17'' 0x40D00008 17 0x00000001 (CHR ''x'') ''IRQ 17 (LCD) generates FIQ'',
   reg ''ICLR_IL18'' 0x40D00008 18 0x00000001 (CHR ''x'') ''IRQ 18 (I2C) generates FIQ'',
   reg ''ICLR_IL19'' 0x40D00008 19 0x00000001 (CHR ''x'') ''IRQ 19 (ICP) generates FIQ'',
   reg ''ICLR_IL20'' 0x40D00008 20 0x00000001 (CHR ''x'') ''IRQ 10 (STUART) generates FIQ'',
   reg ''ICLR_IL21'' 0x40D00008 21 0x00000001 (CHR ''x'') ''IRQ 21 (BTUART) generates FIQ'',
   reg ''ICLR_IL22'' 0x40D00008 22 0x00000001 (CHR ''x'') ''IRQ 22 (FFUART) generates FIQ'',
   reg ''ICLR_IL23'' 0x40D00008 23 0x00000001 (CHR ''x'') ''IRQ 23 (MMC) generates FIQ'',
   reg ''ICLR_IL24'' 0x40D00008 24 0x00000001 (CHR ''x'') ''IRQ 24 (SSP) generates FIQ'',
   reg ''ICLR_IL25'' 0x40D00008 25 0x00000001 (CHR ''x'') ''IRQ 25 (DMA) generates FIQ'',
   reg ''ICLR_IL26'' 0x40D00008 26 0x00000001 (CHR ''x'') ''IRQ 26 (OSMR0) generates FIQ'',
   reg ''ICLR_IL27'' 0x40D00008 27 0x00000001 (CHR ''x'') ''IRQ 27 (OSMR1) generates FIQ'',
   reg ''ICLR_IL28'' 0x40D00008 28 0x00000001 (CHR ''x'') ''IRQ 28 (OSMR2) generates FIQ'',
   reg ''ICLR_IL29'' 0x40D00008 29 0x00000001 (CHR ''x'') ''IRQ 29 (OSMR3) generates FIQ'',
   reg ''ICLR_IL30'' 0x40D00008 30 0x00000001 (CHR ''x'') ''IRQ 30 (RTCCLK) generates FIQ'',
   reg ''ICLR_IL31'' 0x40D00008 31 0x00000001 (CHR ''x'') ''IRQ 31 (RTCALM) generates FIQ'',
   reg ''ICCR'' 0x40D00014 0 0xffffffff (CHR ''x'') ''Interrupt Controller Control Register (4-23)'',
   reg ''ICCR_DIM'' 0x40D00014 8 0x00000001 (CHR ''x'') ''ONLY enabled and unmasked IRQ bring CPU from idle to run'',
   reg ''ICIP'' 0x40D00000 0 0xffffffff (CHR ''x'') ''Interrupt Controller IRQ Pending Register (4-24)'',
   reg ''ICFP'' 0x40D0000C 0 0xffffffff (CHR ''x'') ''Interrupt Controller FIQ Pending Register (4-24)'',
   reg ''ICPR'' 0x40D00010 0 0xffffffff (CHR ''x'') ''Interrupt Controller Pending Register (4-25)'',
   reg ''ICPR_IS7'' 0x40D00010 7 0x00000001 (CHR ''x'') ''IRQ 7 (HWUART) pending'',
   reg ''ICPR_IS8'' 0x40D00010 8 0x00000001 (CHR ''x'') ''IRQ 8 (GPIO0) pending'',
   reg ''ICPR_IS9'' 0x40D00010 9 0x00000001 (CHR ''x'') ''IRQ 9 (GPIO1) pending'',
   reg ''ICPR_IS10'' 0x40D00010 10 0x00000001 (CHR ''x'') ''IRQ 10 (GPIO2_80) pending'',
   reg ''ICPR_IS11'' 0x40D00010 11 0x00000001 (CHR ''x'') ''IRQ 11 (USB) pending'',
   reg ''ICPR_IS12'' 0x40D00010 12 0x00000001 (CHR ''x'') ''IRQ 12 (PMU) pending'',
   reg ''ICPR_IS13'' 0x40D00010 13 0x00000001 (CHR ''x'') ''IRQ 13 (I2S) pending'',
   reg ''ICPR_IS14'' 0x40D00010 14 0x00000001 (CHR ''x'') ''IRQ 14 (AC97) pending'',
   reg ''ICPR_IS17'' 0x40D00010 17 0x00000001 (CHR ''x'') ''IRQ 17 (LCD) pending'',
   reg ''ICPR_IS18'' 0x40D00010 18 0x00000001 (CHR ''x'') ''IRQ 18 (I2C) pending'',
   reg ''ICPR_IS19'' 0x40D00010 19 0x00000001 (CHR ''x'') ''IRQ 19 (ICP) pending'',
   reg ''ICPR_IS20'' 0x40D00010 20 0x00000001 (CHR ''x'') ''IRQ 10 (STUART) pending'',
   reg ''ICPR_IS21'' 0x40D00010 21 0x00000001 (CHR ''x'') ''IRQ 21 (BTUART) pending'',
   reg ''ICPR_IS22'' 0x40D00010 22 0x00000001 (CHR ''x'') ''IRQ 22 (FFUART) pending'',
   reg ''ICPR_IS23'' 0x40D00010 23 0x00000001 (CHR ''x'') ''IRQ 23 (MMC) pending'',
   reg ''ICPR_IS24'' 0x40D00010 24 0x00000001 (CHR ''x'') ''IRQ 24 (SSP) pending'',
   reg ''ICPR_IS25'' 0x40D00010 25 0x00000001 (CHR ''x'') ''IRQ 25 (DMA) pending'',
   reg ''ICPR_IS26'' 0x40D00010 26 0x00000001 (CHR ''x'') ''IRQ 26 (OSMR0) pending'',
   reg ''ICPR_IS27'' 0x40D00010 27 0x00000001 (CHR ''x'') ''IRQ 27 (OSMR1) pending'',
   reg ''ICPR_IS28'' 0x40D00010 28 0x00000001 (CHR ''x'') ''IRQ 28 (OSMR2) pending'',
   reg ''ICPR_IS29'' 0x40D00010 29 0x00000001 (CHR ''x'') ''IRQ 29 (OSMR3) pending'',
   reg ''ICPR_IS30'' 0x40D00010 30 0x00000001 (CHR ''x'') ''IRQ 30 (RTCCLK) pending'',
   reg ''ICPR_IS31'' 0x40D00010 31 0x00000001 (CHR ''x'') ''IRQ 31 (RTCALM) pending'']"

subsection \<open>RTC, OS timer and PWM\<close>

definition regs_timer :: "reg_info list" where
  "regs_timer =
  [reg ''RTTR'' 0x4090000C 0 0xffffffff (CHR ''x'') ''RTC Trim Register (4-30)'',
   reg ''RTTR_CK_DIV'' 0x4090000C 0 0x0000ffff (CHR ''x'') ''RTC Clock Divider Count'',
   reg ''RTTR_DEL'' 0x4090000C 16 0x000003ff (CHR ''x'') ''RTC Trim delete Count'',
   reg ''RTTR_LCK'' 0x4090000C 31 0x00000001 (CHR ''x'') ''RTC Locking for RTTR'',
   reg ''RTAR'' 0x40900010 0 0xffffffff (CHR ''x'') ''RTC Alarm Register (4-30)'',
   reg ''RTAR_RTMV'' 0x40900010 0 0xffffffff (CHR ''x'') ''RTC Target Match Value'',
   reg ''RCNR'' 0x40900000 0 0xffffffff (CHR ''x'') ''RTC Counter Register (4-31)'',
   reg ''RCNR_RCV'' 0x40900000 0 0xffffffff (CHR ''x'') ''RTC Count Value'',
   reg ''RTSR'' 0x40900008 0 0xffffffff (CHR ''x'') ''RTC Status Register (4-32)'',
   reg ''RTSR_AL'' 0x40900008 0 0x00000001 (CHR ''x'') ''RTC Alarm Interrupt detected'',
   reg ''RTSR_HZ'' 0x40900008 1 0x00000001 (CHR ''x'') ''RTC Hz Interrupt detected'',
   reg ''RTSR_ALE'' 0x40900008 2 0x00000001 (CHR ''x'') ''RTC Alarm Interrupt Enable'',
   reg ''RTSR_HZE'' 0x40900008 3 0x00000001 (CHR ''x'') ''RTC Hz Interrupt Enable'',
   reg ''OSMR0'' 0x40A00000 0 0xffffffff (CHR ''x'') ''OS Timer Match Register 0 (4-36)'',
   reg ''OSMR1'' 0x40A00004 0 0xffffffff (CHR ''x'') ''OS Timer Match Register 1 (4-36)'',
   reg ''OSMR2'' 0x40A00008 0 0xffffffff (CHR ''x'') ''OS Timer Match Register 2 (4-36)'',
   reg ''OSMR3'' 0x40A0000C 0 0xffffffff (CHR ''x'') ''OS Timer Match Register 3 (4-36)'',
   reg ''OIER'' 0x40A0001C 0 0xffffffff (CHR ''x'') ''OS Timer Interrupt Enable Register (4-36)'',
   reg ''OIER_E0'' 0x40A0001C 0 0x00000001 (CHR ''x'') ''OS Interrupt for OSMR0 enabled'',
   reg ''OIER_E1'' 0x40A0001C 1 0x00000001 (CHR ''x'') ''OS Interrupt for OSMR1 enabled'',
   reg ''OIER_E2'' 0x40A0001C 2 0x00000001 (CHR ''x'') ''OS Interrupt for OSMR2 enabled'',
   reg ''OIER_E3'' 0x40A0001C 3 0x00000001 (CHR ''x'') ''OS Interrupt for OSMR3 enabled'',
   reg ''OWER'' 0x40A00018 0 0xffffffff (CHR ''x'') ''OS Timer Watchdog Match Enable Register (4-37)'',
   reg ''OWER_WME'' 0x40A00018 0 0x00000001 (CHR ''x'') ''OSMR3 match causes a reset'',
   reg ''OSCR'' 0x40A00010 0 0xffffffff (CHR ''x'') ''OS Timer Count Register (4-37)'',
   reg ''OSCR_OSCV'' 0x40A00010 0 0xffffffff (CHR ''x'') ''OS Timer Count Value'',
   reg ''OSSR'' 0x40A00014 0 0xffffffff (CHR ''x'') ''OS Timer Status Register (4-38)'',
   reg ''OSSR_M0'' 0x40A00014 0 0x00000001 (CHR ''x'') ''OS OSMR0 matched OSCR0'',
   reg ''OSSR_M1'' 0x40A00014 1 0x00000001 (CHR ''x'') ''OS OSMR1 matched OSCR1'',
   reg ''OSSR_M2'' 0x40A00014 2 0x00000001 (CHR ''x'') ''OS OSMR2 matched OSCR2'',
   reg ''OSSR_M3'' 0x40A00014 3 0x00000001 (CHR ''x'') ''OS OSMR3 matched OSCR3'',
   reg ''PWMCTL0'' 0x40B00000 0 0xffffffff (CHR ''x'') ''PWM Control Register 0 (4-41)'',
   reg ''PWMCTL0_PRESCALE'' 0x40B00000 0 0x0000003f (CHR ''d'') ''PWM0 Prescale Divisor'',
   reg ''PWMCTL0_SD'' 0x40B00000 5 0x00000001 (CHR ''x'') ''PWM0 abrupt shutdown'',
   reg ''PWMDUTY0'' 0x40B00004 0 0xffffffff (CHR ''x'') ''PWM Duty Cycle Register 0 (4-42)'',
   reg ''PWMDUTY0_DCYCLE'' 0x40B00004 0 0x000003ff (CHR ''d'') ''PWM0 Duty Cycle'',
   reg ''PWMDUTY0_FDCYCLE'' 0x40B00004 10 0x00000001 (CHR ''x'') ''PWM_OUT0 is set high and does not toggle'',
   reg ''PWMPERVAL0'' 0x40B00008 0 0xffffffff (CHR ''x'') ''PWM Period Control Register 0 (4-43)'',
   reg ''PWMPERVAL0_PV'' 0x40B00008 0 0x000003ff (CHR ''d'') ''PWM0 Period Cycle Length'',
   reg ''PWMCTL1'' 0x40C00000 0 0xffffffff (CHR ''x'') ''PWM Control Register 1 (4-41)'',
   reg ''PWMCTL1_PRESCALE'' 0x40C00000 0 0x0000003f (CHR ''d'') ''PWM1 Prescale Divisor'',
   reg ''PWMCTL1_SD'' 0x40C00000 5 0x00000001 (CHR ''x'') ''PWM1 abrupt shutdown'',
   reg ''PWMDUTY1'' 0x40C00004 0 0xffffffff (CHR ''x'') ''PWM Duty Cycle Register 1 (4-42)'',
   reg ''PWMDUTY1_DCYCLE'' 0x40C00004 0 0x000003ff (CHR ''d'') ''PWM1 Duty Cycle'',
   reg ''PWMDUTY1_FDCYCLE'' 0x40C00004 10 0x00000001 (CHR ''x'') ''PWM_OUT1 is set high and does not toggle'',
   reg ''PWMPERVAL1'' 0x40C00008 0 0xffffffff (CHR ''x'') ''PWM Period Control Register 1 (4-43)'',
   reg ''PWMPERVAL1_PV'' 0x40C00008 0 0x000003ff (CHR ''d'') ''PWM1 Period Cycle Length'']"

subsection \<open>LCD controller\<close>

definition regs_lcd :: "reg_info list" where
  "regs_lcd =
  [reg ''LCCR0'' 0x44000000 0 0xffffffff (CHR ''x'') ''LCD Controller Control Register 0 (7-23)'',
   reg ''LCCR0_ENB'' 0x44000000 0 0x00000001 (CHR ''d'') ''LCD controller enable'',
   reg ''LCCR0_CMS'' 0x44000000 1 0x00000001 (CHR ''d'') ''LCD monochrome operation enable'',
   reg ''LCCR0_SDS'' 0x44000000 2 0x00000001 (CHR ''d'') ''LCD dual panel display enable'',
   reg ''LCCR0_LDM'' 0x44000000 3 0x00000001 (CHR ''d'') ''LCD disable done IRQ disable'',
   reg ''LCCR0_SFM'' 0x44000000 4 0x00000001 (CHR ''d'') ''LCD start of frame IRQ disable'',
   reg ''LCCR0_IUM'' 0x44000000 5 0x00000001 (CHR ''d'') ''LCD fifo underrun error IRQ disable'',
   reg ''LCCR0_EFM'' 0x44000000 6 0x00000001 (CHR ''d'') ''LCD end of frame IRQ disable'',
   reg ''LCCR0_PAS'' 0x44000000 7 0x00000001 (CHR ''d'') ''LCD active display enable'',
   reg ''LCCR0_DPD'' 0x44000000 9 0x00000001 (CHR ''d'') ''LCD send 8 pixel on L_DD[7:0] at each clock'',
   reg ''LCCR0_DIS'' 0x44000000 10 0x00000001 (CHR ''d'') ''LCD controller disable'',
   reg ''LCCR0_QDM'' 0x44000000 11 0x00000001 (CHR ''d'') ''LCD quick disable IRQ disable'',
   reg ''LCCR0_PDD'' 0x44000000 12 0x000000FF (CHR ''d'') ''LCD palette DMA request delay'',
   reg ''LCCR0_BM'' 0x44000000 20 0x00000001 (CHR ''d'') ''LCD branch start IRQ disable'',
   reg ''LCCR0_OUM'' 0x44000000 21 0x00000001 (CHR ''d'') ''LCD fifo underrun IRQ disable'',
   reg ''LCCR1'' 0x44000004 0 0xffffffff (CHR ''x'') ''LCD Controller Control Register 1 (7-26)'',
   reg ''LCCR1_PPL'' 0x44000004 0 0x000003ff (CHR ''d'') ''LCD pixels per line (+1)'',
   reg ''LCCR1_HSW'' 0x44000004 10 0x0000003f (CHR ''d'') ''LCD horizontal sync pulse width (+1)'',
   reg ''LCCR1_ELW'' 0x44000004 16 0x000000ff (CHR ''d'') ''LCD end of line pixel clock wait count (+1)'',
   reg ''LCCR1_BLW'' 0x44000004 24 0x000000ff (CHR ''d'') ''LCD beginning of line pixel clock wait count (+1)'',
   reg ''LCCR2'' 0x44000008 0 0xffffffff (CHR ''x'') ''LCD Controller Control Register 2 (7-28)'',
   reg ''LCCR2_LPP'' 0x44000008 0 0x000003ff (CHR ''d'') ''LCD lines per panel (+1)'',
   reg ''LCCR2_VSW'' 0x44000008 10 0x0000003f (CHR ''d'') ''LCD vertical sync pulse width (+1)'',
   reg ''LCCR2_EFW'' 0x44000008 16 0x000000ff (CHR ''d'') ''LCD end of frame line clock wait count (+1)'',
   reg ''LCCR2_BFW'' 0x44000008 24 0x000000ff (CHR ''d'') ''LCD beginning of frame line clock wait count (+1)'',
   reg ''LCCR3'' 0x4400000C 0 0xffffffff (CHR ''x'') ''LCD Controller Control Register 3 (7-31)'',
   reg ''LCCR3_PCD'' 0x4400000C 0 0x000000ff (CHR ''d'') ''LCD pixel clock divisor (+1)'',
   reg ''LCCR3_ACB'' 0x4400000C 8 0x000000ff (CHR ''d'') ''LCD AC bias pin frequency (+1)'',
   reg ''LCCR3_API'' 0x4400000C 16 0x0000000f (CHR ''d'') ''LCD AC bias pin transitions per interrupt'',
   reg ''LCCR3_VSP'' 0x4400000C 20 0x00000001 (CHR ''d'') ''LCD L_FCLK vertical sync polarity active low'',
   reg ''LCCR3_HSP'' 0x4400000C 21 0x00000001 (CHR ''d'') ''LCD L_LCLK horizontal sync polarity active low'',
   reg ''LCCR3_PCP'' 0x4400000C 22 0x00000001 (CHR ''d'') ''LCD data sampled on falling edge of L_PCLK'',
   reg ''LCCR3_OEP'' 0x4400000C 23 0x00000001 (CHR ''d'') ''LCD L_BIAS output enable active low'',
   reg ''LCCR3_BPP'' 0x4400000C 24 0x00000007 (CHR ''<'') ''LCD bits per pixel'',
   reg ''LCCR3_DPC'' 0x4400000C 27 0x00000007 (CHR ''d'') ''LCD double pixel clock rate at L_PCLK'',
   reg ''FBR0'' 0x44000020 0 0xffffffff (CHR ''x'') ''FBR0'',
   reg ''FBR1'' 0x44000020 0 0xffffffff (CHR ''x'') ''FBR1'',
   reg ''LCSR'' 0x44000038 0 0xffffffff (CHR ''x'') ''LCD Controller Status Register (7-40)'',
   reg ''LIIDR'' 0x4400003C 0 0xffffffff (CHR ''x'') ''LCD Controller Interrupt ID Register (7-41)'',
   reg ''TRGBBR'' 0x44000040 0 0xffffffff (CHR ''x'') ''TMED RBG Seed Register (7-42)'',
   reg ''TRGBBR_TRS'' 0x44000040 0 0x000000ff (CHR ''x'') ''Red Seed'',
   reg ''TRGBBR_TGS'' 0x44000040 8 0x000000ff (CHR ''x'') ''Green Seed'',
   reg ''TRGBBR_TBS'' 0x44000040 16 0x000000ff (CHR ''x'') ''Blue Seed'',
   reg ''TCR'' 0x44000044 0 0xffffffff (CHR ''x'') ''TMED Control Register (7-44)'',
   reg ''TCR_COAM'' 0x44000044 0 0x00000001 (CHR ''x'') ''Color Offset Adjuster Matrix'',
   reg ''TCR_FNAM'' 0x44000044 1 0x00000001 (CHR ''x'') ''Frame Number Adjuster Matrix'',
   reg ''TCR_COAE'' 0x44000044 2 0x00000001 (CHR ''x'') ''Color Offset Adjuster Enable'',
   reg ''TCR_FNAME'' 0x44000044 3 0x00000001 (CHR ''x'') ''Frame Number Adjuster Enable'',
   reg ''TCR_TVBS'' 0x44000044 4 0x0000000f (CHR ''d'') ''Vertical Beat Suppression'',
   reg ''TCR_THBS'' 0x44000044 8 0x0000000f (CHR ''d'') ''Horizontal Beat Suppression'',
   reg ''TCR_TED'' 0x44000044 14 0x00000001 (CHR ''x'') ''Energy Distribution Matrix Select'',
   reg ''FDADR0'' 0x44000200 0 0xffffffff (CHR ''x'') ''FDADR0'',
   reg ''FSADR0'' 0x44000204 0 0xffffffff (CHR ''x'') ''FSADR0'',
   reg ''FIDR0'' 0x44000208 0 0xffffffff (CHR ''x'') ''FODR0'',
   reg ''LDCMD0'' 0x4400020C 0 0xffffffff (CHR ''x'') ''LDCMD0'',
   reg ''FDADR1'' 0x44000210 0 0xffffffff (CHR ''x'') ''FDADR1'',
   reg ''FSADR1'' 0x44000214 0 0xffffffff (CHR ''x'') ''FSADR1'',
   reg ''FIDR1'' 0x44000218 0 0xffffffff (CHR ''x'') ''FIDR1'',
   reg ''LDCMD1'' 0x4400021C 0 0xffffffff (CHR ''x'') ''LDCMD1'']"

subsection \<open>Memory controller\<close>

definition regs_mem :: "reg_info list" where
  "regs_mem =
  [reg ''MDCNFG'' 0x48000000 0 0xffffffff (CHR ''x'') ''SDRAM Configuration Register (6-9)'',
   reg ''MDCNFG_DE0'' 0x48000000 0 0x00000001 (CHR ''d'') ''SDRAM enable for partition 0'',
   reg ''MDCNFG_DE1'' 0x48000000 1 0x00000001 (CHR ''d'') ''SDRAM enable for partition 1'',
   reg ''MDCNFG_DWID0'' 0x48000000 2 0x00000001 (CHR ''d'') ''SDRAM data width (0=32, 1=16)'',
   reg ''MDCNFG_DCAC0'' 0x48000000 3 0x00000003 (CHR ''d'') ''Column address bits for partition pair 0/1'',
   reg ''MDCNFG_DRAC0'' 0x48000000 5 0x00000003 (CHR ''d'') ''Row address bits for partition pair 0/1'',
   reg ''MDCNFG_DNB0'' 0x48000000 7 0x00000001 (CHR ''d'') ''Banks in partition pair 0/1 (0=2, 1=4)'',
   reg ''MDCNFG_DTC0'' 0x48000000 8 0x00000003 (CHR ''d'') ''Timing Category for partition pair 0/1'',
   reg ''MDCNFG_DADDR0'' 0x48000000 10 0x00000001 (CHR ''d'') ''Use alternate addressing for partition pair 0/1'',
   reg ''MDCNFG_DLATCH0'' 0x48000000 11 0x00000001 (CHR ''d'') ''Return data latching scheme for partition pair 0/1'',
   reg ''MDCNFG_DSA11110'' 0x48000000 12 0x00000001 (CHR ''d'') ''use SA1111 address muxing for partition pair 0/1'',
   reg ''MDCNFG_DE2'' 0x48000000 16 0x00000001 (CHR ''d'') ''SDRAM enable for partition 2'',
   reg ''MDCNFG_DE3'' 0x48000000 17 0x00000001 (CHR ''d'') ''SDRAM enable for partition 3'',
   reg ''MDCNFG_DWID2'' 0x48000000 18 0x00000001 (CHR ''d'') ''SDRAM data width (0=32, 1=16)'',
   reg ''MDCNFG_DCAC2'' 0x48000000 19 0x00000003 (CHR ''d'') ''Column address bits for partition pair 2/3'',
   reg ''MDCNFG_DRAC2'' 0x48000000 21 0x00000003 (CHR ''d'') ''Row address bits for partition pair 2/3'',
   reg ''MDCNFG_DNB2'' 0x48000000 23 0x00000001 (CHR ''d'') ''Banks in partition pair 2/3 (0=2, 1=4)'',
   reg ''MDCNFG_DTC2'' 0x48000000 24 0x00000003 (CHR ''d'') ''Timing Category for partition pair 2/3'',
   reg ''MDCNFG_DADDR2'' 0x48000000 26 0x00000001 (CHR ''d'') ''Use alternate addressing for partition pair 2/3'',
   reg ''MDCNFG_DLATCH2'' 0x48000000 27 0x00000001 (CHR ''d'') ''Return data latching scheme for partition pair 2/3'',
   reg ''MDCNFG_DSA11112'' 0x48000000 28 0x00000001 (CHR ''d'') ''use SA1111 address muxing for partition pair 2/3'',
   reg ''MDREFR'' 0x48000004 0 0xffffffff (CHR ''x'') ''SDRAM Refresh Configuration Register (6-15)'',
   reg ''MDREFR_DRI'' 0x48000004 0 0x00000fff (CHR ''x'') ''SDRAM Refresh intervall, all paritions'',
   reg ''MDREFR_E0PIN'' 0x48000004 12 0x00000001 (CHR ''x'') ''SDRAM Clock Enable Pin 0 Level'',
   reg ''MDREFR_K0RUN'' 0x48000004 13 0x00000001 (CHR ''x'') ''SDRAM Clock Run Pin 0'',
   reg ''MDREFR_K0DB2'' 0x48000004 14 0x00000001 (CHR ''x'') ''SDRAM Clock Pin 0 Divide/2'',
   reg ''MDREFR_E1PIN'' 0x48000004 15 0x00000001 (CHR ''x'') ''SDRAM Clock Enable Pin 1 Level'',
   reg ''MDREFR_K1RUN'' 0x48000004 16 0x00000001 (CHR ''x'') ''SDRAM Clock Run Pin 1'',
   reg ''MDREFR_K1DB2'' 0x48000004 17 0x00000001 (CHR ''x'') ''SDRAM Clock Pin 1 Divide/2'',
   reg ''MDREFR_K2RUN'' 0x48000004 18 0x00000001 (CHR ''x'') ''SDRAM Clock Run Pin 2'',
   reg ''MDREFR_K2DB2'' 0x48000004 19 0x00000001 (CHR ''x'') ''SDRAM Clock Pin 2 Divide/2'',
   reg ''MDREFR_APD'' 0x48000004 20 0x00000001 (CHR ''x'') ''SDRAM Auto Power Down enable'',
   reg ''MDREFR_SLFRSH'' 0x48000004 22 0x00000001 (CHR ''x'') ''SDRAM Self-Refresh'',
   reg ''MDREFR_K0FREE'' 0x48000004 23 0x00000001 (CHR ''x'') ''SDRAM Free Running Control for SDCLK0'',
   reg ''MDREFR_K1FREE'' 0x48000004 24 0x00000001 (CHR ''x'') ''SDRAM Free Running Control for SDCLK1'',
   reg ''MDREFR_K2FREE'' 0x48000004 25 0x00000001 (CHR ''x'') ''SDRAM Free Running Control for SDCLK2'',
   reg ''MSC0'' 0x48000008 0 0xffffffff (CHR ''x'') ''Asynchronous Static Memory Control Register 0 (6-45)'',
   reg ''MSC0_RT0'' 0x48000008 0 0x00000007 (CHR ''d'') ''nCS[0] ROM Type'',
   reg ''MSC0_RBW0'' 0x48000008 3 0x00000001 (CHR ''d'') ''nCS[0] ROM Bus Width (1=16bit)'',
   reg ''MSC0_RDF0'' 0x48000008 4 0x0000000f (CHR ''d'') ''nCS[0] ROM Delay First Access'',
   reg ''MSC0_RDN0'' 0x48000008 8 0x0000000f (CHR ''d'') ''nCS[0] ROM Delay Next Access'',
   reg ''MSC0_RRR0'' 0x48000008 12 0x00000007 (CHR ''d'') ''nCS[0] ROM/SRAM Recovery Time'',
   reg ''MSC0_RBUFF0'' 0x48000008 15 0x00000001 (CHR ''d'') ''nCS[0] Return Buffer Behavior (1=streaming)'',
   reg ''MSC0_RT1'' 0x48000008 16 0x00000007 (CHR ''d'') ''nCS[1] ROM Type'',
   reg ''MSC0_RBW1'' 0x48000008 19 0x00000001 (CHR ''d'') ''nCS[1] ROM Bus Width (1=16bit)'',
   reg ''MSC0_RDF1'' 0x48000008 20 0x0000000f (CHR ''d'') ''nCS[1] ROM Delay First Access'',
   reg ''MSC0_RDN1'' 0x48000008 24 0x0000000f (CHR ''d'') ''nCS[1] ROM Delay Next Access'',
   reg ''MSC0_RRR1'' 0x48000008 28 0x00000007 (CHR ''d'') ''nCS[1] ROM/SRAM Recovery Time'',
   reg ''MSC0_RBUFF1'' 0x48000008 31 0x00000001 (CHR ''d'') ''nCS[1] Return Buffer Behavior (1=streaming)'',
   reg ''MSC1'' 0x4800000C 0 0xffffffff (CHR ''x'') ''Asynchronous Static Memory Control Register 1 (6-45)'',
   reg ''MSC1_RT2'' 0x4800000C 0 0x00000007 (CHR ''d'') ''nCS[2] ROM Type'',
   reg ''MSC1_RBW2'' 0x4800000C 3 0x00000001 (CHR ''d'') ''nCS[2] ROM Bus Width (1=16bit)'',
   reg ''MSC1_RDF2'' 0x4800000C 4 0x0000000f (CHR ''d'') ''nCS[2] ROM Delay First Access'',
   reg ''MSC1_RDN2'' 0x4800000C 8 0x0000000f (CHR ''d'') ''nCS[2] ROM Delay Next Access'',
   reg ''MSC1_RRR2'' 0x4800000C 12 0x00000007 (CHR ''d'') ''nCS[2] ROM/SRAM Recovery Time'',
   reg ''MSC1_RBUFF2'' 0x4800000C 15 0x00000001 (CHR ''d'') ''nCS[2] Return Buffer Behavior (1=streaming)'',
   reg ''MSC1_RT3'' 0x4800000C 16 0x00000007 (CHR ''d'') ''nCS[3] ROM Type'',
   reg ''MSC1_RBW3'' 0x4800000C 19 0x00000001 (CHR ''d'') ''nCS[3] ROM Bus Width (1=16bit)'',
   reg ''MSC1_RDF3'' 0x4800000C 20 0x0000000f (CHR ''d'') ''nCS[3] ROM Delay First Access'',
   reg ''MSC1_RDN3'' 0x4800000C 24 0x0000000f (CHR ''d'') ''nCS[3] ROM Delay Next Access'',
   reg ''MSC1_RRR3'' 0x4800000C 28 0x00000007 (CHR ''d'') ''nCS[3] ROM/SRAM Recovery Time'',
   reg ''MSC1_RBUFF3'' 0x4800000C 31 0x00000001 (CHR ''d'') ''nCS[3] Return Buffer Behavior (1=streaming)'',
   reg ''MSC2'' 0x48000010 0 0xffffffff (CHR ''x'') ''Asynchronous Static Memory Control Register 2 (6-45)'',
   reg ''MSC2_RT4'' 0x48000010 0 0x00000007 (CHR ''d'') ''nCS[4] ROM Type'',
   reg ''MSC2_RBW4'' 0x48000010 3 0x00000001 (CHR ''d'') ''nCS[4] ROM Bus Width (1=16bit)'',
   reg ''MSC2_RDF4'' 0x48000010 4 0x0000000f (CHR ''d'') ''nCS[4] ROM Delay First Access'',
   reg ''MSC2_RDN4'' 0x48000010 8 0x0000000f (CHR ''d'') ''nCS[4] ROM Delay Next Access'',
   reg ''MSC2_RRR4'' 0x48000010 12 0x00000007 (CHR ''d'') ''nCS[4] ROM/SRAM Recovery Time'',
   reg ''MSC2_RBUFF4'' 0x48000010 15 0x00000001 (CHR ''d'') ''nCS[4] Return Buffer Behavior (1=streaming)'',
   reg ''MSC2_RT5'' 0x48000010 16 0x00000007 (CHR ''d'') ''nCS[5] ROM Type'',
   reg ''MSC2_RBW5'' 0x48000010 19 0x00000001 (CHR ''d'') ''nCS[5] ROM Bus Width (1=16bit)'',
   reg ''MSC2_RDF5'' 0x48000010 20 0x0000000f (CHR ''d'') ''nCS[5] ROM Delay First Access'',
   reg ''MSC2_RDN5'' 0x48000010 24 0x0000000f (CHR ''d'') ''nCS[5] ROM Delay Next Access'',
   reg ''MSC2_RRR5'' 0x48000010 28 0x00000007 (CHR ''d'') ''nCS[5] ROM/SRAM Recovery Time'',
   reg ''MSC2_RBUFF5'' 0x48000010 31 0x00000001 (CHR ''d'') ''nCS[5] Return Buffer Behavior (1=streaming)'',
   reg ''MECR'' 0x48000014 0 0xffffffff (CHR ''x'') ''Expansion Memory Configuration Register (6-61)'',
   reg ''MECR_NOS'' 0x48000014 0 0x00000001 (CHR ''x'') ''Number of Sockets (1=2 Sockets)'',
   reg ''MECR_CIT'' 0x48000014 1 0x00000001 (CHR ''x'') ''Card inserted'',
   reg ''SXCNFG'' 0x4800001C 0 0xffffffff (CHR ''x'') ''Synchronous Static Memory Configuration Register (6-33)'',
   reg ''SXCNFG_SXEN0'' 0x4800001C 0 0x00000001 (CHR ''x'') ''Partition 0 enabled as SX memory'',
   reg ''SXCNFG_SXEN1'' 0x4800001C 1 0x00000001 (CHR ''x'') ''Partition 1 enabled as SX memory'',
   reg ''SXCNFG_SXCL0'' 0x4800001C 2 0x00000007 (CHR ''x'') ''Partition 0/1 CAS Latency'',
   reg ''SXCNFG_SXRL0'' 0x4800001C 5 0x00000007 (CHR ''x'') ''Partition 0/1 RAS Latency'',
   reg ''SXCNFG_SXRA0'' 0x4800001C 8 0x00000003 (CHR ''x'') ''Partition 0/1 row address bit count'',
   reg ''SXCNFG_SXCA0'' 0x4800001C 10 0x00000003 (CHR ''x'') ''Partition 0/1 column address bit count'',
   reg ''SXCNFG_SXTP0'' 0x4800001C 12 0x00000003 (CHR ''x'') ''Partition 0/1 memory type'',
   reg ''SXCNFG_SXLATCH0'' 0x4800001C 14 0x00000001 (CHR ''x'') ''Partition 0/1 return data with return clock'',
   reg ''SXCNFG_SXEN2'' 0x4800001C 16 0x00000001 (CHR ''x'') ''Partition 2 enabled as SX memory'',
   reg ''SXCNFG_SXEN3'' 0x4800001C 17 0x00000001 (CHR ''x'') ''Partition 3 enabled as SX memory'',
   reg ''SXCNFG_SXCL2'' 0x4800001C 18 0x00000007 (CHR ''x'') ''Partition 2/3 CAS Latency'',
   reg ''SXCNFG_SXRL2'' 0x4800001C 21 0x00000007 (CHR ''x'') ''Partition 2/3 RAS Latency'',
   reg ''SXCNFG_SXRA2'' 0x4800001C 24 0x00000003 (CHR ''x'') ''Partition 2/3 row address bit count'',
   reg ''SXCNFG_SXCA2'' 0x4800001C 26 0x00000003 (CHR ''x'') ''Partition 2/3 column address bit count'',
   reg ''SXCNFG_SXTP2'' 0x4800001C 28 0x00000003 (CHR ''x'') ''Partition 2/3 memory type'',
   reg ''SXCNFG_SXLATCH2'' 0x4800001C 30 0x00000001 (CHR ''x'') ''Partition 2/3 return data with return clock'',
   reg ''SXMRS'' 0x48000024 0 0xffffffff (CHR ''x'') ''MRS value to be written to SX Memory (6-38)'',
   reg ''MCMEM0'' 0x48000028 0 0xffffffff (CHR ''x'') ''MEM Control for PCMCIA Socket 0 (6-58)'',
   reg ''MCMEM0_SET'' 0x48000028 0 0x0000007f (CHR ''d'') ''Address set time'',
   reg ''MCMEM0_ASST'' 0x48000028 7 0x0000001f (CHR ''d'') ''Command assertion time'',
   reg ''MCMEM0_HOLD'' 0x48000028 14 0x0000003f (CHR ''d'') ''Address hold time'',
   reg ''MCMEM1'' 0x4800002C 0 0xffffffff (CHR ''x'') ''MEM Control for PCMCIA Socket 1 (6-58)'',
   reg ''MCMEM1_SET'' 0x4800002C 0 0x0000007f (CHR ''d'') ''Address set time'',
   reg ''MCMEM1_ASST'' 0x4800002C 7 0x0000001f (CHR ''d'') ''Command assertion time'',
   reg ''MCMEM1_HOLD'' 0x4800002C 14 0x0000003f (CHR ''d'') ''Address hold time'',
   reg ''MCATT0'' 0x48000030 0 0xffffffff (CHR ''x'') ''ATT Control for PCMCIA Socket 0 (6-59)'',
   reg ''MCATT0_SET'' 0x48000030 0 0x0000007f (CHR ''d'') ''Address set time'',
   reg ''MCATT0_ASST'' 0x48000030 7 0x0000001f (CHR ''d'') ''Command assertion time'',
   reg ''MCATT0_HOLD'' 0x48000030 14 0x0000003f (CHR ''d'') ''Address hold time'',
   reg ''MCATT1'' 0x48000034 0 0xffffffff (CHR ''x'') ''ATT Control for PCMCIA Socket 1 (6-59)'',
   reg ''MCATT1_SET'' 0x48000034 0 0x0000007f (CHR ''d'') ''Address set time'',
   reg ''MCATT1_ASST'' 0x48000034 7 0x0000001f (CHR ''d'') ''Command assertion time'',
   reg ''MCATT1_HOLD'' 0x48000034 14 0x0000003f (CHR ''d'') ''Address hold time'',
   reg ''MCIO0'' 0x48000038 0 0xffffffff (CHR ''x'') ''I/O Control for PCMCIA Socket 0 (6-59)'',
   reg ''MCIO0_SET'' 0x48000038 0 0x0000007f (CHR ''d'') ''Address set time'',
   reg ''MCIO0_ASST'' 0x48000038 7 0x0000001f (CHR ''d'') ''Command assertion time'',
   reg ''MCIO0_HOLD'' 0x48000038 14 0x0000003f (CHR ''d'') ''Address hold time'',
   reg ''MCIO1'' 0x4800003C 0 0xffffffff (CHR ''x'') ''I/O Control for PCMCIA Socket 1 (6-59)'',
   reg ''MCIO1_SET'' 0x4800003C 0 0x0000007f (CHR ''d'') ''Address set time'',
   reg ''MCIO1_ASST'' 0x4800003C 7 0x0000001f (CHR ''d'') ''Command assertion time'',
   reg ''MCIO1_HOLD'' 0x4800003C 14 0x0000003f (CHR ''d'') ''Address hold time'',
   reg ''MDMRS'' 0x48000040 0 0xffffffff (CHR ''x'') ''SDRAM Mode Register Set Configuration Register (6-12)'',
   reg ''MDMRS_MDBL0'' 0x48000040 0 0x00000007 (CHR ''x'') ''SDRAM Partition 0/1 burst length'',
   reg ''MDMRS_MDADD0'' 0x48000040 3 0x00000001 (CHR ''x'') ''SDRAM Partition 0/1 burst type'',
   reg ''MDMRS_MDCL0'' 0x48000040 4 0x00000007 (CHR ''x'') ''SDRAM Partition 0/1 CAS latency'',
   reg ''MDMRS_MDMRS0'' 0x48000040 7 0x000000ff (CHR ''x'') ''MRS value to be written to SDRAM Partition 0/1'',
   reg ''MDMRS_MDBL2'' 0x48000040 16 0x00000007 (CHR ''x'') ''SDRAM Partition 2/3 burst length'',
   reg ''MDMRS_MDADD2'' 0x48000040 19 0x00000001 (CHR ''x'') ''SDRAM Partition 2/3 burst type'',
   reg ''MDMRS_MDCL2'' 0x48000040 20 0x00000007 (CHR ''x'') ''SDRAM Partition 2/3 CAS latency'',
   reg ''MDMRS_MDMRS2'' 0x48000040 23 0x000000ff (CHR ''x'') ''MRS value to be written to SDRAM Partition 2/3'',
   reg ''BOOTDEF'' 0x48000044 0 0xffffffff (CHR ''x'') ''Boot Time Defaults (6-73)'',
   reg ''BOOTDEF_BOOTSEL'' 0x48000044 0 0x00000007 (CHR ''x'') ''Boot Configuration at BOOT_SEL pins'',
   reg ''BOOTDEF_PKGTYPE'' 0x48000044 3 0x00000001 (CHR ''x'') ''Processor type, 1 for PXA250'',
   reg ''MDMRSLP'' 0x48000058 0 0xffffffff (CHR ''x'') ''Low-Power SDRAM Mode Register Set Configuration Register (6-14)'']"

subsection \<open>MMC controller\<close>

definition regs_mmc :: "reg_info list" where
  "regs_mmc =
  [reg ''MMC_STRPCL'' 0x41100000 0 0xffffffff (CHR ''x'') ''MMC Start/Stop Clock (15-23)'',
   reg ''MMC_STAT'' 0x41100004 0 0xffffffff (CHR ''x'') ''MMC Status Register (15-24)'',
   reg ''MMC_STAT_READ_TIME_OUT'' 0x41100004 0 0x00000001 (CHR ''x'') ''Read Time Out'',
   reg ''MMC_STAT_TIME_OUT_RESP'' 0x41100004 1 0x00000001 (CHR ''x'') ''Time Out Response'',
   reg ''MMC_STAT_CRC_WRITE_ERROR'' 0x41100004 2 0x00000001 (CHR ''x'') ''CRC Write Error'',
   reg ''MMC_STAT_CRC_READ_ERR'' 0x41100004 3 0x00000001 (CHR ''x'') ''CRC Read Error'',
   reg ''MMC_STAT_SPI_READ_ERR_TKN'' 0x41100004 4 0x00000001 (CHR ''x'') ''SPI Read Error Token'',
   reg ''MMC_STAT_RES_CRC_ERR'' 0x41100004 5 0x00000001 (CHR ''x'') ''Response CRC Error'',
   reg ''MMC_STAT_XMIT_FIFO_EMPTY'' 0x41100004 6 0x00000001 (CHR ''x'') ''Transmit FIFO Empty'',
   reg ''MMC_STAT_RECV_FIFO_EMPTY'' 0x41100004 7 0x00000001 (CHR ''x'') ''Receive FIFO Empty'',
   reg ''MMC_STAT_CLK_EN'' 0x41100004 8 0x00000001 (CHR ''x'') ''Clock Enabled'',
   reg ''MMC_STAT_DATA_TRAN_DONE'' 0x41100004 11 0x00000001 (CHR ''x'') ''Data Transmission Done'',
   reg ''MMC_STAT_PRG_DONE'' 0x41100004 12 0x00000001 (CHR ''x'') ''Program Done'',
   reg ''MMC_STAT_END_CMD_RES'' 0x41100004 13 0x00000001 (CHR ''x'') ''End Command Response'',
   reg ''MMC_CLKRT'' 0x41100008 0 0xffffffff (CHR ''x'') ''MMC Clock Read Timeout Register (15-26)'',
   reg ''MMC_CLK_RATE'' 0x41100008 0 0x00000007 (CHR ''x'') ''Read Time Out bitmask'',
   reg ''MMC_SPI'' 0x4110000c 0 0xffffffff (CHR ''x'') ''MMC SPI mode (15-27)'',
   reg ''MMC_SPI_EN'' 0x4110000c 0 0x00000001 (CHR ''x'') ''SPI mode enabled'',
   reg ''MMC_SPI_CRC_ON'' 0x4110000c 1 0x00000001 (CHR ''x'') ''CRC generation enabled'',
   reg ''MMC_SPI_CS_EN'' 0x4110000c 2 0x00000001 (CHR ''x'') ''SPI chip select enabled'',
   reg ''MMC_SPI_CS_ADDRESS'' 0x4110000c 3 0x00000001 (CHR ''x'') ''CS0 enabled'',
   reg ''MMC_CMDAT'' 0x41100010 0 0xffffffff (CHR ''x'') ''MMC Command Data (15-28)'',
   reg ''MMC_CMDAT_RF'' 0x41100010 0 0x00000003 (CHR ''x'') ''response format'',
   reg ''MMC_CMDAT_DATA_EN'' 0x41100010 2 0x00000001 (CHR ''x'') ''current cmd includes data transfer'',
   reg ''MMC_CMDAT_WRITE'' 0x41100010 3 0x00000001 (CHR ''x'') ''data transfer is a write'',
   reg ''MMC_CMDAT_STREAM'' 0x41100010 4 0x00000001 (CHR ''x'') ''data transfer is in stream mode'',
   reg ''MMC_CMDAT_BUSY'' 0x41100010 5 0x00000001 (CHR ''x'') ''busy signal is expected after data transfer'',
   reg ''MMC_CMDAT_INIT'' 0x41100010 6 0x00000001 (CHR ''x'') ''precede cmd with 80 clocks'',
   reg ''MMC_CMDAT_DMA_EN'' 0x41100010 7 0x00000001 (CHR ''x'') ''enable DMA mode'',
   reg ''MMC_RESTO'' 0x41100014 0 0xffffffff (CHR ''x'') ''MMC Response Time Out (15-29)'',
   reg ''MMC_RESTO_TO'' 0x41100014 0 0x0000007f (CHR ''d'') ''clocks before a response time out'',
   reg ''MMC_RDTO'' 0x41100018 0 0xffffffff (CHR ''x'') ''MMC Read Time Out (15-29)'',
   reg ''MMC_RDTO_TO'' 0x41100018 0 0x0000ffff (CHR ''d'') ''time until read time out'',
   reg ''MMC_BLKLEN'' 0x4110001C 0 0xffffffff (CHR ''x'') ''MMC Block Len Register (15-30)'',
   reg ''MMC_BLKLEN_LEN'' 0x4110001C 0 0x000003ff (CHR ''d'') ''Number of bytes in the block'',
   reg ''MMC_NOB'' 0x41100020 0 0xffffffff (CHR ''x'') ''MMC Block Number Register (15-30)'',
   reg ''MMC_NOB_N'' 0x41100020 0 0x0000ffff (CHR ''d'') ''number of blocks'',
   reg ''MMC_PRTBUF'' 0x41100024 0 0xffffffff (CHR ''x'') ''MMC Partial Buffer Register (15-31)'',
   reg ''MMC_PRTBUF_FULL'' 0x41100024 0 0x00000001 (CHR ''x'') ''Buffer is partially full'',
   reg ''MMC_IMASK'' 0x41100028 0 0xffffffff (CHR ''x'') ''MMC Interrupt Mask Register (15-31)'',
   reg ''MMC_IMASK_DATATRAN'' 0x41100028 0 0x00000001 (CHR ''x'') ''Data Transfer Done masked'',
   reg ''MMC_IMASK_PRGDONE'' 0x41100028 1 0x00000001 (CHR ''x'') ''Programming Done masked'',
   reg ''MMC_IMASK_ENDCMD'' 0x41100028 2 0x00000001 (CHR ''x'') ''End Command Response masked'',
   reg ''MMC_IMASK_STOPCMD'' 0x41100028 3 0x00000001 (CHR ''x'') ''Ready for Stop Transaction Command masked'',
   reg ''MMC_IMASK_CLOCKOFF'' 0x41100028 4 0x00000001 (CHR ''x'') ''Clock Is Off masked'',
   reg ''MMC_IMASK_RXFIFO'' 0x41100028 5 0x00000001 (CHR ''x'') ''Receive FIFO Read Request masked'',
   reg ''MMC_IMASK_TXFIFO'' 0x41100028 6 0x00000001 (CHR ''x'') ''Transmit FIFO Write Request masked'',
   reg ''MMC_IREG'' 0x4110002c 0 0xffffffff (CHR ''x'') ''MMC Interrupt Register (15-33)'',
   reg ''MMC_IREG_DATATRAN'' 0x4110002c 0 0x00000001 (CHR ''x'') ''Data Transfer Done or Read TimeOut occured'',
   reg ''MMC_IREG_PRGDONE'' 0x4110002c 1 0x00000001 (CHR ''x'') ''Card has finished programming'',
   reg ''MMC_IREG_ENDCMD'' 0x4110002c 2 0x00000001 (CHR ''x'') ''MMC has received response or Response TimeOut'',
   reg ''MMC_IREG_STOPCMD'' 0x4110002c 3 0x00000001 (CHR ''x'') ''MMC is ready for the Stop Transaction Command'',
   reg ''MMC_IREG_CLOCKOFF'' 0x4110002c 4 0x00000001 (CHR ''x'') ''MMC clock has been turned off'',
   reg ''MMC_IREG_RXFIFO'' 0x4110002c 5 0x00000001 (CHR ''x'') ''Request for data read from receive FIFO'',
   reg ''MMC_IREG_TXFIFO'' 0x4110002c 6 0x00000001 (CHR ''x'') ''Request to data write to transmit FIFO'',
   reg ''MMC_CMD'' 0x41100030 0 0xffffffff (CHR ''x'') ''MMC Command Register (15-34)'',
   reg ''MMC_CMD_INDEX'' 0x41100030 0 0x0000003f (CHR ''x'') ''command index'',
   reg ''MMC_ARGH'' 0x41100034 0 0xffffffff (CHR ''x'') ''MMC Higher Argument Register (15-36)'',
   reg ''MMC_ARGH_ARG'' 0x41100034 0 0x0000ffff (CHR ''x'') ''upper 16 bits of command argument'',
   reg ''MMC_ARGL'' 0x41100038 0 0xffffffff (CHR ''x'') ''MMC Lower Argument Register (15-36)'',
   reg ''MMC_ARGL_ARG'' 0x41100038 0 0x0000ffff (CHR ''x'') ''upper 16 bits of command argument'']"

subsection \<open>CPLD of the two boards\<close>

definition regs_cpld :: "config \<Rightarrow> reg_info list" where
  "regs_cpld cfg =
  (if CONFIG_ARCH_PXA_IDP cfg \<or> CONFIG_ARCH_RAMSES cfg then
    [reg ''CPLD_PWR'' 0x17C00004 0 0x000000ff (CHR ''x'') ''CPLD_PERIPH_PWR'',
     reg ''CPLD_PWR_CORE'' 0x17C00004 0 0x00000001 (CHR ''d'') ''Variable core enable - latch value in first''] @
    (if CONFIG_ARCH_PXA_IDP cfg then
      [reg ''CPLD_PWR_MQ'' 0x17C00004 2 0x00000001 (CHR ''d'') ''MQ1132 power switch'']
    else
      [reg ''CPLD_PWR_SL811HS'' 0x17C00004 2 0x00000001 (CHR ''d'') ''SL811HS power switch'']) @
    [reg ''CPLD_PWR_PER'' 0x17C00004 3 0x00000001 (CHR ''d'') ''peripheral power enable'',
     reg ''CPLD_PWR_RST'' 0x17C00004 4 0x00000001 (CHR ''d'') ''peripheral reset'',
     reg ''CPLD_LED'' 0x17C00008 0 0x000000ff (CHR ''x'') ''CPLD_LED_CONTROL'',
     reg ''CPLD_LED_CIR'' 0x17C00008 0 0x00000001 (CHR ''d'') ''CIR'',
     reg ''CPLD_LED_HB'' 0x17C00008 5 0x00000001 (CHR ''d'') ''red LED (0=on)'',
     reg ''CPLD_LED_BUSY'' 0x17C00008 6 0x00000001 (CHR ''d'') ''green LED (0=on)'',
     reg ''CPLD_LED_FLASH'' 0x17C00008 7 0x00000001 (CHR ''d'') ''red LED flash enable'',
     reg ''CPLD_KBD_COL_HIGH'' 0x17C0000C 0 0x000000ff (CHR ''x'') ''CPLD'',
     reg ''CPLD_KBD_COL_LOW'' 0x17C00010 0 0x000000ff (CHR ''x'') ''CPLD'',
     reg ''CPLD_PCCARD_EN'' 0x17C00014 0 0x000000ff (CHR ''x'') ''CPLD PC-Card Enable'',
     reg ''CPLD_PCC0_ENABLE'' 0x17C00014 0 0x00000001 (CHR ''d'') ''PC-Card 0 enable'',
     reg ''CPLD_PCC1_ENABLE'' 0x17C00014 1 0x00000001 (CHR ''d'') ''PC-Card 1 enable'',
     reg ''CPLD_PCC0_RESET'' 0x17C00014 6 0x00000001 (CHR ''d'') ''PC-Card 0 reset'',
     reg ''CPLD_PCC1_RESET'' 0x17C00014 7 0x00000001 (CHR ''d'') ''PC-Card 1 reset'',
     reg ''CPLD_PCCARD_PWR'' 0x17C00028 0 0x000000ff (CHR ''x'') ''CPLD PC-Card Power'',
     reg ''CPLD_PCC0_PWR0'' 0x17C00028 0 0x00000001 (CHR ''d'') ''PC-Card 0 Pwr 0'',
     reg ''CPLD_PCC0_PWR1'' 0x17C00028 1 0x00000001 (CHR ''d'') ''PC-Card 0 Pwr 1'',
     reg ''CPLD_PCC0_PWR2'' 0x17C00028 2 0x00000001 (CHR ''d'') ''PC-Card 0 Pwr 2'',
     reg ''CPLD_PCC0_PWR3'' 0x17C00028 3 0x00000001 (CHR ''d'') ''PC-Card 0 Pwr 3'',
     reg ''CPLD_PCC1_PWR0'' 0x17C00028 4 0x00000001 (CHR ''d'') ''PC-Card 1 Pwr 0'',
     reg ''CPLD_PCC1_PWR1'' 0x17C00028 5 0x00000001 (CHR ''d'') ''PC-Card 1 Pwr 1'',
     reg ''CPLD_PCC1_PWR2'' 0x17C00028 6 0x00000001 (CHR ''d'') ''PC-Card 1 Pwr 2'',
     reg ''CPLD_PCC1_PWR3'' 0x17C00028 7 0x00000001 (CHR ''d'') ''PC-Card 1 Pwr 3'',
     reg ''CPLD_MISC'' 0x17C0002C 0 0x000000ff (CHR ''x'') ''CPLD_MISC_CTRL'',
     reg ''CPLD_MISC_SER1EN'' 0x17C0002C 0 0x00000001 (CHR ''d'') ''RS-232 on FF UART enable'',
     reg ''CPLD_MISC_SER2EN'' 0x17C0002C 1 0x00000001 (CHR ''d'') ''RS-232 on BT UART enable'',
     reg ''CPLD_MISC_SER3EN'' 0x17C0002C 2 0x00000001 (CHR ''d'') ''RS-232 on ST UART enable'',
     reg ''CPLD_MISC_IRDAFIR'' 0x17C0002C 3 0x00000001 (CHR ''d'') ''IrDA FIR enable'',
     reg ''CPLD_MISC_IRDAMD0'' 0x17C0002C 4 0x00000001 (CHR ''d'') ''IrDA mode 0'',
     reg ''CPLD_MISC_IRDAMD1'' 0x17C0002C 5 0x00000001 (CHR ''d'') ''IrDA mode 1''] @
    (if CONFIG_ARCH_PXA_IDP cfg then
      [reg ''CPLD_MISC_I2SPWR'' 0x17C0002C 7 0x00000001 (CHR ''d'') ''UDA1341 power switch'']
    else
      []) @
    [reg ''CPLD_LCD'' 0x17C00030 0 0x000000ff (CHR ''x'') ''CPLD LCD Control''] @
    (if CONFIG_ARCH_PXA_IDP cfg then
      [reg ''CPLD_LCD_PWR'' 0x17C00030 0 0x00000001 (CHR ''d'') ''LCD Power'',
       reg ''CPLD_LCD_BACKLIGHT'' 0x17C00030 1 0x00000001 (CHR ''d'') ''LCD Backlight'',
       reg ''CPLD_LCD_VLCD'' 0x17C00030 2 0x00000001 (CHR ''d'') ''LCD VLCD'']
    else
      [reg ''CPLD_LCD_VCC'' 0x17C00030 0 0x00000001 (CHR ''d'') ''LCD VCC'',
       reg ''CPLD_LCD_DISPOFF'' 0x17C00030 2 0x00000001 (CHR ''d'') ''LCD nDISPOFF'']) @
    [reg ''CPLD_FLASH'' 0x17C00034 0 0x000000ff (CHR ''x'') ''CPLD Flash Control'',
     reg ''CPLD_FLASH_WE'' 0x17C00034 0 0x00000001 (CHR ''d'') ''CPLD StrataFlash Write Enable''] @
    (if CONFIG_ARCH_PXA_IDP cfg then
      [reg ''CPLD_FLASH_MWE'' 0x17C00034 1 0x00000001 (CHR ''d'') ''CPLD MPlus Write Enable'',
       reg ''CPLD_FLASH_MOE'' 0x17C00034 2 0x00000001 (CHR ''d'') ''CPLD MPlus Output Enable'',
       reg ''CPLD_CS'' 0x17C00038 0 0x000000ff (CHR ''x'') ''CPLD Chip Select Register'',
       reg ''CPLD_CS_CS0EN'' 0x17C00038 0 0x00000001 (CHR ''d'') ''CPLD Chip Select 0 Enable'',
       reg ''CPLD_CS_CS1EN'' 0x17C00038 1 0x00000001 (CHR ''d'') ''CPLD Chip Select 1 Enable'',
       reg ''CPLD_CS_CS2EN'' 0x17C00038 2 0x00000001 (CHR ''d'') ''CPLD Chip Select 2 Enable'',
       reg ''CPLD_CS_CS3EN'' 0x17C00038 3 0x00000001 (CHR ''d'') ''CPLD Chip Select 3 Enable'',
       reg ''CPLD_CS_CS4EN'' 0x17C00038 4 0x00000001 (CHR ''d'') ''CPLD Chip Select 4 Enable'']
    else
      []) @
    [reg ''CPLD_KB_ROW'' 0x17C00050 0 0x000000ff (CHR ''x'') ''CPLD'',
     reg ''CPLD_PCCARD0_STATUS'' 0x17C00054 0 0x000000ff (CHR ''x'') ''CPLD PC-Card 0 Status'',
     reg ''CPLD_PCC0_VS1'' 0x17C00054 0 0x00000001 (CHR ''d'') ''PC-Card 0 VS1'',
     reg ''CPLD_PCC0_VS2'' 0x17C00054 1 0x00000001 (CHR ''d'') ''PC-Card 0 VS2'',
     reg ''CPLD_PCC0_BVD1'' 0x17C00054 2 0x00000001 (CHR ''d'') ''PC-Card 0 BVD1'',
     reg ''CPLD_PCC0_BVD2'' 0x17C00054 3 0x00000001 (CHR ''d'') ''PC-Card 0 BVD2'',
     reg ''CPLD_PCC0_INPACK'' 0x17C00054 4 0x00000001 (CHR ''d'') ''PC-Card 0 INPACK'',
     reg ''CPLD_PCC0_IRQ'' 0x17C00054 5 0x00000001 (CHR ''d'') ''PC-Card 0 IRQ'',
     reg ''CPLD_PCC0_STRESET'' 0x17C00054 6 0x00000001 (CHR ''d'') ''PC-Card 0 RESET'',
     reg ''CPLD_PCC0_WRPROT'' 0x17C00054 7 0x00000001 (CHR ''d'') ''PC-Card 0 WRPROT'',
     reg ''CPLD_PCCARD1_STATUS'' 0x17C00058 0 0x000000ff (CHR ''x'') ''CPLD PC-Card 1 Status'',
     reg ''CPLD_PCC1_VS1'' 0x17C00058 0 0x00000001 (CHR ''d'') ''PC-Card 1 VS1'',
     reg ''CPLD_PCC1_VS2'' 0x17C00058 1 0x00000001 (CHR ''d'') ''PC-Card 1 VS2'',
     reg ''CPLD_PCC1_BVD1'' 0x17C00058 2 0x00000001 (CHR ''d'') ''PC-Card 1 BVD1'',
     reg ''CPLD_PCC1_BVD2'' 0x17C00058 3 0x00000001 (CHR ''d'') ''PC-Card 1 BVD2'',
     reg ''CPLD_PCC1_INPACK'' 0x17C00058 4 0x00000001 (CHR ''d'') ''PC-Card 1 INPACK'',
     reg ''CPLD_PCC1_IRQ'' 0x17C00058 5 0x00000001 (CHR ''d'') ''PC-Card 1 IRQ'',
     reg ''CPLD_PCC1_STRESET'' 0x17C00058 6 0x00000001 (CHR ''d'') ''PC-Card 1 RESET'',
     reg ''CPLD_PCC1_WRPROT'' 0x17C00058 7 0x00000001 (CHR ''d'') ''PC-Card 1 WRPROT'',
     reg ''CPLD_MISC_STATUS'' 0x17C0005C 0 0x000000ff (CHR ''x'') ''CPLD Misc Status'',
     reg ''CPLD_MISC_USB_D_CON'' 0x17C0005C 0 0x00000001 (CHR ''d'') ''Charge status'',
     reg ''CPLD_MISC_WALL_IN'' 0x17C0005C 1 0x00000001 (CHR ''d'') ''Charge status'',
     reg ''CPLD_MISC_CHG_STS'' 0x17C0005C 2 0x00000001 (CHR ''d'') ''Charge status'',
     reg ''CPLD_MISC_MMC_WPROT'' 0x17C0005C 7 0x00000001 (CHR ''d'') ''MMC write protect'',
     reg ''CPLD_VER_YEAR'' 0x17C00060 0 0x000000ff (CHR ''x'') ''CPLD Year'',
     reg ''CPLD_VER_MONTH'' 0x17C00064 0 0x000000ff (CHR ''x'') ''CPLD Month'',
     reg ''CPLD_VER_DAY'' 0x17C00068 0 0x000000ff (CHR ''x'') ''CPLD Day'',
     reg ''CPLD_VER_REV'' 0x17C0006C 0 0x000000ff (CHR ''x'') ''CPLD Revision'',
     reg ''CPLD_VSTAT'' 0x17C0007C 0 0x000000ff (CHR ''x'') ''CPLD Voltage Status''] @
    (if CONFIG_ARCH_PXA_IDP cfg then
      [reg ''CPLD_BSTAT_V3GOOD'' 0x17C0007C 0 0x00000001 (CHR ''x'') ''v3good'']
    else
      []) @
    [reg ''CPLD_BSTAT_BWE'' 0x17C0007C 1 0x00000001 (CHR ''x'') ''bwe'']
  else
    [])"

subsection \<open>External UARTs of the RAMSES board\<close>

definition regs_uart :: "config \<Rightarrow> reg_info list" where
  "regs_uart cfg =
  (if CONFIG_ARCH_RAMSES cfg then
    [reg ''UARTA_RHR'' 0x0C002E00 0 0xffffffff (CHR ''x'') ''UART A RHR/THR'',
     reg ''UARTA_IER'' 0x0C002E04 0 0xffffffff (CHR ''x'') ''UART A IER'',
     reg ''UARTA_FCR'' 0x0C002E08 0 0xffffffff (CHR ''x'') ''UART A FCR/IIR'',
     reg ''UARTA_LCR'' 0x0C002E0C 0 0xffffffff (CHR ''x'') ''UART A LCR'',
     reg ''UARTA_MCR'' 0x0C002E10 0 0xffffffff (CHR ''x'') ''UART A MCR'',
     reg ''UARTA_LSR'' 0x0C002E14 0 0xffffffff (CHR ''x'') ''UART A LSR'',
     reg ''UARTA_MSR'' 0x0C002E18 0 0xffffffff (CHR ''x'') ''UART A MSR'',
     reg ''UARTA_SPR'' 0x0C002E1C 0 0xffffffff (CHR ''x'') ''UART A SPR'',
     reg ''UARTB_RHR'' 0x0C002D00 0 0xffffffff (CHR ''x'') ''UART B RHR/THR'',
     reg ''UARTB_IER'' 0x0C002D04 0 0xffffffff (CHR ''x'') ''UART B IER'',
     reg ''UARTB_FCR'' 0x0C002D08 0 0xffffffff (CHR ''x'') ''UART B FCR/IIR'',
     reg ''UARTB_LCR'' 0x0C002D0C 0 0xffffffff (CHR ''x'') ''UART B LCR'',
     reg ''UARTB_MCR'' 0x0C002D10 0 0xffffffff (CHR ''x'') ''UART B MCR'',
     reg ''UARTB_LSR'' 0x0C002D14 0 0xffffffff (CHR ''x'') ''UART B LSR'',
     reg ''UARTB_MSR'' 0x0C002D18 0 0xffffffff (CHR ''x'') ''UART B MSR'',
     reg ''UARTB_SPR'' 0x0C002D1C 0 0xffffffff (CHR ''x'') ''UART B SPR'',
     reg ''UARTD_RHR'' 0x0C002B00 0 0xffffffff (CHR ''x'') ''UART C RHR/THR'',
     reg ''UARTD_IER'' 0x0C002B04 0 0xffffffff (CHR ''x'') ''UART C IER'',
     reg ''UARTD_FCR'' 0x0C002B08 0 0xffffffff (CHR ''x'') ''UART C FCR/IIR'',
     reg ''UARTD_LCR'' 0x0C002B0C 0 0xffffffff (CHR ''x'') ''UART C LCR'',
     reg ''UARTD_MCR'' 0x0C002B10 0 0xffffffff (CHR ''x'') ''UART C MCR'',
     reg ''UARTD_LSR'' 0x0C002B14 0 0xffffffff (CHR ''x'') ''UART C LSR'',
     reg ''UARTD_MSR'' 0x0C002B18 0 0xffffffff (CHR ''x'') ''UART C MSR'',
     reg ''UARTD_SPR'' 0x0C002B1C 0 0xffffffff (CHR ''x'') ''UART C SPR'',
     reg ''UARTD_RHR'' 0x0C002700 0 0xffffffff (CHR ''x'') ''UART D RHR/THR'',
     reg ''UARTD_IER'' 0x0C002704 0 0xffffffff (CHR ''x'') ''UART D IER'',
     reg ''UARTD_FCR'' 0x0C002708 0 0xffffffff (CHR ''x'') ''UART D FCR/IIR'',
     reg ''UARTD_LCR'' 0x0C00270C 0 0xffffffff (CHR ''x'') ''UART D LCR'',
     reg ''UARTD_MCR'' 0x0C002710 0 0xffffffff (CHR ''x'') ''UART D MCR'',
     reg ''UARTD_LSR'' 0x0C002714 0 0xffffffff (CHR ''x'') ''UART D LSR'',
     reg ''UARTD_MSR'' 0x0C002718 0 0xffffffff (CHR ''x'') ''UART D MSR'',
     reg ''UARTD_SPR'' 0x0C00271C 0 0xffffffff (CHR ''x'') ''UART D SPR'']
  else
    [])"

definition regs :: "config \<Rightarrow> reg_info list" where
  "regs cfg = regs_i2c @ regs_pm @ regs_pgsr @ regs_clock @ regs_gplr01 cfg @ regs_gplr2 cfg @ regs_gpdr @ regs_gpsr @ regs_gpcr @ regs_grer @ regs_gfer @ regs_gedr @ regs_gafr @ regs_icr @ regs_timer @ regs_lcd @ regs_mem @ regs_mmc @ regs_cpld cfg @ regs_uart cfg"

definition default_config :: config where
  "default_config = \<lparr>CONFIG_ARCH_RAMSES = False, CONFIG_ARCH_PXA_IDP = False\<rparr>"

end
