(* ===== verification/Pxaregs_Lemmas.thy ===== *)
theory Pxaregs_Lemmas
  imports Pxaregs
begin

text \<open>
  Lemmas of \<open>pxaregs.c\<close>: each operation when the system calls succeed, the specification \<open>report\<close> of
  a dump and the proof that the loop with its cached register implements it, the search loop of
  \<open>setreg\<close> and the bits it writes.
\<close>

unbundle bit_operations_syntax

subsection \<open>The memory accesses\<close>

definition os_ready :: "'d env \<Rightarrow> bool" where
  "os_ready e \<longleftrightarrow> (\<forall>n. 0 \<le> os_open e n) \<and> (\<forall>n. os_mmap e n)"

lemma os_readyD:
  assumes "os_ready e"
  shows "os_open e n < 0 \<longleftrightarrow> False" and "os_mmap e n \<longleftrightarrow> True"
  using assms by (auto simp: os_ready_def not_less)

lemma page_and_offset: "(a AND NOT MAP_MASK) + (a AND MAP_MASK) = (a :: u32)"
proof -
  have "(a AND NOT MAP_MASK) AND (a AND MAP_MASK) = 0"
    by (rule bit_word_eqI) (simp add: bit_simps)
  then have "(a AND NOT MAP_MASK) + (a AND MAP_MASK) = (a AND NOT MAP_MASK) OR (a AND MAP_MASK)"
    by (rule disjunctive_add_eq_or)
  also have "\<dots> = a" by (rule bit_word_eqI) (auto simp: bit_simps)
  finally show ?thesis .
qed

text \<open>When the system calls succeed, each access is one access to the device and one more mapping.\<close>

definition got :: "'d env \<Rightarrow> u32 \<Rightarrow> 'd pstate \<Rightarrow> 'd pstate" where
  "got e a st =
     st\<lparr>fd := (if fd st = -1 then os_open e (opens st) else fd st),
        opens := (if fd st = -1 then opens st + 1 else opens st),
        maps := (a AND NOT MAP_MASK) # maps st,
        dev := snd (dev_read e (dev st) a)\<rparr>"

lemma got_sel [simp]:
  "dev (got e a st) = snd (dev_read e (dev st) a)"
  "stdout (got e a st) = stdout st"
  "maps (got e a st) = (a AND NOT MAP_MASK) # maps st"
  "lastaddr (got e a st) = lastaddr st"
  "newaddr (got e a st) = newaddr st"
  "putmem_fd (got e a st) = putmem_fd st"
  by (simp_all add: got_def)

lemma getmem_ready:
  "os_ready e \<Longrightarrow> getmem e a st = Inr (fst (dev_read e (dev st) a), got e a st)"
  by (cases st)
    (simp add: getmem_def got_def os_readyD map_page_def munmap_null_def page_and_offset split_def Let_def)

definition put_st :: "'d env \<Rightarrow> u32 \<Rightarrow> u32 \<Rightarrow> 'd pstate \<Rightarrow> 'd pstate" where
  "put_st e a v st =
     st\<lparr>putmem_fd := (if putmem_fd st = -1 then os_open e (opens st) else putmem_fd st),
        opens := (if putmem_fd st = -1 then opens st + 1 else opens st),
        maps := (a AND NOT MAP_MASK) # maps st,
        dev := dev_write e (dev st) a v\<rparr>"

lemma put_st_sel [simp]:
  "dev (put_st e a v st) = dev_write e (dev st) a v"
  "stdout (put_st e a v st) = stdout st"
  "maps (put_st e a v st) = (a AND NOT MAP_MASK) # maps st"
  by (simp_all add: put_st_def)

lemma putmem_ready: "os_ready e \<Longrightarrow> putmem e a v st = Inr ((), put_st e a v st)"
  by (cases st)
    (simp add: putmem_def put_st_def os_readyD map_page_def munmap_null_def page_and_offset
      split_def Let_def)

subsection \<open>Printing the bits\<close>

definition bits_text :: "nat \<Rightarrow> u32 \<Rightarrow> string" where
  "bits_text n w =
     concat (map (\<lambda>j. (if bit w (31 + j - n) then ''1'' else ''0'') @
                       (if j = 9 \<or> j = 17 \<or> j = 25 then '' '' else []))
               (rev [1..<Suc n]))"

lemma top_bit: "(w :: u32) AND 0x80000000 \<noteq> 0 \<longleftrightarrow> bit w 31"
  using and_exp_eq_0_iff_not_bit[of w 31] by simp

lemma bit_shifted: "0 < k \<Longrightarrow> k < 32 \<Longrightarrow> bit (push_bit 1 (w :: u32)) k \<longleftrightarrow> bit w (k - 1)"
  by (simp only: bit_simps) auto

lemma bits_text_Suc:
  assumes "n < 32"
  shows "bits_text (Suc n) w =
     (if bit w 31 then ''1'' else ''0'') @
     (if Suc n = 9 \<or> Suc n = 17 \<or> Suc n = 25 then '' '' else []) @ bits_text n (push_bit 1 w)"
proof -
  have "bit (push_bit 1 w) (31 + j - n) = bit w (31 + j - Suc n)" if "j \<in> set (rev [1..<Suc n])" for j
    using that assms bit_shifted[of "31 + j - n" w] by auto
  then have "map (\<lambda>j. (if bit w (31 + j - Suc n) then ''1'' else ''0'') @
        (if j = 9 \<or> j = 17 \<or> j = 25 then '' '' else [])) (rev [1..<Suc n])
      = map (\<lambda>j. (if bit (push_bit 1 w) (31 + j - n) then ''1'' else ''0'') @
        (if j = 9 \<or> j = 17 \<or> j = 25 then '' '' else [])) (rev [1..<Suc n])"
    by (intro map_cong) auto
  moreover have "rev [1..<Suc (Suc n)] = Suc n # rev [1..<Suc n]" by simp
  ultimately show ?thesis unfolding bits_text_def by (simp only: list.map concat.simps) simp
qed

lemma print_bits_text:
  "n \<le> 32 \<Longrightarrow> print_bits n st =
     st\<lparr>stdout := stdout st @ bits_text n (shiftdata st), shiftdata := push_bit n (shiftdata st)\<rparr>"
proof (induction n arbitrary: st)
  case 0
  then show ?case by (simp add: bits_text_def)
next
  case (Suc n)
  then show ?case
    by (simp add: top_bit bits_text_Suc printf_def Let_def push_bit_push_bit)
qed

subsection \<open>What a dump prints\<close>

definition word_text :: "reg_info \<Rightarrow> u32 \<Rightarrow> string" where
  "word_text r v =
     newline @ ri_desc r @ newline @
     pad_right 24 (ri_name r) @ '' 0x'' @ fmt_08x v @ ''  '' @ bits_text 32 v @ newline"

definition field_value :: "reg_info \<Rightarrow> u32 \<Rightarrow> u32" where
  "field_value r v = drop_bit (ri_shift r) v AND ri_mask r"

definition field_text :: "u32 \<Rightarrow> reg_info \<Rightarrow> string" where
  "field_text v r =
     (if ri_shift r = 0 \<and> ri_mask r = 0xffffffff then []
      else pad_right 25 (ri_name r) @ ''  '' @
           (if ri_type r = CHR ''x'' then fmt_8x (field_value r v)
            else if ri_type r = CHR ''<'' then fmt_8u (push_bit (unat (field_value r v)) 1)
            else fmt_8u (field_value r v)) @
           ''  '' @ ri_desc r @ newline)"

text \<open>
  The specification of a dump, without the variables \<open>lastaddr\<close>, \<open>newaddr\<close> and \<open>data\<close>: every
  maximal run of rows with one address reads the register once and shows the word under the name of
  the first row, then the fields of all the rows of the run.
\<close>

function report :: "'d env \<Rightarrow> reg_info list \<Rightarrow> 'd \<Rightarrow> string \<times> 'd" where
  "report e [] d = ([], d)"
| "report e (r # rs) d =
     (let v = fst (dev_read e d (ri_addr r));
          same = (\<lambda>q. ri_addr q = ri_addr r);
          rest = report e (dropWhile same rs) (snd (dev_read e d (ri_addr r)))
      in (word_text r v @ concat (map (field_text v) (r # takeWhile same rs)) @ fst rest,
          snd rest))"
  by pat_completeness auto
termination
  by (relation "measure (\<lambda>(_, rs, _). length rs)") (auto simp: length_dropWhile_le less_Suc_eq_le)

definition needs_read :: "reg_info \<Rightarrow> 'd pstate \<Rightarrow> bool" where
  "needs_read r st \<longleftrightarrow> newaddr st \<noteq> 0 \<or> lastaddr st \<noteq> ri_addr r"

lemma dump_field_text:
  assumes "ri_shift r \<noteq> 0 \<or> ri_mask r \<noteq> 0xffffffff"
  shows "dump_field r st =
    st\<lparr>stdout := stdout st @ field_text (data st) r, shiftdata := field_value r (data st)\<rparr>"
  using assms by (auto simp: dump_field_def field_text_def field_value_def printf_def Let_def)

lemma dumpentry_cached:
  assumes "\<not> needs_read r st"
  obtains st' where "dumpentry e r st = Inr ((), st')"
    and "stdout st' = stdout st @ field_text (data st) r"
    and "dev st' = dev st" and "maps st' = maps st" and "data st' = data st"
    and "newaddr st' = newaddr st" and "lastaddr st' = lastaddr st"
proof (cases "ri_shift r \<noteq> 0 \<or> ri_mask r \<noteq> 0xffffffff")
  case True
  then show ?thesis using assms
    by (intro that[of "dump_field r st"])
      (auto simp: dumpentry_def needs_read_def dump_field_text Let_def)
next
  case False
  then show ?thesis using assms
    by (intro that[of st]) (auto simp: dumpentry_def needs_read_def field_text_def)
qed

lemma dump_word_ready:
  assumes "os_ready e"
  obtains st' where "dump_word e r st = Inr ((), st')"
    and "stdout st' = stdout st @ word_text r (fst (dev_read e (dev st) (ri_addr r)))"
    and "dev st' = snd (dev_read e (dev st) (ri_addr r))"
    and "maps st' = (ri_addr r AND NOT MAP_MASK) # maps st"
    and "data st' = fst (dev_read e (dev st) (ri_addr r))"
    and "newaddr st' = 0" and "lastaddr st' = ri_addr r"
  using assms
  by (auto simp: dump_word_def getmem_ready print_bits_text printf_def word_text_def Let_def)

lemma dumpentry_read:
  assumes "os_ready e" and "needs_read r st"
  obtains st' where "dumpentry e r st = Inr ((), st')"
    and "stdout st' = stdout st @ word_text r (fst (dev_read e (dev st) (ri_addr r))) @
                      field_text (fst (dev_read e (dev st) (ri_addr r))) r"
    and "dev st' = snd (dev_read e (dev st) (ri_addr r))"
    and "maps st' = (ri_addr r AND NOT MAP_MASK) # maps st"
    and "data st' = fst (dev_read e (dev st) (ri_addr r))"
    and "newaddr st' = 0" and "lastaddr st' = ri_addr r"
proof -
  define st1 where "st1 = (if ri_addr r \<noteq> lastaddr st then st\<lparr>newaddr := 1\<rparr> else st)"
  have n: "newaddr st1 \<noteq> 0" using assms(2) by (auto simp: st1_def needs_read_def)
  obtain st2 where w: "dump_word e r st1 = Inr ((), st2)"
    and s: "stdout st2 = stdout st @ word_text r (fst (dev_read e (dev st) (ri_addr r)))"
    "dev st2 = snd (dev_read e (dev st) (ri_addr r))"
    "maps st2 = (ri_addr r AND NOT MAP_MASK) # maps st"
    "data st2 = fst (dev_read e (dev st) (ri_addr r))" "newaddr st2 = 0" "lastaddr st2 = ri_addr r"
    by (rule dump_word_ready[OF assms(1), of r st1]) (auto simp: st1_def)
  have e: "dumpentry e r st =
      Inr ((), if ri_shift r \<noteq> 0 \<or> ri_mask r \<noteq> 0xffffffff then dump_field r st2 else st2)"
    using n w by (simp add: dumpentry_def Let_def flip: st1_def)
  show ?thesis
  proof (cases "ri_shift r \<noteq> 0 \<or> ri_mask r \<noteq> 0xffffffff")
    case True
    then show ?thesis using e s by (intro that[of "dump_field r st2"]) (simp_all add: dump_field_text)
  next
    case False
    then show ?thesis using e s by (intro that[of st2]) (auto simp: field_text_def)
  qed
qed

text \<open>A dump is a sequence: the rows of a run only print.\<close>

lemma dumpall_append:
  "dumpall e (rs @ qs) st = bindR (dumpall e rs st) (\<lambda>(_, st). dumpall e qs st)"
  by (induction rs arbitrary: st) (auto simp: bindR_def split: sum.splits)

lemma dumpall_run:
  assumes "\<And>q. q \<in> set run \<Longrightarrow> ri_addr q = lastaddr st" and "newaddr st = 0"
  obtains st' where "dumpall e run st = Inr ((), st')"
    and "stdout st' = stdout st @ concat (map (field_text (data st)) run)"
    and "dev st' = dev st" and "maps st' = maps st"
    and "newaddr st' = 0" and "lastaddr st' = lastaddr st"
  using assms
proof (induction run arbitrary: st thesis)
  case Nil
  then show ?case by simp
next
  case (Cons r run)
  have "\<not> needs_read r st" using Cons.prems(2,3) by (simp add: needs_read_def)
  then obtain st1 where s1: "dumpentry e r st = Inr ((), st1)"
    "stdout st1 = stdout st @ field_text (data st) r" "dev st1 = dev st" "maps st1 = maps st"
    "data st1 = data st" "newaddr st1 = newaddr st" "lastaddr st1 = lastaddr st"
    by (rule dumpentry_cached)
  obtain st2 where s2: "dumpall e run st1 = Inr ((), st2)"
    "stdout st2 = stdout st1 @ concat (map (field_text (data st1)) run)" "dev st2 = dev st1"
    "maps st2 = maps st1" "newaddr st2 = 0" "lastaddr st2 = lastaddr st1"
    by (rule Cons.IH[of st1]) (use Cons.prems(2,3) s1 in auto)
  show ?case by (rule Cons.prems(1)[of st2]) (use s1 s2 in simp_all)
qed

text \<open>The addresses a dump reads, one for each run.\<close>

abbreviation read_addrs :: "reg_info list \<Rightarrow> u32 list" where
  "read_addrs rs \<equiv> remdups_adj (map ri_addr rs)"

lemma read_addrs_run:
  "read_addrs (r # rs) = ri_addr r # read_addrs (dropWhile (\<lambda>q. ri_addr q = ri_addr r) rs)"
  by (induction rs) auto

lemma dumpall_report:
  assumes "os_ready e" and "rs \<noteq> [] \<Longrightarrow> needs_read (hd rs) st"
  shows "\<exists>st'. dumpall e rs st = Inr ((), st') \<and>
    stdout st' = stdout st @ fst (report e rs (dev st)) \<and>
    dev st' = snd (report e rs (dev st)) \<and>
    maps st' = rev (map (\<lambda>a. a AND NOT MAP_MASK) (read_addrs rs)) @ maps st"
  using assms(2)
proof (induction rs arbitrary: st rule: length_induct)
  case (1 rs)
  show ?case
  proof (cases rs)
    case Nil
    then show ?thesis by simp
  next
    case (Cons r qs)
    define same :: "reg_info \<Rightarrow> bool" where "same = (\<lambda>q. ri_addr q = ri_addr r)"
    define run where "run = takeWhile same qs"
    define rest where "rest = dropWhile same qs"
    have "needs_read r st" using 1(2) Cons by simp
    then obtain st1 where s1: "dumpentry e r st = Inr ((), st1)"
      "stdout st1 = stdout st @ word_text r (fst (dev_read e (dev st) (ri_addr r))) @
                      field_text (fst (dev_read e (dev st) (ri_addr r))) r"
      "dev st1 = snd (dev_read e (dev st) (ri_addr r))"
      "maps st1 = (ri_addr r AND NOT MAP_MASK) # maps st"
      "data st1 = fst (dev_read e (dev st) (ri_addr r))" "newaddr st1 = 0" "lastaddr st1 = ri_addr r"
      by (rule dumpentry_read[OF assms(1)])
    have in_run: "ri_addr q = lastaddr st1" if "q \<in> set run" for q
      using that s1(7) by (auto simp: run_def same_def dest: set_takeWhileD)
    obtain st2 where s2: "dumpall e run st1 = Inr ((), st2)"
      "stdout st2 = stdout st1 @ concat (map (field_text (data st1)) run)"
      "dev st2 = dev st1" "maps st2 = maps st1" "newaddr st2 = 0" "lastaddr st2 = lastaddr st1"
      by (rule dumpall_run[OF in_run s1(6)])
    have "length rest < length rs"
      using Cons by (simp add: rest_def length_dropWhile_le less_Suc_eq_le)
    moreover have "needs_read (hd rest) st2" if "rest \<noteq> []"
      using that hd_dropWhile[of same qs] s1(7) s2(6) by (simp add: needs_read_def rest_def same_def)
    ultimately obtain st3 where s3: "dumpall e rest st2 = Inr ((), st3)"
      "stdout st3 = stdout st2 @ fst (report e rest (dev st2))"
      "dev st3 = snd (report e rest (dev st2))"
      "maps st3 = rev (map (\<lambda>a. a AND NOT MAP_MASK) (read_addrs rest)) @ maps st2"
      using 1(1) by blast
    have "dumpall e rs st = Inr ((), st3)"
      using s1(1) s2(1) s3(1) dumpall_append[of e run rest st1] Cons
      by (simp add: run_def rest_def)
    moreover have "report e rs (dev st) =
        (word_text r (data st1) @ field_text (data st1) r @ concat (map (field_text (data st1)) run) @
           fst (report e rest (dev st1)), snd (report e rest (dev st1)))"
      by (simp add: Cons Let_def s1(3,5) run_def rest_def flip: same_def)
    moreover have "read_addrs rs = ri_addr r # read_addrs rest"
      unfolding Cons rest_def same_def by (rule read_addrs_run)
    ultimately show ?thesis by (simp add: s1(2,4,5) s2 s3)
  qed
qed

lemma report_reads:
  "snd (report e rs d) = fold (\<lambda>a d. snd (dev_read e d a)) (read_addrs rs) d"
proof (induction e rs d rule: report.induct)
  case (1 e d)
  then show ?case by simp
next
  case (2 e r rs d)
  show ?case using 2[OF refl refl] unfolding read_addrs_run by (simp add: Let_def)
qed

lemma strstr_iff: "strstr s needle \<longleftrightarrow> (\<exists>u v. s = u @ needle @ v)"
proof (induction s)
  case (Cons c s)
  have "take (length needle) (c # s) = needle \<longleftrightarrow> (\<exists>v. c # s = needle @ v)"
    by (metis append_eq_conv_conj append_take_drop_id)
  then show ?case using Cons by (auto simp: Cons_eq_append_conv)
qed auto

lemma dumpmatching_filter:
  "dumpmatching e rs name st = dumpall e (filter (\<lambda>r. strstr (ri_name r) name) rs) st"
  by (induction rs arbitrary: st) (auto simp: bindR_def split_def split: sum.splits)

subsection \<open>Setting a field\<close>

definition embed :: "reg_info \<Rightarrow> u32 \<Rightarrow> u32 \<Rightarrow> u32" where
  "embed r old val =
     old AND NOT (push_bit (ri_shift r) (ri_mask r)) OR push_bit (ri_shift r) (val AND ri_mask r)"

lemma bit_embed:
  "k < 32 \<Longrightarrow> bit (embed r old val) k =
     (if ri_shift r \<le> k \<and> bit (ri_mask r) (k - ri_shift r) then bit val (k - ri_shift r)
      else bit old k)"
  by (auto simp: embed_def bit_simps)

lemma match_loop_count:
  "snd (match_loop name i rs (f, c)) = c + length (filter (\<lambda>r. ri_name r = name) rs)"
  by (induction rs arbitrary: i f c) auto

lemma match_loop_found:
  "filter (\<lambda>r. ri_name r = name) rs = [] \<Longrightarrow> fst (match_loop name i rs (f, c)) = f"
  by (induction rs arbitrary: i) (auto split: if_splits)

lemma match_loop_single:
  "filter (\<lambda>r. ri_name r = name) rs = [r] \<Longrightarrow>
     \<exists>k<length rs. match_loop name i rs (f, c) = (i + k, c + 1) \<and> rs ! k = r"
proof (induction rs arbitrary: i f c)
  case (Cons q rs)
  show ?case
  proof (cases "ri_name q = name")
    case True
    then have n: "filter (\<lambda>r. ri_name r = name) rs = []" and "q = r" using Cons.prems by simp_all
    then show ?thesis
      using True match_loop_found[OF n, of "Suc i" i "Suc c"] match_loop_count[of name "Suc i" rs i "Suc c"]
      by (intro exI[of _ 0]) (simp add: prod_eq_iff)
  next
    case False
    then show ?thesis using Cons.IH[of "Suc i" f c] Cons.prems by fastforce
  qed
qed simp

lemma setreg_single:
  assumes "os_ready e" and "filter (\<lambda>r. ri_name r = name) rs = [r]"
  shows "setreg e rs name val st =
    Inr ((), put_st e (ri_addr r) (embed r (fst (dev_read e (dev st) (ri_addr r))) val)
               (got e (ri_addr r) st))"
proof -
  obtain k where "k < length rs" "match_loop name 0 rs (0, 0) = (k, 1)" "rs ! k = r"
    using match_loop_single[OF assms(2), of 0 0 0] by auto
  then show ?thesis
    by (simp add: setreg_def getmem_ready[OF assms(1)] putmem_ready[OF assms(1)] embed_def Let_def)
qed

lemma setreg_refuse:
  assumes "length (filter (\<lambda>r. ri_name r = name) rs) \<noteq> 1"
  shows "setreg e rs name val st =
    Inl (1, printf (''No or more than one matching register found'' @ newline) st)"
  using assms match_loop_count[of name 0 rs 0 0] by (auto simp: setreg_def split_def Let_def)

lemma field_of_embed:
  assumes "take_bit (32 - ri_shift r) (ri_mask r) = ri_mask r" and "ri_shift r < 32"
  shows "field_value r (embed r old val) = val AND ri_mask r"
proof (rule bit_word_eqI)
  fix k
  assume k: "k < LENGTH(32)"
  have "ri_shift r + k < 32" if "bit (ri_mask r) k"
  proof -
    have "bit (take_bit (32 - ri_shift r) (ri_mask r)) k" using that assms(1) by simp
    then show ?thesis by (auto simp: bit_take_bit_iff)
  qed
  then show "bit (field_value r (embed r old val)) k = bit (val AND ri_mask r) k"
    using k by (auto simp: field_value_def embed_def bit_simps)
qed
end
