(* ===== verification/Pxaregs_Main.thy ===== *)
theory Pxaregs_Main
  imports Pxaregs_Table Pxaregs_Lemmas
begin

text \<open>
  The program \<open>pxaregs\<close> on its table: soundness of the rows, and what each command line does to the
  device and to the output.
\<close>

unbundle bit_operations_syntax

subsection \<open>The rows of the table\<close>

text \<open>
  A row is sound when its address is that of a word, its field lies inside the word, and the shift
  \<open>1 << field\<close> of a row of type \<open><\<close> stays below the width of an \<open>int\<close>.
\<close>

definition row_ok :: "reg_info \<Rightarrow> bool" where
  "row_ok r \<longleftrightarrow>
     ri_addr r AND 3 = 0 \<and> ri_shift r < 32 \<and>
     take_bit (32 - ri_shift r) (ri_mask r) = ri_mask r \<and>
     (ri_type r = CHR ''<'' \<longrightarrow> ri_mask r < 31)"

lemma row_ok_reg:
  "row_ok (reg n a s m t d) \<longleftrightarrow>
     a AND 3 = 0 \<and> s < 32 \<and> take_bit (32 - s) m = m \<and> (t = CHR ''<'' \<longrightarrow> m < 31)"
  by (simp add: row_ok_def reg_def)

text \<open>Keeps the simplifier out of the strings of a row.\<close>

lemma reg_frozen: "reg n a s m t d = reg n a s m t d"
  by (rule refl)

lemma rows_ok_1:
  "list_all row_ok regs_i2c" "list_all row_ok regs_pm" "list_all row_ok regs_pgsr"
  "list_all row_ok regs_clock" "list_all row_ok (regs_gplr01 cfg)" "list_all row_ok (regs_gplr2 cfg)"
  by (simp_all add: regs_i2c_def regs_pm_def regs_pgsr_def regs_clock_def regs_gplr01_def
      regs_gplr2_def row_ok_reg cong: reg_frozen)

lemma rows_ok_2:
  "list_all row_ok regs_gpdr" "list_all row_ok regs_gpsr" "list_all row_ok regs_gpcr"
  "list_all row_ok regs_grer" "list_all row_ok regs_gfer" "list_all row_ok regs_gedr"
  by (simp_all add: regs_gpdr_def regs_gpsr_def regs_gpcr_def regs_grer_def regs_gfer_def
      regs_gedr_def row_ok_reg cong: reg_frozen)

lemma rows_ok_3:
  "list_all row_ok regs_gafr" "list_all row_ok regs_icr" "list_all row_ok regs_timer"
  "list_all row_ok regs_lcd" "list_all row_ok regs_mem" "list_all row_ok regs_mmc"
  "list_all row_ok (regs_cpld cfg)" "list_all row_ok (regs_uart cfg)"
  by (simp_all add: regs_gafr_def regs_icr_def regs_timer_def regs_lcd_def regs_mem_def
      regs_mmc_def regs_cpld_def regs_uart_def row_ok_reg cong: reg_frozen)

lemma regs_sound: "list_all row_ok (regs cfg)"
  by (simp add: regs_def rows_ok_1 rows_ok_2 rows_ok_3)

subsection \<open>The command line\<close>

text \<open>Memory that reads back what was written, for the witnesses.\<close>

definition ram :: "nat \<Rightarrow> (u32 \<Rightarrow> u32) env" where
  "ram w =
     \<lparr>dev_read = (\<lambda>m a. (m a, m)), dev_write = (\<lambda>m a v. m(a := v)), os_open = (\<lambda>_. 3),
      os_mmap = (\<lambda>_. True), long_bits = w\<rparr>"

lemma ram_sel [simp]:
  "dev_read (ram w) = (\<lambda>m a. (m a, m))" "dev_write (ram w) = (\<lambda>m a v. m(a := v))"
  "long_bits (ram w) = w" "os_ready (ram w)"
  by (simp_all add: ram_def os_ready_def)

lemma main_set:
  assumes "os_ready e" and "filter (\<lambda>r. ri_name r = map toupper name) rs = [r]"
    and "sscanf_i (long_bits e) arg = Some val"
  shows "pxaregs_main e rs junk [p, name, arg] st =
    (0, put_st e (ri_addr r) (embed r (fst (dev_read e (dev st) (ri_addr r))) val)
          (got e (ri_addr r) st))"
  using setreg_single[OF assms(1,2)] assms(3) by (simp add: status_def Let_def)

text \<open>
  C28: \<open>pxaregs NAME VALUE\<close> with a name of exactly one row reads the register once, writes it once and
  prints nothing; in the word it writes, the bits of the field come from the value and all the others
  are those read.
\<close>
theorem main_sets_one_field:
  assumes "os_ready e" and "filter (\<lambda>r. ri_name r = map toupper name) rs = [r]"
    and "sscanf_i (long_bits e) arg = Some val"
  shows "\<exists>st' v. pxaregs_main e rs junk [p, name, arg] st = (0, st') \<and> stdout st' = stdout st \<and>
    dev st' = dev_write e (snd (dev_read e (dev st) (ri_addr r))) (ri_addr r) v \<and>
    (\<forall>k<32. bit v k =
       (if ri_shift r \<le> k \<and> bit (ri_mask r) (k - ri_shift r) then bit val (k - ri_shift r)
        else bit (fst (dev_read e (dev st) (ri_addr r))) k))"
  by (rule exI, rule exI, intro conjI, rule main_set[OF assms]) (auto simp: bit_embed)

theorem main_sets_one_field_witness:
  "\<exists>st' v. pxaregs_main (ram 32) regs_i2c 0 [''pxaregs'', ''icr_ma'', ''0''] (init_state (\<lambda>_. 0xff)) =
      (0, st') \<and> stdout st' = [] \<and> dev st' = (\<lambda>_. 0xff)(0x40301690 := v) \<and>
      \<not> bit v 4 \<and> bit v 5"
proof -
  define r where "r = reg ''ICR_MA'' 0x40301690 4 1 CHR ''x'' '' master abort ''"
  define d :: "u32 \<Rightarrow> u32" where "d = (\<lambda>_. 0xff)"
  have u: "map toupper ''icr_ma'' = ''ICR_MA''" by code_simp
  have f: "filter (\<lambda>r. ri_name r = map toupper ''icr_ma'') regs_i2c = [r]"
    unfolding u by (simp add: regs_i2c_def reg_def r_def)
  have v: "sscanf_i (long_bits (ram 32)) ''0'' = Some 0" by simp code_simp
  obtain st' v where s: "pxaregs_main (ram 32) regs_i2c 0 [''pxaregs'', ''icr_ma'', ''0''] (init_state d) = (0, st')"
    "stdout st' = []" "dev st' = d(ri_addr r := v)"
    and b: "\<And>k. k < 32 \<Longrightarrow> bit v k = (if ri_shift r \<le> k \<and> bit (ri_mask r) (k - ri_shift r)
      then bit (0 :: u32) (k - ri_shift r) else bit (d (ri_addr r)) k)"
    using main_sets_one_field[OF _ f v, of 0 "''pxaregs''" "init_state d"]
    by (auto simp: init_state_def simp del: pxaregs_main.simps)
  have "ri_addr r = 0x40301690" "\<not> bit v 4" "bit v 5"
    using b[of 4] b[of 5] by (simp_all add: r_def reg_def d_def)
  then show ?thesis using s unfolding d_def by metis
qed

text \<open>
  whatever the value, a name that no row or several rows have ends in exit status 1 before
  \<open>/dev/mem\<close> is opened: the device is neither read nor written.
\<close>
theorem main_refuses_ambiguous:
  assumes "length (filter (\<lambda>r. ri_name r = map toupper name) rs) \<noteq> 1"
  shows "pxaregs_main e rs junk [p, name, arg] st =
    (1, printf (''No or more than one matching register found'' @ newline) st)"
  by (simp add: setreg_refuse[OF assms] status_def Let_def)

theorem main_refuses_ambiguous_witness:
  "pxaregs_main (ram 32) regs_i2c 0 [''pxaregs'', ''icr_x'', ''1''] (init_state (\<lambda>_. 0)) =
    (1, printf (''No or more than one matching register found'' @ newline) (init_state (\<lambda>_. 0)))"
proof -
  have u: "map toupper ''icr_x'' = ''ICR_X''" by code_simp
  have "length (filter (\<lambda>r. ri_name r = map toupper ''icr_x'') regs_i2c) \<noteq> 1"
    unfolding u by (simp add: regs_i2c_def reg_def)
  then show ?thesis by (rule main_refuses_ambiguous)
qed

definition uartd_names :: "string list" where
  "uartd_names =
     [''UARTD_RHR'', ''UARTD_IER'', ''UARTD_FCR'', ''UARTD_LCR'', ''UARTD_MCR'', ''UARTD_LSR'',
      ''UARTD_MSR'', ''UARTD_SPR'']"

lemma uart_names:
  assumes "CONFIG_ARCH_RAMSES cfg"
  shows "map ri_name (regs_uart cfg) =
    map ri_name (take 16 (regs_uart cfg)) @ uartd_names @ uartd_names"
  using assms by (simp add: regs_uart_def uartd_names_def reg_def)

text \<open>
  built for the RAMSES board the table has two rows for every register of UART D (the block of
  UART C carries the names of UART D), so none of them can be set.
\<close>
theorem main_cannot_set_uartd:
  assumes "CONFIG_ARCH_RAMSES cfg"
    and "map toupper name \<in> set uartd_names"
  shows "fst (pxaregs_main e (regs cfg) junk [p, name, arg] st) = 1 \<and>
    dev (snd (pxaregs_main e (regs cfg) junk [p, name, arg] st)) = dev st"
proof -
  define P :: "reg_info \<Rightarrow> bool" where "P = (\<lambda>r. ri_name r = map toupper name)"
  have "0 < length (filter (\<lambda>n. n = map toupper name) uartd_names)"
    using assms(2) by (auto simp: filter_empty_conv)
  then have "2 \<le> length (filter (\<lambda>n. n = map toupper name) (map ri_name (regs_uart cfg)))"
    unfolding uart_names[OF assms(1)] by (simp del: length_greater_0_conv)
  then have "2 \<le> length (filter P (regs_uart cfg))" by (simp add: filter_map o_def P_def)
  then have "length (filter P (regs cfg)) \<noteq> 1" by (simp add: regs_def)
  then show ?thesis
    by (simp add: setreg_refuse P_def status_def Let_def printf_def)
qed

theorem main_cannot_set_uartd_witness:
  "fst (pxaregs_main (ram 32) (regs \<lparr>CONFIG_ARCH_RAMSES = True, CONFIG_ARCH_PXA_IDP = False\<rparr>) 0
      [''pxaregs'', ''UARTD_LCR'', ''1''] (init_state (\<lambda>_. 0))) = 1"
proof -
  have "map toupper ''UARTD_LCR'' = ''UARTD_LCR''" by code_simp
  then show ?thesis
    using main_cannot_set_uartd[of "\<lparr>CONFIG_ARCH_RAMSES = True, CONFIG_ARCH_PXA_IDP = False\<rparr>"
        "''UARTD_LCR''" "ram 32" 0 "''pxaregs''" "''1''" "init_state (\<lambda>_. 0)"]
    by (simp add: uartd_names_def del: pxaregs_main.simps)
qed

text \<open>
  C29: without arguments every row, and with one argument every row whose name contains it in upper
  case, is shown as the specification says: a register is read once for a run of neighbouring rows of
  its address, its word is shown in hexadecimal and binary, and every field of the run is cut out of
  that word. The exit status is 0.
\<close>
theorem main_dump_refines_report:
  assumes "os_ready e"
    and "args = [p] \<and> sel = rs \<or>
         (\<exists>name. args = [p, name] \<and> sel = filter (\<lambda>r. strstr (ri_name r) (map toupper name)) rs)"
  shows "\<exists>st'. pxaregs_main e rs junk args (init_state d) = (0, st') \<and>
    stdout st' = fst (report e sel d) \<and> dev st' = snd (report e sel d)"
  using dumpall_report[OF assms(1), of sel "init_state d"] assms(2)
  by (auto simp: status_def dumpmatching_filter init_state_def needs_read_def)

theorem main_dump_refines_report_witness:
  "\<exists>st'. pxaregs_main (ram 32) regs_i2c 0 [''pxaregs''] (init_state (\<lambda>_. 5)) = (0, st') \<and>
    stdout st' = fst (report (ram 32) regs_i2c (\<lambda>_. 5)) \<and>
    dev st' = snd (report (ram 32) regs_i2c (\<lambda>_. 5))"
  by (rule main_dump_refines_report) simp_all

text \<open>
  a full dump reads, in the order of the table, the address of each run of rows once and writes
  nothing; every read leaves one more mapping of its page, because \<open>munmap (0, MAP_SIZE)\<close> releases
  none.
\<close>
theorem main_dump_reads_and_leaks:
  assumes "os_ready e"
  shows "\<exists>st'. pxaregs_main e rs junk [p] (init_state d) = (0, st') \<and>
    dev st' = fold (\<lambda>a d. snd (dev_read e d a)) (remdups_adj (map ri_addr rs)) d \<and>
    maps st' = rev (map (\<lambda>a. a AND NOT MAP_MASK) (remdups_adj (map ri_addr rs)))"
  using dumpall_report[OF assms, of rs "init_state d"]
  by (auto simp: status_def report_reads init_state_def needs_read_def)

theorem main_dump_reads_and_leaks_witness:
  "\<exists>st'. pxaregs_main (ram 32) (regs default_config) 0 [''pxaregs''] (init_state (\<lambda>_. 5)) = (0, st') \<and>
    dev st' = fold (\<lambda>a d. snd (dev_read (ram 32) d a))
      (remdups_adj (map ri_addr (regs default_config))) (\<lambda>_. 5) \<and>
    maps st' = rev (map (\<lambda>a. a AND NOT MAP_MASK)
      (remdups_adj (map ri_addr (regs default_config))))"
  by (rule main_dump_reads_and_leaks) simp

text \<open>
  A device that behaves as memory: a read changes nothing, and a register reads as it was written.
\<close>

definition plain_memory :: "'d env \<Rightarrow> bool" where
  "plain_memory e \<longleftrightarrow>
     (\<forall>d a. snd (dev_read e d a) = d) \<and> (\<forall>d a v. fst (dev_read e (dev_write e d a v) a) = v)"

text \<open>A dump of such a device shows every field of the rows it is given, cut out of its register.\<close>

lemma report_shows:
  assumes "plain_memory e" and "r \<in> set rs"
  shows "\<exists>q\<in>set rs. \<exists>pre mid post. ri_addr q = ri_addr r \<and>
    fst (report e rs d) = pre @ word_text q (fst (dev_read e d (ri_addr r))) @ mid @
      field_text (fst (dev_read e d (ri_addr r))) r @ post"
  using assms(2)
proof (induction rs rule: length_induct)
  case (1 rs)
  obtain q qs where rs: "rs = q # qs" using 1(2) by (cases rs) auto
  define same :: "reg_info \<Rightarrow> bool" where "same = (\<lambda>x. ri_addr x = ri_addr q)"
  define v where "v = fst (dev_read e d (ri_addr q))"
  have pure: "snd (dev_read e d a) = d" for a using assms(1) by (simp add: plain_memory_def)
  have split: "fst (report e rs d) = word_text q v @
      concat (map (field_text v) (q # takeWhile same qs)) @ fst (report e (dropWhile same qs) d)"
    unfolding rs v_def same_def by (simp add: Let_def pure)
  have "r \<in> set (q # takeWhile same qs) \<or> r \<in> set (dropWhile same qs)"
    using 1(2) unfolding rs by (metis Un_iff append_Cons set_append takeWhile_dropWhile_id)
  then show ?case
  proof
    assume r: "r \<in> set (q # takeWhile same qs)"
    then obtain us ws where "q # takeWhile same qs = us @ r # ws" by (meson split_list)
    moreover have "ri_addr q = ri_addr r" using r by (auto simp: same_def dest: set_takeWhileD)
    ultimately show ?thesis unfolding split v_def
      by (intro bexI[of _ q] exI[of _ "[]"] exI[of _ "concat (map (field_text v) us)"]
          exI[of _ "concat (map (field_text v) ws) @ fst (report e (dropWhile same qs) d)"])
        (simp_all add: v_def rs del: report.simps)
  next
    assume "r \<in> set (dropWhile same qs)"
    moreover have "length (dropWhile same qs) < length rs"
      by (simp add: rs length_dropWhile_le less_Suc_eq_le)
    ultimately obtain x pre mid post where x: "x \<in> set (dropWhile same qs)" "ri_addr x = ri_addr r"
      "fst (report e (dropWhile same qs) d) = pre @ word_text x (fst (dev_read e d (ri_addr r))) @
         mid @ field_text (fst (dev_read e d (ri_addr r))) r @ post"
      using 1(1) by blast
    have "x \<in> set rs" using x(1) by (auto simp: rs dest: set_dropWhileD)
    then show ?thesis unfolding split x(3) using x(2)
      by (intro bexI[of _ x] exI[of _ "word_text q v @
            concat (map (field_text v) (q # takeWhile same qs)) @ pre"] exI[of _ mid] exI[of _ post]) simp_all
  qed
qed


lemma lccr3_bpp_row:
  "filter (\<lambda>r. ri_name r = ''LCCR3_BPP'') (regs default_config) =
     [reg ''LCCR3_BPP'' 0x4400000c 24 7 CHR ''<'' ''LCD bits per pixel'']"
proof -
  define P :: "reg_info \<Rightarrow> bool" where "P = (\<lambda>r. ri_name r = ''LCCR3_BPP'')"
  have P: "P (reg n a s m t d) \<longleftrightarrow> n = ''LCCR3_BPP''" for n a s m t d by (simp add: P_def reg_def)
  have "filter P regs_lcd = [reg ''LCCR3_BPP'' 0x4400000c 24 7 CHR ''<'' ''LCD bits per pixel'']"
    by (simp add: regs_lcd_def P cong: reg_frozen)
  moreover have "filter P regs_i2c = []" "filter P regs_pm = []" "filter P regs_pgsr = []"
    "filter P regs_clock = []" "filter P (regs_gplr01 default_config) = []"
    "filter P (regs_gplr2 default_config) = []"
    by (simp_all add: regs_i2c_def regs_pm_def regs_pgsr_def regs_clock_def regs_gplr01_def
      regs_gplr2_def default_config_def P cong: reg_frozen)
  moreover have
    "filter P regs_gpdr = []" "filter P regs_gpsr = []" "filter P regs_gpcr = []"
    "filter P regs_grer = []" "filter P regs_gfer = []" "filter P regs_gedr = []"
    by (simp_all add: regs_gpdr_def regs_gpsr_def regs_gpcr_def regs_grer_def regs_gfer_def
      regs_gedr_def P cong: reg_frozen)
  moreover have "filter P regs_gafr = []" "filter P regs_icr = []" "filter P regs_timer = []"
    "filter P regs_mem = []" "filter P regs_mmc = []"
    "filter P (regs_cpld default_config) = []" "filter P (regs_uart default_config) = []"
    by (simp_all add: regs_gafr_def regs_icr_def regs_timer_def regs_mem_def
      regs_mmc_def regs_cpld_def regs_uart_def default_config_def P cong: reg_frozen)
  ultimately have "filter P (regs default_config) =
      [reg ''LCCR3_BPP'' 0x4400000c 24 7 CHR ''<'' ''LCD bits per pixel'']"
    by (simp add: regs_def)
  then show ?thesis by (simp add: P_def)
qed


text \<open>
  where \<open>long\<close> has 32 bits, as on the PXA, the conversion of a hexadecimal value stops at
  0x7fffffff: \<open>pxaregs NAME 0x...\<close> can never set bit 31 of a register whose name stands for the whole
  word.
\<close>
theorem hex_value_never_sets_bit_31:
  assumes "os_ready e" and "long_bits e = 32"
    and "filter (\<lambda>r. ri_name r = map toupper name) rs = [r]"
    and "ri_shift r = 0" and "ri_mask r = 0xffffffff"
  shows "\<exists>st' v. pxaregs_main e rs junk [p, name, ''0x'' @ digits] st = (0, st') \<and>
    dev st' = dev_write e (snd (dev_read e (dev st) (ri_addr r))) (ri_addr r) v \<and> \<not> bit v 31"
proof -
  define n where "n = scan_digits 16 digits 0"
  define val :: u32 where "val = word_of_int (saturate 32 (int n))"
  have s: "sscanf_i (long_bits e) (''0x'' @ digits) = Some val"
    by (simp add: assms(2) sscanf_i_def isspace_def scan_unsigned_def n_def val_def)
  have "0 \<le> saturate 32 (int n)" "saturate 32 (int n) < 2 ^ 31"
    by (simp_all add: saturate_def)
  then have "val < 2 ^ 31" by (simp add: val_def word_less_def uint_word_of_int)
  then have "\<not> bit val 31" by (rule word_bit_bound) simp
  then have "\<not> bit (embed r (fst (dev_read e (dev st) (ri_addr r))) val) 31"
    using assms(4,5) by (simp add: bit_embed)
  then show ?thesis using main_set[OF assms(1,3) s] by (metis got_sel(1) put_st_sel(1))
qed

theorem hex_value_never_sets_bit_31_witness:
  "\<exists>st' v. pxaregs_main (ram 32) regs_i2c 0 [''pxaregs'', ''ibmr'', ''0x'' @ ''ffffffff'']
      (init_state (\<lambda>_. 0)) = (0, st') \<and>
    dev st' = (\<lambda>_. 0)(0x40301680 := v) \<and> \<not> bit v 31"
proof -
  define r where "r = reg ''IBMR'' 0x40301680 0 0xffffffff CHR ''x'' ''I2C Bus Monitor Register''"
  have u: "map toupper ''ibmr'' = ''IBMR''" by code_simp
  have f: "filter (\<lambda>r. ri_name r = map toupper ''ibmr'') regs_i2c = [r]"
    unfolding u by (simp add: regs_i2c_def reg_def r_def)
  have "ri_addr r = 0x40301680" "ri_shift r = 0" "ri_mask r = 0xffffffff"
    by (simp_all add: r_def reg_def)
  then show ?thesis
    using hex_value_never_sets_bit_31[OF _ _ f, of "ram 32" 0 "''pxaregs''" "''ffffffff''"
        "init_state (\<lambda>_. 0)"]
    by (simp add: init_state_def del: pxaregs_main.simps append.simps)
qed

text \<open>
  \<open>PWMCTL0_SD\<close> and \<open>PWMCTL1_SD\<close> are declared at bit 5, inside the six bits of the prescaler, so
  setting the shutdown flag changes the prescaler shown.
\<close>
theorem pwm_shutdown_overlaps_prescale:
  "\<exists>r q. {r, q} \<subseteq> set (regs cfg) \<and> ri_name r = ''PWMCTL0_SD'' \<and>
     ri_name q = ''PWMCTL0_PRESCALE'' \<and> ri_addr r = ri_addr q \<and>
     (\<forall>old. field_value q (embed r old 1) = field_value q old OR 0x20)"
proof -
  define r where "r = reg ''PWMCTL0_SD'' 0x40B00000 5 1 CHR ''x'' ''PWM0 abrupt shutdown''"
  define q where "q = reg ''PWMCTL0_PRESCALE'' 0x40B00000 0 0x3f CHR ''d'' ''PWM0 Prescale Divisor''"
  have "{r, q} \<subseteq> set regs_timer" by (simp add: regs_timer_def r_def q_def cong: reg_frozen)
  then have "{r, q} \<subseteq> set (regs cfg)" by (auto simp: regs_def)
  moreover have "field_value q (embed r old 1) = field_value q old OR 0x20" for old
  proof -
    have "embed r old 1 = old AND NOT (push_bit 5 1) OR push_bit 5 1"
      by (simp add: embed_def r_def reg_def)
    moreover have "field_value q v = v AND mask 6" for v
      by (simp add: field_value_def q_def reg_def mask_eq_exp_minus_1)
    moreover have "(old AND NOT (push_bit 5 1) OR push_bit 5 1) AND mask 6 =
        (old AND mask 6) OR (push_bit 5 1 :: u32)"
      by (rule bit_word_eqI) (simp only: bit_simps, auto)
    ultimately show ?thesis by simp
  qed
  ultimately show ?thesis by (intro exI[of _ r] exI[of _ q]) (simp add: r_def q_def reg_def)
qed
end
