(* ===== verification/Signgp.thy ===== *)
theory Signgp
  imports C_Numbers
begin

text \<open>
  \<open>signGP.c\<close> of the x-load recipe: it writes \<open><file>.ift\<close>, the length of the file and a load address
  as two 32-bit words, followed by the bytes of the file.

  The host the tool runs on is a parameter (byte order and width of \<open>long\<close>), and so is the set of
  files that can be written. What the C code leaves undefined ends in an error: a file name that does
  not fit the buffers, and a length at which the loop counter, an \<open>int\<close>, would overflow.
\<close>

record host =
  little_endian :: bool
  long_size :: nat             \<comment> \<open>bytes of a \<open>long\<close>: 4 or 8\<close>
  writable :: "string \<Rightarrow> bool"

record world =
  content :: "string \<Rightarrow> byte list option"
  printed :: string

datatype stop = Exit | Buffer_overflow | Int_overflow

definition FILENAME_MAX :: nat where "FILENAME_MAX = 4096"

text \<open>\<open>n\<close> bytes of a number, least significant first.\<close>

fun le_bytes :: "nat \<Rightarrow> nat \<Rightarrow> byte list" where
  "le_bytes 0 v = []"
| "le_bytes (Suc n) v = of_nat v # le_bytes n (v div 256)"

text \<open>\<open>fwrite (&v, 1, 4, f)\<close> of an \<open>unsigned long\<close>: the first four bytes of its memory.\<close>

definition long_bytes :: "host \<Rightarrow> nat \<Rightarrow> byte list" where
  "long_bytes h v =
     take 4 (if little_endian h then le_bytes (long_size h) v else rev (le_bytes (long_size h) v))"

text \<open>
  The copying loop. \<open>fread\<close> at the end of the file leaves \<open>ch\<close> as it is, so the previous byte would be
  written again.
\<close>

fun copy_loop :: "nat \<Rightarrow> byte \<Rightarrow> byte list \<Rightarrow> byte list" where
  "copy_loop 0 ch inp = []"
| "copy_loop (Suc n) ch inp =
     (case inp of [] \<Rightarrow> ch # copy_loop n ch [] | b # inp \<Rightarrow> b # copy_loop n b inp)"

definition printf_line :: "string \<Rightarrow> world \<Rightarrow> world" where
  "printf_line s w = w\<lparr>printed := printed w @ s @ [CHR 0x0A]\<rparr>"

definition signgp_main :: "host \<Rightarrow> byte \<Rightarrow> string list \<Rightarrow> world \<Rightarrow> (stop \<times> world) + world" where
  "signgp_main h ch argv w =
     (let ifname = (if length argv = 2 \<or> length argv = 3 then argv ! 1 else ''x-load.bin'');
          loadaddr = (if length argv = 3
                      then nat (strtol16 (8 * long_size h) (argv ! 2) mod 2 ^ (8 * long_size h))
                      else 0x40200800);
          ofname = ifname @ ''.ift''
      in if FILENAME_MAX \<le> length ifname \<or> FILENAME_MAX \<le> length ofname
         then Inl (Buffer_overflow, w)
         else case content w ifname of
           None \<Rightarrow> Inl (Exit, printf_line (''Cannot open '' @ ifname) w)
         | Some inp \<Rightarrow>
             (let len = length inp in
              if \<not> writable h ofname then Inl (Exit, printf_line (''Cannot open '' @ ofname) w)
              else if 2 ^ 31 \<le> len then Inl (Int_overflow, w)
              else Inr (w\<lparr>content := (content w)(ofname \<mapsto>
                     long_bytes h len @ long_bytes h loadaddr @ copy_loop len ch inp)\<rparr>)))"

subsection \<open>Reading the image back\<close>

text \<open>What the ROM code reads: two little-endian words and the image.\<close>

fun from_le :: "byte list \<Rightarrow> nat" where
  "from_le [] = 0"
| "from_le (b # bs) = unat b + 256 * from_le bs"

definition read_image :: "byte list \<Rightarrow> nat \<times> nat \<times> byte list" where
  "read_image bs = (from_le (take 4 bs), from_le (take 4 (drop 4 bs)), drop 8 bs)"

lemma length_le_bytes [simp]: "length (le_bytes n v) = n"
  by (induction n arbitrary: v) auto

lemma take_le_bytes: "m \<le> n \<Longrightarrow> take m (le_bytes n v) = le_bytes m v"
proof (induction m arbitrary: n v)
  case (Suc m)
  then show ?case by (cases n) auto
qed simp

lemma from_le_bytes: "from_le (le_bytes n v) = v mod 256 ^ n"
proof (induction n arbitrary: v)
  case (Suc n)
  have "unat (of_nat v :: byte) = v mod 256" by (simp add: unat_of_nat)
  then show ?case using Suc by (simp add: mod_mult2_eq)
qed simp

lemma le_bytes_add: "le_bytes (m + n) v = le_bytes m v @ le_bytes n (v div 256 ^ m)"
  by (induction m arbitrary: v) (auto simp: div_mult2_eq)

lemma le_bytes_0: "le_bytes n 0 = replicate n 0"
  by (induction n) auto

lemma copy_loop_all: "copy_loop (length inp) ch inp = inp"
  by (induction inp arbitrary: ch) auto

text \<open>
  C35: on a little-endian host, for a file shorter than 2 GiB whose names fit the buffers, the image
  reads back as the length of the file, the load address cut to 32 bits, and the unchanged bytes of
  the file; every other file and the output are as before.
\<close>
theorem signgp_round_trip:
  assumes "little_endian h" and "long_size h = 4 \<or> long_size h = 8"
    and "argv = [p] \<and> ifname = ''x-load.bin'' \<and> addr = 0x40200800 \<or>
         argv = [p, ifname] \<and> addr = 0x40200800 \<or>
         (\<exists>a. argv = [p, ifname, a] \<and> addr = strtol16 (8 * long_size h) a)"
    and "length ifname + 4 < 4096" and "content w ifname = Some inp" and "length inp < 2 ^ 31"
    and "writable h (ifname @ ''.ift'')"
  shows "\<exists>img. signgp_main h ch argv w = Inr (w\<lparr>content := (content w)(ifname @ ''.ift'' \<mapsto> img)\<rparr>) \<and>
    read_image img = (length inp, nat (addr mod 2 ^ 32), inp)"
proof -
  have bytes: "long_bytes h v = le_bytes 4 v" for v
    using assms(1,2) by (auto simp: long_bytes_def take_le_bytes)
  have mod: "nat (a mod 2 ^ (8 * long_size h)) mod 256 ^ 4 = nat (a mod 2 ^ 32)" for a :: int
  proof -
    have "(2::int) ^ 32 dvd 2 ^ (8 * long_size h)" using assms(2) by (intro le_imp_power_dvd) auto
    then have "a mod 2 ^ (8 * long_size h) mod 2 ^ 32 = a mod 2 ^ 32" by (rule mod_mod_cancel)
    moreover have "nat x mod 256 ^ 4 = nat (x mod 2 ^ 32)" if "0 \<le> x" for x :: int
      using that by (simp add: nat_mod_distrib)
    ultimately show ?thesis by simp
  qed
  have img: "read_image (le_bytes 4 u @ le_bytes 4 v @ inp) = (u mod 2 ^ 32, v mod 2 ^ 32, inp)" for u v
    by (simp add: read_image_def from_le_bytes)
  show ?thesis
    using assms mod
    by (auto simp: signgp_main_def FILENAME_MAX_def bytes img copy_loop_all Let_def)
qed

theorem signgp_round_trip_witness:
  "\<exists>img. signgp_main \<lparr>little_endian = True, long_size = 8, writable = (\<lambda>_. True)\<rparr> 0
      [''signGP'', ''MLO'', ''80000000''] \<lparr>content = [''MLO'' \<mapsto> [1, 2, 3]], printed = []\<rparr> =
    Inr (\<lparr>content = [''MLO'' \<mapsto> [1, 2, 3]], printed = []\<rparr>
      \<lparr>content := [''MLO'' \<mapsto> [1, 2, 3], ''MLO'' @ ''.ift'' \<mapsto> img]\<rparr>) \<and>
    read_image img = (3, 0x80000000, [1, 2, 3])"
proof -
  define h where "h = \<lparr>little_endian = True, long_size = 8, writable = (\<lambda>_ :: string. True)\<rparr>"
  define w where "w = \<lparr>content = [''MLO'' \<mapsto> [1, 2, 3 :: byte]], printed = []\<rparr>"
  have "strtol16 64 ''80000000'' = 0x80000000"
    by (simp add: strtol16_def hex_prefix_def base_digit_def saturate_def isspace_def)
  then have addr: "0x80000000 = strtol16 (8 * long_size h) ''80000000''" by (simp add: h_def)
  have "\<exists>img. signgp_main h 0 [''signGP'', ''MLO'', ''80000000''] w =
      Inr (w\<lparr>content := (content w)(''MLO'' @ ''.ift'' \<mapsto> img)\<rparr>) \<and>
      read_image img = (length [1, 2, 3 :: byte], nat (0x80000000 mod 2 ^ 32), [1, 2, 3])"
    by (rule signgp_round_trip[of _ _ "''signGP''"]) (use addr in \<open>auto simp: h_def w_def\<close>)
  then show ?thesis by (simp add: h_def w_def numeral_3_eq_3)
qed

text \<open>
  on a big-endian host with a 64-bit \<open>long\<close> the first four bytes of the length are its upper half:
  the header of every image says length 0.
\<close>
theorem signgp_big_endian_64:
  assumes "\<not> little_endian h" and "long_size h = 8" and "length ifname + 4 < 4096"
    and "content w ifname = Some inp" and "length inp < 2 ^ 31" and "writable h (ifname @ ''.ift'')"
  shows "\<exists>img. signgp_main h ch [p, ifname] w = Inr (w\<lparr>content := (content w)(ifname @ ''.ift'' \<mapsto> img)\<rparr>) \<and>
    take 8 img = replicate 8 0"
proof -
  have z: "long_bytes h v = replicate 4 0" if "v < 2 ^ 32" for v
    using assms(1,2) that le_bytes_add[of 4 4 v] by (simp add: long_bytes_def le_bytes_0)
  have "replicate 8 (0 :: byte) = replicate 4 0 @ replicate 4 0"
    using replicate_add[of 4 4 "0 :: byte"] by simp
  then show ?thesis
    using assms(3-6)
    by (intro exI[of _ "replicate 8 0 @ inp"])
      (simp add: signgp_main_def FILENAME_MAX_def z copy_loop_all Let_def)
qed

theorem signgp_big_endian_64_witness:
  "\<exists>img. signgp_main \<lparr>little_endian = False, long_size = 8, writable = (\<lambda>_. True)\<rparr> 0
      [''signGP'', ''MLO''] \<lparr>content = [''MLO'' \<mapsto> [1, 2, 3]], printed = []\<rparr> =
    Inr (\<lparr>content = [''MLO'' \<mapsto> [1, 2, 3]], printed = []\<rparr>
      \<lparr>content := [''MLO'' \<mapsto> [1, 2, 3], ''MLO'' @ ''.ift'' \<mapsto> img]\<rparr>) \<and> take 8 img = replicate 8 0"
  using signgp_big_endian_64[of "\<lparr>little_endian = False, long_size = 8, writable = (\<lambda>_. True)\<rparr>"
      "''MLO''" "\<lparr>content = [''MLO'' \<mapsto> [1, 2, 3]], printed = []\<rparr>" "[1, 2, 3]" 0 "''signGP''"]
  by simp

end
