(* ===== verification/Cmem_Tiles.thy ===== *)
theory Cmem_Tiles
  imports Prelude
begin

text \<open>
  \<open>do_tl\<close> of \<open>cmemdrv.c\<close>: the copy that undoes the tiled layout of an image. Memory is a function
  from the index of a 64-bit word; products and shifts of \<open>unsigned int\<close> wrap at 32 bits. A tile is
  32 rows of 128 bytes, stored row after row; the tiles of a band of 32 rows follow one another.
\<close>

type_synonym u64 = "64 word"

subsection \<open>The copy\<close>

text \<open>The sixteen assignments \<open>*idstp++ = *isrcp++\<close>, from word \<open>s\<close> to word \<open>t\<close>.\<close>

definition copy16 :: "(nat \<Rightarrow> u64) \<Rightarrow> nat \<Rightarrow> nat \<Rightarrow> (nat \<Rightarrow> u64) \<Rightarrow> nat \<Rightarrow> u64" where
  "copy16 src s t dst = fold (\<lambda>k dst. dst(t + k := src (s + k))) [0..<16] dst"

text \<open>The loop over \<open>i\<close>; \<open>n\<close> is \<open>step >> 3\<close>.\<close>

function tl_inner ::
  "(nat \<Rightarrow> u64) \<Rightarrow> nat \<Rightarrow> nat \<Rightarrow> nat \<Rightarrow> nat \<Rightarrow> (nat \<Rightarrow> u64) \<Rightarrow> nat \<Rightarrow> u64" where
  "tl_inner src isrc idst n i dst =
     (if i < n then
        (let isrcp = isrc + (i * 32) mod 2 ^ 32;
             dst = copy16 src isrcp (idst + i) dst;
             dst = copy16 src (isrcp + 16) (idst + i + n) dst
         in tl_inner src isrc idst n (i + 16) dst)
      else dst)"
  by auto
termination by (relation "measure (\<lambda>(_, _, _, n, i, _). n - i)") auto

declare tl_inner.simps [simp del]

text \<open>The loop over \<open>j\<close>, two rows at a time.\<close>

function tl_outer ::
  "(nat \<Rightarrow> u64) \<Rightarrow> nat \<Rightarrow> nat \<Rightarrow> nat \<Rightarrow> (nat \<Rightarrow> u64) \<Rightarrow> nat \<Rightarrow> u64" where
  "tl_outer src height step j dst =
     (if j < height then
        (let yaddr = or (((j div 32 * 32) * step) mod 2 ^ 32) (j mod 32 * 128);
             isrc = yaddr div 8;
             idst = (j * step) mod 2 ^ 32 div 8;
             dst = tl_inner src isrc idst (step div 8) 0 dst
         in tl_outer src height step (j + 2) dst)
      else dst)"
  by auto
termination by (relation "measure (\<lambda>(_, h, _, j, _). h - j)") auto

declare tl_outer.simps [simp del]

definition do_tl ::
  "(nat \<Rightarrow> u64) \<Rightarrow> (nat \<Rightarrow> u64) \<Rightarrow> nat \<Rightarrow> nat \<Rightarrow> nat \<Rightarrow> u64" where
  "do_tl src dst height step = tl_outer src height step 0 dst"

subsection \<open>What it computes\<close>

text \<open>Where word \<open>i\<close> of row \<open>y\<close> is stored in the tiled image with rows of \<open>n\<close> words.\<close>

definition tile_index :: "nat \<Rightarrow> nat \<Rightarrow> nat \<Rightarrow> nat" where
  "tile_index n y i = y div 32 * 32 * n + i div 16 * 512 + y mod 32 * 16 + i mod 16"

lemma copy16_at:
  "copy16 src s t dst x = (if t \<le> x \<and> x < t + 16 then src (s + (x - t)) else dst x)"
proof -
  have "fold (\<lambda>k dst. dst(t + k := src (s + k))) [0..<m] dst x =
      (if t \<le> x \<and> x < t + m then src (s + (x - t)) else dst x)" for m
    by (induction m) (auto simp: less_Suc_eq)
  then show ?thesis by (simp add: copy16_def)
qed

text \<open>One pair of rows: words \<open>i ..< n\<close> of both rows are copied from their place in the tiles.\<close>

lemma tl_inner_at:
  assumes "16 dvd i" and "16 dvd n" and "n * 32 \<le> 2 ^ 32"
  shows "tl_inner src isrc idst n i dst x =
    (if idst + i \<le> x \<and> x < idst + n
     then src (isrc + (x - idst) div 16 * 512 + (x - idst) mod 16)
     else if idst + n + i \<le> x \<and> x < idst + n + n
     then src (isrc + (x - idst - n) div 16 * 512 + 16 + (x - idst - n) mod 16)
     else dst x)"
  using assms(1)
proof (induction "n - i" arbitrary: i dst rule: less_induct)
  case less
  show ?case
  proof (cases "i < n")
    case False
    then show ?thesis by (auto simp: tl_inner.simps[of src isrc idst n i])
  next
    case True
    obtain c m where c: "i = 16 * c" and m: "n = 16 * m" using less.prems assms(2) by (auto elim!: dvdE)
    have room: "i + 16 \<le> n" using True c m by simp
    have wrap: "i * 32 mod 2 ^ 32 = c * 512" using True assms(3) c by simp
    have IH: "tl_inner src isrc idst n (i + 16) dst' x =
      (if idst + (i + 16) \<le> x \<and> x < idst + n
       then src (isrc + (x - idst) div 16 * 512 + (x - idst) mod 16)
       else if idst + n + (i + 16) \<le> x \<and> x < idst + n + n
       then src (isrc + (x - idst - n) div 16 * 512 + 16 + (x - idst - n) mod 16)
       else dst' x)" for dst'
      by (rule less.hyps) (use True less.prems in auto)
    have q: "k div 16 = c \<and> k mod 16 = k - i" if "i \<le> k" "k < i + 16" for k
    proof -
      define r where "r = k - i"
      have "r < 16" "k = r + 16 * c" using that by (simp_all add: r_def c)
      then have "k div 16 = c" "k mod 16 = r" by simp_all
      then show ?thesis by (simp add: r_def)
    qed
    have "tl_inner src isrc idst n i dst x =
      (if idst + (i + 16) \<le> x \<and> x < idst + n
       then src (isrc + (x - idst) div 16 * 512 + (x - idst) mod 16)
       else if idst + n + (i + 16) \<le> x \<and> x < idst + n + n
       then src (isrc + (x - idst - n) div 16 * 512 + 16 + (x - idst - n) mod 16)
       else if idst + i + n \<le> x \<and> x < idst + i + n + 16
       then src (isrc + c * 512 + 16 + (x - (idst + i + n)))
       else if idst + i \<le> x \<and> x < idst + i + 16
       then src (isrc + c * 512 + (x - (idst + i)))
       else dst x)"
      using True by (subst tl_inner.simps) (simp only: if_True Let_def IH copy16_at wrap)
    also have "\<dots> = (if idst + i \<le> x \<and> x < idst + n
     then src (isrc + (x - idst) div 16 * 512 + (x - idst) mod 16)
     else if idst + n + i \<le> x \<and> x < idst + n + n
     then src (isrc + (x - idst - n) div 16 * 512 + 16 + (x - idst - n) mod 16)
     else dst x)"
    proof (cases "idst + i \<le> x \<and> x < idst + i + 16")
      case True
      define r where "r = x - (idst + i)"
      have x: "x = idst + i + r" and r: "r < 16" using True unfolding r_def by linarith+
      show ?thesis using room r q[of "i + r"] by (simp add: x)
    next
      case out: False
      show ?thesis
      proof (cases "idst + n + i \<le> x \<and> x < idst + n + i + 16")
        case True
        define r where "r = x - (idst + n + i)"
        have x: "x = idst + n + i + r" and r: "r < 16" using True unfolding r_def by linarith+
        show ?thesis using room r q[of "i + r"] by (simp add: x)
      next
        case False
        then show ?thesis using out room by auto
      qed
    qed
    finally show ?thesis .
  qed
qed


lemma or_below:
  assumes "(r :: nat) < 4096"
  shows "or (4096 * q) r = 4096 * q + r"
proof -
  have r: "take_bit 12 r = r" using assms by (simp add: take_bit_nat_eq_self_iff)
  have "and (push_bit 12 q) (take_bit 12 r) = 0"
    by (rule bit_eqI) (auto simp: bit_simps)
  then have "or (push_bit 12 q) (take_bit 12 r) = push_bit 12 q + take_bit 12 r"
    by (rule disjunctive_add_eq_or [symmetric])
  then show ?thesis unfolding r by (simp add: push_bit_eq_mult mult.commute)
qed

lemma tile_index_pair:
  assumes "even j" and "i < n"
  shows "tile_index n ((j * n + i) div n) ((j * n + i) mod n) =
      j div 32 * 32 * n + j mod 32 * 16 + i div 16 * 512 + i mod 16"
    and "tile_index n ((j * n + n + i) div n) ((j * n + n + i) mod n) =
      j div 32 * 32 * n + j mod 32 * 16 + i div 16 * 512 + 16 + i mod 16"
proof -
  have a: "(j * n + i) div n = j" "(j * n + i) mod n = i" using assms(2) by simp_all
  then show "tile_index n ((j * n + i) div n) ((j * n + i) mod n) =
      j div 32 * 32 * n + j mod 32 * 16 + i div 16 * 512 + i mod 16"
    by (simp add: tile_index_def)
  have e: "j * n + n + i = (j + 1) * n + i" by (simp add: algebra_simps)
  have b: "(j * n + n + i) div n = j + 1" "(j * n + n + i) mod n = i"
    unfolding e using assms(2) div_mult_self3[of n "j + 1" i] mod_mult_self3[of "j + 1" n i] by simp_all
  have "(j + 1) div 32 = j div 32" "(j + 1) mod 32 = j mod 32 + 1"
  proof -
    have "even (j mod 32)" using assms(1) by (simp add: dvd_mod_iff)
    then have "Suc (j mod 32) \<noteq> 32" by presburger
    then show "(j + 1) div 32 = j div 32" "(j + 1) mod 32 = j mod 32 + 1"
      by (simp_all add: div_Suc mod_Suc)
  qed
  then show "tile_index n ((j * n + n + i) div n) ((j * n + n + i) mod n) =
      j div 32 * 32 * n + j mod 32 * 16 + i div 16 * 512 + 16 + i mod 16"
    unfolding b by (simp add: tile_index_def)
qed

lemma tl_outer_at:
  assumes "even j" and "even h" and "16 dvd n" and "0 < n" and "h * (n * 8) \<le> 2 ^ 32"
    and "n * 32 \<le> 2 ^ 32"
  shows "tl_outer src h (n * 8) j dst x =
    (if j * n \<le> x \<and> x < h * n then src (tile_index n (x div n) (x mod n)) else dst x)"
  using assms(1)
proof (induction "h - j" arbitrary: j dst rule: less_induct)
  case less
  show ?case
  proof (cases "j < h")
    case False
    then have "h * n \<le> j * n" by simp
    then have "\<not> (j * n \<le> x \<and> x < h * n)" by linarith
    then show ?thesis using False by (auto simp: tl_outer.simps[of src h "n * 8" j])
  next
    case True
    then have two: "j + 2 \<le> h" using less.prems assms(2) by presburger
    obtain m where m: "n = 16 * m" using assms(3) by (auto elim: dvdE)
    have "j * (n * 8) < h * (n * 8)" using True assms(4) by simp
    then have jn: "j * (n * 8) < 2 ^ 32" using assms(5) by linarith
    then have idst: "j * (n * 8) mod 2 ^ 32 div 8 = j * n" by (simp add: mult.assoc[symmetric])
    have "j div 32 * 32 * (n * 8) \<le> j * (n * 8)"
      by (rule mult_right_mono) (use div_mult_mod_eq[of j 32] in linarith, simp)
    then have "j div 32 * 32 * (n * 8) mod 2 ^ 32 = j div 32 * 32 * (n * 8)"
      using jn by (intro mod_less) (rule le_less_trans)
    also have "\<dots> = 4096 * (j div 32 * m)" using m by simp
    finally have "or (j div 32 * 32 * (n * 8) mod 2 ^ 32) (j mod 32 * 128) =
        4096 * (j div 32 * m) + j mod 32 * 128"
      using or_below[of "j mod 32 * 128" "j div 32 * m"] by simp
    then have isrc: "or (j div 32 * 32 * (n * 8) mod 2 ^ 32) (j mod 32 * 128) div 8 =
        j div 32 * 32 * n + j mod 32 * 16"
      using m by simp
    note row = tl_inner_at[OF dvd_0_right assms(3) assms(6), of src "j div 32 * 32 * n + j mod 32 * 16" "j * n"]
    have "tl_outer src h (n * 8) j dst x =
      tl_outer src h (n * 8) (j + 2)
        (tl_inner src (j div 32 * 32 * n + j mod 32 * 16) (j * n) n 0 dst) x"
      using True by (subst tl_outer.simps) (simp only: if_True Let_def isrc idst, simp)
    also have "\<dots> = (if (j + 2) * n \<le> x \<and> x < h * n then src (tile_index n (x div n) (x mod n))
        else tl_inner src (j div 32 * 32 * n + j mod 32 * 16) (j * n) n 0 dst x)"
      by (rule less.hyps) (use True less.prems in auto)
    also have "\<dots> = (if j * n \<le> x \<and> x < h * n then src (tile_index n (x div n) (x mod n)) else dst x)"
    proof -
      have hn: "j * n + n + n \<le> h * n"
        using mult_right_mono[OF two, of n] by (simp add: algebra_simps)
      show ?thesis
      proof (cases "j * n \<le> x \<and> x < j * n + n")
        case True
        then obtain i where "x = j * n + i" "i < n" using le_Suc_ex by auto
        then show ?thesis using hn tile_index_pair(1)[OF less.prems, of i n] by (simp add: row)
      next
        case out1: False
        show ?thesis
        proof (cases "j * n + n \<le> x \<and> x < j * n + n + n")
          case True
          then obtain i where "x = j * n + n + i" "i < n" using le_Suc_ex by auto
          then show ?thesis using hn tile_index_pair(2)[OF less.prems, of i n] by (simp add: row)
        next
          case False
          then have "x < j * n \<or> j * n + n + n \<le> x" using out1 by linarith
          then show ?thesis using hn by (auto simp: row)
        qed
      qed
    qed
    finally show ?thesis .
  qed
qed


text \<open>An odd height is rounded up: the loop writes one row more.\<close>

lemma tl_outer_odd:
  assumes "odd h" and "even j"
  shows "tl_outer src h step j dst = tl_outer src (Suc h) step j dst"
  using assms(2)
proof (induction "h - j" arbitrary: j dst rule: less_induct)
  case less
  show ?case
  proof (cases "j < h")
    case True
    have IH: "tl_outer src h step (j + 2) dst' = tl_outer src (Suc h) step (j + 2) dst'" for dst'
      by (rule less.hyps) (use True less.prems in auto)
    have "j < Suc h" using True by simp
    with True show ?thesis
      unfolding tl_outer.simps[of src h step j] tl_outer.simps[of src "Suc h" step j]
      by (simp only: if_True Let_def IH)
  next
    case False
    then have "h < j" using assms(1) less.prems by (metis linorder_neqE_nat)
    then show ?thesis by (simp add: tl_outer.simps[of src _ step j])
  qed
qed

lemma do_tl_at:
  assumes "128 dvd step" and "0 < step" and "(h + 1) * step \<le> 2 ^ 32" and "step * 4 \<le> 2 ^ 32"
  shows "do_tl src dst h step x =
    (if x < (h + h mod 2) * (step div 8)
     then src (tile_index (step div 8) (x div (step div 8)) (x mod (step div 8))) else dst x)"
proof -
  obtain k where k: "step = 128 * k" using assms(1) by (rule dvdE)
  define n where "n = step div 8"
  define H where "H = h + h mod 2"
  have n: "step = n * 8" "16 dvd n" "0 < n" using k assms(2) by (auto simp: n_def)
  have "even H" by (simp add: H_def)
  have "H * step \<le> (h + 1) * step" by (rule mult_right_mono) (auto simp: H_def)
  then have "H * (n * 8) \<le> 2 ^ 32" using assms(3) n(1) by simp
  moreover have "n * 32 \<le> 2 ^ 32" using assms(4) n(1) by simp
  ultimately have "tl_outer src H (n * 8) 0 dst x =
      (if 0 * n \<le> x \<and> x < H * n then src (tile_index n (x div n) (x mod n)) else dst x)"
    using \<open>even H\<close> n(2,3) by (intro tl_outer_at) auto
  moreover have "tl_outer src h step 0 dst = tl_outer src H step 0 dst"
  proof (cases "even h")
    case True
    then have "H = h" by (simp add: H_def)
    then show ?thesis by (simp only:)
  next
    case False
    then have "H = Suc h" by (simp add: H_def odd_iff_mod_2_eq_one)
    then show ?thesis using tl_outer_odd[OF False even_zero] by (simp only:)
  qed
  ultimately show ?thesis
    using n(1) unfolding do_tl_def H_def [symmetric] n_def [symmetric] by simp
qed

end
