(* ===== verification/Cmemdrv.thy ===== *)
theory Cmemdrv
  imports Cmem_Tiles
begin

text \<open>
  The contiguous-memory driver \<open>cmemdrv.c\<close>: module start and stop, and the file operations of its
  devices.

  What the kernel answers is a parameter (\<open>kernel\<close>): the results of the registration and allocation
  calls and of the address translation. Memory behind an area is a function on all byte offsets from
  its start, so an access outside the area is visible as such. A wild access of the driver itself
  (a null area, an index outside \<open>cmem_areas\<close>) is an error value.
\<close>

unbundle bit_operations_syntax

datatype crash = Null_deref | Out_of_array

definition EINVAL :: int where "EINVAL = 22"
definition ENOMEM :: int where "ENOMEM = 12"
definition MAX_AREA_NUM :: nat where "MAX_AREA_NUM = 4"
definition DEFAULT_AREA_SIZE :: u64 where "DEFAULT_AREA_SIZE = 16 * 1024 * 1024"
definition PAGE_SHIFT :: nat where "PAGE_SHIFT = 12"
definition PAGE_SIZE :: u64 where "PAGE_SIZE = 4096"

record mem_area_data =
  area_size :: u64
  virt_ptr :: u64
  phys_addr :: u64
  area_mem :: "int \<Rightarrow> byte"      \<comment> \<open>memory at an offset from \<open>virt_ptr\<close>\<close>

record mem_access_data =
  area :: "nat option"            \<comment> \<open>index in \<open>cmem_areas\<close>; \<open>None\<close> is the null pointer\<close>
  start_offset :: u32
  offset :: u32
  width :: u32
  height :: u32
  stride :: u32
  locked :: u32
  tl :: u32

datatype direction = From_device | To_device
datatype sync = For_device u64 u32 direction | For_cpu u64 u32 direction

record drv =
  chrdev :: bool
  cls :: bool
  devices :: "nat list"           \<comment> \<open>minors of the live devices, newest first\<close>
  cmem_areas :: "mem_area_data option list"
  syncs :: "sync list"            \<comment> \<open>cache maintenance requested so far\<close>

record kernel =
  register_chrdev_result :: int
  class_create_result :: int      \<comment> \<open>0, or the error of the error pointer\<close>
  device_create_result :: "nat \<Rightarrow> int"
  devm_kzalloc_ok :: "nat \<Rightarrow> bool"
  dma_alloc :: "nat \<Rightarrow> (u64 \<times> u64) option"  \<comment> \<open>virtual and bus address\<close>
  area_content :: "nat \<Rightarrow> int \<Rightarrow> byte"
  find_vma :: "u64 \<Rightarrow> bool"
  follow_pfn :: "u64 \<Rightarrow> u64 option"

definition fresh_drv :: drv where
  "fresh_drv = \<lparr>chrdev = False, cls = False, devices = [],
     cmem_areas = replicate MAX_AREA_NUM None, syncs = []\<rparr>"

subsection \<open>Module start and stop\<close>

definition device_destroy :: "nat \<Rightarrow> drv \<Rightarrow> drv" where
  "device_destroy minor s = s\<lparr>devices := remove1 minor (devices s)\<rparr>"

text \<open>\<open>PTR_ALIGN (p, PAGE_SIZE)\<close>.\<close>

definition page_align :: "u64 \<Rightarrow> u64" where
  "page_align p = (p + (PAGE_SIZE - 1)) AND NOT (PAGE_SIZE - 1)"

definition cmemdrv_create_device :: "kernel \<Rightarrow> nat \<Rightarrow> u64 \<Rightarrow> drv \<Rightarrow> int \<times> drv" where
  "cmemdrv_create_device K minor sz s =
     (if device_create_result K minor \<noteq> 0 then (device_create_result K minor, s)
      else let s = s\<lparr>devices := minor # devices s\<rparr> in
        if \<not> devm_kzalloc_ok K minor then (- ENOMEM, device_destroy minor s)
        else case dma_alloc K minor of
          None \<Rightarrow> (- ENOMEM, device_destroy minor s)
        | Some (virt_b, phy_b) \<Rightarrow>
            let v = page_align virt_b;
                a = \<lparr>area_size = sz, virt_ptr = v, phys_addr = phy_b + (v - virt_b),
                     area_mem = area_content K minor\<rparr>
            in (0, s\<lparr>cmem_areas := (cmem_areas s)[minor := Some a]\<rparr>))"

text \<open>The loops that create the devices and, from device \<open>i - 1\<close> down, destroy them.\<close>

fun destroy_down :: "nat \<Rightarrow> drv \<Rightarrow> drv" where
  "destroy_down 0 s = s"
| "destroy_down (Suc i) s = destroy_down i (device_destroy i s)"

fun create_loop :: "kernel \<Rightarrow> nat \<Rightarrow> u64 list \<Rightarrow> drv \<Rightarrow> int \<times> drv" where
  "create_loop K i [] s = (0, s)"
| "create_loop K i (sz # szs) s =
     (let (ret, s) = cmemdrv_create_device K i sz s in
      if ret < 0 then (ret, destroy_down i s) else create_loop K (Suc i) szs s)"

text \<open>
  \<open>bsize\<close> as the module parameters leave it, at most four sizes; \<open>cfg_bsize\<close> is \<open>None\<close> without
  \<open>CFG_USE_FPGA\<close>.
\<close>

definition area_sizes :: "u64 list \<Rightarrow> u64 option \<Rightarrow> u64 list" where
  "area_sizes bsize cfg_bsize =
     (let bsize = (if bsize = [] then [DEFAULT_AREA_SIZE] else bsize) in
      case cfg_bsize of
        None \<Rightarrow> bsize
      | Some b \<Rightarrow> if b \<noteq> 0 \<and> length bsize < MAX_AREA_NUM then bsize @ [b] else bsize)"

definition cmemdrv_init :: "kernel \<Rightarrow> u64 list \<Rightarrow> u64 option \<Rightarrow> drv \<Rightarrow> int \<times> drv" where
  "cmemdrv_init K bsize cfg_bsize s =
     (let szs = area_sizes bsize cfg_bsize;
          ret = register_chrdev_result K
      in if ret < 0 then (ret, s)
      else let s = s\<lparr>chrdev := True\<rparr> in
        if class_create_result K \<noteq> 0 then (class_create_result K, s\<lparr>chrdev := False\<rparr>)
        else let s = s\<lparr>cls := True\<rparr>;
                 (ret, s) = create_loop K 0 szs s
             in if ret < 0 then (ret, s\<lparr>cls := False, chrdev := False\<rparr>) else (0, s))"

fun destroy_up :: "nat \<Rightarrow> nat \<Rightarrow> drv \<Rightarrow> drv" where
  "destroy_up i 0 s = s"
| "destroy_up i (Suc n) s = destroy_up (Suc i) n (device_destroy i s)"

definition cmemdrv_exit :: "u64 list \<Rightarrow> u64 option \<Rightarrow> drv \<Rightarrow> drv" where
  "cmemdrv_exit bsize cfg_bsize s =
     (destroy_up 0 (length (area_sizes bsize cfg_bsize)) s)\<lparr>cls := False, chrdev := False\<rparr>"

subsection \<open>Opening a device\<close>

text \<open>
  \<open>register_chrdev\<close> reserves 256 minors; the minor of the node is used as an index without a test.
\<close>

definition dev_open :: "bool \<Rightarrow> nat \<Rightarrow> drv \<Rightarrow> crash + (int \<times> mem_access_data option)" where
  "dev_open kzalloc_ok minor s =
     (if length (cmem_areas s) \<le> minor then Inl Out_of_array
      else if \<not> kzalloc_ok then Inr (- ENOMEM, None)
      else Inr (0, Some
        \<lparr>area = (case cmem_areas s ! minor of None \<Rightarrow> None | Some _ \<Rightarrow> Some minor),
         start_offset = 0, offset = 0, width = 0, height = 0, stride = 0, locked = 0, tl = 0\<rparr>))"

definition area_of :: "mem_access_data \<Rightarrow> drv \<Rightarrow> crash + mem_area_data" where
  "area_of p s =
     (case area p of
        None \<Rightarrow> Inl Null_deref
      | Some k \<Rightarrow> (case cmem_areas s ! k of None \<Rightarrow> Inl Null_deref | Some a \<Rightarrow> Inr a))"

subsection \<open>Reading and writing\<close>

text \<open>Memory seen as 64-bit words from a byte offset on, and back.\<close>

definition words_at :: "(int \<Rightarrow> byte) \<Rightarrow> int \<Rightarrow> nat \<Rightarrow> u64" where
  "words_at m b i =
     fold (\<lambda>k w. w OR push_bit (8 * k) (ucast (m (b + 8 * int i + int k)))) [0..<8] 0"

definition bytes_of :: "(nat \<Rightarrow> u64) \<Rightarrow> nat \<Rightarrow> byte" where
  "bytes_of f k = ucast (drop_bit (8 * (k mod 8)) (f (k div 8)))"

text \<open>
  \<open>base\<close> is \<open>p->offset + p->start_offset\<close>, both \<open>int\<close>. \<open>uncopied\<close> is what \<open>copy_to_user\<close> and
  \<open>copy_from_user\<close> return, the number of bytes they could not copy.
\<close>

definition base :: "mem_access_data \<Rightarrow> int" where
  "base p = sint (offset p) + sint (start_offset p)"

definition dev_read ::
  "mem_access_data \<Rightarrow> (nat \<Rightarrow> byte) \<Rightarrow> nat \<Rightarrow> nat \<Rightarrow> drv \<Rightarrow> crash + (nat \<times> (nat \<Rightarrow> byte))" where
  "dev_read p buf len uncopied s =
     bindR (area_of p s) (\<lambda>a.
       if tl p \<noteq> 0 then
         Inr (len, bytes_of (do_tl (words_at (area_mem a) (base p))
                (words_at (\<lambda>k. buf (nat k)) 0) (unat (height p)) (unat (stride p))))
       else
         Inr (uncopied,
           \<lambda>k. if k < len - uncopied then area_mem a (base p + int k) else buf k))"

definition dev_write ::
  "mem_access_data \<Rightarrow> (nat \<Rightarrow> byte) \<Rightarrow> nat \<Rightarrow> nat \<Rightarrow> drv \<Rightarrow> crash + (nat \<times> drv)" where
  "dev_write p buf len uncopied s =
     bindR (area_of p s) (\<lambda>a.
       let m = (\<lambda>k. if base p \<le> k \<and> k < base p + int (len - uncopied)
                    then buf (nat (k - base p)) else area_mem a k)
       in Inr (uncopied,
            s\<lparr>cmem_areas := (cmem_areas s)[the (area p) := Some (a\<lparr>area_mem := m\<rparr>)]\<rparr>))"

subsection \<open>Controlling a device\<close>

definition cv_v_to_p :: "kernel \<Rightarrow> u64 \<Rightarrow> int \<times> u64" where
  "cv_v_to_p K vaddr =
     (if \<not> find_vma K vaddr then (- EINVAL, 0)
      else case follow_pfn K (vaddr AND NOT (PAGE_SIZE - 1)) of
        None \<Rightarrow> (- EINVAL, 0)
      | Some pfn \<Rightarrow> (0, push_bit PAGE_SHIFT pfn + (vaddr AND (PAGE_SIZE - 1))))"

text \<open>The commands, with the words of the argument they read.\<close>

datatype command =
    PARAM_SET u32 u32 u32 u32 u32
  | M_LOCK u32 u32 u32
  | M_UNLOCK u32 u32 u32
  | GET_PHYS_ADDR
  | M_ALLOCATE
  | M_UNALLOCATE
  | TRY_CONV u64
  | Unknown

datatype reply = No_reply | Phys u32 | Conv u64

definition sync_dir :: "u32 \<Rightarrow> direction" where
  "sync_dir dir = (if dir = 0 then From_device else To_device)"

definition dev_ioctl ::
  "kernel \<Rightarrow> bool \<Rightarrow> command \<Rightarrow> mem_access_data \<Rightarrow> drv \<Rightarrow>
     crash + (int \<times> reply \<times> mem_access_data \<times> drv)" where
  "dev_ioctl K cached cmd p s =
     bindR (area_of p s) (\<lambda>a.
       let at = (\<lambda>ofs. phys_addr a + word_of_int (sint (start_offset p)) + ucast (ofs :: u32)) in
       case cmd of
         PARAM_SET w h st t ofs \<Rightarrow>
           Inr (0, No_reply, p\<lparr>width := w, height := h, stride := st, tl := t, offset := ofs\<rparr>, s)
       | M_ALLOCATE \<Rightarrow> Inr (0, No_reply, p, s)
       | M_LOCK ofs sz dir \<Rightarrow>
           Inr (0, No_reply, p,
             if cached then s\<lparr>syncs := syncs s @ [For_device (at ofs) sz (sync_dir dir)]\<rparr> else s)
       | M_UNLOCK ofs sz dir \<Rightarrow>
           Inr (0, No_reply, p,
             if cached then s\<lparr>syncs := syncs s @ [For_cpu (at ofs) sz (sync_dir dir)]\<rparr> else s)
       | M_UNALLOCATE \<Rightarrow> Inr (0, No_reply, p, s)
       | GET_PHYS_ADDR \<Rightarrow> Inr (0, Phys (ucast (phys_addr a)), p, s)
       | TRY_CONV v \<Rightarrow> Inr (0, Conv (snd (cv_v_to_p K v)), p, s)
       | Unknown \<Rightarrow> Inr (- EINVAL, No_reply, p, s))"

subsection \<open>Mapping an area\<close>

record mapping_request =
  vm_start :: u64
  vm_end :: u64
  vm_pgoff :: u64

text \<open>The result is an error, or the first page frame, the length, and whether it is uncached.\<close>

definition dev_mmap ::
  "bool \<Rightarrow> mapping_request \<Rightarrow> mem_area_data \<Rightarrow> int + u64 \<times> u64 \<times> bool" where
  "dev_mmap cached v a =
     (if drop_bit PAGE_SHIFT (NOT 0) < vm_pgoff v then Inl (- EINVAL)
      else let off = push_bit PAGE_SHIFT (vm_pgoff v); start = phys_addr a in
        if area_size a < vm_end v - vm_start v + off then Inl (- EINVAL)
        else let off = off + start in
          Inr (drop_bit PAGE_SHIFT off, vm_end v - vm_start v, \<not> cached))"

definition dev_rls :: "mem_access_data \<Rightarrow> int" where
  "dev_rls p = 0"


subsection \<open>Module start and stop: all or nothing\<close>

definition registered :: "drv \<Rightarrow> bool \<times> bool \<times> nat list" where
  "registered s = (chrdev s, cls s, devices s)"

lemma destroy_sel [simp]:
  "chrdev (device_destroy m s) = chrdev s" "cls (device_destroy m s) = cls s"
  "devices (device_destroy m s) = remove1 m (devices s)"
  "cmem_areas (device_destroy m s) = cmem_areas s"
  by (simp_all add: device_destroy_def)

lemma destroy_down_all:
  "devices s = rev [0..<i] \<Longrightarrow>
    registered (destroy_down i s) = (chrdev s, cls s, []) \<and>
    cmem_areas (destroy_down i s) = cmem_areas s"
proof (induction i arbitrary: s)
  case (Suc i)
  then show ?case using Suc.IH[of "device_destroy i s"] by simp
qed (simp add: registered_def)

lemma destroy_up_all:
  "set (devices s) = {i..<i + n} \<Longrightarrow> distinct (devices s) \<Longrightarrow>
    registered (destroy_up i n s) = (chrdev s, cls s, [])"
proof (induction n arbitrary: i s)
  case (Suc n)
  have "set (devices (device_destroy i s)) = {Suc i..<Suc i + n}"
    unfolding destroy_sel set_remove1_eq[OF Suc.prems(2)] Suc.prems(1) by auto
  moreover have "distinct (devices (device_destroy i s))" using Suc.prems(2) by simp
  ultimately have "registered (destroy_up (Suc i) n (device_destroy i s)) =
      (chrdev (device_destroy i s), cls (device_destroy i s), [])"
    by (rule Suc.IH)
  then show ?case by simp
qed (simp add: registered_def)

text \<open>An area of size \<open>sz\<close>: it lies, page aligned, in the allocation it was cut from.\<close>

definition area_ok :: "kernel \<Rightarrow> nat \<Rightarrow> u64 \<Rightarrow> mem_area_data option \<Rightarrow> bool" where
  "area_ok K minor sz x \<longleftrightarrow>
     (\<exists>a vb pb. x = Some a \<and> dma_alloc K minor = Some (vb, pb) \<and> area_size a = sz \<and>
        virt_ptr a = page_align vb \<and> phys_addr a - pb = virt_ptr a - vb)"

lemma create_device_cases:
  assumes "cmemdrv_create_device K i sz s = (ret, s')" and "\<And>m. device_create_result K m \<le> 0"
    and "i < length (cmem_areas s)"
  shows "ret < 0 \<and> registered s' = registered s \<and> cmem_areas s' = cmem_areas s \<or>
    ret = 0 \<and> registered s' = (chrdev s, cls s, i # devices s) \<and>
      (\<exists>x. area_ok K i sz x \<and> cmem_areas s' = (cmem_areas s)[i := x])"
proof (cases "device_create_result K i = 0 \<and> devm_kzalloc_ok K i")
  case False
  then show ?thesis using assms(1) assms(2)[of i]
    by (auto simp: cmemdrv_create_device_def registered_def ENOMEM_def Let_def split: if_splits)
next
  case True
  show ?thesis
  proof (cases "dma_alloc K i")
    case None
    then show ?thesis using assms(1) True
      by (auto simp: cmemdrv_create_device_def registered_def ENOMEM_def Let_def)
  next
    case (Some x)
    define a where "a = \<lparr>area_size = sz, virt_ptr = page_align (fst x),
      phys_addr = snd x + (page_align (fst x) - fst x), area_mem = area_content K i\<rparr>"
    have "area_ok K i sz (Some a)" using Some by (cases x) (simp add: area_ok_def a_def)
    moreover have "ret = 0 \<and> registered s' = (chrdev s, cls s, i # devices s) \<and>
        cmem_areas s' = (cmem_areas s)[i := Some a]"
      using assms(1) True Some
      by (auto simp: cmemdrv_create_device_def registered_def a_def Let_def split_def)
    ultimately show ?thesis by blast
  qed
qed

lemma create_loop_cases:
  assumes "create_loop K i szs s = (ret, s')" and "\<And>m. device_create_result K m \<le> 0"
    and "devices s = rev [0..<i]" and "i + length szs \<le> length (cmem_areas s)"
  shows "ret < 0 \<and> registered s' = (chrdev s, cls s, []) \<or>
    ret = 0 \<and> registered s' = (chrdev s, cls s, rev [0..<i + length szs]) \<and>
      length (cmem_areas s') = length (cmem_areas s) \<and>
      (\<forall>k<i. cmem_areas s' ! k = cmem_areas s ! k) \<and>
      (\<forall>k<length szs. area_ok K (i + k) (szs ! k) (cmem_areas s' ! (i + k)))"
  using assms(1,3,4)
proof (induction szs arbitrary: i s)
  case Nil
  then show ?case by (simp add: registered_def)
next
  case (Cons sz szs)
  obtain r s1 where c: "cmemdrv_create_device K i sz s = (r, s1)" by fastforce
  have "i < length (cmem_areas s)" using Cons.prems(3) by simp
  from create_device_cases[OF c assms(2) this] show ?case
  proof
    assume a: "r < 0 \<and> registered s1 = registered s \<and> cmem_areas s1 = cmem_areas s"
    then have "ret = r" "s' = destroy_down i s1" using Cons.prems(1) c by simp_all
    then show ?thesis using a Cons.prems(2) destroy_down_all[of s1 i] by (simp add: registered_def)
  next
    assume a: "r = 0 \<and> registered s1 = (chrdev s, cls s, i # devices s) \<and>
      (\<exists>x. area_ok K i sz x \<and> cmem_areas s1 = (cmem_areas s)[i := x])"
    then obtain x where x: "area_ok K i sz x" "cmem_areas s1 = (cmem_areas s)[i := x]" by blast
    have "create_loop K (Suc i) szs s1 = (ret, s')" using Cons.prems(1) c a by simp
    moreover have "devices s1 = rev [0..<Suc i]" "Suc i + length szs \<le> length (cmem_areas s1)"
      using a x(2) Cons.prems(2,3) by (auto simp: registered_def)
    ultimately have IH: "ret < 0 \<and> registered s' = (chrdev s1, cls s1, []) \<or>
      ret = 0 \<and> registered s' = (chrdev s1, cls s1, rev [0..<Suc i + length szs]) \<and>
      length (cmem_areas s') = length (cmem_areas s1) \<and>
      (\<forall>k<Suc i. cmem_areas s' ! k = cmem_areas s1 ! k) \<and>
      (\<forall>k<length szs. area_ok K (Suc i + k) (szs ! k) (cmem_areas s' ! (Suc i + k)))"
      by (rule Cons.IH)
    have s1: "chrdev s1 = chrdev s" "cls s1 = cls s" using a by (auto simp: registered_def)
    show ?thesis
    proof (cases "ret < 0")
      case True
      then show ?thesis using IH s1 by auto
    next
      case False
      then have ok: "ret = 0" "registered s' = (chrdev s, cls s, rev [0..<i + length (sz # szs)])"
        "length (cmem_areas s') = length (cmem_areas s)"
        "\<forall>k<Suc i. cmem_areas s' ! k = cmem_areas s1 ! k"
        "\<forall>k<length szs. area_ok K (Suc i + k) (szs ! k) (cmem_areas s' ! (Suc i + k))"
        using IH s1 x(2) by (auto simp del: upt_Suc)
      have "area_ok K (i + k) ((sz # szs) ! k) (cmem_areas s' ! (i + k))" if "k < length (sz # szs)" for k
      proof (cases k)
        case 0
        then show ?thesis using ok(4) x Cons.prems(3) by simp
      next
        case (Suc j)
        then show ?thesis using ok(5) that by simp
      qed
      moreover have "\<forall>k<i. cmem_areas s' ! k = cmem_areas s ! k" using ok(4) x(2) by simp
      ultimately show ?thesis using ok(1-3) by blast
    qed
  qed
qed

text \<open>
  C20: loading the module either fails and leaves no registration, class or device behind, or succeeds
  with the devices 0 to n - 1 and for each of them an area of the requested size, page aligned inside
  the allocated block; unloading then removes everything.
\<close>
theorem cmemdrv_init_all_or_nothing:
  assumes "length bsize \<le> MAX_AREA_NUM" and "\<And>m. device_create_result K m \<le> 0"
    and "class_create_result K \<le> 0"
    and "cmemdrv_init K bsize cfg_bsize fresh_drv = (ret, s)"
  shows "ret < 0 \<and> registered s = (False, False, []) \<or>
    ret = 0 \<and> registered s = (True, True, rev [0..<length (area_sizes bsize cfg_bsize)]) \<and>
      (\<forall>k<length (area_sizes bsize cfg_bsize).
         area_ok K k (area_sizes bsize cfg_bsize ! k) (cmem_areas s ! k)) \<and>
      registered (cmemdrv_exit bsize cfg_bsize s) = (False, False, [])"
proof -
  define szs where "szs = area_sizes bsize cfg_bsize"
  define s0 where "s0 = fresh_drv\<lparr>chrdev := True, cls := True\<rparr>"
  obtain r s1 where l: "create_loop K 0 szs s0 = (r, s1)" by fastforce
  have "length szs \<le> 4"
    using assms(1) by (auto simp: szs_def area_sizes_def MAX_AREA_NUM_def Let_def split: option.splits)
  then have cases: "r < 0 \<and> registered s1 = (True, True, []) \<or>
    r = 0 \<and> registered s1 = (True, True, rev [0..<length szs]) \<and>
      (\<forall>k<length szs. area_ok K k (szs ! k) (cmem_areas s1 ! k))"
    using create_loop_cases[OF l assms(2)] by (auto simp: s0_def fresh_drv_def MAX_AREA_NUM_def)
  have exit: "registered (cmemdrv_exit bsize cfg_bsize s1) = (False, False, [])"
    if "devices s1 = rev [0..<length szs]"
    using destroy_up_all[of s1 0 "length szs"] that
    by (auto simp: cmemdrv_exit_def registered_def szs_def)
  show ?thesis
  proof (cases "register_chrdev_result K < 0 \<or> class_create_result K \<noteq> 0")
    case True
    then show ?thesis using assms(3,4)
      by (auto simp: cmemdrv_init_def registered_def fresh_drv_def Let_def split: if_splits)
  next
    case False
    then have "cmemdrv_init K bsize cfg_bsize fresh_drv =
        (if r < 0 then (r, s1\<lparr>cls := False, chrdev := False\<rparr>) else (0, s1))"
      using l by (simp add: cmemdrv_init_def s0_def szs_def Let_def)
    then show ?thesis using assms(4) cases exit
      by (auto simp: registered_def szs_def split: if_splits)
  qed
qed

text \<open>A kernel that answers every call, with the blocks at 0x100800, 0x200800, ...\<close>

definition good_kernel :: kernel where
  "good_kernel = \<lparr>register_chrdev_result = 0, class_create_result = 0,
     device_create_result = (\<lambda>_. 0), devm_kzalloc_ok = (\<lambda>_. True),
     dma_alloc = (\<lambda>m. Some (of_nat (m + 1) * 0x100000 + 0x800, of_nat (m + 1) * 0x100000 + 0x800)),
     area_content = (\<lambda>_ _. 0), find_vma = (\<lambda>_. True), follow_pfn = Some\<rparr>"

theorem cmemdrv_init_all_or_nothing_witness:
  "registered (snd (cmemdrv_init good_kernel [4096] (Some 8192) fresh_drv)) = (True, True, [1, 0])"
proof -
  obtain ret s where i: "cmemdrv_init good_kernel [4096] (Some 8192) fresh_drv = (ret, s)" by fastforce
  have "0 \<le> ret"
    using i by (simp add: cmemdrv_init_def area_sizes_def good_kernel_def MAX_AREA_NUM_def
      cmemdrv_create_device_def Let_def)
  then show ?thesis
    using cmemdrv_init_all_or_nothing[OF _ _ _ i] i
    by (auto simp: good_kernel_def MAX_AREA_NUM_def area_sizes_def)
qed

subsection \<open>Mapping\<close>

lemma unat_sum64: "unat (a :: u64) + unat b < 2 ^ 64 \<Longrightarrow> unat (a + b) = unat a + unat b"
  by (simp add: unat_word_ariths)

lemma unat_page:
  assumes "unat (w :: u64) * 4096 < 2 ^ 64"
  shows "unat (push_bit 12 w) = unat w * 4096"
proof -
  have "push_bit 12 (unat w) = unat w * 4096" by (simp add: push_bit_eq_mult)
  then show ?thesis
    using assms unfolding unsigned_push_bit_eq by (simp add: take_bit_nat_eq_self)
qed

lemma unat_frame: "unat (drop_bit 12 (w :: u64)) = unat w div 4096"
  by (simp add: drop_bit_eq_div unat_div)

lemma page_aligned: "(w :: u64) AND 0xfff = 0 \<Longrightarrow> unat w mod 4096 = 0"
proof -
  assume "w AND 0xfff = 0"
  then have "take_bit 12 w = 0" by (simp add: take_bit_eq_mask mask_eq_exp_minus_1)
  then have "take_bit 12 (unat w) = 0" by (metis unsigned_take_bit_eq unsigned_0)
  then show ?thesis by (simp add: take_bit_eq_mod)
qed

text \<open>
  C21: a mapping the driver accepts lies inside the area, provided that the requested range does not
  reach beyond the 64-bit file offsets and the area does not reach beyond the address space. Without
  the first condition the sum in the test wraps around (\<open>mmap_wraps\<close>).
\<close>
theorem mmap_inside_area:
  assumes "dev_mmap cached v a = Inr (pfn, len, nc)"
    and "vm_start v \<le> vm_end v"
    and "unat (vm_pgoff v) * 4096 + unat (vm_end v - vm_start v) < 2 ^ 64"
    and "unat (phys_addr a) + unat (area_size a) < 2 ^ 64" and "phys_addr a AND 0xfff = 0"
  shows "unat (phys_addr a) \<le> unat pfn * 4096 \<and>
    unat pfn * 4096 + unat len \<le> unat (phys_addr a) + unat (area_size a)"
proof -
  define off where "off = push_bit 12 (vm_pgoff v)"
  define n where "n = vm_end v - vm_start v"
  have off: "unat off = unat (vm_pgoff v) * 4096"
    unfolding off_def by (rule unat_page) (use assms(3) in linarith)
  have "\<not> area_size a < n + off" and r: "pfn = drop_bit 12 (off + phys_addr a)" "len = n"
    using assms(1) by (auto simp: dev_mmap_def off_def n_def PAGE_SHIFT_def Let_def split: if_splits)
  then have "unat (n + off) \<le> unat (area_size a)" by (simp add: word_le_nat_alt not_less)
  moreover have "unat (n + off) = unat n + unat off"
    by (rule unat_sum64) (use assms(3) off in \<open>simp add: n_def\<close>)
  ultimately have fits: "unat n + unat off \<le> unat (area_size a)" by simp
  have sum: "unat (off + phys_addr a) = unat off + unat (phys_addr a)"
    by (rule unat_sum64) (use fits assms(4) in linarith)
  have "unat (off + phys_addr a) mod 4096 = 0"
    unfolding sum off using page_aligned[OF assms(5)] by simp
  then have "unat pfn * 4096 = unat off + unat (phys_addr a)"
    unfolding r(1) unat_frame using sum by (simp add: mod_eq_0_iff_dvd)
  then show ?thesis using fits r(2) by simp
qed

theorem mmap_inside_area_witness:
  "unat (0x40000000 :: u64) \<le> unat (0x40001 :: u64) * 4096 \<and>
   unat (0x40001 :: u64) * 4096 + unat (0x2000 :: u64) \<le> unat (0x40000000 :: u64) + unat (0x10000 :: u64)"
  by (rule mmap_inside_area[where cached = True and nc = False
        and v = "\<lparr>vm_start = 0x7000, vm_end = 0x9000, vm_pgoff = 1\<rparr>"
        and a = "\<lparr>area_size = 0x10000, virt_ptr = 0, phys_addr = 0x40000000, area_mem = (\<lambda>_. 0)\<rparr>"
        and pfn = "0x40001" and len = "0x2000", simplified mem_area_data.simps])
    (simp_all add: dev_mmap_def PAGE_SHIFT_def)

text \<open>Two pages at the last page offset: the test sees one page, and the mapping starts below the area.\<close>

lemma mmap_wraps:
  "dev_mmap True \<lparr>vm_start = 0x7000, vm_end = 0x9000, vm_pgoff = 0xfffffffffffff\<rparr>
     \<lparr>area_size = 0x10000, virt_ptr = 0, phys_addr = 0x40000000, area_mem = (\<lambda>_. 0)\<rparr> =
   Inr (0x3ffff, 0x2000, False)"
  by (simp add: dev_mmap_def PAGE_SHIFT_def mask_eq_exp_minus_1)

subsection \<open>Reading\<close>

lemma bit_words_at:
  "bit (words_at m b i) j \<longleftrightarrow> j < 64 \<and> bit (m (b + 8 * int i + int (j div 8))) (j mod 8)"
proof -
  have "bit (fold (\<lambda>k w. w OR push_bit (8 * k) (ucast (m (b + 8 * int i + int k)))) [0..<n] (0 :: u64)) j \<longleftrightarrow>
      j < 64 \<and> j < 8 * n \<and> bit (m (b + 8 * int i + int (j div 8))) (j mod 8)" if "n \<le> 8" for n
    using that
  proof (induction n)
    case (Suc n)
    have "bit (push_bit (8 * n) (ucast (m (b + 8 * int i + int n)) :: u64)) j \<longleftrightarrow>
        j < 64 \<and> 8 * n \<le> j \<and> j < 8 * Suc n \<and> bit (m (b + 8 * int i + int (j div 8))) (j mod 8)"
    proof (cases "8 * n \<le> j \<and> j < 8 * Suc n")
      case True
      define r where "r = j - 8 * n"
      have "j = 8 * n + r" "r < 8" using True unfolding r_def by arith+
      then have "j div 8 = n" "j mod 8 = r" "j - 8 * n = r" by simp_all
      then show ?thesis using True Suc.prems by (auto simp: bit_simps)
    next
      case False
      then show ?thesis by (auto simp: bit_simps dest: bit_imp_le_length)
    qed
    then show ?case using Suc by (auto simp: bit_or_iff)
  qed simp
  from this[of 8] show ?thesis by (simp add: words_at_def)
qed

lemma bytes_of_words: "bytes_of (words_at m b) k = m (b + int k)"
proof (rule bit_word_eqI)
  fix t assume "t < LENGTH(8)"
  then have t: "t < 8" by simp
  have "(8 * (k mod 8) + t) div 8 = k mod 8" "(8 * (k mod 8) + t) mod 8 = t" using t by simp_all
  moreover have "8 * (k mod 8) + t < 64" using t mod_less_divisor[of 8 k] by linarith
  moreover have "8 * int (k div 8) + int (k mod 8) = int k"
    by (metis mult_div_mod_eq of_nat_add of_nat_mult of_nat_numeral)
  ultimately show "bit (bytes_of (words_at m b) k) t = bit (m (b + int k)) t"
    using t by (simp add: bytes_of_def bit_simps bit_words_at add.assoc)
qed

text \<open>Where byte \<open>i\<close> of row \<open>y\<close> lies in a tiled image with rows of \<open>step\<close> bytes.\<close>

definition tile_byte :: "nat \<Rightarrow> nat \<Rightarrow> nat \<Rightarrow> nat" where
  "tile_byte step y i = y div 32 * 32 * step + i div 128 * 4096 + y mod 32 * 128 + i mod 128"

lemma tile_index_byte:
  assumes "step = 8 * n" and "i < step"
  shows "8 * tile_index n y (i div 8) + i mod 8 = tile_byte step y i"
proof -
  have "8 * (i div 8 mod 16) + i mod 8 = i mod 128"
    using mod_mult2_eq[of i 8 16] by simp
  moreover have "i div 8 div 16 = i div 128" by (simp add: div_mult2_eq [symmetric])
  ultimately show ?thesis by (simp add: tile_index_def tile_byte_def assms(1) algebra_simps)
qed

text \<open>
  C19: with the tile flag set, where the rows have a positive multiple of 128 bytes, \<open>height + 1\<close> rows
  have at most \<open>2 ^ 32\<close> bytes and four rows do too, a read returns the requested length, whatever it is,
  and writes the first \<open>height\<close> rows of the image, or one more when the height is odd, to the buffer in
  order: byte \<open>i\<close> of row \<open>y\<close> is the byte of the tiled area at \<open>tile_byte\<close>. The bytes of the buffer after
  these rows stay. The requested length plays no part in what is written.
\<close>
theorem dev_read_untiles:
  assumes "area_of p s = Inr a" and "tl p \<noteq> 0"
    and "step = unat (stride p)" and "h = unat (height p)" and "128 dvd step" and "0 < step"
    and "(h + 1) * step \<le> 2 ^ 32" and "step * 4 \<le> 2 ^ 32"
  shows "\<exists>buf'. dev_read p buf len uncopied s = Inr (len, buf') \<and>
    (\<forall>y < h + h mod 2. \<forall>i < step. buf' (y * step + i) = area_mem a (base p + int (tile_byte step y i))) \<and>
    (\<forall>k\<ge>(h + h mod 2) * step. buf' k = buf k)"
proof -
  define n where "n = step div 8"
  define src where "src = words_at (area_mem a) (base p)"
  define dst where "dst = words_at (\<lambda>k. buf (nat k)) 0"
  define buf' where "buf' = bytes_of (do_tl src dst h step)"
  have n: "step = 8 * n" "0 < n" using assms(5,6) by (auto simp: n_def elim: dvdE)
  have at: "do_tl src dst h step x =
      (if x < (h + h mod 2) * n then src (tile_index n (x div n) (x mod n)) else dst x)" for x
    unfolding n_def by (rule do_tl_at[OF assms(5-8)])
  have "dev_read p buf len uncopied s = Inr (len, buf')"
    by (simp add: dev_read_def assms(1-4) buf'_def src_def dst_def)
  moreover have "buf' (y * step + i) = area_mem a (base p + int (tile_byte step y i))"
    if y: "y < h + h mod 2" and i: "i < step" for y i
  proof -
    have e: "y * step + i = 8 * (y * n) + i" by (simp add: n(1))
    have q: "(y * step + i) div 8 = y * n + i div 8" "(y * step + i) mod 8 = i mod 8"
      unfolding e by simp_all
    have i8: "i div 8 < n" using i n(1) by (simp add: less_mult_imp_div_less mult.commute)
    have "y * n + i div 8 < (y + 1) * n" using i8 by simp
    also have "\<dots> \<le> (h + h mod 2) * n" using y by (intro mult_right_mono) auto
    finally have in_img: "y * n + i div 8 < (h + h mod 2) * n" .
    have "do_tl src dst h step (y * n + i div 8) = src (tile_index n y (i div 8))"
      using in_img i8 by (simp add: at)
    then have "buf' (y * step + i) = ucast (drop_bit (8 * (i mod 8)) (src (tile_index n y (i div 8))))"
      by (simp add: buf'_def bytes_of_def q)
    also have "\<dots> = bytes_of src (8 * tile_index n y (i div 8) + i mod 8)"
      by (simp add: bytes_of_def)
    also have "\<dots> = area_mem a (base p + int (tile_byte step y i))"
      unfolding tile_index_byte[OF n(1) i] src_def by (rule bytes_of_words)
    finally show ?thesis .
  qed
  moreover have "buf' k = buf k" if "(h + h mod 2) * step \<le> k" for k
  proof -
    have "(h + h mod 2) * n * 8 \<le> k" using that n(1) by (simp add: ac_simps)
    then have "\<not> k div 8 < (h + h mod 2) * n" by linarith
    then have "buf' k = bytes_of dst k" by (simp add: buf'_def bytes_of_def at)
    then show ?thesis unfolding dst_def bytes_of_words by simp
  qed
  ultimately show ?thesis by blast
qed

text \<open>One area with the byte \<open>k mod 256\<close> at offset \<open>k\<close>, and a reader that asks for a tiled image.\<close>

definition demo_drv :: drv where
  "demo_drv = fresh_drv\<lparr>cmem_areas := [Some \<lparr>area_size = 0x8000, virt_ptr = 0x1000,
     phys_addr = 0x40000000, area_mem = of_int\<rparr>, None, None, None]\<rparr>"

definition demo_reader :: mem_access_data where
  "demo_reader = \<lparr>area = Some 0, start_offset = 0, offset = 0, width = 256, height = 32,
     stride = 256, locked = 0, tl = 1\<rparr>"

theorem dev_read_untiles_witness:
  "\<exists>buf'. dev_read demo_reader (\<lambda>_. 0) 8192 0 demo_drv = Inr (8192, buf') \<and>
    buf' (3 * 256 + 130) = of_int (int (tile_byte 256 3 130)) \<and> buf' 8192 = 0"
proof -
  define a where "a = \<lparr>area_size = 0x8000, virt_ptr = 0x1000, phys_addr = 0x40000000, area_mem = of_int\<rparr>"
  have "area_of demo_reader demo_drv = Inr a"
    by (simp add: demo_reader_def demo_drv_def area_of_def a_def)
  moreover have "tl demo_reader \<noteq> 0" "256 = unat (stride demo_reader)" "32 = unat (height demo_reader)"
    by (simp_all add: demo_reader_def)
  ultimately have "\<exists>buf'. dev_read demo_reader (\<lambda>_. 0) 8192 0 demo_drv = Inr (8192, buf') \<and>
      (\<forall>y < 32 + 32 mod 2. \<forall>i < 256.
         buf' (y * 256 + i) = area_mem a (base demo_reader + int (tile_byte 256 y i))) \<and>
      (\<forall>k\<ge>(32 + 32 mod 2) * 256. buf' k = 0)"
    by (rule dev_read_untiles) simp_all
  moreover have b: "base demo_reader = 0" by (simp add: demo_reader_def base_def)
  moreover have "area_mem a = of_int" by (simp add: a_def)
  moreover have "(3 :: nat) < 32 + 32 mod 2" "(130 :: nat) < 256" "(32 + 32 mod 2) * 256 \<le> (8192 :: nat)"
    by simp_all
  ultimately show ?thesis by (metis add_0)
qed

text \<open>
  a plain read that copies everything returns 0 instead of the length, which the caller takes for
  the end of the file, and copies the bytes behind the offset whether or not they lie in the area.
\<close>
theorem dev_read_ignores_area_size:
  assumes "area_of p s = Inr a" and "tl p = 0"
  shows "\<exists>buf'. dev_read p buf len 0 s = Inr (0, buf') \<and>
    (\<forall>k<len. buf' k = area_mem a (base p + int k))"
  using assms by (simp add: dev_read_def)

theorem dev_read_ignores_area_size_witness:
  "\<exists>buf'. dev_read (demo_reader\<lparr>tl := 0, offset := 0x8000\<rparr>) (\<lambda>_. 0) 16 0 demo_drv = Inr (0, buf') \<and>
    buf' 15 = of_int 0x800f"
proof -
  define p where "p = demo_reader\<lparr>tl := 0, offset := 0x8000\<rparr>"
  define a where "a = \<lparr>area_size = 0x8000, virt_ptr = 0x1000, phys_addr = 0x40000000, area_mem = of_int\<rparr>"
  have "area_of p demo_drv = Inr a"
    by (simp add: p_def demo_reader_def demo_drv_def area_of_def a_def)
  moreover have "tl p = 0" and b: "base p = 0x8000" by (simp_all add: p_def demo_reader_def base_def)
  ultimately obtain buf' where "dev_read p (\<lambda>_. 0) 16 0 demo_drv = Inr (0, buf')"
    and "\<And>k. k < 16 \<Longrightarrow> buf' k = area_mem a (base p + int k)"
    using dev_read_ignores_area_size by blast
  moreover from this(2)[of 15] have "buf' 15 = of_int 0x800f" by (simp add: a_def b)
  ultimately show ?thesis unfolding p_def by blast
qed

text \<open>
  a node whose minor number is not that of a created device is opened all the same: with minor 4 to
  255 the driver reads outside \<open>cmem_areas\<close>, and below 4 the open succeeds and every later read, write
  or control call follows a null pointer.
\<close>
theorem open_of_missing_area:
  assumes "length (cmem_areas s) = MAX_AREA_NUM" and "minor < MAX_AREA_NUM \<Longrightarrow> cmem_areas s ! minor = None"
  shows "if minor < MAX_AREA_NUM
    then \<exists>p. dev_open True minor s = Inr (0, Some p) \<and> dev_read p buf len u s = Inl Null_deref \<and>
      dev_write p buf len u s = Inl Null_deref \<and> dev_ioctl K c cmd p s = Inl Null_deref
    else dev_open True minor s = Inl Out_of_array"
  using assms
  by (auto simp: dev_open_def dev_read_def dev_write_def dev_ioctl_def area_of_def MAX_AREA_NUM_def)

theorem open_of_missing_area_witness:
  "dev_open True 4 demo_drv = Inl Out_of_array"
  using open_of_missing_area[of demo_drv 4] by (simp add: demo_drv_def MAX_AREA_NUM_def)

end
