(* ===== verification/Uio_Base.thy ===== *)
theory Uio_Base
  imports Prelude
begin

text \<open>
  What the two UIO drivers share: registers of a device behind \<open>ioread32\<close> and \<open>iowrite32\<close>, the answer
  of an interrupt handler, and the contract of a handler on a shared line as a locale.

  The device is a parameter: \<open>io_read\<close> and \<open>io_write\<close> act on a state of any type, and reading may
  change it.
\<close>

unbundle bit_operations_syntax

record 'd io =
  io_read :: "'d \<Rightarrow> nat \<Rightarrow> u32 \<times> 'd"
  io_write :: "'d \<Rightarrow> nat \<Rightarrow> u32 \<Rightarrow> 'd"

datatype irqreturn = IRQ_NONE | IRQ_HANDLED

text \<open>The resources a driver takes from the kernel and has to give back.\<close>

record res =
  irq_mappings :: nat
  irq_domains :: nat
  pm_enables :: int
  pm_gets :: int
  clk_enables :: int
  uio_devices :: nat

text \<open>
  A handler that shares its line with other devices must not claim an interrupt its device did not
  raise, nor write to the device then: \<open>stat\<close> is the status register it decides by.
\<close>

locale shared_irq =
  fixes io :: "'d io" and stat :: nat and handler :: "bool \<Rightarrow> 'd \<Rightarrow> irqreturn \<times> 'd"
  assumes idle: "fst (io_read io d stat) = 0 \<Longrightarrow> handler c d = (IRQ_NONE, snd (io_read io d stat))"
    and busy: "fst (io_read io d stat) \<noteq> 0 \<Longrightarrow> fst (handler False d) = IRQ_HANDLED"
begin

lemma claimed_iff_raised:
  "fst (handler False d) = IRQ_HANDLED \<longleftrightarrow> fst (io_read io d stat) \<noteq> 0"
  using idle[of d False] busy[of d] by auto

lemma claimed_or_only_read:
  "fst (handler False d) = IRQ_HANDLED \<or> snd (handler False d) = snd (io_read io d stat)"
  using idle[of d False] busy[of d] by (cases "fst (io_read io d stat) = 0") auto

text \<open>A line with several such devices: it is served exactly when one of them raised it.\<close>

lemma line_served_iff:
  "(\<exists>d\<in>set ds. fst (handler False d) = IRQ_HANDLED) \<longleftrightarrow> (\<exists>d\<in>set ds. fst (io_read io d stat) \<noteq> 0)"
  by (simp add: claimed_iff_raised)

end

end
