(* ===== verification/Uio_Imp.thy ===== *)
theory Uio_Imp
  imports Uio_Base
begin

text \<open>
  The driver \<open>uio_imp.c\<close> of the image recognition blocks: the interrupt handlers and software resets
  of each block, the demultiplexing of the distributor's interrupt, and probing and removal.

  Kernel services are parameters: what a call answers is a field of \<open>platform\<close>, and what the driver
  holds is counted in \<open>res\<close>. Memory from \<open>devm_\<close> functions belongs to the device and is not counted.
\<close>

unbundle bit_operations_syntax

datatype dtype =
    LUIO_DEVICE_IMP | LUIO_DEVICE_IMPSC | LUIO_DEVICE_IMPDES | LUIO_DEVICE_IMRLSX | LUIO_DEVICE_IMRX
  | LUIO_DEVICE_MEM | LUIO_DEVICE_VSP | LUIO_DEVICE_IMPDMAC | LUIO_DEVICE_IMPPSC | LUIO_DEVICE_IMPCNN

definition IMP_NUM_DIST_HWIRQ :: nat where "IMP_NUM_DIST_HWIRQ = 32"

definition ReadReg :: "'d io \<Rightarrow> nat \<Rightarrow> 'd \<Rightarrow> u32 \<times> 'd" where
  "ReadReg io reg_offs d = io_read io d reg_offs"

definition WriteReg :: "'d io \<Rightarrow> nat \<Rightarrow> u32 \<Rightarrow> 'd \<Rightarrow> 'd" where
  "WriteReg io reg_offs v d = io_write io d reg_offs v"

subsection \<open>Interrupt handlers and resets\<close>

definition imp_handler :: "'d io \<Rightarrow> bool \<Rightarrow> 'd \<Rightarrow> irqreturn \<times> 'd" where
  "imp_handler io clear_int d =
     (let (stat, d) = ReadReg io 0x10 d in
      if clear_int \<and> stat AND 0x00000020 \<noteq> 0 then (IRQ_NONE, WriteReg io 0x10 0x00000020 d)
      else if stat \<noteq> 0 then
        (let (mask, d) = ReadReg io 0x14 d
         in (IRQ_HANDLED, WriteReg io 0x14 (mask AND 0x0fffffff) d))
      else (IRQ_NONE, d))"

definition imp_sreset :: "'d io \<Rightarrow> 'd \<Rightarrow> 'd" where
  "imp_sreset io d =
     (let d = WriteReg io 0x08 0x80000000 d;
          d = WriteReg io 0x08 0x00000000 d;
          d = snd (ReadReg io 0x08 d);
          d = WriteReg io 0x08 0x00000001 d
      in WriteReg io 0x14 0 d)"

definition impsc_handler :: "'d io \<Rightarrow> bool \<Rightarrow> 'd \<Rightarrow> irqreturn \<times> 'd" where
  "impsc_handler io clear_int d =
     (let (stat, d) = ReadReg io 0x14 d in
      if clear_int \<and> stat AND 0x00000004 \<noteq> 0 then (IRQ_NONE, WriteReg io 0x18 0x00000004 d)
      else if stat \<noteq> 0 then (IRQ_HANDLED, WriteReg io 0x20 0xffffffff d)
      else (IRQ_NONE, d))"

definition impsc_sreset :: "'d io \<Rightarrow> 'd \<Rightarrow> 'd" where
  "impsc_sreset io d =
     (let d = WriteReg io 0x08 0x00000001 d;
          d = WriteReg io 0x08 0x00000000 d;
          d = snd (ReadReg io 0x08 d)
      in WriteReg io 0x20 0xffffffff d)"

definition impdmac_handler :: "'d io \<Rightarrow> bool \<Rightarrow> 'd \<Rightarrow> irqreturn \<times> 'd" where
  "impdmac_handler io clear_int d =
     (let (stat, d) = ReadReg io 0x08 d in
      if clear_int \<and> stat AND 0x00000040 \<noteq> 0 then (IRQ_NONE, WriteReg io 0x0c 0x00000040 d)
      else if stat \<noteq> 0 then (IRQ_HANDLED, WriteReg io 0x14 0xffffffff d)
      else (IRQ_NONE, d))"

definition impdmac_sreset :: "'d io \<Rightarrow> 'd \<Rightarrow> 'd" where
  "impdmac_sreset io d =
     (let d = WriteReg io 0x04 0x80000000 d;
          d = WriteReg io 0x04 0x00000000 d;
          d = snd (ReadReg io 0x04 d)
      in WriteReg io 0x14 0xffffffff d)"

definition impcnn_handler :: "'d io \<Rightarrow> bool \<Rightarrow> 'd \<Rightarrow> irqreturn \<times> 'd" where
  "impcnn_handler io clear_int d =
     (let (stat, d) = ReadReg io 0x10 d in
      if clear_int \<and> stat AND 0x00000004 \<noteq> 0 then (IRQ_NONE, WriteReg io 0x18 0x00000004 d)
      else if stat \<noteq> 0 then (IRQ_HANDLED, WriteReg io 0x1c 0xffffffff d)
      else (IRQ_NONE, d))"

definition impcnn_sreset :: "'d io \<Rightarrow> 'd \<Rightarrow> 'd" where
  "impcnn_sreset io d =
     (let d = WriteReg io 0x08 0x00000001 d;
          d = WriteReg io 0x08 0x00000000 d;
          d = snd (ReadReg io 0x08 d)
      in WriteReg io 0x1c 0xffffffff d)"

definition impdist_sreset :: "'d io \<Rightarrow> 'd \<Rightarrow> 'd" where
  "impdist_sreset io d = WriteReg io 0x500 0 d"

subsection \<open>The distributor\<close>

text \<open>
  The loop \<open>for_each_set_bit (bit, &stat, IMP_NUM_DIST_HWIRQ)\<close>: the interrupts handed to
  \<open>generic_handle_irq\<close>, in order. \<open>domain_irq\<close> is the array of the driver's private data.
\<close>

definition dispatch :: "nat list \<Rightarrow> u32 \<Rightarrow> nat list" where
  "dispatch domain_irq stat =
     map (\<lambda>b. domain_irq ! b) (filter (\<lambda>b. bit stat b) [0..<IMP_NUM_DIST_HWIRQ])"

definition impdist_handler :: "'d io \<Rightarrow> nat list \<Rightarrow> 'd \<Rightarrow> irqreturn \<times> nat list \<times> 'd" where
  "impdist_handler io domain_irq d =
     (let (sr, d) = ReadReg io 0x100 d;
          (imr, d) = ReadReg io 0x10c d;
          stat = sr AND NOT imr;
          (stat, d) = (if stat AND 0x100 \<noteq> 0
                       then (let (g, d) = ReadReg io 0x110 d in (stat OR g, d)) else (stat, d));
          (stat, d) = (if stat AND 0x200 \<noteq> 0
                       then (let (g, d) = ReadReg io 0x114 d in (stat OR g, d)) else (stat, d));
          (stat, d) = (if stat AND 0x400 \<noteq> 0
                       then (let (g, d) = ReadReg io 0x118 d in (stat OR g, d)) else (stat, d));
          stat = stat AND NOT 0x700
      in if stat = 0 then (IRQ_NONE, [], d) else (IRQ_HANDLED, dispatch domain_irq stat, d))"

definition impdist2_handler :: "'d io \<Rightarrow> nat list \<Rightarrow> 'd \<Rightarrow> irqreturn \<times> nat list \<times> 'd" where
  "impdist2_handler io domain_irq d =
     (let (sr, d) = ReadReg io 0x100 d;
          (imr, d) = ReadReg io 0x10c d;
          stat = sr AND NOT imr;
          (stat, d) = (if stat AND 0x20000000 \<noteq> 0
                       then (let (g, d) = ReadReg io 0x110 d in (stat OR g, d)) else (stat, d));
          (stat, d) = (if stat AND 0x40000000 \<noteq> 0
                       then (let (g, d) = ReadReg io 0x114 d in (stat OR g, d)) else (stat, d));
          (stat, d) = (if stat AND 0x80000000 \<noteq> 0
                       then (let (g, d) = ReadReg io 0x118 d in (stat OR g, d)) else (stat, d));
          stat = stat AND NOT 0xe0000000
      in if stat = 0 then (IRQ_NONE, [], d) else (IRQ_HANDLED, dispatch domain_irq stat, d))"

definition impdist_irq_enable :: "'d io \<Rightarrow> nat \<Rightarrow> 'd \<Rightarrow> 'd" where
  "impdist_irq_enable io hw_irq d =
     (let (v, d) = ReadReg io 0x10c d in WriteReg io 0x10c (v AND NOT (push_bit hw_irq 1)) d)"

definition impdist_irq_disable :: "'d io \<Rightarrow> nat \<Rightarrow> 'd \<Rightarrow> 'd" where
  "impdist_irq_disable io hw_irq d =
     (let (v, d) = ReadReg io 0x10c d in WriteReg io 0x10c (v OR push_bit hw_irq 1) d)"

definition impdist_irq_domain_map :: "nat \<Rightarrow> nat \<Rightarrow> nat list \<Rightarrow> nat list" where
  "impdist_irq_domain_map virq hw domain_irq = domain_irq[hw := virq]"

subsection \<open>The device types\<close>

datatype handler_fn = H_imp | H_impsc | H_impdmac | H_impcnn | H_impdist | H_impdist2
datatype sreset_fn = S_imp | S_impsc | S_impdmac | S_impcnn | S_impdist

record imp_dev_data =
  dtype :: dtype
  handler :: "handler_fn option"
  sreset :: "sreset_fn option"

definition of_imp_match :: "(string \<times> imp_dev_data) list" where
  "of_imp_match =
     [(''renesas,impx4-legacy'',
         \<lparr>dtype = LUIO_DEVICE_IMP, handler = Some H_imp, sreset = Some S_imp\<rparr>),
      (''renesas,impx4-shader'',
         \<lparr>dtype = LUIO_DEVICE_IMPSC, handler = Some H_impsc, sreset = Some S_impsc\<rparr>),
      (''renesas,impx4-distributer'',
         \<lparr>dtype = LUIO_DEVICE_IMPDES, handler = Some H_impdist, sreset = Some S_impdist\<rparr>),
      (''renesas,impx4-memory'',
         \<lparr>dtype = LUIO_DEVICE_MEM, handler = None, sreset = None\<rparr>),
      (''renesas,impx5-dmac'',
         \<lparr>dtype = LUIO_DEVICE_IMPDMAC, handler = Some H_impdmac, sreset = Some S_impdmac\<rparr>),
      (''renesas,impx5+-distributer'',
         \<lparr>dtype = LUIO_DEVICE_IMPDES, handler = Some H_impdist2, sreset = None\<rparr>),
      (''renesas,impx5+-psc'',
         \<lparr>dtype = LUIO_DEVICE_IMPPSC, handler = Some H_impdmac, sreset = Some S_impdmac\<rparr>),
      (''renesas,impx5+-cnn'',
         \<lparr>dtype = LUIO_DEVICE_IMPCNN, handler = Some H_impcnn, sreset = Some S_impcnn\<rparr>)]"

fun run_sreset :: "'d io \<Rightarrow> sreset_fn \<Rightarrow> 'd \<Rightarrow> 'd" where
  "run_sreset io S_imp d = imp_sreset io d"
| "run_sreset io S_impsc d = impsc_sreset io d"
| "run_sreset io S_impdmac d = impdmac_sreset io d"
| "run_sreset io S_impcnn d = impcnn_sreset io d"
| "run_sreset io S_impdist d = impdist_sreset io d"

definition uio_imp_open :: "'d io \<Rightarrow> imp_dev_data \<Rightarrow> 'd \<Rightarrow> int \<times> 'd" where
  "uio_imp_open io dd d =
     (0, case sreset dd of None \<Rightarrow> d | Some f \<Rightarrow> run_sreset io f d)"

definition uio_imp_release :: int where "uio_imp_release = 0"

subsection \<open>Probing and removal\<close>

definition ENXIO :: int where "ENXIO = 6"
definition ENOMEM :: int where "ENOMEM = 12"
definition EINVAL :: int where "EINVAL = 22"

record platform =
  of_node :: bool
  compatible :: string              \<comment> \<open>of the device-tree node\<close>
  platform_data :: "imp_dev_data option"
  kzalloc_info :: bool
  kzalloc_priv :: bool
  mem_resource :: "nat \<Rightarrow> bool"     \<comment> \<open>whether memory resource n is given\<close>
  ioremap_ok :: bool
  dma_ok :: bool
  of_irq :: nat                     \<comment> \<open>\<open>irq_of_parse_and_map\<close>; 0 is no interrupt\<close>
  platform_irq :: int               \<comment> \<open>\<open>platform_get_irq\<close>\<close>
  domain_ok :: bool
  register_result :: int            \<comment> \<open>\<open>uio_register_device\<close>\<close>
  use_fpga :: bool                  \<comment> \<open>\<open>CFG_USE_FPGA\<close>\<close>

datatype crash = Null_deref

text \<open>What \<open>uio_info\<close> and the private data hold of a probed device.\<close>

record probed =
  dev_data :: imp_dev_data
  irq :: nat
  irq_shared :: bool
  has_domain :: bool

definition match_node :: "string \<Rightarrow> imp_dev_data option" where
  "match_node c = map_of of_imp_match c"

text \<open>The first part: \<open>Inl ret\<close> is an early return, \<open>Inr\<close> the description of the device.\<close>

definition get_dev_data :: "platform \<Rightarrow> crash + (int + imp_dev_data)" where
  "get_dev_data P =
     (if \<not> kzalloc_info P then Inr (Inl (- ENOMEM))
      else if of_node P then
        (case match_node (compatible P) of None \<Rightarrow> Inr (Inl (- EINVAL)) | Some dd \<Rightarrow> Inr (Inr dd))
      else (case platform_data P of None \<Rightarrow> Inl Null_deref | Some dd \<Rightarrow> Inr (Inr dd)))"

definition get_memory :: "platform \<Rightarrow> imp_dev_data \<Rightarrow> int option" where
  "get_memory P dd =
     (if \<not> kzalloc_priv P then Some (- ENOMEM)
      else if mem_resource P 0 then (if ioremap_ok P then None else Some (- ENOMEM))
      else if dtype dd = LUIO_DEVICE_MEM then (if dma_ok P then None else Some (- ENOMEM))
      else Some (- EINVAL))"

definition get_irq :: "platform \<Rightarrow> imp_dev_data \<Rightarrow> res \<Rightarrow> (int + nat) \<times> res" where
  "get_irq P dd r =
     (case handler dd of
        None \<Rightarrow> (Inr 0, r)
      | Some _ \<Rightarrow>
          if of_node P then
            (Inr (of_irq P), if of_irq P \<noteq> 0 then r\<lparr>irq_mappings := irq_mappings r + 1\<rparr> else r)
          else if 0 \<le> platform_irq P then (Inr (nat (platform_irq P)), r)
          else if platform_irq P \<noteq> - ENXIO then (Inl (platform_irq P), r)
          else (Inr 0, r))"

definition dispose_irq :: "platform \<Rightarrow> nat \<Rightarrow> res \<Rightarrow> res" where
  "dispose_irq P i r = (if of_node P \<and> i \<noteq> 0 then r\<lparr>irq_mappings := irq_mappings r - 1\<rparr> else r)"

text \<open>From the interrupt demultiplexing to the registration.\<close>

definition bring_up ::
  "'d io \<Rightarrow> platform \<Rightarrow> imp_dev_data \<Rightarrow> nat \<Rightarrow> 'd \<Rightarrow> res \<Rightarrow> int \<times> probed option \<times> 'd \<times> res" where
  "bring_up io P dd i d r =
     (let shared = (i \<noteq> 0 \<and> dtype dd \<noteq> LUIO_DEVICE_IMPDES);
          demux = (i \<noteq> 0 \<and> dtype dd = LUIO_DEVICE_IMPDES)
      in if demux \<and> \<not> domain_ok P then (- ENXIO, None, d, dispose_irq P i r)
      else let
          r = (if demux then r\<lparr>irq_domains := irq_domains r + 1\<rparr> else r);
          r = r\<lparr>pm_enables := pm_enables r + 1\<rparr>;
          r = r\<lparr>pm_gets := pm_gets r + 1\<rparr>;
          d = (if use_fpga P then d else
                 let d = (case sreset dd of None \<Rightarrow> d | Some f \<Rightarrow> run_sreset io f d)
                 in if dtype dd \<noteq> LUIO_DEVICE_MEM
                    then snd (ReadReg io 0x4 (snd (ReadReg io 0x0 d))) else d);
          ret = register_result P
        in if ret \<noteq> 0 then
          (let r = r\<lparr>pm_gets := pm_gets r - 1\<rparr>;
               r = r\<lparr>pm_enables := pm_enables r - 1\<rparr>;
               r = (if demux then r\<lparr>irq_domains := irq_domains r - 1\<rparr> else r)
           in (ret, None, d, dispose_irq P i r))
        else (0, Some \<lparr>dev_data = dd, irq = i, irq_shared = shared, has_domain = demux\<rparr>, d,
              r\<lparr>uio_devices := uio_devices r + 1\<rparr>))"

definition uio_imp_probe ::
  "'d io \<Rightarrow> platform \<Rightarrow> 'd \<Rightarrow> res \<Rightarrow> crash + (int \<times> probed option \<times> 'd \<times> res)" where
  "uio_imp_probe io P d r =
     bindR (get_dev_data P) (\<lambda>x. case x of
       Inl ret \<Rightarrow> Inr (ret, None, d, r)
     | Inr dd \<Rightarrow> (case get_memory P dd of
         Some ret \<Rightarrow> Inr (ret, None, d, r)
       | None \<Rightarrow> (case get_irq P dd r of
           (Inl ret, r) \<Rightarrow> Inr (ret, None, d, r)
         | (Inr i, r) \<Rightarrow> Inr (bring_up io P dd i d r))))"

definition uio_imp_remove :: "platform \<Rightarrow> probed \<Rightarrow> res \<Rightarrow> res" where
  "uio_imp_remove P p r =
     (let r = r\<lparr>uio_devices := uio_devices r - 1\<rparr>;
          r = r\<lparr>pm_gets := pm_gets r - 1\<rparr>;
          r = r\<lparr>pm_enables := pm_enables r - 1\<rparr>;
          r = (if has_domain p then r\<lparr>irq_domains := irq_domains r - 1\<rparr> else r)
      in dispose_irq P (irq p) r)"

subsection \<open>Shared lines\<close>

interpretation imp_line: shared_irq io "0x10" "imp_handler io" for io :: "'d io"
  by unfold_locales (auto simp: imp_handler_def ReadReg_def split_def Let_def)

interpretation impsc_line: shared_irq io "0x14" "impsc_handler io" for io :: "'d io"
  by unfold_locales (auto simp: impsc_handler_def ReadReg_def split_def Let_def)

interpretation impdmac_line: shared_irq io "0x08" "impdmac_handler io" for io :: "'d io"
  by unfold_locales (auto simp: impdmac_handler_def ReadReg_def split_def Let_def)

interpretation impcnn_line: shared_irq io "0x10" "impcnn_handler io" for io :: "'d io"
  by unfold_locales (auto simp: impcnn_handler_def ReadReg_def split_def Let_def)

text \<open>
  the handlers of the legacy, shader, DMA and CNN blocks, whose lines are shared, claim an interrupt
  exactly when the status register of their device is not zero, and do nothing but read that register
  otherwise.
\<close>
theorem handlers_fit_shared_lines:
  "(fst (imp_handler io False d) = IRQ_HANDLED \<longleftrightarrow> fst (io_read io d 0x10) \<noteq> 0) \<and>
   (fst (impsc_handler io False d) = IRQ_HANDLED \<longleftrightarrow> fst (io_read io d 0x14) \<noteq> 0) \<and>
   (fst (impdmac_handler io False d) = IRQ_HANDLED \<longleftrightarrow> fst (io_read io d 0x08) \<noteq> 0) \<and>
   (fst (impcnn_handler io False d) = IRQ_HANDLED \<longleftrightarrow> fst (io_read io d 0x10) \<noteq> 0) \<and>
   (fst (imp_handler io False d) = IRQ_HANDLED \<or> snd (imp_handler io False d) = snd (io_read io d 0x10)) \<and>
   (fst (impsc_handler io False d) = IRQ_HANDLED \<or> snd (impsc_handler io False d) = snd (io_read io d 0x14)) \<and>
   (fst (impdmac_handler io False d) = IRQ_HANDLED \<or> snd (impdmac_handler io False d) = snd (io_read io d 0x08)) \<and>
   (fst (impcnn_handler io False d) = IRQ_HANDLED \<or> snd (impcnn_handler io False d) = snd (io_read io d 0x10))"
  by (intro conjI imp_line.claimed_iff_raised impsc_line.claimed_iff_raised
      impdmac_line.claimed_iff_raised impcnn_line.claimed_iff_raised imp_line.claimed_or_only_read
      impsc_line.claimed_or_only_read impdmac_line.claimed_or_only_read
      impcnn_line.claimed_or_only_read)

subsection \<open>The distributor\<close>

text \<open>Registers that stay as they are while they are read.\<close>

definition reg_file :: "(nat \<Rightarrow> u32) io" where
  "reg_file = \<lparr>io_read = (\<lambda>m a. (m a, m)), io_write = (\<lambda>m a v. m(a := v))\<rparr>"

lemma reg_file_sel [simp]:
  "ReadReg reg_file a m = (m a, m)" "WriteReg reg_file a v m = m(a := v)"
  by (simp_all add: reg_file_def ReadReg_def WriteReg_def)

text \<open>
  The specification: a line is due when it is raised and not masked, or selected by a group whose own
  line (8, 9, 10) is due; the three group lines themselves are not dispatched.
\<close>

definition due :: "(nat \<Rightarrow> u32) \<Rightarrow> nat \<Rightarrow> nat \<Rightarrow> bool" where
  "due m first b \<longleftrightarrow>
     (let direct = (\<lambda>k. bit (m 0x100) k \<and> \<not> bit (m 0x10c) k)
      in b \<notin> {first, first + 1, first + 2} \<and>
         (direct b \<or> direct first \<and> bit (m 0x110) b \<or> direct (first + 1) \<and> bit (m 0x114) b \<or>
          direct (first + 2) \<and> bit (m 0x118) b))"

lemma single_bit:
  "w AND 0x100 \<noteq> 0 \<longleftrightarrow> bit (w :: u32) 8" "w AND 0x200 \<noteq> 0 \<longleftrightarrow> bit w 9" "w AND 0x400 \<noteq> 0 \<longleftrightarrow> bit w 10"
  "w AND 0x20000000 \<noteq> 0 \<longleftrightarrow> bit w 29" "w AND 0x40000000 \<noteq> 0 \<longleftrightarrow> bit w 30"
  "w AND 0x80000000 \<noteq> 0 \<longleftrightarrow> bit w 31"
  using and_exp_eq_0_iff_not_bit[of w 8] and_exp_eq_0_iff_not_bit[of w 9]
    and_exp_eq_0_iff_not_bit[of w 10] and_exp_eq_0_iff_not_bit[of w 29]
    and_exp_eq_0_iff_not_bit[of w 30] and_exp_eq_0_iff_not_bit[of w 31] by simp_all

lemma group_bits:
  "k < 32 \<Longrightarrow> bit (NOT 0x700 :: u32) k \<longleftrightarrow> k \<notin> {8, 9, 10}"
  "k < 32 \<Longrightarrow> bit (NOT 0xe0000000 :: u32) k \<longleftrightarrow> k \<notin> {29, 30, 31}"
proof -
  have a: "(0x700 :: u32) = push_bit 8 (mask 3)" "(0xe0000000 :: u32) = push_bit 29 (mask 3)"
    by (simp_all add: mask_eq_exp_minus_1)
  show "k < 32 \<Longrightarrow> bit (NOT 0x700 :: u32) k \<longleftrightarrow> k \<notin> {8, 9, 10}"
    unfolding a by (simp only: bit_simps) auto
  show "k < 32 \<Longrightarrow> bit (NOT 0xe0000000 :: u32) k \<longleftrightarrow> k \<notin> {29, 30, 31}"
    unfolding a by (simp only: bit_simps) auto
qed

text \<open>The status word after the three group registers, for group lines from \<open>first\<close> on.\<close>

definition folded :: "(nat \<Rightarrow> u32) \<Rightarrow> nat \<Rightarrow> u32" where
  "folded m first =
     (let s = m 0x100 AND NOT (m 0x10c);
          s = (if bit s first then s OR m 0x110 else s);
          s = (if bit s (first + 1) then s OR m 0x114 else s)
      in if bit s (first + 2) then s OR m 0x118 else s)"

lemma folded_due:
  assumes "first \<le> 29" and "\<And>r g. r \<in> {0x110, 0x114, 0x118} \<Longrightarrow> g < 3 \<Longrightarrow> \<not> bit (m r) (first + g)"
    and "b < 32" and "b \<notin> {first, first + 1, first + 2}"
  shows "bit (folded m first) b \<longleftrightarrow> due m first b"
proof -
  have "\<not> bit (m r) first \<and> \<not> bit (m r) (first + 1) \<and> \<not> bit (m r) (first + 2)"
    if "r \<in> {0x110, 0x114, 0x118}" for r
    using assms(2)[OF that, of 0] assms(2)[OF that, of 1] assms(2)[OF that, of 2] by simp
  then have n: "\<not> bit (m 0x110) (first + 1)" "\<not> bit (m 0x110) (first + 2)" "\<not> bit (m 0x114) (first + 2)"
    by simp_all
  have f: "first < 32" "first + 1 < 32" "first + 2 < 32" using assms(1) by simp_all
  show ?thesis
    using n f assms(3,4) by (auto simp: folded_def due_def bit_simps Let_def)
qed

lemma dispatch_due:
  assumes "first \<le> 29" and "\<And>r g. r \<in> {0x110, 0x114, 0x118} \<Longrightarrow> g < 3 \<Longrightarrow> \<not> bit (m r) (first + g)"
    and w: "\<And>k. k < 32 \<Longrightarrow> bit w k \<longleftrightarrow> bit (folded m first) k \<and> k \<notin> {first, first + 1, first + 2}"
  shows "(if w = 0 then (IRQ_NONE, [], m) else (IRQ_HANDLED, dispatch irqs w, m)) =
    (if \<exists>b<32. due m first b
     then (IRQ_HANDLED, map (\<lambda>b. irqs ! b) (filter (due m first) [0..<32]), m)
     else (IRQ_NONE, [], m))"
proof -
  have b: "bit w k \<longleftrightarrow> due m first k" if "k < 32" for k
  proof (cases "k \<in> {first, first + 1, first + 2}")
    case True
    then show ?thesis using w[OF that] by (auto simp: due_def Let_def)
  next
    case False
    then show ?thesis using w[OF that] folded_due[OF assms(1,2) that False] by simp
  qed
  have "w = 0 \<longleftrightarrow> \<not> (\<exists>k<32. bit w k)"
    using bit_word_eqI[of w 0] bit_imp_le_length[of w] by auto
  then have "w = 0 \<longleftrightarrow> \<not> (\<exists>k<32. due m first k)" using b by auto
  moreover have "dispatch irqs w = map (\<lambda>b. irqs ! b) (filter (due m first) [0..<32])"
    unfolding dispatch_def IMP_NUM_DIST_HWIRQ_def
    by (rule arg_cong[where f = "map _"], rule filter_cong) (auto simp: b)
  ultimately show ?thesis by simp
qed

lemma impdist_folded:
  "impdist_handler reg_file irqs m =
    (if folded m 8 AND NOT 0x700 = 0 then (IRQ_NONE, [], m)
     else (IRQ_HANDLED, dispatch irqs (folded m 8 AND NOT 0x700), m))"
  by (simp add: impdist_handler_def folded_def single_bit Let_def)

lemma impdist2_folded:
  "impdist2_handler reg_file irqs m =
    (if folded m 29 AND NOT 0xe0000000 = 0 then (IRQ_NONE, [], m)
     else (IRQ_HANDLED, dispatch irqs (folded m 29 AND NOT 0xe0000000), m))"
  by (simp add: impdist2_handler_def folded_def single_bit Let_def)

text \<open>
  C22: both distributor handlers hand over, in ascending order, exactly the interrupts that are due, and
  report IRQ_NONE exactly when none is, provided that no group register selects a group line. A line is
  due when it is not a group line (8 to 10 of the first distributor, 29 to 31 of the second) and it is
  raised and unmasked, or selected by the register of a group whose own line is raised and unmasked. So
  the group lines only select and are never handed over themselves, and the mask of a single line does
  not hold back what a group selects.
\<close>
theorem distributor_dispatches_due:
  assumes "\<And>r g. r \<in> {0x110, 0x114, 0x118} \<Longrightarrow> g < 3 \<Longrightarrow> \<not> bit (m r) (8 + g) \<and> \<not> bit (n r) (29 + g)"
  shows "impdist_handler reg_file irqs m =
      (if \<exists>b<32. due m 8 b
       then (IRQ_HANDLED, map (\<lambda>b. irqs ! b) (filter (due m 8) [0..<32]), m)
       else (IRQ_NONE, [], m)) \<and>
    impdist2_handler reg_file irqs n =
      (if \<exists>b<32. due n 29 b
       then (IRQ_HANDLED, map (\<lambda>b. irqs ! b) (filter (due n 29) [0..<32]), n)
       else (IRQ_NONE, [], n))"
proof (intro conjI)
  show "impdist_handler reg_file irqs m =
      (if \<exists>b<32. due m 8 b
       then (IRQ_HANDLED, map (\<lambda>b. irqs ! b) (filter (due m 8) [0..<32]), m)
       else (IRQ_NONE, [], m))"
    unfolding impdist_folded
    by (rule dispatch_due) (use assms group_bits(1) in \<open>auto simp: bit_and_iff\<close>)
  show "impdist2_handler reg_file irqs n =
      (if \<exists>b<32. due n 29 b
       then (IRQ_HANDLED, map (\<lambda>b. irqs ! b) (filter (due n 29) [0..<32]), n)
       else (IRQ_NONE, [], n))"
    unfolding impdist2_folded
    by (rule dispatch_due) (use assms group_bits(2) in \<open>auto simp: bit_and_iff\<close>)
qed

text \<open>
  C1: \<open>disable\<close> masks exactly the given line of the distributor and \<open>enable\<close> unmasks exactly it; the
  other mask bits and all other registers stay.
\<close>
theorem distributor_mask_one_line:
  assumes "hw < 32"
  shows "impdist_irq_disable reg_file hw m = m(0x10c := m 0x10c OR push_bit hw 1) \<and>
    (\<forall>k<32. bit (impdist_irq_disable reg_file hw m 0x10c) k = (k = hw \<or> bit (m 0x10c) k)) \<and>
    (\<forall>k<32. bit (impdist_irq_enable reg_file hw m 0x10c) k = (k \<noteq> hw \<and> bit (m 0x10c) k)) \<and>
    (\<forall>a. a \<noteq> 0x10c \<longrightarrow> impdist_irq_enable reg_file hw m a = m a)"
  using assms
  by (auto simp: impdist_irq_disable_def impdist_irq_enable_def bit_simps)

theorem distributor_mask_one_line_witness:
  "impdist_irq_disable reg_file 3 (\<lambda>_. 0) = (\<lambda>_. 0)(0x10c := 8)"
  using distributor_mask_one_line[of 3 "\<lambda>_. 0"] by simp

theorem distributor_dispatches_due_witness:
  "fst (impdist_handler reg_file (map (\<lambda>k. 100 + k) [0..<32])
     ((\<lambda>_. 0)(0x100 := 0x105, 0x10c := 4, 0x110 := 0x30))) = IRQ_HANDLED"
proof -
  define m :: "nat \<Rightarrow> u32" where "m = (\<lambda>_. 0)(0x100 := 0x105, 0x10c := 4, 0x110 := 0x30)"
  have sel: "\<not> bit (m r) (8 + g) \<and> \<not> bit ((\<lambda>_. 0 :: u32) r) (29 + g)"
    if "r \<in> {0x110, 0x114, 0x118}" "g < 3" for r g
  proof -
    have "g = 0 \<or> g = 1 \<or> g = 2" using that(2) by auto
    then show ?thesis using that(1) by (auto simp: m_def)
  qed
  have "impdist_handler reg_file (map (\<lambda>k. 100 + k) [0..<32]) m =
      (if \<exists>b<32. due m 8 b
       then (IRQ_HANDLED, map (\<lambda>b. map (\<lambda>k. 100 + k) [0..<32] ! b) (filter (due m 8) [0..<32]), m)
       else (IRQ_NONE, [], m))"
    by (rule distributor_dispatches_due[OF sel, THEN conjunct1])
  moreover have "due m 8 0" by (simp add: due_def m_def)
  then have "\<exists>b<32. due m 8 b" by (intro exI[of _ 0]) simp
  ultimately show ?thesis unfolding m_def [symmetric] by simp
qed

text \<open>
  The interrupt handler of the legacy block is commented as masking all interrupts; it clears the upper
  four bits of the mask register and keeps the others, where the software reset writes 0.
\<close>

lemma imp_handler_keeps_mask_bits:
  assumes "m 0x10 \<noteq> 0"
  shows "snd (imp_handler reg_file False m) 0x14 = m 0x14 AND 0x0fffffff"
    and "imp_sreset reg_file m 0x14 = 0"
  using assms by (simp_all add: imp_handler_def imp_sreset_def Let_def)

subsection \<open>Probing\<close>

lemma get_irq_balanced:
  "get_irq P dd r = (x, r') \<Longrightarrow> (case x of Inl _ \<Rightarrow> r' = r | Inr i \<Rightarrow> dispose_irq P i r' = r)"
  by (auto simp: get_irq_def dispose_irq_def split: option.splits if_splits)

lemma bring_up_balanced:
  assumes "bring_up io P dd i d r = (ret, p, d', r')"
  shows "case p of None \<Rightarrow> r' = dispose_irq P i r
    | Some q \<Rightarrow> ret = 0 \<and> uio_imp_remove P q r' = dispose_irq P i r"
proof -
  define d1 where "d1 = (if use_fpga P then d else
     let d = (case sreset dd of None \<Rightarrow> d | Some f \<Rightarrow> run_sreset io f d)
     in if dtype dd \<noteq> LUIO_DEVICE_MEM then snd (ReadReg io 0x4 (snd (ReadReg io 0x0 d))) else d)"
  show ?thesis
    using assms
    unfolding bring_up_def d1_def [symmetric] Let_def
    by (cases r) (auto simp: uio_imp_remove_def dispose_irq_def split: if_splits)
qed

text \<open>
  C23: probing follows a null pointer only when there is neither a device-tree node nor platform data.
  Otherwise it fails with every resource given back, or succeeds, and removing the device then gives
  everything back: interrupt mapping, interrupt domain, runtime power management and the UIO device.
\<close>
theorem uio_imp_probe_balanced:
  assumes "kzalloc_info P"
  shows "(uio_imp_probe io P d r = Inl Null_deref \<longleftrightarrow> \<not> of_node P \<and> platform_data P = None) \<and>
    (\<forall>ret p d' r'. uio_imp_probe io P d r = Inr (ret, p, d', r') \<longrightarrow>
       (case p of None \<Rightarrow> r' = r | Some q \<Rightarrow> ret = 0 \<and> uio_imp_remove P q r' = r))"
proof (intro conjI allI impI)
  show "uio_imp_probe io P d r = Inl Null_deref \<longleftrightarrow> \<not> of_node P \<and> platform_data P = None"
    using assms
    by (auto simp: uio_imp_probe_def get_dev_data_def split: option.splits prod.splits sum.splits)
  fix ret p d' r'
  assume "uio_imp_probe io P d r = Inr (ret, p, d', r')"
  then obtain x where x: "get_dev_data P = Inr x" and
    y: "(case x of Inl ret \<Rightarrow> Inr (ret, None, d, r)
     | Inr dd \<Rightarrow> (case get_memory P dd of
         Some ret \<Rightarrow> Inr (ret, None, d, r)
       | None \<Rightarrow> (case get_irq P dd r of
           (Inl ret, r) \<Rightarrow> Inr (ret, None, d, r)
         | (Inr i, r) \<Rightarrow> Inr (bring_up io P dd i d r)))) = (Inr (ret, p, d', r') :: crash + _)"
    by (auto simp: uio_imp_probe_def bindR_Inr_iff)
  show "case p of None \<Rightarrow> r' = r | Some q \<Rightarrow> ret = 0 \<and> uio_imp_remove P q r' = r"
  proof (cases x)
    case (Inl ret0)
    then show ?thesis using y by simp
  next
    case (Inr dd)
    show ?thesis
    proof (cases "get_memory P dd")
      case (Some ret0)
      then show ?thesis using y Inr by simp
    next
      case None
      obtain z r1 where z: "get_irq P dd r = (z, r1)" by fastforce
      note b = get_irq_balanced[OF z]
      show ?thesis
      proof (cases z)
        case (Inl ret0)
        then show ?thesis using y Inr None z b by simp
      next
        case zi: (Inr i)
        then have "bring_up io P dd i d r1 = (ret, p, d', r')" using y Inr None z by simp
        from bring_up_balanced[OF this] show ?thesis using b zi by (simp split: option.splits)
      qed
    qed
  qed
qed

definition legacy_node :: platform where
  "legacy_node = \<lparr>of_node = True, compatible = ''renesas,impx4-distributer'', platform_data = None,
     kzalloc_info = True, kzalloc_priv = True, mem_resource = (\<lambda>_. True), ioremap_ok = True,
     dma_ok = True, of_irq = 42, platform_irq = -6, domain_ok = True, register_result = -5,
     use_fpga = False\<rparr>"

theorem uio_imp_probe_balanced_witness:
  "\<exists>d' r'. uio_imp_probe reg_file legacy_node (\<lambda>_. 0)
      \<lparr>irq_mappings = 0, irq_domains = 0, pm_enables = 0, pm_gets = 0, clk_enables = 0,
       uio_devices = 0\<rparr> = Inr (-5, None, d', r') \<and> irq_mappings r' = 0"
proof -
  define r :: res where "r = \<lparr>irq_mappings = 0, irq_domains = 0, pm_enables = 0, pm_gets = 0,
    clk_enables = 0, uio_devices = 0\<rparr>"
  obtain d' r' where e: "uio_imp_probe reg_file legacy_node (\<lambda>_. 0) r = Inr (-5, None, d', r')"
    by (simp add: uio_imp_probe_def get_dev_data_def match_node_def of_imp_match_def legacy_node_def
      get_memory_def get_irq_def bring_up_def Let_def)
  moreover have "kzalloc_info legacy_node" by (simp add: legacy_node_def)
  ultimately have "r' = r" using uio_imp_probe_balanced[of legacy_node reg_file "\<lambda>_. 0" r] by fastforce
  then show ?thesis using e unfolding r_def by auto
qed

end
