(* ===== verification/Uio_Isp.thy ===== *)
theory Uio_Isp
  imports Uio_Base
begin

text \<open>
  The driver \<open>uio_isp.c\<close>: one platform device that appears as two UIO devices, the ISP and its
  wrapper. Modelled are the interrupt handlers, the switching of the interrupt lines by open, release
  and \<open>irqcontrol\<close>, and probing and removal.

  The switching is given twice: as the functions run one after the other, and as a step relation in
  which the test-and-set of the flag and the call that follows it are separate steps, because
  \<open>isp_open\<close> and \<open>isp_close\<close> do not take the lock that \<open>irq_control\<close> takes.
\<close>

subsection \<open>Registers and handlers\<close>

definition ISP_INT_FRAME_START_MASK :: nat where "ISP_INT_FRAME_START_MASK = 0x84"
definition ISP_INT_FRAME_START_STATUS :: nat where "ISP_INT_FRAME_START_STATUS = 0x88"
definition ISP_INT_FRAME_END_MASK :: nat where "ISP_INT_FRAME_END_MASK = 0x98"
definition ISP_INT_FRAME_END_STATUS :: nat where "ISP_INT_FRAME_END_STATUS = 0x9c"
definition ISP_INT_STATS_MASK :: nat where "ISP_INT_STATS_MASK = 0xb0"
definition ISP_INT_STATS_STATUS :: nat where "ISP_INT_STATS_STATUS = 0xb4"
definition ISPINT_STATUS :: nat where "ISPINT_STATUS = 0x40"
definition ISPINT_ENABLE :: nat where "ISPINT_ENABLE = 0x60"
definition ISPERR0_ENABLE :: nat where "ISPERR0_ENABLE = 0x64"

datatype crash = Null_deref

text \<open>
  \<open>priv\<close> is whether \<open>uio_info->priv\<close> is set; the handlers follow that pointer first. \<open>base\<close> and
  \<open>wrapper\<close> are the two register blocks.
\<close>

definition isp_wrapper_irq_handler :: "'d io \<Rightarrow> bool \<Rightarrow> 'd \<Rightarrow> crash + (irqreturn \<times> 'd)" where
  "isp_wrapper_irq_handler io priv d =
     (if \<not> priv then Inl Null_deref
      else let (ispint_status, d) = io_read io d ISPINT_STATUS;
               d = io_write io d ISPINT_ENABLE 0
           in Inr (if ispint_status = 0 then (IRQ_NONE, d) else (IRQ_HANDLED, d)))"

definition isp_irq_handler :: "'d io \<Rightarrow> bool \<Rightarrow> 'd \<Rightarrow> crash + (irqreturn \<times> 'd)" where
  "isp_irq_handler io priv d =
     (if \<not> priv then Inl Null_deref
      else let d = io_write io d ISP_INT_FRAME_START_MASK 0;
               d = io_write io d ISP_INT_FRAME_END_MASK 0;
               d = io_write io d ISP_INT_STATS_MASK 0;
               (fstart_status, d) = io_read io d ISP_INT_FRAME_START_STATUS;
               (fend_status, d) = io_read io d ISP_INT_FRAME_END_STATUS;
               (stats_status, d) = io_read io d ISP_INT_STATS_STATUS
           in Inr (if or (or fstart_status fend_status) stats_status = 0 then (IRQ_NONE, d)
                   else (IRQ_HANDLED, d)))"

subsection \<open>Switching an interrupt line\<close>

text \<open>
  \<open>flag\<close> is bit 0 of \<open>isp_flags\<close> or \<open>wrapper_flags\<close>; \<open>depth\<close> is how often the kernel counts the line
  as disabled. \<open>enable_irq\<close> of a line that is not disabled only warns.
\<close>

record gate =
  flag :: bool
  depth :: nat
  warnings :: nat

definition enable_irq :: "gate \<Rightarrow> gate" where
  "enable_irq g =
     (if depth g = 0 then g\<lparr>warnings := warnings g + 1\<rparr> else g\<lparr>depth := depth g - 1\<rparr>)"

definition disable_irq :: "gate \<Rightarrow> gate" where
  "disable_irq g = g\<lparr>depth := depth g + 1\<rparr>"

definition switch_on :: "gate \<Rightarrow> gate" where
  "switch_on g = (if flag g then g else enable_irq (g\<lparr>flag := True\<rparr>))"

definition switch_off :: "gate \<Rightarrow> gate" where
  "switch_off g = (if flag g then disable_irq (g\<lparr>flag := False\<rparr>) else g)"

record lines =
  isp_line :: gate
  wrapper_line :: gate
  isp_pm_gets :: int

definition isp_open :: "lines \<Rightarrow> lines" where
  "isp_open s =
     (let s = s\<lparr>isp_pm_gets := isp_pm_gets s + 1\<rparr> in s\<lparr>isp_line := switch_on (isp_line s)\<rparr>)"

definition isp_close :: "lines \<Rightarrow> lines" where
  "isp_close s =
     (let s = s\<lparr>isp_pm_gets := isp_pm_gets s - 1\<rparr> in s\<lparr>isp_line := switch_off (isp_line s)\<rparr>)"

definition isp_wrapper_open :: "lines \<Rightarrow> lines" where "isp_wrapper_open s = s"

definition isp_wrapper_close :: "lines \<Rightarrow> lines" where "isp_wrapper_close s = s"

definition irq_control :: "bool \<Rightarrow> int \<Rightarrow> lines \<Rightarrow> lines" where
  "irq_control is_isp irq_on s =
     (if is_isp then
        s\<lparr>isp_line := (if irq_on \<noteq> 0 then switch_on (isp_line s) else switch_off (isp_line s))\<rparr>
      else
        s\<lparr>wrapper_line :=
            (if irq_on \<noteq> 0 then switch_on (wrapper_line s) else switch_off (wrapper_line s))\<rparr>)"

datatype call = Open | Close | Wrapper_open | Wrapper_close | Control bool int

fun run_call :: "call \<Rightarrow> lines \<Rightarrow> lines" where
  "run_call Open s = isp_open s"
| "run_call Close s = isp_close s"
| "run_call Wrapper_open s = isp_wrapper_open s"
| "run_call Wrapper_close s = isp_wrapper_close s"
| "run_call (Control i on) s = irq_control i on s"

text \<open>A line is consistent: enabled exactly when its flag is set, without a warning so far.\<close>

definition gate_ok :: "gate \<Rightarrow> bool" where
  "gate_ok g \<longleftrightarrow> depth g = (if flag g then 0 else 1) \<and> warnings g = 0"

lemma switch_ok:
  "gate_ok g \<Longrightarrow> gate_ok (switch_on g) \<and> flag (switch_on g)"
  "gate_ok g \<Longrightarrow> gate_ok (switch_off g) \<and> \<not> flag (switch_off g)"
  by (auto simp: gate_ok_def switch_on_def switch_off_def enable_irq_def disable_irq_def)

definition lines_ok :: "lines \<Rightarrow> bool" where
  "lines_ok s \<longleftrightarrow> gate_ok (isp_line s) \<and> gate_ok (wrapper_line s)"

lemma run_call_ok: "lines_ok s \<Longrightarrow> lines_ok (run_call c s)"
  by (cases c)
    (auto simp: lines_ok_def isp_open_def isp_close_def isp_wrapper_open_def isp_wrapper_close_def
      irq_control_def switch_ok)

text \<open>How many calls of the sequence open and close the ISP.\<close>

definition opens_minus_closes :: "call list \<Rightarrow> int" where
  "opens_minus_closes cs = int (count_list cs Open) - int (count_list cs Close)"

text \<open>
  after any sequence of opens, releases and interrupt controls, each run to its end, both lines are
  enabled exactly when their flag says so, no enable was unbalanced, and the device is held awake once
  for every open that was not released.
\<close>
theorem isp_calls_keep_lines_consistent:
  assumes "lines_ok s"
  shows "lines_ok (fold run_call cs s) \<and>
    isp_pm_gets (fold run_call cs s) = isp_pm_gets s + opens_minus_closes cs"
  using assms
proof (induction cs arbitrary: s)
  case Nil
  then show ?case by (simp add: opens_minus_closes_def)
next
  case (Cons c cs)
  have "isp_pm_gets (run_call c s) = isp_pm_gets s + opens_minus_closes [c]"
    by (cases c) (auto simp: opens_minus_closes_def isp_open_def isp_close_def isp_wrapper_open_def
      isp_wrapper_close_def irq_control_def)
  moreover have "opens_minus_closes (c # cs) = opens_minus_closes [c] + opens_minus_closes cs"
    by (simp add: opens_minus_closes_def)
  ultimately show ?case using Cons.IH[OF run_call_ok[OF Cons.prems]] by simp
qed

definition probed_lines :: lines where
  "probed_lines =
     \<lparr>isp_line = \<lparr>flag = True, depth = 0, warnings = 0\<rparr>,
      wrapper_line = \<lparr>flag = True, depth = 0, warnings = 0\<rparr>, isp_pm_gets = 0\<rparr>"

theorem isp_calls_keep_lines_consistent_witness:
  "lines_ok (fold run_call [Open, Open, Control True 0, Close] probed_lines) \<and>
   isp_pm_gets (fold run_call [Open, Open, Control True 0, Close] probed_lines) = 1"
  using isp_calls_keep_lines_consistent[of probed_lines "[Open, Open, Control True 0, Close]"]
  by (simp add: probed_lines_def lines_ok_def gate_ok_def opens_minus_closes_def)

text \<open>The release of the first of two users switches the line off while the other has it open.\<close>

lemma second_close_disables_line:
  "depth (isp_line (fold run_call [Open, Open, Close] probed_lines)) = 1"
  by (simp add: probed_lines_def isp_open_def isp_close_def switch_on_def switch_off_def disable_irq_def)

subsection \<open>The same, interleaved\<close>

text \<open>
  Between the test-and-set of the flag and the call to the kernel another processor may run. A call of
  \<open>irq_control\<close> holds the lock in between (\<open>locked\<close>); calls of open and release do not (\<open>unlocked\<close>).
\<close>

datatype pending = Enable | Disable

record racy =
  line :: gate
  unlocked :: "pending list"
  locked :: "pending option"

definition do_pending :: "pending \<Rightarrow> gate \<Rightarrow> gate" where
  "do_pending p g = (case p of Enable \<Rightarrow> enable_irq g | Disable \<Rightarrow> disable_irq g)"

inductive isp_step :: "racy \<Rightarrow> racy \<Rightarrow> bool" where
  open_sets: "\<not> flag (line s) \<Longrightarrow>
    isp_step s (s\<lparr>line := (line s)\<lparr>flag := True\<rparr>, unlocked := Enable # unlocked s\<rparr>)"
| close_clears: "flag (line s) \<Longrightarrow>
    isp_step s (s\<lparr>line := (line s)\<lparr>flag := False\<rparr>, unlocked := Disable # unlocked s\<rparr>)"
| control_sets: "locked s = None \<Longrightarrow> \<not> flag (line s) \<Longrightarrow>
    isp_step s (s\<lparr>line := (line s)\<lparr>flag := True\<rparr>, locked := Some Enable\<rparr>)"
| control_clears: "locked s = None \<Longrightarrow> flag (line s) \<Longrightarrow>
    isp_step s (s\<lparr>line := (line s)\<lparr>flag := False\<rparr>, locked := Some Disable\<rparr>)"
| run_unlocked: "p \<in> set (unlocked s) \<Longrightarrow>
    isp_step s (s\<lparr>line := do_pending p (line s), unlocked := remove1 p (unlocked s)\<rparr>)"
| run_locked: "locked s = Some p \<Longrightarrow>
    isp_step s (s\<lparr>line := do_pending p (line s), locked := None\<rparr>)"

inductive_cases isp_stepE: "isp_step s s'"

definition pendings :: "pending \<Rightarrow> racy \<Rightarrow> nat" where
  "pendings p s = count_list (unlocked s) p + (if locked s = Some p then 1 else 0)"

text \<open>What every interleaving preserves: pending calls and warnings account for the difference.\<close>

definition balanced :: "racy \<Rightarrow> bool" where
  "balanced s \<longleftrightarrow>
     depth (line s) + pendings Disable s =
       (if flag (line s) then 0 else 1) + pendings Enable s + warnings (line s)"

lemma count_list_remove1:
  "count_list (remove1 p xs) q = (if p = q then count_list xs q - 1 else count_list xs q)"
  by (induction xs) (auto simp: count_list_0_iff)

lemma count_list_pos: "p \<in> set xs \<Longrightarrow> 0 < count_list xs p"
  using count_list_0_iff[of xs p] by auto

lemma step_balanced:
  assumes "isp_step s s'" and "balanced s"
  shows "balanced s'"
  using assms(1)
proof cases
  case (run_unlocked p)
  show ?thesis
    using assms(2) run_unlocked count_list_pos[OF run_unlocked(2)]
    by (cases p) (auto simp: balanced_def pendings_def do_pending_def enable_irq_def disable_irq_def
      count_list_remove1)
next
  case (run_locked p)
  then show ?thesis
    using assms(2)
    by (cases p) (auto simp: balanced_def pendings_def do_pending_def enable_irq_def disable_irq_def)
qed (use assms(2) in \<open>auto simp: balanced_def pendings_def\<close>)

text \<open>
  C31: in every interleaving of opens, releases and interrupt controls the line stays accounted for: once
  no call is pending, its disable depth is 0 or 1 as the flag says, plus one for every unbalanced
  enable. So a line whose flag is set works exactly if the kernel never warned.
\<close>
theorem isp_interleavings_accounted:
  assumes "isp_step\<^sup>*\<^sup>* s s'" and "balanced s" and "unlocked s' = []" and "locked s' = None"
  shows "depth (line s') = (if flag (line s') then 0 else 1) + warnings (line s')"
proof -
  have "balanced s'" using assms(1,2) by (induction rule: rtranclp_induct) (auto intro: step_balanced)
  then show ?thesis using assms(3,4) by (simp add: balanced_def pendings_def)
qed

definition idle_line :: racy where
  "idle_line = \<lparr>line = \<lparr>flag = True, depth = 0, warnings = 0\<rparr>, unlocked = [], locked = None\<rparr>"

text \<open>
  A release and an enabling control at the same time: the control sees the cleared flag and enables the
  line before the release disables it. The flag says enabled, and the line stays disabled.
\<close>

definition lost_line :: racy where
  "lost_line = \<lparr>line = \<lparr>flag = True, depth = 1, warnings = 1\<rparr>, unlocked = [], locked = None\<rparr>"

lemma interrupt_lost: "isp_step\<^sup>*\<^sup>* idle_line lost_line"
proof -
  define s1 where "s1 = \<lparr>line = \<lparr>flag = False, depth = 0, warnings = 0\<rparr>, unlocked = [Disable], locked = None\<rparr>"
  define s2 where "s2 = \<lparr>line = \<lparr>flag = True, depth = 0, warnings = 0\<rparr>, unlocked = [Disable], locked = Some Enable\<rparr>"
  define s3 where "s3 = \<lparr>line = \<lparr>flag = True, depth = 0, warnings = 1\<rparr>, unlocked = [Disable], locked = None\<rparr>"
  have "isp_step idle_line s1" using close_clears[of idle_line] by (simp add: idle_line_def s1_def)
  moreover have "isp_step s1 s2" using control_sets[of s1] by (simp add: s1_def s2_def)
  moreover have "isp_step s2 s3"
    using run_locked[of s2 Enable] by (simp add: s2_def s3_def do_pending_def enable_irq_def)
  moreover have "isp_step s3 lost_line"
    using run_unlocked[of Disable s3] by (simp add: s3_def lost_line_def do_pending_def disable_irq_def)
  ultimately show ?thesis by (meson rtranclp.rtrancl_into_rtrancl rtranclp.rtrancl_refl)
qed

theorem isp_interleavings_accounted_witness:
  "depth (line lost_line) = (if flag (line lost_line) then 0 else 1) + warnings (line lost_line)"
  by (rule isp_interleavings_accounted[OF interrupt_lost])
    (simp_all add: idle_line_def lost_line_def balanced_def pendings_def)

subsection \<open>Probing and removal\<close>

text \<open>
  What the kernel answers for one of the two blocks, and for the device as a whole. \<open>block_irq\<close> is the
  result of \<open>irq_of_parse_and_map\<close>: the interrupt, or 0 when there is none.
\<close>

record block =
  kzalloc_ok :: bool
  resource_ok :: bool
  region_ok :: bool
  ioremap_ok :: bool
  block_irq :: int
  register_result :: int

record kernel =
  kzalloc_priv :: bool
  wrapper_block :: block
  isp_block :: block
  clk_get_ok :: bool
  clk_enable_result :: int

definition ENOMEM :: int where "ENOMEM = 12"
definition EINVAL :: int where "EINVAL = 22"
definition EIO :: int where "EIO = 5"
definition ENXIO :: int where "ENXIO = 6"
definition ENODEV :: int where "ENODEV = 19"
definition EBUSY :: int where "EBUSY = 16"

definition map_irq :: "block \<Rightarrow> res \<Rightarrow> res" where
  "map_irq b r = (if block_irq b \<noteq> 0 then r\<lparr>irq_mappings := irq_mappings r + 1\<rparr> else r)"

text \<open>
  \<open>privs\<close> tells whether \<open>uio_info->priv\<close> of the block is set: it is assigned only after the
  registration, which is when interrupts can arrive.
\<close>

definition isp_wrapper_register :: "'d io \<Rightarrow> kernel \<Rightarrow> 'd \<Rightarrow> res \<Rightarrow> int \<times> 'd \<times> res" where
  "isp_wrapper_register io K d r =
     (let b = wrapper_block K in
      if \<not> kzalloc_ok b then (- ENOMEM, d, r)
      else if \<not> resource_ok b then (- EINVAL, d, r)
      else if \<not> region_ok b then (- ENOMEM, d, r)
      else if \<not> ioremap_ok b then (- EIO, d, r)
      else let d = io_write io d ISPINT_ENABLE 0;
               d = io_write io d ISPERR0_ENABLE 0;
               r = map_irq b r
           in if block_irq b = - ENXIO then (- EINVAL, d, r)
           else if register_result b \<noteq> 0 then (register_result b, d, r)
           else (0, d, r\<lparr>uio_devices := uio_devices r + 1\<rparr>))"

definition isp_wrapper_probe :: "'d io \<Rightarrow> kernel \<Rightarrow> 'd \<Rightarrow> res \<Rightarrow> int \<times> bool \<times> 'd \<times> res" where
  "isp_wrapper_probe io K d r =
     (let (err, d, r) = isp_wrapper_register io K d r in
      if err \<noteq> 0 then (err, False, d, r) else (0, True, d, r))"

definition isp_probe :: "'d io \<Rightarrow> kernel \<Rightarrow> 'd \<Rightarrow> res \<Rightarrow> int \<times> 'd \<times> res" where
  "isp_probe io K d r =
     (let b = isp_block K in
      if \<not> kzalloc_ok b then (- ENOMEM, d, r)
      else if \<not> resource_ok b then (- EINVAL, d, r)
      else if \<not> region_ok b then (- ENOMEM, d, r)
      else if \<not> ioremap_ok b then (- EIO, d, r)
      else let d = io_write io d ISP_INT_FRAME_START_MASK 0;
               d = io_write io d ISP_INT_FRAME_END_MASK 0;
               d = io_write io d ISP_INT_STATS_MASK 0;
               r = map_irq b r
           in if block_irq b = - ENXIO then (- EINVAL, d, r)
           else if \<not> clk_get_ok K then (- ENODEV, d, r)
           else if register_result b \<noteq> 0 then (register_result b, d, r)
           else let r = r\<lparr>uio_devices := uio_devices r + 1\<rparr>;
                    r = r\<lparr>pm_enables := pm_enables r + 1\<rparr>
                in if clk_enable_result K \<noteq> 0 then (- EBUSY, d, r)
                else (0, d, r\<lparr>clk_enables := clk_enables r + 1\<rparr>))"

definition uio_isp_probe :: "'d io \<Rightarrow> kernel \<Rightarrow> 'd \<Rightarrow> res \<Rightarrow> int \<times> 'd \<times> res" where
  "uio_isp_probe io K d r =
     (if \<not> kzalloc_priv K then (- ENOMEM, d, r)
      else let (err, privs, d, r) = isp_wrapper_probe io K d r in
        if err \<noteq> 0 then (err, d, r)
        else let (err, d, r) = isp_probe io K d r in
          if err \<noteq> 0 then (err, d, r) else (0, d, r))"

definition uio_isp_remove :: "res \<Rightarrow> res" where
  "uio_isp_remove r =
     (let r = r\<lparr>uio_devices := uio_devices r - 1\<rparr>;
          r = r\<lparr>uio_devices := uio_devices r - 1\<rparr>;
          r = r\<lparr>clk_enables := clk_enables r - 1\<rparr>
      in r\<lparr>pm_enables := pm_enables r - 1\<rparr>)"

lemmas isp_probe_defs = uio_isp_probe_def isp_wrapper_probe_def isp_wrapper_register_def isp_probe_def
  map_irq_def ENOMEM_def EINVAL_def EIO_def ENXIO_def ENODEV_def EBUSY_def

text \<open>The wrapper part of the probe goes through.\<close>

definition wrapper_up :: "kernel \<Rightarrow> bool" where
  "wrapper_up K \<longleftrightarrow>
     kzalloc_priv K \<and> kzalloc_ok (wrapper_block K) \<and> resource_ok (wrapper_block K) \<and>
     region_ok (wrapper_block K) \<and> ioremap_ok (wrapper_block K) \<and>
     block_irq (wrapper_block K) \<noteq> - ENXIO \<and> register_result (wrapper_block K) = 0"

lemma wrapper_probe_up:
  assumes "wrapper_up K"
  obtains d' where "isp_wrapper_probe io K d r =
    (0, True, d', (map_irq (wrapper_block K) r)\<lparr>uio_devices := uio_devices r + 1\<rparr>)"
  using assms
  by (simp add: wrapper_up_def isp_wrapper_probe_def isp_wrapper_register_def map_irq_def Let_def)

lemma isp_probe_resources:
  assumes "isp_probe io K d r = (ret, d', r')"
  shows "uio_devices r \<le> uio_devices r'"
    and "ret = 0 \<Longrightarrow> r' = (map_irq (isp_block K) r)\<lparr>uio_devices := uio_devices r + 1,
      pm_enables := pm_enables r + 1, clk_enables := clk_enables r + 1\<rparr>"
  using assms
  by (auto simp: isp_probe_def map_irq_def ENOMEM_def EINVAL_def EIO_def ENODEV_def EBUSY_def Let_def
    split: if_splits)

text \<open>
  a probe that fails after the wrapper was set up leaves the UIO device of the wrapper registered,
  although its memory is released with the platform device; and after a successful probe the removal
  gives back everything except the interrupt mappings.
\<close>
theorem uio_isp_probe_leaks:
  assumes "wrapper_up K" and "uio_isp_probe io K d r = (ret, d', r')"
  shows "(ret \<noteq> 0 \<longrightarrow> uio_devices r < uio_devices r') \<and>
    (ret = 0 \<longrightarrow> uio_isp_remove r' = map_irq (isp_block K) (map_irq (wrapper_block K) r))"
proof -
  obtain d1 where w: "isp_wrapper_probe io K d r =
      (0, True, d1, (map_irq (wrapper_block K) r)\<lparr>uio_devices := uio_devices r + 1\<rparr>)"
    by (rule wrapper_probe_up[OF assms(1)])
  define r1 where "r1 = (map_irq (wrapper_block K) r)\<lparr>uio_devices := uio_devices r + 1\<rparr>"
  have "kzalloc_priv K" using assms(1) by (simp add: wrapper_up_def)
  then have i: "isp_probe io K d1 r1 = (ret, d', r')"
    using assms(2) w by (auto simp: uio_isp_probe_def r1_def split: prod.splits if_splits)
  have "uio_devices r1 = uio_devices r + 1" by (simp add: r1_def)
  then have "uio_devices r < uio_devices r'" using isp_probe_resources(1)[OF i] by simp
  moreover have "uio_isp_remove r' = map_irq (isp_block K) (map_irq (wrapper_block K) r)" if "ret = 0"
    unfolding isp_probe_resources(2)[OF i that] r1_def
    by (cases r) (simp add: uio_isp_remove_def map_irq_def Let_def)
  ultimately show ?thesis by blast
qed

definition ok_block :: block where
  "ok_block = \<lparr>kzalloc_ok = True, resource_ok = True, region_ok = True, ioremap_ok = True,
     block_irq = 26, register_result = 0\<rparr>"

definition no_res :: res where
  "no_res = \<lparr>irq_mappings = 0, irq_domains = 0, pm_enables = 0, pm_gets = 0, clk_enables = 0,
     uio_devices = 0\<rparr>"

theorem uio_isp_probe_leaks_witness:
  "\<exists>d' r'. uio_isp_probe \<lparr>io_read = (\<lambda>d a. (0, d)), io_write = (\<lambda>d a v. d)\<rparr>
     \<lparr>kzalloc_priv = True, wrapper_block = ok_block, isp_block = ok_block, clk_get_ok = False,
      clk_enable_result = 0\<rparr> () no_res = (-19, d', r') \<and> 0 < uio_devices r'"
proof -
  define io :: "unit io" where "io = \<lparr>io_read = (\<lambda>d a. (0, d)), io_write = (\<lambda>d a v. d)\<rparr>"
  define K where "K = \<lparr>kzalloc_priv = True, wrapper_block = ok_block, isp_block = ok_block,
    clk_get_ok = False, clk_enable_result = 0\<rparr>"
  have "wrapper_up K" by (simp add: wrapper_up_def K_def ok_block_def ENXIO_def)
  moreover obtain d' r' where e: "uio_isp_probe io K () no_res = (-19, d', r')"
    by (simp add: isp_probe_defs K_def ok_block_def)
  ultimately have "uio_devices no_res < uio_devices r'" using uio_isp_probe_leaks by fastforce
  then show ?thesis using e unfolding io_def K_def by auto
qed

text \<open>
  An interrupt between the registration and the assignment of \<open>priv\<close> makes the handler follow the null
  pointer.
\<close>

lemma interrupt_before_priv:
  assumes "isp_wrapper_register io K d r = (0, d', r')" and "uio_devices r' = uio_devices r + 1"
  shows "isp_wrapper_irq_handler io False d' = Inl Null_deref"
  by (simp add: isp_wrapper_irq_handler_def)

end
