(* ===== verification/Jailhouse.thy ===== *)
theory Jailhouse
  imports Prelude
begin

text \<open>
  The configurations of the jailhouse hypervisor for the QEMU target: the system with its root cell
  (\<open>qemu-agl.c\<close>) and the cells that are started beside it. The structure types and the flags come from
  a header of the hypervisor that is not in the repository: flags and capability identifiers are
  symbols here, and the regions that the macro \<open>JAILHOUSE_SHMEM_NET_REGIONS\<close> stands for are a
  parameter. Addresses and sizes are natural numbers. A field an initialiser does not name
  is zero; the PCI domain and IOMMU numbers, zero everywhere, are left out.
\<close>

datatype mem_flag = MEM_READ | MEM_WRITE | MEM_EXECUTE | MEM_DMA | MEM_LOADABLE | MEM_COMM_REGION
  | MEM_ROOTSHARED

record memory =
  phys_start :: nat
  virt_start :: nat
  mem_size :: nat
  mem_flags :: "mem_flag list"

definition mem :: "nat \<Rightarrow> nat \<Rightarrow> nat \<Rightarrow> mem_flag list \<Rightarrow> memory" where
  "mem p v s f = \<lparr>phys_start = p, virt_start = v, mem_size = s, mem_flags = f\<rparr>"

datatype virtio = Virtio_block | Virtio_console
datatype protocol = Proto_undefined | Proto_veth | Proto_virtio_front virtio

text \<open>A PCI device: real, with its BAR masks, or a shared-memory device of the hypervisor.\<close>

datatype pci_kind = Device "nat list" | Ivshmem (regions_start: nat) (dev_id: nat) (peers: nat) protocol

record pci_dev =
  kind :: pci_kind
  bdf :: nat
  caps_start :: nat
  num_caps :: nat
  num_msi_vectors :: nat
  msi_64bits :: nat
  msi_maskable :: nat
  num_msix_vectors :: nat
  msix_region_size :: nat
  msix_address :: nat

definition pci_device ::
  "nat \<Rightarrow> nat list \<Rightarrow> nat \<Rightarrow> nat \<Rightarrow> nat \<Rightarrow> nat \<Rightarrow> nat \<Rightarrow> nat \<Rightarrow> nat \<Rightarrow> nat \<Rightarrow> pci_dev" where
  "pci_device b bars cs nc nmsi m64 mmask nmsix rs addr =
     \<lparr>kind = Device bars, bdf = b, caps_start = cs, num_caps = nc, num_msi_vectors = nmsi,
      msi_64bits = m64, msi_maskable = mmask, num_msix_vectors = nmsix, msix_region_size = rs,
      msix_address = addr\<rparr>"

definition ivshmem_device :: "nat \<Rightarrow> nat \<Rightarrow> nat \<Rightarrow> nat \<Rightarrow> nat \<Rightarrow> protocol \<Rightarrow> pci_dev" where
  "ivshmem_device b nmsix start dev ps proto =
     \<lparr>kind = Ivshmem start dev ps proto, bdf = b, caps_start = 0, num_caps = 0, num_msi_vectors = 0,
      msi_64bits = 0, msi_maskable = 0, num_msix_vectors = nmsix, msix_region_size = 0,
      msix_address = 0\<rparr>"

datatype std_cap = CAP_MSI | CAP_MSIX | CAP_EXP | CAP_VNDR | CAP_SATA
datatype ext_cap = EXT_ERR | EXT_DSN
datatype cap_id = No_cap | Std_cap std_cap | Ext_cap ext_cap

record pci_cap =
  cap_id :: cap_id
  cap_start :: nat
  cap_len :: nat
  cap_write :: bool

definition cap :: "cap_id \<Rightarrow> nat \<Rightarrow> nat \<Rightarrow> bool \<Rightarrow> pci_cap" where
  "cap i s l w = \<lparr>cap_id = i, cap_start = s, cap_len = l, cap_write = w\<rparr>"

text \<open>
  An array of declared length \<open>n\<close>: missing initialisers are zero, excess ones are dropped (the compiler
  warns). The counts of a cell are the declared lengths.
\<close>

definition array :: "nat \<Rightarrow> 'a \<Rightarrow> 'a list \<Rightarrow> 'a list" where
  "array n z xs = take n xs @ replicate (n - length xs) z"

record cell =
  cell_name :: string
  cpus :: "nat set"
  regions :: "memory list"
  ports :: "(nat \<times> nat) list"
  devices :: "pci_dev list"
  caps :: "pci_cap list"

subsection \<open>\<open>qemu-agl.c\<close>\<close>

definition root_mem_regions :: "memory list" where
  "root_mem_regions =
  [mem 0x0 0x0 0xa0000 [MEM_READ, MEM_WRITE, MEM_EXECUTE, MEM_DMA],
   mem 0x100000 0x100000 0x20100000 [MEM_READ, MEM_WRITE, MEM_EXECUTE, MEM_DMA],
   mem 0x20200000 0x20200000 0x1e00000 [MEM_READ, MEM_WRITE, MEM_EXECUTE, MEM_DMA],
   mem 0x27200000 0x27200000 0xae00000 [MEM_READ, MEM_WRITE, MEM_EXECUTE, MEM_DMA],
   mem 0x32000000 0x32000000 0x2000000 [MEM_READ, MEM_WRITE, MEM_EXECUTE, MEM_DMA],
   mem 0xfe000000 0xfe000000 0x800000 [MEM_READ, MEM_WRITE],
   mem 0xfe800000 0xfe800000 0x4000 [MEM_READ, MEM_WRITE],
   mem 0xfe804000 0xfe804000 0x4000 [MEM_READ, MEM_WRITE],
   mem 0xfe808000 0xfe808000 0x4000 [MEM_READ, MEM_WRITE],
   mem 0xfe80c000 0xfe80c000 0x4000 [MEM_READ, MEM_WRITE],
   mem 0xfeb80000 0xfeb80000 0x40000 [MEM_READ, MEM_WRITE],
   mem 0xfebd0000 0xfebd0000 0x4000 [MEM_READ, MEM_WRITE],
   mem 0xfebd7000 0xfebd7000 0x1000 [MEM_READ, MEM_WRITE],
   mem 0xfebd8000 0xfebd8000 0x1000 [MEM_READ, MEM_WRITE],
   mem 0xfed00000 0xfed00000 0x1000 [MEM_READ, MEM_WRITE],
   mem 0xc0000 0xc0000 0x20000 [MEM_READ, MEM_WRITE],
   mem 0x22600000 0x22600000 0x4c00000 [MEM_READ, MEM_WRITE]]"

definition root_pio_regions :: "(nat \<times> nat) list" where
  "root_pio_regions =
  [(0x40, 0x4),
   (0x60, 0x1),
   (0x64, 0x1),
   (0x70, 0x8),
   (0x2f8, 0x8),
   (0x3c0, 0x20),
   (0x3f8, 0x8),
   (0xc000, 0x80),
   (0xc0c0, 0x20),
   (0xc0e0, 0x20),
   (0xc100, 0x20),
   (0xc120, 0x20),
   (0xc140, 0x20),
   (0xc160, 0x20)]"

definition root_pci_devices :: "pci_dev list" where
  "root_pci_devices =
  [pci_device 0x0 [0x00000000, 0x00000000, 0x00000000, 0x00000000, 0x00000000, 0x00000000]
     0 0 0 0 0 0 0x0 0x0,
   pci_device 0x8 [0xff800000, 0x00000000, 0xffffc000, 0xffffffff, 0xfffff000, 0x00000000]
     0 6 0 0 0 3 0x1000 0xfebd4000,
   pci_device 0x10 [0xffffffe0, 0xfffff000, 0x00000000, 0x00000000, 0xffffc000, 0xffffffff]
     0 6 0 0 0 3 0x1000 0xfebd5000,
   pci_device 0x18 [0xffffffe0, 0x00000000, 0x00000000, 0x00000000, 0xffffc000, 0xffffffff]
     6 5 0 0 0 0 0x0 0x0,
   pci_device 0x20 [0xffffff80, 0xfffff000, 0x00000000, 0x00000000, 0xffffc000, 0xffffffff]
     0 6 0 0 0 2 0x1000 0xfebd6000,
   pci_device 0xd8 [0xffffc000, 0x00000000, 0x00000000, 0x00000000, 0x00000000, 0x00000000]
     11 1 1 1 0 0 0x0 0x0,
   pci_device 0xe8 [0x00000000, 0x00000000, 0x00000000, 0x00000000, 0xffffffe0, 0x00000000]
     0 0 0 0 0 0 0x0 0x0,
   pci_device 0xe9 [0x00000000, 0x00000000, 0x00000000, 0x00000000, 0xffffffe0, 0x00000000]
     0 0 0 0 0 0 0x0 0x0,
   pci_device 0xea [0x00000000, 0x00000000, 0x00000000, 0x00000000, 0xffffffe0, 0x00000000]
     0 0 0 0 0 0 0x0 0x0,
   pci_device 0xef [0xfffff000, 0x00000000, 0x00000000, 0x00000000, 0x00000000, 0x00000000]
     0 0 0 0 0 0 0x0 0x0,
   pci_device 0xf8 [0x00000000, 0x00000000, 0x00000000, 0x00000000, 0x00000000, 0x00000000]
     0 0 0 0 0 0 0x0 0x0,
   pci_device 0xfa [0x00000000, 0x00000000, 0x00000000, 0x00000000, 0xffffffe0, 0xfffff000]
     12 2 1 1 0 0 0x0 0x0,
   pci_device 0xfb [0x00000000, 0x00000000, 0x00000000, 0x00000000, 0xffffffc0, 0x00000000]
     0 0 0 0 0 0 0x0 0x0]"

definition root_pci_caps :: "pci_cap list" where
  "root_pci_caps =
  [cap (Std_cap CAP_MSIX) 0x98 0xc True,
   cap (Std_cap CAP_VNDR) 0x84 0x2 False,
   cap (Std_cap CAP_VNDR) 0x70 0x2 False,
   cap (Std_cap CAP_VNDR) 0x60 0x2 False,
   cap (Std_cap CAP_VNDR) 0x50 0x2 False,
   cap (Std_cap CAP_VNDR) 0x40 0x2 False,
   cap (Std_cap CAP_VNDR) 0x84 0x2 False,
   cap (Std_cap CAP_VNDR) 0x70 0x2 False,
   cap (Std_cap CAP_VNDR) 0x60 0x2 False,
   cap (Std_cap CAP_VNDR) 0x50 0x2 False,
   cap (Std_cap CAP_VNDR) 0x40 0x2 False,
   cap (Std_cap CAP_MSI) 0x60 0xe True,
   cap (Std_cap CAP_MSI) 0x80 0xe True,
   cap (Std_cap CAP_SATA) 0xa8 0x2 False]"

subsection \<open>\<open>agl-linux-x86-demo.c\<close>\<close>

definition linux_mem_regions :: "(nat \<Rightarrow> nat \<Rightarrow> memory list) \<Rightarrow> memory list" where
  "linux_mem_regions net_regions =
  [mem 0x27000000 0x27000000 0x1000 [MEM_READ, MEM_ROOTSHARED],
   mem 0x27001000 0x27001000 0xdf000 [MEM_READ, MEM_WRITE, MEM_ROOTSHARED],
   mem 0 0 0 [],
   mem 0 0 0 [],
   mem 0x270e0000 0x270e0000 0x1000 [MEM_READ, MEM_ROOTSHARED],
   mem 0x270e1000 0x270e1000 0xf000 [MEM_READ, MEM_WRITE, MEM_ROOTSHARED],
   mem 0 0 0 [],
   mem 0 0 0 [],
   mem 0x270f0000 0x270f0000 0x1000 [MEM_READ, MEM_ROOTSHARED],
   mem 0x270f1000 0x270f1000 0x9000 [MEM_READ, MEM_WRITE, MEM_ROOTSHARED],
   mem 0x270fa000 0x270fa000 0x2000 [MEM_READ, MEM_ROOTSHARED],
   mem 0x270fc000 0x270fc000 0x2000 [MEM_READ, MEM_ROOTSHARED],
   mem 0x270fe000 0x270fe000 0x2000 [MEM_READ, MEM_WRITE, MEM_ROOTSHARED]] @
  net_regions 0x27100000 1 @
  [mem 0x22600000 0 0x00100000 [MEM_READ, MEM_WRITE, MEM_EXECUTE, MEM_DMA, MEM_LOADABLE],
   mem 0 0x00100000 0x00001000 [MEM_READ, MEM_WRITE, MEM_COMM_REGION],
   mem 0x22700000 0x00200000 0x4700000 [MEM_READ, MEM_WRITE, MEM_EXECUTE, MEM_DMA, MEM_LOADABLE]]"

definition linux_pio_regions :: "(nat \<times> nat) list" where
  "linux_pio_regions =
  [(0x2f8, 8),
   (0xe010, 8)]"

definition linux_pci_devices :: "pci_dev list" where
  "linux_pci_devices =
  [ivshmem_device (0x0c * 2 ^ 3) 2 0 1 2 (Proto_virtio_front Virtio_block),
   ivshmem_device (0x0d * 2 ^ 3) 3 4 1 2 (Proto_virtio_front Virtio_console),
   ivshmem_device (0x0e * 2 ^ 3) 16 8 2 3 (Proto_undefined),
   ivshmem_device (0x0f * 2 ^ 3) 2 13 1 2 (Proto_veth)]"

definition linux_pci_caps :: "pci_cap list" where
  "linux_pci_caps =
  [cap (Std_cap CAP_MSI) 0xd0 14 True,
   cap (Std_cap CAP_EXP) 0xe0 20 True,
   cap (Std_cap CAP_MSIX) 0xa0 12 True,
   cap (Ext_cap EXT_ERR) 0x100 4 False,
   cap (Ext_cap EXT_DSN) 0x140 4 False]"

subsection \<open>\<open>agl-ivshmem-demo.c\<close>\<close>

definition ivshmem_mem_regions :: "memory list" where
  "ivshmem_mem_regions =
  [mem 0x271f0000 0x271f0000 0x1000 [MEM_READ, MEM_ROOTSHARED],
   mem 0x271f1000 0x271f1000 0x9000 [MEM_READ, MEM_WRITE, MEM_ROOTSHARED],
   mem 0x271fa000 0x271fa000 0x2000 [MEM_READ, MEM_ROOTSHARED],
   mem 0x271fc000 0x271fc000 0x2000 [MEM_READ, MEM_WRITE, MEM_ROOTSHARED],
   mem 0x271fe000 0x271fe000 0x2000 [MEM_READ, MEM_ROOTSHARED],
   mem 0x27200000 0 0x00100000 [MEM_READ, MEM_WRITE, MEM_EXECUTE, MEM_LOADABLE],
   mem 0 0x00100000 0x00001000 [MEM_READ, MEM_WRITE, MEM_COMM_REGION]]"

definition ivshmem_pio_regions :: "(nat \<times> nat) list" where
  "ivshmem_pio_regions =
  [(0x2f8, 8)]"

definition ivshmem_pci_devices :: "pci_dev list" where
  "ivshmem_pci_devices =
  [ivshmem_device (0x0e * 2 ^ 3) 16 0 1 3 (Proto_undefined)]"

subsection \<open>\<open>agl-pci-demo.c\<close>\<close>

definition pci_demo_mem_regions :: "memory list" where
  "pci_demo_mem_regions =
  [mem 0x26f00000 0 0x00100000 [MEM_READ, MEM_WRITE, MEM_EXECUTE, MEM_LOADABLE],
   mem 0 0x00100000 0x00001000 [MEM_READ, MEM_WRITE, MEM_COMM_REGION],
   mem 0xfebd4000 0xfebd4000 0x00004000 [MEM_READ, MEM_WRITE]]"

definition pci_demo_pio_regions :: "(nat \<times> nat) list" where
  "pci_demo_pio_regions =
  [(0x2f8, 8),
   (0xe010, 8)]"

definition pci_demo_pci_devices :: "pci_dev list" where
  "pci_demo_pci_devices =
  [pci_device 0x00d8 [0, 0, 0, 0, 0, 0]
     0 1 1 1 0 0 0 0]"

definition pci_demo_pci_caps :: "pci_cap list" where
  "pci_demo_pci_caps =
  [cap (Std_cap CAP_MSI) 0x60 14 True]"

subsection \<open>\<open>agl-apic-demo.c\<close>\<close>

definition apic_mem_regions :: "memory list" where
  "apic_mem_regions =
  [mem 0x26e00000 0 0x00100000 [MEM_READ, MEM_WRITE, MEM_EXECUTE, MEM_LOADABLE],
   mem 0 0x00100000 0x00001000 [MEM_READ, MEM_WRITE, MEM_COMM_REGION]]"

definition apic_pio_regions :: "(nat \<times> nat) list" where
  "apic_pio_regions =
  [(0x2f8, 8),
   (0xe010, 8)]"

subsection \<open>The cells\<close>

text \<open>The set of processors of a 64-bit \<open>cpus\<close> mask.\<close>

definition cpu_set :: "nat \<Rightarrow> nat set" where
  "cpu_set m = set (filter (bit m) [0..<64])"

definition no_mem :: memory where "no_mem = mem 0 0 0 []"
definition no_dev :: pci_dev where "no_dev = pci_device 0 [] 0 0 0 0 0 0 0 0"
definition no_cap :: pci_cap where "no_cap = cap No_cap 0 0 False"

definition hypervisor_memory :: memory where
  "hypervisor_memory = mem 0x22000000 0 0x600000 []"

definition root_cell :: cell where
  "root_cell = \<lparr>cell_name = ''RootCell'', cpus = cpu_set 0x000000000000000f,
     regions = array 17 no_mem root_mem_regions, ports = array 14 (0, 0) root_pio_regions,
     devices = array 13 no_dev root_pci_devices, caps = array 14 no_cap root_pci_caps\<rparr>"

definition linux_cell :: "(nat \<Rightarrow> nat \<Rightarrow> memory list) \<Rightarrow> cell" where
  "linux_cell net_regions = \<lparr>cell_name = ''linux-x86-demo'', cpus = cpu_set 0b1100,
     regions = array 20 no_mem (linux_mem_regions net_regions),
     ports = array 1 (0, 0) linux_pio_regions,
     devices = array 4 no_dev linux_pci_devices, caps = array 6 no_cap linux_pci_caps\<rparr>"

definition ivshmem_cell :: cell where
  "ivshmem_cell = \<lparr>cell_name = ''ivshmem-demo'', cpus = cpu_set 0b0010,
     regions = array 7 no_mem ivshmem_mem_regions, ports = array 1 (0, 0) ivshmem_pio_regions,
     devices = array 1 no_dev ivshmem_pci_devices, caps = array 0 no_cap []\<rparr>"

definition pci_demo_cell :: cell where
  "pci_demo_cell = \<lparr>cell_name = ''agl-pci-demo'', cpus = cpu_set 0x4,
     regions = array 3 no_mem pci_demo_mem_regions, ports = array 1 (0, 0) pci_demo_pio_regions,
     devices = array 1 no_dev pci_demo_pci_devices, caps = array 1 no_cap pci_demo_pci_caps\<rparr>"

definition apic_cell :: cell where
  "apic_cell = \<lparr>cell_name = ''agl-apic-demo'', cpus = cpu_set 0x8,
     regions = array 2 no_mem apic_mem_regions, ports = array 1 (0, 0) apic_pio_regions,
     devices = [], caps = []\<rparr>"

end
