(* ===== verification/Jailhouse_Isolation.thy ===== *)
theory Jailhouse_Isolation
  imports Jailhouse
begin

text \<open>
  Isolation of the cells of \<open>Jailhouse\<close>: which physical memory, ports and processors the root cell and
  the cells started beside it are given, and where the configurations contradict one another.
\<close>

definition mem_end :: "memory \<Rightarrow> nat" where
  "mem_end r = phys_start r + mem_size r"

definition overlap :: "memory \<Rightarrow> memory \<Rightarrow> bool" where
  "overlap a b \<longleftrightarrow>
     0 < mem_size a \<and> 0 < mem_size b \<and> phys_start a < mem_end b \<and> phys_start b < mem_end a"

definition inside :: "memory \<Rightarrow> memory \<Rightarrow> bool" where
  "inside a b \<longleftrightarrow> phys_start b \<le> phys_start a \<and> mem_end a \<le> mem_end b"

definition disjoint_regions :: "memory list \<Rightarrow> bool" where
  "disjoint_regions = sorted_wrt (\<lambda>a b. \<not> overlap a b)"

definition disjoint_ports :: "(nat \<times> nat) list \<Rightarrow> bool" where
  "disjoint_ports = sorted_wrt (\<lambda>(a, n) (b, m). a + n \<le> b \<or> b + m \<le> a)"

text \<open>The memory a cell is loaded into.\<close>

definition ram :: "cell \<Rightarrow> memory list" where
  "ram c = filter (\<lambda>r. MEM_LOADABLE \<in> set (mem_flags r)) (regions c)"

text \<open>What the kernel command line \<open>memmap=0x5200000$0x22000000\<close> withholds from the root Linux.\<close>

definition reserved :: memory where "reserved = mem 0x22000000 0 0x5200000 []"

definition inmate_memory :: memory where
  "inmate_memory = mem 0x22600000 0x22600000 0x4c00000 [MEM_READ, MEM_WRITE]"

lemmas cell_defs = root_cell_def linux_cell_def ivshmem_cell_def pci_demo_cell_def apic_cell_def
  array_def root_mem_regions_def linux_mem_regions_def ivshmem_mem_regions_def
  pci_demo_mem_regions_def apic_mem_regions_def root_pio_regions_def linux_pio_regions_def
  ivshmem_pio_regions_def pci_demo_pio_regions_def apic_pio_regions_def root_pci_devices_def
  linux_pci_devices_def ivshmem_pci_devices_def pci_demo_pci_devices_def root_pci_caps_def
  linux_pci_caps_def pci_demo_pci_caps_def

lemmas region_defs = mem_def mem_end_def overlap_def inside_def hypervisor_memory_def
  inmate_memory_def reserved_def

text \<open>
  the system configuration is consistent. The hypervisor's memory and the regions of the root cell
  are pairwise disjoint; the hypervisor and the memory kept for inmates fill the reserved block
  exactly, and no executable memory of the root cell reaches into it; the port ranges are disjoint, no
  PCI device occurs twice, and every device's capabilities lie in the table.
\<close>
theorem root_cell_consistent:
  "disjoint_regions (hypervisor_memory # regions root_cell) \<and>
   inmate_memory \<in> set (regions root_cell) \<and>
   phys_start hypervisor_memory = phys_start reserved \<and>
   mem_end hypervisor_memory = phys_start inmate_memory \<and> mem_end inmate_memory = mem_end reserved \<and>
   list_all (\<lambda>r. \<not> overlap r reserved)
     (filter (\<lambda>r. MEM_EXECUTE \<in> set (mem_flags r)) (regions root_cell)) \<and>
   disjoint_ports (ports root_cell) \<and> distinct (map bdf (devices root_cell)) \<and>
   list_all (\<lambda>d. caps_start d + num_caps d \<le> length (caps root_cell)) (devices root_cell)"
proof (intro conjI)
  show "disjoint_regions (hypervisor_memory # regions root_cell)"
    by (simp add: disjoint_regions_def cell_defs region_defs)
  show "inmate_memory \<in> set (regions root_cell)"
    by (simp add: cell_defs inmate_memory_def)
  show "list_all (\<lambda>r. \<not> overlap r reserved)
      (filter (\<lambda>r. MEM_EXECUTE \<in> set (mem_flags r)) (regions root_cell))"
    by (simp add: cell_defs region_defs)
  show "disjoint_ports (ports root_cell)" by (simp add: disjoint_ports_def cell_defs)
  show "distinct (map bdf (devices root_cell))" by (simp add: cell_defs pci_device_def)
  show "list_all (\<lambda>d. caps_start d + num_caps d \<le> length (caps root_cell)) (devices root_cell)"
    by (simp add: cell_defs pci_device_def)
qed (simp_all add: region_defs)

text \<open>
  the inmates are isolated from each other and from the root Linux. The memory the Linux, APIC and
  PCI demo cells are loaded into is pairwise disjoint and lies in the inmate memory of the root cell,
  and so do the fixed shared-memory regions of the Linux cell, which are disjoint from it and end where
  the network regions begin. The network regions are those of the hypervisor's macro: four, none of
  them loadable.
\<close>
theorem inmates_isolated:
  assumes "length (net 0x27100000 1) = 4"
    and "filter (\<lambda>r. MEM_LOADABLE \<in> set (mem_flags r)) (net 0x27100000 1) = []"
  shows "list_all (\<lambda>r. inside r inmate_memory)
      (ram (linux_cell net) @ ram apic_cell @ ram pci_demo_cell) \<and>
    disjoint_regions (ram (linux_cell net) @ ram apic_cell @ ram pci_demo_cell @
      take 13 (regions (linux_cell net))) \<and>
    list_all (\<lambda>r. mem_size r = 0 \<or> inside r inmate_memory) (take 13 (regions (linux_cell net))) \<and>
    take 4 (drop 13 (regions (linux_cell net))) = net 0x27100000 1 \<and>
    mem_end (regions (linux_cell net) ! 12) = 0x27100000"
proof -
  have ram: "ram (linux_cell net) = [mem 0x22600000 0 0x00100000 [MEM_READ, MEM_WRITE, MEM_EXECUTE,
      MEM_DMA, MEM_LOADABLE], mem 0x22700000 0x00200000 0x4700000 [MEM_READ, MEM_WRITE, MEM_EXECUTE,
      MEM_DMA, MEM_LOADABLE]]"
    using assms by (simp add: ram_def linux_cell_def linux_mem_regions_def array_def mem_def)
  have "take 13 (regions (linux_cell net)) = take 13 (linux_mem_regions (\<lambda>_ _. []))"
    using assms by (simp add: linux_cell_def linux_mem_regions_def array_def)
  moreover have "ram apic_cell = take 1 apic_mem_regions" "ram pci_demo_cell = take 1 pci_demo_mem_regions"
    by (simp_all add: ram_def cell_defs mem_def)
  moreover have "disjoint_regions (ram (linux_cell net) @ take 1 apic_mem_regions @
      take 1 pci_demo_mem_regions @ take 13 (linux_mem_regions (\<lambda>_ _. [])))"
    unfolding ram by (simp add: disjoint_regions_def cell_defs region_defs)
  moreover have "list_all (\<lambda>r. mem_size r = 0 \<or> inside r inmate_memory)
      (take 13 (linux_mem_regions (\<lambda>_ _. [])))"
    by (simp add: cell_defs region_defs)
  moreover have "take 4 (drop 13 (regions (linux_cell net))) = net 0x27100000 1"
    using assms by (simp add: linux_cell_def linux_mem_regions_def array_def)
  moreover have "mem_end (regions (linux_cell net) ! 12) = 0x27100000"
    using assms by (simp add: linux_cell_def linux_mem_regions_def array_def nth_append region_defs)
  moreover have "list_all (\<lambda>r. inside r inmate_memory) (ram (linux_cell net) @
      take 1 apic_mem_regions @ take 1 pci_demo_mem_regions)"
    unfolding ram by (simp add: cell_defs region_defs)
  ultimately show ?thesis by simp
qed

theorem inmates_isolated_witness:
  "mem_end (regions (linux_cell (\<lambda>_ _. replicate 4 (mem 0x27100000 0x27100000 0x1000 [MEM_READ]))) ! 12)
    = 0x27100000"
  using inmates_isolated [of "\<lambda>_ _. replicate 4 (mem 0x27100000 0x27100000 0x1000 [MEM_READ])"]
  by (simp add: mem_def)

text \<open>
  the ivshmem demo does not fit the system configuration. Its memory lies outside the reserved block,
  in System RAM of the root Linux, and its shared-memory device has the bus address and number of peers
  of one of the Linux cell, another peer number, and other regions: the cells do not share memory.
\<close>
theorem ivshmem_demo_misplaced:
  "ram ivshmem_cell \<noteq> [] \<and> list_all (\<lambda>r. \<not> overlap r reserved) (ram ivshmem_cell) \<and>
   list_all (\<lambda>r. inside r (regions root_cell ! 3)) (ram ivshmem_cell) \<and>
   MEM_EXECUTE \<in> set (mem_flags (regions root_cell ! 3)) \<and>
   bdf (devices ivshmem_cell ! 0) = bdf (devices (linux_cell net) ! 2) \<and>
   kind (devices ivshmem_cell ! 0) = Ivshmem 0 1 3 Proto_undefined \<and>
   kind (devices (linux_cell net) ! 2) = Ivshmem 8 2 3 Proto_undefined \<and>
   list_all2 (\<lambda>a b. mem_size a = mem_size b \<and> \<not> overlap a b)
     (take 5 (regions ivshmem_cell)) (take 5 (drop 8 (regions (linux_cell net))))"
proof (intro conjI)
  have "take 5 (drop 8 (regions (linux_cell net))) = take 5 (drop 8 (linux_mem_regions (\<lambda>_ _. [])))"
    by (simp add: linux_cell_def linux_mem_regions_def array_def)
  then show "list_all2 (\<lambda>a b. mem_size a = mem_size b \<and> \<not> overlap a b)
     (take 5 (regions ivshmem_cell)) (take 5 (drop 8 (regions (linux_cell net))))"
    by (simp add: cell_defs region_defs)
  show "ram ivshmem_cell \<noteq> []" by (simp add: ram_def cell_defs mem_def)
  show "list_all (\<lambda>r. \<not> overlap r reserved) (ram ivshmem_cell)"
    by (simp add: ram_def cell_defs region_defs)
  show "list_all (\<lambda>r. inside r (regions root_cell ! 3)) (ram ivshmem_cell)"
    by (simp add: ram_def cell_defs region_defs)
  show "MEM_EXECUTE \<in> set (mem_flags (regions root_cell ! 3))" by (simp add: cell_defs mem_def)
qed (simp_all add: linux_cell_def ivshmem_cell_def array_def linux_pci_devices_def
  ivshmem_pci_devices_def ivshmem_device_def)

text \<open>
  C1: the PCI demo is given the wrong window for its HDA device. The device is the root cell's, with the
  same MSI capability, but the only region of the root cell the window meets is the one that the root
  cell's configuration assigns to the EHCI controller, and it covers the MSI-X tables of three other devices.
\<close>
theorem pci_demo_window_wrong:
  "filter (overlap (regions pci_demo_cell ! 2)) (regions root_cell) =
     [mem 0xfebd7000 0xfebd7000 0x1000 [MEM_READ, MEM_WRITE]] \<and>
   map bdf (filter (\<lambda>d. 0 < num_msix_vectors d \<and>
       inside (mem (msix_address d) 0 (msix_region_size d) []) (regions pci_demo_cell ! 2))
     (devices root_cell)) = [0x8, 0x10, 0x20] \<and>
   map (\<lambda>d. map ((!) (caps root_cell)) [caps_start d ..< caps_start d + num_caps d])
     (filter (\<lambda>d. bdf d = bdf (devices pci_demo_cell ! 0)) (devices root_cell)) = [caps pci_demo_cell]"
proof (intro conjI)
  show "filter (overlap (regions pci_demo_cell ! 2)) (regions root_cell) =
     [mem 0xfebd7000 0xfebd7000 0x1000 [MEM_READ, MEM_WRITE]]"
    by (simp add: cell_defs region_defs)
  show "map bdf (filter (\<lambda>d. 0 < num_msix_vectors d \<and>
       inside (mem (msix_address d) 0 (msix_region_size d) []) (regions pci_demo_cell ! 2))
     (devices root_cell)) = [0x8, 0x10, 0x20]"
    by (simp add: cell_defs region_defs pci_device_def)
  show "map (\<lambda>d. map ((!) (caps root_cell)) [caps_start d ..< caps_start d + num_caps d])
     (filter (\<lambda>d. bdf d = bdf (devices pci_demo_cell ! 0)) (devices root_cell)) = [caps pci_demo_cell]"
    by (simp add: cell_defs pci_device_def)
qed

lemma cpu_set_four:
  assumes "m < 16"
  shows "cpu_set m = set (filter (bit m) [0, 1, 2, 3])"
proof -
  have less: "k < 4" if "bit m k" for k
  proof (rule ccontr)
    assume "\<not> k < 4"
    then have "(2::nat) ^ 4 \<le> 2 ^ k" by (intro power_increasing) simp_all
    with assms have "m div 2 ^ k = 0" by simp
    with that show False by (simp add: bit_iff_odd)
  qed
  have "cpu_set m = {k. bit m k \<and> k < 64}" by (auto simp: cpu_set_def)
  also have "\<dots> = {k. bit m k \<and> k < 4}" using less by force
  also have "\<dots> = {k \<in> {0, 1, 2, 3}. bit m k}" by auto
  also have "\<dots> = set (filter (bit m) [0, 1, 2, 3])" by (simp only: set_filter list.set)
  finally show ?thesis .
qed

text \<open>
  C1: every cell takes processors of the root cell and leaves it processor 0, but the Linux cell can run
  beside the ivshmem demo only: it wants the processors of both other demos. Three cells lose the port
  range of a second serial line because the array is declared too short, and the Linux cell's last
  capability is empty.
\<close>
theorem cell_tables:
  "list_all (\<lambda>c. cpus c \<subseteq> cpus root_cell \<and> cpus c \<noteq> {} \<and> 0 \<notin> cpus c)
     [linux_cell net, ivshmem_cell, pci_demo_cell, apic_cell] \<and>
   map (\<lambda>c. cpus c \<inter> cpus (linux_cell net) = {}) [ivshmem_cell, pci_demo_cell, apic_cell]
     = [True, False, False] \<and>
   map ports [linux_cell net, pci_demo_cell, apic_cell] = [[(0x2f8, 8)], [(0x2f8, 8)], [(0x2f8, 8)]] \<and>
   [linux_pio_regions ! 1, pci_demo_pio_regions ! 1, apic_pio_regions ! 1] = [(0xe010, 8), (0xe010, 8), (0xe010, 8)] \<and>
   last (caps (linux_cell net)) = no_cap"
proof -
  have "cpus root_cell = {0, 1, 2, 3}" "cpus (linux_cell net) = {2, 3}" "cpus ivshmem_cell = {1}"
    "cpus pci_demo_cell = {2}" "cpus apic_cell = {3}"
    by (simp_all add: root_cell_def linux_cell_def ivshmem_cell_def pci_demo_cell_def apic_cell_def
      cpu_set_four bit_iff_odd)
  moreover have "map ports [linux_cell net, pci_demo_cell, apic_cell] = [[(0x2f8, 8)], [(0x2f8, 8)], [(0x2f8, 8)]]"
    "last (caps (linux_cell net)) = no_cap"
    by (simp_all add: linux_cell_def pci_demo_cell_def apic_cell_def array_def linux_pio_regions_def
      pci_demo_pio_regions_def apic_pio_regions_def linux_pci_caps_def)
  ultimately show ?thesis
    by (simp add: linux_pio_regions_def pci_demo_pio_regions_def apic_pio_regions_def)
qed

end
