(* ===== verification/Tree_Ops.thy ===== *)
theory Tree_Ops
  imports Prelude
begin

text \<open>
  What the search trees of \<open>sys-tree.h\<close> share: the addresses their links hold, the ways an operation
  fails, the operations with their specification on the list of elements in ascending order, and the
  contract \<open>ordered_tree\<close> a family of trees is interpreted against.
\<close>

subsection \<open>Addresses and results\<close>

text \<open>
  Elements are numbered. A \<^theory_text>\<open>struct type *\<close> is \<open>None\<close> for the null pointer, the address of an
  element, or the address of the node a function keeps on its stack. An operation fails by accessing a
  null pointer or by handing the node on the stack, whose key is never set, to the comparison. \<open>None\<close>
  as a result of an operation is a loop that does not end.
\<close>

datatype addr = Stack_node | Elem nat

datatype tree_fault = Null_access | Garbage_key

definition at :: "'a option \<Rightarrow> tree_fault + 'a" where
  "at p = (case p of None \<Rightarrow> Inl Null_access | Some a \<Rightarrow> Inr a)"

definition elem_at :: "addr option \<Rightarrow> tree_fault + nat" where
  "elem_at p = bindR (at p) (\<lambda>a. case a of Elem e \<Rightarrow> Inr e | Stack_node \<Rightarrow> Inl Garbage_key)"

lemma at_simps [simp]: "at None = Inl Null_access" "at (Some a) = Inr a"
  by (simp_all add: at_def)

lemma elem_at_simps [simp]: "elem_at None = Inl Null_access" "elem_at (Some (Elem e)) = Inr e"
  by (simp_all add: elem_at_def)

definition bindO :: "('e + 'a) option \<Rightarrow> ('a \<Rightarrow> ('e + 'b) option) \<Rightarrow> ('e + 'b) option" where
  "bindO r f = Option.bind r (\<lambda>x. case x of Inl e \<Rightarrow> Some (Inl e) | Inr y \<Rightarrow> f y)"

lemma bindO_simps [simp]:
  "bindO None f = None" "bindO (Some (Inl e)) f = Some (Inl e)" "bindO (Some (Inr x)) f = f x"
  by (simp_all add: bindO_def)

lemma bindO_mono [partial_function_mono]:
  assumes "mono_option r" and "\<And>y. mono_option (\<lambda>f. g y f)"
  shows "mono_option (\<lambda>f. bindO (r f) (\<lambda>y. g y f))"
  unfolding bindO_def
proof (intro bind_mono assms)
  show "mono_option (\<lambda>f. case x of Inl e \<Rightarrow> Some (Inl e) | Inr y \<Rightarrow> g y f)" for x
    by (cases x) (simp_all add: assms option.const_mono)
qed

subsection \<open>Comparison functions\<close>

text \<open>
  The user's comparison of two elements, ordered by a key. A comparison with a fixed element \<open>e\<close> cuts
  an ascending list: it is positive on the elements below \<open>e\<close>, then zero at most once, then negative.
\<close>

definition orders :: "(nat \<Rightarrow> nat \<Rightarrow> int) \<Rightarrow> (nat \<Rightarrow> 'k::linorder) \<Rightarrow> bool" where
  "orders cmp key \<longleftrightarrow> (\<forall>a b. (cmp a b < 0 \<longleftrightarrow> key a < key b) \<and> (0 < cmp a b \<longleftrightarrow> key b < key a))"

definition ascending :: "(nat \<Rightarrow> 'k::linorder) \<Rightarrow> nat list \<Rightarrow> bool" where
  "ascending key = sorted_wrt (\<lambda>a b. key a < key b)"

definition cuts :: "(nat \<Rightarrow> int) \<Rightarrow> nat list \<Rightarrow> bool" where
  "cuts c = sorted_wrt (\<lambda>a b. 0 \<le> c b \<longrightarrow> 0 < c a)"

lemma cuts_append:
  "cuts c (xs @ ys) \<longleftrightarrow> cuts c xs \<and> cuts c ys \<and> (\<forall>a\<in>set xs. \<forall>b\<in>set ys. 0 \<le> c b \<longrightarrow> 0 < c a)"
  by (simp add: cuts_def sorted_wrt_append)

lemma cuts_Cons: "cuts c (x # xs) \<longleftrightarrow> (\<forall>b\<in>set xs. 0 \<le> c b \<longrightarrow> 0 < c x) \<and> cuts c xs"
  by (simp add: cuts_def)

lemma ascending_append:
  "ascending key (xs @ ys) \<longleftrightarrow> ascending key xs \<and> ascending key ys \<and>
     (\<forall>a\<in>set xs. \<forall>b\<in>set ys. key a < key b)"
  by (simp add: ascending_def sorted_wrt_append)

lemma ascending_Cons: "ascending key (x # xs) \<longleftrightarrow> (\<forall>b\<in>set xs. key x < key b) \<and> ascending key xs"
  by (simp add: ascending_def)

lemma ordersD:
  assumes "orders cmp key"
  shows "cmp a b < 0 \<longleftrightarrow> key a < key b" and "0 < cmp a b \<longleftrightarrow> key b < key a"
    and "cmp a b = 0 \<longleftrightarrow> key a = key b"
proof -
  show less: "cmp a b < 0 \<longleftrightarrow> key a < key b" and greater: "0 < cmp a b \<longleftrightarrow> key b < key a"
    using assms by (auto simp: orders_def)
  show "cmp a b = 0 \<longleftrightarrow> key a = key b" using less greater by (metis less_irrefl linorder_neqE)
qed

lemma ordersD_le:
  assumes "orders cmp key"
  shows "0 \<le> cmp a b \<longleftrightarrow> key b \<le> key a" and "cmp a b \<le> 0 \<longleftrightarrow> key a \<le> key b"
  using ordersD(1,2)[OF assms, of a b] by (simp_all add: not_less[symmetric])

lemma cuts_orders: "orders cmp key \<Longrightarrow> ascending key xs \<Longrightarrow> cuts (cmp e) xs"
  unfolding cuts_def ascending_def
  by (erule sorted_wrt_mono_rel[rotated]) (auto simp: ordersD ordersD_le)

lemma cuts_const: "c \<noteq> 0 \<Longrightarrow> cuts (\<lambda>_. c) xs"
  by (induction xs) (auto simp: cuts_def)

lemma ascending_distinct: "ascending key xs \<Longrightarrow> distinct xs"
  unfolding ascending_def
  by (induction xs) auto

subsection \<open>Lists cut by a key\<close>

lemma find_cut:
  assumes "\<forall>x\<in>set as. key x < key e" and "\<forall>x\<in>set bs. key e < key (x::nat)"
  shows "find (\<lambda>x. key x = key e) (as @ y # bs) = (if key y = key e then Some y else None)"
    and "find (\<lambda>x. key x = (key e :: 'k::linorder)) (as @ bs) = None"
  using assms by (induction as) (auto simp: find_None_iff)

lemma same_split:
  "as @ x # bs = cs @ x # ds \<Longrightarrow> distinct (as @ x # bs) \<Longrightarrow> ds = bs"
  by (induction as arbitrary: cs) (case_tac cs; auto)+

lemma find_key:
  "x \<in> set xs \<Longrightarrow> key x = key e \<Longrightarrow> ascending key xs \<Longrightarrow> find (\<lambda>y. key y = key e) xs = Some x"
  by (induction xs) (auto simp: ascending_Cons)

lemma insort_cut:
  assumes "\<forall>x\<in>set as. key x < key e" and "\<forall>x\<in>set bs. key e < key x"
  shows "insort_key key e (as @ bs) = as @ e # bs"
  using assms by (induction as) (auto, cases bs, auto)

lemma ascending_cut:
  "ascending key (as @ e # bs) \<longleftrightarrow> ascending key (as @ bs) \<and> (\<forall>x\<in>set as. key x < key e) \<and>
     (\<forall>x\<in>set bs. key e < key x)"
  by (force simp: ascending_append ascending_Cons)

lemma remove1_key:
  "ascending key xs \<Longrightarrow> e \<in> set xs \<Longrightarrow> filter (\<lambda>x. key x \<noteq> key e) xs = remove1 e xs"
proof (induction xs)
  case (Cons x xs)
  show ?case
  proof (cases "x = e")
    case True
    with Cons.prems have "filter (\<lambda>x. key x \<noteq> key e) xs = xs"
      by (intro filter_True) (auto simp: ascending_Cons)
    with True show ?thesis by simp
  next
    case False
    with Cons show ?thesis by (auto simp: ascending_Cons)
  qed
qed simp

definition first :: "'a list \<Rightarrow> 'a option" where
  "first xs = (if xs = [] then None else Some (hd xs))"

lemma first_simps [simp]: "first [] = None" "first (x # xs) = Some x"
  by (simp_all add: first_def)

lemma first_append: "first (xs @ ys) = (if xs = [] then first ys else first xs)"
  by (simp add: first_def)

text \<open>The successor of an element in an ascending list.\<close>

lemma next_ascending:
  assumes "ascending key (xs @ e # ys)"
  shows "find (\<lambda>y. key e < key y) (xs @ e # ys) = first ys"
proof -
  have "\<not> key e < key x" if "x \<in> set xs" for x
    using that assms by (force simp: ascending_append ascending_Cons)
  then have "find (\<lambda>y. key e < key y) (xs @ e # ys) = find (\<lambda>y. key e < key y) ys"
    by (induction xs) auto
  moreover have "key e < key y" if "y \<in> set ys" for y
    using that assms by (simp add: ascending_append ascending_Cons)
  ultimately show ?thesis by (cases ys) auto
qed

subsection \<open>Specification\<close>

datatype tree_op = Insert nat | Remove nat | Find nat | Next nat | Minimum | Maximum

text \<open>The result of an operation and the elements after it, on the ascending list of elements.\<close>

fun tree_spec :: "(nat \<Rightarrow> 'k::linorder) \<Rightarrow> tree_op \<Rightarrow> nat list \<Rightarrow> nat option \<times> nat list" where
  "tree_spec key (Insert e) xs = (case find (\<lambda>y. key y = key e) xs of
      Some y \<Rightarrow> (Some y, xs) | None \<Rightarrow> (None, insort_key key e xs))"
| "tree_spec key (Remove e) xs = (Some e, remove1 e xs)"
| "tree_spec key (Find e) xs = (find (\<lambda>y. key y = key e) xs, xs)"
| "tree_spec key (Next e) xs = (find (\<lambda>y. key e < key y) xs, xs)"
| "tree_spec key Minimum xs = (first xs, xs)"
| "tree_spec key Maximum xs = (first (rev xs), xs)"

text \<open>Removal and the successor are asked of elements of the tree only.\<close>

fun tree_pre :: "tree_op \<Rightarrow> nat list \<Rightarrow> bool" where
  "tree_pre (Remove e) xs = (e \<in> set xs)"
| "tree_pre (Next e) xs = (e \<in> set xs)"
| "tree_pre op xs = True"

fun tree_run_spec :: "(nat \<Rightarrow> 'k::linorder) \<Rightarrow> tree_op list \<Rightarrow> nat list \<Rightarrow> (nat option list \<times> nat list) option"
where
  "tree_run_spec key [] xs = Some ([], xs)"
| "tree_run_spec key (op # ops) xs =
     (if tree_pre op xs then
        let (r, ys) = tree_spec key op xs in
        map_option (\<lambda>(rs, zs). (r # rs, zs)) (tree_run_spec key ops ys)
      else None)"

text \<open>Running operations, and the \<open>FOREACH\<close> loop along a successor function.\<close>

fun tree_run ::
  "(tree_op \<Rightarrow> 's \<Rightarrow> (tree_fault + nat option \<times> 's) option) \<Rightarrow> tree_op list \<Rightarrow> 's \<Rightarrow>
   (tree_fault + nat option list \<times> 's) option" where
  "tree_run step [] s = Some (Inr ([], s))"
| "tree_run step (op # ops) s =
     bindO (step op s) (\<lambda>(r, s). bindO (tree_run step ops s) (\<lambda>(rs, s). Some (Inr (r # rs, s))))"

partial_function (option) tree_walk ::
  "(nat \<Rightarrow> 's \<Rightarrow> (tree_fault + nat option \<times> 's) option) \<Rightarrow> nat option \<Rightarrow> 's \<Rightarrow>
   (tree_fault + nat list \<times> 's) option" where
  "tree_walk nxt x s = (case x of None \<Rightarrow> Some (Inr ([], s))
     | Some e \<Rightarrow> bindO (nxt e s) (\<lambda>(y, s). bindO (tree_walk nxt y s) (\<lambda>(es, s). Some (Inr (e # es, s)))))"

text \<open>
  A \<^theory_text>\<open>FOREACH_SAFE\<close> loop reads the successor before it runs the body; here the body removes the
  elements that satisfy \<open>P\<close>.
\<close>

partial_function (option) tree_walk_safe ::
  "(nat \<Rightarrow> 's \<Rightarrow> (tree_fault + nat option \<times> 's) option) \<Rightarrow> (nat \<Rightarrow> 's \<Rightarrow> (tree_fault + 's) option) \<Rightarrow>
   nat option \<Rightarrow> 's \<Rightarrow> (tree_fault + 's) option" where
  "tree_walk_safe nxt body x s = (case x of None \<Rightarrow> Some (Inr s)
     | Some e \<Rightarrow> bindO (nxt e s) (\<lambda>(y, s). bindO (body e s) (\<lambda>s. tree_walk_safe nxt body y s)))"

definition remove_if ::
  "(nat \<Rightarrow> 's \<Rightarrow> (tree_fault + nat option \<times> 's) option) \<Rightarrow> (nat \<Rightarrow> bool) \<Rightarrow> nat \<Rightarrow> 's \<Rightarrow> (tree_fault + 's) option"
where
  "remove_if rem P e s = (if P e then bindO (rem e s) (\<lambda>(r, s). Some (Inr s)) else Some (Inr s))"

subsection \<open>The contracts\<close>

text \<open>What a loop over a tree relies on: a successor function and a removal that keep the other elements.\<close>

locale tree_cursor =
  fixes repr :: "'s \<Rightarrow> nat list \<Rightarrow> bool"
    and nxt :: "nat \<Rightarrow> 's \<Rightarrow> (tree_fault + nat option \<times> 's) option"
    and rem :: "nat \<Rightarrow> 's \<Rightarrow> (tree_fault + nat option \<times> 's) option"
  assumes nxt_ok: "repr s (xs @ e # ys) \<Longrightarrow> \<exists>s'. nxt e s = Some (Inr (first ys, s')) \<and> repr s' (xs @ e # ys)"
    and rem_ok: "repr s (xs @ e # ys) \<Longrightarrow> \<exists>r s'. rem e s = Some (Inr (r, s')) \<and> repr s' (xs @ ys)"
begin

lemma walk_from:
  "repr s (xs @ ys) \<Longrightarrow> \<exists>s'. tree_walk nxt (first ys) s = Some (Inr (ys, s')) \<and> repr s' (xs @ ys)"
proof (induction ys arbitrary: xs s)
  case (Cons e ys)
  from nxt_ok[OF Cons.prems] obtain s' where "nxt e s = Some (Inr (first ys, s'))" "repr s' (xs @ e # ys)"
    by blast
  with Cons.IH[of s' "xs @ [e]"] show ?case by (auto simp: tree_walk.simps)
qed (simp add: tree_walk.simps)

lemma safe_walk_filter:
  "repr s (xs @ ys) \<Longrightarrow>
    \<exists>s'. tree_walk_safe nxt (remove_if rem P) (first ys) s = Some (Inr s') \<and>
      repr s' (xs @ filter (\<lambda>e. \<not> P e) ys)"
proof (induction ys arbitrary: xs s)
  case (Cons e ys)
  from nxt_ok[OF Cons.prems] obtain s1 where s1: "nxt e s = Some (Inr (first ys, s1))" "repr s1 (xs @ e # ys)"
    by blast
  show ?case
  proof (cases "P e")
    case True
    from rem_ok[OF s1(2)] obtain r s2 where "rem e s1 = Some (Inr (r, s2))" "repr s2 (xs @ ys)" by blast
    with Cons.IH[of s2 xs] s1(1) True show ?thesis
      by (simp add: tree_walk_safe.simps[of nxt _ "Some e"] remove_if_def)
  next
    case False
    with Cons.IH[of s1 "xs @ [e]"] s1 show ?thesis
      by (simp add: tree_walk_safe.simps[of nxt _ "Some e"] remove_if_def)
  qed
qed (simp add: tree_walk_safe.simps)

end

locale ordered_tree =
  fixes key :: "nat \<Rightarrow> 'k::linorder"
    and repr :: "'s \<Rightarrow> nat list \<Rightarrow> bool"
    and step :: "tree_op \<Rightarrow> 's \<Rightarrow> (tree_fault + nat option \<times> 's) option"
  assumes repr_ascending: "repr s xs \<Longrightarrow> ascending key xs"
    and step_ok: "repr s xs \<Longrightarrow> tree_pre op xs \<Longrightarrow> tree_spec key op xs = (r, ys) \<Longrightarrow>
      \<exists>s'. step op s = Some (Inr (r, s')) \<and> repr s' ys"
begin

lemma run_ok:
  "repr s xs \<Longrightarrow> tree_run_spec key ops xs = Some (rs, ys) \<Longrightarrow>
    \<exists>s'. tree_run step ops s = Some (Inr (rs, s')) \<and> repr s' ys"
proof (induction ops arbitrary: s xs rs)
  case (Cons op ops)
  obtain r zs where spec: "tree_spec key op xs = (r, zs)" by fastforce
  with Cons.prems obtain rs' where pre: "tree_pre op xs" and rs: "rs = r # rs'"
    and rest: "tree_run_spec key ops zs = Some (rs', ys)"
    by (auto split: if_splits)
  obtain s' where "step op s = Some (Inr (r, s'))" "repr s' zs"
    using step_ok[OF Cons.prems(1) pre spec] by blast
  moreover from this obtain t where "tree_run step ops s' = Some (Inr (rs', t))" "repr t ys"
    using Cons.IH[OF _ rest] by blast
  ultimately show ?case by (auto simp: rs)
qed simp

lemma next_step:
  assumes "repr s (xs @ e # ys)"
  shows "\<exists>s'. step (Next e) s = Some (Inr (first ys, s')) \<and> repr s' (xs @ e # ys)"
  using step_ok[OF assms, of "Next e"] next_ascending[OF repr_ascending[OF assms]] by simp

lemma remove_step:
  assumes "repr s (xs @ e # ys)"
  shows "\<exists>r s'. step (Remove e) s = Some (Inr (r, s')) \<and> repr s' (xs @ ys)"
proof -
  have "remove1 e (xs @ e # ys) = xs @ ys"
    using ascending_distinct[OF repr_ascending[OF assms]] by simp
  then show ?thesis using step_ok[OF assms, of "Remove e"] by auto
qed

end

sublocale ordered_tree \<subseteq> up: tree_cursor repr "\<lambda>e. step (Next e)" "\<lambda>e. step (Remove e)"
  by unfold_locales (use next_step remove_step in auto)

context ordered_tree
begin

lemma walk_all:
  assumes "repr s xs"
  shows "\<exists>s'. bindO (step Minimum s) (\<lambda>(x, s). tree_walk (\<lambda>e. step (Next e)) x s) = Some (Inr (xs, s'))
    \<and> repr s' xs"
proof -
  obtain s' where "step Minimum s = Some (Inr (first xs, s'))" "repr s' xs"
    using step_ok[OF assms, of Minimum] by auto
  then show ?thesis using up.walk_from[of s' "[]" xs] by auto
qed

lemma safe_walk_all:
  assumes "repr s xs"
  shows "\<exists>s'. bindO (step Minimum s) (\<lambda>(x, s).
      tree_walk_safe (\<lambda>e. step (Next e)) (remove_if (\<lambda>e. step (Remove e)) P) x s) = Some (Inr s')
    \<and> repr s' (filter (\<lambda>e. \<not> P e) xs)"
proof -
  obtain s' where "step Minimum s = Some (Inr (first xs, s'))" "repr s' xs"
    using step_ok[OF assms, of Minimum] by auto
  then show ?thesis using up.safe_walk_filter[of s' "[]" xs P] by auto
qed

end

end
