(* ===== verification/Splay.thy ===== *)
theory Splay
  imports Tree_Ops
begin

text \<open>
  The \<^theory_text>\<open>SPLAY\<close> macros of \<open>sys-tree.h\<close> for one head: the root, and the left and right links of
  the elements and of the node \<^theory_text>\<open>__node\<close> that the splay loop keeps on its stack. \<open>cmp\<close> is the
  comparison the macros are generated with; \<open>c\<close> is \<open>cmp\<close> with the element sought.
\<close>

record splay_st =
  sph_root :: "addr option"
  spe_left :: "addr \<Rightarrow> addr option"
  spe_right :: "addr \<Rightarrow> addr option"

definition set_root :: "addr option \<Rightarrow> splay_st \<Rightarrow> splay_st" where
  [simp]: "set_root p s = s\<lparr>sph_root := p\<rparr>"

definition set_left :: "addr \<Rightarrow> addr option \<Rightarrow> splay_st \<Rightarrow> splay_st" where
  [simp]: "set_left a p s = s\<lparr>spe_left := (spe_left s)(a := p)\<rparr>"

definition set_right :: "addr \<Rightarrow> addr option \<Rightarrow> splay_st \<Rightarrow> splay_st" where
  [simp]: "set_right a p s = s\<lparr>spe_right := (spe_right s)(a := p)\<rparr>"

subsection \<open>The small macros\<close>

definition SPLAY_INIT :: "splay_st \<Rightarrow> splay_st" where
  "SPLAY_INIT s = set_root None s"

definition SPLAY_EMPTY :: "splay_st \<Rightarrow> bool" where
  "SPLAY_EMPTY s \<longleftrightarrow> sph_root s = None"

definition SPLAY_ROTATE_RIGHT :: "addr \<Rightarrow> splay_st \<Rightarrow> tree_fault + splay_st" where
  "SPLAY_ROTATE_RIGHT tmp s = bindR (at (sph_root s)) (\<lambda>root.
     let s = set_left root (spe_right s tmp) s;
         s = set_right tmp (sph_root s) s
     in Inr (set_root (Some tmp) s))"

definition SPLAY_ROTATE_LEFT :: "addr \<Rightarrow> splay_st \<Rightarrow> tree_fault + splay_st" where
  "SPLAY_ROTATE_LEFT tmp s = bindR (at (sph_root s)) (\<lambda>root.
     let s = set_right root (spe_left s tmp) s;
         s = set_left tmp (sph_root s) s
     in Inr (set_root (Some tmp) s))"

text \<open>The link macros also set the variable \<open>tmp\<close>; its new value is the first component.\<close>

definition SPLAY_LINKLEFT :: "addr \<Rightarrow> splay_st \<Rightarrow> tree_fault + addr \<times> splay_st" where
  "SPLAY_LINKLEFT tmp s =
     (let s = set_left tmp (sph_root s) s
      in bindR (at (sph_root s)) (\<lambda>root. Inr (root, set_root (spe_left s root) s)))"

definition SPLAY_LINKRIGHT :: "addr \<Rightarrow> splay_st \<Rightarrow> tree_fault + addr \<times> splay_st" where
  "SPLAY_LINKRIGHT tmp s =
     (let s = set_right tmp (sph_root s) s
      in bindR (at (sph_root s)) (\<lambda>root. Inr (root, set_root (spe_right s root) s)))"

definition SPLAY_ASSEMBLE :: "addr \<Rightarrow> addr \<Rightarrow> addr \<Rightarrow> splay_st \<Rightarrow> tree_fault + splay_st" where
  "SPLAY_ASSEMBLE node left right s = bindR (at (sph_root s)) (\<lambda>root.
     let s = set_right left (spe_left s root) s;
         s = set_left right (spe_right s root) s;
         s = set_left root (spe_right s node) s
     in Inr (set_right root (spe_left s node) s))"

subsection \<open>The splay loops\<close>

text \<open>
  The body of the loops of \<^theory_text>\<open>SPLAY\<close> and \<^theory_text>\<open>SPLAY_MINMAX\<close>, which differ in the comparison
  \<open>tst\<close> with the child. The first component of the result is false after a \<^theory_text>\<open>break\<close>.
\<close>

type_synonym splay_loop_st = "addr \<times> addr \<times> splay_st"

definition splay_body ::
  "(addr \<Rightarrow> tree_fault + int) \<Rightarrow> int \<Rightarrow> splay_loop_st \<Rightarrow> tree_fault + bool \<times> splay_loop_st" where
  "splay_body tst cres = (\<lambda>(left, right, s).
     if cres < 0 then bindR (at (sph_root s)) (\<lambda>root.
       case spe_left s root of None \<Rightarrow> Inr (False, left, right, s)
       | Some tmp \<Rightarrow> bindR (tst tmp) (\<lambda>d.
         bindR (if d < 0 then bindR (SPLAY_ROTATE_RIGHT tmp s) (\<lambda>s.
                  bindR (at (sph_root s)) (\<lambda>root. Inr (spe_left s root \<noteq> None, s)))
                else Inr (True, s)) (\<lambda>(more, s).
         if more
         then bindR (SPLAY_LINKLEFT right s) (\<lambda>(right, s). Inr (True, left, right, s))
         else Inr (False, left, right, s))))
     else if cres > 0 then bindR (at (sph_root s)) (\<lambda>root.
       case spe_right s root of None \<Rightarrow> Inr (False, left, right, s)
       | Some tmp \<Rightarrow> bindR (tst tmp) (\<lambda>d.
         bindR (if d > 0 then bindR (SPLAY_ROTATE_LEFT tmp s) (\<lambda>s.
                  bindR (at (sph_root s)) (\<lambda>root. Inr (spe_right s root \<noteq> None, s)))
                else Inr (True, s)) (\<lambda>(more, s).
         if more
         then bindR (SPLAY_LINKRIGHT left s) (\<lambda>(left, s). Inr (True, left, right, s))
         else Inr (False, left, right, s))))
     else Inr (True, left, right, s))"

definition key_cmp :: "(nat \<Rightarrow> int) \<Rightarrow> addr option \<Rightarrow> tree_fault + int" where
  "key_cmp c p = bindR (elem_at p) (\<lambda>e. Inr (c e))"

partial_function (option) splay_while ::
  "(nat \<Rightarrow> int) \<Rightarrow> splay_loop_st \<Rightarrow> (tree_fault + splay_loop_st) option" where
  "splay_while c st = bindO (Some (key_cmp c (sph_root (snd (snd st))))) (\<lambda>cres.
     if cres \<noteq> 0
     then bindO (Some (splay_body (\<lambda>tmp. key_cmp c (Some tmp)) cres st)) (\<lambda>(more, st).
       if more then splay_while c st else Some (Inr st))
     else Some (Inr st))"

partial_function (option) minmax_while ::
  "int \<Rightarrow> splay_loop_st \<Rightarrow> (tree_fault + splay_loop_st) option" where
  "minmax_while cres st =
     bindO (Some (splay_body (\<lambda>tmp. Inr cres) cres st)) (\<lambda>(more, st).
       if more then minmax_while cres st else Some (Inr st))"

definition splay_start :: "splay_st \<Rightarrow> splay_loop_st" where
  "splay_start s =
     (Stack_node, Stack_node, set_left Stack_node None (set_right Stack_node None s))"

definition SPLAY :: "(nat \<Rightarrow> int) \<Rightarrow> splay_st \<Rightarrow> (tree_fault + splay_st) option" where
  "SPLAY c s = bindO (splay_while c (splay_start s)) (\<lambda>(left, right, s).
     Some (SPLAY_ASSEMBLE Stack_node left right s))"

definition SPLAY_MINMAX :: "int \<Rightarrow> splay_st \<Rightarrow> (tree_fault + splay_st) option" where
  "SPLAY_MINMAX cres s = bindO (minmax_while cres (splay_start s)) (\<lambda>(left, right, s).
     Some (SPLAY_ASSEMBLE Stack_node left right s))"

subsection \<open>The operations\<close>

type_synonym splay_result = "(tree_fault + addr option \<times> splay_st) option"

definition SPLAY_INSERT :: "(nat \<Rightarrow> nat \<Rightarrow> int) \<Rightarrow> nat \<Rightarrow> splay_st \<Rightarrow> splay_result" where
  "SPLAY_INSERT cmp elm s =
     bindO (if SPLAY_EMPTY s
            then Some (Inr (None, set_left (Elem elm) None (set_right (Elem elm) None s)))
            else bindO (SPLAY (cmp elm) s) (\<lambda>s.
              bindO (Some (key_cmp (cmp elm) (sph_root s))) (\<lambda>cres.
              bindO (Some (at (sph_root s))) (\<lambda>root.
              if cres < 0 then
                let s = set_left (Elem elm) (spe_left s root) s;
                    s = set_right (Elem elm) (sph_root s) s
                in Some (Inr (None, set_left root None s))
              else if cres > 0 then
                let s = set_right (Elem elm) (spe_right s root) s;
                    s = set_left (Elem elm) (sph_root s) s
                in Some (Inr (None, set_right root None s))
              else Some (Inr (sph_root s, s)))))) (\<lambda>(found, s).
     case found of Some a \<Rightarrow> Some (Inr (Some a, s))
     | None \<Rightarrow> Some (Inr (None, set_root (Some (Elem elm)) s)))"

definition SPLAY_REMOVE :: "(nat \<Rightarrow> nat \<Rightarrow> int) \<Rightarrow> nat \<Rightarrow> splay_st \<Rightarrow> splay_result" where
  "SPLAY_REMOVE cmp elm s =
     (if SPLAY_EMPTY s then Some (Inr (None, s)) else
      bindO (SPLAY (cmp elm) s) (\<lambda>s.
      bindO (Some (key_cmp (cmp elm) (sph_root s))) (\<lambda>cres.
      bindO (Some (at (sph_root s))) (\<lambda>root.
      if cres = 0 then
        if spe_left s root = None
        then Some (Inr (Some (Elem elm), set_root (spe_right s root) s))
        else
          let tmp = spe_right s root in
          bindO (SPLAY (cmp elm) (set_root (spe_left s root) s)) (\<lambda>s.
          bindO (Some (at (sph_root s))) (\<lambda>root.
          Some (Inr (Some (Elem elm), set_right root tmp s))))
      else Some (Inr (None, s))))))"

definition SPLAY_FIND :: "(nat \<Rightarrow> nat \<Rightarrow> int) \<Rightarrow> nat \<Rightarrow> splay_st \<Rightarrow> splay_result" where
  "SPLAY_FIND cmp elm s =
     (if SPLAY_EMPTY s then Some (Inr (None, s)) else
      bindO (SPLAY (cmp elm) s) (\<lambda>s.
      bindO (Some (key_cmp (cmp elm) (sph_root s))) (\<lambda>cres.
      Some (Inr (if cres = 0 then sph_root s else None, s)))))"

partial_function (option) leftmost :: "splay_st \<Rightarrow> addr \<Rightarrow> addr option" where
  "leftmost s a = (case spe_left s a of None \<Rightarrow> Some a | Some b \<Rightarrow> leftmost s b)"

definition SPLAY_NEXT :: "(nat \<Rightarrow> nat \<Rightarrow> int) \<Rightarrow> nat \<Rightarrow> splay_st \<Rightarrow> splay_result" where
  "SPLAY_NEXT cmp elm s =
     bindO (SPLAY (cmp elm) s) (\<lambda>s.
     case spe_right s (Elem elm) of None \<Rightarrow> Some (Inr (None, s))
     | Some a \<Rightarrow> map_option (\<lambda>b. Inr (Some b, s)) (leftmost s a))"

definition SPLAY_MIN_MAX :: "int \<Rightarrow> splay_st \<Rightarrow> splay_result" where
  "SPLAY_MIN_MAX val s = bindO (SPLAY_MINMAX val s) (\<lambda>s. Some (Inr (sph_root s, s)))"

definition SPLAY_MIN :: "splay_st \<Rightarrow> splay_result" where
  "SPLAY_MIN s = (if SPLAY_EMPTY s then Some (Inr (None, s)) else SPLAY_MIN_MAX (-1) s)"

definition SPLAY_MAX :: "splay_st \<Rightarrow> splay_result" where
  "SPLAY_MAX s = (if SPLAY_EMPTY s then Some (Inr (None, s)) else SPLAY_MIN_MAX 1 s)"

text \<open>The operations under one name, with elements for addresses.\<close>

definition elem_result :: "splay_result \<Rightarrow> (tree_fault + nat option \<times> splay_st) option" where
  "elem_result r = bindO r (\<lambda>(p, s). case p of None \<Rightarrow> Some (Inr (None, s))
     | Some a \<Rightarrow> bindO (Some (elem_at (Some a))) (\<lambda>e. Some (Inr (Some e, s))))"

fun splay_step :: "(nat \<Rightarrow> nat \<Rightarrow> int) \<Rightarrow> tree_op \<Rightarrow> splay_st \<Rightarrow> (tree_fault + nat option \<times> splay_st) option"
where
  "splay_step cmp (Insert e) s = elem_result (SPLAY_INSERT cmp e s)"
| "splay_step cmp (Remove e) s = elem_result (SPLAY_REMOVE cmp e s)"
| "splay_step cmp (Find e) s = elem_result (SPLAY_FIND cmp e s)"
| "splay_step cmp (Next e) s = elem_result (SPLAY_NEXT cmp e s)"
| "splay_step cmp Minimum s = elem_result (SPLAY_MIN s)"
| "splay_step cmp Maximum s = elem_result (SPLAY_MAX s)"

definition SPLAY_FOREACH :: "(nat \<Rightarrow> nat \<Rightarrow> int) \<Rightarrow> splay_st \<Rightarrow> (tree_fault + nat list \<times> splay_st) option" where
  "SPLAY_FOREACH cmp s = bindO (splay_step cmp Minimum s) (\<lambda>(x, s).
     tree_walk (\<lambda>e. splay_step cmp (Next e)) x s)"

end
