(* ===== verification/Splay_Loop.thy ===== *)
theory Splay_Loop
  imports Splay "HOL-Library.Tree"
begin

text \<open>
  The splay loops on trees: the loop takes a tree apart from the root, keeping what is left and what is
  right of its path, and \<open>SPLAY_ASSEMBLE\<close> puts the parts together again. The memory of \<open>Splay\<close> is
  shown to follow this definition step by step; the definition keeps the elements in order and brings
  the place where the comparison changes sign to the root.
\<close>

subsection \<open>Taking a tree apart\<close>

text \<open>
  The left part is a list of trees and elements, the newest first; the right link of its newest element
  is the place where the next tree goes. The right part is its mirror image.
\<close>

type_synonym left_part = "(nat tree \<times> nat) list"
type_synonym right_part = "(nat \<times> nat tree) list"
type_synonym parts = "left_part \<times> right_part \<times> nat tree"

fun left_elems :: "left_part \<Rightarrow> nat list" where
  "left_elems [] = []"
| "left_elems ((a, x) # L) = left_elems L @ inorder a @ [x]"

fun right_elems :: "right_part \<Rightarrow> nat list" where
  "right_elems [] = []"
| "right_elems ((x, b) # R) = x # inorder b @ right_elems R"

fun close_left :: "left_part \<Rightarrow> nat tree \<Rightarrow> nat tree" where
  "close_left [] t = t"
| "close_left ((a, x) # L) t = close_left L (Node a x t)"

fun close_right :: "right_part \<Rightarrow> nat tree \<Rightarrow> nat tree" where
  "close_right [] t = t"
| "close_right ((x, b) # R) t = close_right R (Node t x b)"

lemma inorder_close [simp]:
  "inorder (close_left L t) = left_elems L @ inorder t"
  "inorder (close_right R t) = inorder t @ right_elems R"
  by (induction L t rule: close_left.induct; simp)+ (induction R t rule: close_right.induct; simp)

fun part_elems :: "parts \<Rightarrow> nat list" where
  "part_elems (L, R, t) = left_elems L @ inorder t @ right_elems R"

fun assemble :: "parts \<Rightarrow> nat tree" where
  "assemble (L, R, Leaf) = Leaf"
| "assemble (L, R, Node a y b) = Node (close_left L a) y (close_right R b)"

lemma inorder_assemble: "t \<noteq> Leaf \<Longrightarrow> inorder (assemble (L, R, t)) = part_elems (L, R, t)"
  by (cases t) auto

text \<open>One round of the loop; the first component says whether it goes on.\<close>

fun round :: "(nat \<Rightarrow> int) \<Rightarrow> parts \<Rightarrow> bool \<times> parts" where
  "round c (L, R, Node a y b) =
     (if c y < 0 then case a of Leaf \<Rightarrow> (False, L, R, Node a y b)
        | Node aa z ab \<Rightarrow>
            if c z < 0
            then if aa = Leaf then (False, L, R, Node Leaf z (Node ab y b))
                 else (True, L, (z, Node ab y b) # R, aa)
            else (True, L, (y, b) # R, a)
      else if c y > 0 then case b of Leaf \<Rightarrow> (False, L, R, Node a y b)
        | Node ba z bb \<Rightarrow>
            if c z > 0
            then if bb = Leaf then (False, L, R, Node (Node a y ba) z Leaf)
                 else (True, (Node a y ba, z) # L, R, bb)
            else (True, (a, y) # L, R, b)
      else (False, L, R, Node a y b))"
| "round c (L, R, Leaf) = (False, L, R, Leaf)"

lemma round_size:
  "round c (L, R, t) = (True, L', R', t') \<Longrightarrow> size t' < size t"
  by (cases t) (auto split: if_splits tree.splits)

lemma round_Leaf: "round c (L, R, t) = (m, L', R', t') \<Longrightarrow> t \<noteq> Leaf \<Longrightarrow> t' \<noteq> Leaf"
  by (cases t) (auto split: if_splits tree.splits)

lemma round_elems: "round c z = (m, z') \<Longrightarrow> part_elems z' = part_elems z"
  by (cases "(c, z)" rule: round.cases) (auto split: if_splits tree.splits)

function rounds :: "(nat \<Rightarrow> int) \<Rightarrow> parts \<Rightarrow> parts" where
  "rounds c z = (if fst (round c z) then rounds c (snd (round c z)) else snd (round c z))"
  by pat_completeness auto
termination
proof (relation "measure (\<lambda>(c, L, R, t). size t)")
  show "((c, snd (round c z)), c, z) \<in> measure (\<lambda>(c, L, R, t). size t)" if "fst (round c z)" for c z
    using that by (cases z, cases "round c z") (auto dest: round_size)
qed simp

declare rounds.simps [simp del]

lemma rounds_elems: "part_elems (rounds c z) = part_elems z"
  by (induction c z rule: rounds.induct)
    (metis rounds.simps round_elems prod.collapse)

text \<open>
  What the loop is for: if the comparison cuts the elements, then in the end it is positive on all that
  goes to the left of the root and negative on all that goes to the right.
\<close>

fun cut_parts :: "(nat \<Rightarrow> int) \<Rightarrow> parts \<Rightarrow> bool" where
  "cut_parts c (L, R, t) \<longleftrightarrow> (\<forall>x\<in>set (left_elems L). 0 < c x) \<and> (\<forall>x\<in>set (right_elems R). c x < 0)"

fun cut_root :: "(nat \<Rightarrow> int) \<Rightarrow> nat tree \<Rightarrow> bool" where
  "cut_root c Leaf \<longleftrightarrow> False"
| "cut_root c (Node a y b) \<longleftrightarrow> (\<forall>x\<in>set_tree a. 0 < c x) \<and> (\<forall>x\<in>set_tree b. c x < 0)"

lemma round_cut:
  assumes "round c (L, R, t) = (m, L', R', t')" and "cut_parts c (L, R, t)" and "cuts c (inorder t)"
    and "t \<noteq> Leaf"
  shows "cut_parts c (L', R', t')" and "\<not> m \<Longrightarrow> cut_root c t'"
  using assms
  by (cases t; fastforce simp: cuts_append cuts_Cons split: if_splits tree.splits)+

lemma cuts_parts: "cuts c (part_elems (L, R, t)) \<Longrightarrow> cuts c (inorder t)"
  by (simp add: cuts_append)

lemma rounds_cut:
  "cuts c (part_elems (L, R, t)) \<Longrightarrow> cut_parts c (L, R, t) \<Longrightarrow> t \<noteq> Leaf \<Longrightarrow>
    rounds c (L, R, t) = (L', R', t') \<Longrightarrow> cut_parts c (L', R', t') \<and> cut_root c t'"
proof (induction "size t" arbitrary: L R t rule: less_induct)
  case less
  obtain m L1 R1 t1 where r: "round c (L, R, t) = (m, L1, R1, t1)" by (metis prod_cases4)
  note cut = round_cut[OF r less.prems(2) cuts_parts[OF less.prems(1)] less.prems(3)]
  show ?case
  proof (cases m)
    case True
    have "cuts c (part_elems (L1, R1, t1))"
      using less.prems(1) round_elems[OF r] by simp
    moreover have "rounds c (L1, R1, t1) = (L', R', t')"
      using less.prems(4) r True by (simp add: rounds.simps[of c "(L, R, t)"] del: round.simps)
    moreover have "size t1 < size t" using round_size r True by auto
    ultimately show ?thesis
      using less.hyps cut(1) round_Leaf[OF r less.prems(3)] by blast
  next
    case False
    then have "(L', R', t') = (L1, R1, t1)"
      using less.prems(4) r by (simp add: rounds.simps[of c "(L, R, t)"] del: round.simps)
    with cut False show ?thesis by simp
  qed
qed

lemma set_inorder_tree: "set_tree t = set (inorder t)"
  by simp

definition splay_tree :: "(nat \<Rightarrow> int) \<Rightarrow> nat tree \<Rightarrow> nat tree" where
  "splay_tree c t = assemble (rounds c ([], [], t))"

lemma rounds_Leaf: "t \<noteq> Leaf \<Longrightarrow> rounds c (L, R, t) = (L', R', t') \<Longrightarrow> t' \<noteq> Leaf"
proof (induction "size t" arbitrary: L R t rule: less_induct)
  case less
  obtain m L1 R1 t1 where r: "round c (L, R, t) = (m, L1, R1, t1)" by (metis prod_cases4)
  with less round_size[of c L R t L1 R1 t1] round_Leaf[OF r] show ?case
    by (cases m) (auto simp: rounds.simps[of c "(L, R, t)"])
qed

lemma inorder_splay_tree: "t \<noteq> Leaf \<Longrightarrow> inorder (splay_tree c t) = inorder t"
  using rounds_elems[of c "([], [], t)"] rounds_Leaf[of t c "[]" "[]"] inorder_assemble
  by (cases "rounds c ([], [], t)") (auto simp: splay_tree_def)

lemma splay_tree_cut:
  assumes "t \<noteq> Leaf" and "cuts c (inorder t)"
  shows "cut_root c (splay_tree c t)"
proof -
  obtain L R t' where r: "rounds c ([], [], t) = (L, R, t')" by (metis prod_cases3)
  with assms rounds_cut[of c "[]" "[]" t] have "cut_parts c (L, R, t')" "cut_root c t'" by auto
  then show ?thesis
    by (cases t') (auto simp: splay_tree_def r simp del: set_inorder simp: set_inorder_tree)
qed

end
