(* ===== verification/Splay_Memory.thy ===== *)
theory Splay_Memory
  imports Splay_Loop
begin

text \<open>
  The memory of \<open>Splay\<close> holds the trees of \<open>Splay_Loop\<close>: the loops and \<open>SPLAY_ASSEMBLE\<close> compute
  \<open>splay_tree\<close>, for the comparison with an element and for the constant comparison of
  \<^theory_text>\<open>SPLAY_MINMAX\<close> alike.
\<close>

subsection \<open>Trees in memory\<close>

type_synonym links = "addr \<Rightarrow> addr option"

fun tree_at :: "links \<Rightarrow> links \<Rightarrow> addr option \<Rightarrow> nat tree \<Rightarrow> bool" where
  "tree_at l r p Leaf \<longleftrightarrow> p = None"
| "tree_at l r p (Node a x b) \<longleftrightarrow>
     p = Some (Elem x) \<and> tree_at l r (l (Elem x)) a \<and> tree_at l r (r (Elem x)) b"

text \<open>The open end of a part: the node on the stack before anything is linked.\<close>

fun left_end :: "left_part \<Rightarrow> addr" where
  "left_end [] = Stack_node"
| "left_end ((a, x) # L) = Elem x"

fun right_end :: "right_part \<Rightarrow> addr" where
  "right_end [] = Stack_node"
| "right_end ((x, b) # R) = Elem x"

fun left_at :: "links \<Rightarrow> links \<Rightarrow> left_part \<Rightarrow> bool" where
  "left_at l r [] \<longleftrightarrow> True"
| "left_at l r ((a, x) # L) \<longleftrightarrow>
     tree_at l r (l (Elem x)) a \<and> r (left_end L) = Some (Elem x) \<and> left_at l r L"

fun right_at :: "links \<Rightarrow> links \<Rightarrow> right_part \<Rightarrow> bool" where
  "right_at l r [] \<longleftrightarrow> True"
| "right_at l r ((x, b) # R) \<longleftrightarrow>
     tree_at l r (r (Elem x)) b \<and> l (right_end R) = Some (Elem x) \<and> right_at l r R"

lemma left_end_in: "left_end L = Elem x \<Longrightarrow> x \<in> set (left_elems L)"
  by (cases L) auto

lemma right_end_in: "right_end R = Elem x \<Longrightarrow> x \<in> set (right_elems R)"
  by (cases R) auto

lemma end_neq [simp]:
  "x \<notin> set (left_elems L) \<Longrightarrow> Elem x \<noteq> left_end L" "x \<notin> set (left_elems L) \<Longrightarrow> left_end L \<noteq> Elem x"
  "x \<notin> set (right_elems R) \<Longrightarrow> Elem x \<noteq> right_end R" "x \<notin> set (right_elems R) \<Longrightarrow> right_end R \<noteq> Elem x"
  using left_end_in right_end_in by metis+

text \<open>Writes elsewhere.\<close>

lemma tree_at_agree:
  "(\<And>x. x \<in> set_tree t \<Longrightarrow> l' (Elem x) = l (Elem x) \<and> r' (Elem x) = r (Elem x)) \<Longrightarrow>
    tree_at l' r' q t = tree_at l r q t"
  by (induction t arbitrary: q) auto

lemma tree_at_write [frame_simps]:
  "x \<notin> set_tree t \<Longrightarrow> tree_at (l(Elem x := p)) r q t = tree_at l r q t"
  "x \<notin> set_tree t \<Longrightarrow> tree_at l (r(Elem x := p)) q t = tree_at l r q t"
  "tree_at (l(Stack_node := p)) r q t = tree_at l r q t"
  "tree_at l (r(Stack_node := p)) q t = tree_at l r q t"
  by (rule tree_at_agree; auto)+

lemma left_at_agree:
  assumes "\<And>x. x \<in> set (left_elems L) \<Longrightarrow> l' (Elem x) = l (Elem x)"
    and "\<And>x. x \<in> set (left_elems L) \<Longrightarrow> Elem x \<noteq> left_end L \<Longrightarrow> r' (Elem x) = r (Elem x)"
    and "L \<noteq> [] \<Longrightarrow> r' Stack_node = r Stack_node" and "distinct (left_elems L)"
  shows "left_at l' r' L = left_at l r L"
  using assms
proof (induction L rule: left_elems.induct)
  case (2 a x L)
  have "r' (left_end L) = r (left_end L)"
  proof (cases "left_end L")
    case Stack_node
    then show ?thesis using "2.prems"(3) by simp
  next
    case (Elem m)
    then have "m \<in> set (left_elems L)" by (rule left_end_in)
    moreover from this have "m \<noteq> x" using "2.prems"(4) by auto
    ultimately show ?thesis using "2.prems"(2)[of m] Elem by simp
  qed
  moreover have "tree_at l' r' (l' (Elem x)) a = tree_at l r (l (Elem x)) a"
  proof -
    have "l' (Elem x) = l (Elem x)" using "2.prems"(1)[of x] by simp
    moreover have "l' (Elem y) = l (Elem y) \<and> r' (Elem y) = r (Elem y)" if "y \<in> set_tree a" for y
      using that "2.prems"(1)[of y] "2.prems"(2)[of y] "2.prems"(4) by auto
    ultimately show ?thesis by (simp add: tree_at_agree[of a l' l r' r])
  qed
  moreover have "left_at l' r' L = left_at l r L"
  proof (rule "2.IH")
    show "r' Stack_node = r Stack_node" if "L \<noteq> []" using "2.prems"(3) by simp
    show "r' (Elem y) = r (Elem y)" if "y \<in> set (left_elems L)" for y
      using that "2.prems"(2)[of y] "2.prems"(4) by auto
  qed (use "2.prems" in auto)
  ultimately show ?case by simp
qed simp

lemma right_at_agree:
  assumes "\<And>x. x \<in> set (right_elems R) \<Longrightarrow> r' (Elem x) = r (Elem x)"
    and "\<And>x. x \<in> set (right_elems R) \<Longrightarrow> Elem x \<noteq> right_end R \<Longrightarrow> l' (Elem x) = l (Elem x)"
    and "R \<noteq> [] \<Longrightarrow> l' Stack_node = l Stack_node" and "distinct (right_elems R)"
  shows "right_at l' r' R = right_at l r R"
  using assms
proof (induction R rule: right_elems.induct)
  case (2 x b R)
  have "l' (right_end R) = l (right_end R)"
  proof (cases "right_end R")
    case Stack_node
    then show ?thesis using "2.prems"(3) by simp
  next
    case (Elem m)
    then have "m \<in> set (right_elems R)" by (rule right_end_in)
    moreover from this have "m \<noteq> x" using "2.prems"(4) by auto
    ultimately show ?thesis using "2.prems"(2)[of m] Elem by simp
  qed
  moreover have "tree_at l' r' (r' (Elem x)) b = tree_at l r (r (Elem x)) b"
  proof -
    have "r' (Elem x) = r (Elem x)" using "2.prems"(1)[of x] by simp
    moreover have "l' (Elem y) = l (Elem y) \<and> r' (Elem y) = r (Elem y)" if "y \<in> set_tree b" for y
      using that "2.prems"(1)[of y] "2.prems"(2)[of y] "2.prems"(4) by auto
    ultimately show ?thesis by (simp add: tree_at_agree[of b l' l r' r])
  qed
  moreover have "right_at l' r' R = right_at l r R"
  proof (rule "2.IH")
    show "l' Stack_node = l Stack_node" if "R \<noteq> []" using "2.prems"(3) by simp
    show "l' (Elem y) = l (Elem y)" if "y \<in> set (right_elems R)" for y
      using that "2.prems"(2)[of y] "2.prems"(4) by auto
  qed (use "2.prems" in auto)
  ultimately show ?case by simp
qed simp

subsection \<open>The invariant of the loops\<close>

text \<open>What a loop may not touch: the elements outside \<open>A\<close> have the links they had in \<open>F\<close>.\<close>

definition outside :: "splay_st \<Rightarrow> nat set \<Rightarrow> splay_st \<Rightarrow> bool" where
  "outside F A s \<longleftrightarrow> (\<forall>x. x \<notin> A \<longrightarrow>
     spe_left s (Elem x) = spe_left F (Elem x) \<and> spe_right s (Elem x) = spe_right F (Elem x))"

definition holds_tree :: "splay_st \<Rightarrow> splay_st \<Rightarrow> nat tree \<Rightarrow> bool" where
  "holds_tree F s t \<longleftrightarrow> tree_at (spe_left s) (spe_right s) (sph_root s) t \<and> distinct (inorder t) \<and>
     outside F (set (inorder t)) s"

fun holds_parts :: "splay_st \<Rightarrow> splay_loop_st \<Rightarrow> parts \<Rightarrow> bool" where
  "holds_parts F (lp, rp, s) (L, R, t) \<longleftrightarrow>
     lp = left_end L \<and> rp = right_end R \<and>
     tree_at (spe_left s) (spe_right s) (sph_root s) t \<and>
     left_at (spe_left s) (spe_right s) L \<and> right_at (spe_left s) (spe_right s) R \<and>
     distinct (part_elems (L, R, t)) \<and> outside F (set (part_elems (L, R, t))) s"

lemma holds_partsI:
  assumes "lp = left_end L" and "rp = right_end R"
    and "tree_at (spe_left s) (spe_right s) (sph_root s) t"
    and "left_at (spe_left s) (spe_right s) L" and "right_at (spe_left s) (spe_right s) R"
    and "distinct (part_elems (L, R, t))" and "outside F (set (part_elems (L, R, t))) s"
  shows "holds_parts F (lp, rp, s) (L, R, t)"
  using assms by simp

lemma rotate_right_parts:
  assumes "holds_parts F (lp, rp, s) (L, R, Node (Node aa z ab) y b)"
  shows "\<exists>s'. SPLAY_ROTATE_RIGHT (Elem z) s = Inr s' \<and>
    holds_parts F (lp, rp, s') (L, R, Node aa z (Node ab y b))"
proof -
  define s' where "s' = s\<lparr>sph_root := Some (Elem z),
    spe_left := (spe_left s)(Elem y := spe_right s (Elem z)),
    spe_right := (spe_right s)(Elem z := Some (Elem y))\<rparr>"
  have d: "distinct (part_elems (L, R, Node (Node aa z ab) y b))"
    and root: "sph_root s = Some (Elem y)" using assms by auto
  have "SPLAY_ROTATE_RIGHT (Elem z) s = Inr s'"
    by (simp add: SPLAY_ROTATE_RIGHT_def root s'_def)
  moreover have "holds_parts F (lp, rp, s') (L, R, Node aa z (Node ab y b))"
  proof (rule holds_partsI)
    show "tree_at (spe_left s') (spe_right s') (sph_root s') (Node aa z (Node ab y b))"
      using assms d by (auto simp: s'_def frame_simps)
    show "left_at (spe_left s') (spe_right s') L"
      using assms d by (subst left_at_agree[of _ _ "spe_left s" _ "spe_right s"]) (auto simp: s'_def)
    show "right_at (spe_left s') (spe_right s') R"
      using assms d by (subst right_at_agree[of _ _ "spe_right s" _ "spe_left s"]) (auto simp: s'_def)
  qed (use assms d in \<open>auto simp: outside_def s'_def\<close>)
  ultimately show ?thesis by blast
qed

lemma rotate_left_parts:
  assumes "holds_parts F (lp, rp, s) (L, R, Node a y (Node ba z bb))"
  shows "\<exists>s'. SPLAY_ROTATE_LEFT (Elem z) s = Inr s' \<and>
    holds_parts F (lp, rp, s') (L, R, Node (Node a y ba) z bb)"
proof -
  define s' where "s' = s\<lparr>sph_root := Some (Elem z),
    spe_left := (spe_left s)(Elem z := Some (Elem y)),
    spe_right := (spe_right s)(Elem y := spe_left s (Elem z))\<rparr>"
  have d: "distinct (part_elems (L, R, Node a y (Node ba z bb)))"
    and root: "sph_root s = Some (Elem y)" using assms by auto
  have "SPLAY_ROTATE_LEFT (Elem z) s = Inr s'"
    by (simp add: SPLAY_ROTATE_LEFT_def root s'_def)
  moreover have "holds_parts F (lp, rp, s') (L, R, Node (Node a y ba) z bb)"
  proof (rule holds_partsI)
    show "tree_at (spe_left s') (spe_right s') (sph_root s') (Node (Node a y ba) z bb)"
      using assms d by (auto simp: s'_def frame_simps)
    show "left_at (spe_left s') (spe_right s') L"
      using assms d by (subst left_at_agree[of _ _ "spe_left s" _ "spe_right s"]) (auto simp: s'_def)
    show "right_at (spe_left s') (spe_right s') R"
      using assms d by (subst right_at_agree[of _ _ "spe_right s" _ "spe_left s"]) (auto simp: s'_def)
  qed (use assms d in \<open>auto simp: outside_def s'_def\<close>)
  ultimately show ?thesis by blast
qed

lemma end_Stack_iff [simp]:
  "left_end L = Stack_node \<longleftrightarrow> L = []" "Stack_node = left_end L \<longleftrightarrow> L = []"
  "right_end R = Stack_node \<longleftrightarrow> R = []" "Stack_node = right_end R \<longleftrightarrow> R = []"
  by ((cases L; force) | (cases R; force))+

lemma tree_at_write_end:
  "set (left_elems L) \<inter> set_tree t = {} \<Longrightarrow>
    tree_at l (r(left_end L := p)) q t = tree_at l r q t"
  "set (right_elems R) \<inter> set_tree t = {} \<Longrightarrow>
    tree_at (l(right_end R := p)) r q t = tree_at l r q t"
  by (rule tree_at_agree; metis disjoint_iff end_neq(1,3) fun_upd_other)+

lemma link_left_parts:
  assumes "holds_parts F (lp, rp, s) (L, R, Node a y b)"
  shows "\<exists>s'. SPLAY_LINKLEFT rp s = Inr (Elem y, s') \<and> holds_parts F (lp, Elem y, s') (L, (y, b) # R, a)"
proof -
  define s' where "s' = s\<lparr>sph_root := spe_left s (Elem y),
    spe_left := (spe_left s)(right_end R := Some (Elem y))\<rparr>"
  have d: "distinct (part_elems (L, R, Node a y b))" and rp: "rp = right_end R"
    and root: "sph_root s = Some (Elem y)" using assms by auto
  have neq: "Elem x \<noteq> right_end R" if "x \<in> set (left_elems L) \<union> set_tree (Node a y b)" for x
    using d that by (intro end_neq) auto
  have apart: "set (right_elems R) \<inter> set_tree a = {}" "set (right_elems R) \<inter> set_tree b = {}"
    using d by auto
  have "SPLAY_LINKLEFT rp s = Inr (Elem y, s')"
    using neq[of y] by (simp add: SPLAY_LINKLEFT_def root s'_def rp)
  moreover have "holds_parts F (lp, Elem y, s') (L, (y, b) # R, a)"
  proof (rule holds_partsI)
    show "tree_at (spe_left s') (spe_right s') (sph_root s') a"
      using assms d apart by (auto simp: s'_def tree_at_write_end)
    show "left_at (spe_left s') (spe_right s') L"
      using assms d neq by (subst left_at_agree[of _ _ "spe_left s" _ "spe_right s"]) (auto simp: s'_def)
    have "right_at (spe_left s') (spe_right s') R"
      using assms d by (subst right_at_agree[of _ _ "spe_right s" _ "spe_left s"]) (auto simp: s'_def)
    then show "right_at (spe_left s') (spe_right s') ((y, b) # R)"
      using assms d apart by (auto simp: s'_def tree_at_write_end)
  qed (use assms d in \<open>auto simp: outside_def s'_def\<close>)
  ultimately show ?thesis by blast
qed

lemma link_right_parts:
  assumes "holds_parts F (lp, rp, s) (L, R, Node a y b)"
  shows "\<exists>s'. SPLAY_LINKRIGHT lp s = Inr (Elem y, s') \<and> holds_parts F (Elem y, rp, s') ((a, y) # L, R, b)"
proof -
  define s' where "s' = s\<lparr>sph_root := spe_right s (Elem y),
    spe_right := (spe_right s)(left_end L := Some (Elem y))\<rparr>"
  have d: "distinct (part_elems (L, R, Node a y b))" and lp: "lp = left_end L"
    and root: "sph_root s = Some (Elem y)" using assms by auto
  have neq: "Elem x \<noteq> left_end L" if "x \<in> set (right_elems R) \<union> set_tree (Node a y b)" for x
    using d that by (intro end_neq) auto
  have apart: "set (left_elems L) \<inter> set_tree a = {}" "set (left_elems L) \<inter> set_tree b = {}"
    using d by auto
  have "SPLAY_LINKRIGHT lp s = Inr (Elem y, s')"
    using neq[of y] by (simp add: SPLAY_LINKRIGHT_def root s'_def lp)
  moreover have "holds_parts F (Elem y, rp, s') ((a, y) # L, R, b)"
  proof (rule holds_partsI)
    show "tree_at (spe_left s') (spe_right s') (sph_root s') b"
      using assms d apart by (auto simp: s'_def tree_at_write_end)
    have "left_at (spe_left s') (spe_right s') L"
      using assms d by (subst left_at_agree[of _ _ "spe_left s" _ "spe_right s"]) (auto simp: s'_def)
    then show "left_at (spe_left s') (spe_right s') ((a, y) # L)"
      using assms d apart by (auto simp: s'_def tree_at_write_end)
    show "right_at (spe_left s') (spe_right s') R"
      using assms d neq by (subst right_at_agree[of _ _ "spe_right s" _ "spe_left s"]) (auto simp: s'_def)
  qed (use assms d in \<open>auto simp: outside_def s'_def\<close>)
  ultimately show ?thesis by blast
qed

subsection \<open>The loops\<close>

lemma tree_at_None [simp]: "tree_at l r None t \<longleftrightarrow> t = Leaf"
  by (cases t) auto

lemma tree_at_Leaf_iff: "tree_at l r p t \<Longrightarrow> p = None \<longleftrightarrow> t = Leaf"
  by (cases t) auto

lemma body_left:
  assumes h: "holds_parts F (lp, rp, s) (L, R, Node a y b)" and tst: "\<And>z. tst (Elem z) = Inr (c z)"
    and neg: "c y < 0" and r: "round c (L, R, Node a y b) = (m, z')"
  shows "\<exists>st. splay_body tst (c y) (lp, rp, s) = Inr (m, st) \<and> holds_parts F st z'"
proof (cases a)
  case Leaf
  with h neg r show ?thesis by (auto simp: splay_body_def)
next
  case (Node aa z ab)
  have root: "sph_root s = Some (Elem y)" "spe_left s (Elem y) = Some (Elem z)" using h Node by auto
  show ?thesis
  proof (cases "c z < 0")
    case False
    obtain s' where "SPLAY_LINKLEFT rp s = Inr (Elem y, s')" "holds_parts F (lp, Elem y, s') (L, (y, b) # R, a)"
      using link_left_parts[OF h] by blast
    then show ?thesis using neg r Node False root by (auto simp: splay_body_def tst simp del: holds_parts.simps)
  next
    case True
    obtain s1 where s1: "SPLAY_ROTATE_RIGHT (Elem z) s = Inr s1"
      "holds_parts F (lp, rp, s1) (L, R, Node aa z (Node ab y b))"
      using rotate_right_parts h[unfolded Node] by blast
    then have root1: "sph_root s1 = Some (Elem z)" "spe_left s1 (Elem z) = None \<longleftrightarrow> aa = Leaf"
      by (auto dest: tree_at_Leaf_iff)
    show ?thesis
    proof (cases "aa = Leaf")
      case Leaf: True
      with s1 root1 show ?thesis using neg r Node True root by (auto simp: splay_body_def tst simp del: holds_parts.simps)
    next
      case False
      obtain s2 where "SPLAY_LINKLEFT rp s1 = Inr (Elem z, s2)"
        "holds_parts F (lp, Elem z, s2) (L, (z, Node ab y b) # R, aa)"
        using link_left_parts[OF s1(2)] by blast
      with s1(1) root1 False show ?thesis using neg r Node True root by (auto simp: splay_body_def tst simp del: holds_parts.simps)
    qed
  qed
qed

lemma body_right:
  assumes h: "holds_parts F (lp, rp, s) (L, R, Node a y b)" and tst: "\<And>z. tst (Elem z) = Inr (c z)"
    and pos: "0 < c y" and r: "round c (L, R, Node a y b) = (m, z')"
  shows "\<exists>st. splay_body tst (c y) (lp, rp, s) = Inr (m, st) \<and> holds_parts F st z'"
proof (cases b)
  case Leaf
  with h pos r show ?thesis by (auto simp: splay_body_def)
next
  case (Node ba z bb)
  have root: "sph_root s = Some (Elem y)" "spe_right s (Elem y) = Some (Elem z)" using h Node by auto
  show ?thesis
  proof (cases "0 < c z")
    case False
    obtain s' where "SPLAY_LINKRIGHT lp s = Inr (Elem y, s')" "holds_parts F (Elem y, rp, s') ((a, y) # L, R, b)"
      using link_right_parts[OF h] by blast
    then show ?thesis using pos r Node False root by (auto simp: splay_body_def tst simp del: holds_parts.simps)
  next
    case True
    obtain s1 where s1: "SPLAY_ROTATE_LEFT (Elem z) s = Inr s1"
      "holds_parts F (lp, rp, s1) (L, R, Node (Node a y ba) z bb)"
      using rotate_left_parts h[unfolded Node] by blast
    then have root1: "sph_root s1 = Some (Elem z)" "spe_right s1 (Elem z) = None \<longleftrightarrow> bb = Leaf"
      by (auto dest: tree_at_Leaf_iff)
    show ?thesis
    proof (cases "bb = Leaf")
      case Leaf: True
      with s1 root1 show ?thesis using pos r Node True root by (auto simp: splay_body_def tst simp del: holds_parts.simps)
    next
      case False
      obtain s2 where "SPLAY_LINKRIGHT lp s1 = Inr (Elem z, s2)"
        "holds_parts F (Elem z, rp, s2) ((Node a y ba, z) # L, R, bb)"
        using link_right_parts[OF s1(2)] by blast
      with s1(1) root1 False show ?thesis using pos r Node True root by (auto simp: splay_body_def tst simp del: holds_parts.simps)
    qed
  qed
qed

lemma body_ok:
  assumes "holds_parts F st (L, R, Node a y b)" and "\<And>z. tst (Elem z) = Inr (c z)"
    and "c y \<noteq> 0" and "round c (L, R, Node a y b) = (m, z')"
  shows "\<exists>st'. splay_body tst (c y) st = Inr (m, st') \<and> holds_parts F st' z'"
  using assms body_left body_right by (cases st) (metis linorder_neqE)

lemma key_cmp_Elem [simp]: "key_cmp c (Some (Elem z)) = Inr (c z)"
  by (simp add: key_cmp_def)

lemma while_ok:
  "holds_parts F st (L, R, t) \<Longrightarrow> t \<noteq> Leaf \<Longrightarrow>
    \<exists>st'. splay_while c st = Some (Inr st') \<and> holds_parts F st' (rounds c (L, R, t))"
proof (induction "size t" arbitrary: st L R t rule: less_induct)
  case less
  then obtain a y b where t: "t = Node a y b" by (cases t) auto
  obtain m L1 R1 t1 where r: "round c (L, R, t) = (m, L1, R1, t1)" by (metis prod_cases4)
  have root: "key_cmp c (sph_root (snd (snd st))) = Inr (c y)"
    using less.prems t by (cases st) auto
  show ?case
  proof (cases "c y = 0")
    case True
    then show ?thesis
      using less.prems root t
      by (simp add: splay_while.simps[of c st] rounds.simps[of c "(L, R, Node a y b)"])
  next
    case False
    obtain st1 where st1: "splay_body (\<lambda>tmp. key_cmp c (Some tmp)) (c y) st = Inr (m, st1)"
      "holds_parts F st1 (L1, R1, t1)"
      using body_ok[OF less.prems(1)[unfolded t] key_cmp_Elem False r[unfolded t]] by blast
    show ?thesis
    proof (cases m)
      case True
      with r have "size t1 < size t" "t1 \<noteq> Leaf"
      using round_size[of _ L R t L1 R1 t1] round_Leaf[OF r] less.prems(2) by auto
      with less.hyps st1(2) obtain st' where "splay_while c st1 = Some (Inr st')"
        "holds_parts F st' (rounds c (L1, R1, t1))" by blast
      with True False root st1(1) r show ?thesis
        by (simp add: splay_while.simps[of c st] rounds.simps[of c "(L, R, t)"] del: round.simps)
    next
      case m: False
      with False root st1 r show ?thesis
        by (simp add: splay_while.simps[of c st] rounds.simps[of c "(L, R, t)"] del: round.simps)
    qed
  qed
qed

text \<open>The loop of \<^theory_text>\<open>SPLAY_MINMAX\<close> is the other loop with a constant comparison.\<close>

lemma minmax_while_ok:
  "holds_parts F st (L, R, t) \<Longrightarrow> t \<noteq> Leaf \<Longrightarrow> d \<noteq> 0 \<Longrightarrow>
    \<exists>st'. minmax_while d st = Some (Inr st') \<and> holds_parts F st' (rounds (\<lambda>_. d) (L, R, t))"
proof (induction "size t" arbitrary: st L R t rule: less_induct)
  case less
  then obtain a y b where t: "t = Node a y b" by (cases t) auto
  obtain m L1 R1 t1 where r: "round (\<lambda>_. d) (L, R, t) = (m, L1, R1, t1)" by (metis prod_cases4)
  obtain st1 where st1: "splay_body (\<lambda>tmp. Inr d) d st = Inr (m, st1)" "holds_parts F st1 (L1, R1, t1)"
    using body_ok[OF less.prems(1)[unfolded t] refl less.prems(3) r[unfolded t]] by blast
  show ?case
  proof (cases m)
    case True
    with r have "size t1 < size t" "t1 \<noteq> Leaf"
      using round_size[of _ L R t L1 R1 t1] round_Leaf[OF r] less.prems(2) by auto
    with less.hyps st1(2) less.prems(3) obtain st' where "minmax_while d st1 = Some (Inr st')"
      "holds_parts F st' (rounds (\<lambda>_. d) (L1, R1, t1))" by blast
    with True st1(1) r show ?thesis
      by (simp add: minmax_while.simps[of d st] rounds.simps[of _ "(L, R, t)"] del: round.simps)
  next
    case False
    with st1 r show ?thesis
      by (simp add: minmax_while.simps[of d st] rounds.simps[of _ "(L, R, t)"] del: round.simps)
  qed
qed

subsection \<open>Assembling\<close>

lemma close_left_at:
  "left_at l r L \<Longrightarrow> tree_at l r (r (left_end L)) a \<Longrightarrow> tree_at l r (r Stack_node) (close_left L a)"
  by (induction L a rule: close_left.induct) auto

lemma close_right_at:
  "right_at l r R \<Longrightarrow> tree_at l r (l (right_end R)) b \<Longrightarrow> tree_at l r (l Stack_node) (close_right R b)"
  by (induction R b rule: close_right.induct) auto

lemma assemble_ok:
  assumes h: "holds_parts F (lp, rp, s) (L, R, t)" and "t \<noteq> Leaf"
  shows "\<exists>s'. SPLAY_ASSEMBLE Stack_node lp rp s = Inr s' \<and> holds_tree F s' (assemble (L, R, t))"
proof -
  obtain a y b where t: "t = Node a y b" using assms by (cases t) auto
  have root: "sph_root s = Some (Elem y)" and d: "distinct (part_elems (L, R, t))"
    and ends: "lp = left_end L" "rp = right_end R" using h t by auto
  define r1 where "r1 = (spe_right s)(left_end L := spe_left s (Elem y))"
  define l1 where "l1 = (spe_left s)(right_end R := spe_right s (Elem y))"
  define s' where "s' = s\<lparr>spe_left := l1(Elem y := r1 Stack_node), spe_right := r1(Elem y := l1 Stack_node)\<rparr>"
  have neq: "Elem y \<noteq> left_end L" "Elem y \<noteq> right_end R" using d t by (auto intro!: end_neq)
  have apart: "set (left_elems L) \<inter> set_tree a = {}" "set (left_elems L) \<inter> set_tree b = {}"
    "set (right_elems R) \<inter> set_tree a = {}" "set (right_elems R) \<inter> set_tree b = {}"
    using d t by auto
  have neqs: "Elem x \<noteq> left_end L" if "x \<in> set (right_elems R)" for x
    using d that by (intro end_neq) auto
  have neqs': "Elem x \<noteq> right_end R" if "x \<in> set (left_elems L)" for x
    using d that by (intro end_neq) auto
  have a: "tree_at l1 r1 (r1 (left_end L)) a" and b: "tree_at l1 r1 (l1 (right_end R)) b"
    using h t apart by (simp_all add: l1_def r1_def tree_at_write_end)
  have "left_at l1 r1 L"
    using h d neqs' by (subst left_at_agree[of _ _ "spe_left s" _ "spe_right s"])
      (auto simp: l1_def r1_def)
  from close_left_at[OF this a] have L: "tree_at l1 r1 (r1 Stack_node) (close_left L a)" .
  have "right_at l1 r1 R"
    using h d neqs by (subst right_at_agree[of _ _ "spe_right s" _ "spe_left s"])
      (auto simp: l1_def r1_def)
  from close_right_at[OF this b] have R: "tree_at l1 r1 (l1 Stack_node) (close_right R b)" .
  have elems: "set_tree (close_left L a) = set (left_elems L) \<union> set_tree a"
    "set_tree (close_right R b) = set_tree b \<union> set (right_elems R)"
    by (simp_all flip: set_inorder)
  have "SPLAY_ASSEMBLE Stack_node lp rp s = Inr s'"
    using neq by (simp add: SPLAY_ASSEMBLE_def root ends s'_def l1_def r1_def Let_def)
  moreover have "y \<notin> set_tree (close_left L a)" "y \<notin> set_tree (close_right R b)"
    using d t by (auto simp: elems)
  then have "tree_at (spe_left s') (spe_right s') (sph_root s') (assemble (L, R, t))"
    using L R by (simp add: t s'_def root tree_at_write(1,2))
  moreover have "distinct (inorder (assemble (L, R, t)))"
    using d assms(2) by (simp add: inorder_assemble)
  moreover have "outside F (set (part_elems (L, R, t))) s'"
    using h neq d by (auto simp: t outside_def s'_def l1_def r1_def)
  then have "outside F (set (inorder (assemble (L, R, t)))) s'"
    by (simp only: inorder_assemble[OF assms(2)])
  ultimately show ?thesis by (auto simp: holds_tree_def)
qed

lemma start_ok: "holds_tree F s t \<Longrightarrow> holds_parts F (splay_start s) ([], [], t)"
  by (simp add: holds_tree_def splay_start_def tree_at_write outside_def)

lemma SPLAY_ok:
  assumes "holds_tree F s t" and "t \<noteq> Leaf"
  shows "\<exists>s'. SPLAY c s = Some (Inr s') \<and> holds_tree F s' (splay_tree c t)"
proof -
  obtain L R u where r: "rounds c ([], [], t) = (L, R, u)" by (metis prod_cases3)
  then obtain lp rp s1 where "splay_while c (splay_start s) = Some (Inr (lp, rp, s1))"
    "holds_parts F (lp, rp, s1) (L, R, u)"
    using while_ok[OF start_ok[OF assms(1)] assms(2), of c] by (metis prod_cases3)
  then show ?thesis
    using assemble_ok[of F lp rp s1 L R u] rounds_Leaf[OF assms(2) r]
    by (auto simp: SPLAY_def splay_tree_def r simp del: holds_parts.simps)
qed

lemma SPLAY_MINMAX_ok:
  assumes "holds_tree F s t" and "t \<noteq> Leaf" and "d \<noteq> 0"
  shows "\<exists>s'. SPLAY_MINMAX d s = Some (Inr s') \<and> holds_tree F s' (splay_tree (\<lambda>_. d) t)"
proof -
  obtain L R u where r: "rounds (\<lambda>_. d) ([], [], t) = (L, R, u)" by (metis prod_cases3)
  then obtain lp rp s1 where "minmax_while d (splay_start s) = Some (Inr (lp, rp, s1))"
    "holds_parts F (lp, rp, s1) (L, R, u)"
    using minmax_while_ok[OF start_ok[OF assms(1)] assms(2,3)] by (metis prod_cases3)
  then show ?thesis
    using assemble_ok[of F lp rp s1 L R u] rounds_Leaf[OF assms(2) r]
    by (auto simp: SPLAY_MINMAX_def splay_tree_def r simp del: holds_parts.simps)
qed

end
