(* ===== verification/Splay_Set.thy ===== *)
theory Splay_Set
  imports Splay_Memory
begin

text \<open>
  The splay operations on ordered trees: each is shown to do what \<open>tree_spec\<close> says, the contract
  \<open>ordered_tree\<close> is interpreted, and the properties of the component are stated.
\<close>

subsection \<open>The representation\<close>

definition splay_repr :: "(nat \<Rightarrow> nat \<Rightarrow> int) \<Rightarrow> (nat \<Rightarrow> 'k::linorder) \<Rightarrow> splay_st \<Rightarrow> nat list \<Rightarrow> bool" where
  "splay_repr cmp key s xs \<longleftrightarrow> orders cmp key \<and> ascending key xs \<and>
     (\<exists>t. tree_at (spe_left s) (spe_right s) (sph_root s) t \<and> inorder t = xs)"

lemma outside_refl [simp]: "outside s A s"
  by (simp add: outside_def)

lemma splay_reprI:
  "orders cmp key \<Longrightarrow> tree_at (spe_left s) (spe_right s) (sph_root s) t \<Longrightarrow> ascending key (inorder t) \<Longrightarrow>
    inorder t = xs \<Longrightarrow> splay_repr cmp key s xs"
  by (auto simp: splay_repr_def)

lemma splay_repr_empty: "splay_repr cmp key s xs \<Longrightarrow> SPLAY_EMPTY s \<longleftrightarrow> xs = []"
  by (auto simp: splay_repr_def SPLAY_EMPTY_def dest: tree_at_Leaf_iff)

lemma splay_repr_init: "orders cmp key \<Longrightarrow> splay_repr cmp key (SPLAY_INIT s) []"
  by (auto simp: splay_repr_def SPLAY_INIT_def ascending_def)

text \<open>After splaying, the root cuts the elements where the comparison changes sign.\<close>

lemma splay_root:
  assumes "splay_repr cmp key s xs" and "xs \<noteq> []"
  obtains s' a y b where "SPLAY (cmp e) s = Some (Inr s')" and "holds_tree s s' (Node a y b)"
    and "xs = inorder a @ y # inorder b" and "\<forall>x\<in>set_tree a. key x < key e"
    and "\<forall>x\<in>set_tree b. key e < key x"
proof -
  obtain t where t: "tree_at (spe_left s) (spe_right s) (sph_root s) t" "inorder t = xs"
    and ord: "orders cmp key" and asc: "ascending key xs"
    using assms(1) by (auto simp: splay_repr_def)
  have h: "holds_tree s s t" and ne: "t \<noteq> Leaf"
    using t assms(2) ascending_distinct[OF asc] by (auto simp: holds_tree_def)
  have cut: "cut_root (cmp e) (splay_tree (cmp e) t)"
    using splay_tree_cut[OF ne] cuts_orders[OF ord asc] t(2) by blast
  obtain s' where s': "SPLAY (cmp e) s = Some (Inr s')" "holds_tree s s' (splay_tree (cmp e) t)"
    using SPLAY_ok[OF h ne] by blast
  obtain a y b where ayb: "splay_tree (cmp e) t = Node a y b"
    using cut by (cases "splay_tree (cmp e) t") auto
  have "xs = inorder a @ y # inorder b"
    using inorder_splay_tree[OF ne, of "cmp e"] t(2) by (simp add: ayb)
  with that s' cut show ?thesis by (simp add: ayb ordersD[OF ord])
qed

subsection \<open>The operations\<close>

lemma FIND_ok:
  assumes r: "splay_repr cmp key s xs"
  shows "\<exists>s'. elem_result (SPLAY_FIND cmp e s) = Some (Inr (find (\<lambda>y. key y = key e) xs, s')) \<and>
    splay_repr cmp key s' xs"
proof (cases "xs = []")
  case True
  with r show ?thesis by (simp add: SPLAY_FIND_def splay_repr_empty elem_result_def)
next
  case False
  from r False obtain s' a y b where s': "SPLAY (cmp e) s = Some (Inr s')" "holds_tree s s' (Node a y b)"
    and xs: "xs = inorder a @ y # inorder b" and cut: "\<forall>x\<in>set_tree a. key x < key e"
    "\<forall>x\<in>set_tree b. key e < key x" by (rule splay_root)
  have ord: "orders cmp key" and asc: "ascending key xs" using r by (simp_all add: splay_repr_def)
  have "splay_repr cmp key s' xs"
    using s'(2) xs asc by (intro splay_reprI[OF ord, of _ "Node a y b"]) (auto simp: holds_tree_def)
  moreover have "elem_result (SPLAY_FIND cmp e s) = Some (Inr (find (\<lambda>y. key y = key e) xs, s'))"
    using s' cut r False by (auto simp: SPLAY_FIND_def splay_repr_empty elem_result_def holds_tree_def xs
      find_cut ordersD(3)[OF ord] eq_commute[of "key e"])
  ultimately show ?thesis by blast
qed

lemma INSERT_ok:
  assumes r: "splay_repr cmp key s xs" and spec: "tree_spec key (Insert e) xs = (res, ys)"
  shows "\<exists>s'. elem_result (SPLAY_INSERT cmp e s) = Some (Inr (res, s')) \<and> splay_repr cmp key s' ys"
proof (cases "xs = []")
  case True
  with r spec have "elem_result (SPLAY_INSERT cmp e s) = Some (Inr (res, s\<lparr>sph_root := Some (Elem e),
      spe_left := (spe_left s)(Elem e := None), spe_right := (spe_right s)(Elem e := None)\<rparr>))"
    by (simp add: SPLAY_INSERT_def splay_repr_empty elem_result_def)
  moreover have "splay_repr cmp key (s\<lparr>sph_root := Some (Elem e),
      spe_left := (spe_left s)(Elem e := None), spe_right := (spe_right s)(Elem e := None)\<rparr>) ys"
    using r spec True
    by (intro splay_reprI[of _ _ _ "Node Leaf e Leaf"]) (auto simp: splay_repr_def ascending_def)
  ultimately show ?thesis by blast
next
  case False
  from r False obtain s1 a y b where s1: "SPLAY (cmp e) s = Some (Inr s1)" "holds_tree s s1 (Node a y b)"
    and xs: "xs = inorder a @ y # inorder b" and cut: "\<forall>x\<in>set_tree a. key x < key e"
    "\<forall>x\<in>set_tree b. key e < key x" by (rule splay_root)
  have ord: "orders cmp key" and asc: "ascending key xs" using r by (simp_all add: splay_repr_def)
  have root: "sph_root s1 = Some (Elem y)" using s1(2) by (simp add: holds_tree_def)
  note find = find_cut(1)[of "inorder a" key e "inorder b" y, unfolded set_inorder, OF cut]
  consider (less) "key e < key y" | (greater) "key y < key e" | (equal) "key y = key e"
    by (metis linorder_neqE)
  then show ?thesis
  proof cases
    case less
    define s2 where "s2 = s1\<lparr>sph_root := Some (Elem e),
      spe_left := (spe_left s1)(Elem e := spe_left s1 (Elem y), Elem y := None),
      spe_right := (spe_right s1)(Elem e := Some (Elem y))\<rparr>"
    have new: "e \<notin> set_tree a" "e \<notin> set_tree b" "e \<noteq> y" using cut less by auto
    have ys: "res = None" "ys = inorder a @ e # y # inorder b"
      using spec find less less_imp_neq[OF less] cut insort_cut[of "inorder a" key e "y # inorder b"]
      by (auto simp: xs)
    have "elem_result (SPLAY_INSERT cmp e s) = Some (Inr (res, s2))"
      using s1 r False root less new by (simp add: SPLAY_INSERT_def splay_repr_empty elem_result_def
        ordersD[OF ord] ys s2_def Let_def)
    moreover have "splay_repr cmp key s2 ys"
    proof (rule splay_reprI[OF ord])
      show "tree_at (spe_left s2) (spe_right s2) (sph_root s2) (Node a e (Node Leaf y b))"
        using s1(2) new by (auto simp: s2_def holds_tree_def tree_at_write)
      show "ascending key (inorder (Node a e (Node Leaf y b)))"
        using asc less cut ascending_cut[of key "inorder a" e "y # inorder b"] by (simp add: xs)
    qed (simp add: ys)
    ultimately show ?thesis by blast
  next
    case greater
    define s2 where "s2 = s1\<lparr>sph_root := Some (Elem e),
      spe_left := (spe_left s1)(Elem e := Some (Elem y)),
      spe_right := (spe_right s1)(Elem e := spe_right s1 (Elem y), Elem y := None)\<rparr>"
    have new: "e \<notin> set_tree a" "e \<notin> set_tree b" "e \<noteq> y" using cut greater by auto
    have ys: "res = None" "ys = inorder a @ y # e # inorder b"
      using spec find greater less_imp_neq[OF greater] cut insort_cut[of "inorder a @ [y]" key e "inorder b"] by (auto simp: xs)
    have "elem_result (SPLAY_INSERT cmp e s) = Some (Inr (res, s2))"
      using s1 r False root greater new by (simp add: SPLAY_INSERT_def splay_repr_empty elem_result_def
        ordersD[OF ord] ys s2_def Let_def)
    moreover have "splay_repr cmp key s2 ys"
    proof (rule splay_reprI[OF ord])
      show "tree_at (spe_left s2) (spe_right s2) (sph_root s2) (Node (Node a y Leaf) e b)"
        using s1(2) new by (auto simp: s2_def holds_tree_def tree_at_write)
      show "ascending key (inorder (Node (Node a y Leaf) e b))"
        using asc greater cut ascending_cut[of key "inorder a @ [y]" e "inorder b"] by (simp add: xs)
    qed (simp add: ys)
    ultimately show ?thesis by blast
  next
    case equal
    have "elem_result (SPLAY_INSERT cmp e s) = Some (Inr (Some y, s1))"
      using s1 r False root equal by (simp add: SPLAY_INSERT_def splay_repr_empty elem_result_def
        ordersD[OF ord])
    moreover have "splay_repr cmp key s1 xs"
      using s1(2) xs asc by (intro splay_reprI[OF ord, of _ "Node a y b"]) (auto simp: holds_tree_def)
    ultimately show ?thesis using spec find equal by (auto simp: xs)
  qed
qed

text \<open>Removal takes out the element with the same key, and returns its argument.\<close>

lemma REMOVE_ok:
  assumes r: "splay_repr cmp key s xs"
  shows "\<exists>s'. elem_result (SPLAY_REMOVE cmp e s) =
      Some (Inr (if key e \<in> key ` set xs then Some e else None, s')) \<and>
    splay_repr cmp key s' (filter (\<lambda>x. key x \<noteq> key e) xs)"
proof (cases "xs = []")
  case True
  with r show ?thesis by (simp add: SPLAY_REMOVE_def splay_repr_empty elem_result_def)
next
  case False
  from r False obtain s1 a y b where s1: "SPLAY (cmp e) s = Some (Inr s1)" "holds_tree s s1 (Node a y b)"
    and xs: "xs = inorder a @ y # inorder b" and cut: "\<forall>x\<in>set_tree a. key x < key e"
    "\<forall>x\<in>set_tree b. key e < key x" by (rule splay_root)
  have ord: "orders cmp key" and asc: "ascending key xs" using r by (simp_all add: splay_repr_def)
  have root: "sph_root s1 = Some (Elem y)" and lnull: "spe_left s1 (Elem y) = None \<longleftrightarrow> a = Leaf"
    using s1(2) by (auto simp: holds_tree_def dest: tree_at_Leaf_iff)
  have keep: "filter (\<lambda>x. key x \<noteq> key e) xs = (if key y = key e then inorder a @ inorder b else xs)"
  proof -
    have "filter (\<lambda>x. key x \<noteq> key e) (inorder a) = inorder a"
      "filter (\<lambda>x. key x \<noteq> key e) (inorder b) = inorder b"
      using cut by (auto simp: filter_id_conv)
    then show ?thesis by (simp add: xs)
  qed
  have mem: "key e \<in> key ` set xs \<longleftrightarrow> key y = key e" using cut by (force simp: xs)
  have asc': "ascending key (inorder a @ inorder b)"
    using asc unfolding xs by (simp add: ascending_append ascending_Cons)
  show ?thesis
  proof (cases "key y = key e")
    case False
    have "elem_result (SPLAY_REMOVE cmp e s) = Some (Inr (None, s1))"
      using s1(1) r \<open>xs \<noteq> []\<close> root False by (simp add: SPLAY_REMOVE_def splay_repr_empty
        elem_result_def ordersD(3)[OF ord] eq_commute[of "key e"])
    moreover have "splay_repr cmp key s1 xs"
      using s1(2) xs asc by (intro splay_reprI[OF ord, of _ "Node a y b"]) (auto simp: holds_tree_def)
    ultimately show ?thesis using False by (simp add: keep mem)
  next
    case True
    show ?thesis
    proof (cases "a = Leaf")
      case Leaf: True
      have "elem_result (SPLAY_REMOVE cmp e s) =
          Some (Inr (Some e, set_root (spe_right s1 (Elem y)) s1))"
        using s1(1) r \<open>xs \<noteq> []\<close> root True lnull Leaf by (simp add: SPLAY_REMOVE_def splay_repr_empty
          elem_result_def ordersD(3)[OF ord])
      moreover have "splay_repr cmp key (set_root (spe_right s1 (Elem y)) s1) (inorder a @ inorder b)"
        using s1(2) asc' Leaf by (intro splay_reprI[OF ord, of _ b]) (auto simp: holds_tree_def)
      ultimately show ?thesis using True by (simp add: keep mem)
    next
      case False
      define s2 where "s2 = set_root (spe_left s1 (Elem y)) s1"
      have s2: "splay_repr cmp key s2 (inorder a)"
        using s1(2) asc' by (intro splay_reprI[OF ord, of _ a])
          (auto simp: holds_tree_def s2_def ascending_append)
      have "inorder a \<noteq> []" using False by (cases a) auto
      then obtain s3 a2 z b2 where s3: "SPLAY (cmp e) s2 = Some (Inr s3)" "holds_tree s2 s3 (Node a2 z b2)"
        and a: "inorder a = inorder a2 @ z # inorder b2" and cut2: "\<forall>x\<in>set_tree b2. key e < key x"
        using splay_root[OF s2, of e] by metis
      have b2: "b2 = Leaf"
      proof (rule ccontr)
        assume "b2 \<noteq> Leaf"
        then obtain x where "x \<in> set_tree b2" by (cases b2) auto
        moreover from this have "x \<in> set_tree a" using arg_cong[OF a, of set] by auto
        ultimately show False using cut(1) cut2 by force
      qed
      have root3: "sph_root s3 = Some (Elem z)" using s3(2) by (simp add: holds_tree_def)
      define s4 where "s4 = set_right (Elem z) (spe_right s1 (Elem y)) s3"
      have "elem_result (SPLAY_REMOVE cmp e s) = Some (Inr (Some e, s4))"
        using s1(1) r \<open>xs \<noteq> []\<close> root True lnull False s3(1) root3
        by (auto simp: SPLAY_REMOVE_def splay_repr_empty elem_result_def ordersD(3)[OF ord] s4_def
          s2_def Let_def)
      moreover have "splay_repr cmp key s4 (inorder a @ inorder b)"
      proof (rule splay_reprI[OF ord])
        have dist: "distinct (inorder a @ inorder b)" using ascending_distinct[OF asc'] .
        have apart: "z \<notin> set_tree a2" "z \<notin> set_tree b" "set_tree b \<inter> set_tree a = {}"
          using dist by (auto simp: a) (metis IntI a distinct_append dist empty_iff in_set_conv_decomp set_inorder)+
        have "tree_at (spe_left s1) (spe_right s1) (spe_right s1 (Elem y)) b"
          using s1(2) by (simp add: holds_tree_def)
        then have "tree_at (spe_left s3) (spe_right s3) (spe_right s1 (Elem y)) b"
          using s3(2) apart(3) arg_cong[OF a, of set]
          by (subst tree_at_agree[of _ _ "spe_left s1" _ "spe_right s1"])
            (auto simp: holds_tree_def outside_def s2_def)
        then show "tree_at (spe_left s4) (spe_right s4) (sph_root s4) (Node a2 z b)"
          using s3(2) apart by (auto simp: s4_def holds_tree_def tree_at_write)
      qed (use asc' in \<open>simp_all add: a b2\<close>)
      ultimately show ?thesis using True by (simp add: keep mem)
    qed
  qed
qed

lemma leftmost_at:
  "tree_at (spe_left s) (spe_right s) (Some a) t \<Longrightarrow> leftmost s a = Some (Elem (hd (inorder t)))"
proof (induction t arbitrary: a)
  case (Node l x r)
  show ?case
  proof (cases "l = Leaf")
    case True
    with Node.prems show ?thesis by (simp add: leftmost.simps[of s "Elem x"])
  next
    case False
    with Node.prems obtain b where "spe_left s (Elem x) = Some b"
      by (auto dest: tree_at_Leaf_iff)
    with Node.prems Node.IH(1)[of b] False show ?thesis
      by (cases l) (simp_all add: leftmost.simps[of s "Elem x"] hd_append)
  qed
qed simp

lemma NEXT_ok:
  assumes r: "splay_repr cmp key s xs" and e: "e \<in> set xs"
  shows "\<exists>s'. elem_result (SPLAY_NEXT cmp e s) = Some (Inr (find (\<lambda>y. key e < key y) xs, s')) \<and>
    splay_repr cmp key s' xs"
proof -
  have "xs \<noteq> []" using e by auto
  with r obtain s' a y b where s': "SPLAY (cmp e) s = Some (Inr s')" "holds_tree s s' (Node a y b)"
    and xs: "xs = inorder a @ y # inorder b" and cut: "\<forall>x\<in>set_tree a. key x < key e"
    "\<forall>x\<in>set_tree b. key e < key x" by (rule splay_root)
  have ord: "orders cmp key" and asc: "ascending key xs" using r by (simp_all add: splay_repr_def)
  have y: "y = e" using e cut by (auto simp: xs)
  have "splay_repr cmp key s' xs"
    using s'(2) xs asc by (intro splay_reprI[OF ord, of _ "Node a y b"]) (auto simp: holds_tree_def)
  moreover have "elem_result (SPLAY_NEXT cmp e s) = Some (Inr (find (\<lambda>y. key e < key y) xs, s'))"
  proof (cases b)
    case Leaf
    then show ?thesis
      using s' next_ascending[of key "inorder a" e "inorder b"] asc
      by (simp add: SPLAY_NEXT_def elem_result_def holds_tree_def xs y)
  next
    case (Node bl z br)
    have at: "tree_at (spe_left s') (spe_right s') (spe_right s' (Elem e)) b"
      using s'(2) y by (simp add: holds_tree_def)
    then have "spe_right s' (Elem e) = Some (Elem z)" using Node by simp
    with at show ?thesis
      using s'(1) next_ascending[of key "inorder a" e "inorder b"] asc leftmost_at[of s' "Elem z" b] Node
      by (simp add: SPLAY_NEXT_def elem_result_def xs y first_def)
  qed
  ultimately show ?thesis by blast
qed

lemma MIN_MAX_ok:
  assumes r: "splay_repr cmp key s xs" and "xs \<noteq> []" and d: "d \<noteq> 0"
  shows "\<exists>s'. elem_result (SPLAY_MIN_MAX d s) = Some (Inr (Some (if d < 0 then hd xs else last xs), s')) \<and>
    splay_repr cmp key s' xs"
proof -
  obtain t where t: "tree_at (spe_left s) (spe_right s) (sph_root s) t" "inorder t = xs"
    and ord: "orders cmp key" and asc: "ascending key xs"
    using r by (auto simp: splay_repr_def)
  have h: "holds_tree s s t" and ne: "t \<noteq> Leaf"
    using t assms(2) ascending_distinct[OF asc] by (auto simp: holds_tree_def)
  have cut: "cut_root (\<lambda>_. d) (splay_tree (\<lambda>_. d) t)"
    using splay_tree_cut[OF ne cuts_const[OF d]] .
  obtain s' where s': "SPLAY_MINMAX d s = Some (Inr s')" "holds_tree s s' (splay_tree (\<lambda>_. d) t)"
    using SPLAY_MINMAX_ok[OF h ne d] by blast
  obtain a y b where ayb: "splay_tree (\<lambda>_. d) t = Node a y b"
    using cut by (cases "splay_tree (\<lambda>_. d) t") auto
  have xs: "xs = inorder a @ y # inorder b"
    using inorder_splay_tree[OF ne, of "\<lambda>_. d"] t(2) by (simp add: ayb)
  have "y = (if d < 0 then hd xs else last xs)"
  proof (cases "d < 0")
    case True
    with cut have "set_tree a = {}" by (auto simp: ayb)
    with True show ?thesis by (simp add: xs)
  next
    case False
    with cut have "set_tree b = {}" by (auto simp: ayb)
    with False show ?thesis by (simp add: xs)
  qed
  moreover have "elem_result (SPLAY_MIN_MAX d s) = Some (Inr (Some y, s'))"
    using s' by (simp add: SPLAY_MIN_MAX_def elem_result_def holds_tree_def ayb)
  moreover have "splay_repr cmp key s' xs"
    using s'(2) xs asc by (intro splay_reprI[OF ord, of _ "Node a y b"]) (auto simp: holds_tree_def ayb)
  ultimately show ?thesis by auto
qed

interpretation splay: ordered_tree key "splay_repr cmp key" "splay_step cmp"
  for cmp and key :: "nat \<Rightarrow> 'k::linorder"
proof unfold_locales
  fix s xs op res ys
  assume r: "splay_repr cmp key s xs" and pre: "tree_pre op xs" and spec: "tree_spec key op xs = (res, ys)"
  show "\<exists>s'. splay_step cmp op s = Some (Inr (res, s')) \<and> splay_repr cmp key s' ys"
  proof (cases op)
    case (Insert e)
    with INSERT_ok[OF r] spec show ?thesis by simp
  next
    case (Remove e)
    with pre spec have "e \<in> set xs" "res = Some e" "ys = remove1 e xs" by auto
    with REMOVE_ok[OF r, of e] remove1_key[of key xs e] r Remove show ?thesis
      by (auto simp: splay_repr_def)
  next
    case (Find e)
    with FIND_ok[OF r] spec show ?thesis by auto
  next
    case (Next e)
    with NEXT_ok[OF r] pre spec show ?thesis by auto
  next
    case Minimum
    with MIN_MAX_ok[OF r, of "-1"] r spec show ?thesis
      by (cases "xs = []") (auto simp: SPLAY_MIN_def splay_repr_empty elem_result_def first_def)
  next
    case Maximum
    with MIN_MAX_ok[OF r, of 1] r spec show ?thesis
      by (cases "xs = []") (auto simp: SPLAY_MAX_def splay_repr_empty elem_result_def first_def hd_rev)
  qed
qed (simp add: splay_repr_def)

subsection \<open>Properties\<close>

text \<open>
  C4: any sequence of splay operations on an initialised head that removes, and asks for the successor of,
  elements of the tree only, runs without a fault and returns what the ascending list of elements
  determines; then \<^theory_text>\<open>SPLAY_FOREACH\<close> visits exactly that list.
\<close>
theorem splay_runs_as_specified:
  assumes "orders cmp key" and "tree_run_spec key ops [] = Some (rs, xs)"
  shows "\<exists>s'. tree_run (splay_step cmp) ops (SPLAY_INIT s) = Some (Inr (rs, s')) \<and>
    (\<exists>s''. SPLAY_FOREACH cmp s' = Some (Inr (xs, s'')))"
  using splay.run_ok[OF splay_repr_init[OF assms(1)] assms(2)] splay.walk_all
  unfolding SPLAY_FOREACH_def by blast

theorem splay_runs_as_specified_witness:
  "\<exists>s s'. tree_run (splay_step (\<lambda>a b. int a - int b))
      [Insert 3, Insert 1, Insert 2, Remove 1, Next 2, Find 1, Minimum] (SPLAY_INIT s) =
      Some (Inr ([None, None, None, Some 1, Some 3, None, Some 2], s')) \<and>
    (\<exists>s''. SPLAY_FOREACH (\<lambda>a b. int a - int b) s' = Some (Inr ([2, 3], s'')))"
  by (rule exI[of _ "\<lparr>sph_root = None, spe_left = \<lambda>_. None, spe_right = \<lambda>_. None\<rparr>"],
    rule splay_runs_as_specified[where key = "\<lambda>x. x"]) (simp_all add: orders_def)

lemma minmax_zero_loops: "minmax_while 0 st = None"
proof -
  have False if "minmax_while 0 st = Some r" for r
    by (rule minmax_while.raw_induct[OF _ that, of "\<lambda>d st r. d \<noteq> 0", simplified])
      (auto simp: splay_body_def split: prod.splits, blast)
  then show ?thesis by (cases "minmax_while 0 st") auto
qed

text \<open>
  C11: splaying needs no order. On a tree in memory whose elements are distinct the loop ends for every
  comparison function, without a fault; the tree keeps its sequence of elements, and no other
  element is written. \<^theory_text>\<open>SPLAY_MINMAX\<close> called with 0 never returns.
\<close>
theorem splay_always_returns:
  assumes "tree_at (spe_left s) (spe_right s) (sph_root s) t" and "distinct (inorder t)" and "t \<noteq> Leaf"
  shows "(\<exists>s' t'. SPLAY c s = Some (Inr s') \<and>
      tree_at (spe_left s') (spe_right s') (sph_root s') t' \<and> inorder t' = inorder t \<and>
      outside s (set (inorder t)) s') \<and>
    SPLAY_MINMAX 0 s = None"
proof
  have "holds_tree s s t" using assms by (simp add: holds_tree_def)
  then obtain s' where "SPLAY c s = Some (Inr s')" "holds_tree s s' (splay_tree c t)"
    using SPLAY_ok assms(3) by blast
  moreover have "inorder (splay_tree c t) = inorder t" by (rule inorder_splay_tree) fact
  ultimately show "\<exists>s' t'. SPLAY c s = Some (Inr s') \<and>
      tree_at (spe_left s') (spe_right s') (sph_root s') t' \<and> inorder t' = inorder t \<and>
      outside s (set (inorder t)) s'"
    by (metis holds_tree_def)
  show "SPLAY_MINMAX 0 s = None" by (simp add: SPLAY_MINMAX_def minmax_zero_loops)
qed

theorem splay_always_returns_witness:
  "\<exists>s. SPLAY_MINMAX 0 s = None \<and>
    (\<exists>s' t'. SPLAY (\<lambda>_. 1) s = Some (Inr s') \<and>
      tree_at (spe_left s') (spe_right s') (sph_root s') t' \<and> inorder t' = [1, 2])"
proof -
  let ?s = "\<lparr>sph_root = Some (Elem 1), spe_left = \<lambda>_. None,
    spe_right = \<lambda>a. if a = Elem 1 then Some (Elem 2) else None\<rparr>"
  show ?thesis
    using splay_always_returns[of ?s "Node Leaf 1 (Node Leaf 2 Leaf)" "\<lambda>_. 1"] by auto
qed

text \<open>
  removal is by key, and the result is the argument. If some element of the tree has the key of the
  argument, that element is taken out and the argument is returned, although it may be another
  structure that was never in the tree.
\<close>
theorem splay_remove_by_key:
  assumes "splay_repr cmp key s (xs @ y # ys)" and "key e = key y"
  shows "\<exists>s'. SPLAY_REMOVE cmp e s = Some (Inr (Some (Elem e), s')) \<and> splay_repr cmp key s' (xs @ ys)"
proof -
  have asc: "ascending key (xs @ y # ys)" using assms(1) by (simp add: splay_repr_def)
  then have "filter (\<lambda>x. key x \<noteq> key e) (xs @ y # ys) = remove1 y (xs @ y # ys)"
    using remove1_key[OF asc, of y] assms(2) by simp
  also have "\<dots> = xs @ ys" using ascending_distinct[OF asc] by simp
  finally obtain s' where "elem_result (SPLAY_REMOVE cmp e s) = Some (Inr (Some e, s'))"
    "splay_repr cmp key s' (xs @ ys)"
    using REMOVE_ok[OF assms(1), of e] assms(2) by auto
  moreover from this(1) have "SPLAY_REMOVE cmp e s = Some (Inr (Some (Elem e), s'))"
    by (cases "SPLAY_REMOVE cmp e s")
      (auto simp: elem_result_def elem_at_def bindO_def split: sum.splits option.splits addr.splits)
  ultimately show ?thesis by blast
qed

theorem splay_remove_by_key_witness:
  "\<exists>s s'. SPLAY_REMOVE (\<lambda>a b. int (a div 10) - int (b div 10)) 25
      (s\<lparr>sph_root := Some (Elem 21), spe_left := \<lambda>_. None, spe_right := \<lambda>_. None\<rparr>) =
      Some (Inr (Some (Elem 25), s')) \<and>
    splay_repr (\<lambda>a b. int (a div 10) - int (b div 10)) (\<lambda>a. a div 10) s' []"
proof -
  let ?cmp = "\<lambda>a b. int (a div 10) - int (b div 10)" and ?key = "\<lambda>a::nat. a div 10"
  let ?s = "undefined\<lparr>sph_root := Some (Elem 21), spe_left := \<lambda>_. None, spe_right := \<lambda>_. None\<rparr>"
  have "splay_repr ?cmp ?key ?s ([] @ 21 # [])"
    by (rule splay_reprI[of _ _ _ "Node Leaf 21 Leaf"]) (auto simp: orders_def ascending_def)
  from splay_remove_by_key[OF this, of 25] show ?thesis by auto
qed

text \<open>The successor in an empty tree, and the splay loop itself, hand a null pointer to the comparison.\<close>

lemma splay_next_of_empty: "SPLAY_NEXT cmp e (SPLAY_INIT s) = Some (Inl Null_access)"
  by (simp add: SPLAY_NEXT_def SPLAY_def SPLAY_INIT_def splay_start_def splay_while.simps key_cmp_def)

end
