(* ===== verification/Rb.thy ===== *)
theory Rb
  imports Tree_Ops
begin

text \<open>
  The \<^theory_text>\<open>RB\<close> macros of \<open>sys-tree.h\<close> for one head: the root, and the links and the colour of every
  element. \<^theory_text>\<open>RB_AUGMENT\<close> is the empty statement it is unless the user defines it.
\<close>

datatype rb_color = RB_BLACK | RB_RED

record rb_st =
  rbh_root :: "nat option"
  rbe_left :: "nat \<Rightarrow> nat option"
  rbe_right :: "nat \<Rightarrow> nat option"
  rbe_parent :: "nat \<Rightarrow> nat option"
  rbe_color :: "nat \<Rightarrow> rb_color"

definition set_rb_root :: "nat option \<Rightarrow> rb_st \<Rightarrow> rb_st" where
  [simp]: "set_rb_root p s = s\<lparr>rbh_root := p\<rparr>"

definition set_rb_left :: "nat \<Rightarrow> nat option \<Rightarrow> rb_st \<Rightarrow> rb_st" where
  [simp]: "set_rb_left e p s = s\<lparr>rbe_left := (rbe_left s)(e := p)\<rparr>"

definition set_rb_right :: "nat \<Rightarrow> nat option \<Rightarrow> rb_st \<Rightarrow> rb_st" where
  [simp]: "set_rb_right e p s = s\<lparr>rbe_right := (rbe_right s)(e := p)\<rparr>"

definition set_rb_parent :: "nat \<Rightarrow> nat option \<Rightarrow> rb_st \<Rightarrow> rb_st" where
  [simp]: "set_rb_parent e p s = s\<lparr>rbe_parent := (rbe_parent s)(e := p)\<rparr>"

definition set_rb_color :: "nat \<Rightarrow> rb_color \<Rightarrow> rb_st \<Rightarrow> rb_st" where
  [simp]: "set_rb_color e c s = s\<lparr>rbe_color := (rbe_color s)(e := c)\<rparr>"

subsection \<open>The small macros\<close>

definition RB_INIT :: "rb_st \<Rightarrow> rb_st" where
  "RB_INIT s = set_rb_root None s"

definition RB_EMPTY :: "rb_st \<Rightarrow> bool" where
  "RB_EMPTY s \<longleftrightarrow> rbh_root s = None"

definition RB_SET :: "nat \<Rightarrow> nat option \<Rightarrow> rb_st \<Rightarrow> rb_st" where
  "RB_SET elm parent s =
     set_rb_color elm RB_RED (set_rb_left elm None (set_rb_right elm None (set_rb_parent elm parent s)))"

definition RB_SET_BLACKRED :: "nat \<Rightarrow> nat \<Rightarrow> rb_st \<Rightarrow> rb_st" where
  "RB_SET_BLACKRED black red s = set_rb_color red RB_RED (set_rb_color black RB_BLACK s)"

text \<open>
  Statements that occur several times: the link that leads to \<open>elm\<close>, in its parent or in the head, is
  set to \<open>new\<close>; the parent of an element that may be missing is set; an element that may be missing is
  painted; a child is missing or black.
\<close>

definition relink :: "nat option \<Rightarrow> nat \<Rightarrow> nat option \<Rightarrow> rb_st \<Rightarrow> rb_st" where
  "relink parent elm new s = (case parent of
       Some p \<Rightarrow> if rbe_left s p = Some elm then set_rb_left p new s else set_rb_right p new s
     | None \<Rightarrow> set_rb_root new s)"

definition adopt :: "nat option \<Rightarrow> nat option \<Rightarrow> rb_st \<Rightarrow> rb_st" where
  "adopt child parent s = (case child of Some x \<Rightarrow> set_rb_parent x parent s | None \<Rightarrow> s)"

definition paint_elem :: "nat option \<Rightarrow> rb_color \<Rightarrow> rb_st \<Rightarrow> rb_st" where
  "paint_elem p c s = (case p of Some x \<Rightarrow> set_rb_color x c s | None \<Rightarrow> s)"

definition is_black :: "rb_st \<Rightarrow> nat option \<Rightarrow> bool" where
  "is_black s p \<longleftrightarrow> (case p of Some x \<Rightarrow> rbe_color s x = RB_BLACK | None \<Rightarrow> True)"

definition RB_ROTATE_LEFT :: "nat \<Rightarrow> rb_st \<Rightarrow> tree_fault + rb_st" where
  "RB_ROTATE_LEFT elm s = bindR (at (rbe_right s elm)) (\<lambda>tmp.
     let s = set_rb_right elm (rbe_left s tmp) s;
         s = adopt (rbe_left s tmp) (Some elm) s;
         s = set_rb_parent tmp (rbe_parent s elm) s;
         s = relink (rbe_parent s elm) elm (Some tmp) s;
         s = set_rb_left tmp (Some elm) s
     in Inr (set_rb_parent elm (Some tmp) s))"

definition RB_ROTATE_RIGHT :: "nat \<Rightarrow> rb_st \<Rightarrow> tree_fault + rb_st" where
  "RB_ROTATE_RIGHT elm s = bindR (at (rbe_left s elm)) (\<lambda>tmp.
     let s = set_rb_left elm (rbe_right s tmp) s;
         s = adopt (rbe_right s tmp) (Some elm) s;
         s = set_rb_parent tmp (rbe_parent s elm) s;
         s = relink (rbe_parent s elm) elm (Some tmp) s;
         s = set_rb_right tmp (Some elm) s
     in Inr (set_rb_parent elm (Some tmp) s))"

subsection \<open>Insertion\<close>

text \<open>
  The two branches of the loop that repairs the colours after an insertion; the result is the element
  the loop goes on with.
\<close>

definition insert_color_left :: "nat \<Rightarrow> nat \<Rightarrow> nat \<Rightarrow> rb_st \<Rightarrow> tree_fault + nat \<times> rb_st" where
  "insert_color_left elm parent gparent s =
     (let tmp = rbe_right s gparent in
      if \<not> is_black s tmp then
        let s = paint_elem tmp RB_BLACK s;
            s = RB_SET_BLACKRED parent gparent s
        in Inr (gparent, s)
      else
        bindR (if rbe_right s parent = Some elm
               then bindR (RB_ROTATE_LEFT parent s) (\<lambda>s. Inr (parent, elm, s))
               else Inr (elm, parent, s)) (\<lambda>(elm, parent, s).
        let s = RB_SET_BLACKRED parent gparent s in
        bindR (RB_ROTATE_RIGHT gparent s) (\<lambda>s. Inr (elm, s))))"

definition insert_color_right :: "nat \<Rightarrow> nat \<Rightarrow> nat \<Rightarrow> rb_st \<Rightarrow> tree_fault + nat \<times> rb_st" where
  "insert_color_right elm parent gparent s =
     (let tmp = rbe_left s gparent in
      if \<not> is_black s tmp then
        let s = paint_elem tmp RB_BLACK s;
            s = RB_SET_BLACKRED parent gparent s
        in Inr (gparent, s)
      else
        bindR (if rbe_left s parent = Some elm
               then bindR (RB_ROTATE_RIGHT parent s) (\<lambda>s. Inr (parent, elm, s))
               else Inr (elm, parent, s)) (\<lambda>(elm, parent, s).
        let s = RB_SET_BLACKRED parent gparent s in
        bindR (RB_ROTATE_LEFT gparent s) (\<lambda>s. Inr (elm, s))))"

definition insert_color_body :: "nat \<Rightarrow> nat \<Rightarrow> rb_st \<Rightarrow> tree_fault + nat \<times> rb_st" where
  "insert_color_body elm parent s = bindR (at (rbe_parent s parent)) (\<lambda>gparent.
     if rbe_left s gparent = Some parent then insert_color_left elm parent gparent s
     else insert_color_right elm parent gparent s)"

partial_function (option) insert_color_while :: "nat \<Rightarrow> rb_st \<Rightarrow> (tree_fault + rb_st) option" where
  "insert_color_while elm s = (case rbe_parent s elm of
       None \<Rightarrow> Some (Inr s)
     | Some parent \<Rightarrow>
         if rbe_color s parent = RB_RED
         then bindO (Some (insert_color_body elm parent s)) (\<lambda>(elm, s). insert_color_while elm s)
         else Some (Inr s))"

definition RB_INSERT_COLOR :: "nat \<Rightarrow> rb_st \<Rightarrow> (tree_fault + rb_st) option" where
  "RB_INSERT_COLOR elm s = bindO (insert_color_while elm s) (\<lambda>s.
     bindO (Some (at (rbh_root s))) (\<lambda>root. Some (Inr (set_rb_color root RB_BLACK s))))"

text \<open>
  The descent of \<^theory_text>\<open>RB_INSERT\<close>: either an element with the same key, or the last element visited with
  its comparison.
\<close>

partial_function (option) insert_descent ::
  "(nat \<Rightarrow> int) \<Rightarrow> rb_st \<Rightarrow> nat option \<Rightarrow> nat option \<Rightarrow> int \<Rightarrow> (nat + nat option \<times> int) option" where
  "insert_descent c s tmp parent cres = (case tmp of
       None \<Rightarrow> Some (Inr (parent, cres))
     | Some x \<Rightarrow>
         if c x < 0 then insert_descent c s (rbe_left s x) (Some x) (c x)
         else if c x > 0 then insert_descent c s (rbe_right s x) (Some x) (c x)
         else Some (Inl x))"

type_synonym rb_result = "(tree_fault + nat option \<times> rb_st) option"

definition RB_INSERT :: "(nat \<Rightarrow> nat \<Rightarrow> int) \<Rightarrow> nat \<Rightarrow> rb_st \<Rightarrow> rb_result" where
  "RB_INSERT cmp elm s =
     Option.bind (insert_descent (cmp elm) s (rbh_root s) None 0) (\<lambda>r. case r of
       Inl x \<Rightarrow> Some (Inr (Some x, s))
     | Inr (parent, cres) \<Rightarrow>
         let s = RB_SET elm parent s;
             s = (case parent of
                    Some p \<Rightarrow> if cres < 0 then set_rb_left p (Some elm) s else set_rb_right p (Some elm) s
                  | None \<Rightarrow> set_rb_root (Some elm) s)
         in bindO (RB_INSERT_COLOR elm s) (\<lambda>s. Some (Inr (None, s))))"

subsection \<open>Removal\<close>

text \<open>
  The two branches of the loop that repairs the colours after a removal, each split at the place where
  the sibling \<open>tmp\<close> is known to be black. The result is \<open>elm\<close>, its parent and the state; after a
  \<^theory_text>\<open>break\<close> \<open>elm\<close> is the root, and the first component is false.
\<close>

type_synonym remove_loop = "nat option \<times> nat option \<times> rb_st"

definition remove_color_left :: "nat \<Rightarrow> rb_st \<Rightarrow> tree_fault + bool \<times> remove_loop" where
  "remove_color_left parent s = bindR (at (rbe_right s parent)) (\<lambda>tmp.
     if is_black s (rbe_left s tmp) \<and> is_black s (rbe_right s tmp) then
       let s = set_rb_color tmp RB_RED s
       in Inr (True, Some parent, rbe_parent s parent, s)
     else
       bindR (if is_black s (rbe_right s tmp) then
                let s = paint_elem (rbe_left s tmp) RB_BLACK s;
                    s = set_rb_color tmp RB_RED s
                in bindR (RB_ROTATE_RIGHT tmp s) (\<lambda>s. bindR (at (rbe_right s parent)) (\<lambda>tmp. Inr (tmp, s)))
              else Inr (tmp, s)) (\<lambda>(tmp, s).
       let s = set_rb_color tmp (rbe_color s parent) s;
           s = set_rb_color parent RB_BLACK s;
           s = paint_elem (rbe_right s tmp) RB_BLACK s
       in bindR (RB_ROTATE_LEFT parent s) (\<lambda>s. Inr (False, rbh_root s, Some parent, s))))"

definition remove_color_right :: "nat \<Rightarrow> rb_st \<Rightarrow> tree_fault + bool \<times> remove_loop" where
  "remove_color_right parent s = bindR (at (rbe_left s parent)) (\<lambda>tmp.
     if is_black s (rbe_left s tmp) \<and> is_black s (rbe_right s tmp) then
       let s = set_rb_color tmp RB_RED s
       in Inr (True, Some parent, rbe_parent s parent, s)
     else
       bindR (if is_black s (rbe_left s tmp) then
                let s = paint_elem (rbe_right s tmp) RB_BLACK s;
                    s = set_rb_color tmp RB_RED s
                in bindR (RB_ROTATE_LEFT tmp s) (\<lambda>s. bindR (at (rbe_left s parent)) (\<lambda>tmp. Inr (tmp, s)))
              else Inr (tmp, s)) (\<lambda>(tmp, s).
       let s = set_rb_color tmp (rbe_color s parent) s;
           s = set_rb_color parent RB_BLACK s;
           s = paint_elem (rbe_left s tmp) RB_BLACK s
       in bindR (RB_ROTATE_RIGHT parent s) (\<lambda>s. Inr (False, rbh_root s, Some parent, s))))"

definition remove_color_body :: "nat option \<Rightarrow> nat option \<Rightarrow> rb_st \<Rightarrow> tree_fault + bool \<times> remove_loop" where
  "remove_color_body elm parent s = bindR (at parent) (\<lambda>parent.
     if rbe_left s parent = elm then
       bindR (at (rbe_right s parent)) (\<lambda>tmp.
       bindR (if rbe_color s tmp = RB_RED
              then RB_ROTATE_LEFT parent (RB_SET_BLACKRED tmp parent s) else Inr s) (\<lambda>s.
       remove_color_left parent s))
     else
       bindR (at (rbe_left s parent)) (\<lambda>tmp.
       bindR (if rbe_color s tmp = RB_RED
              then RB_ROTATE_RIGHT parent (RB_SET_BLACKRED tmp parent s) else Inr s) (\<lambda>s.
       remove_color_right parent s)))"

partial_function (option) remove_color_while :: "remove_loop \<Rightarrow> (tree_fault + remove_loop) option" where
  "remove_color_while st = (case st of (elm, parent, s) \<Rightarrow>
     if is_black s elm \<and> elm \<noteq> rbh_root s
     then bindO (Some (remove_color_body elm parent s)) (\<lambda>(more, st).
       if more then remove_color_while st else Some (Inr st))
     else Some (Inr (elm, parent, s)))"

definition RB_REMOVE_COLOR :: "nat option \<Rightarrow> nat option \<Rightarrow> rb_st \<Rightarrow> (tree_fault + rb_st) option" where
  "RB_REMOVE_COLOR parent elm s = bindO (remove_color_while (elm, parent, s)) (\<lambda>(elm, parent, s).
     Some (Inr (paint_elem elm RB_BLACK s)))"

partial_function (option) rb_leftmost :: "rb_st \<Rightarrow> nat \<Rightarrow> nat option" where
  "rb_leftmost s x = (case rbe_left s x of None \<Rightarrow> Some x | Some y \<Rightarrow> rb_leftmost s y)"

partial_function (option) rb_rightmost :: "rb_st \<Rightarrow> nat \<Rightarrow> nat option" where
  "rb_rightmost s x = (case rbe_right s x of None \<Rightarrow> Some x | Some y \<Rightarrow> rb_rightmost s y)"

text \<open>The loop that calls \<^theory_text>\<open>RB_AUGMENT\<close> on an element and everything above it.\<close>

partial_function (option) augment_up :: "rb_st \<Rightarrow> nat \<Rightarrow> unit option" where
  "augment_up s x = (case rbe_parent s x of None \<Rightarrow> Some () | Some y \<Rightarrow> augment_up s y)"

definition copy_field :: "nat \<Rightarrow> nat \<Rightarrow> rb_st \<Rightarrow> rb_st" where
  "copy_field elm old s =
     set_rb_left elm (rbe_left s old) (set_rb_right elm (rbe_right s old)
       (set_rb_parent elm (rbe_parent s old) (set_rb_color elm (rbe_color s old) s)))"

definition remove_one_child :: "nat \<Rightarrow> nat option \<Rightarrow> rb_st \<Rightarrow> nat option \<times> rb_color \<times> rb_st" where
  "remove_one_child elm child s =
     (let parent = rbe_parent s elm; color = rbe_color s elm;
          s = adopt child parent s
      in (parent, color, relink parent elm child s))"

definition remove_two_children ::
  "nat \<Rightarrow> rb_st \<Rightarrow> (tree_fault + nat option \<times> nat option \<times> rb_color \<times> rb_st) option" where
  "remove_two_children old s =
     bindO (Some (at (rbe_right s old))) (\<lambda>r.
     bindO (map_option Inr (rb_leftmost s r)) (\<lambda>elm.
     let child = rbe_right s elm; parent = rbe_parent s elm; color = rbe_color s elm;
         s = adopt child parent s;
         s = relink parent elm child s;
         parent = (if rbe_parent s elm = Some old then Some elm else parent);
         s = copy_field elm old s;
         s = relink (rbe_parent s old) old (Some elm) s
     in bindO (Some (at (rbe_left s old))) (\<lambda>l.
        let s = set_rb_parent l (Some elm) s;
            s = adopt (rbe_right s old) (Some elm) s
        in bindO (case parent of None \<Rightarrow> Some (Inr ()) | Some p \<Rightarrow> map_option Inr (augment_up s p))
          (\<lambda>_. Some (Inr (child, parent, color, s))))))"

definition RB_REMOVE :: "nat \<Rightarrow> rb_st \<Rightarrow> rb_result" where
  "RB_REMOVE elm s =
     bindO (if rbe_left s elm = None then Some (Inr (rbe_right s elm, remove_one_child elm (rbe_right s elm) s))
            else if rbe_right s elm = None then Some (Inr (rbe_left s elm, remove_one_child elm (rbe_left s elm) s))
            else remove_two_children elm s) (\<lambda>(child, parent, color, s).
     bindO (if color = RB_BLACK then RB_REMOVE_COLOR parent child s else Some (Inr s)) (\<lambda>s.
     Some (Inr (Some elm, s))))"

subsection \<open>Searching and walking\<close>

partial_function (option) find_from :: "(nat \<Rightarrow> int) \<Rightarrow> rb_st \<Rightarrow> nat option \<Rightarrow> nat option option" where
  "find_from c s tmp = (case tmp of None \<Rightarrow> Some None
     | Some x \<Rightarrow> if c x < 0 then find_from c s (rbe_left s x)
                else if c x > 0 then find_from c s (rbe_right s x)
                else Some (Some x))"

definition RB_FIND :: "(nat \<Rightarrow> nat \<Rightarrow> int) \<Rightarrow> nat \<Rightarrow> rb_st \<Rightarrow> nat option option" where
  "RB_FIND cmp elm s = find_from (cmp elm) s (rbh_root s)"

partial_function (option) nfind_from ::
  "(nat \<Rightarrow> int) \<Rightarrow> rb_st \<Rightarrow> nat option \<Rightarrow> nat option \<Rightarrow> nat option option" where
  "nfind_from c s tmp res = (case tmp of None \<Rightarrow> Some res
     | Some x \<Rightarrow> if c x < 0 then nfind_from c s (rbe_left s x) (Some x)
                else if c x > 0 then nfind_from c s (rbe_right s x) res
                else Some (Some x))"

definition RB_NFIND :: "(nat \<Rightarrow> nat \<Rightarrow> int) \<Rightarrow> nat \<Rightarrow> rb_st \<Rightarrow> nat option option" where
  "RB_NFIND cmp elm s = nfind_from (cmp elm) s (rbh_root s) None"

partial_function (option) climb_right :: "rb_st \<Rightarrow> nat \<Rightarrow> nat option option" where
  "climb_right s elm = (case rbe_parent s elm of
       None \<Rightarrow> Some None
     | Some p \<Rightarrow> if rbe_right s p = Some elm then climb_right s p else Some (Some p))"

partial_function (option) climb_left :: "rb_st \<Rightarrow> nat \<Rightarrow> nat option option" where
  "climb_left s elm = (case rbe_parent s elm of
       None \<Rightarrow> Some None
     | Some p \<Rightarrow> if rbe_left s p = Some elm then climb_left s p else Some (Some p))"

definition RB_NEXT :: "nat \<Rightarrow> rb_st \<Rightarrow> nat option option" where
  "RB_NEXT elm s = (case rbe_right s elm of
       Some r \<Rightarrow> map_option Some (rb_leftmost s r)
     | None \<Rightarrow> (case rbe_parent s elm of
           Some p \<Rightarrow> if rbe_left s p = Some elm then Some (Some p) else climb_right s elm
         | None \<Rightarrow> climb_right s elm))"

definition RB_PREV :: "nat \<Rightarrow> rb_st \<Rightarrow> nat option option" where
  "RB_PREV elm s = (case rbe_left s elm of
       Some l \<Rightarrow> map_option Some (rb_rightmost s l)
     | None \<Rightarrow> (case rbe_parent s elm of
           Some p \<Rightarrow> if rbe_right s p = Some elm then Some (Some p) else climb_left s elm
         | None \<Rightarrow> climb_left s elm))"

partial_function (option) minmax_from :: "int \<Rightarrow> rb_st \<Rightarrow> nat option \<Rightarrow> nat option \<Rightarrow> nat option option" where
  "minmax_from val s tmp parent = (case tmp of None \<Rightarrow> Some parent
     | Some x \<Rightarrow> minmax_from val s (if val < 0 then rbe_left s x else rbe_right s x) (Some x))"

definition RB_MINMAX :: "int \<Rightarrow> rb_st \<Rightarrow> nat option option" where
  "RB_MINMAX val s = minmax_from val s (rbh_root s) None"

text \<open>The operations under one name.\<close>

definition query :: "nat option option \<Rightarrow> rb_st \<Rightarrow> rb_result" where
  "query r s = map_option (\<lambda>p. Inr (p, s)) r"

definition rb_next :: "nat \<Rightarrow> rb_st \<Rightarrow> rb_result" where
  "rb_next e s = query (RB_NEXT e s) s"

definition rb_prev :: "nat \<Rightarrow> rb_st \<Rightarrow> rb_result" where
  "rb_prev e s = query (RB_PREV e s) s"

fun rb_step :: "(nat \<Rightarrow> nat \<Rightarrow> int) \<Rightarrow> tree_op \<Rightarrow> rb_st \<Rightarrow> rb_result" where
  "rb_step cmp (Insert e) s = RB_INSERT cmp e s"
| "rb_step cmp (Remove e) s = RB_REMOVE e s"
| "rb_step cmp (Find e) s = query (RB_FIND cmp e s) s"
| "rb_step cmp (Next e) s = rb_next e s"
| "rb_step cmp Minimum s = query (RB_MINMAX (-1) s) s"
| "rb_step cmp Maximum s = query (RB_MINMAX 1 s) s"

text \<open>The loops; those with a body that may remove the element take the body as an argument.\<close>

type_synonym loop_body = "nat \<Rightarrow> rb_st \<Rightarrow> (tree_fault + rb_st) option"

definition RB_FOREACH :: "rb_st \<Rightarrow> (tree_fault + nat list \<times> rb_st) option" where
  "RB_FOREACH s = bindO (query (RB_MINMAX (-1) s) s) (\<lambda>(x, s). tree_walk rb_next x s)"

definition RB_FOREACH_FROM :: "loop_body \<Rightarrow> nat option \<Rightarrow> rb_st \<Rightarrow> (tree_fault + rb_st) option" where
  "RB_FOREACH_FROM body y s = tree_walk_safe rb_next body y s"

definition RB_FOREACH_SAFE :: "loop_body \<Rightarrow> rb_st \<Rightarrow> (tree_fault + rb_st) option" where
  "RB_FOREACH_SAFE body s = bindO (query (RB_MINMAX (-1) s) s) (\<lambda>(x, s). tree_walk_safe rb_next body x s)"

definition RB_FOREACH_REVERSE :: "rb_st \<Rightarrow> (tree_fault + nat list \<times> rb_st) option" where
  "RB_FOREACH_REVERSE s = bindO (query (RB_MINMAX 1 s) s) (\<lambda>(x, s). tree_walk rb_prev x s)"

definition RB_FOREACH_REVERSE_FROM :: "loop_body \<Rightarrow> nat option \<Rightarrow> rb_st \<Rightarrow> (tree_fault + rb_st) option" where
  "RB_FOREACH_REVERSE_FROM body y s = tree_walk_safe rb_prev body y s"

definition RB_FOREACH_REVERSE_SAFE :: "loop_body \<Rightarrow> rb_st \<Rightarrow> (tree_fault + rb_st) option" where
  "RB_FOREACH_REVERSE_SAFE body s =
     bindO (query (RB_MINMAX 1 s) s) (\<lambda>(x, s). tree_walk_safe rb_prev body x s)"

end
