(* ===== verification/Rb_Trees.thy ===== *)
theory Rb_Trees
  imports Rb "HOL-Library.Tree"
begin

text \<open>
  Red-black trees and places in them: a place is a subtree and the path from it up to the root. The
  repairs after an insertion and a removal are functions on places, and they keep the elements in
  order and restore the invariant on colours and black heights.
\<close>

subsection \<open>Trees and places\<close>

type_synonym rbt = "(nat \<times> rb_color) tree"

text \<open>A step of the path: the place is the left or the right child of an element.\<close>

datatype crumb = Left_of nat rb_color rbt | Right_of rbt nat rb_color

fun plug :: "rbt \<Rightarrow> crumb list \<Rightarrow> rbt" where
  "plug t [] = t"
| "plug t (Left_of x c r # k) = plug (Node t (x, c) r) k"
| "plug t (Right_of l x c # k) = plug (Node l (x, c) t) k"

definition elems :: "rbt \<Rightarrow> nat list" where
  "elems t = map fst (inorder t)"

lemma elems_simps [simp]: "elems Leaf = []" "elems (Node l (x, c) r) = elems l @ x # elems r"
  by (simp_all add: elems_def)

fun before :: "crumb list \<Rightarrow> nat list" where
  "before [] = []"
| "before (Left_of x c r # k) = before k"
| "before (Right_of l x c # k) = before k @ elems l @ [x]"

fun after :: "crumb list \<Rightarrow> nat list" where
  "after [] = []"
| "after (Left_of x c r # k) = x # elems r @ after k"
| "after (Right_of l x c # k) = after k"

lemma elems_plug [simp]: "elems (plug t k) = before k @ elems t @ after k"
  by (induction t k rule: plug.induct) auto

lemma plug_append: "plug t (k @ k') = plug (plug t k) k'"
  by (induction t k rule: plug.induct) auto

text \<open>Every element has a place.\<close>

lemma place_of: "x \<in> set (elems t) \<Longrightarrow> \<exists>l c r k. t = plug (Node l (x, c) r) k"
proof (induction t)
  case (Node a z b)
  obtain y d where z: "z = (y, d)" by (cases z)
  consider "x \<in> set (elems a)" | "x = y" | "x \<in> set (elems b)" using Node.prems by (auto simp: z)
  then show ?case
  proof cases
    case 1
    then obtain l c r k where "a = plug (Node l (x, c) r) k" using Node.IH(1) by blast
    then have "Node a z b = plug (Node l (x, c) r) (k @ [Left_of y d b])" by (simp add: plug_append z)
    then show ?thesis by blast
  next
    case 2
    then have "Node a z b = plug (Node a (x, d) b) []" by (simp add: z)
    then show ?thesis by blast
  next
    case 3
    then obtain l c r k where "b = plug (Node l (x, c) r) k" using Node.IH(2) by blast
    then have "Node a z b = plug (Node l (x, c) r) (k @ [Right_of a y d])" by (simp add: plug_append z)
    then show ?thesis by blast
  qed
qed simp

subsection \<open>The invariant\<close>

fun color_of :: "rbt \<Rightarrow> rb_color" where
  "color_of Leaf = RB_BLACK"
| "color_of (Node l (x, c) r) = c"

fun paint :: "rb_color \<Rightarrow> rbt \<Rightarrow> rbt" where
  "paint c Leaf = Leaf"
| "paint c (Node l (x, d) r) = Node l (x, c) r"

fun black_height :: "rbt \<Rightarrow> nat" where
  "black_height Leaf = 0"
| "black_height (Node l (x, c) r) = (if c = RB_BLACK then 1 else 0) + black_height l"

fun invc :: "rbt \<Rightarrow> bool" where
  "invc Leaf \<longleftrightarrow> True"
| "invc (Node l (x, c) r) \<longleftrightarrow>
     (c = RB_RED \<longrightarrow> color_of l = RB_BLACK \<and> color_of r = RB_BLACK) \<and> invc l \<and> invc r"

fun invh :: "rbt \<Rightarrow> bool" where
  "invh Leaf \<longleftrightarrow> True"
| "invh (Node l (x, c) r) \<longleftrightarrow> black_height l = black_height r \<and> invh l \<and> invh r"

definition rb_inv :: "rbt \<Rightarrow> bool" where
  "rb_inv t \<longleftrightarrow> invc t \<and> invh t \<and> color_of t = RB_BLACK"

text \<open>
  What a path asks of the subtree at its end: its colour (\<open>True\<close> when it may be red) and its black height.
\<close>

fun path_c :: "crumb list \<Rightarrow> rb_color \<Rightarrow> bool" where
  "path_c [] d \<longleftrightarrow> d = RB_BLACK"
| "path_c (Left_of x c r # k) d \<longleftrightarrow>
     (c = RB_RED \<longrightarrow> d = RB_BLACK \<and> color_of r = RB_BLACK) \<and> invc r \<and> path_c k c"
| "path_c (Right_of l x c # k) d \<longleftrightarrow>
     (c = RB_RED \<longrightarrow> color_of l = RB_BLACK \<and> d = RB_BLACK) \<and> invc l \<and> path_c k c"

fun path_h :: "crumb list \<Rightarrow> nat \<Rightarrow> bool" where
  "path_h [] n \<longleftrightarrow> True"
| "path_h (Left_of x c r # k) n \<longleftrightarrow>
     invh r \<and> black_height r = n \<and> path_h k ((if c = RB_BLACK then 1 else 0) + n)"
| "path_h (Right_of l x c # k) n \<longleftrightarrow>
     invh l \<and> black_height l = n \<and> path_h k ((if c = RB_BLACK then 1 else 0) + n)"

lemma rb_inv_plug:
  "rb_inv (plug t k) \<longleftrightarrow> invc t \<and> invh t \<and> path_c k (color_of t) \<and> path_h k (black_height t)"
  by (induction t k rule: plug.induct) (auto simp: rb_inv_def)

lemma not_black [simp]: "c \<noteq> RB_BLACK \<longleftrightarrow> c = RB_RED" "c \<noteq> RB_RED \<longleftrightarrow> c = RB_BLACK"
  by (cases c; simp)+

lemma paint_simps [simp]:
  "elems (paint c t) = elems t" "invh (paint c t) = invh t" "paint c t = Leaf \<longleftrightarrow> t = Leaf"
  "color_of (paint RB_BLACK t) = RB_BLACK" "invc t \<Longrightarrow> invc (paint RB_BLACK t)"
  by (cases t; force)+

lemma red_cases:
  assumes "color_of t = RB_RED"
  obtains l x r where "t = Node l (x, RB_RED) r"
  using assms by (cases t) (auto elim: color_of.elims)

subsection \<open>Repair after an insertion\<close>

text \<open>
  One round of the loop at a place whose subtree is red; the first component says whether the loop
  goes on. The path of a red parent begins with two steps, since the root is black.
\<close>

fun insert_round :: "rbt \<Rightarrow> crumb list \<Rightarrow> bool \<times> rbt \<times> crumb list" where
  "insert_round t (Left_of p RB_RED s # Left_of g gc u # k) =
     (if color_of u = RB_RED
      then (True, Node (Node t (p, RB_BLACK) s) (g, RB_RED) (paint RB_BLACK u), k)
      else (False, t, Left_of p RB_BLACK (Node s (g, RB_RED) u) # k))"
| "insert_round (Node a (x, c) b) (Right_of l p RB_RED # Left_of g gc u # k) =
     (if color_of u = RB_RED
      then (True, Node (Node l (p, RB_BLACK) (Node a (x, c) b)) (g, RB_RED) (paint RB_BLACK u), k)
      else (False, Node l (p, RB_RED) a, Left_of x RB_BLACK (Node b (g, RB_RED) u) # k))"
| "insert_round t (Right_of s p RB_RED # Right_of u g gc # k) =
     (if color_of u = RB_RED
      then (True, Node (paint RB_BLACK u) (g, RB_RED) (Node s (p, RB_BLACK) t), k)
      else (False, t, Right_of (Node u (g, RB_RED) s) p RB_BLACK # k))"
| "insert_round (Node a (x, c) b) (Left_of p RB_RED r # Right_of u g gc # k) =
     (if color_of u = RB_RED
      then (True, Node (paint RB_BLACK u) (g, RB_RED) (Node (Node a (x, c) b) (p, RB_BLACK) r), k)
      else (False, Node b (p, RB_RED) r, Right_of (Node u (g, RB_RED) a) x RB_BLACK # k))"
| "insert_round t k = (False, t, k)"

text \<open>A place in the middle of the repair: the subtree is red, and may clash with its parent only.\<close>

definition insert_place :: "rbt \<Rightarrow> crumb list \<Rightarrow> bool" where
  "insert_place t k \<longleftrightarrow> invc t \<and> color_of t = RB_RED \<and> invh t \<and> path_c k RB_BLACK \<and> path_h k (black_height t)"

fun parent_red :: "crumb list \<Rightarrow> bool" where
  "parent_red (Left_of p c s # k) = (c = RB_RED)"
| "parent_red (Right_of s p c # k) = (c = RB_RED)"
| "parent_red [] = False"

lemma insert_round_elems:
  "insert_round t k = (m, t', k') \<Longrightarrow> elems (plug t' k') = elems (plug t k)"
  by (cases "(t, k)" rule: insert_round.cases) (auto split: if_splits)

lemma insert_round_place:
  assumes "insert_place t k" and "parent_red k" and "insert_round t k = (m, t', k')"
  shows "insert_place t' k' \<and> (m \<longrightarrow> length k' < length k) \<and> (\<not> m \<longrightarrow> \<not> parent_red k')"
proof (cases "(t, k)" rule: insert_round.cases)
  case (1 t p s g gc u k)
  then show ?thesis using assms
    by (cases "color_of u") (auto simp: insert_place_def elim!: red_cases)
next
  case (2 a x c b l p g gc u k)
  then show ?thesis using assms
    by (cases "color_of u") (auto simp: insert_place_def elim!: red_cases)
next
  case (3 t s p u g gc k)
  then show ?thesis using assms
    by (cases "color_of u") (auto simp: insert_place_def elim!: red_cases)
next
  case (4 a x c b p r u g gc k)
  then show ?thesis using assms
    by (cases "color_of u") (auto simp: insert_place_def elim!: red_cases)
qed (use assms in \<open>auto simp: insert_place_def elim!: parent_red.elims(2)\<close>)

lemma paint_root: "rb_inv t \<Longrightarrow> paint RB_BLACK t = t"
  by (cases t) (auto simp: rb_inv_def)

lemma path_c_red: "path_c k RB_BLACK \<Longrightarrow> \<not> parent_red k \<Longrightarrow> k \<noteq> [] \<Longrightarrow> path_c k RB_RED"
  by (cases k rule: parent_red.cases) auto

lemma insert_place_done:
  assumes "insert_place t k" and "\<not> parent_red k"
  shows "rb_inv (paint RB_BLACK (plug t k))"
proof (cases "k = []")
  case True
  with assms show ?thesis by (simp add: insert_place_def rb_inv_def)
next
  case False
  with assms path_c_red have "rb_inv (plug t k)" by (simp add: insert_place_def rb_inv_plug)
  then show ?thesis by (simp add: paint_root)
qed

subsection \<open>Repair after a removal\<close>

text \<open>
  The place is a black subtree that misses one black node. First the rounds in which the sibling is
  black: either it turns red and the loop goes on at the parent, or the repair ends with the place
  at the root.
\<close>

fun left_round :: "rbt \<Rightarrow> nat \<Rightarrow> rb_color \<Rightarrow> rbt \<Rightarrow> crumb list \<Rightarrow> bool \<times> rbt \<times> crumb list" where
  "left_round t p pc (Node b (w, wc) c) k =
     (if color_of b = RB_BLACK \<and> color_of c = RB_BLACK then (True, Node t (p, pc) (Node b (w, RB_RED) c), k)
      else if color_of c = RB_RED
      then (False, plug (Node (Node t (p, RB_BLACK) b) (w, pc) (paint RB_BLACK c)) k, [])
      else case b of Node b1 (v, vc) b2 \<Rightarrow>
             (False, plug (Node (Node t (p, RB_BLACK) b1) (v, pc) (Node b2 (w, RB_BLACK) c)) k, []))"
| "left_round t p pc Leaf k = (False, plug (Node t (p, pc) Leaf) k, [])"

fun right_round :: "rbt \<Rightarrow> nat \<Rightarrow> rb_color \<Rightarrow> rbt \<Rightarrow> crumb list \<Rightarrow> bool \<times> rbt \<times> crumb list" where
  "right_round t p pc (Node c (w, wc) b) k =
     (if color_of c = RB_BLACK \<and> color_of b = RB_BLACK then (True, Node (Node c (w, RB_RED) b) (p, pc) t, k)
      else if color_of c = RB_RED
      then (False, plug (Node (paint RB_BLACK c) (w, pc) (Node b (p, RB_BLACK) t)) k, [])
      else case b of Node b2 (v, vc) b1 \<Rightarrow>
             (False, plug (Node (Node c (w, RB_BLACK) b2) (v, pc) (Node b1 (p, RB_BLACK) t)) k, []))"
| "right_round t p pc Leaf k = (False, plug (Node Leaf (p, pc) t) k, [])"

text \<open>A red sibling is first rotated above the parent.\<close>

fun remove_round :: "rbt \<Rightarrow> crumb list \<Rightarrow> bool \<times> rbt \<times> crumb list" where
  "remove_round t (Left_of p pc (Node b (w, RB_RED) c) # k) =
     left_round t p RB_RED b (Left_of w RB_BLACK c # k)"
| "remove_round t (Left_of p pc s # k) = left_round t p pc s k"
| "remove_round t (Right_of (Node c (w, RB_RED) b) p pc # k) =
     right_round t p RB_RED b (Right_of c w RB_BLACK # k)"
| "remove_round t (Right_of s p pc # k) = right_round t p pc s k"
| "remove_round t [] = (False, t, [])"

definition remove_place :: "rbt \<Rightarrow> crumb list \<Rightarrow> bool" where
  "remove_place t k \<longleftrightarrow> invc (paint RB_BLACK t) \<and> invh t \<and> path_c k RB_BLACK \<and>
     path_h k (Suc (black_height t))"

definition remove_measure :: "rbt \<Rightarrow> crumb list \<Rightarrow> nat" where
  "remove_measure t k = 2 * length k + (if color_of t = RB_BLACK then 1 else 0)"

lemma black_paint: "color_of t = RB_BLACK \<Longrightarrow> paint RB_BLACK t = t"
  by (cases t) auto

lemma path_c_black: "path_c k d \<Longrightarrow> path_c k RB_BLACK"
  by (cases d; cases k rule: parent_red.cases) auto

lemma left_round_elems:
  "left_round t p pc s k = (m, t', k') \<Longrightarrow> elems (plug t' k') = before k @ elems t @ p # elems s @ after k"
  by (cases s) (auto split: if_splits tree.splits)

lemma right_round_elems:
  "right_round t p pc s k = (m, t', k') \<Longrightarrow> elems (plug t' k') = before k @ elems s @ p # elems t @ after k"
  by (cases s) (auto split: if_splits tree.splits)

lemma remove_round_elems:
  "remove_round t k = (m, t', k') \<Longrightarrow> elems (plug t' k') = elems (plug t k)"
  by (cases "(t, k)" rule: remove_round.cases)
    (auto dest!: left_round_elems right_round_elems simp del: left_round.simps right_round.simps)

text \<open>What a round with a black sibling guarantees.\<close>

definition round_ok :: "bool \<Rightarrow> rbt \<Rightarrow> crumb list \<Rightarrow> nat \<Rightarrow> bool" where
  "round_ok m t k n \<longleftrightarrow>
     (if m then remove_place t k \<and> remove_measure t k < n else k = [] \<and> rb_inv t)"

lemma left_round_ok:
  assumes "invc t" and "color_of t = RB_BLACK" and "invh t" and "path_c (Left_of p pc s # k) RB_BLACK"
    and "path_h (Left_of p pc s # k) (Suc (black_height t))" and "color_of s = RB_BLACK"
    and "left_round t p pc s k = (m, t', k')"
  shows "s \<noteq> Leaf" and "round_ok m t' k' (2 * length k + (if pc = RB_RED then 1 else 2))"
proof -
  show "s \<noteq> Leaf" using assms(5) by auto
  then obtain b w c where s: "s = Node b (w, RB_BLACK) c" using assms(6) by (cases s) auto
  show "round_ok m t' k' (2 * length k + (if pc = RB_RED then 1 else 2))"
  proof (cases "color_of b = RB_BLACK \<and> color_of c = RB_BLACK")
    case True
    with assms s path_c_black[of k pc] show ?thesis
      by (auto simp: round_ok_def remove_place_def remove_measure_def)
  next
    case False
    show ?thesis
    proof (cases "color_of c")
      case RB_RED
      with assms s False show ?thesis
        by (auto simp: round_ok_def rb_inv_plug elim!: red_cases)
    next
      case RB_BLACK
      with False have "color_of b = RB_RED" by simp
      with assms s RB_BLACK show ?thesis
        by (auto simp: round_ok_def rb_inv_plug elim!: red_cases)
    qed
  qed
qed

lemma right_round_ok:
  assumes "invc t" and "color_of t = RB_BLACK" and "invh t" and "path_c (Right_of s p pc # k) RB_BLACK"
    and "path_h (Right_of s p pc # k) (Suc (black_height t))" and "color_of s = RB_BLACK"
    and "right_round t p pc s k = (m, t', k')"
  shows "s \<noteq> Leaf" and "round_ok m t' k' (2 * length k + (if pc = RB_RED then 1 else 2))"
proof -
  show "s \<noteq> Leaf" using assms(5) by auto
  then obtain c w b where s: "s = Node c (w, RB_BLACK) b" using assms(6) by (cases s) auto
  show "round_ok m t' k' (2 * length k + (if pc = RB_RED then 1 else 2))"
  proof (cases "color_of c = RB_BLACK \<and> color_of b = RB_BLACK")
    case True
    with assms s path_c_black[of k pc] show ?thesis
      by (auto simp: round_ok_def remove_place_def remove_measure_def)
  next
    case False
    show ?thesis
    proof (cases "color_of c")
      case RB_RED
      with assms s False show ?thesis
        by (auto simp: round_ok_def rb_inv_plug elim!: red_cases)
    next
      case RB_BLACK
      with False have "color_of b = RB_RED" by simp
      with assms s RB_BLACK show ?thesis
        by (auto simp: round_ok_def rb_inv_plug elim!: red_cases)
    qed
  qed
qed

lemma remove_round_black:
  "color_of s = RB_BLACK \<Longrightarrow> remove_round t (Left_of p pc s # k) = left_round t p pc s k"
  "color_of s = RB_BLACK \<Longrightarrow> remove_round t (Right_of s p pc # k) = right_round t p pc s k"
  by (cases s; auto)+

lemma remove_round_ok:
  assumes place: "remove_place t k" and black: "color_of t = RB_BLACK" and "k \<noteq> []"
    and r: "remove_round t k = (m, t', k')"
  shows "round_ok m t' k' (remove_measure t k)"
proof -
  have t: "invc t" "invh t" using place black by (simp_all add: remove_place_def black_paint)
  have mono: "round_ok m t' k' n \<Longrightarrow> n \<le> n' \<Longrightarrow> round_ok m t' k' n'" for n n'
    by (auto simp: round_ok_def split: if_splits)
  show ?thesis
  proof (cases k)
    case (Cons a k1)
    show ?thesis
    proof (cases a)
      case (Left_of p pc s)
      show ?thesis
      proof (cases "color_of s")
        case RB_BLACK
        then have "left_round t p pc s k1 = (m, t', k')"
          using r by (simp add: Cons Left_of remove_round_black)
        from left_round_ok(2)[OF t(1) black t(2) _ _ RB_BLACK this] place
        have "round_ok m t' k' (2 * length k1 + (if pc = RB_RED then 1 else 2))"
          by (simp add: remove_place_def Cons Left_of del: left_round.simps)
        then show ?thesis by (rule mono) (simp add: remove_measure_def Cons black)
      next
        case RB_RED
        then obtain b w c where s: "s = Node b (w, RB_RED) c" by (rule red_cases)
        have "left_round t p RB_RED b (Left_of w RB_BLACK c # k1) = (m, t', k')"
          using r by (simp add: Cons Left_of s)
        from left_round_ok(2)[OF t(1) black t(2) _ _ _ this] place
        have "round_ok m t' k' (2 * length (Left_of w RB_BLACK c # k1) + (if RB_RED = RB_RED then 1 else 2))"
          by (auto simp: remove_place_def Cons Left_of s simp del: left_round.simps)
        then show ?thesis by (rule mono) (simp add: remove_measure_def Cons black)
      qed
    next
      case (Right_of s p pc)
      show ?thesis
      proof (cases "color_of s")
        case RB_BLACK
        then have "right_round t p pc s k1 = (m, t', k')"
          using r by (simp add: Cons Right_of remove_round_black)
        from right_round_ok(2)[OF t(1) black t(2) _ _ RB_BLACK this] place
        have "round_ok m t' k' (2 * length k1 + (if pc = RB_RED then 1 else 2))"
          by (simp add: remove_place_def Cons Right_of del: right_round.simps)
        then show ?thesis by (rule mono) (simp add: remove_measure_def Cons black)
      next
        case RB_RED
        then obtain c w b where s: "s = Node c (w, RB_RED) b" by (rule red_cases)
        have "right_round t p RB_RED b (Right_of c w RB_BLACK # k1) = (m, t', k')"
          using r by (simp add: Cons Right_of s)
        from right_round_ok(2)[OF t(1) black t(2) _ _ _ this] place
        have "round_ok m t' k' (2 * length (Right_of c w RB_BLACK # k1) + (if RB_RED = RB_RED then 1 else 2))"
          by (auto simp: remove_place_def Cons Right_of s simp del: right_round.simps)
        then show ?thesis by (rule mono) (simp add: remove_measure_def Cons black)
      qed
    qed
  qed (use assms in simp)
qed

text \<open>The siblings the loop accesses exist.\<close>

lemma remove_place_sibling:
  "remove_place t (Left_of p pc s # k) \<Longrightarrow> s \<noteq> Leaf"
  "remove_place t (Right_of s p pc # k) \<Longrightarrow> s \<noteq> Leaf"
  "remove_place t (Left_of p pc (Node b (w, RB_RED) c) # k) \<Longrightarrow> b \<noteq> Leaf \<and> color_of b = RB_BLACK"
  "remove_place t (Right_of (Node c (w, RB_RED) b) p pc # k) \<Longrightarrow> b \<noteq> Leaf \<and> color_of b = RB_BLACK"
  by (auto simp: remove_place_def)

lemma remove_place_done:
  assumes "remove_place t k" and "color_of t = RB_RED \<or> k = []"
  shows "rb_inv (plug (paint RB_BLACK t) k)"
proof -
  have "black_height (paint RB_BLACK t) = Suc (black_height t)" if "color_of t = RB_RED"
    using that by (auto elim!: red_cases)
  with assms show ?thesis by (auto simp: remove_place_def rb_inv_plug)
qed

end
