(* ===== verification/Rb_Memory.thy ===== *)
theory Rb_Memory
  imports Rb_Trees
begin

text \<open>
  Red-black trees in the memory of \<open>Rb\<close>, and what the small macros do to them at a place: reading a
  node, painting, both rotations.
\<close>

subsection \<open>Trees in memory\<close>

fun root_of :: "rbt \<Rightarrow> nat option" where
  "root_of Leaf = None"
| "root_of (Node l (x, c) r) = Some x"

fun parent_of :: "crumb list \<Rightarrow> nat option" where
  "parent_of [] = None"
| "parent_of (Left_of x c r # k) = Some x"
| "parent_of (Right_of l x c # k) = Some x"

fun rb_at :: "rb_st \<Rightarrow> nat option \<Rightarrow> nat option \<Rightarrow> rbt \<Rightarrow> bool" where
  "rb_at s par p Leaf \<longleftrightarrow> p = None"
| "rb_at s par p (Node l (x, c) r) \<longleftrightarrow>
     p = Some x \<and> rbe_parent s x = par \<and> rbe_color s x = c \<and>
     rb_at s (Some x) (rbe_left s x) l \<and> rb_at s (Some x) (rbe_right s x) r"

fun path_at :: "rb_st \<Rightarrow> nat option \<Rightarrow> crumb list \<Rightarrow> bool" where
  "path_at s p [] \<longleftrightarrow> rbh_root s = p"
| "path_at s p (Left_of x c r # k) \<longleftrightarrow>
     rbe_left s x = p \<and> rbe_color s x = c \<and> rbe_parent s x = parent_of k \<and>
     rb_at s (Some x) (rbe_right s x) r \<and> path_at s (Some x) k"
| "path_at s p (Right_of l x c # k) \<longleftrightarrow>
     rbe_right s x = p \<and> rbe_color s x = c \<and> rbe_parent s x = parent_of k \<and>
     rb_at s (Some x) (rbe_left s x) l \<and> path_at s (Some x) k"

definition holds_rb :: "rb_st \<Rightarrow> rbt \<Rightarrow> bool" where
  "holds_rb s t \<longleftrightarrow> rb_at s None (rbh_root s) t \<and> distinct (elems t)"

lemma rb_at_root: "rb_at s par p t \<Longrightarrow> p = root_of t"
  by (cases t rule: root_of.cases) auto

lemma rb_at_plug:
  "rb_at s None (rbh_root s) (plug t k) \<longleftrightarrow> rb_at s (parent_of k) (root_of t) t \<and> path_at s (root_of t) k"
proof (induction t k rule: plug.induct)
  case (1 t)
  then show ?case using rb_at_root[of s None "rbh_root s" t] by auto
next
  case (2 t x c r k)
  then show ?case using rb_at_root[of s "Some x" "rbe_left s x" t] by auto
next
  case (3 t l x c k)
  then show ?case using rb_at_root[of s "Some x" "rbe_right s x" t] by auto
qed

lemma holds_plug:
  "holds_rb s (plug t k) \<longleftrightarrow> rb_at s (parent_of k) (root_of t) t \<and> path_at s (root_of t) k \<and>
     distinct (before k @ elems t @ after k)"
  by (simp add: holds_rb_def rb_at_plug del: distinct_append)

text \<open>What a place says of its node, its parent and the root.\<close>

lemma holds_read:
  assumes "holds_rb s (plug (Node l (x, c) r) k)"
  shows "rbe_left s x = root_of l" and "rbe_right s x = root_of r" and "rbe_parent s x = parent_of k"
    and "rbe_color s x = c"
  using assms rb_at_root[of s "Some x" "rbe_left s x" l] rb_at_root[of s "Some x" "rbe_right s x" r]
  by (simp_all add: holds_plug)

lemma holds_root: "holds_rb s t \<Longrightarrow> rbh_root s = root_of t"
  using rb_at_root[of s None "rbh_root s" t] by (simp add: holds_rb_def)

lemma holds_black: "holds_rb s (plug t k) \<Longrightarrow> is_black s (root_of t) \<longleftrightarrow> color_of t = RB_BLACK"
  by (cases t rule: root_of.cases) (auto simp: holds_plug is_black_def)

lemma root_of_None [simp]: "root_of t = None \<longleftrightarrow> t = Leaf" "None = root_of t \<longleftrightarrow> t = Leaf"
  by (cases t rule: root_of.cases; simp)+

lemma root_of_in: "root_of t = Some x \<Longrightarrow> x \<in> set (elems t)"
  by (cases t rule: root_of.cases) auto

lemma parent_of_in: "parent_of k = Some x \<Longrightarrow> x \<in> set (before k) \<union> set (after k)"
  by (cases k rule: parent_of.cases) auto

subsection \<open>Writes elsewhere\<close>

definition same_at :: "rb_st \<Rightarrow> rb_st \<Rightarrow> nat \<Rightarrow> bool" where
  "same_at s' s x \<longleftrightarrow> rbe_left s' x = rbe_left s x \<and> rbe_right s' x = rbe_right s x \<and>
     rbe_parent s' x = rbe_parent s x \<and> rbe_color s' x = rbe_color s x"

lemma rb_at_same: "(\<And>x. x \<in> set (elems t) \<Longrightarrow> same_at s' s x) \<Longrightarrow> rb_at s' par p t = rb_at s par p t"
  by (induction s par p t rule: rb_at.induct) (auto simp: same_at_def)

lemma path_at_same:
  "(\<And>x. x \<in> set (before k) \<union> set (after k) \<Longrightarrow> same_at s' s x) \<Longrightarrow> rbh_root s' = rbh_root s \<Longrightarrow>
    path_at s' p k = path_at s p k"
proof (induction s p k rule: path_at.induct)
  case (2 s p x c r k)
  then have "rb_at s' (Some x) (rbe_right s x) r = rb_at s (Some x) (rbe_right s x) r"
    by (intro rb_at_same) auto
  with 2 show ?case by (auto simp: same_at_def)
next
  case (3 s p l x c k)
  then have "rb_at s' (Some x) (rbe_left s x) l = rb_at s (Some x) (rbe_left s x) l"
    by (intro rb_at_same) auto
  with 3 show ?case by (auto simp: same_at_def)
qed simp

lemma relink_simps [simp]:
  "rbe_parent (relink par e q s) = rbe_parent s" "rbe_color (relink par e q s) = rbe_color s"
  "par \<noteq> Some x \<Longrightarrow> rbe_left (relink par e q s) x = rbe_left s x"
  "par \<noteq> Some x \<Longrightarrow> rbe_right (relink par e q s) x = rbe_right s x"
  "par \<noteq> None \<Longrightarrow> rbh_root (relink par e q s) = rbh_root s"
  by (auto simp: relink_def split: option.split)

lemma relink_same: "par \<noteq> Some x \<Longrightarrow> same_at (relink par e q s) s x"
  by (simp add: same_at_def)

text \<open>The link at the end of a path.\<close>

fun set_child :: "crumb list \<Rightarrow> nat option \<Rightarrow> rb_st \<Rightarrow> rb_st" where
  "set_child [] q s = set_rb_root q s"
| "set_child (Left_of x c r # k) q s = set_rb_left x q s"
| "set_child (Right_of l x c # k) q s = set_rb_right x q s"

lemma path_set_child:
  assumes "path_at s p k" and "distinct (before k @ after k)"
  shows "path_at (set_child k q s) q k"
proof (cases k rule: parent_of.cases)
  case (2 y c r k')
  let ?s = "set_rb_left y q s"
  have "path_at ?s (Some y) k' = path_at s (Some y) k'"
    using assms(2) by (intro path_at_same) (auto simp: same_at_def 2)
  moreover have "rb_at ?s (Some y) (rbe_right s y) r = rb_at s (Some y) (rbe_right s y) r"
    using assms(2) by (intro rb_at_same) (auto simp: same_at_def 2)
  ultimately show ?thesis using assms(1) by (simp add: 2)
next
  case (3 l y c k')
  let ?s = "set_rb_right y q s"
  have "path_at ?s (Some y) k' = path_at s (Some y) k'"
    using assms(2) by (intro path_at_same) (auto simp: same_at_def 3)
  moreover have "rb_at ?s (Some y) (rbe_left s y) l = rb_at s (Some y) (rbe_left s y) l"
    using assms(2) by (intro rb_at_same) (auto simp: same_at_def 3)
  ultimately show ?thesis using assms(1) by (simp add: 3)
qed simp

lemma relink_child:
  assumes "path_at s (Some x) k" and "x \<notin> set (before k @ after k)"
  shows "relink (parent_of k) x q s = set_child k q s"
proof (cases k rule: parent_of.cases)
  case (3 l y c k')
  have "rbe_left s y \<noteq> Some x"
    using assms root_of_in[of l x] rb_at_root[of s "Some y" "rbe_left s y" l] by (auto simp: 3)
  then show ?thesis by (simp add: 3 relink_def)
qed (use assms in \<open>simp_all add: relink_def\<close>)

lemma path_relink:
  assumes "path_at s (Some x) k" and "distinct (before k @ after k)" and "x \<notin> set (before k @ after k)"
  shows "path_at (relink (parent_of k) x q s) q k"
  using path_set_child[OF assms(1,2)] relink_child[OF assms(1,3)] by simp

lemma adopt_simps [simp]:
  "rbe_left (adopt p par s) = rbe_left s" "rbe_right (adopt p par s) = rbe_right s"
  "rbe_color (adopt p par s) = rbe_color s" "rbh_root (adopt p par s) = rbh_root s"
  "p \<noteq> Some x \<Longrightarrow> rbe_parent (adopt p par s) x = rbe_parent s x"
  by (auto simp: adopt_def split: option.split)

lemma adopt_at:
  assumes "rb_at s par p t" and "distinct (elems t)"
  shows "rb_at (adopt p par' s) par' p t"
proof (cases t rule: root_of.cases)
  case (2 l x c r)
  have "rb_at (adopt p par' s) (Some x) q l = rb_at s (Some x) q l"
    "rb_at (adopt p par' s) (Some x) q r = rb_at s (Some x) q r" for q
    using assms by (auto intro!: rb_at_same simp: same_at_def 2 adopt_def)
  with assms show ?thesis by (auto simp: 2 adopt_def)
qed (use assms in auto)

subsection \<open>Painting and rotating\<close>

lemma set_color_same: "x \<noteq> y \<Longrightarrow> same_at (set_rb_color y d s) s x"
  by (simp add: same_at_def)

lemma holds_set_color:
  assumes "holds_rb s (plug (Node l (x, c) r) k)"
  shows "holds_rb (set_rb_color x d s) (plug (Node l (x, d) r) k)"
proof -
  let ?s = "set_rb_color x d s"
  have d: "distinct (before k @ elems (Node l (x, c) r) @ after k)" using assms holds_plug by blast
  have "rb_at ?s (Some x) q l = rb_at s (Some x) q l" "rb_at ?s (Some x) q r = rb_at s (Some x) q r" for q
    using d by (auto intro!: rb_at_same set_color_same simp del: set_rb_color_def)
  moreover have "path_at ?s (Some x) k = path_at s (Some x) k"
    using d by (intro path_at_same set_color_same) auto
  ultimately show ?thesis using assms by (simp add: holds_plug)
qed

lemma holds_paint:
  assumes "holds_rb s (plug t k)"
  shows "holds_rb (paint_elem (root_of t) d s) (plug (paint d t) k)"
  using assms by (cases t rule: root_of.cases) (simp_all add: paint_elem_def holds_set_color
    del: set_rb_color_def)

lemma rotate_left_holds:
  assumes "holds_rb s (plug (Node a (x, c) (Node b (y, d) e)) k)"
  shows "\<exists>s'. RB_ROTATE_LEFT x s = Inr s' \<and> holds_rb s' (plug (Node (Node a (x, c) b) (y, d) e) k)"
proof -
  have dist: "distinct (before k @ elems (Node a (x, c) (Node b (y, d) e)) @ after k)"
    using assms holds_plug by blast
  have xy: "x \<noteq> y" "root_of b \<noteq> Some x" "root_of b \<noteq> Some y" "parent_of k \<noteq> Some x" "parent_of k \<noteq> Some y"
    using dist root_of_in[of b] parent_of_in[of k] by auto
  note read = holds_read[OF assms] holds_read[of s b y d e "Right_of a x c # k"]
  have r: "rbe_right s x = Some y" "rbe_left s y = root_of b" "rbe_parent s x = parent_of k"
    using read assms by simp_all
  define s1 where "s1 = set_rb_parent y (parent_of k) (adopt (root_of b) (Some x) (set_rb_right x (root_of b) s))"
  define s2 where "s2 = relink (parent_of k) x (Some y) s1"
  define s' where "s' = set_rb_parent x (Some y) (set_rb_left y (Some x) s2)"
  have "RB_ROTATE_LEFT x s = Inr s'"
    using xy r by (simp add: RB_ROTATE_LEFT_def s'_def s2_def s1_def Let_def)
  moreover have "holds_rb s' (plug (Node (Node a (x, c) b) (y, d) e) k)"
  proof -
    have other: "z \<noteq> x \<Longrightarrow> z \<noteq> y \<Longrightarrow> root_of b \<noteq> Some z \<Longrightarrow> same_at s1 s z" for z
      by (simp add: same_at_def s1_def)
    have other': "z \<noteq> x \<Longrightarrow> z \<noteq> y \<Longrightarrow> same_at s' s2 z" for z
      by (simp add: same_at_def s'_def)
    have top_out: "parent_of k \<noteq> Some z" if "z \<in> set (elems a) \<union> set (elems b) \<union> set (elems e)" for z
      using that dist parent_of_in[of k z] by auto
    have b_out: "root_of b \<noteq> Some z" if "z \<in> set (before k) \<union> set (after k) \<union> set (elems a) \<union> set (elems e)" for z
      using that dist root_of_in[of b z] by auto
    have roots: "rbh_root s1 = rbh_root s" "rbh_root s' = rbh_root s2" by (simp_all add: s1_def s'_def)
    have "path_at s (Some x) k" using assms by (simp add: holds_plug)
    then have "path_at s1 (Some x) k"
      using dist b_out roots by (subst path_at_same[of k s1 s]) (auto intro!: other)
    then have "path_at s2 (Some y) k"
      using dist unfolding s2_def by (intro path_relink) auto
    then have path: "path_at s' (Some y) k"
      using dist roots by (subst path_at_same[of k s' s2]) (auto intro!: other')
    have sub: "rb_at s' par q t = rb_at s par q t"
      if "set (elems t) \<subseteq> set (elems a) \<union> set (elems e)" for t par q
    proof (rule rb_at_same)
      fix z assume "z \<in> set (elems t)"
      then have z: "z \<in> set (elems a) \<union> set (elems e)" using that by blast
      then have "z \<noteq> x" "z \<noteq> y" using dist by auto
      moreover have "same_at s2 s1 z" unfolding s2_def using z by (intro relink_same top_out) auto
      ultimately show "same_at s' s z" using other[of z] other'[of z] b_out[of z] z
        by (auto simp: same_at_def)
    qed
    have "rb_at s (Some y) (root_of b) b" using assms r by (simp add: holds_plug)
    then have "rb_at (adopt (root_of b) (Some x) s) (Some x) (root_of b) b"
      using dist by (intro adopt_at) auto
    then have b: "rb_at s' (Some x) (root_of b) b"
    proof (subst rb_at_same[of b s' "adopt (root_of b) (Some x) s"])
      fix z assume z: "z \<in> set (elems b)"
      then have "z \<noteq> x" "z \<noteq> y" using dist by auto
      moreover have "same_at s2 s1 z" unfolding s2_def using z by (intro relink_same top_out) auto
      ultimately show "same_at s' (adopt (root_of b) (Some x) s) z"
        by (auto simp: same_at_def s'_def s1_def adopt_def split: option.splits)
    qed
    have "rbe_left s' y = Some x" "rbe_right s' y = rbe_right s y" "rbe_parent s' y = parent_of k"
      "rbe_color s' y = rbe_color s y" "rbe_left s' x = rbe_left s x" "rbe_right s' x = root_of b"
      "rbe_parent s' x = Some y" "rbe_color s' x = rbe_color s x"
      using xy by (simp_all add: s'_def s2_def s1_def)
    with path b assms dist sub show ?thesis by (simp add: holds_plug)
  qed
  ultimately show ?thesis by blast
qed

lemma rotate_right_holds:
  assumes "holds_rb s (plug (Node (Node e (y, d) b) (x, c) a) k)"
  shows "\<exists>s'. RB_ROTATE_RIGHT x s = Inr s' \<and> holds_rb s' (plug (Node e (y, d) (Node b (x, c) a)) k)"
proof -
  have dist: "distinct (before k @ elems (Node (Node e (y, d) b) (x, c) a) @ after k)"
    using assms holds_plug by blast
  have xy: "x \<noteq> y" "root_of b \<noteq> Some x" "root_of b \<noteq> Some y" "parent_of k \<noteq> Some x" "parent_of k \<noteq> Some y"
    using dist root_of_in[of b] parent_of_in[of k] by auto
  note read = holds_read[OF assms] holds_read[of s e y d b "Left_of x c a # k"]
  have r: "rbe_left s x = Some y" "rbe_right s y = root_of b" "rbe_parent s x = parent_of k"
    using read assms by simp_all
  define s1 where "s1 = set_rb_parent y (parent_of k) (adopt (root_of b) (Some x) (set_rb_left x (root_of b) s))"
  define s2 where "s2 = relink (parent_of k) x (Some y) s1"
  define s' where "s' = set_rb_parent x (Some y) (set_rb_right y (Some x) s2)"
  have "RB_ROTATE_RIGHT x s = Inr s'"
    using xy r by (simp add: RB_ROTATE_RIGHT_def s'_def s2_def s1_def Let_def)
  moreover have "holds_rb s' (plug (Node e (y, d) (Node b (x, c) a)) k)"
  proof -
    have other: "z \<noteq> x \<Longrightarrow> z \<noteq> y \<Longrightarrow> root_of b \<noteq> Some z \<Longrightarrow> same_at s1 s z" for z
      by (simp add: same_at_def s1_def)
    have other': "z \<noteq> x \<Longrightarrow> z \<noteq> y \<Longrightarrow> same_at s' s2 z" for z
      by (simp add: same_at_def s'_def)
    have top_out: "parent_of k \<noteq> Some z" if "z \<in> set (elems a) \<union> set (elems b) \<union> set (elems e)" for z
      using that dist parent_of_in[of k z] by auto
    have b_out: "root_of b \<noteq> Some z" if "z \<in> set (before k) \<union> set (after k) \<union> set (elems a) \<union> set (elems e)" for z
      using that dist root_of_in[of b z] by auto
    have roots: "rbh_root s1 = rbh_root s" "rbh_root s' = rbh_root s2" by (simp_all add: s1_def s'_def)
    have "path_at s (Some x) k" using assms by (simp add: holds_plug)
    then have "path_at s1 (Some x) k"
      using dist b_out roots by (subst path_at_same[of k s1 s]) (auto intro!: other)
    then have "path_at s2 (Some y) k"
      using dist unfolding s2_def by (intro path_relink) auto
    then have path: "path_at s' (Some y) k"
      using dist roots by (subst path_at_same[of k s' s2]) (auto intro!: other')
    have sub: "rb_at s' par q t = rb_at s par q t"
      if "set (elems t) \<subseteq> set (elems a) \<union> set (elems e)" for t par q
    proof (rule rb_at_same)
      fix z assume "z \<in> set (elems t)"
      then have z: "z \<in> set (elems a) \<union> set (elems e)" using that by blast
      then have "z \<noteq> x" "z \<noteq> y" using dist by auto
      moreover have "same_at s2 s1 z" unfolding s2_def using z by (intro relink_same top_out) auto
      ultimately show "same_at s' s z" using other[of z] other'[of z] b_out[of z] z
        by (auto simp: same_at_def)
    qed
    have "rb_at s (Some y) (root_of b) b" using assms r by (simp add: holds_plug)
    then have "rb_at (adopt (root_of b) (Some x) s) (Some x) (root_of b) b"
      using dist by (intro adopt_at) auto
    then have b: "rb_at s' (Some x) (root_of b) b"
    proof (subst rb_at_same[of b s' "adopt (root_of b) (Some x) s"])
      fix z assume z: "z \<in> set (elems b)"
      then have "z \<noteq> x" "z \<noteq> y" using dist by auto
      moreover have "same_at s2 s1 z" unfolding s2_def using z by (intro relink_same top_out) auto
      ultimately show "same_at s' (adopt (root_of b) (Some x) s) z"
        by (auto simp: same_at_def s'_def s1_def adopt_def split: option.splits)
    qed
    have "rbe_right s' y = Some x" "rbe_left s' y = rbe_left s y" "rbe_parent s' y = parent_of k"
      "rbe_color s' y = rbe_color s y" "rbe_right s' x = rbe_right s x" "rbe_left s' x = root_of b"
      "rbe_parent s' x = Some y" "rbe_color s' x = rbe_color s x"
      using xy by (simp_all add: s'_def s2_def s1_def)
    with path b assms dist sub show ?thesis by (simp add: holds_plug)
  qed
  ultimately show ?thesis by blast
qed

lemma set_blackred_left:
  assumes "holds_rb s (plug (Node (Node a (p, c) b) (g, d) u) k)"
  shows "holds_rb (RB_SET_BLACKRED p g s) (plug (Node (Node a (p, RB_BLACK) b) (g, RB_RED) u) k)"
proof -
  have "holds_rb (set_rb_color p RB_BLACK s) (plug (Node a (p, RB_BLACK) b) (Left_of g d u # k))"
    using assms by (intro holds_set_color) simp
  then show ?thesis
    unfolding RB_SET_BLACKRED_def by (intro holds_set_color) (simp del: set_rb_color_def)
qed

lemma set_blackred_right:
  assumes "holds_rb s (plug (Node u (g, d) (Node a (p, c) b)) k)"
  shows "holds_rb (RB_SET_BLACKRED p g s) (plug (Node u (g, RB_RED) (Node a (p, RB_BLACK) b)) k)"
proof -
  have "holds_rb (set_rb_color p RB_BLACK s) (plug (Node a (p, RB_BLACK) b) (Right_of u g d # k))"
    using assms by (intro holds_set_color) simp
  then show ?thesis
    unfolding RB_SET_BLACKRED_def by (intro holds_set_color) (simp del: set_rb_color_def)
qed

lemma holds_distinct: "holds_rb s t \<Longrightarrow> distinct (elems t)"
  by (simp add: holds_rb_def)

end
