(* ===== verification/Rb_Insert.thy ===== *)
theory Rb_Insert
  imports Rb_Memory
begin

text \<open>
  The loop that repairs the colours after an insertion follows \<open>insert_round\<close> in memory, so it ends
  with a red-black tree of the same elements; and the descent of \<^theory_text>\<open>RB_INSERT\<close> finds the place.
\<close>

subsection \<open>Below a left child\<close>

lemma insert_left_red_uncle:
  assumes h: "holds_rb s (plug (Node (Node a (p, c) b) (g, gc) u) k)" and u: "color_of u = RB_RED"
  shows "\<exists>s'. insert_color_left elm p g s = Inr (g, s') \<and>
    holds_rb s' (plug (Node (Node a (p, RB_BLACK) b) (g, RB_RED) (paint RB_BLACK u)) k)"
proof -
  let ?k = "Right_of (Node a (p, c) b) g gc # k"
  have read: "rbe_right s g = root_of u" using holds_read(2)[OF h] .
  have red: "\<not> is_black s (root_of u)" using holds_black[of s u ?k] h u by simp
  have "holds_rb (paint_elem (root_of u) RB_BLACK s) (plug (paint RB_BLACK u) ?k)"
    using h by (intro holds_paint) simp
  then have "holds_rb (RB_SET_BLACKRED p g (paint_elem (root_of u) RB_BLACK s))
      (plug (Node (Node a (p, RB_BLACK) b) (g, RB_RED) (paint RB_BLACK u)) k)"
    by (intro set_blackred_left) simp
  then show ?thesis using read red by (simp add: insert_color_left_def)
qed

lemma insert_left_outer:
  assumes h: "holds_rb s (plug (Node (Node (Node a (x, c) b) (p, pc) sib) (g, gc) u) k)"
    and u: "color_of u = RB_BLACK"
  shows "\<exists>s'. insert_color_left x p g s = Inr (x, s') \<and>
    holds_rb s' (plug (Node (Node a (x, c) b) (p, RB_BLACK) (Node sib (g, RB_RED) u)) k)"
proof -
  have read: "rbe_right s g = root_of u" "rbe_right s p = root_of sib"
    using holds_read(2)[OF h] holds_read(2)[of s "Node a (x, c) b" p pc sib "Left_of g gc u # k"] h by auto
  have "root_of sib \<noteq> Some x" using holds_distinct[OF h] root_of_in[of sib] by auto
  moreover have "is_black s (root_of u)"
    using holds_black[of s u "Right_of (Node (Node a (x, c) b) (p, pc) sib) g gc # k"] h u by simp
  moreover obtain s' where "RB_ROTATE_RIGHT g (RB_SET_BLACKRED p g s) = Inr s'"
    "holds_rb s' (plug (Node (Node a (x, c) b) (p, RB_BLACK) (Node sib (g, RB_RED) u)) k)"
    using rotate_right_holds[OF set_blackred_left[OF h]] by blast
  ultimately show ?thesis using read by (simp add: insert_color_left_def)
qed

lemma insert_left_inner:
  assumes h: "holds_rb s (plug (Node (Node l (p, pc) (Node a (x, c) b)) (g, gc) u) k)"
    and u: "color_of u = RB_BLACK"
  shows "\<exists>s'. insert_color_left x p g s = Inr (p, s') \<and>
    holds_rb s' (plug (Node (Node l (p, pc) a) (x, RB_BLACK) (Node b (g, RB_RED) u)) k)"
proof -
  have read: "rbe_right s g = root_of u" "rbe_right s p = Some x"
    using holds_read(2)[OF h] holds_read(2)[of s l p pc "Node a (x, c) b" "Left_of g gc u # k"] h by auto
  have black: "is_black s (root_of u)"
    using holds_black[of s u "Right_of (Node l (p, pc) (Node a (x, c) b)) g gc # k"] h u by simp
  obtain s1 where s1: "RB_ROTATE_LEFT p s = Inr s1"
    "holds_rb s1 (plug (Node (Node (Node l (p, pc) a) (x, c) b) (g, gc) u) k)"
    using rotate_left_holds[of s l p pc a x c b "Left_of g gc u # k"] h by auto
  moreover obtain s' where "RB_ROTATE_RIGHT g (RB_SET_BLACKRED x g s1) = Inr s'"
    "holds_rb s' (plug (Node (Node l (p, pc) a) (x, RB_BLACK) (Node b (g, RB_RED) u)) k)"
    using rotate_right_holds[OF set_blackred_left[OF s1(2)]] by blast
  ultimately show ?thesis using read black by (simp add: insert_color_left_def)
qed

subsection \<open>Below a right child\<close>

lemma insert_right_red_uncle:
  assumes h: "holds_rb s (plug (Node u (g, gc) (Node a (p, c) b)) k)" and u: "color_of u = RB_RED"
  shows "\<exists>s'. insert_color_right elm p g s = Inr (g, s') \<and>
    holds_rb s' (plug (Node (paint RB_BLACK u) (g, RB_RED) (Node a (p, RB_BLACK) b)) k)"
proof -
  let ?k = "Left_of g gc (Node a (p, c) b) # k"
  have read: "rbe_left s g = root_of u" using holds_read(1)[OF h] .
  have red: "\<not> is_black s (root_of u)" using holds_black[of s u ?k] h u by simp
  have "holds_rb (paint_elem (root_of u) RB_BLACK s) (plug (paint RB_BLACK u) ?k)"
    using h by (intro holds_paint) simp
  then have "holds_rb (RB_SET_BLACKRED p g (paint_elem (root_of u) RB_BLACK s))
      (plug (Node (paint RB_BLACK u) (g, RB_RED) (Node a (p, RB_BLACK) b)) k)"
    by (intro set_blackred_right) simp
  then show ?thesis using read red by (simp add: insert_color_right_def)
qed

lemma insert_right_outer:
  assumes h: "holds_rb s (plug (Node u (g, gc) (Node sib (p, pc) (Node a (x, c) b))) k)"
    and u: "color_of u = RB_BLACK"
  shows "\<exists>s'. insert_color_right x p g s = Inr (x, s') \<and>
    holds_rb s' (plug (Node (Node u (g, RB_RED) sib) (p, RB_BLACK) (Node a (x, c) b)) k)"
proof -
  have read: "rbe_left s g = root_of u" "rbe_left s p = root_of sib"
    using holds_read(1)[OF h] holds_read(1)[of s sib p pc "Node a (x, c) b" "Right_of u g gc # k"] h by auto
  have "root_of sib \<noteq> Some x" using holds_distinct[OF h] root_of_in[of sib] by auto
  moreover have "is_black s (root_of u)"
    using holds_black[of s u "Left_of g gc (Node sib (p, pc) (Node a (x, c) b)) # k"] h u by simp
  moreover obtain s' where "RB_ROTATE_LEFT g (RB_SET_BLACKRED p g s) = Inr s'"
    "holds_rb s' (plug (Node (Node u (g, RB_RED) sib) (p, RB_BLACK) (Node a (x, c) b)) k)"
    using rotate_left_holds[OF set_blackred_right[OF h]] by blast
  ultimately show ?thesis using read by (simp add: insert_color_right_def)
qed

lemma insert_right_inner:
  assumes h: "holds_rb s (plug (Node u (g, gc) (Node (Node a (x, c) b) (p, pc) r)) k)"
    and u: "color_of u = RB_BLACK"
  shows "\<exists>s'. insert_color_right x p g s = Inr (p, s') \<and>
    holds_rb s' (plug (Node (Node u (g, RB_RED) a) (x, RB_BLACK) (Node b (p, pc) r)) k)"
proof -
  have read: "rbe_left s g = root_of u" "rbe_left s p = Some x"
    using holds_read(1)[OF h] holds_read(1)[of s "Node a (x, c) b" p pc r "Right_of u g gc # k"] h by auto
  have black: "is_black s (root_of u)"
    using holds_black[of s u "Left_of g gc (Node (Node a (x, c) b) (p, pc) r) # k"] h u by simp
  obtain s1 where s1: "RB_ROTATE_RIGHT p s = Inr s1"
    "holds_rb s1 (plug (Node u (g, gc) (Node a (x, c) (Node b (p, pc) r))) k)"
    using rotate_right_holds[of s a x c b p pc r "Right_of u g gc # k"] h by auto
  moreover obtain s' where "RB_ROTATE_LEFT g (RB_SET_BLACKRED x g s1) = Inr s'"
    "holds_rb s' (plug (Node (Node u (g, RB_RED) a) (x, RB_BLACK) (Node b (p, pc) r)) k)"
    using rotate_left_holds[OF set_blackred_right[OF s1(2)]] by blast
  ultimately show ?thesis using read black by (simp add: insert_color_right_def)
qed

subsection \<open>The loop\<close>

lemma parent_red_top:
  assumes "holds_rb s (plug (Node a (x, c) b) k)"
  shows "rbe_parent s x = parent_of k"
    and "parent_red k \<longleftrightarrow> (\<exists>p. parent_of k = Some p \<and> rbe_color s p = RB_RED)"
proof -
  show "rbe_parent s x = parent_of k" by (rule holds_read(3)[OF assms])
  show "parent_red k \<longleftrightarrow> (\<exists>p. parent_of k = Some p \<and> rbe_color s p = RB_RED)"
  proof (cases k rule: parent_of.cases)
    case (2 p d r k')
    with holds_read(4)[of s "Node a (x, c) b" p d r k'] assms show ?thesis by simp
  next
    case (3 l p d k')
    with holds_read(4)[of s l p d "Node a (x, c) b" k'] assms show ?thesis by simp
  qed simp
qed

lemma insert_body_ok:
  assumes place: "insert_place t k" and red: "parent_red k" and p: "parent_of k = Some p"
    and h: "holds_rb s (plug t k)" and x: "root_of t = Some x" and r: "insert_round t k = (m, t', k')"
  shows "\<exists>x' s'. insert_color_body x p s = Inr (x', s') \<and> root_of t' = Some x' \<and> holds_rb s' (plug t' k')"
proof (cases "(t, k)" rule: insert_round.cases)
  case (1 t2 p2 sib g gc u k2)
  have [simp]: "t2 = t" "p2 = p" "k = Left_of p RB_RED sib # Left_of g gc u # k2" using 1 p by auto
  obtain a c b where t: "t = Node a (x, c) b" using x by (cases t rule: root_of.cases) auto
  have "rbe_parent s p = Some g" "rbe_left s g = Some p"
    using holds_read(3)[of s t p RB_RED sib "Left_of g gc u # k2"]
      holds_read(1)[of s "Node t (p, RB_RED) sib" g gc u k2] h by simp_all
  then have body: "insert_color_body x p s = insert_color_left x p g s" by (simp add: insert_color_body_def)
  show ?thesis
    using insert_left_red_uncle[of s t p RB_RED sib g gc u k2 x]
      insert_left_outer[of s a x c b p RB_RED sib g gc u k2] h r t
    by (cases "color_of u") (auto simp: body)
next
  case (2 a x2 c b l p2 g gc u k2)
  have [simp]: "t = Node a (x, c) b" "p2 = p" "k = Right_of l p RB_RED # Left_of g gc u # k2"
    using 2 p x by auto
  have "rbe_parent s p = Some g" "rbe_left s g = Some p"
    using holds_read(3)[of s l p RB_RED t "Left_of g gc u # k2"]
      holds_read(1)[of s "Node l (p, RB_RED) t" g gc u k2] h by simp_all
  then have body: "insert_color_body x p s = insert_color_left x p g s" by (simp add: insert_color_body_def)
  show ?thesis
    using insert_left_red_uncle[of s l p RB_RED t g gc u k2 x]
      insert_left_inner[of s l p RB_RED a x c b g gc u k2] h r
    by (cases "color_of u") (auto simp: body)
next
  case (3 t2 sib p2 u g gc k2)
  have [simp]: "t2 = t" "p2 = p" "k = Right_of sib p RB_RED # Right_of u g gc # k2" using 3 p by auto
  obtain a c b where t: "t = Node a (x, c) b" using x by (cases t rule: root_of.cases) auto
  have "rbe_parent s p = Some g" "rbe_left s g = root_of u"
    using holds_read(3)[of s sib p RB_RED t "Right_of u g gc # k2"]
      holds_read(1)[of s u g gc "Node sib (p, RB_RED) t" k2] h by simp_all
  moreover have "root_of u \<noteq> Some p" using holds_distinct[OF h] root_of_in[of u] by auto
  ultimately have body: "insert_color_body x p s = insert_color_right x p g s"
    by (simp add: insert_color_body_def)
  show ?thesis
    using insert_right_red_uncle[of s u g gc sib p RB_RED t k2 x]
      insert_right_outer[of s u g gc sib p RB_RED a x c b k2] h r t
    by (cases "color_of u") (auto simp: body)
next
  case (4 a x2 c b p2 r2 u g gc k2)
  have [simp]: "t = Node a (x, c) b" "p2 = p" "k = Left_of p RB_RED r2 # Right_of u g gc # k2"
    using 4 p x by auto
  have "rbe_parent s p = Some g" "rbe_left s g = root_of u"
    using holds_read(3)[of s t p RB_RED r2 "Right_of u g gc # k2"]
      holds_read(1)[of s u g gc "Node t (p, RB_RED) r2" k2] h by simp_all
  moreover have "root_of u \<noteq> Some p" using holds_distinct[OF h] root_of_in[of u] by auto
  ultimately have body: "insert_color_body x p s = insert_color_right x p g s"
    by (simp add: insert_color_body_def)
  show ?thesis
    using insert_right_red_uncle[of s u g gc t p RB_RED r2 k2 x]
      insert_right_inner[of s u g gc a x c b p RB_RED r2 k2] h r
    by (cases "color_of u") (auto simp: body)
qed (use assms in \<open>auto simp: insert_place_def elim!: parent_red.elims(2)\<close>)

lemma insert_while_ok:
  "insert_place t k \<Longrightarrow> holds_rb s (plug t k) \<Longrightarrow> root_of t = Some x \<Longrightarrow>
    \<exists>s' t'. insert_color_while x s = Some (Inr s') \<and> holds_rb s' t' \<and> elems t' = elems (plug t k) \<and>
      rb_inv (paint RB_BLACK t')"
proof (induction "length k" arbitrary: t k s x rule: less_induct)
  case less
  obtain a c b where t: "t = Node a (x, c) b" using less.prems(3) by (cases t rule: root_of.cases) auto
  note parent = parent_red_top[OF less.prems(2)[unfolded t]]
  show ?case
  proof (cases "parent_red k")
    case False
    then have "insert_color_while x s = Some (Inr s)"
      using parent by (auto simp: insert_color_while.simps[of x s] split: option.splits)
    then show ?thesis using less.prems insert_place_done[OF less.prems(1) False] by blast
  next
    case True
    then obtain p where p: "parent_of k = Some p" "rbe_color s p = RB_RED" using parent by blast
    obtain m t1 k1 where r: "insert_round t k = (m, t1, k1)" by (metis prod_cases3)
    obtain x1 s1 where s1: "insert_color_body x p s = Inr (x1, s1)" "root_of t1 = Some x1"
      "holds_rb s1 (plug t1 k1)"
      using insert_body_ok[OF less.prems(1) True p(1) less.prems(2,3) r] by blast
    have step: "insert_color_while x s = insert_color_while x1 s1"
      using parent(1) p s1(1) by (simp add: insert_color_while.simps[of x s])
    note place = insert_round_place[OF less.prems(1) True r]
    have elems: "elems (plug t1 k1) = elems (plug t k)" by (rule insert_round_elems[OF r])
    show ?thesis
    proof (cases m)
      case True
      then show ?thesis using less.hyps[of k1 t1 s1 x1] place s1 elems step by metis
    next
      case False
      obtain a1 c1 b1 where t1: "t1 = Node a1 (x1, c1) b1" using s1(2) by (cases t1 rule: root_of.cases) auto
      have "insert_color_while x1 s1 = Some (Inr s1)"
        using parent_red_top[OF s1(3)[unfolded t1]] place False
        by (auto simp: insert_color_while.simps[of x1 s1] split: option.splits)
      then show ?thesis using step s1(3) elems insert_place_done place False by metis
    qed
  qed
qed

lemma INSERT_COLOR_ok:
  assumes "insert_place t k" and "holds_rb s (plug t k)" and "root_of t = Some x"
  shows "\<exists>s' t'. RB_INSERT_COLOR x s = Some (Inr s') \<and> holds_rb s' t' \<and>
    elems t' = elems (plug t k) \<and> rb_inv t'"
proof -
  obtain s1 t1 where s1: "insert_color_while x s = Some (Inr s1)" "holds_rb s1 t1"
    "elems t1 = elems (plug t k)" "rb_inv (paint RB_BLACK t1)"
    using insert_while_ok[OF assms] by blast
  have "t1 \<noteq> Leaf" using s1(3) root_of_in[OF assms(3)] by auto
  then obtain a y c b where t1: "t1 = Node a (y, c) b" by (cases t1 rule: root_of.cases) auto
  have root: "rbh_root s1 = Some y" using holds_root[OF s1(2)] t1 by simp
  have "holds_rb (set_rb_color y RB_BLACK s1) (paint RB_BLACK t1)"
    using holds_set_color[of s1 a y c b "[]" RB_BLACK] s1(2) t1 by simp
  moreover have "RB_INSERT_COLOR x s = Some (Inr (set_rb_color y RB_BLACK s1))"
    using s1(1) root by (simp add: RB_INSERT_COLOR_def)
  ultimately show ?thesis using s1(3,4) by (metis paint_simps(1))
qed

subsection \<open>The descent\<close>

text \<open>A path along which the comparison went down.\<close>

fun went_down :: "(nat \<Rightarrow> int) \<Rightarrow> crumb list \<Rightarrow> bool" where
  "went_down c [] \<longleftrightarrow> True"
| "went_down c (Left_of x d r # k) \<longleftrightarrow> c x < 0 \<and> went_down c k"
| "went_down c (Right_of l x d # k) \<longleftrightarrow> 0 < c x \<and> went_down c k"

lemma cuts_mid: "cuts c (xs @ ys @ zs) \<Longrightarrow> cuts c ys"
  by (simp add: cuts_append)

lemma went_down_cut:
  "went_down c k \<Longrightarrow> cuts c (elems (plug t k)) \<Longrightarrow>
    (\<forall>y\<in>set (before k). 0 < c y) \<and> (\<forall>y\<in>set (after k). c y < 0)"
proof (induction t k rule: plug.induct)
  case (2 t x d r k)
  have "cuts c (x # elems r)" 
    by (rule cuts_mid[of c "before k @ elems t" _ "after k"]) (use 2(3) in simp)
  then have "c y < 0" if "y \<in> set (elems r)" for y
    using that 2(2) by (simp add: cuts_Cons) (meson less_asym not_le)
  moreover have "(\<forall>y\<in>set (before k). 0 < c y) \<and> (\<forall>y\<in>set (after k). c y < 0)"
    using 2(1)[OF _ 2(3)[unfolded plug.simps]] 2(2) by simp
  ultimately show ?case using 2(2) by auto
next
  case (3 t l x d k)
  have "cuts c (elems l @ [x])" 
    by (rule cuts_mid[of c "before k" _ "elems t @ after k"]) (use 3(3) in simp)
  then have "0 < c y" if "y \<in> set (elems l)" for y
    using that 3(2) by (simp add: cuts_append)
  moreover have "(\<forall>y\<in>set (before k). 0 < c y) \<and> (\<forall>y\<in>set (after k). c y < 0)"
    using 3(1)[OF _ 3(3)[unfolded plug.simps]] 3(2) by simp
  ultimately show ?case using 3(2) by auto
qed simp

text \<open>The last comparison of a descent.\<close>

fun last_cmp :: "(nat \<Rightarrow> int) \<Rightarrow> crumb list \<Rightarrow> int" where
  "last_cmp c [] = 0"
| "last_cmp c (Left_of x d r # k) = c x"
| "last_cmp c (Right_of l x d # k) = c x"

lemma descent_ok:
  "holds_rb s (plug t k) \<Longrightarrow> went_down c k \<Longrightarrow>
    (\<exists>x l d r k'. insert_descent c s (root_of t) (parent_of k) (last_cmp c k) = Some (Inl x) \<and>
        plug (Node l (x, d) r) k' = plug t k \<and> c x = 0 \<and> went_down c k') \<or>
    (\<exists>k'. insert_descent c s (root_of t) (parent_of k) (last_cmp c k) = Some (Inr (parent_of k', last_cmp c k')) \<and>
        plug Leaf k' = plug t k \<and> went_down c k')"
proof (induction t arbitrary: k)
  case Leaf
  then show ?case by (auto simp: insert_descent.simps[of c s None])
next
  case (Node l z r)
  obtain x d where z: "z = (x, d)" by (cases z)
  note read = holds_read(1,2)[OF Node.prems(1)[unfolded z]]
  show ?case
  proof (cases "c x < 0")
    case True
    with Node.IH(1)[of "Left_of x d r # k"] Node.prems read show ?thesis
      by (simp add: z insert_descent.simps[of c s "Some x"])
  next
    case False
    show ?thesis
    proof (cases "c x = 0")
      case True
      with Node.prems show ?thesis
        by (intro disjI1 exI[of _ x] exI[of _ l] exI[of _ d] exI[of _ r] exI[of _ k])
          (simp add: z insert_descent.simps[of c s "Some x"])
    next
      case nz: False
      with False Node.IH(2)[of "Right_of l x d # k"] Node.prems read show ?thesis
        by (simp add: z insert_descent.simps[of c s "Some x"])
    qed
  qed
qed

subsection \<open>Insertion\<close>

lemma link_new:
  assumes h: "holds_rb s (plug Leaf k)" and new: "e \<notin> set (before k @ after k)" and down: "went_down c k"
  shows "holds_rb (case parent_of k of
        Some p \<Rightarrow> if last_cmp c k < 0 then set_rb_left p (Some e) (RB_SET e (parent_of k) s)
                 else set_rb_right p (Some e) (RB_SET e (parent_of k) s)
      | None \<Rightarrow> set_rb_root (Some e) (RB_SET e (parent_of k) s))
    (plug (Node Leaf (e, RB_RED) Leaf) k)" (is "holds_rb ?s _")
proof -
  let ?s1 = "RB_SET e (parent_of k) s"
  have dist: "distinct (before k @ after k)" using h by (simp add: holds_plug)
  have eq: "?s = set_child k (Some e) ?s1"
    using down by (cases k rule: parent_of.cases) auto
  have "path_at s None k" using h by (simp add: holds_plug)
  then have "path_at ?s1 None k"
    using new by (subst path_at_same[of k ?s1 s]) (auto simp: same_at_def RB_SET_def)
  then have "path_at ?s (Some e) k" unfolding eq using dist by (rule path_set_child)
  moreover have "rb_at ?s (parent_of k) (Some e) (Node Leaf (e, RB_RED) Leaf)"
    using new unfolding eq by (cases k rule: parent_of.cases) (auto simp: RB_SET_def)
  ultimately show ?thesis using dist new by (simp add: holds_plug)
qed

lemma RB_INSERT_ok:
  assumes h: "holds_rb s t" and inv: "rb_inv t" and ord: "orders cmp key" and asc: "ascending key (elems t)"
    and spec: "tree_spec key (Insert e) (elems t) = (res, ys)"
  shows "\<exists>s' t'. RB_INSERT cmp e s = Some (Inr (res, s')) \<and> holds_rb s' t' \<and> rb_inv t' \<and>
    elems t' = ys \<and> ascending key ys"
proof -
  have cuts: "cuts (cmp e) (elems t)" by (rule cuts_orders[OF ord asc])
  have root: "rbh_root s = root_of t" by (rule holds_root[OF h])
  consider (found) x l d r k where "insert_descent (cmp e) s (root_of t) None 0 = Some (Inl x)"
      "plug (Node l (x, d) r) k = t" "cmp e x = 0" "went_down (cmp e) k"
    | (place) k where
      "insert_descent (cmp e) s (root_of t) None 0 = Some (Inr (parent_of k, last_cmp (cmp e) k))"
      "plug Leaf k = t" "went_down (cmp e) k"
    using descent_ok[of s t "[]" "cmp e"] h by auto
  then show ?thesis
  proof cases
    case found
    then have "x \<in> set (elems t)" "key x = key e" by (auto simp: ordersD(3)[OF ord])
    then have "find (\<lambda>y. key y = key e) (elems t) = Some x" using asc by (rule find_key)
    then have "res = Some x" "ys = elems t" using spec by auto
    moreover have "RB_INSERT cmp e s = Some (Inr (Some x, s))"
      using found(1) root by (simp add: RB_INSERT_def)
    ultimately show ?thesis using h inv asc by blast
  next
    case place
    let ?s1 = "RB_SET e (parent_of k) s"
    let ?s = "case parent_of k of
        Some p \<Rightarrow> if last_cmp (cmp e) k < 0 then set_rb_left p (Some e) ?s1 else set_rb_right p (Some e) ?s1
      | None \<Rightarrow> set_rb_root (Some e) ?s1"
    have elems: "elems t = before k @ after k" using place(2) by auto
    have cut: "\<forall>y\<in>set (before k). key y < key e" "\<forall>y\<in>set (after k). key e < key y"
      using went_down_cut[OF place(3), of Leaf] cuts by (auto simp: elems ordersD[OF ord])
    then have new: "e \<notin> set (before k @ after k)" by auto
    have "holds_rb ?s (plug (Node Leaf (e, RB_RED) Leaf) k)"
      using link_new[OF _ new place(3)] h place(2) by simp
    moreover have "insert_place (Node Leaf (e, RB_RED) Leaf) k"
      using inv place(2) rb_inv_plug[of Leaf k] by (simp add: insert_place_def)
    ultimately obtain s' t' where s': "RB_INSERT_COLOR e ?s = Some (Inr s')" "holds_rb s' t'"
      "elems t' = before k @ e # after k" "rb_inv t'"
      using INSERT_COLOR_ok[of "Node Leaf (e, RB_RED) Leaf" k ?s e] by auto
    have "RB_INSERT cmp e s = Some (Inr (None, s'))"
      using place(1) root s'(1) by (simp add: RB_INSERT_def Let_def)
    moreover have "res = None" "ys = before k @ e # after k"
      using spec find_cut(2)[OF cut] insort_cut[OF cut] by (auto simp: elems)
    moreover have "ascending key (before k @ e # after k)" using asc cut elems ascending_cut by metis
    ultimately show ?thesis using s' by auto
  qed
qed

end
