(* ===== verification/Rb_Remove.thy ===== *)
theory Rb_Remove
  imports Rb_Memory
begin

text \<open>
  The loop that repairs the colours after a removal follows \<open>remove_round\<close> in memory, so it ends with a
  red-black tree of the same elements; and the two ways \<^theory_text>\<open>RB_REMOVE\<close> unlinks an element.
\<close>

subsection \<open>Below a left child\<close>

text \<open>The last steps of the branch: the sibling takes the colour of the parent and rises above it.\<close>

lemma finish_left:
  assumes h: "holds_rb s (plug (Node t (p, pc) (Node b (w, wc) c)) k)"
  shows "\<exists>s'. RB_ROTATE_LEFT p (paint_elem (rbe_right s w) RB_BLACK
        (set_rb_color p RB_BLACK (set_rb_color w (rbe_color s p) s))) = Inr s' \<and>
      holds_rb s' (plug (Node (Node t (p, RB_BLACK) b) (w, pc) (paint RB_BLACK c)) k)"
proof -
  let ?s2 = "set_rb_color p RB_BLACK (set_rb_color w pc s)"
  have "rbe_color s p = pc" using holds_read(4)[OF h] .
  moreover have right: "rbe_right s w = root_of c"
    using holds_read(2)[of s b w wc c "Right_of t p pc # k"] h by simp
  have "holds_rb (set_rb_color w pc s) (plug (Node b (w, pc) c) (Right_of t p pc # k))"
    using h by (intro holds_set_color) simp
  then have "holds_rb ?s2 (plug (Node t (p, RB_BLACK) (Node b (w, pc) c)) k)"
    by (intro holds_set_color) (simp del: set_rb_color_def)
  then have "holds_rb (paint_elem (root_of c) RB_BLACK ?s2)
      (plug (paint RB_BLACK c) (Right_of b w pc # Right_of t p RB_BLACK # k))"
    by (intro holds_paint) (simp del: set_rb_color_def)
  then have "\<exists>s'. RB_ROTATE_LEFT p (paint_elem (root_of c) RB_BLACK ?s2) = Inr s' \<and>
      holds_rb s' (plug (Node (Node t (p, RB_BLACK) b) (w, pc) (paint RB_BLACK c)) k)"
    by (intro rotate_left_holds) (simp del: set_rb_color_def)
  ultimately show ?thesis by (simp only: right)
qed

lemma remove_left_ok:
  assumes h: "holds_rb s (plug (Node t (p, pc) sib) k)" and sib: "sib \<noteq> Leaf" "color_of sib = RB_BLACK"
    and r: "left_round t p pc sib k = (m, t', k')"
  shows "\<exists>par s'. remove_color_left p s = Inr (m, root_of t', par, s') \<and> (m \<longrightarrow> par = parent_of k') \<and>
    holds_rb s' (plug t' k')"
proof -
  obtain b w c where s: "sib = Node b (w, RB_BLACK) c" using sib by (cases sib) (auto elim: color_of.elims)
  have read: "rbe_right s p = Some w" "rbe_left s w = root_of b" "rbe_right s w = root_of c"
    using holds_read(2)[OF h] holds_read(1,2)[of s b w RB_BLACK c "Right_of t p pc # k"] h s by simp_all
  have black: "is_black s (root_of b) \<longleftrightarrow> color_of b = RB_BLACK" "is_black s (root_of c) \<longleftrightarrow> color_of c = RB_BLACK"
    using holds_black[of s b "Left_of w RB_BLACK c # Right_of t p pc # k"]
      holds_black[of s c "Right_of b w RB_BLACK # Right_of t p pc # k"] h s by simp_all
  consider (both) "color_of b = RB_BLACK" "color_of c = RB_BLACK" | (far) "color_of c = RB_RED"
    | (near) "color_of b = RB_RED" "color_of c = RB_BLACK" by (metis rb_color.exhaust)
  then show ?thesis
  proof cases
    case both
    have "holds_rb (set_rb_color w RB_RED s) (plug (Node b (w, RB_RED) c) (Right_of t p pc # k))"
      using h s by (intro holds_set_color) simp
    then have h1: "holds_rb (set_rb_color w RB_RED s) (plug (Node t (p, pc) (Node b (w, RB_RED) c)) k)"
      by (simp del: set_rb_color_def)
    have "remove_color_left p s = Inr (True, Some p, parent_of k, set_rb_color w RB_RED s)"
      using read black both holds_read(3)[OF h1]
      by (simp add: remove_color_left_def Let_def del: set_rb_color_def)
    then show ?thesis using r both h1 s by auto
  next
    case far
    obtain s' where s': "RB_ROTATE_LEFT p (paint_elem (rbe_right s w) RB_BLACK
        (set_rb_color p RB_BLACK (set_rb_color w (rbe_color s p) s))) = Inr s'"
      "holds_rb s' (plug (Node (Node t (p, RB_BLACK) b) (w, pc) (paint RB_BLACK c)) k)"
      using finish_left[of s t p pc b w RB_BLACK c k] h s by blast
    have "remove_color_left p s = Inr (False, rbh_root s', Some p, s')"
      using read black far s'(1) by (simp add: remove_color_left_def)
    then show ?thesis using r far s s'(2) holds_root[OF s'(2)] by auto
  next
    case near
    obtain b1 v b2 where b: "b = Node b1 (v, RB_RED) b2" using near(1) by (rule red_cases)
    let ?s1 = "set_rb_color w RB_RED (paint_elem (Some v) RB_BLACK s)"
    have "holds_rb (paint_elem (root_of b) RB_BLACK s)
        (plug (paint RB_BLACK b) (Left_of w RB_BLACK c # Right_of t p pc # k))"
      using h s by (intro holds_paint) simp
    then have "holds_rb ?s1 (plug (Node (Node b1 (v, RB_BLACK) b2) (w, RB_RED) c) (Right_of t p pc # k))"
      using b by (intro holds_set_color) simp
    then obtain s2 where s2: "RB_ROTATE_RIGHT w ?s1 = Inr s2"
      "holds_rb s2 (plug (Node t (p, pc) (Node b1 (v, RB_BLACK) (Node b2 (w, RB_RED) c))) k)"
      using rotate_right_holds[of ?s1 b1 v RB_BLACK b2 w RB_RED c "Right_of t p pc # k"] by auto
    have right: "rbe_right s2 p = Some v" using holds_read(2)[OF s2(2)] by simp
    obtain s' where s': "RB_ROTATE_LEFT p (paint_elem (rbe_right s2 v) RB_BLACK
        (set_rb_color p RB_BLACK (set_rb_color v (rbe_color s2 p) s2))) = Inr s'"
      "holds_rb s' (plug (Node (Node t (p, RB_BLACK) b1) (v, pc) (Node b2 (w, RB_BLACK) c)) k)"
      using finish_left[OF s2(2)] by auto
    have "remove_color_left p s = Inr (False, rbh_root s', Some p, s')"
      using read black near s2(1) right s'(1) b by (simp add: remove_color_left_def)
    then show ?thesis using r near s b s'(2) holds_root[OF s'(2)] by auto
  qed
qed

subsection \<open>Below a right child\<close>

text \<open>The last steps of the branch: the sibling takes the colour of the parent and rises above it.\<close>

lemma finish_right:
  assumes h: "holds_rb s (plug (Node (Node c (w, wc) b) (p, pc) t) k)"
  shows "\<exists>s'. RB_ROTATE_RIGHT p (paint_elem (rbe_left s w) RB_BLACK
        (set_rb_color p RB_BLACK (set_rb_color w (rbe_color s p) s))) = Inr s' \<and>
      holds_rb s' (plug (Node (paint RB_BLACK c) (w, pc) (Node b (p, RB_BLACK) t)) k)"
proof -
  let ?s2 = "set_rb_color p RB_BLACK (set_rb_color w pc s)"
  have "rbe_color s p = pc" using holds_read(4)[OF h] .
  moreover have right: "rbe_left s w = root_of c"
    using holds_read(1)[of s c w wc b "Left_of p pc t # k"] h by simp
  have "holds_rb (set_rb_color w pc s) (plug (Node c (w, pc) b) (Left_of p pc t # k))"
    using h by (intro holds_set_color) simp
  then have "holds_rb ?s2 (plug (Node (Node c (w, pc) b) (p, RB_BLACK) t) k)"
    by (intro holds_set_color) (simp del: set_rb_color_def)
  then have "holds_rb (paint_elem (root_of c) RB_BLACK ?s2)
      (plug (paint RB_BLACK c) (Left_of w pc b # Left_of p RB_BLACK t # k))"
    by (intro holds_paint) (simp del: set_rb_color_def)
  then have "\<exists>s'. RB_ROTATE_RIGHT p (paint_elem (root_of c) RB_BLACK ?s2) = Inr s' \<and>
      holds_rb s' (plug (Node (paint RB_BLACK c) (w, pc) (Node b (p, RB_BLACK) t)) k)"
    by (intro rotate_right_holds) (simp del: set_rb_color_def)
  ultimately show ?thesis by (simp only: right)
qed

lemma remove_right_ok:
  assumes h: "holds_rb s (plug (Node sib (p, pc) t) k)" and sib: "sib \<noteq> Leaf" "color_of sib = RB_BLACK"
    and r: "right_round t p pc sib k = (m, t', k')"
  shows "\<exists>par s'. remove_color_right p s = Inr (m, root_of t', par, s') \<and> (m \<longrightarrow> par = parent_of k') \<and>
    holds_rb s' (plug t' k')"
proof -
  obtain b w c where s: "sib = Node c (w, RB_BLACK) b" using sib by (cases sib) (auto elim: color_of.elims)
  have read: "rbe_left s p = Some w" "rbe_right s w = root_of b" "rbe_left s w = root_of c"
    using holds_read(1)[OF h] holds_read(1,2)[of s c w RB_BLACK b "Left_of p pc t # k"] h s by simp_all
  have black: "is_black s (root_of b) \<longleftrightarrow> color_of b = RB_BLACK" "is_black s (root_of c) \<longleftrightarrow> color_of c = RB_BLACK"
    using holds_black[of s b "Right_of c w RB_BLACK # Left_of p pc t # k"]
      holds_black[of s c "Left_of w RB_BLACK b # Left_of p pc t # k"] h s by simp_all
  consider (both) "color_of b = RB_BLACK" "color_of c = RB_BLACK" | (far) "color_of c = RB_RED"
    | (near) "color_of b = RB_RED" "color_of c = RB_BLACK" by (metis rb_color.exhaust)
  then show ?thesis
  proof cases
    case both
    have "holds_rb (set_rb_color w RB_RED s) (plug (Node c (w, RB_RED) b) (Left_of p pc t # k))"
      using h s by (intro holds_set_color) simp
    then have h1: "holds_rb (set_rb_color w RB_RED s) (plug (Node (Node c (w, RB_RED) b) (p, pc) t) k)"
      by (simp del: set_rb_color_def)
    have "remove_color_right p s = Inr (True, Some p, parent_of k, set_rb_color w RB_RED s)"
      using read black both holds_read(3)[OF h1]
      by (simp add: remove_color_right_def Let_def del: set_rb_color_def)
    then show ?thesis using r both h1 s by auto
  next
    case far
    obtain s' where s': "RB_ROTATE_RIGHT p (paint_elem (rbe_left s w) RB_BLACK
        (set_rb_color p RB_BLACK (set_rb_color w (rbe_color s p) s))) = Inr s'"
      "holds_rb s' (plug (Node (paint RB_BLACK c) (w, pc) (Node b (p, RB_BLACK) t)) k)"
      using finish_right[of s c w RB_BLACK b p pc t k] h s by blast
    have "remove_color_right p s = Inr (False, rbh_root s', Some p, s')"
      using read black far s'(1) by (simp add: remove_color_right_def)
    then show ?thesis using r far s s'(2) holds_root[OF s'(2)] by auto
  next
    case near
    obtain b1 v b2 where b: "b = Node b2 (v, RB_RED) b1" using near(1) by (rule red_cases)
    let ?s1 = "set_rb_color w RB_RED (paint_elem (Some v) RB_BLACK s)"
    have "holds_rb (paint_elem (root_of b) RB_BLACK s)
        (plug (paint RB_BLACK b) (Right_of c w RB_BLACK # Left_of p pc t # k))"
      using h s by (intro holds_paint) simp
    then have "holds_rb ?s1 (plug (Node c (w, RB_RED) (Node b2 (v, RB_BLACK) b1)) (Left_of p pc t # k))"
      using b by (intro holds_set_color) simp
    then obtain s2 where s2: "RB_ROTATE_LEFT w ?s1 = Inr s2"
      "holds_rb s2 (plug (Node (Node (Node c (w, RB_RED) b2) (v, RB_BLACK) b1) (p, pc) t) k)"
      using rotate_left_holds[of ?s1 c w RB_RED b2 v RB_BLACK b1 "Left_of p pc t # k"] by auto
    have right: "rbe_left s2 p = Some v" using holds_read(1)[OF s2(2)] by simp
    obtain s' where s': "RB_ROTATE_RIGHT p (paint_elem (rbe_left s2 v) RB_BLACK
        (set_rb_color p RB_BLACK (set_rb_color v (rbe_color s2 p) s2))) = Inr s'"
      "holds_rb s' (plug (Node (Node c (w, RB_BLACK) b2) (v, pc) (Node b1 (p, RB_BLACK) t)) k)"
      using finish_right[OF s2(2)] by auto
    have "remove_color_right p s = Inr (False, rbh_root s', Some p, s')"
      using read black near s2(1) right s'(1) b by (simp add: remove_color_right_def)
    then show ?thesis using r near s b s'(2) holds_root[OF s'(2)] by auto
  qed
qed

subsection \<open>The loop\<close>

lemma root_plug:
  assumes "distinct (elems (plug t k))"
  shows "root_of t = root_of (plug t k) \<longleftrightarrow> k = []"
proof
  have *: "k \<noteq> [] \<Longrightarrow> \<exists>z. root_of (plug t k) = Some z \<and> z \<in> set (before k @ after k)" for t
  proof (induction t k rule: plug.induct)
    case (2 t x c r k)
    then show ?case by (cases "k = []") fastforce+
  next
    case (3 t l x c k)
    then show ?case by (cases "k = []") fastforce+
  qed simp
  assume eq: "root_of t = root_of (plug t k)"
  show "k = []"
  proof (rule ccontr)
    assume "k \<noteq> []"
    from *[OF this] eq obtain z where "root_of t = Some z" "z \<in> set (before k @ after k)" by metis
    with root_of_in[of t z] assms show False by auto
  qed
qed simp

lemma remove_body_ok:
  assumes place: "remove_place t k" and black: "color_of t = RB_BLACK" and "k \<noteq> []"
    and h: "holds_rb s (plug t k)" and r: "remove_round t k = (m, t', k')"
  shows "\<exists>par s'. remove_color_body (root_of t) (parent_of k) s = Inr (m, root_of t', par, s') \<and>
    (m \<longrightarrow> par = parent_of k') \<and> holds_rb s' (plug t' k')"
proof (cases k rule: parent_of.cases)
  case (2 p pc sib k1)
  have h: "holds_rb s (plug (Node t (p, pc) sib) k1)" using h 2 by simp
  note sib = remove_place_sibling(1)[OF place[unfolded 2]]
  note read = holds_read(1,2)[OF h]
  obtain w where w: "root_of sib = Some w" "rbe_color s w = color_of sib"
    using sib holds_read(4)[of s _ _ _ _ "Right_of t p pc # k1"] h
    by (cases sib rule: root_of.cases) auto
  show ?thesis
  proof (cases "color_of sib")
    case RB_BLACK
    then have "remove_color_body (root_of t) (parent_of k) s = remove_color_left p s"
      using read w 2 by (simp add: remove_color_body_def)
    moreover have "left_round t p pc sib k1 = (m, t', k')"
      using r RB_BLACK by (simp add: 2 remove_round_black)
    ultimately show ?thesis using remove_left_ok[OF h sib RB_BLACK] by simp
  next
    case RB_RED
    then obtain b c where s: "sib = Node b (w, RB_RED) c" using w by (auto elim!: red_cases)
    have "holds_rb (RB_SET_BLACKRED w p s) (plug (Node t (p, RB_RED) (Node b (w, RB_BLACK) c)) k1)"
      using h s by (intro set_blackred_right) simp
    then obtain s1 where s1: "RB_ROTATE_LEFT p (RB_SET_BLACKRED w p s) = Inr s1"
      "holds_rb s1 (plug (Node t (p, RB_RED) b) (Left_of w RB_BLACK c # k1))"
      using rotate_left_holds[of "RB_SET_BLACKRED w p s" t p RB_RED b w RB_BLACK c k1] by auto
    then have "remove_color_body (root_of t) (parent_of k) s = remove_color_left p s1"
      using read w RB_RED 2 by (simp add: remove_color_body_def)
    moreover have "left_round t p RB_RED b (Left_of w RB_BLACK c # k1) = (m, t', k')"
      using r by (simp add: 2 s)
    ultimately show ?thesis
      using remove_left_ok[OF s1(2)] remove_place_sibling(3)[OF place[unfolded 2 s]] by simp
  qed
next
  case (3 sib p pc k1)
  have h: "holds_rb s (plug (Node sib (p, pc) t) k1)" using h 3 by simp
  note sib = remove_place_sibling(2)[OF place[unfolded 3]]
  note read = holds_read(1,2)[OF h]
  obtain w where w: "root_of sib = Some w" "rbe_color s w = color_of sib"
    using sib holds_read(4)[of s _ _ _ _ "Left_of p pc t # k1"] h
    by (cases sib rule: root_of.cases) auto
  have neq: "rbe_left s p \<noteq> root_of t"
    using read w root_of_in[of t w] root_of_in[OF w(1)] holds_distinct[OF h] by auto
  show ?thesis
  proof (cases "color_of sib")
    case RB_BLACK
    then have "remove_color_body (root_of t) (parent_of k) s = remove_color_right p s"
      using read w 3 neq by (simp add: remove_color_body_def)
    moreover have "right_round t p pc sib k1 = (m, t', k')"
      using r RB_BLACK by (simp add: 3 remove_round_black)
    ultimately show ?thesis using remove_right_ok[OF h sib RB_BLACK] by simp
  next
    case RB_RED
    then obtain b c where s: "sib = Node c (w, RB_RED) b" using w by (auto elim!: red_cases)
    have "holds_rb (RB_SET_BLACKRED w p s) (plug (Node (Node c (w, RB_BLACK) b) (p, RB_RED) t) k1)"
      using h s by (intro set_blackred_left) simp
    then obtain s1 where s1: "RB_ROTATE_RIGHT p (RB_SET_BLACKRED w p s) = Inr s1"
      "holds_rb s1 (plug (Node b (p, RB_RED) t) (Right_of c w RB_BLACK # k1))"
      using rotate_right_holds[of "RB_SET_BLACKRED w p s" c w RB_BLACK b p RB_RED t k1] by auto
    then have "remove_color_body (root_of t) (parent_of k) s = remove_color_right p s1"
      using read w RB_RED 3 neq by (simp add: remove_color_body_def)
    moreover have "right_round t p RB_RED b (Right_of c w RB_BLACK # k1) = (m, t', k')"
      using r by (simp add: 3 s)
    ultimately show ?thesis
      using remove_right_ok[OF s1(2)] remove_place_sibling(4)[OF place[unfolded 3 s]] by simp
  qed
qed (use assms in simp)

lemma remove_while_ok:
  "remove_place t k \<Longrightarrow> holds_rb s (plug t k) \<Longrightarrow>
    \<exists>par s' t' k'. remove_color_while (root_of t, parent_of k, s) = Some (Inr (root_of t', par, s')) \<and>
      holds_rb s' (plug t' k') \<and> rb_inv (plug (paint RB_BLACK t') k') \<and> elems (plug t' k') = elems (plug t k)"
proof (induction "remove_measure t k" arbitrary: t k s rule: less_induct)
  case less
  have guard: "is_black s (root_of t) \<and> root_of t \<noteq> rbh_root s \<longleftrightarrow> color_of t = RB_BLACK \<and> k \<noteq> []"
    using holds_black[OF less.prems(2)] holds_root[OF less.prems(2)]
      root_plug[OF holds_distinct[OF less.prems(2)]] by simp
  show ?case
  proof (cases "color_of t = RB_BLACK \<and> k \<noteq> []")
    case False
    then have "\<not> (is_black s (root_of t) \<and> root_of t \<noteq> rbh_root s)" using guard by blast
    then have "remove_color_while (root_of t, parent_of k, s) = Some (Inr (root_of t, parent_of k, s))"
      by (simp only: remove_color_while.simps[of "(root_of t, parent_of k, s)"] prod.case if_False)
    moreover have "color_of t = RB_RED \<or> k = []" using False by auto
    ultimately show ?thesis using remove_place_done[OF less.prems(1)] less.prems(2) by blast
  next
    case True
    then have black: "color_of t = RB_BLACK" and ne: "k \<noteq> []" by auto
    obtain m t1 k1 where r: "remove_round t k = (m, t1, k1)" by (metis prod_cases3)
    obtain par s1 where s1: "remove_color_body (root_of t) (parent_of k) s = Inr (m, root_of t1, par, s1)"
      "m \<longrightarrow> par = parent_of k1" "holds_rb s1 (plug t1 k1)"
      using remove_body_ok[OF less.prems(1) black ne less.prems(2) r] by blast
    have ok: "round_ok m t1 k1 (remove_measure t k)" by (rule remove_round_ok[OF less.prems(1) black ne r])
    have elems: "elems (plug t1 k1) = elems (plug t k)" by (rule remove_round_elems[OF r])
    show ?thesis
    proof (cases m)
      case m: True
      then have "remove_color_while (root_of t, parent_of k, s) = remove_color_while (root_of t1, parent_of k1, s1)"
        using guard True s1 by (simp add: remove_color_while.simps[of "(root_of t, parent_of k, s)"] del: not_black)
      then show ?thesis
        using less.hyps[of t1 k1 s1] ok m s1(3) elems by (simp add: round_ok_def)
    next
      case m: False
      then have "remove_color_while (root_of t, parent_of k, s) = Some (Inr (root_of t1, par, s1))"
        using guard True s1 by (simp add: remove_color_while.simps[of "(root_of t, parent_of k, s)"] del: not_black)
      moreover have "rb_inv (plug (paint RB_BLACK t1) k1)"
        using ok m by (simp add: round_ok_def paint_root)
      ultimately show ?thesis using s1(3) elems by blast
    qed
  qed
qed

lemma REMOVE_COLOR_ok:
  assumes "remove_place t k" and "holds_rb s (plug t k)"
  shows "\<exists>s' t'. RB_REMOVE_COLOR (parent_of k) (root_of t) s = Some (Inr s') \<and> holds_rb s' t' \<and>
    rb_inv t' \<and> elems t' = elems (plug t k)"
proof -
  obtain par s1 t1 k1 where s1: "remove_color_while (root_of t, parent_of k, s) = Some (Inr (root_of t1, par, s1))"
    "holds_rb s1 (plug t1 k1)" "rb_inv (plug (paint RB_BLACK t1) k1)" "elems (plug t1 k1) = elems (plug t k)"
    using remove_while_ok[OF assms] by blast
  then have "RB_REMOVE_COLOR (parent_of k) (root_of t) s = Some (Inr (paint_elem (root_of t1) RB_BLACK s1))"
    by (simp add: RB_REMOVE_COLOR_def)
  with holds_paint[OF s1(2), of RB_BLACK] s1(3,4) show ?thesis by auto
qed

end
