(* ===== verification/Rb_Unlink.thy ===== *)
theory Rb_Unlink
  imports Rb_Remove
begin

text \<open>
  How \<^theory_text>\<open>RB_REMOVE\<close> takes an element out: an element with a missing child is replaced by its other
  child; an element with two children is replaced by its successor, which is unlinked first and then
  takes over its links and colour.
\<close>

subsection \<open>An element with a missing child\<close>

lemma unlink_holds:
  assumes h: "holds_rb s (plug (Node l (x, c) r) k)" and ch: "l = Leaf \<and> ch = r \<or> r = Leaf \<and> ch = l"
  shows "holds_rb (relink (parent_of k) x (root_of ch) (adopt (root_of ch) (parent_of k) s)) (plug ch k)"
proof -
  let ?s1 = "adopt (root_of ch) (parent_of k) s"
  let ?s2 = "relink (parent_of k) x (root_of ch) ?s1"
  have dist: "distinct (before k @ elems ch @ after k)" "x \<notin> set (before k @ elems ch @ after k)"
    using h ch by (auto simp: holds_plug)
  have out: "root_of ch \<noteq> Some z" if "z \<in> set (before k @ after k)" for z
    using that dist root_of_in[of ch z] by auto
  have at: "rb_at s (Some x) (root_of ch) ch" and path: "path_at s (Some x) k"
    using h ch rb_at_root[of s "Some x" _ ch] by (auto simp: holds_plug)
  have "path_at ?s1 (Some x) k"
    using path out by (subst path_at_same[of k ?s1 s]) (auto simp: same_at_def)
  then have "path_at ?s2 (root_of ch) k" using dist by (intro path_relink) auto
  moreover have "rb_at ?s1 (parent_of k) (root_of ch) ch" using at dist by (intro adopt_at) auto
  then have "rb_at ?s2 (parent_of k) (root_of ch) ch"
    using dist parent_of_in[of k] by (subst rb_at_same[of ch ?s2 ?s1]) (auto intro!: relink_same)
  ultimately show ?thesis using dist by (simp add: holds_plug)
qed

lemma remove_one_child_ok:
  assumes h: "holds_rb s (plug (Node l (x, c) r) k)" and ch: "l = Leaf \<and> ch = r \<or> r = Leaf \<and> ch = l"
  shows "\<exists>s'. remove_one_child x (root_of ch) s = (parent_of k, c, s') \<and> holds_rb s' (plug ch k)"
  using unlink_holds[OF assms] holds_read(3,4)[OF h] by (simp add: remove_one_child_def Let_def)

lemma one_child_inv:
  assumes "rb_inv (plug (Node l (x, c) r) k)" and "l = Leaf \<and> ch = r \<or> r = Leaf \<and> ch = l"
  shows "c = RB_RED \<Longrightarrow> rb_inv (plug ch k)" and "c = RB_BLACK \<Longrightarrow> remove_place ch k"
proof -
  have black: "path_c k RB_BLACK" using assms(1) path_c_black by (auto simp: rb_inv_plug)
  show "rb_inv (plug ch k)" if "c = RB_RED"
    using assms that black by (auto simp: rb_inv_plug)
  show "remove_place ch k" if "c = RB_BLACK"
    using assms that black by (auto simp: rb_inv_plug remove_place_def)
qed

subsection \<open>The leftmost element\<close>

lemma rb_leftmost_ok:
  "holds_rb s (plug t k) \<Longrightarrow> root_of t = Some z \<Longrightarrow>
    \<exists>m d mr k2. rb_leftmost s z = Some m \<and> t = plug (Node Leaf (m, d) mr) k2 \<and> before k2 = []"
proof (induction t arbitrary: k z)
  case (Node l a r)
  obtain d where a: "a = (z, d)" using Node.prems(2) by (cases a) auto
  have left: "rbe_left s z = root_of l" using holds_read(1) Node.prems(1) a by blast
  show ?case
  proof (cases l rule: root_of.cases)
    case 1
    then have "rb_leftmost s z = Some z" using left by (simp add: rb_leftmost.simps[of s z])
    moreover have "Node l a r = plug (Node Leaf (z, d) r) []" using 1 a by simp
    ultimately show ?thesis by (metis before.simps(1))
  next
    case (2 ll y e lr)
    then obtain m d' mr k2 where m: "rb_leftmost s y = Some m" "l = plug (Node Leaf (m, d') mr) k2" "before k2 = []"
      using Node.IH(1)[of "Left_of z d r # k" y] Node.prems(1) a by auto
    have "rb_leftmost s z = Some m" using left m(1) 2 by (simp add: rb_leftmost.simps[of s z])
    moreover have "Node l a r = plug (Node Leaf (m, d') mr) (k2 @ [Left_of z d r])"
      using m(2) a by (simp add: plug_append)
    moreover have "before (k2 @ [Left_of z d r]) = []"
      using m(3) by (induction k2 rule: before.induct) auto
    ultimately show ?thesis by blast
  qed
qed simp

lemma rb_rightmost_ok:
  "holds_rb s (plug t k) \<Longrightarrow> root_of t = Some z \<Longrightarrow> rb_rightmost s z = Some (last (elems t))"
proof (induction t arbitrary: k z)
  case (Node l a r)
  obtain d where a: "a = (z, d)" using Node.prems(2) by (cases a) auto
  have right: "rbe_right s z = root_of r" using holds_read(2) Node.prems(1) a by blast
  show ?case
  proof (cases r rule: root_of.cases)
    case 1
    then show ?thesis using right a by (simp add: rb_rightmost.simps[of s z])
  next
    case (2 rl y e rr)
    then have "rb_rightmost s y = Some (last (elems r))"
      using Node.IH(2)[of "Right_of l z d # k" y] Node.prems(1) a by simp
    then show ?thesis using right a 2 by (simp add: rb_rightmost.simps[of s z])
  qed
qed simp

text \<open>The walk up from an element of the tree ends.\<close>

lemma augment_up_ends: "path_at s p k \<Longrightarrow> parent_of k = Some x \<Longrightarrow> augment_up s x = Some ()"
proof (induction s p k arbitrary: x rule: path_at.induct)
  case (2 s p y c r k)
  then show ?case by (cases "parent_of k") (auto simp: augment_up.simps[of s x])
next
  case (3 s p l y c k)
  then show ?case by (cases "parent_of k") (auto simp: augment_up.simps[of s x])
qed simp

subsection \<open>An element with two children\<close>

lemma replace_holds:
  assumes h: "holds_rb s (plug (Node l (x, c) r) k)" and l: "root_of l = Some y"
    and m: "m \<notin> set (elems (plug (Node l (x, c) r) k))"
  shows "holds_rb (adopt (root_of r) (Some m) (set_rb_parent y (Some m)
      (relink (parent_of k) x (Some m) (copy_field m x s)))) (plug (Node l (m, c) r) k)"
proof -
  let ?s1 = "copy_field m x s"
  let ?s2 = "relink (parent_of k) x (Some m) ?s1"
  let ?s3 = "adopt (root_of l) (Some m) ?s2"
  let ?s4 = "adopt (root_of r) (Some m) ?s3"
  have s3: "set_rb_parent y (Some m) ?s2 = ?s3" using l by (simp add: adopt_def)
  have dist: "distinct (before k @ elems l @ elems r @ after k)"
    "x \<notin> set (before k @ elems l @ elems r @ after k)" "m \<notin> set (before k @ elems l @ elems r @ after k)" "m \<noteq> x"
    using h m by (auto simp: holds_plug)
  note read = holds_read[OF h]
  have tops: "parent_of k \<noteq> Some z" if "z \<in> set (elems l) \<union> set (elems r) \<union> {m, x}" for z
    using that dist parent_of_in[of k z] by auto
  have roots: "root_of l \<noteq> Some z" "root_of r \<noteq> Some z" if "z \<in> set (before k @ after k) \<union> {m, x}" for z
    using that dist root_of_in[of l z] root_of_in[of r z] by auto
  have cross: "z \<in> set (elems l) \<Longrightarrow> root_of r \<noteq> Some z" "z \<in> set (elems r) \<Longrightarrow> root_of l \<noteq> Some z" for z
    using dist root_of_in[of l z] root_of_in[of r z] by auto
  have copy: "same_at ?s1 s z" if "z \<noteq> m" for z
    using that by (simp add: same_at_def copy_field_def)
  have root: "rbh_root ?s1 = rbh_root s" by (simp add: copy_field_def)
  have "path_at s (Some x) k" using h by (simp add: holds_plug)
  then have "path_at ?s1 (Some x) k"
    using dist by (subst path_at_same[of k ?s1 s]) (auto intro!: copy simp: root)
  then have "path_at ?s2 (Some m) k" using dist by (intro path_relink) auto
  then have path: "path_at ?s4 (Some m) k"
    using roots by (subst path_at_same[of k ?s4 ?s2]) (auto simp: same_at_def)
  have at: "rb_at s (Some x) (root_of l) l" "rb_at s (Some x) (root_of r) r"
    using h read by (simp_all add: holds_plug)
  have keep: "rb_at ?s2 (Some x) q t = rb_at s (Some x) q t" if "t = l \<or> t = r" for t q
  proof (rule rb_at_same)
    fix z assume z: "z \<in> set (elems t)"
    then have "same_at ?s2 ?s1 z" using that by (intro relink_same tops) auto
    moreover have "z \<noteq> m" using z that dist by auto
    ultimately show "same_at ?s2 s z" using copy[of z] by (simp add: same_at_def)
  qed
  have "rb_at ?s3 (Some m) (root_of l) l" using at keep dist by (intro adopt_at) auto
  then have L: "rb_at ?s4 (Some m) (root_of l) l"
    using cross by (subst rb_at_same[of l ?s4 ?s3]) (auto simp: same_at_def)
  have "rb_at ?s3 (Some x) (root_of r) r = rb_at ?s2 (Some x) (root_of r) r"
    using cross by (intro rb_at_same) (auto simp: same_at_def)
  then have R: "rb_at ?s4 (Some m) (root_of r) r" using at keep dist by (intro adopt_at) auto
  have "rbe_left ?s4 m = root_of l" "rbe_right ?s4 m = root_of r" "rbe_parent ?s4 m = parent_of k"
    "rbe_color ?s4 m = c"
    using read tops roots by (simp_all add: copy_field_def)
  with path L R have "holds_rb ?s4 (plug (Node l (m, c) r) k)" using dist by (simp add: holds_plug)
  then show ?thesis by (simp only: s3)
qed

lemma parent_of_append: "parent_of (k @ k') = (if k = [] then parent_of k' else parent_of k)"
  by (cases k rule: parent_of.cases) auto

lemma two_children_ok:
  assumes h: "holds_rb s (plug (Node l (x, c) r) k)" and l: "l \<noteq> Leaf" and r: "r = plug (Node Leaf (m, d) mr) k2"
    and m: "rb_leftmost s z = Some m" "root_of r = Some z"
  shows "\<exists>s'. remove_two_children x s =
      Some (Inr (root_of mr, parent_of (k2 @ Right_of l m c # k), d, s')) \<and>
    holds_rb s' (plug mr (k2 @ Right_of l m c # k))"
proof -
  let ?K = "k2 @ Right_of l x c # k" and ?K' = "k2 @ Right_of l m c # k" and ?r = "plug mr k2"
  have hm: "holds_rb s (plug (Node Leaf (m, d) mr) ?K)" using h by (simp add: plug_append r)
  note readm = holds_read(2-4)[OF hm]
  define s1 where "s1 = relink (parent_of ?K) m (root_of mr) (adopt (root_of mr) (parent_of ?K) s)"
  have "holds_rb s1 (plug mr ?K)" unfolding s1_def by (rule unlink_holds[OF hm]) simp
  then have h1: "holds_rb s1 (plug (Node l (x, c) ?r) k)" by (simp add: plug_append)
  note read1 = holds_read[OF h1]
  have dist: "distinct (elems (plug (Node Leaf (m, d) mr) ?K))" using holds_distinct[OF hm] .
  then have neq: "m \<noteq> x" "root_of mr \<noteq> Some m" "parent_of k \<noteq> Some x" "k2 \<noteq> [] \<Longrightarrow> parent_of k2 \<noteq> Some x"
    and fresh: "m \<notin> set (elems (plug (Node l (x, c) ?r) k))"
    using root_of_in[of mr m] parent_of_in[of k x] parent_of_in[of k2 x] by (auto simp: plug_append)
  have parent: "rbe_parent s1 m = parent_of ?K" using readm neq by (simp add: s1_def)
  have parent': "(if parent_of ?K = Some x then Some m else parent_of ?K) = parent_of ?K'"
    using neq(4) by (simp add: parent_of_append)
  obtain y where y: "root_of l = Some y" using l by (cases "root_of l") auto
  define s' where "s' = adopt (root_of ?r) (Some m) (set_rb_parent y (Some m)
      (relink (parent_of k) x (Some m) (copy_field m x s1)))"
  have h': "holds_rb s' (plug (Node l (m, c) ?r) k)"
    unfolding s'_def by (rule replace_holds[OF h1 y fresh])
  then have h'': "holds_rb s' (plug mr ?K')" by (simp add: plug_append)
  obtain p where p: "parent_of ?K' = Some p" by (cases k2 rule: parent_of.cases) auto
  have aug: "augment_up s' p = Some ()"
    using h'' p by (intro augment_up_ends[of s' "root_of mr" ?K']) (simp_all only: holds_plug)
  have at: "at (rbe_right s x) = Inr z" using holds_read(2)[OF h] m(2) by simp
  let ?s2 = "copy_field m x s1"
  have s2: "rbe_parent ?s2 x = parent_of k" "rbe_left (relink (parent_of k) x (Some m) ?s2) x = Some y"
    "rbe_right (set_rb_parent y (Some m) (relink (parent_of k) x (Some m) ?s2)) x = root_of ?r"
    using read1 neq y by (simp_all add: copy_field_def)
  have "remove_two_children x s = Some (Inr (root_of mr, parent_of ?K', d, s'))"
    unfolding remove_two_children_def at
    using m(1) by (simp only: bindO_simps option.map Let_def readm s1_def[symmetric] parent parent' s2
      at_simps s'_def[symmetric] p option.case aug)
  with h'' show ?thesis by blast
qed

lemma path_rename:
  "path_c (k2 @ Right_of l x c # k) d \<longleftrightarrow> path_c (k2 @ Right_of l m c # k) d"
  "path_h (k2 @ Right_of l x c # k) n \<longleftrightarrow> path_h (k2 @ Right_of l m c # k) n"
  by (induction k2 arbitrary: d n rule: before.induct) auto

subsection \<open>Removal\<close>

lemma RB_REMOVE_ok:
  assumes h: "holds_rb s t" and inv: "rb_inv t" and x: "x \<in> set (elems t)"
  shows "\<exists>s' t'. RB_REMOVE x s = Some (Inr (Some x, s')) \<and> holds_rb s' t' \<and> rb_inv t' \<and>
    elems t' = remove1 x (elems t)"
proof -
  obtain l c r k where t: "t = plug (Node l (x, c) r) k"
    using x place_of by blast
  have h: "holds_rb s (plug (Node l (x, c) r) k)" and inv: "rb_inv (plug (Node l (x, c) r) k)"
    using h inv t by simp_all
  note read = holds_read(1,2)[OF h]
  have "x \<notin> set (before k @ elems l)" using holds_distinct[OF h] by auto
  then have rem: "remove1 x (elems t) = before k @ elems l @ elems r @ after k"
    by (simp add: t remove1_append)
  have finish: "\<exists>s' t'. bindO (if d = RB_BLACK then RB_REMOVE_COLOR (parent_of K) (root_of ch) s1
        else Some (Inr s1)) (\<lambda>s. Some (Inr (Some x, s))) = Some (Inr (Some x, s')) \<and>
      holds_rb s' t' \<and> rb_inv t' \<and> elems t' = elems (plug ch K)"
    if "holds_rb s1 (plug ch K)" "d = RB_RED \<Longrightarrow> rb_inv (plug ch K)" "d = RB_BLACK \<Longrightarrow> remove_place ch K"
    for s1 ch K d
    using that REMOVE_COLOR_ok[of ch K s1] by (cases d) fastforce+
  show ?thesis
  proof (cases "l = Leaf \<or> r = Leaf")
    case True
    define ch where "ch = (if l = Leaf then r else l)"
    have ch: "l = Leaf \<and> ch = r \<or> r = Leaf \<and> ch = l" using True by (auto simp: ch_def)
    obtain s1 where s1: "remove_one_child x (root_of ch) s = (parent_of k, c, s1)" "holds_rb s1 (plug ch k)"
      using remove_one_child_ok[OF h ch] by blast
    have "RB_REMOVE x s = bindO (if c = RB_BLACK then RB_REMOVE_COLOR (parent_of k) (root_of ch) s1
        else Some (Inr s1)) (\<lambda>s. Some (Inr (Some x, s)))"
      using read True s1(1) by (cases "l = Leaf") (simp_all add: RB_REMOVE_def ch_def)
    moreover have "elems (plug ch k) = before k @ elems l @ elems r @ after k" using ch by auto
    ultimately show ?thesis
      using finish[OF s1(2) one_child_inv[OF inv ch]] rem by (metis (no_types))
  next
    case False
    then obtain z where z: "root_of r = Some z" by (cases "root_of r") auto
    obtain m d mr k2 where m: "rb_leftmost s z = Some m" "r = plug (Node Leaf (m, d) mr) k2" "before k2 = []"
      using rb_leftmost_ok[of s r "Right_of l x c # k" z] h z by auto
    let ?K = "k2 @ Right_of l m c # k"
    obtain s1 where s1: "remove_two_children x s = Some (Inr (root_of mr, parent_of ?K, d, s1))"
      "holds_rb s1 (plug mr ?K)"
      using two_children_ok[OF h _ m(2,1) z] False by blast
    have "plug (Node l (x, c) r) k = plug (Node Leaf (m, d) mr) (k2 @ Right_of l x c # k)"
      by (simp add: plug_append m(2))
    then have "rb_inv (plug (Node Leaf (m, d) mr) (k2 @ Right_of l x c # k))" using inv by metis
    then have "rb_inv (plug (Node Leaf (m, d) mr) ?K)"
      unfolding rb_inv_plug path_rename[of k2 l x c k _ m] .
    then have K: "d = RB_RED \<Longrightarrow> rb_inv (plug mr ?K)" "d = RB_BLACK \<Longrightarrow> remove_place mr ?K"
      using one_child_inv[of Leaf m d mr ?K mr] by auto
    have "RB_REMOVE x s = bindO (if d = RB_BLACK then RB_REMOVE_COLOR (parent_of ?K) (root_of mr) s1
        else Some (Inr s1)) (\<lambda>s. Some (Inr (Some x, s)))"
      using read False s1(1) by (simp add: RB_REMOVE_def)
    moreover have "elems (plug mr ?K) = before k @ elems l @ elems r @ after k"
      by (simp add: plug_append m(2,3))
    ultimately show ?thesis
      using finish[OF s1(2) K] rem by (metis (no_types))
  qed
qed

end
