(* ===== verification/Rb_Set.thy ===== *)
theory Rb_Set
  imports Rb_Insert Rb_Unlink
begin

text \<open>
  Searching and walking red-black trees, the interpretation of the contract \<open>ordered_tree\<close>, and the
  properties of the component.
\<close>

subsection \<open>Searching\<close>

lemma elems_Nil [simp]: "elems t = [] \<longleftrightarrow> t = Leaf"
  by (cases t) (auto simp: elems_def)

lemma find_append: "find P (xs @ ys) = (case find P xs of None \<Rightarrow> find P ys | Some y \<Rightarrow> Some y)"
  by (induction xs) auto

lemma cuts_subtrees:
  assumes "cuts c (elems l @ x # elems r)"
  shows "cuts c (elems l)" and "cuts c (elems r)"
    and "0 \<le> c x \<Longrightarrow> y \<in> set (elems l) \<Longrightarrow> 0 < c y" and "c x \<le> 0 \<Longrightarrow> y \<in> set (elems r) \<Longrightarrow> c y < 0"
  using assms by (auto simp: cuts_append cuts_Cons)

lemma find_none: "(\<And>y. y \<in> set xs \<Longrightarrow> \<not> P y) \<Longrightarrow> find P xs = None"
  by (auto simp: find_None_iff)

lemma find_from_ok:
  "holds_rb s (plug t k) \<Longrightarrow> cuts c (elems t) \<Longrightarrow>
    find_from c s (root_of t) = Some (find (\<lambda>y. c y = 0) (elems t))"
proof (induction t arbitrary: k)
  case (Node l z r)
  obtain x d where z: "z = (x, d)" by (cases z)
  note read = holds_read(1,2)[OF Node.prems(1)[unfolded z]]
  have cut: "cuts c (elems l @ x # elems r)" using Node.prems(2) z by simp
  note parts = cuts_subtrees[OF cut]
  have l: "find (\<lambda>y. c y = 0) (elems l) = None" if "0 \<le> c x"
    by (rule find_none) (use parts(3)[OF that] in fastforce)
  have r: "find (\<lambda>y. c y = 0) (elems r) = None" if "c x \<le> 0"
    by (rule find_none) (use parts(4)[OF that] in fastforce)
  have "find_from c s (root_of l) = Some (find (\<lambda>y. c y = 0) (elems l))"
    "find_from c s (root_of r) = Some (find (\<lambda>y. c y = 0) (elems r))"
    using Node.IH(1)[of "Left_of x d r # k"] Node.IH(2)[of "Right_of l x d # k"] Node.prems(1) parts(1,2) z
    by simp_all
  with read l r show ?case
    by (auto simp: z find_from.simps[of c s "Some x"] find_append split: option.split)
qed (simp add: find_from.simps)

lemma nfind_from_ok:
  "holds_rb s (plug t k) \<Longrightarrow> cuts c (elems t) \<Longrightarrow>
    nfind_from c s (root_of t) res =
      Some (case find (\<lambda>y. c y \<le> 0) (elems t) of None \<Rightarrow> res | Some y \<Rightarrow> Some y)"
proof (induction t arbitrary: k res)
  case (Node l z r)
  obtain x d where z: "z = (x, d)" by (cases z)
  note read = holds_read(1,2)[OF Node.prems(1)[unfolded z]]
  have cut: "cuts c (elems l @ x # elems r)" using Node.prems(2) z by simp
  note parts = cuts_subtrees[OF cut]
  have l: "find (\<lambda>y. c y \<le> 0) (elems l) = None" if "0 \<le> c x"
    by (rule find_none) (use parts(3)[OF that] in fastforce)
  have "nfind_from c s (root_of l) q = Some (case find (\<lambda>y. c y \<le> 0) (elems l) of None \<Rightarrow> q | Some y \<Rightarrow> Some y)"
    "nfind_from c s (root_of r) q = Some (case find (\<lambda>y. c y \<le> 0) (elems r) of None \<Rightarrow> q | Some y \<Rightarrow> Some y)"
    for q
    using Node.IH(1)[of "Left_of x d r # k"] Node.IH(2)[of "Right_of l x d # k"] Node.prems(1) parts(1,2) z
    by simp_all
  with read l show ?case
    by (auto simp: z nfind_from.simps[of c s "Some x"] find_append split: option.split)
qed (simp add: nfind_from.simps)

lemma minmax_from_ok:
  "holds_rb s (plug t k) \<Longrightarrow> minmax_from d s (root_of t) p =
    Some (if t = Leaf then p else first (if d < 0 then elems t else rev (elems t)))"
proof (induction t arbitrary: k p)
  case (Node l z r)
  obtain x e where z: "z = (x, e)" by (cases z)
  note read = holds_read(1,2)[OF Node.prems(1)[unfolded z]]
  from read Node.IH(1)[of "Left_of x e r # k"] Node.IH(2)[of "Right_of l x e # k"] Node.prems(1)
  show ?case by (auto simp: z minmax_from.simps[of d s "Some x"] first_def hd_append)
qed (simp add: minmax_from.simps)

subsection \<open>Walking\<close>

lemma climb_right_ok:
  "holds_rb s (plug t k) \<Longrightarrow> root_of t = Some x \<Longrightarrow> climb_right s x = Some (first (after k))"
proof (induction t k arbitrary: x rule: plug.induct)
  case (1 t)
  then obtain l c r where "t = Node l (x, c) r" by (cases t rule: root_of.cases) auto
  then show ?case using 1 holds_read(3)[of s l x c r "[]"] by (simp add: climb_right.simps[of s x])
next
  case (2 t p c r k)
  then obtain l d b where t: "t = Node l (x, d) b" by (cases t rule: root_of.cases) auto
  have h: "holds_rb s (plug (Node t (p, c) r) k)" using 2(2) by simp
  have "rbe_parent s x = Some p" using holds_read(3)[of s l x d b "Left_of p c r # k"] h t by simp
  moreover have "rbe_right s p \<noteq> Some x"
    using holds_read(2)[OF h] root_of_in[of r x] holds_distinct[OF h] t by auto
  ultimately show ?case by (simp add: climb_right.simps[of s x])
next
  case (3 t l p c k)
  then obtain a d b where t: "t = Node a (x, d) b" by (cases t rule: root_of.cases) auto
  have h: "holds_rb s (plug (Node l (p, c) t) k)" using 3(2) by simp
  have "rbe_parent s x = Some p" using holds_read(3)[of s a x d b "Right_of l p c # k"] h t by simp
  moreover have "rbe_right s p = Some x" using holds_read(2)[OF h] t by simp
  moreover have "climb_right s p = Some (first (after k))" using 3(1)[OF h] by simp
  ultimately show ?case by (simp add: climb_right.simps[of s x])
qed

lemma climb_left_ok:
  "holds_rb s (plug t k) \<Longrightarrow> root_of t = Some x \<Longrightarrow> climb_left s x = Some (first (rev (before k)))"
proof (induction t k arbitrary: x rule: plug.induct)
  case (1 t)
  then obtain l c r where "t = Node l (x, c) r" by (cases t rule: root_of.cases) auto
  then show ?case using 1 holds_read(3)[of s l x c r "[]"] by (simp add: climb_left.simps[of s x])
next
  case (2 t p c r k)
  then obtain l d b where t: "t = Node l (x, d) b" by (cases t rule: root_of.cases) auto
  have h: "holds_rb s (plug (Node t (p, c) r) k)" using 2(2) by simp
  have "rbe_parent s x = Some p" using holds_read(3)[of s l x d b "Left_of p c r # k"] h t by simp
  moreover have "rbe_left s p = Some x" using holds_read(1)[OF h] t by simp
  moreover have "climb_left s p = Some (first (rev (before k)))" using 2(1)[OF h] by simp
  ultimately show ?case by (simp add: climb_left.simps[of s x])
next
  case (3 t l p c k)
  then obtain a d b where t: "t = Node a (x, d) b" by (cases t rule: root_of.cases) auto
  have h: "holds_rb s (plug (Node l (p, c) t) k)" using 3(2) by simp
  have "rbe_parent s x = Some p" using holds_read(3)[of s a x d b "Right_of l p c # k"] h t by simp
  moreover have "rbe_left s p \<noteq> Some x"
    using holds_read(1)[OF h] root_of_in[of l x] holds_distinct[OF h] t by auto
  ultimately show ?case by (simp add: climb_left.simps[of s x])
qed

lemma RB_NEXT_ok:
  assumes h: "holds_rb s t" and t: "elems t = xs @ x # ys"
  shows "RB_NEXT x s = Some (first ys)"
proof -
  obtain l c r k where p: "t = plug (Node l (x, c) r) k" using place_of[of x t] t by auto
  have h: "holds_rb s (plug (Node l (x, c) r) k)" using h p by simp
  have eq: "xs @ x # ys = (before k @ elems l) @ x # (elems r @ after k)" using t p by simp
  have ys: "ys = elems r @ after k"
    using holds_distinct[OF h] by (intro same_split[OF eq[symmetric]]) simp
  note read = holds_read(2,3)[OF h]
  show ?thesis
  proof (cases r rule: root_of.cases)
    case 1
    have "(case parent_of k of None \<Rightarrow> climb_right s x
      | Some p \<Rightarrow> if rbe_left s p = Some x then Some (Some p) else climb_right s x) = Some (first (after k))"
    proof (cases k rule: parent_of.cases)
      case (2 p d b k')
      then have "rbe_left s p = Some x" using holds_read(1)[of s "Node l (x, c) r" p d b k'] h by simp
      then show ?thesis using 2 by simp
    next
      case (3 a p d k')
      have h3: "holds_rb s (plug (Node a (p, d) (Node l (x, c) r)) k')" using h 3 by simp
      have "rbe_left s p \<noteq> Some x"
        using holds_read(1)[OF h3] root_of_in[of a x] holds_distinct[OF h3] by auto
      then show ?thesis using climb_right_ok[OF h] 3 by simp
    qed (use climb_right_ok[OF h] in simp)
    then show ?thesis using read 1 ys by (simp add: RB_NEXT_def)
  next
    case (2 rl z d rr)
    obtain m e mr k2 where m: "rb_leftmost s z = Some m" "r = plug (Node Leaf (m, e) mr) k2" "before k2 = []"
      using rb_leftmost_ok[of s r "Right_of l x c # k" z] h 2 by auto
    then have "first ys = Some m" by (simp add: ys)
    then show ?thesis using read 2 m(1) by (simp add: RB_NEXT_def)
  qed
qed

lemma RB_PREV_ok:
  assumes h: "holds_rb s t" and t: "elems t = xs @ x # ys"
  shows "RB_PREV x s = Some (first (rev xs))"
proof -
  obtain l c r k where p: "t = plug (Node l (x, c) r) k" using place_of[of x t] t by auto
  have h: "holds_rb s (plug (Node l (x, c) r) k)" using h p by simp
  have eq: "xs @ x # ys = (before k @ elems l) @ x # (elems r @ after k)" using t p by simp
  have "ys = elems r @ after k"
    using holds_distinct[OF h] by (intro same_split[OF eq[symmetric]]) simp
  then have xs: "xs = before k @ elems l" using eq by simp
  note read = holds_read(1,3)[OF h]
  show ?thesis
  proof (cases l rule: root_of.cases)
    case 1
    have "(case parent_of k of None \<Rightarrow> climb_left s x
      | Some p \<Rightarrow> if rbe_right s p = Some x then Some (Some p) else climb_left s x) = Some (first (rev (before k)))"
    proof (cases k rule: parent_of.cases)
      case (2 p d b k')
      have h2: "holds_rb s (plug (Node (Node l (x, c) r) (p, d) b) k')" using h 2 by simp
      have "rbe_right s p \<noteq> Some x"
        using holds_read(2)[OF h2] root_of_in[of b x] holds_distinct[OF h2] by auto
      then show ?thesis using climb_left_ok[OF h] 2 by simp
    next
      case (3 a p d k')
      then have "rbe_right s p = Some x" using holds_read(2)[of s a p d "Node l (x, c) r" k'] h by simp
      then show ?thesis using 3 by simp
    qed (use climb_left_ok[OF h] in simp)
    then show ?thesis using read 1 xs by (simp add: RB_PREV_def)
  next
    case (2 ll z d lr)
    have "rb_rightmost s z = Some (last (elems l))"
      using rb_rightmost_ok[of s l "Left_of x c r # k" z] h 2 by simp
    moreover have "first (rev xs) = Some (last (elems l))" using 2 by (simp add: xs first_def hd_append hd_rev)
    ultimately show ?thesis using read 2 by (simp add: RB_PREV_def)
  qed
qed

subsection \<open>The contract\<close>

definition rb_repr :: "(nat \<Rightarrow> nat \<Rightarrow> int) \<Rightarrow> (nat \<Rightarrow> 'k::linorder) \<Rightarrow> rb_st \<Rightarrow> nat list \<Rightarrow> bool" where
  "rb_repr cmp key s xs \<longleftrightarrow> orders cmp key \<and> ascending key xs \<and>
     (\<exists>t. holds_rb s t \<and> rb_inv t \<and> elems t = xs)"

lemma rb_repr_init: "orders cmp key \<Longrightarrow> rb_repr cmp key (RB_INIT s) []"
  by (auto simp: rb_repr_def RB_INIT_def ascending_def holds_rb_def rb_inv_def intro!: exI[of _ Leaf])

lemma rb_repr_search:
  assumes "rb_repr cmp key s xs"
  shows "RB_FIND cmp e s = Some (find (\<lambda>y. key y = key e) xs)"
    and "RB_NFIND cmp e s = Some (find (\<lambda>y. key e \<le> key y) xs)"
    and "RB_MINMAX d s = Some (first (if d < 0 then xs else rev xs))"
proof -
  obtain t where h: "holds_rb s t" and t: "elems t = xs" and ord: "orders cmp key" and asc: "ascending key xs"
    using assms by (auto simp: rb_repr_def)
  have cut: "cuts (cmp e) (elems t)" using cuts_orders[OF ord asc] t by simp
  have h0: "holds_rb s (plug t [])" using h by simp
  note root = holds_root[OF h]
  show "RB_FIND cmp e s = Some (find (\<lambda>y. key y = key e) xs)"
    using find_from_ok[OF h0 cut] by (simp add: RB_FIND_def root t ordersD(3)[OF ord] eq_commute[of "key e"])
  show "RB_NFIND cmp e s = Some (find (\<lambda>y. key e \<le> key y) xs)"
    using nfind_from_ok[OF h0 cut, of None]
    by (auto simp: RB_NFIND_def root t ordersD_le[OF ord] split: option.splits)
  show "RB_MINMAX d s = Some (first (if d < 0 then xs else rev xs))"
    using minmax_from_ok[OF h0, of d None] t by (auto simp: RB_MINMAX_def root)
qed

lemma rb_repr_neighbours:
  assumes "rb_repr cmp key s (xs @ e # ys)"
  shows "RB_NEXT e s = Some (first ys)" and "RB_PREV e s = Some (first (rev xs))"
  using assms RB_NEXT_ok RB_PREV_ok by (auto simp: rb_repr_def)

lemma rb_repr_remove:
  assumes "rb_repr cmp key s (xs @ e # ys)"
  shows "\<exists>s'. RB_REMOVE e s = Some (Inr (Some e, s')) \<and> rb_repr cmp key s' (xs @ ys)"
proof -
  have asc: "ascending key (xs @ e # ys)" using assms by (simp add: rb_repr_def)
  then have "remove1 e (xs @ e # ys) = xs @ ys" "ascending key (xs @ ys)"
    using ascending_distinct[OF asc] by (simp_all add: ascending_append ascending_Cons)
  then show ?thesis using assms RB_REMOVE_ok[of s _ e] unfolding rb_repr_def by force
qed

interpretation rb: ordered_tree key "rb_repr cmp key" "rb_step cmp"
  for cmp and key :: "nat \<Rightarrow> 'k::linorder"
proof unfold_locales
  fix s xs op res ys
  assume r: "rb_repr cmp key s xs" and pre: "tree_pre op xs" and spec: "tree_spec key op xs = (res, ys)"
  have asc: "ascending key xs" using r by (simp add: rb_repr_def)
  show "\<exists>s'. rb_step cmp op s = Some (Inr (res, s')) \<and> rb_repr cmp key s' ys"
  proof (cases op)
    case (Insert e)
    then obtain t where "holds_rb s t" "rb_inv t" "elems t = xs" "orders cmp key"
      using r by (auto simp: rb_repr_def)
    with RB_INSERT_ok[of s t cmp key e res ys] asc spec Insert show ?thesis
      unfolding rb_repr_def by auto
  next
    case (Remove e)
    with pre obtain as bs where xs: "xs = as @ e # bs" by (auto dest: split_list)
    then have "remove1 e xs = as @ bs" using ascending_distinct[OF asc] by simp
    with rb_repr_remove[of cmp key s as e bs] r spec Remove xs show ?thesis by auto
  next
    case (Find e)
    with rb_repr_search(1)[OF r] r spec show ?thesis by (auto simp: query_def)
  next
    case (Next e)
    with pre obtain as bs where xs: "xs = as @ e # bs" by (auto dest: split_list)
    with rb_repr_neighbours(1)[of cmp key s as e bs] next_ascending[of key as e bs] asc r spec Next show ?thesis
      by (auto simp: query_def rb_next_def)
  next
    case Minimum
    with rb_repr_search(3)[OF r, of "-1"] r spec show ?thesis by (auto simp: query_def)
  next
    case Maximum
    with rb_repr_search(3)[OF r, of 1] r spec show ?thesis by (auto simp: query_def)
  qed
qed (simp add: rb_repr_def)

text \<open>Backwards, the same contract holds of the reversed list.\<close>

interpretation rb_back: tree_cursor "\<lambda>s xs. rb_repr cmp key s (rev xs)" rb_prev "\<lambda>e. rb_step cmp (Remove e)"
  for cmp and key :: "nat \<Rightarrow> 'k::linorder"
proof unfold_locales
  fix s xs e ys
  assume r: "rb_repr cmp key s (rev (xs @ e # ys))"
  then have "rb_repr cmp key s (rev ys @ e # rev xs)" by simp
  note prev = rb_repr_neighbours(2)[OF this] and rem = rb_repr_remove[OF this]
  show "\<exists>s'. rb_prev e s = Some (Inr (first ys, s')) \<and> rb_repr cmp key s' (rev (xs @ e # ys))"
    using prev r by (simp add: rb_prev_def query_def)
  show "\<exists>r s'. rb_step cmp (Remove e) s = Some (Inr (r, s')) \<and> rb_repr cmp key s' (rev (xs @ ys))"
    using rem by (simp del: not_None_eq) blast
qed

subsection \<open>Balance\<close>

lemma height_black_height:
  "invc t \<Longrightarrow> invh t \<Longrightarrow> height t \<le> 2 * black_height t + (if color_of t = RB_BLACK then 0 else 1)"
proof (induction t)
  case (Node l z r)
  then show ?case by (cases z) (auto split: if_splits)
qed simp

lemma black_height_elems: "invh t \<Longrightarrow> 2 ^ black_height t \<le> length (elems t) + 1"
proof (induction t)
  case (Node l z r)
  obtain x c where z: "z = (x, c)" by (cases z)
  with Node have "2 ^ black_height l \<le> length (elems l) + 1" "2 ^ black_height l \<le> length (elems r) + 1"
    by simp_all
  then show ?case using z by simp
qed simp

lemma height_elems:
  assumes "rb_inv t"
  shows "2 ^ height t \<le> (length (elems t) + 1) ^ 2"
proof -
  have "(2::nat) ^ height t \<le> 2 ^ (2 * black_height t)"
    using height_black_height[of t] assms by (intro power_increasing) (auto simp: rb_inv_def)
  also have "\<dots> = (2 ^ black_height t) ^ 2" by (simp add: power_mult[symmetric] mult.commute)
  also have "\<dots> \<le> (length (elems t) + 1) ^ 2"
    using black_height_elems[of t] assms by (intro power_mono) (auto simp: rb_inv_def)
  finally show ?thesis .
qed

subsection \<open>Properties\<close>

lemma rb_step_eqs: "(\<lambda>e. rb_step cmp (Next e)) = rb_next" "(\<lambda>e. rb_step cmp (Remove e)) = RB_REMOVE"
  by (intro ext; simp)+

lemma rb_foreach: "RB_FOREACH s = bindO (rb_step cmp Minimum s) (\<lambda>(x, s). tree_walk (\<lambda>e. rb_step cmp (Next e)) x s)"
  by (simp add: RB_FOREACH_def rb_step_eqs)

text \<open>
  C1: any sequence of red-black operations on an initialised head that removes, and asks for the successor
  of, elements of the tree only, runs without a fault and returns what the ascending list of elements
  determines; then \<^theory_text>\<open>RB_FOREACH\<close> visits exactly that list and \<^theory_text>\<open>RB_FOREACH_REVERSE\<close> its reverse.
\<close>
theorem rb_runs_as_specified:
  assumes "orders cmp key" and "tree_run_spec key ops [] = Some (rs, xs)"
  shows "\<exists>s'. tree_run (rb_step cmp) ops (RB_INIT s) = Some (Inr (rs, s')) \<and>
    (\<exists>s''. RB_FOREACH s' = Some (Inr (xs, s''))) \<and>
    (\<exists>s''. RB_FOREACH_REVERSE s' = Some (Inr (rev xs, s'')))"
proof -
  obtain s' where s': "tree_run (rb_step cmp) ops (RB_INIT s) = Some (Inr (rs, s'))" "rb_repr cmp key s' xs"
    using rb.run_ok[OF rb_repr_init[OF assms(1)] assms(2)] by blast
  obtain s2 where "RB_FOREACH s' = Some (Inr (xs, s2))"
    using rb.walk_all[OF s'(2)] unfolding rb_foreach[of _ cmp] by blast
  moreover have "rb_repr cmp key s' (rev (rev xs))" using s'(2) by simp
  then obtain s3 where "RB_FOREACH_REVERSE s' = Some (Inr (rev xs, s3))"
    using rb_back.walk_from[of cmp key s' "[]" "rev xs"] rb_repr_search(3)[OF s'(2), of 1]
    by (auto simp: RB_FOREACH_REVERSE_def query_def)
  ultimately show ?thesis using s'(1) by blast
qed

theorem rb_runs_as_specified_witness:
  "\<exists>s s'. tree_run (rb_step (\<lambda>a b. int a - int b))
      [Insert 3, Insert 1, Insert 2, Insert 4, Remove 1, Next 2, Find 1, Maximum] (RB_INIT s) =
      Some (Inr ([None, None, None, None, Some 1, Some 3, None, Some 4], s')) \<and>
    (\<exists>s''. RB_FOREACH s' = Some (Inr ([2, 3, 4], s''))) \<and>
    (\<exists>s''. RB_FOREACH_REVERSE s' = Some (Inr ([4, 3, 2], s'')))"
proof -
  let ?s = "\<lparr>rbh_root = None, rbe_left = \<lambda>_. None, rbe_right = \<lambda>_. None, rbe_parent = \<lambda>_. None,
    rbe_color = \<lambda>_. RB_RED\<rparr>"
  show ?thesis
    by (rule exI[of _ ?s], rule rb_runs_as_specified[where key = "\<lambda>x. x" and xs = "[2, 3, 4]", simplified rev.simps append.simps])
      (simp_all add: orders_def)
qed

text \<open>
  C2: the tree stays a red-black tree. After any such sequence the memory holds a tree, with parent links,
  of exactly the specified elements that satisfies the colour and black height invariants; so the square
  of its size plus one bounds 2 to the power of its height.
\<close>
theorem rb_stays_balanced:
  assumes "orders cmp key" and "tree_run_spec key ops [] = Some (rs, xs)"
  shows "\<exists>s' t. tree_run (rb_step cmp) ops (RB_INIT s) = Some (Inr (rs, s')) \<and>
    holds_rb s' t \<and> rb_inv t \<and> elems t = xs \<and> 2 ^ height t \<le> (length xs + 1) ^ 2"
  using rb.run_ok[OF rb_repr_init[OF assms(1)] assms(2)] height_elems
  unfolding rb_repr_def by blast

theorem rb_stays_balanced_witness:
  "\<exists>s s' t. tree_run (rb_step (\<lambda>a b. int a - int b)) [Insert 1, Insert 2, Insert 3, Remove 2] (RB_INIT s) =
      Some (Inr ([None, None, None, Some 2], s')) \<and>
    holds_rb s' t \<and> rb_inv t \<and> elems t = [1, 3] \<and> 2 ^ height t \<le> (length [1, 3::nat] + 1) ^ 2"
proof -
  let ?s = "\<lparr>rbh_root = None, rbe_left = \<lambda>_. None, rbe_right = \<lambda>_. None, rbe_parent = \<lambda>_. None,
    rbe_color = \<lambda>_. RB_RED\<rparr>"
  show ?thesis
    by (rule exI[of _ ?s], rule rb_stays_balanced[where key = "\<lambda>x. x"]) (simp_all add: orders_def)
qed

text \<open>
  C12: the loops that read ahead may remove the element they are at. Started anywhere, forwards or
  backwards, with a body that removes the elements satisfying a predicate, they remove exactly those
  among the elements from the start on.
\<close>
theorem rb_safe_loops_filter:
  assumes "rb_repr cmp key s (xs @ ys)"
  shows "(\<exists>s'. RB_FOREACH_FROM (remove_if RB_REMOVE P) (first ys) s = Some (Inr s') \<and>
      rb_repr cmp key s' (xs @ filter (\<lambda>e. \<not> P e) ys)) \<and>
    (\<exists>s'. RB_FOREACH_REVERSE_FROM (remove_if RB_REMOVE P) (first (rev xs)) s = Some (Inr s') \<and>
      rb_repr cmp key s' (filter (\<lambda>e. \<not> P e) xs @ ys)) \<and>
    (\<exists>s'. RB_FOREACH_SAFE (remove_if RB_REMOVE P) s = Some (Inr s') \<and>
      rb_repr cmp key s' (filter (\<lambda>e. \<not> P e) (xs @ ys))) \<and>
    (\<exists>s'. RB_FOREACH_REVERSE_SAFE (remove_if RB_REMOVE P) s = Some (Inr s') \<and>
      rb_repr cmp key s' (filter (\<lambda>e. \<not> P e) (xs @ ys)))"
proof -
  note up = rb.up.safe_walk_filter[where cmp = cmp and key = key, unfolded rb_step_eqs]
  note down = rb_back.safe_walk_filter[where cmp = cmp and key = key, unfolded rb_step_eqs]
  have rev_repr: "rb_repr cmp key s (rev (rev ys @ rev xs))" "rb_repr cmp key s (rev ([] @ rev (xs @ ys)))"
    using assms by simp_all
  note ends = rb_repr_search(3)[OF assms]
  show ?thesis
    using up[OF assms, of P] down[OF rev_repr(1), of P] up[of s "[]" "xs @ ys" P] down[OF rev_repr(2), of P]
      assms ends[of "-1"] ends[of 1]
    by (simp add: RB_FOREACH_FROM_def RB_FOREACH_REVERSE_FROM_def RB_FOREACH_SAFE_def
      RB_FOREACH_REVERSE_SAFE_def query_def rev_filter[symmetric])
qed

theorem rb_safe_loops_filter_witness:
  "\<exists>s s'. RB_FOREACH_SAFE (remove_if RB_REMOVE even) s = Some (Inr s') \<and>
    rb_repr (\<lambda>a b. int a - int b) (\<lambda>x. x) s' [1]"
proof -
  let ?t = "Node (Node Leaf (1, RB_RED) Leaf) (2, RB_BLACK) Leaf"
  let ?s = "\<lparr>rbh_root = Some 2, rbe_left = \<lambda>e. if e = 2 then Some 1 else None, rbe_right = \<lambda>_. None,
    rbe_parent = \<lambda>e. if e = 1 then Some 2 else None, rbe_color = \<lambda>e. if e = 1 then RB_RED else RB_BLACK\<rparr>"
  have "rb_repr (\<lambda>a b. int a - int b) (\<lambda>x. x) ?s ([] @ [1, 2])"
    unfolding rb_repr_def
    by (intro conjI exI[of _ ?t]) (simp_all add: orders_def ascending_def holds_rb_def rb_inv_def)
  from rb_safe_loops_filter[OF this, of even] show ?thesis by auto
qed

text \<open>
  the searches. On a tree of the elements \<open>xs @ e # ys\<close> the minimum and maximum are the ends of the
  list, the successor and predecessor of \<open>e\<close> its neighbours; on any argument \<^theory_text>\<open>RB_FIND\<close> returns the
  element with its key and \<^theory_text>\<open>RB_NFIND\<close> the first element whose key is not smaller.
\<close>
theorem rb_searches:
  assumes "rb_repr cmp key s (xs @ e # ys)"
  shows "RB_NEXT e s = Some (first ys) \<and> RB_PREV e s = Some (first (rev xs)) \<and>
    RB_MINMAX (-1) s = Some (first (xs @ [e])) \<and> RB_MINMAX 1 s = Some (first (rev ys @ [e])) \<and>
    RB_FIND cmp a s = Some (find (\<lambda>y. key y = key a) (xs @ e # ys)) \<and>
    RB_NFIND cmp a s = Some (find (\<lambda>y. key a \<le> key y) (xs @ e # ys))"
  using rb_repr_neighbours[OF assms] rb_repr_search[OF assms] by (simp add: first_append)

theorem rb_searches_witness:
  "\<exists>s. RB_NEXT 1 s = Some (Some 2) \<and> RB_NFIND (\<lambda>a b. int a - int b) 2 s = Some (Some 2) \<and>
    RB_PREV 1 s = Some None"
proof -
  let ?t = "Node (Node Leaf (1, RB_RED) Leaf) (2, RB_BLACK) Leaf"
  let ?s = "\<lparr>rbh_root = Some 2, rbe_left = \<lambda>e. if e = 2 then Some 1 else None, rbe_right = \<lambda>_. None,
    rbe_parent = \<lambda>e. if e = 1 then Some 2 else None, rbe_color = \<lambda>e. if e = 1 then RB_RED else RB_BLACK\<rparr>"
  have "rb_repr (\<lambda>a b. int a - int b) (\<lambda>x. x) ?s ([] @ 1 # [2])"
    unfolding rb_repr_def
    by (intro conjI exI[of _ ?t]) (simp_all add: orders_def ascending_def holds_rb_def rb_inv_def)
  from rb_searches[OF this, of 2] show ?thesis by auto
qed

end
