(* ===== verification/Pong_Clock.thy ===== *)
theory Pong_Clock
  imports Prelude
begin

text \<open>
  The program \<open>pong-clock-no-flicker.c\<close>: a clock that plays pong. Modelled are the state of the game and
  its update, everything a frame draws, and the main loop. The X server is on the other side of the
  list of requests a frame returns; what the server and the system clock answer (the size of the
  display, the local time, the events that arrive) is input. Every call of \<open>get_time\<close> reads the clock
  anew, so a frame has two times.
\<close>

subsection \<open>The state\<close>

definition FPS :: int where "FPS = 50"
definition RESX :: int where "RESX = 40"
definition RESY :: int where "RESY = 40"
definition TO_MISS_SECS :: int where "TO_MISS_SECS = 55"
definition BALLDX :: int where "BALLDX = 16"
definition BALLDY :: int where "BALLDY = 4"

text \<open>The fields of \<open>PongClock\<close> that are not handles of the X library.\<close>

record pong_clock =
  xwin_width :: int
  xwin_height :: int
  pixelw :: int
  pixelh :: int
  ball_x :: int
  ball_y :: int
  ball_dx :: int
  ball_dy :: int
  bata_y :: int
  batb_y :: int
  bata_to_miss :: bool
  batb_to_miss :: bool

text \<open>What \<open>get_time\<close> reads from \<open>localtime\<close>.\<close>

record local_tm =
  tm_hour :: int
  tm_min :: int
  tm_sec :: int

subsection \<open>Drawing\<close>

text \<open>
  A rectangle of \<open>XFillRectangles\<close> has fields of 16 bits, two of them signed; the arguments of
  \<open>XFillRectangle\<close> are integers.
\<close>

record xrectangle =
  rx :: int
  ry :: int
  rwidth :: int
  rheight :: int

datatype pixel = BlackPixel | WhitePixel

datatype xrequest =
    XSetForeground pixel
  | XFillRectangle int int int int
  | XFillRectangles "xrectangle list"
  | XSetWindowBackgroundPixmap
  | XClearWindow
  | XSync
  | XFlush
  | Select int
  | XCreateGC
  | XInternAtom string
  | XCreateSimpleWindow int int
  | XCreatePixmap int int
  | XSelectInput
  | XChangeProperty
  | XMapWindow

definition to_short :: "int \<Rightarrow> int" where
  "to_short i = signed_take_bit 15 i"

definition to_ushort :: "int \<Rightarrow> int" where
  "to_ushort i = take_bit 16 i"

definition draw_rect :: "pong_clock \<Rightarrow> int \<Rightarrow> int \<Rightarrow> int \<Rightarrow> int \<Rightarrow> xrequest" where
  "draw_rect p x y width height =
     XFillRectangle (x * pixelw p) (y * pixelh p) (width * pixelw p) (height * pixelh p)"

definition draw_field :: "pong_clock \<Rightarrow> xrequest list" where
  "draw_field p =
     [draw_rect p 0 0 (RESX + 1) 1, draw_rect p 0 (RESY - 1) (RESX + 1) 1] @
     map (\<lambda>i. draw_rect p (RESX div 2 - 1) (i * 2) 2 1) [0..RESY div 2 - 1]"

definition digits :: "int list" where
  "digits = [0x1f8c63f, 0x1f21086, 0x1f0fe1f, 0x1f87e1f, 0x1087e31,
             0x1f87c3f, 0x1f8fc3f, 0x84421f, 0x1f8fe3f, 0x1087e3f]"

datatype pong_fault = Digit_out_of_range

text \<open>The cells of a glyph: five rows \<open>k\<close> of five columns \<open>j\<close>, one bit each.\<close>

definition glyph_cells :: "int \<Rightarrow> (nat \<times> nat) list" where
  "glyph_cells m = [(k, j). k \<leftarrow> [0..<5], j \<leftarrow> [0..<5], bit m (k * 5 + j)]"

definition cell_rect :: "pong_clock \<Rightarrow> int \<Rightarrow> int \<Rightarrow> nat \<times> nat \<Rightarrow> xrectangle" where
  "cell_rect p x y = (\<lambda>(k, j). \<lparr>rx = to_short ((x + int j) * pixelw p),
     ry = to_short ((y + int k) * pixelh p),
     rwidth = to_ushort (pixelw p), rheight = to_ushort (pixelh p)\<rparr>)"

definition draw_digit :: "pong_clock \<Rightarrow> int \<Rightarrow> int \<Rightarrow> int \<Rightarrow> pong_fault + xrequest" where
  "draw_digit p x y digit =
     (if digit < 0 \<or> 10 \<le> digit then Inl Digit_out_of_range
      else Inr (XFillRectangles (map (cell_rect p x y) (glyph_cells (digits ! nat digit)))))"

definition draw_time :: "pong_clock \<Rightarrow> local_tm \<Rightarrow> pong_fault + xrequest list" where
  "draw_time p t =
     bindR (draw_digit p (RESX div 2 - 14) 5 (tm_hour t div 10)) (\<lambda>h1.
     bindR (draw_digit p (RESX div 2 - 8) 5 (tm_hour t mod 10)) (\<lambda>h2.
     bindR (draw_digit p (RESX div 2 + 3) 5 (tm_min t div 10)) (\<lambda>m1.
     bindR (draw_digit p (RESX div 2 + 9) 5 (tm_min t mod 10)) (\<lambda>m2.
     Inr [h1, h2, m1, m2]))))"

definition draw_bat_and_ball :: "pong_clock \<Rightarrow> xrequest list" where
  "draw_bat_and_ball p =
     [XFillRectangle (ball_x p) (ball_y p) (pixelw p) (pixelh p),
      XFillRectangle 0 (bata_y p - 2 * pixelh p) (pixelw p) (pixelh p * 5),
      XFillRectangle (xwin_width p - pixelw p) (batb_y p - 2 * pixelh p) (pixelw p)
        (pixelh p * 5)]"

subsection \<open>A step of the game\<close>

definition bounce :: "pong_clock \<Rightarrow> pong_clock" where
  "bounce p =
     (let p = (if (ball_x p < 0 \<and> \<not> bata_to_miss p)
                \<or> (ball_x p > xwin_width p - pixelw p \<and> \<not> batb_to_miss p)
               then p\<lparr>ball_dx := - ball_dx p\<rparr> else p)
      in if ball_y p < pixelh p \<or> ball_y p > xwin_height p - 2 * pixelh p
         then p\<lparr>ball_dy := - ball_dy p\<rparr> else p)"

definition advance :: "pong_clock \<Rightarrow> pong_clock" where
  "advance p = p\<lparr>ball_x := ball_x p + ball_dx p, ball_y := ball_y p + ball_dy p\<rparr>"

definition serve_a :: "pong_clock \<Rightarrow> pong_clock" where
  "serve_a p = (if bata_to_miss p
     then p\<lparr>bata_to_miss := False, ball_y := bata_y p, ball_x := pixelw p,
            ball_dx := - ball_dx p\<rparr> else p)"

definition serve_b :: "pong_clock \<Rightarrow> pong_clock" where
  "serve_b p = (if batb_to_miss p
     then p\<lparr>batb_to_miss := False, ball_y := batb_y p, ball_x := xwin_width p - pixelw p,
            ball_dx := - ball_dx p\<rparr> else p)"

definition set_up_misses :: "local_tm \<Rightarrow> pong_clock \<Rightarrow> pong_clock" where
  "set_up_misses t p =
     (if tm_sec t > TO_MISS_SECS
      then (if tm_min t = 59 then p\<lparr>batb_to_miss := True\<rparr> else p\<lparr>bata_to_miss := True\<rparr>)
      else serve_b (serve_a p))"

definition move_bats :: "pong_clock \<Rightarrow> pong_clock" where
  "move_bats p =
     (if ball_y p \<ge> 3 * pixelh p \<and> ball_y p \<le> xwin_height p - 5 * pixelh p
      then let p = (if \<not> batb_to_miss p then p\<lparr>batb_y := ball_y p\<rparr> else p)
           in if \<not> bata_to_miss p then p\<lparr>bata_y := ball_y p\<rparr> else p
      else p)"

definition update_state :: "local_tm \<Rightarrow> pong_clock \<Rightarrow> pong_clock" where
  "update_state t p = move_bats (set_up_misses t (advance (bounce p)))"

text \<open>A frame: the time of \<open>update_state\<close>, the time of \<open>draw_time\<close>, and the events that arrive.\<close>

datatype xevent = KeyPress | OtherEvent

record frame =
  at_update :: local_tm
  at_draw :: local_tm
  arrived :: "xevent list"

definition draw_frame :: "frame \<Rightarrow> pong_clock \<Rightarrow> pong_fault + (pong_clock \<times> xrequest list)" where
  "draw_frame f p =
     (let p = update_state (at_update f) p in
      bindR (draw_time p (at_draw f)) (\<lambda>time.
      Inr (p,
        [XSetForeground BlackPixel, XFillRectangle 0 0 (xwin_width p) (xwin_height p),
         XSetForeground WhitePixel] @
        draw_field p @ time @ draw_bat_and_ball p @
        [XSetWindowBackgroundPixmap, XClearWindow, XSync])))"

subsection \<open>The program\<close>

definition pong_init :: "int \<Rightarrow> int \<Rightarrow> pong_clock" where
  "pong_init width height =
     \<lparr>xwin_width = width, xwin_height = height, pixelw = width div RESX, pixelh = height div RESY,
      ball_x = 0, ball_y = height div 2, ball_dx = BALLDX, ball_dy = BALLDY,
      bata_y = height div 2, batb_y = height div 2,
      bata_to_miss = False, batb_to_miss = False\<rparr>"

text \<open>The calls that set the window up, after the state is initialised.\<close>

definition pong_setup :: "pong_clock \<Rightarrow> xrequest list" where
  "pong_setup p =
     [XCreateGC, XInternAtom ''_NET_WM_STATE'', XInternAtom ''_NET_WM_STATE_FULLSCREEN'',
      XCreateSimpleWindow (xwin_width p) (xwin_height p),
      XCreatePixmap (xwin_width p) (xwin_height p),
      XSelectInput, XChangeProperty, XMapWindow]"

datatype pong_outcome = Playing pong_clock "xevent list" | Exited int

text \<open>
  The main loop on the frames seen so far. \<open>XPending\<close> asks for any event, \<open>XCheckMaskEvent\<close> for the
  pressing of a key, which ends the program; other events stay in the queue. Before each frame
  \<open>select\<close> waits \<open>1000000 / FPS\<close> microseconds.
\<close>

definition frame_usec :: int where
  "frame_usec = 1000000 div FPS"

fun pong_loop :: "pong_clock \<Rightarrow> xevent list \<Rightarrow> frame list \<Rightarrow>
    pong_fault + (pong_outcome \<times> xrequest list)" where
  "pong_loop p queue [] = Inr (Playing p queue, [])"
| "pong_loop p queue (f # fs) =
     bindR (draw_frame f p) (\<lambda>(p, out).
     let queue = queue @ arrived f; out = Select frame_usec # out @ [XFlush] in
     if queue \<noteq> [] \<and> KeyPress \<in> set queue then Inr (Exited (- 1), out)
     else bindR (pong_loop p queue fs) (\<lambda>(r, rest). Inr (r, out @ rest)))"

definition pong_main :: "(int \<times> int) option \<Rightarrow> frame list \<Rightarrow>
    pong_fault + (pong_outcome \<times> xrequest list)" where
  "pong_main display fs =
     (case display of None \<Rightarrow> Inr (Exited (- 1), [])
      | Some (width, height) \<Rightarrow>
          let p = pong_init width height in
          bindR (pong_loop p [] fs) (\<lambda>(r, out). Inr (r, pong_setup p @ out)))"

end
