(* ===== verification/Pong_Game.thy ===== *)
theory Pong_Game
  imports Pong_Clock
begin

lemma upt_5: "[0..<5] = [0, 1, 2, 3, 4 :: nat]"
  by (simp add: upt_conv_Cons)

lemma glyphs_distinct: "distinct (map glyph_cells digits)"
  by (simp add: upt_5 glyph_cells_def digits_def)

subsection \<open>Reading the time off the screen\<close>

text \<open>The rectangles a frame fills through \<open>XFillRectangles\<close>, and a digit as an onlooker reads it.\<close>

fun lit :: "xrequest list \<Rightarrow> xrectangle set" where
  "lit [] = {}"
| "lit (XFillRectangles rs # out) = set rs \<union> lit out"
| "lit (_ # out) = lit out"

definition read_digit :: "pong_clock \<Rightarrow> xrequest list \<Rightarrow> int \<Rightarrow> int option" where
  "read_digit p out x =
     map_option int (find (\<lambda>d. glyph_cells (digits ! d) =
        [(k, j). k \<leftarrow> [0..<5], j \<leftarrow> [0..<5], cell_rect p x 5 (k, j) \<in> lit out]) [0..<10])"

definition read_time :: "pong_clock \<Rightarrow> xrequest list \<Rightarrow> (int \<times> int) option" where
  "read_time p out =
     (case (read_digit p out 6, read_digit p out 12, read_digit p out 23, read_digit p out 29) of
        (Some h1, Some h2, Some m1, Some m2) \<Rightarrow> Some (h1 * 10 + h2, m1 * 10 + m2)
      | _ \<Rightarrow> None)"

lemma find_nth_distinct:
  assumes "distinct xs" and "d < length xs"
  shows "find (\<lambda>e. xs ! e = xs ! d) [0..<length xs] = Some d"
  using assms by (auto simp: find_Some_iff nth_eq_iff_index_eq intro!: exI[of _ d])

lemma length_digits: "length digits = 10"
  by (simp add: digits_def)

lemma find_glyph:
  assumes "d < 10"
  shows "find (\<lambda>e. glyph_cells (digits ! e) = glyph_cells (digits ! d)) [0..<10] = Some d"
proof -
  have "find (\<lambda>e. map glyph_cells digits ! e = map glyph_cells digits ! d) [0..<10] = Some d"
    using find_nth_distinct[OF glyphs_distinct, of d] assms by (simp only: length_map length_digits)
  moreover have "map glyph_cells digits ! e = glyph_cells (digits ! e)" if "e < 10" for e
    using that by (simp only: nth_map length_digits)
  ultimately show ?thesis using assms
    by (subst find_cong[OF refl, where Q = "\<lambda>e. map glyph_cells digits ! e = map glyph_cells digits ! d"])
       simp_all
qed

lemma to_short_id: "0 \<le> i \<Longrightarrow> i < 2 ^ 15 \<Longrightarrow> to_short i = i"
  by (simp add: to_short_def signed_take_bit_int_eq_self)

definition screen_ok :: "pong_clock \<Rightarrow> bool" where
  "screen_ok p \<longleftrightarrow> 1 \<le> pixelw p \<and> 1 \<le> pixelh p \<and> pixelw p * RESX < 2 ^ 15 \<and> pixelh p * RESY < 2 ^ 15"

lemma short_mult_inj:
  assumes "1 \<le> w" "w * 40 < 2 ^ 15" "0 \<le> a" "a < 40" "0 \<le> b" "b < 40"
  shows "to_short (a * w) = to_short (b * w) \<longleftrightarrow> a = b"
proof -
  have "c * w < 2 ^ 15" if "c < 40" for c
  proof -
    have "c * w \<le> 40 * w" using that assms(1) by (intro mult_right_mono) auto
    then show ?thesis using assms(2) by simp
  qed
  then show ?thesis using assms by (simp add: to_short_id)
qed

lemma cell_rect_eq:
  assumes "screen_ok p" and "x \<in> {0..34}" "x' \<in> {0..34}" and "k < 5" "j < 5" "k' < 5" "j' < 5"
  shows "cell_rect p x 5 (k, j) = cell_rect p x' 5 (k', j') \<longleftrightarrow> x + int j = x' + int j' \<and> k = k'"
proof -
  have "to_short ((x + int j) * pixelw p) = to_short ((x' + int j') * pixelw p)
      \<longleftrightarrow> x + int j = x' + int j'"
    by (rule short_mult_inj) (use assms in \<open>auto simp: screen_ok_def RESX_def\<close>)
  moreover have "to_short ((5 + int k) * pixelh p) = to_short ((5 + int k') * pixelh p)
      \<longleftrightarrow> 5 + int k = 5 + int k'"
    by (rule short_mult_inj) (use assms in \<open>auto simp: screen_ok_def RESY_def\<close>)
  ultimately show ?thesis by (simp add: cell_rect_def)
qed

lemma glyph_cells_mem: "(k, j) \<in> set (glyph_cells m) \<longleftrightarrow> k < 5 \<and> j < 5 \<and> bit m (k * 5 + j)"
  by (auto simp: glyph_cells_def)

text \<open>The cells of one of the four boxes are lit as the glyph drawn there says.\<close>

definition boxes :: "int list" where
  "boxes = [6, 12, 23, 29]"

definition digit_rects :: "pong_clock \<Rightarrow> int \<Rightarrow> int \<Rightarrow> xrectangle set" where
  "digit_rects p x d = cell_rect p x 5 ` set (glyph_cells (digits ! nat d))"

lemma cell_in_box:
  assumes "screen_ok p" and "x \<in> set boxes" "x' \<in> set boxes" and "k < 5" "j < 5"
  shows "cell_rect p x 5 (k, j) \<in> digit_rects p x' d \<longleftrightarrow>
    x = x' \<and> (k, j) \<in> set (glyph_cells (digits ! nat d))"
proof -
  have eq: "cell_rect p x 5 (k, j) = cell_rect p x' 5 (k', j') \<longleftrightarrow> x = x' \<and> j = j' \<and> k = k'"
    if "k' < 5" "j' < 5" for k' j'
  proof -
    have "x \<in> {0..34}" "x' \<in> {0..34}" using assms(2,3) by (auto simp: boxes_def)
    then have "cell_rect p x 5 (k, j) = cell_rect p x' 5 (k', j') \<longleftrightarrow>
        x + int j = x' + int j' \<and> k = k'"
      using assms(1,4,5) that by (intro cell_rect_eq)
    moreover have "x + int j = x' + int j' \<longleftrightarrow> x = x' \<and> j = j'"
      using assms(2,3,5) that(2) by (auto simp: boxes_def)
    ultimately show ?thesis by auto
  qed
  show ?thesis
    unfolding digit_rects_def image_iff
    using eq by (fastforce simp: glyph_cells_mem)
qed

lemma read_digit_shown:
  assumes "screen_ok p" and "x \<in> set boxes" and "0 \<le> d" "d < 10"
    and "\<And>k j. k < 5 \<Longrightarrow> j < 5 \<Longrightarrow> cell_rect p x 5 (k, j) \<in> lit out \<longleftrightarrow>
      (k, j) \<in> set (glyph_cells (digits ! nat d))"
  shows "read_digit p out x = Some d"
proof -
  have "[(k, j). k \<leftarrow> [0..<5], j \<leftarrow> [0..<5], cell_rect p x 5 (k, j) \<in> lit out] =
      glyph_cells (digits ! nat d)"
    unfolding glyph_cells_def
    by (intro arg_cong[of _ _ concat] map_cong refl) (auto simp: assms(5) glyph_cells_mem)
  moreover have "find (\<lambda>e. glyph_cells (digits ! e) = glyph_cells (digits ! nat d)) [0..<10] =
      Some (nat d)"
    by (rule find_glyph) (use assms(3,4) in auto)
  ultimately show ?thesis using assms(3) by (simp add: read_digit_def)
qed

lemma lit_append: "lit (xs @ ys) = lit xs \<union> lit ys"
  by (induction xs rule: lit.induct) auto

lemma lit_rects: "lit (map (\<lambda>i. draw_rect p x (y i) w h) is) = {}"
  by (induction "is") (simp_all add: draw_rect_def)

lemma lit_frame: "lit (draw_field p) = {}" "lit (draw_bat_and_ball p) = {}"
proof -
  show "lit (draw_field p) = {}"
    unfolding draw_field_def lit_append lit_rects by (simp add: draw_rect_def)
  show "lit (draw_bat_and_ball p) = {}" by (simp add: draw_bat_and_ball_def)
qed

text \<open>\<open>localtime\<close> gives at most 24 hours and 60 minutes; two digits each are enough here.\<close>

definition tm_ok :: "local_tm \<Rightarrow> bool" where
  "tm_ok t \<longleftrightarrow> 0 \<le> tm_hour t \<and> tm_hour t < 100 \<and> 0 \<le> tm_min t \<and> tm_min t < 100"

lemma draw_digit_ok:
  "0 \<le> d \<Longrightarrow> d < 10 \<Longrightarrow>
    draw_digit p x y d = Inr (XFillRectangles (map (cell_rect p x y) (glyph_cells (digits ! nat d))))"
  by (simp add: draw_digit_def)

lemma two_digits:
  assumes "tm_ok t"
  shows "0 \<le> tm_hour t div 10" "tm_hour t div 10 < 10" "0 \<le> tm_min t div 10" "tm_min t div 10 < 10"
  using assms unfolding tm_ok_def by presburger+

lemma draw_time_shown:
  assumes "tm_ok t"
  obtains out where "draw_time p t = Inr out"
    and "lit out = digit_rects p 6 (tm_hour t div 10) \<union> digit_rects p 12 (tm_hour t mod 10) \<union>
           digit_rects p 23 (tm_min t div 10) \<union> digit_rects p 29 (tm_min t mod 10)"
proof
  show "draw_time p t = Inr (map (\<lambda>(x, d). XFillRectangles (map (cell_rect p x 5)
      (glyph_cells (digits ! nat d))))
      [(6, tm_hour t div 10), (12, tm_hour t mod 10), (23, tm_min t div 10), (29, tm_min t mod 10)])"
    using two_digits[OF assms] by (simp add: draw_time_def draw_digit_ok RESX_def)
qed (auto simp: digit_rects_def)

lemma frame_shows_time:
  assumes "screen_ok p" and "tm_ok t"
  obtains out where "draw_time p t = Inr out"
    and "\<And>more. lit more = lit out \<Longrightarrow> read_time p more = Some (tm_hour t, tm_min t)"
proof (rule draw_time_shown[OF assms(2), of p])
  fix out
  assume out: "draw_time p t = Inr out"
    and l: "lit out = digit_rects p 6 (tm_hour t div 10) \<union> digit_rects p 12 (tm_hour t mod 10) \<union>
           digit_rects p 23 (tm_min t div 10) \<union> digit_rects p 29 (tm_min t mod 10)"
  have box: "read_digit p more x = Some d"
    if "lit more = lit out" "(x, d) \<in> {(6, tm_hour t div 10), (12, tm_hour t mod 10),
      (23, tm_min t div 10), (29, tm_min t mod 10)}" for more x d
  proof (rule read_digit_shown[OF assms(1)])
    show x: "x \<in> set boxes" using that(2) by (auto simp: boxes_def)
    show "0 \<le> d" "d < 10" using that(2) two_digits[OF assms(2)] by auto
    fix k j :: nat
    assume kj: "k < 5" "j < 5"
    have "cell_rect p x 5 (k, j) \<in> digit_rects p x' d' \<longleftrightarrow>
        x = x' \<and> (k, j) \<in> set (glyph_cells (digits ! nat d'))"
      if "x' \<in> {6, 12, 23, 29}" for x' d'
      by (rule cell_in_box[OF assms(1) x _ kj]) (use that in \<open>simp add: boxes_def\<close>)
    then show "cell_rect p x 5 (k, j) \<in> lit more \<longleftrightarrow>
        (k, j) \<in> set (glyph_cells (digits ! nat d))"
      using that(2) unfolding that(1) l by auto
  qed
  have "read_time p more = Some (tm_hour t, tm_min t)" if "lit more = lit out" for more
    by (simp add: read_time_def box[OF that])
  with out show thesis by (rule that)
qed

subsection \<open>Runs of the game\<close>

definition pong_run :: "pong_clock \<Rightarrow> frame list \<Rightarrow> pong_clock" where
  "pong_run p fs = fold (\<lambda>f. update_state (at_update f)) fs p"

lemma pong_run_simps [simp]:
  "pong_run p [] = p" "pong_run p (f # fs) = pong_run (update_state (at_update f) p) fs"
  "pong_run p (fs @ gs) = pong_run (pong_run p fs) gs"
  by (simp_all add: pong_run_def)

definition window :: "pong_clock \<Rightarrow> int \<times> int \<times> int \<times> int" where
  "window p = (xwin_width p, xwin_height p, pixelw p, pixelh p)"

lemma window_parts:
  "window (bounce p) = window p" "window (advance p) = window p"
  "window (serve_a p) = window p" "window (serve_b p) = window p" "window (move_bats p) = window p"
  by (simp_all add: window_def bounce_def advance_def serve_a_def serve_b_def move_bats_def Let_def)

lemma window_misses: "window (set_up_misses t p) = window p"
  by (simp add: set_up_misses_def window_parts) (simp add: window_def)

lemma window_update: "window (update_state t p) = window p"
  by (simp add: update_state_def window_parts window_misses)

lemma window_run: "window (pong_run p fs) = window p"
  by (induction fs arbitrary: p) (simp_all add: window_update)

lemma pong_run_window [simp]:
  "xwin_width (pong_run p fs) = xwin_width p" "xwin_height (pong_run p fs) = xwin_height p"
  "pixelw (pong_run p fs) = pixelw p" "pixelh (pong_run p fs) = pixelh p"
  using window_run[of p fs] by (simp_all add: window_def)

definition display_ok :: "int \<Rightarrow> int \<Rightarrow> bool" where
  "display_ok w h \<longleftrightarrow> 40 \<le> w \<and> w < 2 ^ 15 \<and> 40 \<le> h \<and> h < 2 ^ 15"

lemma screen_ok_run: "display_ok w h \<Longrightarrow> screen_ok (pong_run (pong_init w h) fs)"
  by (auto simp: display_ok_def screen_ok_def pong_init_def RESX_def RESY_def)

text \<open>
  Every frame shows the time \<open>draw_time\<close> read: the digits on the screen, taken as an onlooker takes
  them from the lit cells of the four boxes, spell its hour and its minute.
\<close>
theorem pong_shows_the_time:
  assumes "display_ok w h" and "tm_ok (at_draw f)"
  shows "\<exists>out. draw_frame f (pong_run (pong_init w h) fs) =
      Inr (pong_run (pong_init w h) (fs @ [f]), out) \<and>
    read_time (pong_run (pong_init w h) (fs @ [f])) out =
      Some (tm_hour (at_draw f), tm_min (at_draw f))"
proof (rule frame_shows_time[OF screen_ok_run[OF assms(1), of "fs @ [f]"] assms(2)])
  fix time
  assume "draw_time (pong_run (pong_init w h) (fs @ [f])) (at_draw f) = Inr time"
    and "\<And>out. lit out = lit time \<Longrightarrow> read_time (pong_run (pong_init w h) (fs @ [f])) out =
      Some (tm_hour (at_draw f), tm_min (at_draw f))"
  then show ?thesis by (simp add: draw_frame_def Let_def lit_append lit_frame)
qed

text \<open>A frame at a given time, without events.\<close>

definition frame_at :: "int \<Rightarrow> int \<Rightarrow> int \<Rightarrow> frame" where
  "frame_at h m s =
     (let t = \<lparr>tm_hour = h, tm_min = m, tm_sec = s\<rparr> in
      \<lparr>at_update = t, at_draw = t, arrived = []\<rparr>)"

lemma frame_at_sel [simp]:
  "at_update (frame_at h m s) = \<lparr>tm_hour = h, tm_min = m, tm_sec = s\<rparr>"
  "at_draw (frame_at h m s) = \<lparr>tm_hour = h, tm_min = m, tm_sec = s\<rparr>"
  "arrived (frame_at h m s) = []"
  by (simp_all add: frame_at_def Let_def)

theorem pong_shows_the_time_witness:
  "\<exists>out. draw_frame (frame_at 9 5 0) (pong_init 320 240) =
      Inr (pong_run (pong_init 320 240) [frame_at 9 5 0], out) \<and>
    read_time (pong_run (pong_init 320 240) [frame_at 9 5 0]) out = Some (9, 5)"
  using pong_shows_the_time[of 320 240 "frame_at 9 5 0" "[]"]
  by (simp add: display_ok_def tm_ok_def)

end
