(* ===== verification/Pong_Match.thy ===== *)
theory Pong_Match
  imports Pong_Game
begin

text \<open>
  How the game goes: what a frame preserves, that the bats and the ball stay where they belong, and
  that a minute ends with a point: whoever is to miss does miss, when the display is not too wide for
  the frames of four seconds.
\<close>

subsection \<open>The invariant\<close>

definition last_x :: "pong_clock \<Rightarrow> int" where
  "last_x p = xwin_width p - pixelw p"

definition court_ok :: "pong_clock \<Rightarrow> bool" where
  "court_ok p \<longleftrightarrow> 1 \<le> pixelw p \<and> 1 \<le> pixelh p \<and> 40 * pixelw p \<le> xwin_width p \<and>
     40 * pixelh p \<le> xwin_height p"

text \<open>A bat is five cells high and \<open>bat_y\<close> is the top of its middle cell.\<close>

definition bat_ok :: "pong_clock \<Rightarrow> int \<Rightarrow> bool" where
  "bat_ok p y \<longleftrightarrow> 3 * pixelh p \<le> y \<and> y \<le> xwin_height p - 5 * pixelh p"

text \<open>A ball outside the field is on its way out; it is back after the next frame.\<close>

definition ball_y_ok :: "pong_clock \<Rightarrow> bool" where
  "ball_y_ok p \<longleftrightarrow> \<bar>ball_dy p\<bar> = BALLDY \<and>
     (pixelh p \<le> ball_y p \<or> pixelh p - BALLDY \<le> ball_y p \<and> ball_dy p < 0) \<and>
     (ball_y p \<le> xwin_height p - 2 * pixelh p \<or>
      ball_y p \<le> xwin_height p - 2 * pixelh p + BALLDY \<and> ball_dy p > 0)"

definition ball_x_ok :: "pong_clock \<Rightarrow> bool" where
  "ball_x_ok p \<longleftrightarrow> \<bar>ball_dx p\<bar> = BALLDX \<and>
     (0 \<le> ball_x p \<or> ball_dx p < 0 \<and> (bata_to_miss p \<or> - BALLDX \<le> ball_x p)) \<and>
     (ball_x p \<le> last_x p \<or> ball_dx p > 0 \<and> (batb_to_miss p \<or> ball_x p \<le> last_x p + BALLDX))"

definition pong_inv :: "pong_clock \<Rightarrow> bool" where
  "pong_inv p \<longleftrightarrow> court_ok p \<and> bat_ok p (bata_y p) \<and> bat_ok p (batb_y p) \<and>
     ball_y_ok p \<and> ball_x_ok p"

lemmas pong_inv_defs = pong_inv_def court_ok_def bat_ok_def ball_y_ok_def ball_x_ok_def last_x_def

text \<open>The horizontal and the vertical part of a move, flags unchanged.\<close>

lemma move_sel:
  "ball_dx (advance (bounce p)) =
     (if ball_x p < 0 \<and> \<not> bata_to_miss p \<or> ball_x p > last_x p \<and> \<not> batb_to_miss p
      then - ball_dx p else ball_dx p)"
  "ball_dy (advance (bounce p)) =
     (if ball_y p < pixelh p \<or> ball_y p > xwin_height p - 2 * pixelh p
      then - ball_dy p else ball_dy p)"
  "ball_x (advance (bounce p)) = ball_x p + ball_dx (advance (bounce p))"
  "ball_y (advance (bounce p)) = ball_y p + ball_dy (advance (bounce p))"
  "bata_y (advance (bounce p)) = bata_y p" "batb_y (advance (bounce p)) = batb_y p"
  "bata_to_miss (advance (bounce p)) = bata_to_miss p"
  "batb_to_miss (advance (bounce p)) = batb_to_miss p"
  "xwin_width (advance (bounce p)) = xwin_width p" "xwin_height (advance (bounce p)) = xwin_height p"
  "pixelw (advance (bounce p)) = pixelw p" "pixelh (advance (bounce p)) = pixelh p"
  "last_x (advance (bounce p)) = last_x p"
  by (auto simp: advance_def bounce_def last_x_def Let_def)

lemma move_ball_y: "court_ok p \<Longrightarrow> ball_y_ok p \<Longrightarrow> ball_y_ok (advance (bounce p))"
  unfolding ball_y_ok_def court_ok_def move_sel BALLDY_def by (simp split: if_split) arith

lemma move_ball_x: "court_ok p \<Longrightarrow> ball_x_ok p \<Longrightarrow> ball_x_ok (advance (bounce p))"
  unfolding ball_x_ok_def court_ok_def move_sel BALLDX_def
  by (simp add: last_x_def split: if_split) arith

lemma move_inv: "pong_inv p \<Longrightarrow> pong_inv (advance (bounce p))"
  using move_ball_x[of p] move_ball_y[of p]
  by (simp add: pong_inv_def court_ok_def bat_ok_def move_sel)

lemma serve_a_inv: "pong_inv p \<Longrightarrow> pong_inv (serve_a p)"
  by (auto simp: serve_a_def pong_inv_defs BALLDX_def BALLDY_def)

lemma serve_b_inv: "pong_inv p \<Longrightarrow> pong_inv (serve_b p)"
  by (auto simp: serve_b_def pong_inv_defs BALLDX_def BALLDY_def)

lemma set_up_misses_inv: "pong_inv p \<Longrightarrow> pong_inv (set_up_misses t p)"
  by (auto simp: set_up_misses_def serve_a_inv serve_b_inv) (auto simp: pong_inv_defs)

lemma move_bats_inv: "pong_inv p \<Longrightarrow> pong_inv (move_bats p)"
  by (auto simp: move_bats_def pong_inv_defs Let_def)

lemma update_state_inv: "pong_inv p \<Longrightarrow> pong_inv (update_state t p)"
  by (simp add: update_state_def move_bats_inv set_up_misses_inv move_inv)

lemma pong_run_inv: "pong_inv p \<Longrightarrow> pong_inv (pong_run p fs)"
  by (induction fs arbitrary: p) (simp_all add: update_state_inv)

lemma pong_init_inv: "display_ok w h \<Longrightarrow> pong_inv (pong_init w h)"
  by (auto simp: pong_inv_defs pong_init_def display_ok_def RESX_def RESY_def BALLDX_def BALLDY_def)

subsection \<open>A point is lost\<close>

definition late :: "local_tm \<Rightarrow> bool" where
  "late t \<longleftrightarrow> tm_sec t > TO_MISS_SECS"

lemma move_bats_sel:
  "ball_x (move_bats p) = ball_x p" "ball_y (move_bats p) = ball_y p"
  "ball_dx (move_bats p) = ball_dx p" "last_x (move_bats p) = last_x p"
  "bata_to_miss (move_bats p) = bata_to_miss p" "batb_to_miss (move_bats p) = batb_to_miss p"
  "bata_to_miss p \<Longrightarrow> bata_y (move_bats p) = bata_y p"
  "batb_to_miss p \<Longrightarrow> batb_y (move_bats p) = batb_y p"
  by (auto simp: move_bats_def last_x_def Let_def)

lemma last_x_update: "last_x (update_state t p) = last_x p"
  using window_update[of t p] by (simp add: last_x_def window_def)

lemma late_step:
  assumes "late t"
  shows "update_state t p = move_bats ((advance (bounce p))
    \<lparr>bata_to_miss := tm_min t \<noteq> 59 \<or> bata_to_miss p,
     batb_to_miss := tm_min t = 59 \<or> batb_to_miss p\<rparr>)"
  using assms by (auto simp: update_state_def set_up_misses_def late_def move_sel
      intro!: arg_cong[of _ _ move_bats] pong_clock.equality)

lemma late_sel:
  assumes "late t"
  shows "ball_x (update_state t p) = ball_x p + ball_dx (update_state t p)"
    and "ball_dx (update_state t p) =
      (if ball_x p < 0 \<and> \<not> bata_to_miss p \<or> ball_x p > last_x p \<and> \<not> batb_to_miss p
       then - ball_dx p else ball_dx p)"
    and "bata_to_miss (update_state t p) \<longleftrightarrow> tm_min t \<noteq> 59 \<or> bata_to_miss p"
    and "batb_to_miss (update_state t p) \<longleftrightarrow> tm_min t = 59 \<or> batb_to_miss p"
    and "tm_min t \<noteq> 59 \<or> bata_to_miss p \<Longrightarrow> bata_y (update_state t p) = bata_y p"
    and "tm_min t = 59 \<or> batb_to_miss p \<Longrightarrow> batb_y (update_state t p) = batb_y p"
  unfolding late_step[OF assms] by (simp_all add: move_bats_sel move_sel)

text \<open>How far the ball still has to go until it is past the left or the right edge.\<close>

definition way_left :: "pong_clock \<Rightarrow> int" where
  "way_left p = (if ball_dx p < 0 then ball_x p else 2 * last_x p + 2 * BALLDX - ball_x p)"

definition way_right :: "pong_clock \<Rightarrow> int" where
  "way_right p = (if ball_dx p > 0 then last_x p - ball_x p else last_x p + 2 * BALLDX + ball_x p)"

lemmas way_defs = way_left_def way_right_def pong_inv_def ball_x_ok_def court_ok_def BALLDX_def

lemma way_left_start:
  assumes "pong_inv p" "late t" "\<not> batb_to_miss p"
  shows "way_left (update_state t p) \<le> 2 * last_x p + 2 * BALLDX"
  using assms unfolding way_defs last_x_update late_sel[OF assms(2)]
  by (simp add: last_x_def split: if_split) arith

lemma way_left_step:
  assumes "pong_inv p" "late t" "bata_to_miss p" "\<not> batb_to_miss p"
  shows "way_left (update_state t p) \<le> way_left p - BALLDX"
  using assms unfolding way_defs last_x_update late_sel[OF assms(2)]
  by (simp add: last_x_def split: if_split) arith

lemma way_right_start:
  assumes "pong_inv p" "late t" "\<not> bata_to_miss p"
  shows "way_right (update_state t p) \<le> 2 * last_x p + 2 * BALLDX"
  using assms unfolding way_defs last_x_update late_sel[OF assms(2)]
  by (simp add: last_x_def split: if_split) arith

lemma way_right_step:
  assumes "pong_inv p" "late t" "batb_to_miss p" "\<not> bata_to_miss p"
  shows "way_right (update_state t p) \<le> way_right p - BALLDX"
  using assms unfolding way_defs last_x_update late_sel[OF assms(2)]
  by (simp add: last_x_def split: if_split) arith

lemma way_left_run:
  assumes "pong_inv p" "bata_to_miss p" "\<not> batb_to_miss p"
    and "\<forall>f\<in>set ls. late (at_update f) \<and> tm_min (at_update f) \<noteq> 59"
  shows "way_left (pong_run p ls) \<le> way_left p - BALLDX * int (length ls) \<and>
    bata_to_miss (pong_run p ls) \<and> \<not> batb_to_miss (pong_run p ls) \<and>
    bata_y (pong_run p ls) = bata_y p"
  using assms
proof (induction ls arbitrary: p)
  case (Cons f ls)
  then have f: "late (at_update f)" "tm_min (at_update f) \<noteq> 59" by auto
  have "way_left (update_state (at_update f) p) \<le> way_left p - BALLDX"
    by (rule way_left_step[OF Cons.prems(1) f(1) Cons.prems(2,3)])
  with Cons.IH[of "update_state (at_update f) p"] Cons.prems f show ?case
    by (simp add: update_state_inv late_sel algebra_simps)
qed simp

lemma way_right_run:
  assumes "pong_inv p" "batb_to_miss p" "\<not> bata_to_miss p"
    and "\<forall>f\<in>set ls. late (at_update f) \<and> tm_min (at_update f) = 59"
  shows "way_right (pong_run p ls) \<le> way_right p - BALLDX * int (length ls) \<and>
    batb_to_miss (pong_run p ls) \<and> \<not> bata_to_miss (pong_run p ls) \<and>
    batb_y (pong_run p ls) = batb_y p"
  using assms
proof (induction ls arbitrary: p)
  case (Cons f ls)
  then have f: "late (at_update f)" "tm_min (at_update f) = 59" by auto
  have "way_right (update_state (at_update f) p) \<le> way_right p - BALLDX"
    by (rule way_right_step[OF Cons.prems(1) f(1) Cons.prems(2,3)])
  with Cons.IH[of "update_state (at_update f) p"] Cons.prems f show ?case
    by (simp add: update_state_inv late_sel algebra_simps)
qed simp

text \<open>
  The serve after a miss: the first frame that is not late clears both flags. With one of them set, the
  ball is put before the bat of the player who missed and the other bat joins it at that height.
\<close>

lemma serve_after_left:
  assumes "\<not> late t" "pong_inv p" "bata_to_miss p" "\<not> batb_to_miss p" "way_left p \<le> - pixelw p"
  shows "ball_x (update_state t p) = pixelw p \<and> ball_dx (update_state t p) = BALLDX \<and>
    ball_y (update_state t p) = bata_y p \<and> bata_y (update_state t p) = bata_y p \<and>
    batb_y (update_state t p) = bata_y p \<and>
    \<not> bata_to_miss (update_state t p) \<and> \<not> batb_to_miss (update_state t p)"
proof -
  have "ball_dx p = - BALLDX" "\<not> ball_x p > last_x p"
    using assms(2,4,5) by (auto simp: way_defs last_x_def split: if_splits)
  with assms have "ball_dx (advance (bounce p)) = - BALLDX" by (simp add: move_sel)
  moreover have "bat_ok p (bata_y p)" using assms(2) by (simp add: pong_inv_def)
  ultimately show ?thesis
    using assms(1,3,4)
    by (simp add: update_state_def set_up_misses_def late_def serve_a_def serve_b_def move_sel
        move_bats_def bat_ok_def)
qed

lemma serve_after_right:
  assumes "\<not> late t" "pong_inv p" "batb_to_miss p" "\<not> bata_to_miss p" "way_right p \<le> - pixelw p"
  shows "ball_x (update_state t p) = last_x p \<and> ball_dx (update_state t p) = - BALLDX \<and>
    ball_y (update_state t p) = batb_y p \<and> bata_y (update_state t p) = batb_y p \<and>
    batb_y (update_state t p) = batb_y p \<and>
    \<not> bata_to_miss (update_state t p) \<and> \<not> batb_to_miss (update_state t p)"
proof -
  have "ball_dx p = BALLDX" "\<not> ball_x p < 0"
    using assms(2,4,5) by (auto simp: way_defs last_x_def split: if_splits)
  with assms have "ball_dx (advance (bounce p)) = BALLDX" by (simp add: move_sel)
  moreover have "bat_ok p (batb_y p)" using assms(2) by (simp add: pong_inv_def)
  ultimately show ?thesis
    using assms(1,3,4)
    by (simp add: update_state_def set_up_misses_def late_def serve_a_def serve_b_def move_sel
        move_bats_def bat_ok_def last_x_def)
qed

lemma left_is_out:
  assumes "pong_inv p" "\<not> bata_to_miss p" "\<not> batb_to_miss p" "0 < length ls"
    and "\<forall>f\<in>set ls. late (at_update f) \<and> tm_min (at_update f) \<noteq> 59"
    and "2 * xwin_width p + 3 * BALLDX \<le> BALLDX * int (length ls)"
  shows "way_left (pong_run p ls) \<le> - pixelw p \<and> bata_to_miss (pong_run p ls) \<and>
    \<not> batb_to_miss (pong_run p ls) \<and> bata_y (pong_run p ls) = bata_y p"
proof -
  from assms(4) obtain f ls' where ls: "ls = f # ls'" by (cases ls) auto
  let ?p = "update_state (at_update f) p"
  have f: "late (at_update f)" "tm_min (at_update f) \<noteq> 59" using assms(5) ls by auto
  have "way_left ?p \<le> 2 * last_x p + 2 * BALLDX"
    by (rule way_left_start[OF assms(1) f(1) assms(3)])
  moreover have "pong_inv ?p" by (rule update_state_inv[OF assms(1)])
  moreover have "bata_to_miss ?p" "\<not> batb_to_miss ?p" "bata_y ?p = bata_y p"
    using assms(3) f by (simp_all add: late_sel)
  moreover have "1 \<le> pixelw p" using assms(1) by (simp add: pong_inv_def court_ok_def)
  ultimately show ?thesis
    using way_left_run[of ?p ls'] assms(5,6) ls by (simp add: last_x_def algebra_simps)
qed

lemma right_is_out:
  assumes "pong_inv p" "\<not> bata_to_miss p" "\<not> batb_to_miss p" "0 < length ls"
    and "\<forall>f\<in>set ls. late (at_update f) \<and> tm_min (at_update f) = 59"
    and "2 * xwin_width p + 3 * BALLDX \<le> BALLDX * int (length ls)"
  shows "way_right (pong_run p ls) \<le> - pixelw p \<and> batb_to_miss (pong_run p ls) \<and>
    \<not> bata_to_miss (pong_run p ls) \<and> batb_y (pong_run p ls) = batb_y p"
proof -
  from assms(4) obtain f ls' where ls: "ls = f # ls'" by (cases ls) auto
  let ?p = "update_state (at_update f) p"
  have f: "late (at_update f)" "tm_min (at_update f) = 59" using assms(5) ls by auto
  have "way_right ?p \<le> 2 * last_x p + 2 * BALLDX"
    by (rule way_right_start[OF assms(1) f(1) assms(2)])
  moreover have "pong_inv ?p" by (rule update_state_inv[OF assms(1)])
  moreover have "batb_to_miss ?p" "\<not> bata_to_miss ?p" "batb_y ?p = batb_y p"
    using assms(2) f by (simp_all add: late_sel)
  moreover have "1 \<le> pixelw p" using assms(1) by (simp add: pong_inv_def court_ok_def)
  ultimately show ?thesis
    using way_right_run[of ?p ls'] assms(5,6) ls by (simp add: last_x_def algebra_simps)
qed

lemma not_late_clears:
  "\<not> late t \<Longrightarrow> \<not> bata_to_miss (update_state t p) \<and> \<not> batb_to_miss (update_state t p)"
  by (simp add: update_state_def set_up_misses_def late_def move_bats_sel serve_a_def serve_b_def)

text \<open>How many frames the clock has been in the last seconds of its minute.\<close>

definition late_frames :: "frame list \<Rightarrow> nat" where
  "late_frames fs = length (takeWhile (\<lambda>f. late (at_update f)) (rev fs))"

lemma ball_x_bound:
  assumes "pong_inv p" "\<not> bata_to_miss p" "\<not> batb_to_miss p"
  shows "- (BALLDX * (int (late_frames fs) + 1)) \<le> ball_x (pong_run p fs) \<and>
    ball_x (pong_run p fs) \<le> last_x p + BALLDX * (int (late_frames fs) + 1)"
proof (induction fs rule: rev_induct)
  case Nil
  then show ?case using assms
    by (auto simp: late_frames_def pong_inv_def ball_x_ok_def court_ok_def last_x_def BALLDX_def)
next
  case (snoc f fs)
  let ?q = "pong_run p fs"
  have inv: "pong_inv ?q" "pong_inv (update_state (at_update f) ?q)"
    by (simp_all add: assms(1) pong_run_inv update_state_inv)
  show ?case
  proof (cases "late (at_update f)")
    case True
    have "- BALLDX \<le> ball_dx (update_state (at_update f) ?q)"
      "ball_dx (update_state (at_update f) ?q) \<le> BALLDX"
      using inv(2) by (auto simp: pong_inv_def ball_x_ok_def)
    with snoc True show ?thesis
      by (simp add: late_frames_def late_sel(1)[OF True] algebra_simps)
  next
    case False
    then have flags: "\<not> bata_to_miss (update_state (at_update f) ?q)"
      "\<not> batb_to_miss (update_state (at_update f) ?q)" by (simp_all add: not_late_clears)
    have x: "last_x (update_state (at_update f) ?q) = last_x p"
      by (simp add: last_x_update) (simp add: last_x_def)
    have "1 \<le> pixelw ?q" "40 * pixelw ?q \<le> xwin_width ?q"
      using inv(1) by (simp_all only: pong_inv_def court_ok_def)
    then have "0 \<le> last_x p" by (simp add: last_x_def)
    with inv(2) flags False show ?thesis
      by (auto simp: pong_inv_def ball_x_ok_def late_frames_def x BALLDX_def)
  qed
qed

subsection \<open>The main loop\<close>

text \<open>Without a key the loop runs the game on; the first frame with one ends the program.\<close>

lemma draw_frame_ok:
  assumes "tm_ok (at_draw f)"
  obtains out where "draw_frame f p = Inr (update_state (at_update f) p, out)"
  by (rule draw_time_shown[OF assms, of "update_state (at_update f) p"])
     (auto simp: draw_frame_def Let_def)

lemma pong_loop_plays:
  assumes "\<forall>f\<in>set fs. tm_ok (at_draw f) \<and> KeyPress \<notin> set (arrived f)" and "KeyPress \<notin> set queue"
  shows "\<exists>out. pong_loop p queue fs =
    Inr (Playing (pong_run p fs) (queue @ concat (map arrived fs)), out)"
  using assms
proof (induction fs arbitrary: p queue)
  case (Cons f fs)
  show ?case
    by (rule draw_frame_ok[of f p])
       (use Cons.prems Cons.IH[of "queue @ arrived f" "update_state (at_update f) p"] in
         \<open>auto simp: Let_def\<close>)
qed simp

lemma pong_loop_key:
  assumes "\<forall>f\<in>set (fs @ [f]). tm_ok (at_draw f)" and "\<forall>f\<in>set fs. KeyPress \<notin> set (arrived f)"
    and "KeyPress \<in> set (arrived f)" and "KeyPress \<notin> set queue"
  shows "\<exists>out. pong_loop p queue (fs @ f # gs) = Inr (Exited (- 1), out)"
  using assms
proof (induction fs arbitrary: p queue)
  case Nil
  show ?case by (rule draw_frame_ok[of f p]) (use Nil.prems in \<open>auto simp: Let_def\<close>)
next
  case (Cons e fs)
  show ?case
    by (rule draw_frame_ok[of e p])
       (use Cons.prems Cons.IH[of "queue @ arrived e" "update_state (at_update e) p"] in
         \<open>auto simp: Let_def\<close>)
qed

subsection \<open>The properties\<close>

lemma pong_inv_reached: "display_ok w h \<Longrightarrow> pong_inv (pong_run (pong_init w h) fs)"
  by (simp add: pong_init_inv pong_run_inv)

lemma pong_init_sel [simp]:
  "xwin_width (pong_init w h) = w" "xwin_height (pong_init w h) = h"
  "\<not> bata_to_miss (pong_init w h)" "\<not> batb_to_miss (pong_init w h)"
  by (simp_all add: pong_init_def)

lemma pong_enough_frames: "2 * w + 3 * BALLDX \<le> BALLDX * int (length ls) \<Longrightarrow> 40 \<le> w \<Longrightarrow> 0 < length ls"
  by (cases ls) (auto simp: BALLDX_def)

text \<open>
  C37: Whatever the clock says, both bats stay between the lines of the field, the ball leaves it at the
  top and the bottom by less than one step, and at the sides by one step for every frame of the present
  run of late ones and one more.
\<close>
theorem pong_stays_on_court:
  fixes w h fs
  defines "p \<equiv> pong_run (pong_init w h) fs"
  assumes "display_ok w h"
  shows "pixelh p \<le> bata_y p - 2 * pixelh p \<and> bata_y p + 3 * pixelh p \<le> h - 2 * pixelh p \<and>
    pixelh p \<le> batb_y p - 2 * pixelh p \<and> batb_y p + 3 * pixelh p \<le> h - 2 * pixelh p \<and>
    pixelh p - BALLDY \<le> ball_y p \<and> ball_y p \<le> h - 2 * pixelh p + BALLDY \<and>
    - (BALLDX * (int (late_frames fs) + 1)) \<le> ball_x p \<and>
    ball_x p \<le> w - pixelw p + BALLDX * (int (late_frames fs) + 1)"
proof -
  have "pong_inv p" unfolding p_def by (rule pong_inv_reached[OF assms(2)])
  moreover have "xwin_height p = h" by (simp add: p_def)
  moreover have "last_x (pong_init w h) = w - pixelw p" by (simp add: p_def last_x_def)
  ultimately show ?thesis
    using ball_x_bound[OF pong_init_inv[OF assms(2)], of fs] unfolding p_def[symmetric]
    by (auto simp: pong_inv_def bat_ok_def ball_y_ok_def BALLDY_def)
qed

text \<open>
  C36: The minute ends with a point. Let nobody be set up to miss, then let frames come whose clock is in
  the last seconds of a minute, and let them be enough for two widths of the display: the ball has then
  left the display behind the bat on the left, or on the right if the minute is the last of its hour,
  and that bat has not moved. The first frame of the next minute serves from that bat, away from it.
\<close>
theorem pong_minute_ends_with_a_point:
  fixes w h fs ls g hour
  defines "p \<equiv> pong_run (pong_init w h) fs"
  defines "q \<equiv> pong_run (pong_init w h) (fs @ ls)"
  defines "r \<equiv> pong_run (pong_init w h) (fs @ ls @ [g])"
  assumes "display_ok w h" and "\<not> bata_to_miss p" and "\<not> batb_to_miss p"
    and "\<forall>f\<in>set ls. late (at_update f) \<and> (tm_min (at_update f) = 59 \<longleftrightarrow> hour)"
    and "2 * w + 3 * BALLDX \<le> BALLDX * int (length ls)" and "\<not> late (at_update g)"
  shows "(if hour then w \<le> ball_x q \<and> batb_y q = batb_y p else ball_x q + pixelw q \<le> 0 \<and> bata_y q = bata_y p) \<and>
    (if hour then ball_x r = w - pixelw r \<and> ball_dx r = - BALLDX \<and> ball_y r = batb_y p
     else ball_x r = pixelw r \<and> ball_dx r = BALLDX \<and> ball_y r = bata_y p) \<and>
    bata_y r = ball_y r \<and> batb_y r = ball_y r \<and> \<not> bata_to_miss r \<and> \<not> batb_to_miss r"
proof -
  have inv: "pong_inv p" "pong_inv q"
    unfolding p_def q_def by (simp_all add: pong_init_inv pong_run_inv assms(4))
  have q: "q = pong_run p ls" and r: "r = update_state (at_update g) q"
    by (simp_all add: p_def q_def r_def)
  have w: "xwin_width p = w" "last_x q = w - pixelw q" "pixelw q = pixelw p" "pixelw r = pixelw p"
    by (simp_all only: p_def q_def r_def last_x_def pong_run_window pong_init_sel)
  have ls: "0 < length ls" using pong_enough_frames[OF assms(8)] assms(4) by (simp add: display_ok_def)
  have pos: "1 \<le> pixelw q" "40 * pixelw q \<le> xwin_width q"
    using inv(2) by (simp_all only: pong_inv_def court_ok_def)
  show ?thesis
  proof (cases hour)
    case True
    then have out: "way_right q \<le> - pixelw q \<and> batb_to_miss q \<and> \<not> bata_to_miss q \<and> batb_y q = batb_y p"
      unfolding q using right_is_out[OF inv(1) assms(5,6) ls] assms(7,8) w(1) by (simp add: q)
    then have "w \<le> ball_x q"
      using pos inv(2) w by (auto simp: way_defs last_x_def split: if_splits)
    with True out serve_after_right[OF assms(9) inv(2)] show ?thesis
      unfolding r[symmetric] by (simp add: w)
  next
    case False
    then have out: "way_left q \<le> - pixelw q \<and> bata_to_miss q \<and> \<not> batb_to_miss q \<and> bata_y q = bata_y p"
      unfolding q using left_is_out[OF inv(1) assms(5,6) ls] assms(7,8) w(1) by (simp add: q)
    then have "ball_x q + pixelw q \<le> 0"
      using pos inv(2) w by (auto simp: way_defs last_x_def split: if_splits)
    with False out serve_after_left[OF assms(9) inv(2)] show ?thesis
      unfolding r[symmetric] by (simp add: w)
  qed
qed

theorem pong_stays_on_court_witness:
  "let p = pong_run (pong_init 320 240) [frame_at 9 30 56, frame_at 9 30 57] in
   pixelh p \<le> bata_y p - 2 * pixelh p \<and> - 48 \<le> ball_x p \<and> ball_x p \<le> 360"
proof -
  have "pixelw (pong_init 320 240) = 8" by (simp add: pong_init_def RESX_def)
  then show ?thesis
    using pong_stays_on_court[of 320 240 "[frame_at 9 30 56, frame_at 9 30 57]"]
    by (simp add: display_ok_def late_frames_def late_def TO_MISS_SECS_def BALLDX_def Let_def
        del: pong_run_simps)
qed

text \<open>Forty-four frames are enough on a display of 320 by 240, in a minute and at the end of an hour.\<close>

theorem pong_minute_ends_with_a_point_witness:
  "ball_x (pong_run (pong_init 320 240) (replicate 44 (frame_at 9 30 56) @ [frame_at 9 31 0])) = 8 \<and>
   ball_x (pong_run (pong_init 320 240) (replicate 44 (frame_at 9 59 56) @ [frame_at 10 0 0])) = 312"
proof -
  have px: "pixelw (pong_init 320 240) = 8" by (simp add: pong_init_def RESX_def)
  have ok: "display_ok 320 240" by (simp add: display_ok_def)
  have "2 * 320 + 3 * BALLDX \<le> BALLDX * int (length (replicate 44 f))" for f :: frame
    by (simp add: BALLDX_def)
  moreover have "late (at_update (frame_at h m 56))" "\<not> late (at_update (frame_at h m 0))" for h m
    by (simp_all add: late_def TO_MISS_SECS_def)
  moreover have "tm_min (at_update (frame_at h m s)) = m" for h m s by (simp add:)
  ultimately show ?thesis
    using pong_minute_ends_with_a_point[of 320 240 "[]" "replicate 44 (frame_at 9 30 56)" False
        "frame_at 9 31 0"]
      pong_minute_ends_with_a_point[of 320 240 "[]" "replicate 44 (frame_at 9 59 56)" True
        "frame_at 10 0 0"]
    by (simp add: ok px pong_run_simps(1) del: pong_run_simps(2,3))
qed

text \<open>
  On a display of 1920 by 1080 the 200 frames of four seconds are not enough: started in
  the last seconds of a minute, the ball is in the middle of the field when the minute ends, and the
  first frame of the next minute takes it to the left bat, flying on in its direction reversed, without
  a miss.
\<close>
theorem pong_wide_display_no_point:
  "let q = pong_run (pong_init 1920 1080) (replicate 200 (frame_at 9 30 56));
       r = update_state (at_update (frame_at 9 31 0)) q
   in bata_to_miss q \<and> ball_x q = 576 \<and> ball_dx q = - BALLDX \<and>
      ball_x r = pixelw r \<and> ball_dx r = BALLDX"
  by code_simp

text \<open>
  The program runs until a key is pressed: it goes on through every frame without one, whatever
  other events arrive (they stay in the queue), and the first frame with one ends it.
\<close>
theorem pong_main_ends_with_a_key:
  assumes "\<forall>f\<in>set fs. tm_ok (at_draw f) \<and> KeyPress \<notin> set (arrived f)"
    and "tm_ok (at_draw g)" and "KeyPress \<in> set (arrived g)"
  shows "\<exists>out out'.
    pong_main (Some (w, h)) fs =
      Inr (Playing (pong_run (pong_init w h) fs) (concat (map arrived fs)), out) \<and>
    pong_main (Some (w, h)) (fs @ g # gs) = Inr (Exited (- 1), out')"
proof -
  from pong_loop_plays[of fs "[]" "pong_init w h"] assms(1) obtain out where
    "pong_loop (pong_init w h) [] fs =
      Inr (Playing (pong_run (pong_init w h) fs) (concat (map arrived fs)), out)" by auto
  moreover from pong_loop_key[of fs g "[]" "pong_init w h" gs] assms obtain out' where
    "pong_loop (pong_init w h) [] (fs @ g # gs) = Inr (Exited (- 1), out')" by auto
  ultimately show ?thesis by (simp add: pong_main_def Let_def)
qed

theorem pong_main_ends_with_a_key_witness:
  "\<exists>out. pong_main (Some (320, 240))
     [frame_at 9 30 0, (frame_at 9 30 0)\<lparr>arrived := [OtherEvent, KeyPress]\<rparr>] = Inr (Exited (- 1), out)"
  using pong_main_ends_with_a_key[of "[frame_at 9 30 0]"
      "(frame_at 9 30 0)\<lparr>arrived := [OtherEvent, KeyPress]\<rparr>" 320 240 "[]"]
  by (auto simp: tm_ok_def simp del: pong_loop.simps)

end
