(* ===== verification/Getopt.thy ===== *)
theory Getopt
  imports Prelude
begin

text \<open>
  The \<open>getopt\<close> of the C library for short options, as the GNU one works: options may be bundled in one
  argument, the value of an option is the rest of its argument or the next one, arguments that are no
  options are moved behind, and \<open>--\<close> ends the options. A program sees one option per call; the model
  gives them as a list, with what is left of the arguments.
\<close>

datatype parsed_opt = Flag char | Valued char string | Bad_option

text \<open>An option string: whether a letter is an option, and whether it takes a value.\<close>

type_synonym opt_spec = "char \<Rightarrow> bool option"

fun opt_spec_of :: "string \<Rightarrow> opt_spec" where
  "opt_spec_of [] x = None"
| "opt_spec_of [c] x = (if x = c then Some False else None)"
| "opt_spec_of (c # d # s) x =
     (if x = c then Some (d = CHR '':'') else opt_spec_of (d # s) x)"

fun opt_bundle :: "opt_spec \<Rightarrow> string \<Rightarrow> string list \<Rightarrow> parsed_opt list \<times> string list" where
  "opt_bundle spec [] args = ([], args)"
| "opt_bundle spec (c # cs) args =
     (case if c = CHR '':'' then None else spec c of
        None \<Rightarrow> apfst (Cons Bad_option) (opt_bundle spec cs args)
      | Some False \<Rightarrow> apfst (Cons (Flag c)) (opt_bundle spec cs args)
      | Some True \<Rightarrow>
          if cs \<noteq> [] then ([Valued c cs], args)
          else (case args of [] \<Rightarrow> ([Bad_option], []) | a # as \<Rightarrow> ([Valued c a], as)))"

lemma opt_bundle_args: "length (snd (opt_bundle spec cs args)) \<le> length args"
  by (induction spec cs args rule: opt_bundle.induct) (auto split: option.splits bool.splits list.splits)

function getopt :: "opt_spec \<Rightarrow> string list \<Rightarrow> string list \<Rightarrow> parsed_opt list \<times> string list" where
  "getopt spec [] left = ([], left)"
| "getopt spec (a # as) left =
     (if a = ''--'' then ([], left @ as)
      else if length a \<ge> 2 \<and> hd a = CHR ''-''
      then let (opts, as') = opt_bundle spec (tl a) as; (more, left') = getopt spec as' left
           in (opts @ more, left')
      else getopt spec as (left @ [a]))"
  by pat_completeness auto
termination
proof (relation "measure (\<lambda>(spec, args, left). length args)")
  fix spec a as left x y xa
  assume "x = opt_bundle spec (tl a) as" "(xa, y) = x"
  then show "((spec, y, left), (spec, a # as, left)) \<in> measure (\<lambda>(spec, args, left). length args)"
    using opt_bundle_args[of spec "tl a" as] by (metis case_prod_conv in_measure le_imp_less_Suc length_Cons snd_conv)
qed auto

subsection \<open>Reading options back\<close>

text \<open>Writing an option as arguments of its own, the value in an argument behind it.\<close>

fun opt_args :: "parsed_opt \<Rightarrow> string list" where
  "opt_args (Flag c) = [[CHR ''-'', c]]"
| "opt_args (Valued c v) = [[CHR ''-'', c], v]"
| "opt_args Bad_option = []"

fun opt_allowed :: "opt_spec \<Rightarrow> parsed_opt \<Rightarrow> bool" where
  "opt_allowed spec (Flag c) \<longleftrightarrow> c \<noteq> CHR '':'' \<and> c \<noteq> CHR ''-'' \<and> spec c = Some False"
| "opt_allowed spec (Valued c v) \<longleftrightarrow> c \<noteq> CHR '':'' \<and> c \<noteq> CHR ''-'' \<and> spec c = Some True"
| "opt_allowed spec Bad_option \<longleftrightarrow> False"

definition no_option :: "string \<Rightarrow> bool" where
  "no_option a \<longleftrightarrow> length a < 2 \<or> hd a \<noteq> CHR ''-''"

lemma getopt_rest: "\<forall>a\<in>set rest. no_option a \<Longrightarrow> getopt spec rest left = ([], left @ rest)"
  by (induction rest arbitrary: left) (auto simp: no_option_def)

text \<open>Options written one by one are read back in order, whatever stands behind them.\<close>

lemma getopt_written:
  assumes "\<forall>p\<in>set ps. opt_allowed spec p"
  shows "getopt spec (concat (map opt_args ps) @ rest) left =
    apfst (append ps) (getopt spec rest left)"
  using assms
proof (induction ps)
  case (Cons p ps)
  then show ?case
    by (cases p; cases "getopt spec rest left") (auto simp: Let_def)
qed (simp add: apfst_def map_prod_def case_prod_unfold)

end
