(* ===== verification/Tunctl.thy ===== *)
theory Tunctl
  imports Getopt C_Numbers
begin

text \<open>
  The program \<open>tunctl.c\<close>: creates a TAP device that outlives the program, or makes one vanish with it.
  The system is a parameter: the user and group databases, whether the clone device can be opened, and
  how the driver answers a request after those already made. Modelled are the options, the requests to
  the driver in their order with every early exit, the exit status and the standard output; what goes
  to the standard error is not.
\<close>

subsection \<open>The system\<close>

datatype tun_flag = IFF_TAP | IFF_NO_PI

text \<open>\<open>ioctl\<close> on the clone device; \<open>TUNSETIFF\<close> has the name and the flags of its \<open>ifreq\<close>.\<close>

datatype tun_request =
    TUNSETIFF string "tun_flag list"
  | TUNSETPERSIST bool
  | TUNSETOWNER u32
  | TUNSETGROUP u32

text \<open>
  \<open>ioctl sys done r\<close>: the answer to \<open>r\<close> after the requests \<open>done\<close>; \<open>None\<close> is a failure, \<open>Some n\<close> success with
  \<open>n\<close> the name the driver leaves in the \<open>ifreq\<close> (it only matters for \<open>TUNSETIFF\<close>).
\<close>

record tun_sys =
  getpwnam :: "string \<Rightarrow> u32 option"
  getgrnam :: "string \<Rightarrow> u32 option"
  geteuid :: u32
  open_rdwr :: "string \<Rightarrow> bool"
  ioctl :: "tun_request list \<Rightarrow> tun_request \<Rightarrow> string option"

definition IFNAMSIZ :: nat where "IFNAMSIZ = 16"

text \<open>The exit status, the requests made (a failed one is the last) and the standard output.\<close>

record tun_result =
  exit_status :: int
  made :: "tun_request list"
  printed :: string

subsection \<open>Options\<close>

record tun_opts =
  o_owner :: u32
  o_group :: u32
  o_delete :: bool
  o_brief :: bool
  o_tun :: string
  o_file :: string

definition tun_defaults :: tun_opts where
  "tun_defaults = \<lparr>o_owner = - 1, o_group = - 1, o_delete = False, o_brief = False,
     o_tun = '''', o_file = ''/dev/net/tun''\<rparr>"

definition tun_spec :: opt_spec where
  "tun_spec = opt_spec_of ''bd:f:t:u:g:h''"

text \<open>A user or group: a name the database knows, or a number that is the whole argument.\<close>

definition name_or_number :: "(string \<Rightarrow> u32 option) \<Rightarrow> string \<Rightarrow> u32 option" where
  "name_or_number db arg =
     (case db arg of Some i \<Rightarrow> Some i
      | None \<Rightarrow> (let (v, rest) = strtol0 arg in
          if rest \<noteq> [] then None else Some (word_of_int v)))"

text \<open>The loop over the options; the left side is the status of an exit out of it.\<close>

fun tun_option :: "tun_sys \<Rightarrow> parsed_opt \<Rightarrow> tun_opts \<Rightarrow> int + tun_opts" where
  "tun_option sys (Flag c) opts =
     (if c = CHR ''b'' then Inr (opts\<lparr>o_brief := True\<rparr>)
      else if c = CHR ''h'' then Inl 0
      else Inl 1)"
| "tun_option sys (Valued c optarg) opts =
     (if c = CHR ''d'' then Inr (opts\<lparr>o_delete := True, o_tun := optarg\<rparr>)
      else if c = CHR ''f'' then Inr (opts\<lparr>o_file := optarg\<rparr>)
      else if c = CHR ''u'' then
        (case name_or_number (getpwnam sys) optarg of
           None \<Rightarrow> Inl 1 | Some i \<Rightarrow> Inr (opts\<lparr>o_owner := i\<rparr>))
      else if c = CHR ''g'' then
        (case name_or_number (getgrnam sys) optarg of
           None \<Rightarrow> Inl 1 | Some i \<Rightarrow> Inr (opts\<lparr>o_group := i\<rparr>))
      else if c = CHR ''t'' then Inr (opts\<lparr>o_tun := optarg\<rparr>)
      else Inl 1)"
| "tun_option sys Bad_option opts = Inl 1"

fun tun_options :: "tun_sys \<Rightarrow> parsed_opt list \<Rightarrow> tun_opts \<Rightarrow> int + tun_opts" where
  "tun_options sys [] opts = Inr opts"
| "tun_options sys (p # ps) opts = bindR (tun_option sys p opts) (tun_options sys ps)"

subsection \<open>Requests to the driver\<close>

text \<open>
  A request after those already made: the program ends with status 1 when it fails, else it goes on
  with the name the driver left.
\<close>

definition tun_ioctl :: "tun_sys \<Rightarrow> tun_request list \<Rightarrow> tun_request \<Rightarrow> tun_result + string" where
  "tun_ioctl sys done r =
     (case ioctl sys done r of
        None \<Rightarrow> Inl \<lparr>exit_status = 1, made = done @ [r], printed = []\<rparr>
      | Some name \<Rightarrow> Inr name)"

definition quoted :: "string \<Rightarrow> string" where
  "quoted s = [CHR 0x27] @ s @ [CHR 0x27]"

definition tun_delete :: "tun_sys \<Rightarrow> tun_request list \<Rightarrow> string \<Rightarrow> tun_result + tun_result" where
  "tun_delete sys done ifr_name =
     bindR (tun_ioctl sys done (TUNSETPERSIST False)) (\<lambda>_.
     Inr \<lparr>exit_status = 0, made = done @ [TUNSETPERSIST False],
          printed = ''Set '' @ quoted ifr_name @ '' nonpersistent'' @ [CHR 0x0A]\<rparr>)"

definition tun_report :: "tun_opts \<Rightarrow> string \<Rightarrow> string" where
  "tun_report opts ifr_name =
     (if o_brief opts then ifr_name @ [CHR 0x0A]
      else ''Set '' @ quoted ifr_name @ '' persistent and owned by'' @
           (if o_owner opts \<noteq> - 1 then '' uid '' @ show_int (sint (o_owner opts)) else []) @
           (if o_group opts \<noteq> - 1 then '' gid '' @ show_int (sint (o_group opts)) else []) @
           [CHR 0x0A])"

text \<open>The setting of an identity that is not \<open>-1\<close>; the value is the requests made by then.\<close>

definition tun_identity :: "tun_sys \<Rightarrow> (u32 \<Rightarrow> tun_request) \<Rightarrow> u32 \<Rightarrow> tun_request list \<Rightarrow>
    tun_result + tun_request list" where
  "tun_identity sys request i done =
     (if i = - 1 then Inr done
      else bindR (tun_ioctl sys done (request i)) (\<lambda>_. Inr (done @ [request i])))"

definition default_owner :: "tun_sys \<Rightarrow> tun_opts \<Rightarrow> tun_opts" where
  "default_owner sys opts =
     (if o_owner opts = - 1 \<and> o_group opts = - 1 then opts\<lparr>o_owner := geteuid sys\<rparr> else opts)"

definition tun_create :: "tun_sys \<Rightarrow> tun_opts \<Rightarrow> tun_request list \<Rightarrow> string \<Rightarrow>
    tun_result + tun_result" where
  "tun_create sys opts done ifr_name =
     (let opts = default_owner sys opts in
      bindR (tun_identity sys TUNSETOWNER (o_owner opts) done) (\<lambda>done.
      bindR (tun_identity sys TUNSETGROUP (o_group opts) done) (\<lambda>done.
      bindR (tun_ioctl sys done (TUNSETPERSIST True)) (\<lambda>_.
      Inr \<lparr>exit_status = 0, made = done @ [TUNSETPERSIST True],
           printed = tun_report opts ifr_name\<rparr>))))"

definition ifr_name_of :: "tun_opts \<Rightarrow> string" where
  "ifr_name_of opts = take (IFNAMSIZ - 1) (o_tun opts)"

definition tun_device :: "tun_sys \<Rightarrow> tun_opts \<Rightarrow> tun_result + tun_result" where
  "tun_device sys opts =
     (let setiff = TUNSETIFF (ifr_name_of opts) [IFF_TAP, IFF_NO_PI] in
      bindR (tun_ioctl sys [] setiff) (\<lambda>ifr_name.
      if o_delete opts then tun_delete sys [setiff] ifr_name
      else tun_create sys opts [setiff] ifr_name))"

definition exit_with :: "int \<Rightarrow> tun_result" where
  "exit_with n = \<lparr>exit_status = n, made = [], printed = []\<rparr>"

text \<open>\<open>argv\<close> without the name of the program.\<close>

definition tunctl_main :: "tun_sys \<Rightarrow> string list \<Rightarrow> tun_result" where
  "tunctl_main sys argv =
     (let (ps, rest) = getopt tun_spec argv [] in
      case tun_options sys ps tun_defaults of
        Inl n \<Rightarrow> exit_with n
      | Inr opts \<Rightarrow>
          if rest \<noteq> [] then exit_with 1
          else if \<not> open_rdwr sys (o_file opts) then exit_with 1
          else (case tun_device sys opts of Inl r \<Rightarrow> r | Inr r \<Rightarrow> r))"

subsection \<open>The plan of the requests\<close>

text \<open>
  What the options ask of the driver, as one list: attach to the device, give it its owner and its
  group, and make it persistent; or attach to it and make it not persistent.
\<close>

definition identity_plan :: "(u32 \<Rightarrow> tun_request) \<Rightarrow> u32 \<Rightarrow> tun_request list" where
  "identity_plan request i = (if i = - 1 then [] else [request i])"

definition tun_plan :: "tun_sys \<Rightarrow> tun_opts \<Rightarrow> tun_request list" where
  "tun_plan sys opts =
     TUNSETIFF (ifr_name_of opts) [IFF_TAP, IFF_NO_PI] #
     (if o_delete opts then [TUNSETPERSIST False]
      else identity_plan TUNSETOWNER (o_owner (default_owner sys opts)) @
           identity_plan TUNSETGROUP (o_group (default_owner sys opts)) @ [TUNSETPERSIST True])"

text \<open>Carrying a list of requests out until one fails: the requests made, and whether all succeeded.\<close>

fun carry_out :: "tun_sys \<Rightarrow> tun_request list \<Rightarrow> tun_request list \<Rightarrow> tun_request list \<times> bool" where
  "carry_out sys done [] = (done, True)"
| "carry_out sys done (r # rs) =
     (if ioctl sys done r = None then (done @ [r], False) else carry_out sys (done @ [r]) rs)"

lemma carry_out_append:
  "carry_out sys done (rs @ qs) =
     (let (m, ok) = carry_out sys done rs in if ok then carry_out sys m qs else (m, False))"
  by (induction rs arbitrary: "done") auto

text \<open>The result agrees with a carried out plan: the same requests, and status 0 if all succeeded.\<close>

definition follows :: "tun_result + tun_result \<Rightarrow> tun_request list \<times> bool \<Rightarrow> bool" where
  "follows res p \<longleftrightarrow> (case res of
       Inl r \<Rightarrow> p = (made r, False) \<and> exit_status r = 1 \<and> printed r = []
     | Inr r \<Rightarrow> p = (made r, True) \<and> exit_status r = 0 \<and> printed r \<noteq> [])"

lemma tun_delete_follows:
  "follows (tun_delete sys done name) (carry_out sys done [TUNSETPERSIST False])"
  by (auto simp: tun_delete_def tun_ioctl_def follows_def split: option.splits)

lemma tun_identity_cases:
  "case tun_identity sys request i done of
     Inl r \<Rightarrow> carry_out sys done (identity_plan request i) = (made r, False) \<and> exit_status r = 1 \<and>
       printed r = []
   | Inr done' \<Rightarrow> carry_out sys done (identity_plan request i) = (done', True)"
  by (auto simp: tun_identity_def identity_plan_def tun_ioctl_def split: option.splits)

lemma tun_create_follows:
  "follows (tun_create sys opts done name)
    (carry_out sys done (identity_plan TUNSETOWNER (o_owner (default_owner sys opts)) @
       identity_plan TUNSETGROUP (o_group (default_owner sys opts)) @ [TUNSETPERSIST True]))"
proof -
  let ?o = "default_owner sys opts"
  show ?thesis
  proof (cases "tun_identity sys TUNSETOWNER (o_owner ?o) done")
    case (Inl r)
    then show ?thesis
      using tun_identity_cases[of sys "done" TUNSETOWNER "o_owner ?o"]
      by (simp add: tun_create_def carry_out_append follows_def)
  next
    case own: (Inr done1)
    show ?thesis
    proof (cases "tun_identity sys TUNSETGROUP (o_group ?o) done1")
      case (Inl r)
      then show ?thesis
        using own tun_identity_cases[of sys "done" TUNSETOWNER "o_owner ?o"]
          tun_identity_cases[of sys done1 TUNSETGROUP "o_group ?o"]
        by (simp add: tun_create_def carry_out_append follows_def)
    next
      case (Inr done2)
      have "tun_report ?o name \<noteq> []" by (simp add: tun_report_def)
      then show ?thesis
        using own Inr tun_identity_cases[of sys "done" TUNSETOWNER "o_owner ?o"]
          tun_identity_cases[of sys done1 TUNSETGROUP "o_group ?o"]
        by (simp add: tun_create_def carry_out_append follows_def tun_ioctl_def split: option.splits)
    qed
  qed
qed

lemma tun_device_follows: "follows (tun_device sys opts) (carry_out sys [] (tun_plan sys opts))"
proof (cases "ioctl sys [] (TUNSETIFF (ifr_name_of opts) [IFF_TAP, IFF_NO_PI])")
  case None
  then show ?thesis by (simp add: tun_device_def tun_plan_def tun_ioctl_def follows_def)
next
  case (Some name)
  then show ?thesis
    using tun_delete_follows tun_create_follows
    by (simp add: tun_device_def tun_plan_def tun_ioctl_def)
qed

subsection \<open>The properties\<close>

text \<open>The options of a command line, if it has any meaning and its clone device can be opened.\<close>

definition tun_accepted :: "tun_sys \<Rightarrow> string list \<Rightarrow> tun_opts option" where
  "tun_accepted sys argv =
     (let (ps, rest) = getopt tun_spec argv [] in
      case tun_options sys ps tun_defaults of
        Inl n \<Rightarrow> None
      | Inr opts \<Rightarrow> if rest = [] \<and> open_rdwr sys (o_file opts) then Some opts else None)"

definition tun_done :: "tun_sys \<Rightarrow> tun_opts \<Rightarrow> tun_request list \<times> bool" where
  "tun_done sys opts = carry_out sys [] (tun_plan sys opts)"

lemma tunctl_main_follows:
  "tun_accepted sys argv = Some opts \<Longrightarrow>
    made (tunctl_main sys argv) = fst (tun_done sys opts) \<and>
    exit_status (tunctl_main sys argv) = (if snd (tun_done sys opts) then 0 else 1)"
  "tun_accepted sys argv = None \<Longrightarrow> made (tunctl_main sys argv) = []"
  using tun_device_follows[of sys opts]
  by (auto simp: tun_accepted_def tunctl_main_def tun_done_def exit_with_def follows_def
      split: prod.splits sum.splits if_splits)

subsection \<open>The command line, apart from the program\<close>

text \<open>
  What a command line means, stated over its parsed options without the program's variables: the
  argument of the last option of some kind, the identity an argument names, the options that end the
  program, the requests and the message of a run that reaches its end.
\<close>

fun last_arg :: "string \<Rightarrow> parsed_opt list \<Rightarrow> string option" where
  "last_arg cs [] = None"
| "last_arg cs (p # ps) =
     (case last_arg cs ps of
        Some a \<Rightarrow> Some a
      | None \<Rightarrow> (case p of Valued c a \<Rightarrow> if c \<in> set cs then Some a else None | _ \<Rightarrow> None))"

definition known_id :: "(string \<Rightarrow> u32 option) \<Rightarrow> string \<Rightarrow> u32 option" where
  "known_id db a =
     (if db a \<noteq> None then db a
      else if snd (strtol0 a) = [] then Some (word_of_int (fst (strtol0 a))) else None)"

definition offends :: "tun_sys \<Rightarrow> parsed_opt \<Rightarrow> bool" where
  "offends sys p =
     (case p of
        Flag c \<Rightarrow> c \<noteq> CHR ''b''
      | Valued c a \<Rightarrow> c \<notin> set ''dftug'' \<or> (c = CHR ''u'' \<and> known_id (getpwnam sys) a = None) \<or>
          (c = CHR ''g'' \<and> known_id (getgrnam sys) a = None)
      | Bad_option \<Rightarrow> True)"

text \<open>The identity the last option of a kind names; \<open>- 1\<close> stands for none.\<close>

definition asked_id :: "(string \<Rightarrow> u32 option) \<Rightarrow> string \<Rightarrow> parsed_opt list \<Rightarrow> u32" where
  "asked_id db cs ps = (case last_arg cs ps of None \<Rightarrow> - 1 | Some a \<Rightarrow> the (known_id db a))"

text \<open>The owner and the group: the user who runs the program if neither is asked for.\<close>

definition asked_owner :: "tun_sys \<Rightarrow> parsed_opt list \<Rightarrow> u32 \<times> u32" where
  "asked_owner sys ps =
     (let uid = asked_id (getpwnam sys) ''u'' ps; gid = asked_id (getgrnam sys) ''g'' ps
      in (if uid = - 1 \<and> gid = - 1 then geteuid sys else uid, gid))"

definition asked_requests :: "tun_sys \<Rightarrow> parsed_opt list \<Rightarrow> tun_request list" where
  "asked_requests sys ps =
     (let (uid, gid) = asked_owner sys ps;
          name = (case last_arg ''dt'' ps of None \<Rightarrow> [] | Some a \<Rightarrow> a)
      in TUNSETIFF (take 15 name) [IFF_TAP, IFF_NO_PI] #
         (if last_arg ''d'' ps \<noteq> None then [TUNSETPERSIST False]
          else filter (\<lambda>r. r \<noteq> TUNSETOWNER (- 1) \<and> r \<noteq> TUNSETGROUP (- 1))
                 [TUNSETOWNER uid, TUNSETGROUP gid, TUNSETPERSIST True]))"

definition asked_message :: "tun_sys \<Rightarrow> parsed_opt list \<Rightarrow> string \<Rightarrow> string" where
  "asked_message sys ps name =
     (let (uid, gid) = asked_owner sys ps
      in (if last_arg ''d'' ps \<noteq> None then ''Set '' @ quoted name @ '' nonpersistent''
          else if Flag CHR ''b'' \<in> set ps then name
          else ''Set '' @ quoted name @ '' persistent and owned by'' @
            (if uid = - 1 then [] else '' uid '' @ show_int (sint uid)) @
            (if gid = - 1 then [] else '' gid '' @ show_int (sint gid))) @ [CHR 0x0A])"

text \<open>What the options ask for, in the terms of the program's variables.\<close>

definition asked_opts :: "tun_sys \<Rightarrow> parsed_opt list \<Rightarrow> tun_opts \<Rightarrow> tun_opts" where
  "asked_opts sys ps opts =
     \<lparr>o_owner = (case last_arg ''u'' ps of None \<Rightarrow> o_owner opts | Some a \<Rightarrow> the (known_id (getpwnam sys) a)),
      o_group = (case last_arg ''g'' ps of None \<Rightarrow> o_group opts | Some a \<Rightarrow> the (known_id (getgrnam sys) a)),
      o_delete = (o_delete opts \<or> last_arg ''d'' ps \<noteq> None),
      o_brief = (o_brief opts \<or> Flag CHR ''b'' \<in> set ps),
      o_tun = (case last_arg ''dt'' ps of None \<Rightarrow> o_tun opts | Some a \<Rightarrow> a),
      o_file = (case last_arg ''f'' ps of None \<Rightarrow> o_file opts | Some a \<Rightarrow> a)\<rparr>"

lemma name_or_number_known: "name_or_number db a = known_id db a"
  by (simp add: name_or_number_def known_id_def Let_def split_def split: option.splits)

lemma tun_option_asks:
  "tun_option sys p opts =
     (if offends sys p then Inl (if p = Flag CHR ''h'' then 0 else 1) else Inr (asked_opts sys [p] opts))"
  by (cases p) (auto simp: offends_def asked_opts_def name_or_number_known split: option.splits)

lemma asked_opts_Cons: "asked_opts sys ps (asked_opts sys [p] opts) = asked_opts sys (p # ps) opts"
  by (cases p) (auto simp: asked_opts_def split: option.splits)

lemma tun_options_ask:
  "tun_options sys ps opts =
     (case find (offends sys) ps of
        Some p \<Rightarrow> Inl (if p = Flag CHR ''h'' then 0 else 1)
      | None \<Rightarrow> Inr (asked_opts sys ps opts))"
proof (induction ps arbitrary: opts)
  case Nil
  show ?case by (simp add: asked_opts_def)
next
  case (Cons p ps)
  then show ?case by (simp add: tun_option_asks asked_opts_Cons split: option.splits)
qed

lemma asked_defaults:
  "(o_owner (default_owner sys (asked_opts sys ps tun_defaults)),
    o_group (default_owner sys (asked_opts sys ps tun_defaults))) = asked_owner sys ps"
  by (simp add: default_owner_def asked_opts_def asked_owner_def asked_id_def tun_defaults_def Let_def
      cong: option.case_cong)

lemma asked_plan: "tun_plan sys (asked_opts sys ps tun_defaults) = asked_requests sys ps"
proof -
  let ?o = "asked_opts sys ps tun_defaults"
  have "ifr_name_of ?o = take 15 (case last_arg ''dt'' ps of None \<Rightarrow> [] | Some a \<Rightarrow> a)"
    by (simp add: ifr_name_of_def IFNAMSIZ_def asked_opts_def tun_defaults_def cong: option.case_cong)
  moreover have "o_delete ?o = (last_arg ''d'' ps \<noteq> None)"
    by (simp add: asked_opts_def tun_defaults_def cong: option.case_cong)
  ultimately show ?thesis
    by (simp add: tun_plan_def asked_requests_def identity_plan_def Let_def flip: asked_defaults)
qed

text \<open>What a run that reaches its end prints.\<close>

lemma tun_device_prints:
  assumes "tun_device sys opts = Inr r"
  obtains name where "ioctl sys [] (hd (tun_plan sys opts)) = Some name"
    and "printed r = (if o_delete opts then ''Set '' @ quoted name @ '' nonpersistent'' @ [CHR 0x0A]
      else tun_report (default_owner sys opts) name)"
  using assms
  by (auto simp: tun_device_def tun_plan_def tun_ioctl_def tun_delete_def tun_create_def bindR_def Let_def
      split: option.splits sum.splits if_splits)

lemma asked_report:
  "(if o_delete (asked_opts sys ps tun_defaults)
    then ''Set '' @ quoted name @ '' nonpersistent'' @ [CHR 0x0A]
    else tun_report (default_owner sys (asked_opts sys ps tun_defaults)) name) = asked_message sys ps name"
proof -
  have "o_brief (default_owner sys (asked_opts sys ps tun_defaults)) = (Flag CHR ''b'' \<in> set ps)"
    and "o_delete (asked_opts sys ps tun_defaults) = (last_arg ''d'' ps \<noteq> None)"
    by (simp_all add: default_owner_def asked_opts_def tun_defaults_def)
  then show ?thesis
    by (simp add: asked_message_def tun_report_def Let_def flip: asked_defaults)
qed

text \<open>
  C32: a run of the program is what its command line asks for. The first option that is unknown, lacks
  its argument or names nobody ends it with status 1, and \<open>-h\<close> with status 0; so do an operand and a
  clone device that cannot be opened, with status 1, and then nothing is requested or printed. Otherwise
  the driver is asked to attach to the device of the last \<open>-d\<close> or \<open>-t\<close>, cut to 15 characters, and then,
  with \<open>-d\<close>, to make it not persistent, and else to give it to the last \<open>-u\<close> and \<open>-g\<close>, or to the user who
  runs the program if neither is there, and to make it persistent, up to the first request that fails.
  The status is 0 exactly when none does; then the message says what was done, and else nothing is printed.
\<close>
theorem tunctl_refines_plan:
  "let (ps, operands) = getopt tun_spec argv [];
       file = (case last_arg ''f'' ps of None \<Rightarrow> ''/dev/net/tun'' | Some a \<Rightarrow> a);
       rs = asked_requests sys ps
   in tunctl_main sys argv =
     (case find (offends sys) ps of
        Some p \<Rightarrow> exit_with (if p = Flag CHR ''h'' then 0 else 1)
      | None \<Rightarrow>
          if operands = [] \<and> open_rdwr sys file
          then (case carry_out sys [] rs of
              (done, False) \<Rightarrow> \<lparr>exit_status = 1, made = done, printed = []\<rparr>
            | (done, True) \<Rightarrow> \<lparr>exit_status = 0, made = done,
                printed = asked_message sys ps (the (ioctl sys [] (hd rs)))\<rparr>)
          else exit_with 1)"
proof -
  obtain ps operands where parsed: "getopt tun_spec argv [] = (ps, operands)" by fastforce
  let ?o = "asked_opts sys ps tun_defaults"
  have dev_file: "o_file ?o = (case last_arg ''f'' ps of None \<Rightarrow> ''/dev/net/tun'' | Some a \<Rightarrow> a)"
    by (simp add: asked_opts_def tun_defaults_def cong: option.case_cong)
  have "(case tun_device sys ?o of Inl r \<Rightarrow> r | Inr r \<Rightarrow> r) =
      (case carry_out sys [] (asked_requests sys ps) of
         (done, False) \<Rightarrow> \<lparr>exit_status = 1, made = done, printed = []\<rparr>
       | (done, True) \<Rightarrow> \<lparr>exit_status = 0, made = done,
           printed = asked_message sys ps (the (ioctl sys [] (hd (asked_requests sys ps))))\<rparr>)"
  proof (cases "tun_device sys ?o")
    case (Inl r)
    then show ?thesis using tun_device_follows[of sys ?o] by (simp add: follows_def asked_plan)
  next
    case (Inr r)
    from tun_device_prints[OF Inr] obtain name where
      "ioctl sys [] (hd (asked_requests sys ps)) = Some name" "printed r = asked_message sys ps name"
      unfolding asked_plan asked_report by blast
    then show ?thesis using Inr tun_device_follows[of sys ?o] by (simp add: follows_def asked_plan)
  qed
  then show ?thesis
    by (simp add: parsed tunctl_main_def tun_options_ask dev_file split: option.split)
qed

text \<open>What a carried out list says of its requests.\<close>

lemma carry_out_prefix:
  assumes "carry_out sys done rs = (m, ok)"
  shows "\<exists>n. m = done @ take n rs \<and> (ok \<longrightarrow> n = length rs) \<and>
    (\<forall>i. Suc i < n \<longrightarrow> ioctl sys (done @ take i rs) (rs ! i) \<noteq> None)"
  using assms
proof (induction rs arbitrary: "done")
  case (Cons r rs)
  show ?case
  proof (cases "ioctl sys done r = None")
    case True
    with Cons.prems show ?thesis by (intro exI[of _ 1]) auto
  next
    case False
    with Cons obtain n where "m = (done @ [r]) @ take n rs" "ok \<longrightarrow> n = length rs"
      "\<forall>i. Suc i < n \<longrightarrow> ioctl sys ((done @ [r]) @ take i rs) (rs ! i) \<noteq> None" by fastforce
    with False show ?thesis
      by (intro exI[of _ "Suc n"]) (auto simp: nth_Cons take_Cons split: nat.split)
  qed
qed auto

text \<open>
  A device is made persistent last of all, after it has been attached and given an owner or a group
  and the driver has accepted each of these requests: no failure leaves a persistent device behind
  that belongs to nobody.
\<close>
theorem tunctl_persistent_devices_are_owned:
  assumes "TUNSETPERSIST True \<in> set (made (tunctl_main sys argv))" and "geteuid sys \<noteq> - 1"
  shows "\<exists>name ids. made (tunctl_main sys argv) =
      TUNSETIFF name [IFF_TAP, IFF_NO_PI] # ids @ [TUNSETPERSIST True] \<and>
    ids \<noteq> [] \<and> set ids \<subseteq> range TUNSETOWNER \<union> range TUNSETGROUP \<and>
    list_all (\<lambda>i. ioctl sys (take i (made (tunctl_main sys argv))) (made (tunctl_main sys argv) ! i) \<noteq> None)
      [0..<Suc (length ids)]"
proof -
  let ?m = "made (tunctl_main sys argv)"
  from assms(1) obtain opts where opts: "tun_accepted sys argv = Some opts"
    using tunctl_main_follows(2)[of sys argv] by (cases "tun_accepted sys argv") auto
  let ?o = "default_owner sys opts"
  let ?ids = "identity_plan TUNSETOWNER (o_owner ?o) @ identity_plan TUNSETGROUP (o_group ?o)"
  obtain ok where "carry_out sys [] (tun_plan sys opts) = (?m, ok)"
    using tunctl_main_follows(1)[OF opts] by (metis prod.collapse tun_done_def)
  from carry_out_prefix[OF this] obtain n where m: "?m = take n (tun_plan sys opts)"
    and acc: "\<forall>i. Suc i < n \<longrightarrow> ioctl sys (take i (tun_plan sys opts)) (tun_plan sys opts ! i) \<noteq> None"
    by auto
  have "TUNSETPERSIST True \<in> set (tun_plan sys opts)" using assms(1) m by (metis in_set_takeD)
  then have plan: "tun_plan sys opts =
      TUNSETIFF (ifr_name_of opts) [IFF_TAP, IFF_NO_PI] # ?ids @ [TUNSETPERSIST True]"
    by (auto simp: tun_plan_def identity_plan_def split: if_splits)
  let ?before = "TUNSETIFF (ifr_name_of opts) [IFF_TAP, IFF_NO_PI] # ?ids"
  have "TUNSETPERSIST True \<notin> set ?before" by (auto simp: identity_plan_def)
  moreover have "TUNSETPERSIST True \<in> set (take n (?before @ [TUNSETPERSIST True]))"
    using assms(1) unfolding m plan by simp
  ultimately have n: "n \<ge> Suc (length ?before)"
    by (metis append_Nil2 diff_is_0_eq in_set_takeD not_less_eq_eq take_0 take_append)
  then have all: "?m = tun_plan sys opts" unfolding m plan by simp
  have "?ids \<noteq> []" using assms(2) by (auto simp: default_owner_def identity_plan_def)
  moreover have "set ?ids \<subseteq> range TUNSETOWNER \<union> range TUNSETGROUP"
    by (auto simp: identity_plan_def)
  moreover have "list_all (\<lambda>i. ioctl sys (take i ?m) (?m ! i) \<noteq> None) [0..<Suc (length ?ids)]"
    unfolding all list_all_iff using acc n by auto
  ultimately show ?thesis using all plan by (intro exI[of _ "ifr_name_of opts"] exI[of _ ?ids]) simp
qed

text \<open>A system with one user, a driver that accepts everything, and root running the program.\<close>

definition sample_tun_sys :: tun_sys where
  "sample_tun_sys = \<lparr>getpwnam = [''alice'' \<mapsto> 1000], getgrnam = Map.empty, geteuid = 0,
     open_rdwr = (\<lambda>f. f = ''/dev/net/tun''), ioctl = (\<lambda>done r. Some ''tap0'')\<rparr>"

lemma sample_run:
  "tunctl_main sample_tun_sys [''-bt'', ''tap0'', ''-ualice''] =
     \<lparr>exit_status = 0, made = [TUNSETIFF ''tap0'' [IFF_TAP, IFF_NO_PI], TUNSETOWNER 1000,
        TUNSETPERSIST True], printed = ''tap0'' @ [CHR 0x0A]\<rparr>"
  by (simp add: tunctl_main_def tun_spec_def sample_tun_sys_def tun_defaults_def Let_def
      name_or_number_def tun_device_def tun_ioctl_def tun_create_def tun_identity_def tun_report_def
      default_owner_def ifr_name_of_def IFNAMSIZ_def)

theorem tunctl_persistent_devices_are_owned_witness:
  "\<exists>name ids. made (tunctl_main sample_tun_sys [''-bt'', ''tap0'', ''-ualice'']) =
      TUNSETIFF name [IFF_TAP, IFF_NO_PI] # ids @ [TUNSETPERSIST True] \<and> ids \<noteq> []"
proof -
  have "TUNSETPERSIST True \<in> set (made (tunctl_main sample_tun_sys [''-bt'', ''tap0'', ''-ualice'']))"
    unfolding sample_run by simp
  moreover have "geteuid sample_tun_sys \<noteq> - 1" by (simp add: sample_tun_sys_def)
  ultimately show ?thesis
    using tunctl_persistent_devices_are_owned[of sample_tun_sys "[''-bt'', ''tap0'', ''-ualice'']"]
    by blast
qed

text \<open>
  Two arguments of \<open>-u\<close> that do not mean what they say. The empty string passes for a number, as
  \<open>strtol\<close> stops at its end, and gives the device to root. The number 4294967295 is the value that
  stands for no owner, so the device goes to the user who runs the program, as if \<open>-u\<close> were not there.
\<close>
theorem tunctl_owner_mistaken:
  assumes "getpwnam sys [] = None" and "getpwnam sys ''4294967295'' = None"
    and "open_rdwr sys ''/dev/net/tun''" and "\<And>done r. ioctl sys done r \<noteq> None" and "geteuid sys \<noteq> - 1"
  shows "made (tunctl_main sys [''-u'', []]) =
      [TUNSETIFF [] [IFF_TAP, IFF_NO_PI], TUNSETOWNER 0, TUNSETPERSIST True] \<and>
    made (tunctl_main sys [''-u'', ''4294967295'']) =
      [TUNSETIFF [] [IFF_TAP, IFF_NO_PI], TUNSETOWNER (geteuid sys), TUNSETPERSIST True] \<and>
    made (tunctl_main sys [''-u'', ''4294967295'']) = made (tunctl_main sys [])"
proof -
  have "name_or_number (getpwnam sys) [] = Some 0"
    by (simp add: name_or_number_def assms(1) strtol0_def scan_base0_def split_sign_def find_base_def
        hex_prefix_def saturate_def)
  moreover have "name_or_number (getpwnam sys) ''4294967295'' = Some (- 1)"
    by (simp add: name_or_number_def assms(2) strtol0_def scan_base0_def split_sign_def find_base_def
        hex_prefix_def base_digit_def saturate_def isspace_def)
  moreover have "carry_out sys done rs = (done @ rs, True)" for "done" rs
    by (induction rs arbitrary: "done") (use assms(4) in auto)
  then have "tun_done sys opts = (tun_plan sys opts, True)" for opts
    by (simp only: tun_done_def append_Nil)
  ultimately show ?thesis
    using assms(3,5)
    by (simp add: tunctl_main_follows(1) tun_accepted_def tun_spec_def Let_def
        tun_defaults_def tun_plan_def default_owner_def identity_plan_def ifr_name_of_def)
qed

theorem tunctl_owner_mistaken_witness:
  "made (tunctl_main sample_tun_sys [''-u'', []]) =
     [TUNSETIFF [] [IFF_TAP, IFF_NO_PI], TUNSETOWNER 0, TUNSETPERSIST True]"
  using tunctl_owner_mistaken[of sample_tun_sys] by (simp add: sample_tun_sys_def)

end
