(* ===== verification/Usleep.thy ===== *)
theory Usleep
  imports C_Numbers
begin

text \<open>
  The program \<open>usleep.c\<close>: it sleeps for the number of microseconds its argument names. The options are
  parsed by the popt library, whose results are input: the value of \<open>poptGetNextOpt\<close>, the two flags it
  stores, and the arguments \<open>poptGetArg\<close> hands out one by one.
\<close>

record popt =
  next_opt :: int
  showVersion :: bool
  showOot :: bool
  args :: "string list"

text \<open>The exit status, and the argument of the system call \<open>usleep\<close>, an unsigned integer of 32 bits.\<close>

definition usleep_main :: "popt \<Rightarrow> int \<times> u32 option" where
  "usleep_main p =
     (if next_opt p < - 1 then (2, None)
      else if showVersion p then (0, None)
      else if showOot p then (0, None)
      else case args p of
          [] \<Rightarrow> (0, Some 1)
        | [countStr] \<Rightarrow> (let count = fst (strtoul0 countStr) in (0, Some (ucast count)))
        | _ \<Rightarrow> (2, None))"

text \<open>The decimal digits of a number are read back.\<close>

lemma scan_digits_append:
  "\<forall>c\<in>set ds. base_digit c < b \<Longrightarrow> scan_digits b (ds @ s) acc = scan_digits b s (scan_digits b ds acc)"
  by (induction ds arbitrary: acc) auto

lemma base_digit_char: "d < 10 \<Longrightarrow> base_digit (char_of (48 + d)) = d"
  by (simp add: base_digit_def)

lemma dec_read:
  "(\<forall>c\<in>set (dec n). base_digit c < 10) \<and> scan_digits 10 (dec n) 0 = n \<and>
   (0 < n \<longrightarrow> base_digit (hd (dec n)) \<noteq> 0) \<and> dec n \<noteq> []"
proof (induction n rule: less_induct)
  case (less n)
  show ?case
  proof (cases "n < 10")
    case True
    then show ?thesis by (simp add: digits_of.simps[of 10 n] base_digit_char)
  next
    case False
    have "n div 10 < n" "0 < n div 10" using False by auto
    with less.IH[of "n div 10"] False show ?thesis
      by (simp add: digits_of.simps[of 10 n] base_digit_char scan_digits_append)
  qed
qed

lemma digit_is_no_blank_or_sign:
  assumes "base_digit c < 10"
  shows "\<not> isspace c" "c \<noteq> CHR ''-''" "c \<noteq> CHR ''+''" "c \<noteq> CHR ''x''" "c \<noteq> CHR ''X''"
  using assms by (auto simp: isspace_def base_digit_def)

lemma strtoul0_dec:
  assumes "n < 2 ^ 64"
  shows "strtoul0 (dec n) = (of_nat n, [])"
proof -
  obtain c cs where d: "dec n = c # cs" using dec_read[of n] by (cases "dec n") auto
  have all: "\<forall>e\<in>set (c # cs). base_digit e < 10" and c0: "0 < n \<longrightarrow> base_digit c \<noteq> 0"
    and val: "scan_digits 10 (c # cs) 0 = n"
    using dec_read[of n] d by auto
  have hex: "\<not> hex_prefix (c # cs)"
    using all digit_is_no_blank_or_sign(4,5) by (auto simp: hex_prefix_def split: list.splits)
  have "scan_base0 (c # cs) = (False, n, [])"
  proof (cases "c = CHR ''0''")
    case False
    have tw: "takeWhile (\<lambda>e. base_digit e < 10) (c # cs) = c # cs" using all by (simp add: takeWhile_eq_all_conv)
    show ?thesis
      using False hex all digit_is_no_blank_or_sign[of c]
      by (simp add: scan_base0_def split_sign_def find_base_def tw val Let_def
          del: takeWhile.simps scan_digits.simps)
  next
    case True
    then have "n = 0" using c0 by (cases n) (auto simp: base_digit_def)
    have "char_of (48 :: nat) = CHR ''0''" by (simp add: char_of_eq_iff)
    with \<open>n = 0\<close> have "c # cs = ''0''" using d by (simp add: digits_of.simps)
    then show ?thesis using \<open>n = 0\<close>
      by (simp add: scan_base0_def split_sign_def find_base_def hex_prefix_def isspace_def base_digit_def)
  qed
  then show ?thesis using assms by (simp add: strtoul0_def d)
qed

text \<open>
  Given a number of microseconds in decimal, the program sleeps for that number modulo \<open>2 ^ 32\<close>: the
  argument of the call has 32 bits, so a number with more of them is cut, to no sleep at all for \<open>2 ^ 32\<close>.
\<close>
theorem usleep_cuts_the_time:
  assumes "- 1 \<le> next_opt p" and "\<not> showVersion p" and "\<not> showOot p" and "args p = [dec n]" and "n < 2 ^ 64"
  shows "\<exists>w. usleep_main p = (0, Some w) \<and> unat w = n mod 2 ^ 32"
  using assms by (simp add: usleep_main_def strtoul0_dec unsigned_ucast_eq unsigned_of_nat take_bit_eq_mod)

theorem usleep_cuts_the_time_witness:
  "\<exists>w. usleep_main \<lparr>next_opt = - 1, showVersion = False, showOot = False, args = [''4294967296'']\<rparr> =
    (0, Some w) \<and> unat w = 0"
proof -
  have "dec 4294967296 = ''4294967296''" by (simp add: digits_of.simps char_of_eq_iff)
  then show ?thesis
    using usleep_cuts_the_time[of "\<lparr>next_opt = - 1, showVersion = False, showOot = False,
        args = [''4294967296'']\<rparr>" 4294967296]
    by simp
qed

end
