(* ===== verification/Audio_Channel.thy ===== *)
theory Audio_Channel
  imports Prelude
begin

text \<open>
  \<open>AudioChannelEngineImpl\<close> of the Alexa Auto SDK: the part of the engine that drives one audio output
  of the platform. The Alexa client calls it (\<open>setSource\<close>, \<open>play\<close>, \<open>pause\<close>, \<open>resume\<close>, \<open>stop\<close>), it calls the
  platform, the platform reports media states back at any time, and an executor, a thread that runs
  submitted tasks in their order, tells the client's observer what happened.

  A call, a report and the run of a task are atomic here; all of them but the reports and the tasks that
  only forward an event hold the same lock. Reports the platform makes while it is being
  called are part of the call. The answers of the platform are input. The SDK documents that shutting an
  executor down discards its tasks and refuses new ones.
\<close>

subsection \<open>Data\<close>

datatype media_state = STOPPED | PLAYING | BUFFERING

datatype media_error = MEDIA_ERROR_UNKNOWN | MEDIA_ERROR_INVALID_REQUEST
  | MEDIA_ERROR_SERVICE_UNAVAILABLE | MEDIA_ERROR_INTERNAL_SERVER_ERROR
  | MEDIA_ERROR_INTERNAL_DEVICE_ERROR

datatype pending_event = NO_EVENT | PLAYBACK_STARTED | PLAYBACK_PAUSED | PLAYBACK_RESUMED
  | PLAYBACK_STOPPED

datatype initiator = NOBODY | PLAY | PAUSE | RESUME | STOP

text \<open>The type of source identifiers; 0 is no source.\<close>

type_synonym source_id = nat

definition ERROR_ID :: source_id where "ERROR_ID = 0"

datatype event =
    onPlaybackStarted source_id
  | onPlaybackFinished source_id
  | onPlaybackPaused source_id
  | onPlaybackResumed source_id
  | onPlaybackStopped source_id
  | onPlaybackError source_id media_error string
  | onBufferUnderrun source_id
  | onBufferRefilled source_id

datatype task =
    Media_state_changed source_id media_state
  | Media_error source_id media_error string
  | Send_event source_id pending_event

text \<open>
  The object. \<open>s_nextId\<close> is shared by all channels of the program. \<open>channel_set\<close> and \<open>observer_set\<close> say
  whether the pointers to the output channel and the observer are there; \<open>tasks\<close> and \<open>shut_down\<close> are the
  executor; \<open>events\<close> is what the observer has been told.
\<close>

record channel =
  s_nextId :: source_id
  m_currentId :: source_id
  m_url :: string
  m_savedOffset :: int
  m_muted :: bool
  m_volume :: "8 word"
  m_pendingEventState :: pending_event
  m_currentMediaState :: media_state
  m_mediaStateChangeInitiator :: initiator
  channel_set :: bool
  observer_set :: bool
  tasks :: "task list"
  shut_down :: bool
  events :: "event list"

definition MAX_SPEAKER_VOLUME :: int where "MAX_SPEAKER_VOLUME = 100"
definition MIN_SPEAKER_VOLUME :: int where "MIN_SPEAKER_VOLUME = 0"
definition DEFAULT_SPEAKER_VOLUME :: "8 word" where "DEFAULT_SPEAKER_VOLUME = 50"

definition new_channel :: "source_id \<Rightarrow> channel" where
  "new_channel next =
     \<lparr>s_nextId = next, m_currentId = ERROR_ID, m_url = [], m_savedOffset = 0, m_muted = False,
      m_volume = DEFAULT_SPEAKER_VOLUME, m_pendingEventState = NO_EVENT,
      m_currentMediaState = STOPPED, m_mediaStateChangeInitiator = NOBODY, channel_set = False,
      observer_set = False, tasks = [], shut_down = False, events = []\<rparr>"

datatype ac_fault = Null_channel

subsection \<open>Set up and shut down\<close>

text \<open>The arguments: whether the pointers handed in are there.\<close>

definition initializeAudioChannel :: "bool \<Rightarrow> bool \<Rightarrow> channel \<Rightarrow> bool \<times> channel" where
  "initializeAudioChannel audioOutputChannel speakerManager s =
     (if audioOutputChannel \<and> speakerManager then (True, s\<lparr>channel_set := True\<rparr>) else (False, s))"

definition doShutdown :: "channel \<Rightarrow> channel" where
  "doShutdown s = s\<lparr>tasks := [], shut_down := True, channel_set := False, observer_set := False\<rparr>"

definition setObserver :: "bool \<Rightarrow> channel \<Rightarrow> channel" where
  "setObserver observer s =
     (if observer then (if observer_set s then s else s\<lparr>observer_set := True\<rparr>)
      else s\<lparr>observer_set := False\<rparr>)"

subsection \<open>The executor and the reports of the platform\<close>

definition submit :: "task \<Rightarrow> channel \<Rightarrow> channel" where
  "submit t s = (if shut_down s then s else s\<lparr>tasks := tasks s @ [t]\<rparr>)"

definition sendEvent :: "pending_event \<Rightarrow> channel \<Rightarrow> channel" where
  "sendEvent p s = (if p = NO_EVENT then s else submit (Send_event (m_currentId s) p) s)"

definition sendPendingEvent :: "channel \<Rightarrow> channel" where
  "sendPendingEvent s =
     (if m_pendingEventState s \<noteq> NO_EVENT
      then (sendEvent (m_pendingEventState s) s)\<lparr>m_pendingEventState := NO_EVENT\<rparr> else s)"

definition onMediaStateChanged :: "media_state \<Rightarrow> channel \<Rightarrow> channel" where
  "onMediaStateChanged st s = submit (Media_state_changed (m_currentId s) st) s"

definition onMediaError :: "media_error \<Rightarrow> string \<Rightarrow> channel \<Rightarrow> channel" where
  "onMediaError err desc s =
     (submit (Media_error (m_currentId s) err desc) s)\<lparr>m_pendingEventState := NO_EVENT\<rparr>"

datatype report = State_changed media_state | Error_occurred media_error string

fun do_report :: "report \<Rightarrow> channel \<Rightarrow> channel" where
  "do_report (State_changed st) s = onMediaStateChanged st s"
| "do_report (Error_occurred err desc) s = onMediaError err desc s"

text \<open>A call of the platform: its answer, and the reports made during it.\<close>

record answer =
  ok :: bool
  reports :: "report list"

definition call_platform :: "answer \<Rightarrow> channel \<Rightarrow> ac_fault + bool \<times> channel" where
  "call_platform a s =
     (if \<not> channel_set s then Inl Null_channel else Inr (ok a, fold do_report (reports a) s))"

subsection \<open>Tasks\<close>

definition notify :: "event \<Rightarrow> channel \<Rightarrow> channel" where
  "notify e s = (if observer_set s then s\<lparr>events := events s @ [e]\<rparr> else s)"

text \<open>\<open>pos\<close> is what \<open>getPosition\<close> of the platform answers.\<close>

definition save_offset :: "int \<Rightarrow> channel \<Rightarrow> ac_fault + channel" where
  "save_offset pos s =
     (if \<not> channel_set s then Inl Null_channel else Inr (s\<lparr>m_savedOffset := pos\<rparr>))"

definition executePlaybackStarted :: "source_id \<Rightarrow> channel \<Rightarrow> channel" where
  "executePlaybackStarted i s = (if i = ERROR_ID then s else notify (onPlaybackStarted i) s)"

definition executePlaybackFinished :: "int \<Rightarrow> source_id \<Rightarrow> channel \<Rightarrow> ac_fault + channel" where
  "executePlaybackFinished pos i s =
     (if i = ERROR_ID then Inr s
      else bindR (save_offset pos (notify (onPlaybackFinished i) s))
             (\<lambda>s. Inr (s\<lparr>m_currentId := ERROR_ID\<rparr>)))"

definition executePlaybackPaused :: "int \<Rightarrow> source_id \<Rightarrow> channel \<Rightarrow> ac_fault + channel" where
  "executePlaybackPaused pos i s =
     (if i = ERROR_ID then Inr s
      else bindR (save_offset pos s) (\<lambda>s. Inr (notify (onPlaybackPaused i) s)))"

definition executePlaybackResumed :: "source_id \<Rightarrow> channel \<Rightarrow> channel" where
  "executePlaybackResumed i s = (if i = ERROR_ID then s else notify (onPlaybackResumed i) s)"

definition executePlaybackStopped :: "int \<Rightarrow> source_id \<Rightarrow> channel \<Rightarrow> ac_fault + channel" where
  "executePlaybackStopped pos i s =
     (if i = ERROR_ID then Inr s
      else bindR (save_offset pos s) (\<lambda>s. Inr (notify (onPlaybackStopped i) s)))"

definition executeBufferUnderrun :: "source_id \<Rightarrow> channel \<Rightarrow> channel" where
  "executeBufferUnderrun i s = (if i = ERROR_ID then s else notify (onBufferUnderrun i) s)"

definition executeBufferRefilled :: "source_id \<Rightarrow> channel \<Rightarrow> channel" where
  "executeBufferRefilled i s = (if i = ERROR_ID then s else notify (onBufferRefilled i) s)"

definition executeMediaError :: "source_id \<Rightarrow> media_error \<Rightarrow> string \<Rightarrow> channel \<Rightarrow> channel" where
  "executeMediaError i err desc s =
     (if i = ERROR_ID then s
      else (notify (onPlaybackError i err desc) s)\<lparr>m_currentId := ERROR_ID\<rparr>)"

text \<open>Nothing submits this one.\<close>

definition executePlaybackError :: "source_id \<Rightarrow> media_error \<Rightarrow> string \<Rightarrow> channel \<Rightarrow> channel" where
  "executePlaybackError i err desc s =
     (if i = ERROR_ID then s
      else (notify (onPlaybackError i err desc) s)\<lparr>m_currentId := ERROR_ID\<rparr>)"

text \<open>
  \<open>executeMediaStateChanged\<close>, by the new state. The value says whether the end of the function is reached,
  which assigns the new state: \<open>False\<close> is an early return or an exception that is caught and logged.
\<close>

definition state_playing :: "source_id \<Rightarrow> channel \<Rightarrow> ac_fault + bool \<times> channel" where
  "state_playing i s =
     (if m_currentMediaState s = STOPPED then
        (if m_pendingEventState s = PLAYBACK_STARTED then
           let s = s\<lparr>m_mediaStateChangeInitiator := PLAY\<rparr>; s = executePlaybackStarted i s
           in Inr (True, s\<lparr>m_pendingEventState := NO_EVENT\<rparr>)
         else if m_pendingEventState s = PLAYBACK_RESUMED then
           let s = s\<lparr>m_mediaStateChangeInitiator := RESUME\<rparr>; s = executePlaybackResumed i s
           in Inr (True, s\<lparr>m_pendingEventState := NO_EVENT\<rparr>)
         else Inr (False, s))
      else if m_currentMediaState s = BUFFERING then Inr (True, executeBufferRefilled i s)
      else Inr (False, s))"

definition stop_or_pause :: "int \<Rightarrow> source_id \<Rightarrow> channel \<Rightarrow> (ac_fault + bool \<times> channel) option" where
  "stop_or_pause pos i s =
     (if m_pendingEventState s = PLAYBACK_STOPPED then
        Some (bindR (executePlaybackStopped pos i (s\<lparr>m_mediaStateChangeInitiator := STOP\<rparr>))
          (\<lambda>s. Inr (True, s\<lparr>m_pendingEventState := NO_EVENT\<rparr>)))
      else if m_pendingEventState s = PLAYBACK_PAUSED then
        Some (bindR (executePlaybackPaused pos i (s\<lparr>m_mediaStateChangeInitiator := PAUSE\<rparr>))
          (\<lambda>s. Inr (True, s\<lparr>m_pendingEventState := NO_EVENT\<rparr>)))
      else None)"

definition state_stopped :: "int \<Rightarrow> source_id \<Rightarrow> channel \<Rightarrow> ac_fault + bool \<times> channel" where
  "state_stopped pos i s =
     (case m_currentMediaState s of
        PLAYING \<Rightarrow> (case stop_or_pause pos i s of Some r \<Rightarrow> r
          | None \<Rightarrow> if m_pendingEventState s = NO_EVENT then
              bindR (executePlaybackFinished pos i (s\<lparr>m_mediaStateChangeInitiator := NOBODY\<rparr>))
                (\<lambda>s. Inr (True, s\<lparr>m_pendingEventState := NO_EVENT\<rparr>))
            else Inr (False, s))
      | BUFFERING \<Rightarrow> (case stop_or_pause pos i s of Some r \<Rightarrow> r | None \<Rightarrow> Inr (False, s))
      | STOPPED \<Rightarrow>
          if m_pendingEventState s = PLAYBACK_STOPPED then
            bindR (executePlaybackStopped pos i (s\<lparr>m_mediaStateChangeInitiator := STOP\<rparr>))
              (\<lambda>s. Inr (True, s\<lparr>m_pendingEventState := NO_EVENT\<rparr>))
          else Inr (False, s))"

definition state_buffering :: "source_id \<Rightarrow> channel \<Rightarrow> ac_fault + bool \<times> channel" where
  "state_buffering i s =
     (if m_pendingEventState s = PLAYBACK_STARTED then Inr (False, s)
      else if m_pendingEventState s = PLAYBACK_RESUMED then
        let s = executePlaybackResumed i s; s = executeBufferUnderrun i s
        in Inr (True, s\<lparr>m_pendingEventState := NO_EVENT\<rparr>)
      else if m_pendingEventState s = NO_EVENT then
        (if m_currentMediaState s = PLAYING then Inr (True, executeBufferUnderrun i s)
         else Inr (False, s))
      else Inr (False, s))"

definition executeMediaStateChanged :: "int \<Rightarrow> source_id \<Rightarrow> media_state \<Rightarrow> channel \<Rightarrow>
    ac_fault + channel" where
  "executeMediaStateChanged pos i st s =
     (if m_currentMediaState s = st \<and> m_pendingEventState s = NO_EVENT then Inr s
      else bindR (case st of PLAYING \<Rightarrow> state_playing i s | STOPPED \<Rightarrow> state_stopped pos i s
             | BUFFERING \<Rightarrow> state_buffering i s)
        (\<lambda>(through, s). Inr (if through then s\<lparr>m_currentMediaState := st\<rparr> else s)))"

definition executeEvent :: "int \<Rightarrow> source_id \<Rightarrow> pending_event \<Rightarrow> channel \<Rightarrow> ac_fault + channel" where
  "executeEvent pos i p s =
     (case p of
        PLAYBACK_STARTED \<Rightarrow> Inr (executePlaybackStarted i s)
      | PLAYBACK_RESUMED \<Rightarrow> Inr (executePlaybackResumed i s)
      | PLAYBACK_STOPPED \<Rightarrow> executePlaybackStopped pos i s
      | PLAYBACK_PAUSED \<Rightarrow> executePlaybackPaused pos i s
      | NO_EVENT \<Rightarrow> Inr s)"

fun run_task :: "int \<Rightarrow> task \<Rightarrow> channel \<Rightarrow> ac_fault + channel" where
  "run_task pos (Media_state_changed i st) s = executeMediaStateChanged pos i st s"
| "run_task pos (Media_error i err desc) s = Inr (executeMediaError i err desc s)"
| "run_task pos (Send_event i p) s = executeEvent pos i p s"

text \<open>The executor takes the oldest task.\<close>

definition run_next :: "int \<Rightarrow> channel \<Rightarrow> ac_fault + channel" where
  "run_next pos s =
     (case tasks s of [] \<Rightarrow> Inr s | t # ts \<Rightarrow> run_task pos t (s\<lparr>tasks := ts\<rparr>))"

subsection \<open>Calls of the client\<close>

definition resetSource :: "channel \<Rightarrow> channel" where
  "resetSource s =
     s\<lparr>m_currentId := ERROR_ID, m_pendingEventState := NO_EVENT, m_currentMediaState := STOPPED,
       m_mediaStateChangeInitiator := NOBODY, m_url := [], m_savedOffset := 0\<rparr>"

text \<open>
  The counter is read and stored here in one go; that another channel may store in between, or over it, is covered
  by the steps of other channels (\<open>Audio_Events\<close>), which store anything at any time.
\<close>

definition nextId :: "channel \<Rightarrow> source_id \<times> channel" where
  "nextId s = (s_nextId s + 1, s\<lparr>s_nextId := s_nextId s + 1\<rparr>)"

definition take_nextId :: "channel \<Rightarrow> channel" where
  "take_nextId s = (let (i, s) = nextId s in s\<lparr>m_currentId := i\<rparr>)"

text \<open>The end of each variant: a failed answer resets the source; the value is the current one.\<close>

definition finish_setSource :: "bool \<times> channel \<Rightarrow> source_id \<times> channel" where
  "finish_setSource = (\<lambda>(okay, s). let s = (if okay then s else resetSource s) in (m_currentId s, s))"

definition setSource_attachment :: "answer \<Rightarrow> channel \<Rightarrow> ac_fault + source_id \<times> channel" where
  "setSource_attachment prepare s =
     bindR (call_platform prepare (take_nextId (resetSource s))) (\<lambda>r. Inr (finish_setSource r))"

definition setSource_stream :: "bool \<Rightarrow> answer \<Rightarrow> channel \<Rightarrow> ac_fault + source_id \<times> channel" where
  "setSource_stream good prepare s =
     (let s = resetSource s in
      if \<not> good then Inr (finish_setSource (False, s))
      else bindR (call_platform prepare (take_nextId s)) (\<lambda>r. Inr (finish_setSource r)))"

definition setSource_url :: "string \<Rightarrow> answer \<Rightarrow> answer \<Rightarrow> channel \<Rightarrow> ac_fault + source_id \<times> channel" where
  "setSource_url url prepare setPosition s =
     bindR (call_platform prepare (take_nextId ((resetSource s)\<lparr>m_url := url\<rparr>))) (\<lambda>(okay, s).
     if \<not> okay then Inr (finish_setSource (False, s))
     else bindR (call_platform setPosition s) (\<lambda>r. Inr (finish_setSource r)))"

definition play :: "source_id \<Rightarrow> answer \<Rightarrow> channel \<Rightarrow> ac_fault + bool \<times> channel" where
  "play i a s =
     (if m_currentId s \<noteq> i then Inr (False, s)
      else if m_currentMediaState s = PLAYING \<or> m_currentMediaState s = BUFFERING then Inr (False, s)
      else if m_pendingEventState s = PLAYBACK_STARTED then Inr (False, s)
      else bindR (call_platform a (sendPendingEvent s)) (\<lambda>(okay, s).
           Inr (if okay then (True, s\<lparr>m_pendingEventState := PLAYBACK_STARTED\<rparr>) else (False, s))))"

definition stop :: "source_id \<Rightarrow> answer \<Rightarrow> channel \<Rightarrow> bool \<times> channel" where
  "stop i a s =
     (if m_currentId s \<noteq> i then (False, s)
      else if m_mediaStateChangeInitiator s = STOP then (False, s)
      else let s = sendPendingEvent s;
               (okay, s) = (if channel_set s then (ok a, fold do_report (reports a) s) else (True, s))
           in if okay then (True, s\<lparr>m_pendingEventState := PLAYBACK_STOPPED\<rparr>) else (False, s))"

definition pause :: "source_id \<Rightarrow> answer \<Rightarrow> channel \<Rightarrow> ac_fault + bool \<times> channel" where
  "pause i a s =
     (if m_currentId s \<noteq> i then Inr (False, s)
      else if i = ERROR_ID then Inr (True, s)
      else if m_currentMediaState s = STOPPED \<and> m_pendingEventState s \<noteq> PLAYBACK_STARTED \<and>
              m_pendingEventState s \<noteq> PLAYBACK_RESUMED then Inr (False, s)
      else bindR (call_platform a (sendPendingEvent s)) (\<lambda>(okay, s).
           if \<not> okay then Inr (False, s)
           else let s = s\<lparr>m_pendingEventState := PLAYBACK_PAUSED\<rparr>
                in Inr (True, if m_currentMediaState s = STOPPED then sendPendingEvent s else s)))"

definition resume :: "source_id \<Rightarrow> answer \<Rightarrow> channel \<Rightarrow> ac_fault + bool \<times> channel" where
  "resume i a s =
     (if m_currentId s \<noteq> i then Inr (False, s)
      else if m_mediaStateChangeInitiator s \<noteq> PAUSE then Inr (False, s)
      else if m_currentMediaState s = PLAYING \<or> m_currentMediaState s = BUFFERING then Inr (False, s)
      else if m_pendingEventState s = PLAYBACK_RESUMED then Inr (False, s)
      else bindR (call_platform a (sendPendingEvent s)) (\<lambda>(okay, s).
           Inr (if okay then (True, s\<lparr>m_pendingEventState := PLAYBACK_RESUMED\<rparr>) else (False, s))))"

definition getOffset :: "source_id \<Rightarrow> int \<Rightarrow> channel \<Rightarrow> ac_fault + int" where
  "getOffset i pos s =
     (if m_currentId s = ERROR_ID \<or> m_currentId s \<noteq> i then Inr (m_savedOffset s)
      else if \<not> channel_set s then Inl Null_channel
      else if pos < 0 then Inr 0 else Inr pos)"

definition setVolume :: "8 word \<Rightarrow> bool \<Rightarrow> channel \<Rightarrow> ac_fault + bool \<times> channel" where
  "setVolume volume okay s =
     (if sint volume < MIN_SPEAKER_VOLUME \<or> MAX_SPEAKER_VOLUME < sint volume then Inr (False, s)
      else if \<not> channel_set s then Inl Null_channel
      else Inr (if okay then (True, s\<lparr>m_volume := volume\<rparr>) else (False, s)))"

text \<open>The sum is an \<open>int\<close>; it becomes an \<open>int8_t\<close> as the argument of \<open>setVolume\<close>.\<close>

definition adjustVolume :: "8 word \<Rightarrow> bool \<Rightarrow> channel \<Rightarrow> ac_fault + bool \<times> channel" where
  "adjustVolume delta okay s = setVolume (word_of_int (sint (m_volume s) + sint delta)) okay s"

definition setMute :: "bool \<Rightarrow> bool \<Rightarrow> channel \<Rightarrow> ac_fault + bool \<times> channel" where
  "setMute mute okay s =
     (let s = s\<lparr>m_muted := mute\<rparr> in if \<not> channel_set s then Inl Null_channel else Inr (okay, s))"

definition getSpeakerSettings :: "channel \<Rightarrow> 8 word \<times> bool" where
  "getSpeakerSettings s = (m_volume s, m_muted s)"

end
