(* ===== verification/Audio_Events.thy ===== *)
theory Audio_Events
  imports Audio_Channel
begin

text \<open>
  What holds in every interleaving of the client's calls, the platform's reports and the executor: the
  observer is told no event that was not asked for, only identifiers that were given out are used, and
  the executor never follows the missing pointer.
\<close>

subsection \<open>Steps\<close>

text \<open>
  A step and the event it asks for: a successful call asks for its own. The counter of identifiers is shared by
  all channels and incremented under the lock of one channel only, so another channel may have read it at any
  time before it stores, over increments made meanwhile: \<open>other_channel\<close> stores anything.
\<close>

inductive ac_step :: "channel \<Rightarrow> pending_event \<Rightarrow> channel \<Rightarrow> bool" where
  initialize: "initializeAudioChannel b c s = (r, s') \<Longrightarrow> ac_step s NO_EVENT s'"
| shutdown: "ac_step s NO_EVENT (doShutdown s)"
| observer: "ac_step s NO_EVENT (setObserver b s)"
| other_channel: "ac_step s NO_EVENT (s\<lparr>s_nextId := i\<rparr>)"
| report: "ac_step s NO_EVENT (do_report r s)"
| executor: "run_next pos s = Inr s' \<Longrightarrow> ac_step s NO_EVENT s'"
| set_attachment: "setSource_attachment a s = Inr (i, s') \<Longrightarrow> ac_step s NO_EVENT s'"
| set_stream: "setSource_stream good a s = Inr (i, s') \<Longrightarrow> ac_step s NO_EVENT s'"
| set_url: "setSource_url url a b s = Inr (i, s') \<Longrightarrow> ac_step s NO_EVENT s'"
| play: "play i a s = Inr (r, s') \<Longrightarrow> ac_step s (if r then PLAYBACK_STARTED else NO_EVENT) s'"
| stop: "stop i a s = (r, s') \<Longrightarrow> ac_step s (if r then PLAYBACK_STOPPED else NO_EVENT) s'"
| pause: "pause i a s = Inr (r, s') \<Longrightarrow> ac_step s (if r then PLAYBACK_PAUSED else NO_EVENT) s'"
| resume: "resume i a s = Inr (r, s') \<Longrightarrow> ac_step s (if r then PLAYBACK_RESUMED else NO_EVENT) s'"
| volume: "setVolume v b s = Inr (r, s') \<Longrightarrow> ac_step s NO_EVENT s'"
| adjust: "adjustVolume d b s = Inr (r, s') \<Longrightarrow> ac_step s NO_EVENT s'"
| mute: "setMute m b s = Inr (r, s') \<Longrightarrow> ac_step s NO_EVENT s'"

text \<open>A run and the events asked for in it.\<close>

inductive ac_run :: "channel \<Rightarrow> pending_event list \<Rightarrow> channel \<Rightarrow> bool" where
  start: "ac_run s [] s"
| step: "ac_run s ps s' \<Longrightarrow> ac_step s' p s'' \<Longrightarrow> ac_run s (ps @ [p]) s''"

subsection \<open>Events and what was asked for\<close>

fun event_kind :: "event \<Rightarrow> pending_event" where
  "event_kind (onPlaybackStarted i) = PLAYBACK_STARTED"
| "event_kind (onPlaybackPaused i) = PLAYBACK_PAUSED"
| "event_kind (onPlaybackResumed i) = PLAYBACK_RESUMED"
| "event_kind (onPlaybackStopped i) = PLAYBACK_STOPPED"
| "event_kind _ = NO_EVENT"

fun task_kind :: "task \<Rightarrow> pending_event" where
  "task_kind (Send_event i p) = p"
| "task_kind _ = NO_EVENT"

definition told :: "pending_event \<Rightarrow> channel \<Rightarrow> nat" where
  "told p s = count_list (map event_kind (events s)) p"

text \<open>Told, waiting in the executor, or pending.\<close>

definition account :: "pending_event \<Rightarrow> channel \<Rightarrow> nat" where
  "account p s = told p s + count_list (map task_kind (tasks s)) p +
     (if m_pendingEventState s = p then 1 else 0)"

lemma account_submit:
  "account p (submit t s) \<le> account p s + (if task_kind t = p then 1 else 0)"
  by (simp add: account_def told_def submit_def)

lemma account_pending:
  "account p (s\<lparr>m_pendingEventState := q\<rparr>) + (if m_pendingEventState s = p then 1 else 0) =
   account p s + (if q = p then 1 else 0)"
  by (simp add: account_def told_def)

lemma submit_sel [simp]:
  "m_pendingEventState (submit t s) = m_pendingEventState s" "m_currentId (submit t s) = m_currentId s"
  "channel_set (submit t s) = channel_set s" "s_nextId (submit t s) = s_nextId s"
  "events (submit t s) = events s" "shut_down (submit t s) = shut_down s"
  "m_currentMediaState (submit t s) = m_currentMediaState s"
  "m_mediaStateChangeInitiator (submit t s) = m_mediaStateChangeInitiator s"
  "m_volume (submit t s) = m_volume s"
  by (simp_all add: submit_def)

lemma account_sendPendingEvent:
  assumes "p \<noteq> NO_EVENT"
  shows "account p (sendPendingEvent s) \<le> account p s"
  using assms account_submit[of p "Send_event (m_currentId s) (m_pendingEventState s)" s]
    account_pending[of p NO_EVENT "submit (Send_event (m_currentId s) (m_pendingEventState s)) s"]
  by (auto simp: sendPendingEvent_def sendEvent_def split: if_splits)

lemma account_do_report:
  assumes "p \<noteq> NO_EVENT"
  shows "account p (do_report r s) \<le> account p s"
proof (cases r)
  case (State_changed st)
  with assms show ?thesis
    using account_submit[of p "Media_state_changed (m_currentId s) st" s]
    by (auto simp: onMediaStateChanged_def split: if_splits)
next
  case (Error_occurred err desc)
  with assms show ?thesis
    using account_submit[of p "Media_error (m_currentId s) err desc" s]
      account_pending[of p NO_EVENT "submit (Media_error (m_currentId s) err desc) s"]
    by (auto simp: onMediaError_def split: if_splits)
qed

lemma account_reports: "p \<noteq> NO_EVENT \<Longrightarrow> account p (fold do_report rs s) \<le> account p s"
  by (induction rs arbitrary: s) (auto intro: order_trans account_do_report)

lemma account_call:
  assumes "call_platform a s = Inr (r, s')" "p \<noteq> NO_EVENT"
  shows "account p s' \<le> account p s"
  using assms account_reports[of p "reports a" s] by (auto simp: call_platform_def split: if_splits)

lemma account_set_pending:
  "account p (s\<lparr>m_pendingEventState := q\<rparr>) \<le> account p s + (if q = p then 1 else 0)"
  using account_pending[of p q s] by (auto split: if_splits)

text \<open>The way every call goes: the pending event is sent, the platform is called, an event is pending.\<close>

lemma account_asked:
  assumes "call_platform a (sendPendingEvent s) = Inr (r, s')" "p \<noteq> NO_EVENT"
  shows "account p s' \<le> account p s"
    and "account p (s'\<lparr>m_pendingEventState := q\<rparr>) \<le> account p s + (if q = p then 1 else 0)"
proof -
  show le: "account p s' \<le> account p s"
    using account_call[OF assms] account_sendPendingEvent[OF assms(2), of s] by simp
  show "account p (s'\<lparr>m_pendingEventState := q\<rparr>) \<le> account p s + (if q = p then 1 else 0)"
    using le account_set_pending[of p q s'] by simp
qed

lemma account_play:
  assumes "play i a s = Inr (r, s')" "p \<noteq> NO_EVENT"
  shows "account p s' \<le> account p s + (if r \<and> p = PLAYBACK_STARTED then 1 else 0)"
  using assms account_asked(2)[of a s _ _ p PLAYBACK_STARTED] account_asked(1)[of a s _ _ p]
  by (fastforce simp: play_def bindR_Inr_iff split: if_splits)

lemma account_resume:
  assumes "resume i a s = Inr (r, s')" "p \<noteq> NO_EVENT"
  shows "account p s' \<le> account p s + (if r \<and> p = PLAYBACK_RESUMED then 1 else 0)"
  using assms account_asked(2)[of a s _ _ p PLAYBACK_RESUMED] account_asked(1)[of a s _ _ p]
  by (fastforce simp: resume_def bindR_Inr_iff split: if_splits)

lemma account_pause:
  assumes "pause i a s = Inr (r, s')" "p \<noteq> NO_EVENT"
  shows "account p s' \<le> account p s + (if r \<and> p = PLAYBACK_PAUSED then 1 else 0)"
proof (cases "\<exists>t. call_platform a (sendPendingEvent s) = Inr (True, t)")
  case True
  then obtain t where t: "call_platform a (sendPendingEvent s) = Inr (True, t)" by blast
  let ?u = "t\<lparr>m_pendingEventState := PLAYBACK_PAUSED\<rparr>"
  have "account p ?u \<le> account p s + (if PLAYBACK_PAUSED = p then 1 else 0)"
    by (rule account_asked(2)[OF t assms(2)])
  then show ?thesis
    using assms t account_sendPendingEvent[OF assms(2), of ?u]
    by (auto simp: pause_def Let_def split: if_splits)
next
  case False
  then show ?thesis
    using assms account_asked(1)[of a s _ _ p]
    by (auto simp: pause_def bindR_Inr_iff split: if_splits)
qed

lemma account_stop:
  assumes "stop i a s = (r, s')" "p \<noteq> NO_EVENT"
  shows "account p s' \<le> account p s + (if r \<and> p = PLAYBACK_STOPPED then 1 else 0)"
proof -
  let ?t = "sendPendingEvent s" and ?u = "fold do_report (reports a) (sendPendingEvent s)"
  have "account p ?t \<le> account p s" "account p ?u \<le> account p s"
    using account_sendPendingEvent[OF assms(2), of s] account_reports[OF assms(2), of "reports a" ?t]
    by simp_all
  then show ?thesis
    using assms account_set_pending[of p PLAYBACK_STOPPED ?t] account_set_pending[of p PLAYBACK_STOPPED ?u]
    by (auto simp: stop_def Let_def split: if_splits)
qed

text \<open>Setting a source forgets what is pending and asks for nothing.\<close>

lemma account_reset: "p \<noteq> NO_EVENT \<Longrightarrow> account p (resetSource s) \<le> account p s"
  by (simp add: account_def told_def resetSource_def)

lemma account_ids [simp]:
  "account p (s\<lparr>m_currentId := i\<rparr>) = account p s" "account p (s\<lparr>s_nextId := i\<rparr>) = account p s"
  "account p (s\<lparr>m_url := u\<rparr>) = account p s" "account p (s\<lparr>m_savedOffset := z\<rparr>) = account p s"
  "account p (s\<lparr>m_mediaStateChangeInitiator := w\<rparr>) = account p s"
  "account p (s\<lparr>m_currentMediaState := m\<rparr>) = account p s"
  "account p (s\<lparr>m_volume := v\<rparr>) = account p s" "account p (s\<lparr>m_muted := b\<rparr>) = account p s"
  "account p (s\<lparr>channel_set := b\<rparr>) = account p s" "account p (s\<lparr>observer_set := b\<rparr>) = account p s"
  by (simp_all add: account_def told_def)

lemma account_take: "account p (take_nextId s) = account p s"
  by (simp add: take_nextId_def nextId_def)

lemma account_finish: "p \<noteq> NO_EVENT \<Longrightarrow> account p (snd (finish_setSource (b, s))) \<le> account p s"
  by (simp add: finish_setSource_def Let_def account_reset)

lemma account_call_finish:
  assumes "call_platform a s = Inr r" "p \<noteq> NO_EVENT"
  shows "account p (snd (finish_setSource r)) \<le> account p s"
  using account_call[of a s "fst r" "snd r" p] account_finish[of p "fst r" "snd r"] assms by simp

lemma account_setSource:
  assumes "p \<noteq> NO_EVENT"
  shows "setSource_attachment a s = Inr (i, s') \<Longrightarrow> account p s' \<le> account p s"
    and "setSource_stream good a s = Inr (i, s') \<Longrightarrow> account p s' \<le> account p s"
    and "setSource_url url a b s = Inr (i, s') \<Longrightarrow> account p s' \<le> account p s"
proof -
  note reset = account_reset[OF assms, of s]
  have fin: "account p t' \<le> account p t"
    if "call_platform c t = Inr r" "finish_setSource r = (j, t')" for c t r j t'
    using account_call_finish[OF that(1) assms] that(2) by simp
  show "setSource_attachment a s = Inr (i, s') \<Longrightarrow> account p s' \<le> account p s"
    using fin[of a "take_nextId (resetSource s)"] reset
    by (fastforce simp: setSource_attachment_def bindR_Inr_iff account_take)
  show "setSource_stream good a s = Inr (i, s') \<Longrightarrow> account p s' \<le> account p s"
    using fin[of a "take_nextId (resetSource s)"] reset account_finish[OF assms, of False "resetSource s"]
    by (fastforce simp: setSource_stream_def Let_def bindR_Inr_iff account_take split: if_splits)
  show "setSource_url url a b s = Inr (i, s') \<Longrightarrow> account p s' \<le> account p s"
  proof -
    let ?t = "take_nextId ((resetSource s)\<lparr>m_url := url\<rparr>)"
    assume "setSource_url url a b s = Inr (i, s')"
    then obtain okay t where t: "call_platform a ?t = Inr (okay, t)"
      and s': "(if \<not> okay then Inr (finish_setSource (False, t))
        else bindR (call_platform b t) (\<lambda>r. Inr (finish_setSource r))) = Inr (i, s')"
      by (auto simp: setSource_url_def bindR_Inr_iff)
    have le: "account p t \<le> account p s" using account_call[OF t assms] reset by (simp add: account_take)
    from s' consider "finish_setSource (False, t) = (i, s')"
      | r where "call_platform b t = Inr r" "finish_setSource r = (i, s')"
      by (auto simp: bindR_Inr_iff split: if_splits)
    then show "account p s' \<le> account p s"
      by cases (use le account_finish[OF assms, of False t] fin in fastforce)+
  qed
qed

subsection \<open>The executor pays\<close>

lemma account_notify:
  "account p (notify e s) \<le> account p s + (if event_kind e = p then 1 else 0)"
  by (simp add: account_def told_def notify_def)

lemma account_save: "save_offset pos s = Inr s' \<Longrightarrow> account p s' = account p s"
  by (auto simp: save_offset_def split: if_splits)

lemma notify_sel [simp]:
  "m_pendingEventState (notify e s) = m_pendingEventState s" "m_currentId (notify e s) = m_currentId s"
  "channel_set (notify e s) = channel_set s" "tasks (notify e s) = tasks s"
  "s_nextId (notify e s) = s_nextId s" "shut_down (notify e s) = shut_down s"
  by (simp_all add: notify_def)

lemma account_execute_told:
  "account p (executePlaybackStarted i s) \<le> account p s + (if PLAYBACK_STARTED = p then 1 else 0)"
  "account p (executePlaybackResumed i s) \<le> account p s + (if PLAYBACK_RESUMED = p then 1 else 0)"
  using account_notify[of p "onPlaybackStarted i" s] account_notify[of p "onPlaybackResumed i" s]
  by (auto simp: executePlaybackStarted_def executePlaybackResumed_def)

lemma account_execute_quiet:
  assumes "p \<noteq> NO_EVENT"
  shows "account p (executeBufferUnderrun i s) \<le> account p s"
    and "account p (executeBufferRefilled i s) \<le> account p s"
    and "account p (executeMediaError i err desc s) \<le> account p s"
  using assms account_notify[of p "onBufferUnderrun i" s] account_notify[of p "onBufferRefilled i" s]
    account_notify[of p "onPlaybackError i err desc" s]
  by (auto simp: executeBufferUnderrun_def executeBufferRefilled_def executeMediaError_def)

lemma account_execute_stopped:
  assumes "executePlaybackStopped pos i s = Inr s'"
  shows "account p s' \<le> account p s + (if PLAYBACK_STOPPED = p then 1 else 0)"
proof (cases "i = ERROR_ID")
  case False
  with assms obtain t where "save_offset pos s = Inr t" "s' = notify (onPlaybackStopped i) t"
    by (auto simp: executePlaybackStopped_def bindR_Inr_iff)
  then show ?thesis using account_notify[of p "onPlaybackStopped i" t] account_save by simp
qed (use assms in \<open>simp add: executePlaybackStopped_def\<close>)

lemma account_execute_paused:
  assumes "executePlaybackPaused pos i s = Inr s'"
  shows "account p s' \<le> account p s + (if PLAYBACK_PAUSED = p then 1 else 0)"
proof (cases "i = ERROR_ID")
  case False
  with assms obtain t where "save_offset pos s = Inr t" "s' = notify (onPlaybackPaused i) t"
    by (auto simp: executePlaybackPaused_def bindR_Inr_iff)
  then show ?thesis using account_notify[of p "onPlaybackPaused i" t] account_save by simp
qed (use assms in \<open>simp add: executePlaybackPaused_def\<close>)

lemma account_execute_finished:
  assumes "executePlaybackFinished pos i s = Inr s'" "p \<noteq> NO_EVENT"
  shows "account p s' \<le> account p s"
proof (cases "i = ERROR_ID")
  case False
  with assms obtain t where "save_offset pos (notify (onPlaybackFinished i) s) = Inr t"
    "s' = t\<lparr>m_currentId := ERROR_ID\<rparr>"
    by (auto simp: executePlaybackFinished_def bindR_Inr_iff)
  then show ?thesis using account_notify[of p "onPlaybackFinished i" s] account_save assms(2) by simp
qed (use assms in \<open>simp add: executePlaybackFinished_def\<close>)

lemma pending_execute:
  "m_pendingEventState (executePlaybackStarted i s) = m_pendingEventState s"
  "m_pendingEventState (executePlaybackResumed i s) = m_pendingEventState s"
  "executePlaybackStopped pos i s = Inr s' \<Longrightarrow> m_pendingEventState s' = m_pendingEventState s"
  "executePlaybackPaused pos i s = Inr s' \<Longrightarrow> m_pendingEventState s' = m_pendingEventState s"
  "executePlaybackFinished pos i s = Inr s' \<Longrightarrow> m_pendingEventState s' = m_pendingEventState s"
  "m_pendingEventState (executeBufferUnderrun i s) = m_pendingEventState s"
  by (auto simp: executePlaybackStarted_def executePlaybackResumed_def executePlaybackStopped_def
      executePlaybackPaused_def executePlaybackFinished_def executeBufferUnderrun_def
      bindR_Inr_iff save_offset_def split: if_splits)

text \<open>An event that was pending is told and no longer pending.\<close>

lemma account_settle:
  assumes "account p t \<le> account p s + (if q = p then 1 else 0)" "m_pendingEventState t = q"
    and "p \<noteq> NO_EVENT"
  shows "account p (t\<lparr>m_pendingEventState := NO_EVENT\<rparr>) \<le> account p s"
  using assms account_pending[of p NO_EVENT t] by (auto split: if_splits)

lemma account_started_settled:
  assumes "m_pendingEventState s = PLAYBACK_STARTED" "p \<noteq> NO_EVENT"
  shows "account p ((executePlaybackStarted i (s\<lparr>m_mediaStateChangeInitiator := w\<rparr>))
    \<lparr>m_pendingEventState := NO_EVENT\<rparr>) \<le> account p s"
  using account_settle[of p "executePlaybackStarted i (s\<lparr>m_mediaStateChangeInitiator := w\<rparr>)" s PLAYBACK_STARTED]
    account_execute_told(1)[of p i "s\<lparr>m_mediaStateChangeInitiator := w\<rparr>"] assms
  by (simp add: pending_execute)

lemma account_resumed_settled:
  assumes "m_pendingEventState s = PLAYBACK_RESUMED" "p \<noteq> NO_EVENT"
  shows "account p ((executePlaybackResumed i (s\<lparr>m_mediaStateChangeInitiator := w\<rparr>))
    \<lparr>m_pendingEventState := NO_EVENT\<rparr>) \<le> account p s"
  using account_settle[of p "executePlaybackResumed i (s\<lparr>m_mediaStateChangeInitiator := w\<rparr>)" s PLAYBACK_RESUMED]
    account_execute_told(2)[of p i "s\<lparr>m_mediaStateChangeInitiator := w\<rparr>"] assms
  by (simp add: pending_execute)

lemma account_state_playing:
  assumes "state_playing i s = Inr (r, s')" "p \<noteq> NO_EVENT"
  shows "account p s' \<le> account p s"
proof (cases "m_currentMediaState s")
  case STOPPED
  then show ?thesis
    using assms account_started_settled[of s p i PLAY] account_resumed_settled[of s p i RESUME]
    by (cases "m_pendingEventState s") (auto simp: state_playing_def Let_def)
next
  case BUFFERING
  then show ?thesis
    using assms account_execute_quiet(2)[OF assms(2), of i s] by (auto simp: state_playing_def)
qed (use assms in \<open>auto simp: state_playing_def\<close>)

lemma account_stopped_settled:
  assumes "executePlaybackStopped pos i (s\<lparr>m_mediaStateChangeInitiator := w\<rparr>) = Inr t"
    and "m_pendingEventState s = PLAYBACK_STOPPED" "p \<noteq> NO_EVENT"
  shows "account p (t\<lparr>m_pendingEventState := NO_EVENT\<rparr>) \<le> account p s"
  using account_settle[of p t s PLAYBACK_STOPPED] account_execute_stopped[OF assms(1), of p] assms
  by (simp add: pending_execute)

lemma account_paused_settled:
  assumes "executePlaybackPaused pos i (s\<lparr>m_mediaStateChangeInitiator := w\<rparr>) = Inr t"
    and "m_pendingEventState s = PLAYBACK_PAUSED" "p \<noteq> NO_EVENT"
  shows "account p (t\<lparr>m_pendingEventState := NO_EVENT\<rparr>) \<le> account p s"
  using account_settle[of p t s PLAYBACK_PAUSED] account_execute_paused[OF assms(1), of p] assms
  by (simp add: pending_execute)

lemma account_stop_or_pause:
  assumes "stop_or_pause pos i s = Some (Inr (r, s'))" "p \<noteq> NO_EVENT"
  shows "account p s' \<le> account p s"
proof -
  from assms(1) consider
      t where "executePlaybackStopped pos i (s\<lparr>m_mediaStateChangeInitiator := STOP\<rparr>) = Inr t"
        "m_pendingEventState s = PLAYBACK_STOPPED" "s' = t\<lparr>m_pendingEventState := NO_EVENT\<rparr>"
    | t where "executePlaybackPaused pos i (s\<lparr>m_mediaStateChangeInitiator := PAUSE\<rparr>) = Inr t"
        "m_pendingEventState s = PLAYBACK_PAUSED" "s' = t\<lparr>m_pendingEventState := NO_EVENT\<rparr>"
    by (auto simp: stop_or_pause_def bindR_Inr_iff split: if_splits)
  then show ?thesis
  proof cases
    case (1 t)
    then show ?thesis using account_stopped_settled[OF 1(1,2) assms(2)] by simp
  next
    case (2 t)
    then show ?thesis using account_paused_settled[OF 2(1,2) assms(2)] by simp
  qed
qed

lemma account_state_stopped:
  assumes "state_stopped pos i s = Inr (r, s')" "p \<noteq> NO_EVENT"
  shows "account p s' \<le> account p s"
proof -
  from assms(1) consider "s' = s" | "stop_or_pause pos i s = Some (Inr (r, s'))"
    | t where "executePlaybackStopped pos i (s\<lparr>m_mediaStateChangeInitiator := STOP\<rparr>) = Inr t"
      "m_pendingEventState s = PLAYBACK_STOPPED" "s' = t\<lparr>m_pendingEventState := NO_EVENT\<rparr>"
    | t where "executePlaybackFinished pos i (s\<lparr>m_mediaStateChangeInitiator := NOBODY\<rparr>) = Inr t"
      "s' = t\<lparr>m_pendingEventState := NO_EVENT\<rparr>"
    by (auto simp: state_stopped_def bindR_Inr_iff split: media_state.splits option.splits if_splits)
  then show ?thesis
  proof cases
    case (4 t)
    then show ?thesis
      using account_set_pending[of p NO_EVENT t] account_execute_finished[OF 4(1) assms(2)] assms(2)
      by simp
  next
    case 2
    then show ?thesis by (rule account_stop_or_pause[OF _ assms(2)])
  next
    case (3 t)
    then show ?thesis using account_stopped_settled[OF 3(1,2) assms(2)] by simp
  qed simp
qed

lemma account_state_buffering:
  assumes "state_buffering i s = Inr (r, s')" "p \<noteq> NO_EVENT"
  shows "account p s' \<le> account p s"
proof -
  from assms(1) consider "s' = s" | "s' = executeBufferUnderrun i s"
    | "m_pendingEventState s = PLAYBACK_RESUMED"
      "s' = (executeBufferUnderrun i (executePlaybackResumed i s))\<lparr>m_pendingEventState := NO_EVENT\<rparr>"
    by (auto simp: state_buffering_def Let_def split: if_splits)
  then show ?thesis
  proof cases
    case 3
    let ?t = "executeBufferUnderrun i (executePlaybackResumed i s)"
    have "account p ?t \<le> account p s + (if PLAYBACK_RESUMED = p then 1 else 0)"
      using account_execute_told(2)[of p i s]
        account_execute_quiet(1)[OF assms(2), of i "executePlaybackResumed i s"] by simp
    with 3 show ?thesis
      using account_settle[of p ?t s PLAYBACK_RESUMED] assms(2) by (simp add: pending_execute)
  qed (use account_execute_quiet(1)[OF assms(2)] in simp_all)
qed

lemma account_media_state_changed:
  assumes "executeMediaStateChanged pos i st s = Inr s'" "p \<noteq> NO_EVENT"
  shows "account p s' \<le> account p s"
proof (cases "m_currentMediaState s = st \<and> m_pendingEventState s = NO_EVENT")
  case False
  with assms(1) obtain r t where "(case st of PLAYING \<Rightarrow> state_playing i s | STOPPED \<Rightarrow> state_stopped pos i s
             | BUFFERING \<Rightarrow> state_buffering i s) = Inr (r, t)"
      and s': "s' = (if r then t\<lparr>m_currentMediaState := st\<rparr> else t)"
    unfolding executeMediaStateChanged_def if_not_P[OF False] by (auto simp only: bindR_Inr_iff sum.inject)
  then have "account p t \<le> account p s"
    using account_state_playing[of i s r t p] account_state_stopped[of pos i s r t p]
      account_state_buffering[of i s r t p] assms(2)
    by (cases st) simp_all
  then show ?thesis by (simp add: s')
qed (use assms in \<open>simp add: executeMediaStateChanged_def\<close>)

lemma account_run_task:
  assumes "run_task pos t s = Inr s'" "p \<noteq> NO_EVENT"
  shows "account p s' \<le> account p s + (if task_kind t = p then 1 else 0)"
proof (cases t)
  case (Media_state_changed i st)
  then show ?thesis using assms account_media_state_changed[of pos i st s s' p] by simp
next
  case (Media_error i err desc)
  then show ?thesis using assms account_execute_quiet(3)[OF assms(2), of i err desc s] by auto
next
  case (Send_event i q)
  then show ?thesis
    using assms account_execute_told[of p i s] account_execute_stopped[of pos i s s' p]
      account_execute_paused[of pos i s s' p]
    by (cases q) (auto simp: executeEvent_def)
qed

lemma account_run_next:
  assumes "run_next pos s = Inr s'" "p \<noteq> NO_EVENT"
  shows "account p s' \<le> account p s"
proof (cases "tasks s")
  case (Cons t ts)
  with assms have "account p s' \<le> account p (s\<lparr>tasks := ts\<rparr>) + (if task_kind t = p then 1 else 0)"
    by (intro account_run_task) (simp_all add: run_next_def)
  also have "\<dots> = account p s" using Cons by (simp add: account_def told_def)
  finally show ?thesis .
qed (use assms in \<open>simp add: run_next_def\<close>)

lemma account_step:
  assumes "ac_step s q s'" "p \<noteq> NO_EVENT"
  shows "account p s' \<le> account p s + (if q = p then 1 else 0)"
  using assms(1)
proof cases
  case (initialize b c r)
  then show ?thesis by (auto simp: initializeAudioChannel_def split: if_splits)
next
  case shutdown
  then show ?thesis by (simp add: doShutdown_def account_def told_def)
next
  case (observer b)
  then show ?thesis by (simp add: setObserver_def)
next
  case (other_channel i)
  then show ?thesis by simp
next
  case (report r)
  then show ?thesis using account_do_report[OF assms(2), of r s] by simp
next
  case (executor pos)
  then show ?thesis using account_run_next[OF _ assms(2), of pos s s'] by simp
next
  case (volume v b r)
  then show ?thesis by (auto simp: setVolume_def split: if_splits)
next
  case (adjust d b r)
  then show ?thesis by (auto simp: adjustVolume_def setVolume_def split: if_splits)
next
  case (mute m b r)
  then show ?thesis by (auto simp: setMute_def Let_def split: if_splits)
next
  case (play i a r)
  then show ?thesis using account_play[OF play(2) assms(2)] by (auto split: if_splits)
next
  case (stop i a r)
  then show ?thesis using account_stop[OF stop(2) assms(2)] by (auto split: if_splits)
next
  case (pause i a r)
  then show ?thesis using account_pause[OF pause(2) assms(2)] by (auto split: if_splits)
next
  case (resume i a r)
  then show ?thesis using account_resume[OF resume(2) assms(2)] by (auto split: if_splits)
next
  case (set_attachment a i)
  then show ?thesis using account_setSource(1)[OF assms(2) set_attachment(2)] by simp
next
  case (set_stream good a i)
  then show ?thesis using account_setSource(2)[OF assms(2) set_stream(2)] by simp
next
  case (set_url url a b i)
  then show ?thesis using account_setSource(3)[OF assms(2) set_url(2)] by simp
qed

lemma account_run:
  assumes "ac_run s qs s'" "p \<noteq> NO_EVENT"
  shows "account p s' \<le> account p s + count_list qs p"
  using assms(1)
proof induction
  case (step s qs s' q s'')
  then show ?case using account_step[OF step.hyps(2) assms(2)] by (auto split: if_splits)
qed simp

end
