(* ===== verification/Audio_Ids.thy ===== *)
theory Audio_Ids
  imports Audio_Events
begin

text \<open>
  Identifiers and the pointer to the output channel: what is told about, waiting or current is a source
  that was given out, and whenever there is a task about a source the output channel is there.
\<close>

fun event_id :: "event \<Rightarrow> source_id" where
  "event_id (onPlaybackStarted i) = i"
| "event_id (onPlaybackFinished i) = i"
| "event_id (onPlaybackPaused i) = i"
| "event_id (onPlaybackResumed i) = i"
| "event_id (onPlaybackStopped i) = i"
| "event_id (onPlaybackError i err desc) = i"
| "event_id (onBufferUnderrun i) = i"
| "event_id (onBufferRefilled i) = i"

fun task_id :: "task \<Rightarrow> source_id" where
  "task_id (Media_state_changed i st) = i"
| "task_id (Media_error i err desc) = i"
| "task_id (Send_event i p) = i"

definition id_ok :: "source_id set \<Rightarrow> channel \<Rightarrow> source_id \<Rightarrow> bool" where
  "id_ok G s i \<longleftrightarrow> i = ERROR_ID \<or> i \<in> G \<and> (channel_set s \<or> shut_down s)"

text \<open>\<open>G\<close> are the identifiers this channel has taken from the counter.\<close>

definition ids_inv :: "source_id set \<Rightarrow> channel \<Rightarrow> bool" where
  "ids_inv n s \<longleftrightarrow> ERROR_ID \<notin> n \<and> id_ok n s (m_currentId s) \<and> (\<forall>t\<in>set (tasks s). id_ok n s (task_id t)) \<and>
     (\<forall>e\<in>set (events s). event_id e \<in> n) \<and>
     (shut_down s \<longrightarrow> tasks s = [])"

named_theorems ids_frame \<open>updates that leave the identifiers alone\<close>

lemma ids_inv_fields [ids_frame]:
  "ids_inv n (s\<lparr>m_pendingEventState := q\<rparr>) = ids_inv n s"
  "ids_inv n (s\<lparr>m_currentMediaState := m\<rparr>) = ids_inv n s"
  "ids_inv n (s\<lparr>m_mediaStateChangeInitiator := w\<rparr>) = ids_inv n s"
  "ids_inv n (s\<lparr>m_url := u\<rparr>) = ids_inv n s" "ids_inv n (s\<lparr>m_savedOffset := z\<rparr>) = ids_inv n s"
  "ids_inv n (s\<lparr>m_volume := v\<rparr>) = ids_inv n s" "ids_inv n (s\<lparr>m_muted := b\<rparr>) = ids_inv n s"
  "ids_inv n (s\<lparr>observer_set := b\<rparr>) = ids_inv n s"
  by (simp_all add: ids_inv_def id_ok_def)

lemma ids_inv_submit:
  assumes "ids_inv n s" "task_id t = m_currentId s"
  shows "ids_inv n (submit t s)"
  using assms by (auto simp: ids_inv_def id_ok_def submit_def)

lemma ids_inv_none: "ids_inv n s \<Longrightarrow> ids_inv n (s\<lparr>m_currentId := ERROR_ID\<rparr>)"
  by (simp add: ids_inv_def id_ok_def)

lemma ids_inv_notify:
  assumes "ids_inv n s" "event_id e \<in> n"
  shows "ids_inv n (notify e s)"
  using assms by (auto simp: ids_inv_def id_ok_def notify_def)

lemma ids_inv_sendPendingEvent: "ids_inv n s \<Longrightarrow> ids_inv n (sendPendingEvent s)"
  by (simp add: sendPendingEvent_def sendEvent_def ids_frame ids_inv_submit)

lemma ids_inv_report: "ids_inv n s \<Longrightarrow> ids_inv n (do_report r s)"
  by (cases r) (simp_all add: onMediaStateChanged_def onMediaError_def ids_frame ids_inv_submit)

lemma ids_inv_reports: "ids_inv n s \<Longrightarrow> ids_inv n (fold do_report rs s)"
  by (induction rs arbitrary: s) (simp_all add: ids_inv_report)

lemma ids_inv_call: "call_platform a s = Inr (r, s') \<Longrightarrow> ids_inv n s \<Longrightarrow> ids_inv n s'"
  by (auto simp: call_platform_def ids_inv_reports split: if_splits)

lemma ids_inv_reset: "ids_inv n s \<Longrightarrow> ids_inv n (resetSource s)"
  by (simp add: resetSource_def ids_inv_def id_ok_def)

lemma ids_inv_counter: "ids_inv n s \<Longrightarrow> ids_inv n (s\<lparr>s_nextId := i\<rparr>)"
  by (auto simp: ids_inv_def id_ok_def)

lemma ids_inv_take: "ids_inv n s \<Longrightarrow> channel_set s \<Longrightarrow> ids_inv (insert (s_nextId s + 1) n) (take_nextId s)"
  by (auto simp: take_nextId_def nextId_def ids_inv_def id_ok_def ERROR_ID_def)

lemma ids_inv_finish: "ids_inv n (snd r) \<Longrightarrow> ids_inv n (snd (finish_setSource r))"
  by (cases r) (simp add: finish_setSource_def Let_def ids_inv_reset)

lemma channel_set_sel [simp]:
  "channel_set (take_nextId s) = channel_set s" "channel_set (resetSource s) = channel_set s"
  by (simp_all add: take_nextId_def nextId_def resetSource_def)

lemma call_channel_set: "call_platform a s = Inr r \<Longrightarrow> channel_set s"
  by (simp add: call_platform_def split: if_splits)

lemma ids_inv_call_take:
  assumes "call_platform a (take_nextId t) = Inr (r, s')" "ids_inv n t"
  shows "ids_inv (insert (s_nextId t + 1) n) s'"
  by (rule ids_inv_call[OF assms(1) ids_inv_take[OF assms(2)]])
     (use call_channel_set[OF assms(1)] in simp)

text \<open>The step that sets a source and the identifier it takes; a bad stream takes none.\<close>

inductive ac_takes :: "channel \<Rightarrow> source_id \<Rightarrow> channel \<Rightarrow> bool" where
  attachment: "setSource_attachment a s = Inr (i, s') \<Longrightarrow> ac_takes s (fst (nextId s)) s'"
| stream: "setSource_stream True a s = Inr (i, s') \<Longrightarrow> ac_takes s (fst (nextId s)) s'"
| url: "setSource_url url a b s = Inr (i, s') \<Longrightarrow> ac_takes s (fst (nextId s)) s'"

text \<open>A run and the identifiers the channel takes in it.\<close>

inductive ac_gives :: "channel \<Rightarrow> source_id set \<Rightarrow> channel \<Rightarrow> bool" where
  start: "ac_gives s {} s"
| take: "ac_gives s G s' \<Longrightarrow> ac_takes s' i s'' \<Longrightarrow> ac_gives s (insert i G) s''"
| step: "ac_gives s G s' \<Longrightarrow> ac_step s' p s'' \<Longrightarrow> \<nexists>i. ac_takes s' i s'' \<Longrightarrow> ac_gives s G s''"

lemma nextId_reset [simp]: "s_nextId (resetSource s) = s_nextId s"
  by (simp add: resetSource_def)

lemma ids_inv_takes:
  assumes "ac_takes s j s'" and "ids_inv G s"
  shows "ids_inv (insert j G) s'"
  using assms(1)
proof cases
  note reset = ids_inv_reset[OF assms(2)]
  have fin: "ids_inv n t" if "finish_setSource r = (j, t)" "ids_inv n (snd r)" for n r j t
    using ids_inv_finish[OF that(2)] that(1) by simp
  have url_inv: "ids_inv G ((resetSource s)\<lparr>m_url := url\<rparr>)" for url using reset by (simp add: ids_frame)
  {
    case (attachment a i)
    with fin ids_inv_call_take[OF _ reset] show ?thesis
      by (fastforce simp: setSource_attachment_def nextId_def bindR_Inr_iff)
  next
    case (stream a i)
    with fin ids_inv_call_take[OF _ reset] show ?thesis
      by (fastforce simp: setSource_stream_def Let_def nextId_def bindR_Inr_iff)
  next
    case (url url a b i)
    with fin ids_inv_call_take[OF _ url_inv] ids_inv_call show ?thesis
      by (fastforce simp: setSource_url_def nextId_def bindR_Inr_iff split: if_splits)
  }
qed

lemma ids_inv_asked:
  assumes "call_platform a (sendPendingEvent s) = Inr (r, s')" "ids_inv n s"
  shows "ids_inv n s'"
  by (rule ids_inv_call[OF assms(1) ids_inv_sendPendingEvent[OF assms(2)]])

lemma ids_inv_calls:
  assumes "ids_inv n s"
  shows "play i a s = Inr (r, s') \<Longrightarrow> ids_inv n s'"
    and "stop i a s = (r, s') \<Longrightarrow> ids_inv n s'"
    and "pause i a s = Inr (r, s') \<Longrightarrow> ids_inv n s'"
    and "resume i a s = Inr (r, s') \<Longrightarrow> ids_inv n s'"
proof -
  note asked = ids_inv_asked[OF _ assms]
  show "play i a s = Inr (r, s') \<Longrightarrow> ids_inv n s'"
    using assms asked by (fastforce simp: play_def bindR_Inr_iff ids_frame split: if_splits)
  show "resume i a s = Inr (r, s') \<Longrightarrow> ids_inv n s'"
    using assms asked by (fastforce simp: resume_def bindR_Inr_iff ids_frame split: if_splits)
  show "stop i a s = (r, s') \<Longrightarrow> ids_inv n s'"
    using assms ids_inv_sendPendingEvent[OF assms] ids_inv_reports
    by (auto simp: stop_def Let_def ids_frame split: if_splits)
  show "pause i a s = Inr (r, s') \<Longrightarrow> ids_inv n s'"
    using assms asked
    by (fastforce simp: pause_def Let_def bindR_Inr_iff ids_frame ids_inv_sendPendingEvent split: if_splits)
qed

subsection \<open>Tasks\<close>

text \<open>A task may be run: it is about no source, or about one that was given out and the pointer is there.\<close>

definition runnable :: "source_id set \<Rightarrow> source_id \<Rightarrow> channel \<Rightarrow> bool" where
  "runnable n i s \<longleftrightarrow> ids_inv n s \<and> (i \<noteq> ERROR_ID \<longrightarrow> i \<in> n \<and> channel_set s)"

definition runs_well :: "source_id set \<Rightarrow> ac_fault + channel \<Rightarrow> bool" where
  "runs_well n r \<longleftrightarrow> (\<exists>s'. r = Inr s' \<and> ids_inv n s')"

lemma runnable_fields [ids_frame]:
  "runnable n i (s\<lparr>m_pendingEventState := q\<rparr>) = runnable n i s"
  "runnable n i (s\<lparr>m_mediaStateChangeInitiator := w\<rparr>) = runnable n i s"
  "runnable n i (s\<lparr>m_savedOffset := z\<rparr>) = runnable n i s"
  by (simp_all add: runnable_def ids_frame)

lemma runnable_notify:
  "runnable n i s \<Longrightarrow> i \<noteq> ERROR_ID \<Longrightarrow> event_id e = i \<Longrightarrow> runnable n i (notify e s)"
  by (simp add: runnable_def ids_inv_notify)

lemma runnable_told:
  assumes "runnable n i s"
  shows "runnable n i (executePlaybackStarted i s)" "runnable n i (executePlaybackResumed i s)"
    "runnable n i (executeBufferUnderrun i s)" "runnable n i (executeBufferRefilled i s)"
  using assms runnable_notify[OF assms]
  by (auto simp: executePlaybackStarted_def executePlaybackResumed_def executeBufferUnderrun_def
      executeBufferRefilled_def)

lemma runs_saved:
  assumes "runnable n i s" "i \<noteq> ERROR_ID"
  obtains s' where "save_offset pos s = Inr s'" "runnable n i s'"
proof
  show "save_offset pos s = Inr (s\<lparr>m_savedOffset := pos\<rparr>)"
    using assms by (simp add: save_offset_def runnable_def)
  show "runnable n i (s\<lparr>m_savedOffset := pos\<rparr>)" using assms(1) by (simp add: ids_frame)
qed

lemma runs_execute:
  assumes "runnable n i s"
  shows "runs_well n (executePlaybackStopped pos i s)" "runs_well n (executePlaybackPaused pos i s)"
    "runs_well n (executePlaybackFinished pos i s)"
proof -
  have inv: "ids_inv n t" if "runnable n i t" for t using that by (simp add: runnable_def)
  show "runs_well n (executePlaybackStopped pos i s)"
  proof (cases "i = ERROR_ID")
    case False
    from runs_saved[OF assms this, of pos] obtain t where "save_offset pos s = Inr t" "runnable n i t" .
    with False show ?thesis
      using inv[OF runnable_notify[of n i t "onPlaybackStopped i"]]
      by (simp add: executePlaybackStopped_def runs_well_def)
  qed (use inv[OF assms] in \<open>simp add: executePlaybackStopped_def runs_well_def\<close>)
  show "runs_well n (executePlaybackPaused pos i s)"
  proof (cases "i = ERROR_ID")
    case False
    from runs_saved[OF assms this, of pos] obtain t where "save_offset pos s = Inr t" "runnable n i t" .
    with False show ?thesis
      using inv[OF runnable_notify[of n i t "onPlaybackPaused i"]]
      by (simp add: executePlaybackPaused_def runs_well_def)
  qed (use inv[OF assms] in \<open>simp add: executePlaybackPaused_def runs_well_def\<close>)
  show "runs_well n (executePlaybackFinished pos i s)"
  proof (cases "i = ERROR_ID")
    case False
    from runs_saved[OF runnable_notify[OF assms this, of "onPlaybackFinished i"] this, of pos]
    obtain t where "save_offset pos (notify (onPlaybackFinished i) s) = Inr t" "runnable n i t" by auto
    with False show ?thesis
      using ids_inv_none[OF inv, of t] by (simp add: executePlaybackFinished_def runs_well_def)
  qed (use inv[OF assms] in \<open>simp add: executePlaybackFinished_def runs_well_def\<close>)
qed

lemma runs_well_bind:
  "runs_well n r \<Longrightarrow> runs_well n (bindR (bindR r (\<lambda>s. Inr (True, s\<lparr>m_pendingEventState := NO_EVENT\<rparr>)))
    (\<lambda>(through, s). Inr (if through then s\<lparr>m_currentMediaState := st\<rparr> else s)))"
  by (auto simp: runs_well_def ids_frame)

lemma runs_media_state_changed:
  assumes "runnable n i s"
  shows "runs_well n (executeMediaStateChanged pos i st s)"
proof -
  have inv: "ids_inv n t" if "runnable n i t" for t using that by (simp add: runnable_def)
  note told = runnable_told[OF assms]
    runnable_told[of n i "s\<lparr>m_mediaStateChangeInitiator := PLAY\<rparr>"]
    runnable_told[of n i "s\<lparr>m_mediaStateChangeInitiator := RESUME\<rparr>"]
    runnable_told(3)[OF runnable_told(2)[OF assms]]
  have ok: "runnable n i (s\<lparr>m_mediaStateChangeInitiator := w\<rparr>)" for w
    using assms by (simp add: ids_frame)
  note ends = runs_execute[OF ok, THEN runs_well_bind]
  show ?thesis
  proof (cases st)
    case PLAYING
    then show ?thesis using told assms inv
      by (auto simp: executeMediaStateChanged_def state_playing_def runs_well_def Let_def ids_frame
          intro!: inv)
  next
    case BUFFERING
    then show ?thesis using told assms inv
      by (auto simp: executeMediaStateChanged_def state_buffering_def runs_well_def Let_def ids_frame
          intro!: inv)
  next
    case STOPPED
    have refused: "runs_well n (Inr s)" using inv[OF assms] by (simp add: runs_well_def)
    show ?thesis
      using ends refused STOPPED
      by (cases "m_currentMediaState s"; cases "m_pendingEventState s")
         (simp_all add: executeMediaStateChanged_def state_stopped_def stop_or_pause_def)
  qed
qed

lemma runs_task:
  assumes "runnable n (task_id t) s"
  shows "runs_well n (run_task pos t s)"
proof (cases t)
  case (Media_state_changed i st)
  then show ?thesis using assms runs_media_state_changed by simp
next
  case (Media_error i err desc)
  then show ?thesis
    using assms runnable_notify[of n i s "onPlaybackError i err desc"]
    by (auto simp: executeMediaError_def runs_well_def runnable_def ids_inv_none)
next
  case (Send_event i q)
  then show ?thesis
    using assms runs_execute[of n i s] runnable_told[of n i s]
    by (cases q) (auto simp: executeEvent_def runs_well_def runnable_def)
qed

lemma runs_next:
  assumes "ids_inv n s"
  shows "runs_well n (run_next pos s)"
proof (cases "tasks s")
  case (Cons t ts)
  then have "runnable n (task_id t) (s\<lparr>tasks := ts\<rparr>)"
    using assms by (auto simp: runnable_def ids_inv_def id_ok_def)
  from runs_task[OF this] Cons show ?thesis by (simp add: run_next_def)
qed (use assms in \<open>simp add: run_next_def runs_well_def\<close>)

lemma ids_inv_step:
  assumes "ac_step s q s'" "ids_inv n s" "\<nexists>i. ac_takes s i s'"
  shows "ids_inv n s'"
  using assms(1)
proof cases
  case (initialize b c r)
  with assms(2) show ?thesis
    by (auto simp: initializeAudioChannel_def ids_inv_def id_ok_def split: if_splits)
next
  case shutdown
  with assms(2) show ?thesis by (auto simp: doShutdown_def ids_inv_def id_ok_def)
next
  case (observer b)
  with assms(2) show ?thesis by (simp add: setObserver_def ids_frame)
next
  case (other_channel i)
  with assms(2) show ?thesis by (simp add: ids_inv_counter)
next
  case (report r)
  with assms(2) show ?thesis by (simp add: ids_inv_report)
next
  case (executor pos)
  with runs_next[OF assms(2), of pos] show ?thesis by (simp add: runs_well_def)
next
  case (volume v b r)
  with assms(2) show ?thesis by (auto simp: setVolume_def ids_frame split: if_splits)
next
  case (adjust d b r)
  with assms(2) show ?thesis by (auto simp: adjustVolume_def setVolume_def ids_frame split: if_splits)
next
  case (mute m b r)
  with assms(2) show ?thesis by (auto simp: setMute_def Let_def ids_frame split: if_splits)
next
  case (set_attachment a i)
  with assms(3) show ?thesis by (blast intro: ac_takes.attachment)
next
  case (set_stream good a i)
  show ?thesis
  proof (cases good)
    case True
    with set_stream(2) have "ac_takes s (fst (nextId s)) s'" by (auto intro: ac_takes.stream)
    with assms(3) show ?thesis by blast
  next
    case False
    with set_stream have "s' = resetSource (resetSource s)"
      by (auto simp: setSource_stream_def finish_setSource_def Let_def)
    then show ?thesis using ids_inv_reset assms(2) by blast
  qed
next
  case (set_url url a b i)
  with assms(3) show ?thesis by (blast intro: ac_takes.url)
qed (use ids_inv_calls[OF assms(2)] in auto)

lemma ids_inv_gives: "ac_gives s G s' \<Longrightarrow> ids_inv {} s \<Longrightarrow> ids_inv G s'"
  by (induction rule: ac_gives.induct) (auto intro: ids_inv_step ids_inv_takes)

lemma ids_inv_new: "ids_inv {} (new_channel n)"
  by (simp add: new_channel_def ids_inv_def id_ok_def)

end
