(* ===== verification/Audio_Player.thy ===== *)
theory Audio_Player
  imports Audio_Ids
begin

text \<open>
  The properties of the audio channel: what every interleaving keeps, that with a platform that does as
  it is told the channel is a simple player, and the interleavings that go wrong.
\<close>

subsection \<open>Every interleaving\<close>

lemma account_new: "p \<noteq> NO_EVENT \<Longrightarrow> account p (new_channel n) = 0"
  by (simp add: account_def told_def new_channel_def)

text \<open>
  C10: The observer is never told of a start, a pause, a resumption or a stop that was not asked for: in
  every interleaving of calls, reports, executor and other steps, the number of such events of each
  kind is at most the number of calls that asked for it and were answered with success.
\<close>
theorem audio_events_were_asked_for:
  assumes "ac_run (new_channel n) ps s" and "p \<noteq> NO_EVENT"
  shows "told p s \<le> count_list ps p"
  using account_run[OF assms] account_new[OF assms(2)] by (simp add: account_def)

text \<open>
  C15: In every interleaving, also when other channels store to the shared counter at any time, the observer is
  only told about identifiers this channel has taken from the counter, and never about \<open>ERROR_ID\<close>; the current
  source is one of them or \<open>ERROR_ID\<close>; the next task of the executor runs without following the pointer to the
  output channel when it is missing, and setting a source faults exactly when that pointer is missing. (That
  identifiers of different channels differ is not claimed: nothing orders their increments.)
\<close>
theorem audio_sources_and_tasks:
  assumes "ac_gives (new_channel n) G s"
  shows "(\<forall>e\<in>set (events s). event_id e \<in> G \<and> event_id e \<noteq> ERROR_ID) \<and>
    m_currentId s \<in> insert ERROR_ID G \<and> (\<exists>s'. run_next pos s = Inr s') \<and>
    (setSource_attachment a s = Inl f \<longleftrightarrow> \<not> channel_set s \<and> f = Null_channel) \<and>
    (setSource_url url a b s = Inl f \<longleftrightarrow> \<not> channel_set s \<and> f = Null_channel)"
proof -
  have inv: "ids_inv G s" by (rule ids_inv_gives[OF assms ids_inv_new])
  have "channel_set (fold do_report rs t) = channel_set t" for rs t
  proof (induction rs arbitrary: t)
    case (Cons r rs)
    then show ?case by (cases r) (simp_all add: onMediaStateChanged_def onMediaError_def)
  qed simp
  then have "setSource_attachment a s = Inl f \<longleftrightarrow> \<not> channel_set s \<and> f = Null_channel"
    "setSource_url url a b s = Inl f \<longleftrightarrow> \<not> channel_set s \<and> f = Null_channel"
    by (auto simp: setSource_attachment_def setSource_url_def call_platform_def)
  moreover have "\<exists>s'. run_next pos s = Inr s'" using runs_next[OF inv, of pos] by (auto simp: runs_well_def)
  ultimately show ?thesis using inv by (auto simp: ids_inv_def id_ok_def)
qed

subsection \<open>A player\<close>

text \<open>
  The specification: one source and the phase it is in. A command is a call of the client or a report
  of the platform of its own accord; it has an answer (true for a report), the events it causes, and the
  next phase. \<open>Ended\<close> is the source after its end.
\<close>

datatype phase = Loaded | Active | Starved | Held | Halted | Ended

datatype command = Do_play | Do_pause | Do_resume | Do_stop | Ends | Starves | Refills

fun player_step :: "source_id \<Rightarrow> command \<Rightarrow> phase \<Rightarrow> bool \<times> event list \<times> phase" where
  "player_step i Do_play ph = (if ph \<in> {Loaded, Held, Halted} then (True, [onPlaybackStarted i], Active)
     else (False, [], ph))"
| "player_step i Do_pause ph = (if ph \<in> {Active, Starved} then (True, [onPlaybackPaused i], Held)
     else (False, [], ph))"
| "player_step i Do_resume ph = (if ph = Held then (True, [onPlaybackResumed i], Active)
     else (False, [], ph))"
| "player_step i Do_stop ph = (if ph \<in> {Loaded, Active, Starved, Held}
     then (True, [onPlaybackStopped i], Halted) else (False, [], ph))"
| "player_step i Ends ph = (True, if ph = Active then ([onPlaybackFinished i], Ended) else ([], ph))"
| "player_step i Starves ph = (True, if ph = Active then ([onBufferUnderrun i], Starved) else ([], ph))"
| "player_step i Refills ph = (True, if ph = Starved then ([onBufferRefilled i], Active) else ([], ph))"

text \<open>The offset at the last pause, stop or end; \<open>pos\<close> is the position of the platform at the command.\<close>

definition player_offset :: "int \<Rightarrow> event list \<Rightarrow> int \<Rightarrow> int" where
  "player_offset pos evs z =
     (if \<exists>e\<in>set evs. (case e of onPlaybackPaused i \<Rightarrow> True | onPlaybackStopped i \<Rightarrow> True
         | onPlaybackFinished i \<Rightarrow> True | _ \<Rightarrow> False) then pos else z)"

fun player_run :: "source_id \<Rightarrow> (command \<times> int) list \<Rightarrow> phase \<times> int \<Rightarrow>
    bool list \<times> event list \<times> phase \<times> int" where
  "player_run i [] st = ([], [], st)"
| "player_run i ((c, pos) # cs) (ph, z) =
     (let (r, evs, ph) = player_step i c ph;
          (rs, more, st) = player_run i cs (ph, player_offset pos evs z)
      in (r # rs, evs @ more, st))"

text \<open>
  The channel with a platform that does as it is told: it accepts every call, and then reports the state
  the call asked for; the executor runs until it has nothing to do.
\<close>

definition accepts :: answer where
  "accepts = \<lparr>ok = True, reports = []\<rparr>"

fun drain :: "nat \<Rightarrow> int \<Rightarrow> channel \<Rightarrow> ac_fault + channel" where
  "drain 0 pos s = Inr s"
| "drain (Suc n) pos s = bindR (run_next pos s) (drain n pos)"

definition settle :: "int \<Rightarrow> channel \<Rightarrow> ac_fault + channel" where
  "settle pos s = drain (length (tasks s)) pos s"

definition after_call :: "int \<Rightarrow> media_state \<Rightarrow> bool \<times> channel \<Rightarrow> ac_fault + bool \<times> channel" where
  "after_call pos st = (\<lambda>(r, s).
     bindR (settle pos (if r then onMediaStateChanged st s else s)) (\<lambda>s. Inr (r, s)))"

fun command_run :: "source_id \<Rightarrow> int \<Rightarrow> command \<Rightarrow> channel \<Rightarrow> ac_fault + bool \<times> channel" where
  "command_run i pos Do_play s = bindR (play i accepts s) (after_call pos PLAYING)"
| "command_run i pos Do_pause s = bindR (pause i accepts s) (after_call pos STOPPED)"
| "command_run i pos Do_resume s = bindR (resume i accepts s) (after_call pos PLAYING)"
| "command_run i pos Do_stop s = after_call pos STOPPED (stop i accepts s)"
| "command_run i pos Ends s = after_call pos STOPPED (True, s)"
| "command_run i pos Starves s = after_call pos BUFFERING (True, s)"
| "command_run i pos Refills s = after_call pos PLAYING (True, s)"

fun commands_run :: "source_id \<Rightarrow> (command \<times> int) list \<Rightarrow> channel \<Rightarrow>
    ac_fault + bool list \<times> channel" where
  "commands_run i [] s = Inr ([], s)"
| "commands_run i ((c, pos) # cs) s =
     bindR (command_run i pos c s) (\<lambda>(r, s).
     bindR (commands_run i cs s) (\<lambda>(rs, s). Inr (r # rs, s)))"

text \<open>The channel in a phase.\<close>

definition in_phase :: "source_id \<Rightarrow> phase \<Rightarrow> channel \<Rightarrow> bool" where
  "in_phase i ph s \<longleftrightarrow> i \<noteq> ERROR_ID \<and> tasks s = [] \<and> channel_set s \<and> observer_set s \<and> \<not> shut_down s \<and>
     m_pendingEventState s = NO_EVENT \<and> m_currentId s = (if ph = Ended then ERROR_ID else i) \<and>
     (m_currentMediaState s, m_mediaStateChangeInitiator s) \<in>
       (case ph of Loaded \<Rightarrow> {(STOPPED, NOBODY)} | Active \<Rightarrow> {PLAYING} \<times> {PLAY, RESUME}
        | Starved \<Rightarrow> {BUFFERING} \<times> {PLAY, RESUME} | Held \<Rightarrow> {(STOPPED, PAUSE)}
        | Halted \<Rightarrow> {(STOPPED, STOP)} | Ended \<Rightarrow> {(STOPPED, NOBODY)})"

lemmas channel_code = play_def pause_def resume_def stop_def call_platform_def sendPendingEvent_def
  sendEvent_def submit_def onMediaStateChanged_def after_call_def settle_def run_next_def accepts_def
  executeMediaStateChanged_def state_playing_def state_stopped_def state_buffering_def stop_or_pause_def
  executePlaybackStarted_def executePlaybackFinished_def executePlaybackPaused_def
  executePlaybackResumed_def executePlaybackStopped_def executeBufferUnderrun_def
  executeBufferRefilled_def notify_def save_offset_def

text \<open>One command: the channel does what the player does.\<close>

definition simulates :: "source_id \<Rightarrow> int \<Rightarrow> command \<Rightarrow> phase \<Rightarrow> channel \<Rightarrow> bool" where
  "simulates i pos c ph s \<longleftrightarrow> (\<exists>s'. case player_step i c ph of (r, evs, ph') \<Rightarrow>
     command_run i pos c s = Inr (r, s') \<and> in_phase i ph' s' \<and> events s' = events s @ evs \<and>
     m_savedOffset s' = player_offset pos evs (m_savedOffset s))"

lemma simulates_Do_play: "in_phase i ph s \<Longrightarrow> simulates i pos Do_play ph s"
  by (cases ph; auto simp: simulates_def in_phase_def channel_code player_offset_def Let_def)

lemma simulates_Do_pause: "in_phase i ph s \<Longrightarrow> simulates i pos Do_pause ph s"
  by (cases ph; auto simp: simulates_def in_phase_def channel_code player_offset_def Let_def)

lemma simulates_Do_resume: "in_phase i ph s \<Longrightarrow> simulates i pos Do_resume ph s"
  by (cases ph; auto simp: simulates_def in_phase_def channel_code player_offset_def Let_def)

lemma simulates_Do_stop: "in_phase i ph s \<Longrightarrow> simulates i pos Do_stop ph s"
  by (cases ph; auto simp: simulates_def in_phase_def channel_code player_offset_def Let_def)

lemma simulates_report:
  "in_phase i ph s \<Longrightarrow> simulates i pos Ends ph s"
  "in_phase i ph s \<Longrightarrow> simulates i pos Starves ph s"
  "in_phase i ph s \<Longrightarrow> simulates i pos Refills ph s"
  by (cases ph; auto simp: simulates_def in_phase_def channel_code player_offset_def Let_def)+

lemma simulation: "in_phase i ph s \<Longrightarrow> simulates i pos c ph s"
  by (cases c) (simp_all add: simulates_Do_play simulates_Do_pause simulates_Do_resume
      simulates_Do_stop simulates_report)

lemma commands_simulated:
  assumes "in_phase i ph s" "player_run i cs (ph, m_savedOffset s) = (rs, evs, ph', z)"
  shows "\<exists>s'. commands_run i cs s = Inr (rs, s') \<and> in_phase i ph' s' \<and>
    events s' = events s @ evs \<and> m_savedOffset s' = z"
  using assms
proof (induction cs arbitrary: ph s rs evs)
  case (Cons cp cs)
  obtain c pos where cp: "cp = (c, pos)" by (cases cp)
  obtain r es ph1 where p: "player_step i c ph = (r, es, ph1)" by (cases "player_step i c ph") auto
  from simulation[OF Cons.prems(1), of pos c] p obtain s1 where s1:
    "command_run i pos c s = Inr (r, s1)" "in_phase i ph1 s1" "events s1 = events s @ es"
    "m_savedOffset s1 = player_offset pos es (m_savedOffset s)"
    by (auto simp: simulates_def)
  obtain rs1 more where m: "player_run i cs (ph1, m_savedOffset s1) = (rs1, more, ph', z)"
    and eq: "rs = r # rs1" "evs = es @ more"
    using Cons.prems(2) s1(4) p cp by (auto split: prod.splits)
  from Cons.IH[OF s1(2) m] s1 cp eq show ?case by auto
qed auto

text \<open>
  C9: With a platform that does as it is told the channel refines the player: once a source is set, any
  sequence of calls and of reports that playback ended, ran out of data or got data again is answered
  as the player answers it, the observer is told exactly the player's events in their order, and the
  saved offset is the position of the last pause, stop or end.
\<close>
theorem audio_channel_refines_player:
  assumes "channel_set s" "observer_set s" "\<not> shut_down s" "tasks s = []"
    and "setSource_url url accepts accepts s = Inr (i, s1)"
    and "player_run i cs (Loaded, 0) = (rs, evs, ph, z)"
  shows "\<exists>s2. commands_run i cs s1 = Inr (rs, s2) \<and> events s2 = events s @ evs \<and> m_savedOffset s2 = z"
proof -
  have s1: "in_phase i Loaded s1" "m_savedOffset s1 = 0" "events s1 = events s"
    using assms(1-5)
    by (auto simp: setSource_url_def call_platform_def accepts_def take_nextId_def nextId_def
        resetSource_def finish_setSource_def in_phase_def ERROR_ID_def)
  from commands_simulated[OF s1(1)] assms(6) s1(2,3) show ?thesis by fastforce
qed

definition ready_channel :: channel where
  "ready_channel = (new_channel 4)\<lparr>channel_set := True, observer_set := True\<rparr>"

theorem audio_channel_refines_player_witness:
  "\<exists>s1 s2. setSource_url ''http'' accepts accepts ready_channel = Inr (5, s1) \<and>
    commands_run 5 [(Do_play, 0), (Do_pause, 30), (Do_resume, 30), (Starves, 40), (Do_stop, 50)] s1 =
      Inr ([True, True, True, True, True], s2) \<and>
    events s2 = [onPlaybackStarted 5, onPlaybackPaused 5, onPlaybackResumed 5, onBufferUnderrun 5,
      onPlaybackStopped 5] \<and> m_savedOffset s2 = 50"
proof -
  obtain s1 where s1: "setSource_url ''http'' accepts accepts ready_channel = Inr (5, s1)"
    by (auto simp: setSource_url_def call_platform_def accepts_def take_nextId_def nextId_def
        resetSource_def finish_setSource_def ready_channel_def new_channel_def)
  then show ?thesis
    using audio_channel_refines_player[of ready_channel "''http''" 5 s1
        "[(Do_play, 0), (Do_pause, 30), (Do_resume, 30), (Starves, 40), (Do_stop, 50)]"]
    by (auto simp: ready_channel_def new_channel_def player_offset_def)
qed

subsection \<open>Where it goes wrong\<close>

text \<open>
  A source that is paused before the platform reports that it plays cannot be resumed: the observer is
  told of the pause, but \<open>resume\<close> refuses, for the pause is only remembered when a report confirms it.
\<close>
theorem audio_pause_while_loading_cannot_resume:
  assumes "in_phase i Loaded s"
  shows "\<exists>s1 s2 s3. play i accepts s = Inr (True, s1) \<and> pause i accepts s1 = Inr (True, s2) \<and>
    settle pos s2 = Inr s3 \<and> events s3 = events s @ [onPlaybackStarted i, onPlaybackPaused i] \<and>
    resume i a s3 = Inr (False, s3)"
  using assms by (cases s) (simp add: in_phase_def channel_code executeEvent_def)

text \<open>
  The report that an old source plays, still waiting in the executor when a new source is set and
  told to play, takes the start of the new one: the observer is told that the old source started, and
  when the platform reports that the new one plays nobody is told.
\<close>
theorem audio_stale_report_takes_start:
  assumes "in_phase i Loaded s"
  shows "\<exists>j s1 s2 s3 s4. play i accepts s = Inr (True, s1) \<and>
    setSource_url url accepts accepts (onMediaStateChanged PLAYING s1) = Inr (j, s2) \<and>
    play j accepts s2 = Inr (True, s3) \<and> j \<noteq> ERROR_ID \<and> m_currentId s3 = j \<and>
    settle pos (onMediaStateChanged PLAYING s3) = Inr s4 \<and> events s4 = events s @ [onPlaybackStarted i]"
  using assms by (cases s) (simp add: in_phase_def channel_code setSource_url_def take_nextId_def
      nextId_def resetSource_def finish_setSource_def ERROR_ID_def)

text \<open>
  After a stop the flag that tells of it stays until the platform plays again. A stop between a new
  call of \<open>play\<close> and that report is refused, and the source starts all the same.
\<close>
theorem audio_stop_while_restarting_refused:
  assumes "in_phase i Halted s"
  shows "\<exists>s1 s2. play i accepts s = Inr (True, s1) \<and> stop i a s1 = (False, s1) \<and>
    settle pos (onMediaStateChanged PLAYING s1) = Inr s2 \<and> in_phase i Active s2 \<and>
    events s2 = events s @ [onPlaybackStarted i]"
  using assms by (cases s) (simp add: in_phase_def channel_code)

text \<open>
  A late error of an old source takes the new one away: when its task runs, the current source becomes
  none, whichever it was, and \<open>play\<close> of the new source is refused.
\<close>
theorem audio_stale_error_drops_source:
  assumes "in_phase i Active s"
  shows "\<exists>j s1 s2. setSource_url url accepts accepts (onMediaError err desc s) = Inr (j, s1) \<and>
    j \<noteq> ERROR_ID \<and> m_currentId s1 = j \<and> settle pos s1 = Inr s2 \<and> m_currentId s2 = ERROR_ID \<and>
    events s2 = events s @ [onPlaybackError i err desc] \<and> play j a s2 = Inr (False, s2)"
  using assms by (cases s) (simp add: in_phase_def channel_code setSource_url_def take_nextId_def
      nextId_def resetSource_def finish_setSource_def ERROR_ID_def onMediaError_def executeMediaError_def)

text \<open>
  After the channel is shut down \<open>stop\<close> looks whether the pointer to the output channel is still there,
  \<open>play\<close> and \<open>setSource\<close> do not: they follow the missing pointer.
\<close>
theorem audio_play_after_shutdown_faults:
  assumes "in_phase i Held s"
  shows "play i a (doShutdown s) = Inl Null_channel \<and> resume i a (doShutdown s) = Inl Null_channel \<and>
    setSource_attachment a (doShutdown s) = Inl Null_channel \<and> fst (stop i a (doShutdown s))"
  using assms by (simp add: in_phase_def doShutdown_def play_def resume_def stop_def setSource_attachment_def
      sendPendingEvent_def call_platform_def take_nextId_def nextId_def resetSource_def Let_def)

subsection \<open>Volume\<close>

lemma sint_sum:
  assumes "- 128 \<le> x" "x < 256"
  shows "sint (word_of_int x :: 8 word) = (if x < 128 then x else x - 256)"
proof (cases "x < 128")
  case True
  with assms have "signed_take_bit 7 x = x" by (intro signed_take_bit_int_eq_self) simp_all
  with True show ?thesis by (simp add: sint_sbintrunc')
next
  case False
  have "(word_of_int x :: 8 word) = word_of_int (x - 256)"
    by (simp add: word_of_int_eq_iff take_bit_eq_mod mod_diff_right_eq)
  then have "sint (word_of_int x :: 8 word) = signed_take_bit 7 (x - 256)"
    by (simp only: sint_sbintrunc') simp
  also have "\<dots> = x - 256"
    using False assms by (intro signed_take_bit_int_eq_self) simp_all
  finally show ?thesis using False by simp
qed

text \<open>
  The volume stays between 0 and 100 and an adjustment is exact: the sum of the volume and the
  difference becomes the volume if it is in that range and the platform takes it, and is refused
  otherwise. The sum is cut to eight bits before it is checked; that never turns one out of range into
  one within.
\<close>
theorem audio_adjustVolume_exact:
  assumes "channel_set s" and "0 \<le> sint (m_volume s)" and "sint (m_volume s) \<le> 100"
  shows "\<exists>r s'. adjustVolume d okay s = Inr (r, s') \<and>
    (r \<longleftrightarrow> okay \<and> 0 \<le> sint (m_volume s) + sint d \<and> sint (m_volume s) + sint d \<le> 100) \<and>
    sint (m_volume s') = (if r then sint (m_volume s) + sint d else sint (m_volume s))"
proof -
  have d: "- 128 \<le> sint d" "sint d < 128"
    using sint_ge[of d] sint_lt[of d] by simp_all
  let ?x = "sint (m_volume s) + sint d"
  have x: "sint (word_of_int ?x :: 8 word) = (if ?x < 128 then ?x else ?x - 256)"
    by (rule sint_sum) (use d assms(2,3) in simp_all)
  show ?thesis
    unfolding adjustVolume_def setVolume_def x MAX_SPEAKER_VOLUME_def MIN_SPEAKER_VOLUME_def
    using assms x d by (auto split: if_splits)
qed

theorem audio_adjustVolume_exact_witness:
  "\<exists>s'. adjustVolume 60 True ready_channel = Inr (False, s') \<and> sint (m_volume s') = 50"
  using audio_adjustVolume_exact[of ready_channel 60 True]
  by (auto simp: ready_channel_def new_channel_def DEFAULT_SPEAKER_VOLUME_def)

text \<open>A mute the platform refuses is kept all the same.\<close>

lemma audio_setMute_refused:
  "channel_set s \<Longrightarrow> \<exists>s'. setMute mute False s = Inr (False, s') \<and> snd (getSpeakerSettings s') = mute"
  by (simp add: setMute_def getSpeakerSettings_def)

subsection \<open>Witnesses\<close>

text \<open>A source in each of the phases the theorems above start from.\<close>

definition channel_in :: "phase \<Rightarrow> channel" where
  "channel_in ph = ready_channel\<lparr>s_nextId := 5, m_currentId := 5,
     m_currentMediaState := (if ph = Active then PLAYING else STOPPED),
     m_mediaStateChangeInitiator := (if ph = Active then PLAY else if ph = Held then PAUSE
       else if ph = Halted then STOP else NOBODY)\<rparr>"

lemma channel_in_phase: "ph \<in> {Loaded, Active, Held, Halted} \<Longrightarrow> in_phase 5 ph (channel_in ph)"
  by (auto simp: channel_in_def in_phase_def ready_channel_def new_channel_def ERROR_ID_def)

lemma channel_in_events: "events (channel_in ph) = []"
  by (simp add: channel_in_def ready_channel_def new_channel_def)

theorem audio_pause_while_loading_cannot_resume_witness:
  "\<exists>s1 s2 s3. play 5 accepts (channel_in Loaded) = Inr (True, s1) \<and> pause 5 accepts s1 = Inr (True, s2) \<and>
    settle 0 s2 = Inr s3 \<and> events s3 = [onPlaybackStarted 5, onPlaybackPaused 5] \<and>
    resume 5 accepts s3 = Inr (False, s3)"
  using audio_pause_while_loading_cannot_resume[of 5 "channel_in Loaded" 0 accepts]
  by (simp add: channel_in_phase channel_in_events)

theorem audio_stale_report_takes_start_witness:
  "\<exists>j s1 s2 s3 s4. play 5 accepts (channel_in Loaded) = Inr (True, s1) \<and>
    setSource_url ''new'' accepts accepts (onMediaStateChanged PLAYING s1) = Inr (j, s2) \<and>
    play j accepts s2 = Inr (True, s3) \<and> j \<noteq> ERROR_ID \<and> m_currentId s3 = j \<and>
    settle 0 (onMediaStateChanged PLAYING s3) = Inr s4 \<and> events s4 = [onPlaybackStarted 5]"
  using audio_stale_report_takes_start[of 5 "channel_in Loaded" "''new''" 0]
  by (simp add: channel_in_phase channel_in_events)

theorem audio_stop_while_restarting_refused_witness:
  "\<exists>s1. play 5 accepts (channel_in Halted) = Inr (True, s1) \<and> stop 5 accepts s1 = (False, s1)"
  using audio_stop_while_restarting_refused[of 5 "channel_in Halted" accepts 0] channel_in_phase[of Halted]
  by auto

theorem audio_stale_error_drops_source_witness:
  "\<exists>j s1 s2. setSource_url ''new'' accepts accepts (onMediaError MEDIA_ERROR_UNKNOWN [] (channel_in Active)) =
      Inr (j, s1) \<and> settle 0 s1 = Inr s2 \<and> play j accepts s2 = Inr (False, s2)"
  using audio_stale_error_drops_source[of 5 "channel_in Active" "''new''" MEDIA_ERROR_UNKNOWN "[]" 0 accepts]
    channel_in_phase[of Active]
  by auto

theorem audio_play_after_shutdown_faults_witness:
  "play 5 accepts (doShutdown (channel_in Held)) = Inl Null_channel"
  using audio_play_after_shutdown_faults[of 5 "channel_in Held" accepts] channel_in_phase[of Held] by simp

text \<open>A run in which a source is set, played and reported to play.\<close>

lemma sample_audio_run:
  "\<exists>s. ac_run (new_channel 4) [NO_EVENT, NO_EVENT, NO_EVENT, PLAYBACK_STARTED, NO_EVENT, NO_EVENT] s \<and>
    events s = [onPlaybackStarted 5]"
proof -
  let ?s2 = "ready_channel"
  have "ac_run (new_channel 4) [] (new_channel 4)" by (rule ac_run.start)
  from ac_run.step[OF this ac_step.initialize[of True True _ True]]
  have "ac_run (new_channel 4) [NO_EVENT] ((new_channel 4)\<lparr>channel_set := True\<rparr>)"
    by (simp add: initializeAudioChannel_def)
  from ac_run.step[OF this ac_step.observer[of _ True]]
  have r2: "ac_run (new_channel 4) [NO_EVENT, NO_EVENT] ?s2"
    by (simp add: setObserver_def ready_channel_def new_channel_def)
  obtain s3 where s3: "setSource_url ''http'' accepts accepts ?s2 = Inr (5, s3)"
    "in_phase 5 Loaded s3" "events s3 = []"
    by (auto simp: setSource_url_def call_platform_def accepts_def take_nextId_def nextId_def
        resetSource_def finish_setSource_def ready_channel_def new_channel_def in_phase_def ERROR_ID_def)
  from ac_run.step[OF r2 ac_step.set_url[OF s3(1)]]
  have r3: "ac_run (new_channel 4) [NO_EVENT, NO_EVENT, NO_EVENT] s3" by simp
  obtain s4 s5 where s4: "play 5 accepts s3 = Inr (True, s4)"
    and s5: "run_next 0 (onMediaStateChanged PLAYING s4) = Inr s5" "events s5 = [onPlaybackStarted 5]"
    using s3(2,3) by (cases s3) (auto simp: in_phase_def channel_code)
  from ac_run.step[OF r3 ac_step.play[OF s4]]
  have "ac_run (new_channel 4) [NO_EVENT, NO_EVENT, NO_EVENT, PLAYBACK_STARTED] s4" by simp
  from ac_run.step[OF ac_run.step[OF this ac_step.report[of _ "State_changed PLAYING"]] ac_step.executor]
  have "ac_run (new_channel 4) [NO_EVENT, NO_EVENT, NO_EVENT, PLAYBACK_STARTED, NO_EVENT, NO_EVENT] s5"
    using s5(1) by simp
  with s5(2) show ?thesis by blast
qed

theorem audio_events_were_asked_for_witness:
  "\<exists>s. events s = [onPlaybackStarted 5] \<and> told PLAYBACK_STARTED s \<le> 1"
proof -
  obtain s where s: "ac_run (new_channel 4)
      [NO_EVENT, NO_EVENT, NO_EVENT, PLAYBACK_STARTED, NO_EVENT, NO_EVENT] s" "events s = [onPlaybackStarted 5]"
    using sample_audio_run by blast
  with audio_events_were_asked_for[OF s(1), of PLAYBACK_STARTED] show ?thesis by auto
qed

text \<open>The same run with the identifier it takes.\<close>

lemma gives_step:
  assumes "ac_gives s G s'" and "ac_step s' p s''" and "s_nextId s'' = s_nextId s'"
  shows "ac_gives s G s''"
proof (rule ac_gives.step[OF assms(1,2)])
  have counter: "s_nextId (fold do_report rs t) = s_nextId t" for rs t
  proof (induction rs arbitrary: t)
    case (Cons r rs)
    then show ?case by (cases r) (simp_all add: onMediaStateChanged_def onMediaError_def)
  qed simp
  have "s_nextId s'' = s_nextId s' + 1" if "ac_takes s' i s''" for i
    using that by cases (auto simp: setSource_attachment_def setSource_stream_def setSource_url_def
      call_platform_def bindR_Inr_iff finish_setSource_def take_nextId_def nextId_def counter Let_def
      split: if_splits)
  with assms(3) show "\<nexists>i. ac_takes s' i s''" by fastforce
qed

theorem audio_sources_and_tasks_witness:
  "\<exists>s. ac_gives (new_channel 4) {5} s \<and> events s = [onPlaybackStarted 5] \<and>
    (\<forall>e\<in>set (events s). event_id e \<in> {5} \<and> event_id e \<noteq> ERROR_ID) \<and>
    m_currentId s \<in> insert ERROR_ID {5} \<and> (\<exists>s'. run_next 0 s = Inr s') \<and>
    (setSource_attachment accepts s = Inl Null_channel \<longleftrightarrow> \<not> channel_set s \<and> Null_channel = Null_channel) \<and>
    (setSource_url ''http'' accepts accepts s = Inl Null_channel \<longleftrightarrow> \<not> channel_set s \<and> Null_channel = Null_channel)"
proof -
  let ?s2 = "ready_channel"
  have "ac_gives (new_channel 4) {} (new_channel 4)" by (rule ac_gives.start)
  from gives_step[OF this ac_step.initialize[of True True _ True "(new_channel 4)\<lparr>channel_set := True\<rparr>"]]
  have "ac_gives (new_channel 4) {} ((new_channel 4)\<lparr>channel_set := True\<rparr>)"
    by (simp add: initializeAudioChannel_def)
  from gives_step[OF this ac_step.observer[of _ True]]
  have r2: "ac_gives (new_channel 4) {} ?s2"
    by (simp add: setObserver_def ready_channel_def new_channel_def)
  obtain s3 where s3: "setSource_url ''http'' accepts accepts ?s2 = Inr (5, s3)"
    "in_phase 5 Loaded s3" "events s3 = []"
    by (auto simp: setSource_url_def call_platform_def accepts_def take_nextId_def nextId_def
        resetSource_def finish_setSource_def ready_channel_def new_channel_def in_phase_def ERROR_ID_def)
  have "fst (nextId ?s2) = 5" by (simp add: nextId_def ready_channel_def new_channel_def)
  with ac_gives.take[OF r2 ac_takes.url[OF s3(1)]] have r3: "ac_gives (new_channel 4) {5} s3" by simp
  obtain s4 s5 where s4: "play 5 accepts s3 = Inr (True, s4)" "s_nextId s4 = s_nextId s3"
    and s5: "run_next 0 (onMediaStateChanged PLAYING s4) = Inr s5" "events s5 = [onPlaybackStarted 5]"
      "s_nextId s5 = s_nextId s4"
    using s3(2,3) by (cases s3) (auto simp: in_phase_def channel_code)
  from gives_step[OF r3 ac_step.play[OF s4(1)] s4(2)] have "ac_gives (new_channel 4) {5} s4" .
  from gives_step[OF this ac_step.report[of _ "State_changed PLAYING"]]
  have "ac_gives (new_channel 4) {5} (onMediaStateChanged PLAYING s4)" by (simp add: onMediaStateChanged_def)
  from gives_step[OF this ac_step.executor[OF s5(1)]] have "ac_gives (new_channel 4) {5} s5"
    using s5(3) by (simp add: onMediaStateChanged_def)
  then show ?thesis
    using audio_sources_and_tasks[of 4 "{5}" s5 0 accepts Null_channel "''http''" accepts] s5(2) by blast
qed

end
