(* ===== verification/Audio_Stream.thy ===== *)
theory Audio_Stream
  imports Prelude
begin

text \<open>
  The two audio streams at the end of \<open>AudioChannelEngineImpl.cpp\<close>: one over an attachment of the Alexa
  client, whose reader is input, and one over an input stream of the C++ library.
\<close>

subsection \<open>An attachment\<close>

text \<open>The statuses of a reader, those from \<open>CLOSED\<close> on in this order.\<close>

datatype encoding = UNKNOWN | LPCM | MP3 | OPUS

datatype sdk_encoding = SDK_LPCM | SDK_OPUS

definition attachment_encoding :: "sdk_encoding option \<Rightarrow> encoding" where
  "attachment_encoding format =
     (case format of None \<Rightarrow> MP3 | Some SDK_LPCM \<Rightarrow> LPCM | Some SDK_OPUS \<Rightarrow> OPUS)"

record attachment_stream =
  at_closed :: bool
  at_encoding :: encoding

text \<open>What the reader does: it delivers bytes and whether its status is now at least \<open>CLOSED\<close>, or throws.\<close>

definition attachment_read :: "(byte list \<times> bool) option \<Rightarrow> attachment_stream \<Rightarrow>
    byte list \<times> attachment_stream" where
  "attachment_read reader st =
     (case reader of
        None \<Rightarrow> ([], st\<lparr>at_closed := True\<rparr>)
      | Some (bytes, closed) \<Rightarrow> (bytes, if closed then st\<lparr>at_closed := True\<rparr> else st))"

subsection \<open>An input stream\<close>

text \<open>
  A stream of the C++ library: the bytes not read yet and its state bits. \<open>read\<close> of a stream that is not
  good extracts nothing; reaching the end sets two bits. \<open>bad\<close> is whether the device fails.
\<close>

record istream =
  unread :: "byte list"
  eofbit :: bool
  failbit :: bool
  badbit :: bool

definition istream_good :: "istream \<Rightarrow> bool" where
  "istream_good s \<longleftrightarrow> \<not> eofbit s \<and> \<not> failbit s \<and> \<not> badbit s"

definition istream_read :: "bool \<Rightarrow> nat \<Rightarrow> istream \<Rightarrow> byte list \<times> istream" where
  "istream_read bad len s =
     (if \<not> istream_good s then ([], s\<lparr>failbit := True\<rparr>)
      else if bad then ([], s\<lparr>badbit := True\<rparr>)
      else let bytes = take len (unread s); s = s\<lparr>unread := drop len (unread s)\<rparr>
           in (bytes, if length bytes < len then s\<lparr>eofbit := True, failbit := True\<rparr> else s))"

record istream_audio =
  is_stream :: istream
  is_closed :: bool

definition is_read :: "bool \<Rightarrow> nat \<Rightarrow> istream_audio \<Rightarrow> byte list \<times> istream_audio" where
  "is_read bad len st =
     (if eofbit (is_stream st) then ([], st\<lparr>is_closed := True\<rparr>)
      else let (bytes, s) = istream_read bad len (is_stream st); st = st\<lparr>is_stream := s\<rparr>
           in if badbit s then ([], st\<lparr>is_closed := True\<rparr>) else (bytes, st))"

text \<open>Reading \<open>k\<close> times.\<close>

fun is_reads :: "nat \<Rightarrow> nat \<Rightarrow> istream_audio \<Rightarrow> byte list \<times> istream_audio" where
  "is_reads 0 len st = ([], st)"
| "is_reads (Suc k) len st =
     (let (b, st) = is_read False len st; (bs, st) = is_reads k len st in (b @ bs, st))"

definition new_stream :: "byte list \<Rightarrow> istream_audio" where
  "new_stream bytes = \<lparr>is_stream = \<lparr>unread = bytes, eofbit = False, failbit = False, badbit = False\<rparr>,
     is_closed = False\<rparr>"

lemma is_reads_ended:
  "eofbit (is_stream st) \<Longrightarrow> 0 < k \<Longrightarrow> fst (is_reads k len st) = [] \<and> is_closed (snd (is_reads k len st))"
proof (induction k arbitrary: st)
  case (Suc k)
  then show ?case by (cases k) (auto simp: is_read_def Let_def split: prod.splits)
qed simp

lemma is_reads_all:
  assumes "0 < len" "length bytes div len + 2 \<le> k"
  shows "fst (is_reads k len (new_stream bytes)) = bytes \<and>
    is_closed (snd (is_reads k len (new_stream bytes)))"
  using assms(2)
proof (induction k arbitrary: bytes)
  case (Suc k)
  let ?st = "snd (is_read False len (new_stream bytes))"
  show ?case
  proof (cases "length bytes < len")
    case True
    then have "is_read False len (new_stream bytes) = (bytes, ?st)" "eofbit (is_stream ?st)"
      by (simp_all add: is_read_def istream_read_def istream_good_def new_stream_def)
    with is_reads_ended[of ?st k len] Suc.prems show ?thesis
      by (auto split: prod.splits)
  next
    case False
    then have r: "is_read False len (new_stream bytes) = (take len bytes, new_stream (drop len bytes))"
      by (simp add: is_read_def istream_read_def istream_good_def new_stream_def)
    have "length bytes div len = Suc (length (drop len bytes) div len)"
      using False assms(1) by (simp add: le_div_geq)
    with Suc.IH[of "drop len bytes"] Suc.prems r show ?thesis
      by (auto split: prod.splits)
  qed
qed simp

text \<open>
  Reading a stream in pieces of any size delivers its bytes, all of them and in order, and the stream
  is closed after one read more than the pieces it takes and one that finds the end.
\<close>
theorem audio_stream_delivers_all:
  assumes "0 < len" and "length bytes div len + 2 \<le> k"
  shows "fst (is_reads k len (new_stream bytes)) = bytes \<and>
    is_closed (snd (is_reads k len (new_stream bytes)))"
  by (rule is_reads_all[OF assms])

theorem audio_stream_delivers_all_witness:
  "fst (is_reads 4 2 (new_stream [1, 2, 3, 4])) = [1, 2, 3, 4]"
  using audio_stream_delivers_all[of 2 "[1, 2, 3, 4]" 4] by simp

end
