(* ===== verification/Engine_Version.thy ===== *)
theory Engine_Version
  imports C_Numbers
begin

text \<open>
  Versions and descriptions of the engine services of the Alexa Auto SDK (\<open>ServiceDescription.cpp\<close>):
  reading a version with \<open>sscanf\<close>, printing it, and the two comparisons.
\<close>

record version =
  m_major :: byte
  m_minor :: byte
  m_revision :: byte
  m_tag :: string

text \<open>\<open>%2hhu\<close> of \<open>scanf\<close>: blanks, then at most two characters, an optional sign and digits.\<close>

definition scan_hhu2 :: "string \<Rightarrow> (byte \<times> string) option" where
  "scan_hhu2 s =
     (let t = dropWhile isspace s; (neg, u) = split_sign t;
          ds = take (2 - (length t - length u)) (takeWhile isdigit u);
          n = of_nat (num_of 10 ds)
      in if ds = [] then None else Some (if neg then - n else n, drop (length ds) u))"

definition scan_lit :: "char \<Rightarrow> string \<Rightarrow> string option" where
  "scan_lit c s = (case s of d # r \<Rightarrow> if c = d then Some r else None | [] \<Rightarrow> None)"

text \<open>The constructor from a string: what \<open>sscanf\<close> does not reach keeps its initial value.\<close>

definition version_of_string :: "string \<Rightarrow> version" where
  "version_of_string str =
     (let v = \<lparr>m_major = 0, m_minor = 0, m_revision = 0, m_tag = []\<rparr>;
          s = takeWhile (\<lambda>c. c \<noteq> CHR 0x00) str
      in case scan_hhu2 s of None \<Rightarrow> v
       | Some (n, s) \<Rightarrow> let v = v\<lparr>m_major := n\<rparr> in (case Option.bind (scan_lit (CHR ''.'') s) scan_hhu2 of None \<Rightarrow> v
       | Some (n, s) \<Rightarrow> let v = v\<lparr>m_minor := n\<rparr> in (case Option.bind (scan_lit (CHR ''.'') s) scan_hhu2 of None \<Rightarrow> v
       | Some (n, s) \<Rightarrow> let v = v\<lparr>m_revision := n\<rparr> in (case Option.bind (scan_lit (CHR ''-'') s) (scan_string 64) of None \<Rightarrow> v
       | Some (tag, s) \<Rightarrow> v\<lparr>m_tag := tag\<rparr>))))"

definition version_toString :: "version \<Rightarrow> string" where
  "version_toString v =
     dec (unat (m_major v)) @ ''.'' @ dec (unat (m_minor v)) @ ''.'' @ dec (unat (m_revision v)) @
     (if m_tag v \<noteq> [] then ''-'' @ m_tag v else [])"

definition version_eq :: "version \<Rightarrow> version \<Rightarrow> bool" where
  "version_eq v other \<longleftrightarrow>
     m_major v = m_major other \<and> m_minor v = m_minor other \<and> m_revision v = m_revision other"

definition version_less :: "version \<Rightarrow> version \<Rightarrow> bool" where
  "version_less v other \<longleftrightarrow>
     m_major v < m_major other \<or> m_minor v < m_minor other \<or> m_revision v < m_revision other"

text \<open>A service names its type, its version and the services it depends on, with the versions it needs.\<close>

datatype service_description =
  ServiceDescription (getType: string) (getVersion: version) (getDependencies: "service_description list")

definition desc_v :: "version \<Rightarrow> service_description \<Rightarrow> service_description" where
  "desc_v version d = ServiceDescription (getType d) version (getDependencies d)"

subsection \<open>Comparison\<close>

text \<open>Version \<open>v1\<close> is accepted where \<open>v2\<close> is needed exactly if none of its three numbers is smaller.\<close>

lemma not_version_less_iff:
  "\<not> version_less v1 v2 \<longleftrightarrow>
     m_major v2 \<le> m_major v1 \<and> m_minor v2 \<le> m_minor v1 \<and> m_revision v2 \<le> m_revision v1"
  by (auto simp: version_less_def)

lemma version_less_both_ways:
  "version_less (version_of_string ''2.0.0'') (version_of_string ''1.1.0'') \<and>
   version_less (version_of_string ''1.1.0'') (version_of_string ''2.0.0'')"
  by code_simp

lemma version_three_digits_misread:
  "version_of_string (version_toString \<lparr>m_major = 100, m_minor = 2, m_revision = 3, m_tag = ''rc1''\<rparr>) =
     \<lparr>m_major = 10, m_minor = 0, m_revision = 0, m_tag = []\<rparr>"
  by code_simp

lemma version_sign_accepted: "m_major (version_of_string ''-1.2'') = 255"
  by code_simp

subsection \<open>Round trip\<close>

definition sep_head :: "string \<Rightarrow> bool" where
  "sep_head r \<longleftrightarrow> (case r of [] \<Rightarrow> True | c # _ \<Rightarrow> \<not> isdigit c)"

lemma dec_length_99: "n \<le> 99 \<Longrightarrow> length (dec n) \<le> 2"
proof -
  assume "n \<le> 99"
  then have "length (dec (n div 10)) = 1" by (subst digits_of.simps) simp
  then show ?thesis by (subst digits_of.simps) simp
qed

lemma scan_hhu2_dec:
  assumes "n \<le> 99" and "sep_head r"
  shows "scan_hhu2 (dec n @ r) = Some (of_nat n, r)"
proof -
  have t: "takeWhile isdigit (dec n @ r) = dec n"
    using dec_digits[of n] assms(2) by (cases r) (auto simp: sep_head_def list_all_iff takeWhile_append2)
  obtain c cs where d: "dec n = c # cs" using digits_of_not_Nil[of 10 n] by (cases "dec n") auto
  then have "isdigit c" using dec_digits[of n] by simp
  then have "dropWhile isspace (dec n @ r) = dec n @ r" "split_sign (dec n @ r) = (False, dec n @ r)"
    by (auto simp: d split_sign_def isdigit_def isspace_def)
  then show ?thesis
    using dec_length_99[OF assms(1)] by (simp add: scan_hhu2_def t num_of_dec)
qed

lemma dec_no_nul: "CHR 0x00 \<notin> set (dec n)"
  using dec_digits[of n] by (auto simp: list_all_iff isdigit_def)

text \<open>
  a version whose numbers have at most two digits and whose tag is empty or a word of at most 64
  characters without a blank reads back from its printed form, tag included.
\<close>
theorem version_round_trip:
  assumes "unat (m_major v) \<le> 99" and "unat (m_minor v) \<le> 99" and "unat (m_revision v) \<le> 99"
    and "m_tag v = [] \<or> word_ok 64 (m_tag v)" and "CHR 0x00 \<notin> set (m_tag v)"
  shows "version_of_string (version_toString v) = v"
proof -
  have s: "takeWhile (\<lambda>c. c \<noteq> CHR 0x00) (version_toString v) = version_toString v"
    using assms(5) dec_no_nul by (auto simp: takeWhile_eq_all_conv version_toString_def)
  have sep: "sep_head (CHR ''.'' # r)" "sep_head (CHR ''-'' # r)" "sep_head []" for r
    by (simp_all add: sep_head_def isdigit_def)
  have num: "scan_hhu2 (dec (unat n) @ r) = Some (n, r)" if "unat n \<le> 99" "sep_head r" for n r
    using scan_hhu2_dec[OF that] by simp
  have tag: "m_tag v = [] \<or> m_tag v \<noteq> [] \<and> scan_string 64 (m_tag v) = Some (m_tag v, [])"
    using scan_string_word(1)[of 64 "m_tag v" "[]"] assms(4) by (auto simp: ends_word_def)
  show ?thesis
    unfolding version_of_string_def Let_def s
    using tag by (elim disjE) (simp_all add: version_toString_def num assms(1-3) sep scan_lit_def
      num[where r = "[]", simplified])
qed

theorem version_round_trip_witness:
  "version_of_string (version_toString \<lparr>m_major = 2, m_minor = 10, m_revision = 99, m_tag = ''beta''\<rparr>) =
     \<lparr>m_major = 2, m_minor = 10, m_revision = 99, m_tag = ''beta''\<rparr>"
  by (rule version_round_trip) (simp_all add: word_ok_def isspace_def)

end
