(* ===== verification/Engine_Services.thy ===== *)
theory Engine_Services
  imports Engine_Version "HOL-Library.Multiset"
begin

text \<open>
  The registry of service factories (\<open>EngineServiceManager.cpp\<close>) and the resolution of their
  dependencies by \<open>EngineImpl::checkServices\<close>, which orders the factories before the services are created.
  The registry is an unordered map; the order its iteration takes is input.
\<close>

text \<open>
  A factory holds the description of its service and a constructor: what the description of the new object
  is, or \<open>None\<close> for a null pointer.
\<close>

record service_factory =
  m_description :: service_description
  m_constructor :: "service_description \<Rightarrow> service_description option"

definition newInstance :: "service_factory \<Rightarrow> service_description option" where
  "newInstance f = m_constructor f (m_description f)"

type_synonym service_map = "string \<rightharpoonup> service_factory"

definition registerService :: "service_description \<Rightarrow> (service_description \<Rightarrow> service_description option)
    \<Rightarrow> service_map \<Rightarrow> bool \<times> service_map" where
  "registerService description constructor m =
     (let type = getType description in
      if m type \<noteq> None then (False, m)
      else (True, m(type \<mapsto> \<lparr>m_description = description, m_constructor = constructor\<rparr>)))"

subsection \<open>Resolution\<close>

abbreviation ftype :: "service_factory \<Rightarrow> string" where
  "ftype f \<equiv> getType (m_description f)"

abbreviation fdeps :: "service_factory \<Rightarrow> service_description list" where
  "fdeps f \<equiv> getDependencies (m_description f)"

datatype service_error = InvalidDependencyVersion | FailedToResolveServiceDependencies
  | CreateNewServiceInstanceFailed

text \<open>The local variables of \<open>checkServices\<close>.\<close>

record resolver =
  registeredServiceFactoryMap :: service_map
  orderedServiceFactoryList :: "service_factory list"
  unresolvedDependencyList :: "service_factory list"

text \<open>The loop over the dependencies of one factory: the value of \<open>success\<close>, or an exception.\<close>

fun check_dependencies :: "service_map \<Rightarrow> service_description list \<Rightarrow> service_error + bool" where
  "check_dependencies m [] = Inr True"
| "check_dependencies m (n # ns) =
     (case m (getType n) of
        Some f \<Rightarrow> if version_less (getVersion (m_description f)) (getVersion n)
                  then Inl InvalidDependencyVersion else check_dependencies m ns
      | None \<Rightarrow> Inr False)"

definition accept :: "service_factory \<Rightarrow> resolver \<Rightarrow> resolver" where
  "accept f r = r\<lparr>orderedServiceFactoryList := orderedServiceFactoryList r @ [f],
     registeredServiceFactoryMap := (registeredServiceFactoryMap r)(ftype f \<mapsto> f)\<rparr>"

text \<open>The first pass, over the registry: a factory that must wait is pushed to the front of the list.\<close>

fun first_pass :: "service_factory list \<Rightarrow> resolver \<Rightarrow> service_error + resolver" where
  "first_pass [] r = Inr r"
| "first_pass (f # fs) r =
     bindR (check_dependencies (registeredServiceFactoryMap r) (fdeps f)) (\<lambda>success.
       first_pass fs (if success then accept f r
         else r\<lparr>unresolvedDependencyList := f # unresolvedDependencyList r\<rparr>))"

text \<open>
  One round over the list of the unresolved: \<open>us\<close> is what the iterator has still to visit, the list of the
  resolver what stays in front of it.
\<close>

fun sweep :: "service_factory list \<Rightarrow> resolver \<Rightarrow> bool \<Rightarrow> service_error + resolver \<times> bool" where
  "sweep [] r updated = Inr (r, updated)"
| "sweep (f # us) r updated =
     bindR (check_dependencies (registeredServiceFactoryMap r) (fdeps f)) (\<lambda>success.
       if success then sweep us (accept f r) True
       else sweep us (r\<lparr>unresolvedDependencyList := unresolvedDependencyList r @ [f]\<rparr>) updated)"

lemma sweep_length:
  assumes "sweep us r u = Inr (r', u')"
  shows "length (unresolvedDependencyList r') \<le> length (unresolvedDependencyList r) + length us"
    and "u' \<Longrightarrow> \<not> u \<Longrightarrow> length (unresolvedDependencyList r') < length (unresolvedDependencyList r) + length us"
  using assms
  by (induction us r u rule: sweep.induct) (fastforce simp: bindR_Inr_iff accept_def split: if_splits)+

function resolve_services :: "resolver \<Rightarrow> service_error + resolver" where
  "resolve_services r =
     (if unresolvedDependencyList r = [] then Inr r
      else case sweep (unresolvedDependencyList r) (r\<lparr>unresolvedDependencyList := []\<rparr>) False of
          Inl e \<Rightarrow> Inl e
        | Inr (r', updated) \<Rightarrow> if updated then resolve_services r' else Inl FailedToResolveServiceDependencies)"
  by pat_completeness auto
termination
  by (relation "measure (\<lambda>r. length (unresolvedDependencyList r))") (auto dest: sweep_length(2))

declare resolve_services.simps [simp del]

definition order_services :: "service_factory list \<Rightarrow> service_error + service_factory list" where
  "order_services registry =
     bindR (first_pass registry \<lparr>registeredServiceFactoryMap = Map.empty, orderedServiceFactoryList = [],
       unresolvedDependencyList = []\<rparr>) (\<lambda>r. bindR (resolve_services r) (\<lambda>r. Inr (orderedServiceFactoryList r)))"

subsection \<open>What the order has to be\<close>

text \<open>Some service of the list has the type of the dependency and a version that is accepted for it.\<close>

definition satisfies :: "service_description \<Rightarrow> service_factory \<Rightarrow> bool" where
  "satisfies d g \<longleftrightarrow> ftype g = getType d \<and> \<not> version_less (getVersion (m_description g)) (getVersion d)"

definition provided :: "service_factory list \<Rightarrow> service_factory \<Rightarrow> bool" where
  "provided gs f \<longleftrightarrow> (\<forall>d\<in>set (fdeps f). \<exists>g\<in>set gs. satisfies d g)"

definition dependency_ordered :: "service_factory list \<Rightarrow> bool" where
  "dependency_ordered fs \<longleftrightarrow> (\<forall>xs f ys. fs = xs @ f # ys \<longrightarrow> provided xs f)"

text \<open>A service can be loaded if each dependency is satisfied by a service that can be loaded.\<close>

inductive loadable :: "service_factory list \<Rightarrow> service_factory \<Rightarrow> bool" for fs where
  loadable: "f \<in> set fs \<Longrightarrow> \<forall>d\<in>set (fdeps f). \<exists>g. satisfies d g \<and> loadable fs g \<Longrightarrow> loadable fs f"

inductive_cases loadableE: "loadable fs f"

text \<open>The type is there, but in a version that is refused.\<close>

definition version_refused :: "service_factory list \<Rightarrow> bool" where
  "version_refused fs \<longleftrightarrow> (\<exists>f\<in>set fs. \<exists>d\<in>set (fdeps f). \<exists>g\<in>set fs.
     ftype g = getType d \<and> version_less (getVersion (m_description g)) (getVersion d))"

lemma provided_mono: "provided gs f \<Longrightarrow> set gs \<subseteq> set hs \<Longrightarrow> provided hs f"
  by (fastforce simp: provided_def)

lemma dependency_ordered_Nil [simp]: "dependency_ordered []"
  by (simp add: dependency_ordered_def)

lemma dependency_ordered_snoc [simp]:
  "dependency_ordered (fs @ [f]) \<longleftrightarrow> dependency_ordered fs \<and> provided fs f"
proof
  assume all: "dependency_ordered (fs @ [f])"
  have "provided xs g" if "fs = xs @ g # ys" for xs g ys
    using all[unfolded dependency_ordered_def, rule_format, of xs g "ys @ [f]"] that by simp
  moreover have "provided fs f"
    using all[unfolded dependency_ordered_def, rule_format, of fs f "[]"] by simp
  ultimately show "dependency_ordered fs \<and> provided fs f" by (simp add: dependency_ordered_def)
next
  assume ok: "dependency_ordered fs \<and> provided fs f"
  have "provided xs g" if "fs @ [f] = xs @ g # ys" for xs g ys
    using that ok by (cases ys rule: rev_exhaust) (auto simp: dependency_ordered_def)
  then show "dependency_ordered (fs @ [f])" by (simp add: dependency_ordered_def)
qed

lemma dependency_ordered_loadable:
  "dependency_ordered os \<Longrightarrow> set os \<subseteq> set fs \<Longrightarrow> f \<in> set os \<Longrightarrow> loadable fs f"
proof (induction os arbitrary: f rule: rev_induct)
  case (snoc g os)
  have IH: "h \<in> set os \<Longrightarrow> loadable fs h" for h using snoc by auto
  have "loadable fs g" if "g \<in> set fs"
    using snoc.prems(1) IH that by (intro loadable) (simp_all add: provided_def, blast)
  with snoc.prems IH show ?case by auto
qed simp

subsection \<open>The passes keep the order\<close>

definition known :: "service_map \<Rightarrow> service_factory list \<Rightarrow> bool" where
  "known m gs \<longleftrightarrow> (\<forall>t f. m t = Some f \<longleftrightarrow> f \<in> set gs \<and> ftype f = t)"

lemma check_dependencies_spec:
  assumes "known m gs"
  shows "check_dependencies m ds = Inr True \<Longrightarrow> \<forall>d\<in>set ds. \<exists>g\<in>set gs. satisfies d g"
    and "check_dependencies m ds = Inr False \<Longrightarrow> \<exists>d\<in>set ds. \<forall>g\<in>set gs. ftype g \<noteq> getType d"
    and "check_dependencies m ds = Inl e \<Longrightarrow> e = InvalidDependencyVersion \<and> (\<exists>d\<in>set ds. \<exists>g\<in>set gs.
           ftype g = getType d \<and> version_less (getVersion (m_description g)) (getVersion d))"
proof -
  have some: "m t = Some f \<Longrightarrow> f \<in> set gs \<and> ftype f = t" and none: "m t = None \<Longrightarrow> \<forall>g\<in>set gs. ftype g \<noteq> t" for t f
    using assms unfolding known_def by (blast, metis option.distinct(1))
  show "check_dependencies m ds = Inr True \<Longrightarrow> \<forall>d\<in>set ds. \<exists>g\<in>set gs. satisfies d g"
    by (induction ds) (auto simp: satisfies_def dest: some split: option.splits if_splits)
  show "check_dependencies m ds = Inr False \<Longrightarrow> \<exists>d\<in>set ds. \<forall>g\<in>set gs. ftype g \<noteq> getType d"
    by (induction ds) (auto dest: none split: option.splits if_splits)
  show "check_dependencies m ds = Inl e \<Longrightarrow> e = InvalidDependencyVersion \<and> (\<exists>d\<in>set ds. \<exists>g\<in>set gs.
           ftype g = getType d \<and> version_less (getVersion (m_description g)) (getVersion d))"
    by (induction ds) (auto dest: some split: option.splits if_splits)
qed

text \<open>\<open>rest\<close> is what the pass has still to visit.\<close>

definition resolver_ok :: "service_factory list \<Rightarrow> resolver \<Rightarrow> service_factory list \<Rightarrow> bool" where
  "resolver_ok fs r rest \<longleftrightarrow>
     mset (orderedServiceFactoryList r) + mset (unresolvedDependencyList r) + mset rest = mset fs \<and>
     known (registeredServiceFactoryMap r) (orderedServiceFactoryList r) \<and>
     dependency_ordered (orderedServiceFactoryList r)"

lemma resolver_ok_sub:
  assumes "resolver_ok fs r rest"
  shows "set (orderedServiceFactoryList r) \<union> set (unresolvedDependencyList r) \<union> set rest = set fs"
  using assms unfolding resolver_ok_def by (metis set_mset_mset set_mset_union)

lemma resolver_ok_accept:
  assumes "resolver_ok fs r (f # rest)" and "distinct (map ftype fs)"
    and "check_dependencies (registeredServiceFactoryMap r) (fdeps f) = Inr True"
  shows "resolver_ok fs (accept f r) rest"
proof -
  have "mset (map ftype fs) = mset (map ftype (orderedServiceFactoryList r @ f # rest @ unresolvedDependencyList r))"
    using assms(1) by (simp only: resolver_ok_def flip: mset_map) (simp add: flip: assms(1)[unfolded resolver_ok_def, THEN conjunct1])
  then have "distinct (map ftype (orderedServiceFactoryList r @ f # rest @ unresolvedDependencyList r))"
    using assms(2) mset_eq_imp_distinct_iff by blast
  then have fresh: "\<forall>g\<in>set (orderedServiceFactoryList r). ftype g \<noteq> ftype f" by (auto simp: image_iff)
  show ?thesis
    using assms(1) check_dependencies_spec(1)[OF _ assms(3)] fresh
    by (auto simp: resolver_ok_def accept_def known_def provided_def)
qed

lemma resolver_ok_postpone:
  assumes "resolver_ok fs r (f # rest)"
  shows "resolver_ok fs (r\<lparr>unresolvedDependencyList := f # unresolvedDependencyList r\<rparr>) rest"
    and "resolver_ok fs (r\<lparr>unresolvedDependencyList := unresolvedDependencyList r @ [f]\<rparr>) rest"
  using assms by (simp_all add: resolver_ok_def)

lemma resolver_ok_refused:
  assumes "resolver_ok fs r (f # rest)"
    and "check_dependencies (registeredServiceFactoryMap r) (fdeps f) = Inl e"
  shows "e = InvalidDependencyVersion \<and> version_refused fs"
proof -
  have "known (registeredServiceFactoryMap r) (orderedServiceFactoryList r)"
    using assms(1) by (simp add: resolver_ok_def)
  from check_dependencies_spec(3)[OF this assms(2)] resolver_ok_sub[OF assms(1)] show ?thesis
    unfolding version_refused_def by auto
qed

lemma first_pass_spec:
  assumes "resolver_ok fs r rest" and "distinct (map ftype fs)"
  shows "case first_pass rest r of Inr r' \<Rightarrow> resolver_ok fs r' []
     | Inl e \<Rightarrow> e = InvalidDependencyVersion \<and> version_refused fs"
  using assms
proof (induction rest arbitrary: r)
  case (Cons f rest)
  show ?case
  proof (cases "check_dependencies (registeredServiceFactoryMap r) (fdeps f)")
    case (Inl e)
    with resolver_ok_refused[OF Cons.prems(1) Inl] show ?thesis by simp
  next
    case (Inr success)
    with Cons.IH[OF resolver_ok_accept[OF Cons.prems]] Cons.IH[OF resolver_ok_postpone(1)[OF Cons.prems(1)]]
      Cons.prems(2) show ?thesis by (cases success) simp_all
  qed
qed simp

lemma sweep_spec:
  assumes "resolver_ok fs r us" and "distinct (map ftype fs)"
  shows "case sweep us r u of Inr (r', u') \<Rightarrow> resolver_ok fs r' []
     | Inl e \<Rightarrow> e = InvalidDependencyVersion \<and> version_refused fs"
  using assms
proof (induction us arbitrary: r u)
  case (Cons f us)
  show ?case
  proof (cases "check_dependencies (registeredServiceFactoryMap r) (fdeps f)")
    case (Inl e)
    with resolver_ok_refused[OF Cons.prems(1) Inl] show ?thesis by simp
  next
    case (Inr success)
    with Cons.IH[OF resolver_ok_accept[OF Cons.prems]] Cons.IH[OF resolver_ok_postpone(2)[OF Cons.prems(1)]]
      Cons.prems(2) show ?thesis by (cases success) simp_all
  qed
qed simp

text \<open>A round without a success leaves everything as it was, and every factory lacks a dependency.\<close>

lemma sweep_stuck:
  assumes "sweep us r u = Inr (r', False)"
  shows "\<not> u \<and> r' = r\<lparr>unresolvedDependencyList := unresolvedDependencyList r @ us\<rparr> \<and>
     (\<forall>f\<in>set us. check_dependencies (registeredServiceFactoryMap r) (fdeps f) = Inr False)"
  using assms
proof (induction us arbitrary: r u)
  case (Cons f us)
  from Cons.prems obtain success where c: "check_dependencies (registeredServiceFactoryMap r) (fdeps f) = Inr success"
    by (auto simp: bindR_Inr_iff)
  show ?case
  proof (cases success)
    case True
    with Cons.prems c Cons.IH[of "accept f r" True] show ?thesis by simp
  next
    case False
    with Cons.prems c Cons.IH[of "r\<lparr>unresolvedDependencyList := unresolvedDependencyList r @ [f]\<rparr>" u]
    show ?thesis by simp
  qed
qed simp

lemma stuck_not_loadable:
  assumes "resolver_ok fs r us" and "unresolvedDependencyList r = []" and "f \<in> set us"
    and "\<forall>f\<in>set us. check_dependencies (registeredServiceFactoryMap r) (fdeps f) = Inr False"
  shows "\<not> loadable fs f"
proof -
  have known: "known (registeredServiceFactoryMap r) (orderedServiceFactoryList r)"
    using assms(1) by (simp add: resolver_ok_def)
  have lacks: "\<exists>d\<in>set (fdeps g). \<forall>h\<in>set (orderedServiceFactoryList r). \<not> satisfies d h" if "g \<in> set us" for g
    using check_dependencies_spec(2)[OF known, of "fdeps g"] assms(4) that by (auto simp: satisfies_def)
  have ordered: "g \<in> set (orderedServiceFactoryList r)" if "loadable fs g" for g
    using that
  proof (induction rule: loadable.induct)
    case (loadable g)
    then have "g \<notin> set us" using lacks by blast
    then show ?case using resolver_ok_sub[OF assms(1)] assms(2) loadable.hyps(1) by auto
  qed
  show ?thesis
  proof
    assume "loadable fs f"
    then have "\<forall>d\<in>set (fdeps f). \<exists>g. satisfies d g \<and> loadable fs g" by (cases) simp
    with lacks[OF assms(3)] ordered show False by blast
  qed
qed

lemma resolve_spec:
  assumes "resolver_ok fs r []" and "distinct (map ftype fs)"
  shows "case resolve_services r of Inr r' \<Rightarrow> resolver_ok fs r' [] \<and> unresolvedDependencyList r' = []
     | Inl e \<Rightarrow> e = InvalidDependencyVersion \<and> version_refused fs \<or>
         e = FailedToResolveServiceDependencies \<and> \<not> (\<forall>f\<in>set fs. loadable fs f)"
  using assms
proof (induction r rule: resolve_services.induct)
  case (1 r)
  let ?us = "unresolvedDependencyList r" and ?r = "r\<lparr>unresolvedDependencyList := []\<rparr>"
  have start: "resolver_ok fs ?r ?us" using 1(2) by (simp add: resolver_ok_def)
  show ?case
  proof (cases "?us = []")
    case True
    with 1(2) show ?thesis by (simp add: resolve_services.simps[of r])
  next
    case False
    note sw = sweep_spec[OF start 1(3), of False]
    show ?thesis
    proof (cases "sweep ?us ?r False")
      case (Inl e)
      with sw False show ?thesis by (simp add: resolve_services.simps[of r])
    next
      case (Inr ru)
      obtain r' u' where ru: "ru = (r', u')" by (cases ru)
      show ?thesis
      proof (cases u')
        case True
        then have "resolve_services r = resolve_services r'" using False Inr ru by (simp add: resolve_services.simps[of r])
        moreover have "resolver_ok fs r' []" using sw Inr ru by simp
        ultimately show ?thesis using 1(1)[OF False Inr ru[symmetric]] True 1(3) by simp
      next
        case False
        then have sw': "sweep ?us ?r False = Inr (r', False)" using Inr ru by simp
        have "hd ?us \<in> set ?us" using \<open>?us \<noteq> []\<close> by simp
        with stuck_not_loadable[OF start _ this] sweep_stuck[OF sw'] have "\<not> loadable fs (hd ?us)" by simp
        moreover have "hd ?us \<in> set fs" using resolver_ok_sub[OF start] \<open>hd ?us \<in> set ?us\<close> by blast
        moreover have "resolve_services r = Inl FailedToResolveServiceDependencies"
          using sw' \<open>?us \<noteq> []\<close> by (simp add: resolve_services.simps[of r])
        ultimately show ?thesis by (simp only: sum.case) blast
      qed
    qed
  qed
qed

lemma version_refused_not_loadable:
  assumes "version_refused fs" and "distinct (map ftype fs)"
  shows "\<not> (\<forall>f\<in>set fs. loadable fs f)"
proof -
  obtain f d g where f: "f \<in> set fs" "d \<in> set (fdeps f)" "g \<in> set fs" "ftype g = getType d"
    "version_less (getVersion (m_description g)) (getVersion d)"
    using assms(1) unfolding version_refused_def by blast
  have "\<not> satisfies d h" if "loadable fs h" for h
  proof
    assume h: "satisfies d h"
    have "h \<in> set fs" using that by (blast elim: loadableE)
    then have "h = g" using h f(3,4) assms(2) by (auto simp: satisfies_def distinct_map inj_on_def)
    with h f(5) show False by (simp add: satisfies_def)
  qed
  then have "\<not> loadable fs f" using f(2) by (metis loadable.simps)
  with f(1) show ?thesis by blast
qed

lemma order_services_spec:
  assumes "distinct (map ftype fs)"
  shows "case order_services fs of
       Inr os \<Rightarrow> mset os = mset fs \<and> dependency_ordered os \<and> (\<forall>f\<in>set fs. loadable fs f)
     | Inl e \<Rightarrow> \<not> (\<forall>f\<in>set fs. loadable fs f) \<and>
         (e = InvalidDependencyVersion \<and> version_refused fs \<or> e = FailedToResolveServiceDependencies)"
proof -
  have "resolver_ok fs \<lparr>registeredServiceFactoryMap = Map.empty, orderedServiceFactoryList = [],
      unresolvedDependencyList = []\<rparr> fs" (is "resolver_ok fs ?r fs")
    by (simp add: resolver_ok_def known_def)
  note first = first_pass_spec[OF this assms]
  show ?thesis
  proof (cases "first_pass fs ?r")
    case (Inl e)
    with first version_refused_not_loadable[OF _ assms] show ?thesis by (simp add: order_services_def)
  next
    case (Inr r)
    with first have ok: "resolver_ok fs r []" by simp
    note res = resolve_spec[OF ok assms]
    show ?thesis
    proof (cases "resolve_services r")
      case (Inl e)
      with res version_refused_not_loadable[OF _ assms] Inr show ?thesis
        by (cases e) (auto simp: order_services_def)
    next
      case r': (Inr r')
      then have os: "mset (orderedServiceFactoryList r') = mset fs" "dependency_ordered (orderedServiceFactoryList r')"
        using res by (auto simp: resolver_ok_def)
      then have "\<forall>f\<in>set fs. loadable fs f"
        using dependency_ordered_loadable[OF os(2)] by (metis mset_eq_setD subset_refl)
      with os Inr r' show ?thesis by (simp add: order_services_def)
    qed
  qed
qed

lemma order_services_Inr:
  assumes "distinct (map ftype fs)" and "order_services fs = Inr os"
  shows "mset os = mset fs" and "dependency_ordered os" and "set os = set fs"
  using order_services_spec[OF assms(1)] assms(2) by (auto dest: mset_eq_setD)

text \<open>
  C6: for a registry of distinct types, in whatever order it is iterated, the services are ordered so that
  each comes after services that satisfy its dependencies; this fails exactly if some service cannot be
  loaded, because a dependency is absent, refused for its version or part of a cycle, and the refused version
  is reported only when there is one.
\<close>
theorem order_services_correct:
  assumes "distinct (map ftype fs)"
  shows "(\<exists>os. order_services fs = Inr os \<and> mset os = mset fs \<and> dependency_ordered os) \<and>
       (\<forall>f\<in>set fs. loadable fs f)
     \<or> order_services fs = Inl FailedToResolveServiceDependencies \<and> \<not> (\<forall>f\<in>set fs. loadable fs f)
     \<or> order_services fs = Inl InvalidDependencyVersion \<and> version_refused fs \<and>
       \<not> (\<forall>f\<in>set fs. loadable fs f)"
  using order_services_spec[OF assms] by (cases "order_services fs") auto

definition plain_factory :: "service_description \<Rightarrow> service_factory" where
  "plain_factory d = \<lparr>m_description = d, m_constructor = Some\<rparr>"

theorem order_services_correct_witness:
  "let fs = [plain_factory (ServiceDescription ''b'' (version_of_string ''1.0'')
          [ServiceDescription ''a'' (version_of_string ''1.0'') []]),
        plain_factory (ServiceDescription ''a'' (version_of_string ''1.0'') [])]
   in (\<exists>os. order_services fs = Inr os \<and> mset os = mset fs \<and> dependency_ordered os) \<and>
       (\<forall>f\<in>set fs. loadable fs f)
     \<or> order_services fs = Inl FailedToResolveServiceDependencies \<and> \<not> (\<forall>f\<in>set fs. loadable fs f)
     \<or> order_services fs = Inl InvalidDependencyVersion \<and> version_refused fs \<and>
       \<not> (\<forall>f\<in>set fs. loadable fs f)"
  unfolding Let_def by (rule order_services_correct) (simp add: plain_factory_def)

subsection \<open>The registry\<close>

text \<open>Each service is registered under the type of its description, once.\<close>

definition registry_ok :: "service_map \<Rightarrow> bool" where
  "registry_ok m \<longleftrightarrow> (\<forall>t f. m t = Some f \<longrightarrow> ftype f = t)"

lemma registry_ok_empty [simp]: "registry_ok Map.empty"
  by (simp add: registry_ok_def)

lemma registerService_ok:
  "registry_ok m \<Longrightarrow> registry_ok (snd (registerService d c m))"
  by (simp add: registry_ok_def registerService_def Let_def)

lemma registerService_keeps:
  "m t = Some f \<Longrightarrow> snd (registerService d c m) t = Some f"
  by (cases "m (getType d)") (auto simp: registerService_def Let_def)

text \<open>The factories in the order \<open>ts\<close> in which the iterator meets the types.\<close>

definition iteration :: "service_map \<Rightarrow> string list \<Rightarrow> service_factory list" where
  "iteration m ts = map (\<lambda>t. the (m t)) ts"

lemma iteration_distinct:
  assumes "registry_ok m" and "distinct ts" and "set ts = dom m"
  shows "distinct (map ftype (iteration m ts))"
proof -
  have "map ftype (iteration m ts) = ts"
    unfolding iteration_def map_map by (rule map_idI) (use assms in \<open>auto simp: registry_ok_def\<close>)
  with assms(2) show ?thesis by simp
qed

text \<open>Loading does not depend on the order of the iteration.\<close>

lemma loadable_set_cong: "set fs = set gs \<Longrightarrow> loadable fs f \<Longrightarrow> loadable gs f"
  by (rotate_tac 1, induction rule: loadable.induct) (blast intro: loadable)

end
