(* ===== verification/Json.thy ===== *)
theory Json
  imports Prelude "HOL-Library.Multiset"
begin

text \<open>
  JSON documents and the helpers of the engine on them (\<open>Utils/JSON/JSON.cpp\<close>). The rapidjson library is not
  part of the repository: an object is the list of its members in order, names may repeat, and \<open>FindMember\<close>
  finds the first of a name, as the library documents; its parser and its writer are parameters.
\<close>

text \<open>A number is what the parser read, which nothing here looks into.\<close>

datatype json = Null | Bool bool | Number string | Str string | Array "json list"
  | Object "(string \<times> json) list"

type_synonym members = "(string \<times> json) list"

definition IsObject :: "json \<Rightarrow> bool" where
  "IsObject v \<longleftrightarrow> (case v of Object _ \<Rightarrow> True | _ \<Rightarrow> False)"

definition IsString :: "json \<Rightarrow> bool" where
  "IsString v \<longleftrightarrow> (case v of Str _ \<Rightarrow> True | _ \<Rightarrow> False)"

lemma Is_simps [simp]:
  "IsObject (Object ms)" "\<not> IsObject Null" "\<not> IsObject (Bool b)" "\<not> IsObject (Number n)" "\<not> IsObject (Str s)"
  "\<not> IsObject (Array vs)" "IsString (Str s)" "\<not> IsString (Object ms)" "\<not> IsString Null" "\<not> IsString (Bool b)"
  "\<not> IsString (Number n)" "\<not> IsString (Array vs)"
  by (simp_all add: IsObject_def IsString_def)

lemma IsObjectE: "IsObject v \<Longrightarrow> (\<And>ms. v = Object ms \<Longrightarrow> P) \<Longrightarrow> P"
  by (cases v) auto

lemma IsStringE: "IsString v \<Longrightarrow> (\<And>s. v = Str s \<Longrightarrow> P) \<Longrightarrow> P"
  by (cases v) auto

text \<open>
  Assigning to the value of the first member of the name; removing it, when the last member takes its place.
\<close>

fun set_member :: "string \<Rightarrow> json \<Rightarrow> members \<Rightarrow> members" where
  "set_member n v [] = []"
| "set_member n v ((k, w) # ms) = (if k = n then (k, v) # ms else (k, w) # set_member n v ms)"

fun remove_member :: "string \<Rightarrow> members \<Rightarrow> members" where
  "remove_member n [] = []"
| "remove_member n ((k, w) # ms) = 
     (if k = n then if ms = [] then [] else last ms # butlast ms else (k, w) # remove_member n ms)"

text \<open>A string handed over as \<open>c_str\<close> ends at the first NUL.\<close>

definition cstr :: "string \<Rightarrow> string" where
  "cstr s = takeWhile (\<lambda>c. c \<noteq> CHR 0x00) s"

lemma map_of_set_member: "map_of ms n \<noteq> None \<Longrightarrow> map_of (set_member n v ms) = (map_of ms)(n \<mapsto> v)"
  by (induction n v ms rule: set_member.induct) (auto simp: fun_upd_twist split: if_splits)

lemma keys_set_member [simp]: "map fst (set_member n v ms) = map fst ms"
  by (induction n v ms rule: set_member.induct) auto

lemma set_set_member: "set (set_member n v ms) \<subseteq> insert (n, v) (set ms)"
  by (induction n v ms rule: set_member.induct) auto

lemma last_butlast_perm: "ms \<noteq> [] \<Longrightarrow> mset (last ms # butlast ms) = mset ms"
  by (metis append_butlast_last_id add_mset_add_single mset.simps mset_append)

lemma set_rotate: "ms \<noteq> [] \<Longrightarrow> set (last ms # butlast ms) = set ms"
  by (rule mset_eq_setD) (rule last_butlast_perm)

lemma distinct_rotate: "ms \<noteq> [] \<Longrightarrow> distinct (map fst (last ms # butlast ms)) \<longleftrightarrow> distinct (map fst ms)"
  by (metis mset_eq_imp_distinct_iff mset_map last_butlast_perm)

lemma set_remove_member: "set (remove_member n ms) \<subseteq> set ms"
  by (induction n ms rule: remove_member.induct) (auto dest: in_set_butlastD)

lemma distinct_remove_member: "distinct (map fst ms) \<Longrightarrow> distinct (map fst (remove_member n ms))"
proof (induction n ms rule: remove_member.induct)
  case (2 n k w ms)
  show ?case
  proof (cases "k = n")
    case True
    with "2.prems" distinct_rotate[of ms] show ?thesis by (cases "ms = []") auto
  next
    case False
    with 2 set_remove_member[of n ms] show ?thesis by (auto simp: image_iff)
  qed
qed simp

lemma map_of_remove_member:
  assumes "distinct (map fst ms)"
  shows "map_of (remove_member n ms) = (map_of ms)(n := None)"
  using assms
proof (induction n ms rule: remove_member.induct)
  case (2 n k w ms)
  show ?case
  proof (cases "k = n")
    case True
    have "map_of (last ms # butlast ms) = map_of ms" if "ms \<noteq> []"
    proof -
      have "distinct (map fst ms)" using "2.prems" by simp
      then show ?thesis using distinct_rotate[OF that] set_rotate[OF that] map_of_inject_set by blast
    qed
    with True "2.prems" show ?thesis by (auto simp: map_of_eq_None_iff)
  next
    case False
    with 2 show ?thesis by (auto simp: fun_eq_iff)
  qed
qed simp

lemma map_of_snoc: "map_of ms n = None \<Longrightarrow> map_of (ms @ [(n, v)]) = (map_of ms)(n \<mapsto> v)"
  by (auto simp: fun_eq_iff map_add_def split: option.splits)

subsection \<open>Merging\<close>

text \<open>
  \<open>into\<close> is changed in place, so it is part of the result also when the value is false.
\<close>

fun merge :: "members \<Rightarrow> members \<Rightarrow> bool \<times> members" where
  "merge into [] = (True, into)"
| "merge into ((name, val) # from) =
     (case map_of into name of
        Some intoNode \<Rightarrow>
          (case (val, intoNode) of
             (Object fs, Object is) \<Rightarrow>
               (let (success, is') = merge is fs; into = set_member name (Object is') into
                in if success then merge into from else (False, into))
           | _ \<Rightarrow> (False, into))
      | None \<Rightarrow> merge (into @ [(name, val)]) from)"

definition parse_json :: "(string \<Rightarrow> json option) \<Rightarrow> string \<Rightarrow> json option" where
  "parse_json parser stream =
     (case parser stream of None \<Rightarrow> None | Some document \<Rightarrow> if IsObject document then Some document else None)"

subsection \<open>What a document says\<close>

text \<open>
  The paths of a document: below each is an object (\<open>Some None\<close>), a value that is none (\<open>Some (Some v)\<close>),
  or nothing.
\<close>

fun view :: "json \<Rightarrow> string list \<Rightarrow> json option option" where
  "view v [] = Some (if IsObject v then None else Some v)"
| "view (Object ms) (k # p) = (case map_of ms k of None \<Rightarrow> None | Some v \<Rightarrow> view v p)"
| "view v (k # p) = None"

fun wf_json :: "json \<Rightarrow> bool" where
  "wf_json (Object ms) \<longleftrightarrow> distinct (map fst ms) \<and> (\<forall>(k, v)\<in>set ms. wf_json v)"
| "wf_json v \<longleftrightarrow> True"

text \<open>Two documents agree if a path of both is an object in both.\<close>

definition agree :: "json \<Rightarrow> json \<Rightarrow> bool" where
  "agree v w \<longleftrightarrow> (\<forall>p. view v p \<noteq> None \<longrightarrow> view w p \<noteq> None \<longrightarrow> view v p = Some None \<and> view w p = Some None)"

definition vo :: "json option \<Rightarrow> string list \<Rightarrow> json option option" where
  "vo x p = (case x of None \<Rightarrow> None | Some v \<Rightarrow> view v p)"

lemma vo_simps [simp]: "vo None = Map.empty" "vo (Some v) = view v"
  by (simp_all add: vo_def fun_eq_iff)

lemma view_Object: "view (Object ms) (k # p) = vo (map_of ms k) p"
  by (simp split: option.splits)

lemma view_Nil_not_None [simp]: "view v [] \<noteq> None"
  by simp

lemma view_Object_eqI:
  assumes "\<And>k. vo (map_of m k) = vo (map_of a k) ++ vo (map_of b k)"
  shows "view (Object m) = view (Object a) ++ view (Object b)"
proof
  fix p show "view (Object m) p = (view (Object a) ++ view (Object b)) p"
    using assms by (cases p) (simp_all add: view_Object map_add_def del: view.simps(2) split: option.split)
qed

lemma view_Object_eqD:
  assumes "view (Object m) = view (Object a) ++ view (Object b)"
  shows "vo (map_of m k) = vo (map_of a k) ++ vo (map_of b k)"
proof
  fix p show "vo (map_of m k) p = (vo (map_of a k) ++ vo (map_of b k)) p"
    using fun_cong[OF assms, of "k # p"] by (simp add: view_Object map_add_def del: view.simps(2) split: option.splits)
qed

lemma agree_Object:
  "agree (Object a) (Object b) \<longleftrightarrow>
     (\<forall>k v w. map_of a k = Some v \<longrightarrow> map_of b k = Some w \<longrightarrow> agree v w)" (is "?l \<longleftrightarrow> ?r")
proof
  assume l: ?l
  show ?r unfolding agree_def
    using l[unfolded agree_def, rule_format, of "_ # _"] unfolding view_Object by (metis vo_simps(2))
next
  assume r: ?r
  show ?l unfolding agree_def
  proof (intro allI impI)
    fix p assume *: "view (Object a) p \<noteq> None" "view (Object b) p \<noteq> None"
    show "view (Object a) p = Some None \<and> view (Object b) p = Some None"
    proof (cases p)
      case (Cons k q)
      with * obtain v w where "map_of a k = Some v" "map_of b k = Some w"
        by (auto simp: view_Object vo_def simp del: view.simps(2) split: option.splits)
      with r have "agree v w" by blast
      with \<open>map_of a k = Some v\<close> \<open>map_of b k = Some w\<close> * Cons show ?thesis
        unfolding agree_def Cons view_Object by (simp only: vo_simps) blast
    qed simp
  qed
qed

lemma agree_value:
  assumes "\<not> (IsObject v \<and> IsObject w)"
  shows "\<not> agree v w"
  using assms unfolding agree_def by (auto intro!: exI[of _ "[]"])

lemma wf_member: "wf_json (Object ms) \<Longrightarrow> map_of ms k = Some v \<Longrightarrow> wf_json v"
  by (auto dest!: map_of_SomeD)

lemma wf_set_member: "wf_json (Object ms) \<Longrightarrow> wf_json v \<Longrightarrow> wf_json (Object (set_member k v ms))"
  using set_set_member[of k v ms] by auto

text \<open>The loop over the members of the second object, one name at a time.\<close>

lemma merge_spec:
  assumes "wf_json (Object into)" and "wf_json (Object from)"
  shows "(fst (merge into from) \<longleftrightarrow> agree (Object into) (Object from)) \<and>
    wf_json (Object (snd (merge into from))) \<and>
    (fst (merge into from) \<longrightarrow> (\<forall>k. vo (map_of (snd (merge into from)) k) = vo (map_of into k) ++ vo (map_of from k)))"
  using assms
proof (induction into "from" rule: merge.induct)
  case (1 into)
  then show ?case by (simp add: agree_Object vo_def map_add_def)
next
  case (2 into name val "from")
  have new: "map_of from name = None" and wf: "wf_json (Object from)" "wf_json val"
    using "2.prems"(2) by (auto simp: map_of_eq_None_iff)
  show ?case
  proof (cases "map_of into name")
    case None
    let ?into = "into @ [(name, val)]"
    have "name \<notin> fst ` set into" using None by (simp add: map_of_eq_None_iff)
    then have wf': "wf_json (Object ?into)" using "2.prems"(1) wf(2) by auto
    note mp = map_of_snoc[OF None, of val]
    have "agree (Object ?into) (Object from) \<longleftrightarrow> agree (Object into) (Object ((name, val) # from))"
      unfolding agree_Object mp using None new by (auto split: if_splits)
    moreover have "vo (((map_of into)(name \<mapsto> val)) k) ++ vo (map_of from k) =
        vo (map_of into k) ++ vo (map_of ((name, val) # from) k)" for k
      using None new by simp
    ultimately show ?thesis
      using "2.IH"(1)[OF None wf' wf(1)] None unfolding mp by simp
  next
    case (Some node)
    show ?thesis
    proof (cases "IsObject val \<and> IsObject node")
      case False
      then have "merge into ((name, val) # from) = (False, into)"
        using Some by (cases val; cases node) auto
      moreover have "\<not> agree (Object into) (Object ((name, val) # from))"
        using agree_value[of node val] False Some unfolding agree_Object by auto
      ultimately show ?thesis using "2.prems"(1) by simp
    next
      case True
      then obtain fs "is" where obj: "val = Object fs" "node = Object is" by (auto elim!: IsObjectE)
      obtain ok is' where m: "merge is fs = (ok, is')" by (cases "merge is fs")
      let ?into = "set_member name (Object is') into"
      have wf': "wf_json (Object is)" "wf_json (Object fs)"
        using wf_member[OF "2.prems"(1) Some] wf(2) obj by auto
      have inner: "ok \<longleftrightarrow> agree (Object is) (Object fs)" "wf_json (Object is')"
        "ok \<Longrightarrow> view (Object is') = view (Object is) ++ view (Object fs)"
        using "2.IH"(2)[OF Some refl obj wf'] m by (auto intro: view_Object_eqI)
      have wf_into: "wf_json (Object ?into)" using wf_set_member[OF "2.prems"(1) inner(2)] .
      have mp: "map_of ?into = (map_of into)(name \<mapsto> Object is')"
        using Some by (simp add: map_of_set_member)
      have step: "merge into ((name, val) # from) = (if ok then merge ?into from else (False, ?into))"
        using Some m obj by simp
      show ?thesis
      proof (cases ok)
        case False
        then have "\<not> agree node val" using inner(1) obj by simp
        then have "\<not> agree (Object into) (Object ((name, val) # from))"
          using Some unfolding agree_Object by auto
        with False step wf_into show ?thesis by simp
      next
        case True
        then have "agree node val" using inner(1) obj by simp
        then have "agree (Object ?into) (Object from) \<longleftrightarrow> agree (Object into) (Object ((name, val) # from))"
          using Some new unfolding agree_Object mp by auto
        moreover have "vo (((map_of into)(name \<mapsto> Object is')) k) ++ vo (map_of from k) =
            vo (map_of into k) ++ vo (map_of ((name, val) # from) k)" for k
          using Some new obj inner(3)[OF True] by simp
        ultimately show ?thesis
          using "2.IH"(3)[OF Some refl obj refl m[symmetric] refl True wf_into wf(1)] step True
          unfolding mp by simp
      qed
    qed
  qed
qed

lemma agree_sym: "agree v w \<longleftrightarrow> agree w v"
  by (auto simp: agree_def)

text \<open>Agreeing documents say the same together in either order.\<close>

lemma agree_comm: "agree v w \<Longrightarrow> view v ++ view w = view w ++ view v"
proof
  fix p assume "agree v w"
  then show "(view v ++ view w) p = (view w ++ view v) p"
    unfolding agree_def by (cases "view v p"; cases "view w p"; fastforce simp: map_add_def)
qed

lemma merge_facts:
  assumes "wf_json (Object into)" and "wf_json (Object from)"
  shows "fst (merge into from) \<longleftrightarrow> agree (Object into) (Object from)"
    and "wf_json (Object (snd (merge into from)))"
    and "fst (merge into from) \<Longrightarrow> view (Object (snd (merge into from))) = view (Object into) ++ view (Object from)"
  using merge_spec[OF assms] by (auto intro!: view_Object_eqI)

text \<open>
  for documents in which no object repeats a name, merging succeeds exactly if every path the two have in
  common is an object in both; then the result says, path by path, what either document says, whichever is
  merged into the other, and in any case it repeats no name.
\<close>
theorem merge_is_union:
  assumes "wf_json (Object into)" and "wf_json (Object from)"
  shows "(fst (merge into from) \<longleftrightarrow> agree (Object into) (Object from)) \<and>
    fst (merge into from) = fst (merge from into) \<and>
    wf_json (Object (snd (merge into from))) \<and>
    (fst (merge into from) \<longrightarrow>
       view (Object (snd (merge into from))) = view (Object into) ++ view (Object from) \<and>
       view (Object (snd (merge into from))) = view (Object (snd (merge from into))))"
  using merge_facts[OF assms] merge_facts[OF assms(2,1)] agree_sym agree_comm by metis

theorem merge_is_union_witness:
  "let a = [(''x'', Object [(''p'', Bool True)])]; b = [(''x'', Object [(''q'', Null)]), (''y'', Str ''s'')] in
    (fst (merge a b) \<longleftrightarrow> agree (Object a) (Object b)) \<and>
    fst (merge a b) = fst (merge b a) \<and> wf_json (Object (snd (merge a b))) \<and>
    (fst (merge a b) \<longrightarrow>
       view (Object (snd (merge a b))) = view (Object a) ++ view (Object b) \<and>
       view (Object (snd (merge a b))) = view (Object (snd (merge b a))))"
  unfolding Let_def by (rule merge_is_union) simp_all

text \<open>A merge that fails has already changed the document it merges into.\<close>

lemma merge_failure_is_partial:
  "merge [(''a'', Null)] [(''b'', Bool True), (''a'', Bool False)] = (False, [(''a'', Null), (''b'', Bool True)])"
  by simp

end
