(* ===== verification/Engine_Core.thy ===== *)
theory Engine_Core
  imports Engine_Services Json
begin

text \<open>
  The engine object (\<open>EngineImpl.cpp\<close>) and the handlers of its services (\<open>EngineService.cpp\<close>). A service
  overrides virtual functions; each call of one is recorded with the number of the service, and what it
  answers is input, given everything called before. Two things a service could do are left out: a call
  back into the engine from inside such a function, which would change the state of the engine under the
  loop that made the call, and an exception that leaves it. In the handlers such an exception is caught
  and is a refusal; in the loops of \<open>setProperty\<close>, \<open>getProperty\<close> and \<open>registerPlatformInterface\<close> it would
  end the loop, where a refusal goes on to the next service.
\<close>

datatype hook = Initialize | Configure string | PreRegister | PostRegister | Setup | Start | Stop | Shutdown
  | RegisterPlatformInterface nat | SetProperty string string | GetProperty string

type_synonym service_call = "nat \<times> hook \<times> bool"

text \<open>
  The world around the engine: the answers of the services, the JSON library, the version the build inserts,
  and whether the handler of SIGPIPE could be set.
\<close>

record engine_world =
  answer :: "service_call list \<Rightarrow> nat \<Rightarrow> hook \<Rightarrow> bool"
  property_value :: "service_call list \<Rightarrow> nat \<Rightarrow> string \<Rightarrow> string"
  json_parser :: "string \<Rightarrow> json option"
  json_writer :: "json \<Rightarrow> string"
  engine_version :: version
  signal_set :: bool

text \<open>
  \<open>s_context\<close>: whether the pointer to the engine is set. The two maps hold, under the name of a type, a
  function that makes objects and an object; both are numbers here.
\<close>

record service =
  s_description :: service_description
  s_initialized :: bool
  s_running :: bool
  s_context :: bool
  m_serviceFactoryMap :: "string \<rightharpoonup> nat"
  m_serviceInterfaceMap :: "string \<rightharpoonup> nat"

text \<open>The map of registered services holds the same objects as the list, so it holds their numbers.\<close>

record engine =
  m_orderedServiceList :: "service list"
  m_registeredServiceMap :: "string \<rightharpoonup> nat"
  m_running :: bool
  m_initialized :: bool
  m_configured :: bool
  m_setup :: bool
  calls :: "service_call list"

definition new_engine :: engine where
  "new_engine = \<lparr>m_orderedServiceList = [], m_registeredServiceMap = Map.empty, m_running = False,
     m_initialized = False, m_configured = False, m_setup = False, calls = []\<rparr>"

definition new_service :: "service_description \<Rightarrow> service" where
  "new_service d = \<lparr>s_description = d, s_initialized = False, s_running = False, s_context = False,
     m_serviceFactoryMap = Map.empty, m_serviceInterfaceMap = Map.empty\<rparr>"

abbreviation svc :: "engine \<Rightarrow> nat \<Rightarrow> service" where
  "svc e i \<equiv> m_orderedServiceList e ! i"

definition upd :: "nat \<Rightarrow> (service \<Rightarrow> service) \<Rightarrow> engine \<Rightarrow> engine" where
  "upd i f e = e\<lparr>m_orderedServiceList := (m_orderedServiceList e)[i := f (svc e i)]\<rparr>"

definition ask :: "engine_world \<Rightarrow> nat \<Rightarrow> hook \<Rightarrow> engine \<Rightarrow> bool \<times> engine" where
  "ask W i h e = (let b = answer W (calls e) i h in (b, e\<lparr>calls := calls e @ [(i, h, b)]\<rparr>))"

subsection \<open>The handlers of a service\<close>

definition handleInitializeEngineEvent :: "engine_world \<Rightarrow> nat \<Rightarrow> engine \<Rightarrow> bool \<times> engine" where
  "handleInitializeEngineEvent W i e =
     (if s_initialized (svc e i) then (False, upd i (s_context_update (\<lambda>_. False)) e)
      else let (ok, e) = ask W i Initialize (upd i (s_context_update (\<lambda>_. True)) e) in
        if ok then (True, upd i (s_initialized_update (\<lambda>_. True)) e)
        else (False, upd i (s_context_update (\<lambda>_. False)) e))"

text \<open>Four handlers that only check and delegate.\<close>

definition delegate :: "hook \<Rightarrow> engine_world \<Rightarrow> nat \<Rightarrow> engine \<Rightarrow> bool \<times> engine" where
  "delegate h W i e = (if \<not> s_initialized (svc e i) then (False, e) else ask W i h e)"

definition handleConfigureEngineEvent :: "string \<Rightarrow> engine_world \<Rightarrow> nat \<Rightarrow> engine \<Rightarrow> bool \<times> engine" where
  "handleConfigureEngineEvent configuration = delegate (Configure configuration)"

definition handlePreRegisterEngineEvent :: "engine_world \<Rightarrow> nat \<Rightarrow> engine \<Rightarrow> bool \<times> engine" where
  "handlePreRegisterEngineEvent = delegate PreRegister"

definition handlePostRegisterEngineEvent :: "engine_world \<Rightarrow> nat \<Rightarrow> engine \<Rightarrow> bool \<times> engine" where
  "handlePostRegisterEngineEvent = delegate PostRegister"

definition handleSetupEngineEvent :: "engine_world \<Rightarrow> nat \<Rightarrow> engine \<Rightarrow> bool \<times> engine" where
  "handleSetupEngineEvent = delegate Setup"

definition handleStartEngineEvent :: "engine_world \<Rightarrow> nat \<Rightarrow> engine \<Rightarrow> bool \<times> engine" where
  "handleStartEngineEvent W i e =
     (if \<not> s_initialized (svc e i) then (False, e)
      else if s_running (svc e i) then (False, e)
      else let (ok, e) = ask W i Start e in
        if ok then (True, upd i (s_running_update (\<lambda>_. True)) e) else (False, e))"

definition handleStopEngineEvent :: "engine_world \<Rightarrow> nat \<Rightarrow> engine \<Rightarrow> bool \<times> engine" where
  "handleStopEngineEvent W i e =
     (if \<not> s_initialized (svc e i) then (False, e)
      else if \<not> s_running (svc e i) then (True, e)
      else let (ok, e) = ask W i Stop e in
        if ok then (True, upd i (s_running_update (\<lambda>_. False)) e) else (False, e))"

definition handleShutdownEngineEvent :: "engine_world \<Rightarrow> nat \<Rightarrow> engine \<Rightarrow> bool \<times> engine" where
  "handleShutdownEngineEvent W i e =
     (if \<not> s_initialized (svc e i) then (True, e)
      else let (ok, e) = (if s_running (svc e i) then ask W i Stop e else (True, e)) in
        if \<not> ok then (False, e)
        else let (ok, e) = ask W i Shutdown e in
          if ok then (True, upd i (\<lambda>s. s\<lparr>s_initialized := False, s_context := False\<rparr>) e) else (False, e))"

definition handleRegisterPlatformInterfaceEngineEvent :: "nat \<Rightarrow> engine_world \<Rightarrow> nat \<Rightarrow> engine \<Rightarrow> bool \<times> engine" where
  "handleRegisterPlatformInterfaceEngineEvent p W i e = ask W i (RegisterPlatformInterface p) e"

subsection \<open>Loops over the services\<close>

text \<open>The loop whose body throws when the handler fails, and the one that returns at the first success.\<close>

fun each :: "('a \<Rightarrow> engine \<Rightarrow> bool \<times> engine) \<Rightarrow> 'a list \<Rightarrow> engine \<Rightarrow> bool \<times> engine" where
  "each h [] e = (True, e)"
| "each h (i # is) e = (let (ok, e) = h i e in if ok then each h is e else (False, e))"

fun first_success :: "('a \<Rightarrow> engine \<Rightarrow> bool \<times> engine) \<Rightarrow> 'a list \<Rightarrow> engine \<Rightarrow> bool \<times> engine" where
  "first_success h [] e = (False, e)"
| "first_success h (i # is) e = (let (ok, e) = h i e in if ok then (True, e) else first_success h is e)"

definition services :: "engine \<Rightarrow> nat list" where
  "services e = [0..<length (m_orderedServiceList e)]"

subsection \<open>Creation\<close>

text \<open>An exception leaves both containers empty; the objects made so far are gone with them.\<close>

fun instantiate :: "service_factory list \<Rightarrow> engine \<Rightarrow> bool \<times> engine" where
  "instantiate [] e = (True, e)"
| "instantiate (f # fs) e =
     (case newInstance f of
        None \<Rightarrow> (False, e\<lparr>m_orderedServiceList := [], m_registeredServiceMap := Map.empty\<rparr>)
      | Some d \<Rightarrow> instantiate fs (e\<lparr>m_orderedServiceList := m_orderedServiceList e @ [new_service d],
          m_registeredServiceMap := (m_registeredServiceMap e)(getType d \<mapsto> length (m_orderedServiceList e))\<rparr>))"

definition checkServices :: "service_factory list \<Rightarrow> engine \<Rightarrow> bool \<times> engine" where
  "checkServices registry e =
     (case order_services registry of
        Inl _ \<Rightarrow> (False, e\<lparr>m_orderedServiceList := [], m_registeredServiceMap := Map.empty\<rparr>)
      | Inr fs \<Rightarrow> instantiate fs e)"

definition initialize_engine :: "engine_world \<Rightarrow> service_factory list \<Rightarrow> engine \<Rightarrow> bool \<times> engine" where
  "initialize_engine W registry e =
     (if \<not> signal_set W then (False, e)
      else if m_initialized e then (False, e)
      else let (ok, e) = checkServices registry e in
        if \<not> ok then (False, e)
        else let (ok, e) = each (handleInitializeEngineEvent W) (services e) e in
          if ok then (True, e\<lparr>m_initialized := True\<rparr>) else (False, e))"

text \<open>
  \<open>create\<close>: on failure the caller gets a null pointer and the object is destroyed, which shuts nothing down
  since it does not count as initialized; the second component is what was called in any case.
\<close>

definition create_engine :: "engine_world \<Rightarrow> service_factory list \<Rightarrow> engine option \<times> service_call list" where
  "create_engine W registry =
     (let (ok, e) = initialize_engine W registry new_engine in (if ok then Some e else None, calls e))"

subsection \<open>Configuration and registration\<close>

text \<open>A configuration object is its stream, or \<open>None\<close> for a null pointer.\<close>

fun merge_configurations :: "engine_world \<Rightarrow> string option list \<Rightarrow> members \<Rightarrow> members option" where
  "merge_configurations W [] root = Some root"
| "merge_configurations W (next # cs) root =
     (case Option.bind next (parse_json (json_parser W)) of
        Some (Object document) \<Rightarrow>
          (let (ok, root) = merge root document in if ok then merge_configurations W cs root else None)
      | _ \<Rightarrow> None)"

text \<open>The result of the handler is not looked at.\<close>

definition configure_service :: "engine_world \<Rightarrow> members \<Rightarrow> nat \<Rightarrow> engine \<Rightarrow> engine" where
  "configure_service W root i e =
     (case map_of root (cstr (getType (s_description (svc e i)))) of
        Some config \<Rightarrow> snd (handleConfigureEngineEvent (json_writer W config) W i e)
      | None \<Rightarrow> e)"

definition engine_configure :: "engine_world \<Rightarrow> string option list \<Rightarrow> engine \<Rightarrow> bool \<times> engine" where
  "engine_configure W configurationList e =
     (if \<not> m_initialized e then (False, e)
      else if m_running e then (False, e)
      else if m_configured e then (False, e)
      else if configurationList = [] then (False, e)
      else case merge_configurations W configurationList [] of
          None \<Rightarrow> (False, e)
        | Some root \<Rightarrow>
            let e = fold (configure_service W root) (services e) e;
                e = e\<lparr>m_configured := True\<rparr>
            in each (handlePreRegisterEngineEvent W) (services e) e)"

definition configure_one :: "engine_world \<Rightarrow> string option \<Rightarrow> engine \<Rightarrow> bool \<times> engine" where
  "configure_one W configuration e =
     (if configuration = None then (False, e) else engine_configure W [configuration] e)"

definition registerPlatformInterface :: "engine_world \<Rightarrow> nat option \<Rightarrow> engine \<Rightarrow> bool \<times> engine" where
  "registerPlatformInterface W platformInterface e =
     (if \<not> m_configured e then (False, e)
      else if m_setup e then (False, e)
      else case platformInterface of None \<Rightarrow> (False, e)
        | Some p \<Rightarrow> first_success (handleRegisterPlatformInterfaceEngineEvent p W) (services e) e)"

definition registerPlatformInterfaces :: "engine_world \<Rightarrow> nat option list \<Rightarrow> engine \<Rightarrow> bool \<times> engine" where
  "registerPlatformInterfaces W ps e =
     (if ps = [] then (False, e) else each (registerPlatformInterface W) ps e)"

subsection \<open>Start, stop and shutdown\<close>

definition setup_services :: "engine_world \<Rightarrow> engine \<Rightarrow> bool \<times> engine" where
  "setup_services W e =
     (let (ok, e) = each (handlePostRegisterEngineEvent W) (services e) e in
      if \<not> ok then (False, e)
      else let (ok, e) = each (handleSetupEngineEvent W) (services e) e in
        if \<not> ok then (False, e) else (True, e\<lparr>m_setup := True\<rparr>))"

definition engine_start :: "engine_world \<Rightarrow> engine \<Rightarrow> bool \<times> engine" where
  "engine_start W e =
     (if m_running e then (False, e)
      else if \<not> m_initialized e then (False, e)
      else if \<not> m_configured e then (False, e)
      else let (ok, e) = (if \<not> m_setup e then setup_services W e else (True, e)) in
        if \<not> ok then (False, e)
        else let (ok, e) = each (handleStartEngineEvent W) (services e) e in
          if ok then (True, e\<lparr>m_running := True\<rparr>) else (False, e))"

definition engine_stop :: "engine_world \<Rightarrow> engine \<Rightarrow> bool \<times> engine" where
  "engine_stop W e =
     (if \<not> m_running e then (True, e)
      else let (ok, e) = each (handleStopEngineEvent W) (services e) e in
        if ok then (True, e\<lparr>m_running := False\<rparr>) else (False, e))"

definition engine_shutdown :: "engine_world \<Rightarrow> engine \<Rightarrow> bool \<times> engine" where
  "engine_shutdown W e =
     (if \<not> m_initialized e then (True, e)
      else let e = snd (engine_stop W e);
               e = fold (\<lambda>i e. snd (handleShutdownEngineEvent W i e)) (services e) e
        in (True, e\<lparr>m_orderedServiceList := [], m_registeredServiceMap := Map.empty, m_initialized := False,
             m_configured := False\<rparr>))"

text \<open>The destructor, when the last pointer to the engine goes.\<close>

definition destroy :: "engine_world \<Rightarrow> engine \<Rightarrow> engine" where
  "destroy W e = (if m_initialized e then snd (engine_shutdown W e) else e)"

subsection \<open>Services and properties\<close>

definition getService :: "string \<Rightarrow> engine \<Rightarrow> nat option" where
  "getService type e = m_registeredServiceMap e type"

text \<open>
  The maps of a service. An interface is held by a weak pointer: \<open>live\<close> tells which objects still exist.
\<close>

definition registerServiceFactory :: "string \<Rightarrow> nat \<Rightarrow> service \<Rightarrow> bool \<times> service" where
  "registerServiceFactory key fn s =
     (if m_serviceFactoryMap s key = None then (True, s\<lparr>m_serviceFactoryMap := (m_serviceFactoryMap s)(key \<mapsto> fn)\<rparr>)
      else (False, s))"

definition registerServiceInterface :: "string \<Rightarrow> nat \<Rightarrow> service \<Rightarrow> bool \<times> service" where
  "registerServiceInterface key serviceInterface s =
     (if m_serviceInterfaceMap s key = None
      then (True, s\<lparr>m_serviceInterfaceMap := (m_serviceInterfaceMap s)(key \<mapsto> serviceInterface)\<rparr>)
      else (False, s))"

definition newFactoryInstance :: "string \<Rightarrow> nat \<Rightarrow> service \<Rightarrow> nat" where
  "newFactoryInstance key defaultFactory s =
     (case m_serviceFactoryMap s key of Some fn \<Rightarrow> fn | None \<Rightarrow> defaultFactory)"

definition lock :: "(nat \<Rightarrow> bool) \<Rightarrow> nat \<Rightarrow> nat option" where
  "lock live x = (if live x then Some x else None)"

definition getServiceInterface :: "(nat \<Rightarrow> bool) \<Rightarrow> string \<Rightarrow> service \<Rightarrow> nat option" where
  "getServiceInterface live key s = Option.bind (m_serviceInterfaceMap s key) (lock live)"

definition context_getServiceInterface :: "(nat \<Rightarrow> bool) \<Rightarrow> string \<Rightarrow> string \<Rightarrow> engine \<Rightarrow> nat option" where
  "context_getServiceInterface live serviceType key e =
     (case getService serviceType e of Some i \<Rightarrow> getServiceInterface live key (svc e i) | None \<Rightarrow> None)"

text \<open>
  An expired interface keeps its place: the type cannot be registered again, though it is no longer found.
\<close>

lemma expired_interface_blocks:
  assumes "m_serviceInterfaceMap s key = Some x" and "\<not> live x"
  shows "getServiceInterface live key s = None" and "registerServiceInterface key y s = (False, s)"
  using assms by (simp_all add: getServiceInterface_def lock_def registerServiceInterface_def)

definition getServiceFromPropertyKey :: "string \<Rightarrow> engine \<Rightarrow> nat option" where
  "getServiceFromPropertyKey key e =
     find (\<lambda>i. let kcmp = getType (s_description (svc e i)) @ ''.'' in take (length kcmp) key = kcmp) (services e)"

definition VERSION :: string where "VERSION = ''aace.core.version''"

definition setProperty :: "engine_world \<Rightarrow> string \<Rightarrow> string \<Rightarrow> engine \<Rightarrow> bool \<times> engine" where
  "setProperty W key val e =
     (if key = [] then (False, e)
      else case getServiceFromPropertyKey key e of
          Some i \<Rightarrow> ask W i (SetProperty key val) e
        | None \<Rightarrow> if key = VERSION then (False, e)
            else first_success (\<lambda>i. ask W i (SetProperty key val)) (services e) e)"

definition ask_property :: "engine_world \<Rightarrow> nat \<Rightarrow> string \<Rightarrow> engine \<Rightarrow> string \<times> engine" where
  "ask_property W i key e =
     (let r = property_value W (calls e) i key in (r, e\<lparr>calls := calls e @ [(i, GetProperty key, r \<noteq> [])]\<rparr>))"

fun first_property :: "engine_world \<Rightarrow> string \<Rightarrow> nat list \<Rightarrow> engine \<Rightarrow> string \<times> engine" where
  "first_property W key [] e = ([], e)"
| "first_property W key (i # is) e =
     (let (result, e) = ask_property W i key e in if result \<noteq> [] then (result, e) else first_property W key is e)"

definition getProperty :: "engine_world \<Rightarrow> string \<Rightarrow> engine \<Rightarrow> string \<times> engine" where
  "getProperty W key e =
     (if key = [] then ([], e)
      else case getServiceFromPropertyKey key e of
          Some i \<Rightarrow> ask_property W i key e
        | None \<Rightarrow> if key = VERSION then (version_toString (engine_version W), e)
            else first_property W key (services e) e)"

subsection \<open>The calls a platform can make\<close>

datatype request = Configure_with "string option list" | Configure_one "string option"
  | Register_interface "nat option" | Register_interfaces "nat option list"
  | Start_engine | Stop_engine | Shutdown_engine | Set_property string string | Get_property string

definition serve :: "engine_world \<Rightarrow> request \<Rightarrow> engine \<Rightarrow> engine" where
  "serve W r e = (case r of
       Configure_with cs \<Rightarrow> snd (engine_configure W cs e)
     | Configure_one c \<Rightarrow> snd (configure_one W c e)
     | Register_interface p \<Rightarrow> snd (registerPlatformInterface W p e)
     | Register_interfaces ps \<Rightarrow> snd (registerPlatformInterfaces W ps e)
     | Start_engine \<Rightarrow> snd (engine_start W e)
     | Stop_engine \<Rightarrow> snd (engine_stop W e)
     | Shutdown_engine \<Rightarrow> snd (engine_shutdown W e)
     | Set_property k v \<Rightarrow> snd (setProperty W k v e)
     | Get_property k \<Rightarrow> snd (getProperty W k e))"

end
