(* ===== verification/Engine_Protocol.thy ===== *)
theory Engine_Protocol
  imports Engine_Core
begin

text \<open>
  The life of a service as the engine may drive it: which calls are permitted after which answers, and when.
  Every request of a platform, in any order and with any answers, keeps to it; services are initialized and
  started only behind the services they depend on.
\<close>

subsection \<open>The protocol of one service\<close>

text \<open>
  Not yet initialized; initialized; \<open>PostRegister\<close> done; \<open>Setup\<close> done; running; shut down, or refused to be
  initialized.
\<close>

datatype phase = Fresh | Idle | Registered | Ready | Running | Gone

definition alive :: "phase \<Rightarrow> bool" where
  "alive ph \<longleftrightarrow> ph \<notin> {Fresh, Gone}"

definition permits :: "phase \<Rightarrow> hook \<Rightarrow> bool" where
  "permits ph h = (case h of
       Initialize \<Rightarrow> ph = Fresh
     | Configure _ \<Rightarrow> ph = Idle
     | PreRegister \<Rightarrow> ph = Idle
     | RegisterPlatformInterface _ \<Rightarrow> ph \<in> {Idle, Registered, Ready}
     | PostRegister \<Rightarrow> ph \<in> {Idle, Registered, Ready}
     | Setup \<Rightarrow> ph = Registered
     | Start \<Rightarrow> ph = Ready
     | Stop \<Rightarrow> ph = Running
     | Shutdown \<Rightarrow> ph \<in> {Idle, Registered, Ready}
     | SetProperty _ _ \<Rightarrow> alive ph
     | GetProperty _ \<Rightarrow> alive ph)"

definition next_phase :: "phase \<Rightarrow> hook \<Rightarrow> bool \<Rightarrow> phase" where
  "next_phase ph h b = (case h of
       Initialize \<Rightarrow> if b then Idle else Gone
     | PostRegister \<Rightarrow> if b then Registered else Idle
     | Setup \<Rightarrow> if b then Ready else ph
     | Start \<Rightarrow> if b then Running else ph
     | Stop \<Rightarrow> if b then Ready else ph
     | Shutdown \<Rightarrow> Gone
     | _ \<Rightarrow> ph)"

text \<open>The phase of a service after a sequence of calls.\<close>

definition phase_after :: "service_call list \<Rightarrow> nat \<Rightarrow> phase" where
  "phase_after c i = foldl (\<lambda>ph (k, h, b). if k = i then next_phase ph h b else ph) Fresh c"

lemma phase_after_simps [simp]:
  "phase_after [] i = Fresh"
  "phase_after (c @ [(k, h, b)]) i = (if k = i then next_phase (phase_after c i) h b else phase_after c i)"
  by (simp_all add: phase_after_def)

text \<open>
  A call is orderly if the service permits it, \<open>Initialize\<close> comes when all the services before it are alive,
  and \<open>Start\<close> when they are all running.
\<close>

definition orderly :: "service_call list \<Rightarrow> nat \<Rightarrow> hook \<Rightarrow> bool" where
  "orderly c i h \<longleftrightarrow> permits (phase_after c i) h \<and>
     (h = Initialize \<longrightarrow> (\<forall>k<i. phase_after c k = Idle)) \<and> (h = Start \<longrightarrow> (\<forall>k<i. phase_after c k = Running))"

definition orderly_calls :: "service_call list \<Rightarrow> bool" where
  "orderly_calls c \<longleftrightarrow> (\<forall>pre i h b suf. c = pre @ (i, h, b) # suf \<longrightarrow> orderly pre i h)"

lemma orderly_calls_simps [simp]:
  "orderly_calls []"
  "orderly_calls (c @ [(i, h, b)]) \<longleftrightarrow> orderly_calls c \<and> orderly c i h"
proof -
  show "orderly_calls []" by (simp add: orderly_calls_def)
  show "orderly_calls (c @ [(i, h, b)]) \<longleftrightarrow> orderly_calls c \<and> orderly c i h"
  proof
    assume all: "orderly_calls (c @ [(i, h, b)])"
    have "orderly pre k g" if "c = pre @ (k, g, d) # suf" for pre k g d suf
      using all[unfolded orderly_calls_def, rule_format, of pre k g d "suf @ [(i, h, b)]"] that by simp
    moreover have "orderly c i h"
      using all[unfolded orderly_calls_def, rule_format, of c i h b "[]"] by simp
    ultimately show "orderly_calls c \<and> orderly c i h" by (simp add: orderly_calls_def)
  next
    assume ok: "orderly_calls c \<and> orderly c i h"
    have "orderly pre k g" if "c @ [(i, h, b)] = pre @ (k, g, d) # suf" for pre k g d suf
      using that ok by (cases suf rule: rev_exhaust) (auto simp: orderly_calls_def)
    then show "orderly_calls (c @ [(i, h, b)])" by (simp add: orderly_calls_def)
  qed
qed

subsection \<open>What the engine keeps\<close>

abbreviation num :: "engine \<Rightarrow> nat" where "num e \<equiv> length (m_orderedServiceList e)"

abbreviation ph :: "engine \<Rightarrow> nat \<Rightarrow> phase" where "ph e i \<equiv> phase_after (calls e) i"

text \<open>
  The flags of every service agree with its phase. \<open>ds\<close> are the descriptions, which no request changes.
\<close>

definition flags_ok :: "engine \<Rightarrow> nat \<Rightarrow> bool" where
  "flags_ok e i \<longleftrightarrow> s_initialized (svc e i) \<and> alive (ph e i) \<and> (s_running (svc e i) \<longleftrightarrow> ph e i = Running)"

definition engine_ok :: "service_description list \<Rightarrow> engine \<Rightarrow> bool" where
  "engine_ok ds e \<longleftrightarrow> orderly_calls (calls e) \<and> map s_description (m_orderedServiceList e) = ds \<and>
     (\<forall>i<num e. flags_ok e i)"

text \<open>The flags of the engine and the phases.\<close>

definition setup_ok :: "engine \<Rightarrow> bool" where
  "setup_ok e \<longleftrightarrow> m_initialized e \<and> (if m_setup e then m_configured e \<and> (\<forall>i<num e. ph e i \<in> {Ready, Running})
     else if m_configured e then \<not> m_running e \<and> (\<forall>i<num e. ph e i \<in> {Idle, Registered, Ready})
     else \<not> m_running e \<and> (\<forall>i<num e. ph e i = Idle))"

definition closed :: "engine \<Rightarrow> bool" where
  "closed e \<longleftrightarrow> m_orderedServiceList e = [] \<and> \<not> m_initialized e \<and> \<not> m_configured e \<and> orderly_calls (calls e)"

lemma count_upd [simp]:
  "num (upd i f e) = num e" "calls (upd i f e) = calls e"
  "m_setup (upd i f e) = m_setup e" "m_configured (upd i f e) = m_configured e"
  "m_running (upd i f e) = m_running e" "m_initialized (upd i f e) = m_initialized e"
  by (simp_all add: upd_def)

lemma svc_upd: "i < num e \<Longrightarrow> svc (upd i f e) k = (if k = i then f (svc e i) else svc e k)"
  by (simp add: upd_def nth_list_update)

lemma descriptions_upd:
  "i < num e \<Longrightarrow> (\<And>s. s_description (f s) = s_description s) \<Longrightarrow>
   map s_description (m_orderedServiceList (upd i f e)) = map s_description (m_orderedServiceList e)"
  by (simp add: upd_def map_update) (metis list_update_id nth_map)

text \<open>
  A loop over the services that throws: \<open>I k\<close> holds when \<open>k\<close> of them are done, \<open>F\<close> when a handler failed.
\<close>

lemma each_rule:
  assumes "I 0 e" and "num e = n"
    and "\<And>k e. k < n \<Longrightarrow> I k e \<Longrightarrow> num e = n \<Longrightarrow>
      num (snd (h k e)) = n \<and> (if fst (h k e) then I (Suc k) (snd (h k e)) else F (snd (h k e)))"
  shows "(if fst (each h (services e) e) then I n (snd (each h (services e) e)) else F (snd (each h (services e) e)))
    \<and> num (snd (each h (services e) e)) = n"
proof -
  have "(if fst (each h [k..<n] e) then I n (snd (each h [k..<n] e)) else F (snd (each h [k..<n] e)))
    \<and> num (snd (each h [k..<n] e)) = n" if "k \<le> n" "I k e" "num e = n" for k e
    using that
  proof (induction "n - k" arbitrary: k e)
    case (Suc m)
    then have "k < n" by simp
    from assms(3)[OF this Suc.prems(2,3)] Suc.hyps(1)[of "Suc k" "snd (h k e)"] Suc.hyps(2) \<open>k < n\<close>
    show ?case by (cases "h k e") (auto simp: upt_conv_Cons)
  qed simp
  from this[of 0 e] assms(1,2) show ?thesis by (simp add: services_def)
qed

text \<open>One call of a service: the record of calls grows by it, and the service keeps its flags in step.\<close>

definition same_flags :: "engine \<Rightarrow> engine \<Rightarrow> bool" where
  "same_flags e e' \<longleftrightarrow> m_setup e' = m_setup e \<and> m_configured e' = m_configured e \<and> m_running e' = m_running e \<and>
     m_initialized e' = m_initialized e \<and> num e' = num e"

definition called :: "engine \<Rightarrow> nat \<Rightarrow> hook \<Rightarrow> bool \<Rightarrow> engine \<Rightarrow> bool" where
  "called e i h b e' \<longleftrightarrow> calls e' = calls e @ [(i, h, b)] \<and> same_flags e e' \<and>
     map s_description (m_orderedServiceList e') = map s_description (m_orderedServiceList e) \<and>
     (\<forall>k<num e. k \<noteq> i \<longrightarrow> svc e' k = svc e k) \<and> (alive (next_phase (ph e i) h b) \<longrightarrow> flags_ok e' i)"

lemma called_facts:
  assumes "called e i h b e'"
  shows "num e' = num e" "ph e' i = next_phase (ph e i) h b" "k \<noteq> i \<Longrightarrow> ph e' k = ph e k" "same_flags e e'"
    "calls e' = calls e @ [(i, h, b)]"
  using assms by (auto simp: called_def same_flags_def)

lemma engine_ok_called:
  assumes "engine_ok ds e" and "orderly (calls e) i h" and "called e i h b e'"
    and "alive (next_phase (ph e i) h b)"
  shows "engine_ok ds e'"
proof -
  have "flags_ok e' k" if "k < num e" for k
  proof (cases "k = i")
    case True
    with assms(3,4) show ?thesis by (simp add: called_def)
  next
    case False
    with assms(1,3) that show ?thesis
      by (simp add: called_def engine_ok_def flags_ok_def)
  qed
  with assms show ?thesis by (simp add: engine_ok_def called_def same_flags_def)
qed

lemma ask_simps:
  assumes "ask W i h e = (b, e')"
  shows "calls e' = calls e @ [(i, h, b)]" "m_orderedServiceList e' = m_orderedServiceList e"
    "m_setup e' = m_setup e" "m_configured e' = m_configured e" "m_running e' = m_running e"
    "m_initialized e' = m_initialized e"
  using assms by (auto simp: ask_def Let_def)

lemma ask_called:
  assumes "flags_ok e i" and "ask W i h e = (b, e')" and "(next_phase (ph e i) h b = Running) = (ph e i = Running)"
  shows "called e i h b e'"
  using assms(1,3) by (auto simp: called_def same_flags_def ask_simps[OF assms(2)] flags_ok_def)

lemma delegate_called:
  assumes "flags_ok e i" and "\<And>b. (next_phase (ph e i) h b = Running) = (ph e i = Running)"
  shows "\<exists>b e'. delegate h W i e = (b, e') \<and> called e i h b e'"
  using assms(1) ask_called[OF assms(1) _ assms(2), of W]
  by (cases "ask W i h e") (auto simp: delegate_def flags_ok_def)

lemma start_called:
  assumes "flags_ok e i" and "i < num e"
  shows "ph e i = Ready \<Longrightarrow> \<exists>b e'. handleStartEngineEvent W i e = (b, e') \<and> called e i Start b e'"
    and "ph e i = Running \<Longrightarrow> handleStartEngineEvent W i e = (False, e)"
proof -
  show "handleStartEngineEvent W i e = (False, e)" if "ph e i = Running"
    using assms that by (simp add: handleStartEngineEvent_def flags_ok_def)
  assume ready: "ph e i = Ready"
  obtain b e' where a: "ask W i Start e = (b, e')" by (cases "ask W i Start e")
  show "\<exists>b e'. handleStartEngineEvent W i e = (b, e') \<and> called e i Start b e'"
  proof (cases b)
    case False
    then have "called e i Start b e'" by (intro ask_called[OF assms(1) a]) (simp add: next_phase_def)
    with False a assms ready show ?thesis by (auto simp: handleStartEngineEvent_def flags_ok_def)
  next
    case True
    let ?e = "upd i (s_running_update (\<lambda>_. True)) e'"
    have n: "i < num e'" using assms(2) ask_simps[OF a] by simp
    have "called e i Start True ?e"
      using True assms ready n
      by (auto simp: called_def same_flags_def ask_simps[OF a] svc_upd descriptions_upd flags_ok_def next_phase_def alive_def)
    with True a assms ready show ?thesis by (auto simp: handleStartEngineEvent_def flags_ok_def)
  qed
qed

lemma stop_called:
  assumes "flags_ok e i" and "i < num e"
  shows "ph e i = Running \<Longrightarrow> \<exists>b e'. handleStopEngineEvent W i e = (b, e') \<and> called e i Stop b e'"
    and "ph e i \<noteq> Running \<Longrightarrow> handleStopEngineEvent W i e = (True, e)"
proof -
  show "handleStopEngineEvent W i e = (True, e)" if "ph e i \<noteq> Running"
    using assms that by (simp add: handleStopEngineEvent_def flags_ok_def)
  assume run: "ph e i = Running"
  obtain b e' where a: "ask W i Stop e = (b, e')" by (cases "ask W i Stop e")
  show "\<exists>b e'. handleStopEngineEvent W i e = (b, e') \<and> called e i Stop b e'"
  proof (cases b)
    case False
    then have "called e i Stop b e'" by (intro ask_called[OF assms(1) a]) (simp add: next_phase_def run)
    with False a assms run show ?thesis by (auto simp: handleStopEngineEvent_def flags_ok_def)
  next
    case True
    let ?e = "upd i (s_running_update (\<lambda>_. False)) e'"
    have n: "i < num e'" using assms(2) ask_simps[OF a] by simp
    have "called e i Stop True ?e"
      using True assms run n
      by (auto simp: called_def same_flags_def ask_simps[OF a] svc_upd descriptions_upd flags_ok_def next_phase_def alive_def)
    with True a assms run show ?thesis by (auto simp: handleStopEngineEvent_def flags_ok_def)
  qed
qed

subsection \<open>The loops\<close>

lemma same_flags_refl [simp]: "same_flags e e"
  by (simp add: same_flags_def)

lemma same_flags_trans [trans]: "same_flags a b \<Longrightarrow> same_flags b c \<Longrightarrow> same_flags a c"
  by (simp add: same_flags_def)

lemma engine_okD:
  assumes "engine_ok ds e" and "i < num e"
  shows "flags_ok e i" and "alive (ph e i)"
  using assms by (auto simp: engine_ok_def flags_ok_def)

lemma step_delegate:
  assumes "engine_ok ds e" and "i < num e" and "orderly (calls e) i h"
    and "\<And>b. alive (next_phase (ph e i) h b)" and "\<And>b. (next_phase (ph e i) h b = Running) = (ph e i = Running)"
  shows "\<exists>b e'. delegate h W i e = (b, e') \<and> called e i h b e' \<and> engine_ok ds e'"
  using delegate_called[OF engine_okD(1)[OF assms(1,2)] assms(5), of W] engine_ok_called[OF assms(1,3) _ assms(4)]
  by blast

text \<open>A loop keeps the invariant and the flags of the engine; \<open>P\<close> holds of the services done, \<open>Q\<close> of all.\<close>

definition loop_ok :: "service_description list \<Rightarrow> engine \<Rightarrow> (phase \<Rightarrow> bool) \<Rightarrow> (phase \<Rightarrow> bool) \<Rightarrow> bool \<times> engine \<Rightarrow> bool" where
  "loop_ok ds e P Q r \<longleftrightarrow> engine_ok ds (snd r) \<and> same_flags e (snd r) \<and> (\<forall>i<num e. Q (ph (snd r) i)) \<and>
     (fst r \<longrightarrow> (\<forall>i<num e. P (ph (snd r) i)))"

lemma each_loop:
  assumes "engine_ok ds e" and "\<forall>i<num e. Q (ph e i)"
    and "\<And>k e'. k < num e \<Longrightarrow> engine_ok ds e' \<Longrightarrow> same_flags e e' \<Longrightarrow> \<forall>i<num e. Q (ph e' i) \<Longrightarrow> \<forall>i<k. P (ph e' i) \<Longrightarrow>
      \<forall>i. k \<le> i \<longrightarrow> ph e' i = ph e i \<Longrightarrow>
      \<exists>b e''. h k e' = (b, e'') \<and> engine_ok ds e'' \<and> same_flags e' e'' \<and> (\<forall>i. i \<noteq> k \<longrightarrow> ph e'' i = ph e' i) \<and>
        Q (ph e'' k) \<and> (b \<longrightarrow> P (ph e'' k))"
  shows "loop_ok ds e P Q (each h (services e) e)"
proof -
  let ?C = "\<lambda>e'. engine_ok ds e' \<and> same_flags e e' \<and> (\<forall>i<num e. Q (ph e' i))"
  let ?I = "\<lambda>k e'. ?C e' \<and> (\<forall>i<k. P (ph e' i)) \<and> (\<forall>i. k \<le> i \<longrightarrow> ph e' i = ph e i)"
  let ?r = "each h (services e) e"
  have step: "num (snd (h k e')) = num e \<and> (if fst (h k e') then ?I (Suc k) (snd (h k e')) else ?C (snd (h k e')))"
    if k: "k < num e" "?I k e'" "num e' = num e" for k e'
  proof -
    from k(2) have c: "engine_ok ds e'" "same_flags e e'" "\<forall>i<num e. Q (ph e' i)" "\<forall>i<k. P (ph e' i)"
      "\<forall>i. k \<le> i \<longrightarrow> ph e' i = ph e i" by simp_all
    obtain b e'' where h: "h k e' = (b, e'')" "engine_ok ds e''" "same_flags e' e''"
      "\<forall>i. i \<noteq> k \<longrightarrow> ph e'' i = ph e' i" "Q (ph e'' k)" "b \<longrightarrow> P (ph e'' k)"
      using assms(3)[OF k(1) c] by (elim exE conjE)
    have s: "same_flags e e''" using c(2) h(3) by (rule same_flags_trans)
    have q: "\<forall>i<num e. Q (ph e'' i)"
    proof (intro allI impI)
      fix i assume "i < num e" then show "Q (ph e'' i)" using c(3) h(4,5) by (cases "i = k") simp_all
    qed
    have p: "\<forall>i<Suc k. P (ph e'' i)" if "b"
    proof (intro allI impI)
      fix i assume "i < Suc k" then show "P (ph e'' i)" using c(4) h(4,6) that by (cases "i = k") simp_all
    qed
    have r: "\<forall>i. Suc k \<le> i \<longrightarrow> ph e'' i = ph e i" using c(5) h(4) by simp
    have n: "num e'' = num e" using s by (simp add: same_flags_def)
    show ?thesis
    proof (cases b)
      case True
      show ?thesis unfolding h(1) fst_conv snd_conv if_P[OF True] by (intro conjI n h(2) s q p[OF True] r)
    next
      case False
      show ?thesis unfolding h(1) fst_conv snd_conv if_not_P[OF False] by (intro conjI n h(2) s q)
    qed
  qed
  have L: "(if fst ?r then ?I (num e) (snd ?r) else ?C (snd ?r)) \<and> num (snd ?r) = num e"
    by (rule each_rule[where I = ?I and F = ?C and n = "num e"]) (use assms(1,2) step in simp_all)
  show ?thesis
  proof (cases "fst (each h (services e) e)")
    case True
    from L[unfolded if_P[OF True]] show ?thesis
      unfolding loop_ok_def by (elim conjE, intro conjI impI) assumption+
  next
    case False
    from L[unfolded if_not_P[OF False]] False show ?thesis
      unfolding loop_ok_def by (elim conjE, intro conjI impI) (assumption | erule notE)+
  qed
qed

text \<open>One delegating handler for every service.\<close>

lemma delegate_loop:
  assumes "engine_ok ds e" and "\<forall>i<num e. Q (ph e i)"
    and "h \<notin> {Initialize, Start}" and "\<And>x. R x \<Longrightarrow> permits x h \<and> x \<noteq> Running"
    and "\<And>x. Q x \<Longrightarrow> R x" and "\<And>x b. R x \<Longrightarrow> Q (next_phase x h b) \<and> alive (next_phase x h b) \<and> next_phase x h b \<noteq> Running"
    and "\<And>x. R x \<Longrightarrow> P (next_phase x h True)"
  shows "loop_ok ds e P Q (each (delegate h W) (services e) e)"
proof (rule each_loop[OF assms(1,2)])
  fix k e'
  assume k: "k < num e" "engine_ok ds e'" "same_flags e e'" "\<forall>i<num e. Q (ph e' i)"
  then have n: "k < num e'" by (simp add: same_flags_def)
  have R: "R (ph e' k)" using assms(5) k(1,4) by blast
  then have "orderly (calls e') k h" using assms(3,4) by (simp add: orderly_def)
  from step_delegate[OF k(2) n this] assms(4,6)[OF R] obtain b e'' where
    d: "delegate h W k e' = (b, e'')" "called e' k h b e''" "engine_ok ds e''" by metis
  then show "\<exists>b e''. delegate h W k e' = (b, e'') \<and> engine_ok ds e'' \<and> same_flags e' e'' \<and>
      (\<forall>i. i \<noteq> k \<longrightarrow> ph e'' i = ph e' i) \<and> Q (ph e'' k) \<and> (b \<longrightarrow> P (ph e'' k))"
    using called_facts[OF d(2)] assms(6,7)[OF R] by auto
qed

lemma post_loop:
  assumes "engine_ok ds e" and "\<forall>i<num e. ph e i \<in> {Idle, Registered, Ready}"
  shows "loop_ok ds e (\<lambda>x. x = Registered) (\<lambda>x. x \<in> {Idle, Registered, Ready})
    (each (handlePostRegisterEngineEvent W) (services e) e)"
  unfolding handlePostRegisterEngineEvent_def
  by (rule delegate_loop[OF assms, where R = "\<lambda>x. x \<in> {Idle, Registered, Ready}"])
    (auto simp: permits_def next_phase_def alive_def)

lemma pre_loop:
  assumes "engine_ok ds e" and "\<forall>i<num e. ph e i = Idle"
  shows "loop_ok ds e (\<lambda>x. x = Idle) (\<lambda>x. x = Idle) (each (handlePreRegisterEngineEvent W) (services e) e)"
  unfolding handlePreRegisterEngineEvent_def
  by (rule delegate_loop[OF assms, where R = "\<lambda>x. x = Idle"]) (auto simp: permits_def next_phase_def alive_def)

lemma setup_loop:
  assumes "engine_ok ds e" and "\<forall>i<num e. ph e i = Registered"
  shows "loop_ok ds e (\<lambda>x. x = Ready) (\<lambda>x. x \<in> {Registered, Ready}) (each (handleSetupEngineEvent W) (services e) e)"
  unfolding handleSetupEngineEvent_def
proof (rule each_loop[OF assms(1)])
  show "\<forall>i<num e. ph e i \<in> {Registered, Ready}" using assms(2) by simp
  fix k e'
  assume k: "k < num e" "engine_ok ds e'" "same_flags e e'" "\<forall>i. k \<le> i \<longrightarrow> ph e' i = ph e i"
  then have n: "k < num e'" and p: "ph e' k = Registered" using assms(2) by (auto simp: same_flags_def)
  then have "orderly (calls e') k Setup" by (simp add: orderly_def permits_def)
  moreover have "alive (next_phase (ph e' k) Setup b)" "next_phase (ph e' k) Setup b \<noteq> Running" for b
    by (simp_all add: p next_phase_def alive_def)
  ultimately obtain b e'' where
    d: "delegate Setup W k e' = (b, e'')" "called e' k Setup b e''" "engine_ok ds e''"
    using step_delegate[OF k(2) n, of Setup W] p by auto
  then show "\<exists>b e''. delegate Setup W k e' = (b, e'') \<and> engine_ok ds e'' \<and> same_flags e' e'' \<and>
      (\<forall>i. i \<noteq> k \<longrightarrow> ph e'' i = ph e' i) \<and> ph e'' k \<in> {Registered, Ready} \<and> (b \<longrightarrow> ph e'' k = Ready)"
    using called_facts[OF d(2)] p by (auto simp: next_phase_def)
qed

lemma start_loop:
  assumes "engine_ok ds e" and "\<forall>i<num e. ph e i \<in> {Ready, Running}"
  shows "loop_ok ds e (\<lambda>x. x = Running) (\<lambda>x. x \<in> {Ready, Running}) (each (handleStartEngineEvent W) (services e) e)"
proof (rule each_loop[OF assms])
  fix k e'
  assume k: "k < num e" "engine_ok ds e'" "same_flags e e'" "\<forall>i<num e. ph e' i \<in> {Ready, Running}"
    "\<forall>i<k. ph e' i = Running"
  then have n: "k < num e'" by (simp add: same_flags_def)
  note fl = engine_okD(1)[OF k(2) n]
  show "\<exists>b e''. handleStartEngineEvent W k e' = (b, e'') \<and> engine_ok ds e'' \<and> same_flags e' e'' \<and>
      (\<forall>i. i \<noteq> k \<longrightarrow> ph e'' i = ph e' i) \<and> ph e'' k \<in> {Ready, Running} \<and> (b \<longrightarrow> ph e'' k = Running)"
  proof (cases "ph e' k = Running")
    case True
    with start_called(2)[OF fl n] k(2) show ?thesis by auto
  next
    case False
    then have ready: "ph e' k = Ready" using k(1,4) by auto
    then have "orderly (calls e') k Start" using k(5) by (simp add: orderly_def permits_def)
    moreover obtain b e'' where d: "handleStartEngineEvent W k e' = (b, e'')" "called e' k Start b e''"
      using start_called(1)[OF fl n ready] by blast
    ultimately have "engine_ok ds e''"
      by (intro engine_ok_called[OF k(2) _ d(2)]) (auto simp: ready next_phase_def alive_def)
    with d called_facts[OF d(2)] ready show ?thesis by (auto simp: next_phase_def)
  qed
qed

lemma stop_loop:
  assumes "engine_ok ds e" and "\<forall>i<num e. ph e i \<in> {Ready, Running}"
  shows "loop_ok ds e (\<lambda>x. x = Ready) (\<lambda>x. x \<in> {Ready, Running}) (each (handleStopEngineEvent W) (services e) e)"
proof (rule each_loop[OF assms])
  fix k e'
  assume k: "k < num e" "engine_ok ds e'" "same_flags e e'" "\<forall>i<num e. ph e' i \<in> {Ready, Running}"
  then have n: "k < num e'" by (simp add: same_flags_def)
  note fl = engine_okD(1)[OF k(2) n]
  show "\<exists>b e''. handleStopEngineEvent W k e' = (b, e'') \<and> engine_ok ds e'' \<and> same_flags e' e'' \<and>
      (\<forall>i. i \<noteq> k \<longrightarrow> ph e'' i = ph e' i) \<and> ph e'' k \<in> {Ready, Running} \<and> (b \<longrightarrow> ph e'' k = Ready)"
  proof (cases "ph e' k = Running")
    case False
    with stop_called(2)[OF fl n] k show ?thesis by auto
  next
    case True
    then have "orderly (calls e') k Stop" by (simp add: orderly_def permits_def)
    moreover obtain b e'' where d: "handleStopEngineEvent W k e' = (b, e'')" "called e' k Stop b e''"
      using stop_called(1)[OF fl n True] by blast
    ultimately have "engine_ok ds e''"
      by (intro engine_ok_called[OF k(2) _ d(2)]) (auto simp: True next_phase_def alive_def)
    with d called_facts[OF d(2)] True show ?thesis by (auto simp: next_phase_def)
  qed
qed

subsection \<open>Calls that change no phase\<close>

definition quiet :: "service_description list \<Rightarrow> engine \<Rightarrow> engine \<Rightarrow> bool" where
  "quiet ds e e' \<longleftrightarrow> engine_ok ds e' \<and> same_flags e e' \<and> (\<forall>i. ph e' i = ph e i)"

lemma quiet_refl: "engine_ok ds e \<Longrightarrow> quiet ds e e"
  by (simp add: quiet_def)

lemma quiet_trans: "quiet ds a b \<Longrightarrow> quiet ds b c \<Longrightarrow> quiet ds a c"
  by (auto simp: quiet_def intro: same_flags_trans)

lemma quiet_setup_ok: "quiet ds e e' \<Longrightarrow> setup_ok e \<Longrightarrow> setup_ok e'"
  unfolding quiet_def setup_ok_def same_flags_def by (elim conjE) (simp split: if_splits)

definition is_quiet :: "hook \<Rightarrow> bool" where
  "is_quiet h \<longleftrightarrow> (\<forall>x b. next_phase x h b = x) \<and> h \<notin> {Initialize, Start}"

lemma is_quiet_simps [simp]:
  "is_quiet (Configure s)" "is_quiet PreRegister" "is_quiet (RegisterPlatformInterface p)"
  "is_quiet (SetProperty k v)" "is_quiet (GetProperty k)"
  by (simp_all add: is_quiet_def next_phase_def)

lemma recorded_quiet:
  assumes "engine_ok ds e" and "i < num e" and "permits (ph e i) h" and "is_quiet h"
  shows "quiet ds e (e\<lparr>calls := calls e @ [(i, h, b)]\<rparr>)"
  using assms by (auto simp: quiet_def engine_ok_def orderly_def is_quiet_def flags_ok_def same_flags_def)

lemma ask_quiet:
  assumes "engine_ok ds e" and "i < num e" and "permits (ph e i) h" and "is_quiet h"
  shows "quiet ds e (snd (ask W i h e))"
  using recorded_quiet[OF assms] by (simp add: ask_def Let_def)

lemma first_success_quiet:
  assumes "engine_ok ds e" and "is_quiet h" and "\<forall>i\<in>set xs. i < num e \<and> permits (ph e i) h"
  shows "quiet ds e (snd (first_success (\<lambda>i. ask W i h) xs e))"
  using assms(1,3)
proof (induction xs arbitrary: e)
  case (Cons i xs)
  obtain b e' where a: "ask W i h e = (b, e')" by (cases "ask W i h e")
  have q: "quiet ds e e'" using ask_quiet[OF Cons.prems(1) _ _ assms(2), of i W] Cons.prems(2) a by simp
  then have "quiet ds e' (snd (first_success (\<lambda>i. ask W i h) xs e'))"
    using Cons.prems(2) by (intro Cons.IH) (auto simp: quiet_def same_flags_def)
  with q a quiet_trans[OF q] show ?case by simp
qed (simp add: quiet_refl)

lemma first_property_quiet:
  assumes "engine_ok ds e" and "\<forall>i\<in>set xs. i < num e"
  shows "quiet ds e (snd (first_property W key xs e))"
  using assms
proof (induction xs arbitrary: e)
  case (Cons i xs)
  obtain r e' where a: "ask_property W i key e = (r, e')" by (cases "ask_property W i key e")
  have "permits (ph e i) (GetProperty key)"
    using engine_okD(2)[OF Cons.prems(1)] Cons.prems(2) by (simp add: permits_def)
  then have q: "quiet ds e e'" using recorded_quiet[OF Cons.prems(1)] Cons.prems(2) a
    by (auto simp: ask_property_def Let_def)
  then have "quiet ds e' (snd (first_property W key xs e'))"
    using Cons.prems(2) by (intro Cons.IH) (auto simp: quiet_def same_flags_def)
  with q a quiet_trans[OF q] show ?case by simp
qed (simp add: quiet_refl)

lemma fold_quiet:
  assumes "engine_ok ds e" and "\<forall>i<num e. ph e i = Idle" and "\<forall>i\<in>set xs. i < num e"
  shows "quiet ds e (fold (configure_service W root) xs e)"
  using assms
proof (induction xs arbitrary: e)
  case (Cons i xs)
  have "quiet ds e (configure_service W root i e)"
    using ask_quiet[OF Cons.prems(1)] Cons.prems engine_okD(1)[OF Cons.prems(1), of i] quiet_refl[OF Cons.prems(1)]
    by (auto simp: configure_service_def handleConfigureEngineEvent_def delegate_def flags_ok_def permits_def
        split: option.splits)
  moreover from this have "quiet ds (configure_service W root i e) (fold (configure_service W root) xs (configure_service W root i e))"
    using Cons.prems by (intro Cons.IH) (auto simp: quiet_def same_flags_def)
  ultimately show ?case by (simp add: quiet_trans)
qed (simp add: quiet_refl)

subsection \<open>The requests\<close>

definition keeping :: "service_description list \<Rightarrow> engine \<Rightarrow> bool" where
  "keeping ds e \<longleftrightarrow> engine_ok ds e \<and> setup_ok e"

lemma configure_keeps:
  assumes "keeping ds e"
  shows "keeping ds (snd (engine_configure W cs e))"
proof (cases "\<not> m_initialized e \<or> m_running e \<or> m_configured e \<or> cs = [] \<or> merge_configurations W cs [] = None")
  case True
  with assms show ?thesis by (auto simp: engine_configure_def)
next
  case False
  then obtain root where r: "merge_configurations W cs [] = Some root" by auto
  have idle: "\<forall>i<num e. ph e i = Idle" and e: "engine_ok ds e"
    using False assms by (auto simp: keeping_def setup_ok_def split: if_splits)
  let ?f = "fold (configure_service W root) (services e) e"
  have q: "quiet ds e ?f" by (rule fold_quiet[OF e idle]) (simp add: services_def)
  let ?e = "?f\<lparr>m_configured := True\<rparr>"
  have c: "engine_ok ds ?e" "\<forall>i<num ?e. ph ?e i = Idle"
    using q idle by (auto simp: quiet_def engine_ok_def flags_ok_def same_flags_def)
  obtain ok e' where r1: "each (handlePreRegisterEngineEvent W) (services ?e) ?e = (ok, e')"
    by (cases "each (handlePreRegisterEngineEvent W) (services ?e) ?e")
  have "snd (engine_configure W cs e) = e'"
    using False r by (simp add: engine_configure_def Let_def r1)
  moreover have "engine_ok ds e'" "same_flags ?e e'" "\<forall>i<num ?e. ph e' i = Idle"
    using pre_loop[OF c, of W] by (simp_all add: loop_ok_def r1)
  moreover have "m_initialized e" "\<not> m_setup e" "\<not> m_running e"
    using False assms by (auto simp: keeping_def setup_ok_def split: if_splits)
  ultimately show ?thesis
    using q by (simp add: keeping_def setup_ok_def quiet_def same_flags_def)
qed

lemma register_keeps:
  assumes "keeping ds e"
  shows "keeping ds (snd (registerPlatformInterface W p e))"
proof (cases "\<not> m_configured e \<or> m_setup e \<or> p = None")
  case True
  with assms show ?thesis by (auto simp: registerPlatformInterface_def)
next
  case False
  then obtain q where p: "p = Some q" by auto
  have "\<forall>i\<in>set (services e). i < num e \<and> permits (ph e i) (RegisterPlatformInterface q)"
    using False assms by (auto simp: keeping_def setup_ok_def permits_def services_def)
  moreover have "engine_ok ds e" using assms by (simp add: keeping_def)
  ultimately have "quiet ds e (snd (first_success (\<lambda>i. ask W i (RegisterPlatformInterface q)) (services e) e))"
    by (intro first_success_quiet) simp_all
  moreover have "handleRegisterPlatformInterfaceEngineEvent q W = (\<lambda>i. ask W i (RegisterPlatformInterface q))"
    by (simp add: fun_eq_iff handleRegisterPlatformInterfaceEngineEvent_def)
  ultimately show ?thesis using False p assms quiet_setup_ok[of ds e]
    by (auto simp: registerPlatformInterface_def keeping_def quiet_def)
qed

lemma registers_keep:
  assumes "keeping ds e"
  shows "keeping ds (snd (registerPlatformInterfaces W ps e))"
proof -
  have "keeping ds (snd (each (registerPlatformInterface W) ps e))"
    using assms
  proof (induction ps arbitrary: e)
    case (Cons p ps)
    from register_keeps[OF Cons.prems, of W p] Cons.IH show ?case
      by (cases "registerPlatformInterface W p e") auto
  qed simp
  with assms show ?thesis by (simp add: registerPlatformInterfaces_def)
qed

lemma property_keeps:
  assumes "keeping ds e"
  shows "keeping ds (snd (setProperty W k v e))" and "keeping ds (snd (getProperty W k e))"
proof -
  have e: "engine_ok ds e" using assms by (simp add: keeping_def)
  have keep: "keeping ds e'" if "quiet ds e e'" for e'
    using that assms quiet_setup_ok by (auto simp: keeping_def quiet_def)
  have al: "permits (ph e i) (SetProperty k v)" "permits (ph e i) (GetProperty k)" if "i < num e" for i
    using engine_okD(2)[OF e that] by (simp_all add: permits_def)
  have found: "i < num e" if "getServiceFromPropertyKey k e = Some i" for i
    using that by (auto simp: getServiceFromPropertyKey_def find_Some_iff services_def)
  have "quiet ds e (snd (first_success (\<lambda>i. ask W i (SetProperty k v)) (services e) e))"
    using al by (intro first_success_quiet[OF e]) (auto simp: services_def)
  then show "keeping ds (snd (setProperty W k v e))"
    using assms keep ask_quiet[OF e _ al(1)] found by (auto simp: setProperty_def split: option.splits)
  have "quiet ds e (snd (first_property W k (services e) e))"
    by (rule first_property_quiet[OF e]) (simp add: services_def)
  then show "keeping ds (snd (getProperty W k e))"
    using assms keep recorded_quiet[OF e _ al(2)] found
    by (auto simp: getProperty_def ask_property_def Let_def split: option.splits)
qed

lemma setup_services_ok:
  assumes "engine_ok ds e" and "\<forall>i<num e. ph e i \<in> {Idle, Registered, Ready}" and "setup_services W e = (ok, e')"
  shows "engine_ok ds e' \<and> same_flags (e\<lparr>m_setup := m_setup e'\<rparr>) e' \<and>
    (if ok then m_setup e' \<and> (\<forall>i<num e. ph e' i = Ready)
     else m_setup e' = m_setup e \<and> (\<forall>i<num e. ph e' i \<in> {Idle, Registered, Ready}))"
proof -
  obtain ok1 e1 where r1: "each (handlePostRegisterEngineEvent W) (services e) e = (ok1, e1)"
    by (cases "each (handlePostRegisterEngineEvent W) (services e) e")
  note l1 = post_loop[OF assms(1,2), of W, unfolded r1]
  show ?thesis
  proof (cases ok1)
    case False
    with assms(3) l1 show ?thesis by (auto simp: setup_services_def r1 loop_ok_def same_flags_def)
  next
    case True
    then have c: "engine_ok ds e1" "\<forall>i<num e1. ph e1 i = Registered" "same_flags e e1"
      using l1 by (auto simp: loop_ok_def same_flags_def)
    obtain ok2 e2 where r2: "each (handleSetupEngineEvent W) (services e1) e1 = (ok2, e2)"
      by (cases "each (handleSetupEngineEvent W) (services e1) e1")
    note l2 = setup_loop[OF c(1,2), of W, unfolded r2]
    show ?thesis
    proof (cases ok2)
      case False
      with True assms(3) l2 c(3) show ?thesis
        by (auto simp: setup_services_def r1 r2 loop_ok_def same_flags_def)
    next
      case ok2: True
      then have e': "ok" "e' = e2\<lparr>m_setup := True\<rparr>"
        using True assms(3) by (simp_all add: setup_services_def r1 r2)
      from l2 ok2 have "engine_ok ds e2" "same_flags e1 e2" "\<forall>i<num e1. ph e2 i = Ready"
        by (simp_all add: loop_ok_def)
      with c(3) show ?thesis
        unfolding e'(2) by (simp add: e'(1) same_flags_def engine_ok_def flags_ok_def)
    qed
  qed
qed

end
