(* ===== verification/Engine_Life.thy ===== *)
theory Engine_Life
  imports Engine_Protocol
begin

text \<open>
  The requests that start, stop and shut down, creation, and the theorems about every sequence of requests:
  the protocol of the services is kept, in the order of their dependencies; and what a failed start or a
  failed creation leaves behind.
\<close>

subsection \<open>Start, stop and shutdown\<close>

lemma start_keeps:
  assumes "keeping ds e"
  shows "keeping ds (snd (engine_start W e))"
proof (cases "m_running e \<or> \<not> m_initialized e \<or> \<not> m_configured e")
  case True
  with assms show ?thesis by (auto simp: engine_start_def)
next
  case False
  have e: "engine_ok ds e" using assms by (simp add: keeping_def)
  obtain ok1 e1 where r1: "(if \<not> m_setup e then setup_services W e else (True, e)) = (ok1, e1)"
    by (cases "if \<not> m_setup e then setup_services W e else (True, e)")
  have c: "engine_ok ds e1 \<and> same_flags (e\<lparr>m_setup := m_setup e1\<rparr>) e1 \<and>
    (if ok1 then m_setup e1 \<and> (\<forall>i<num e. ph e1 i \<in> {Ready, Running})
     else \<not> m_setup e1 \<and> (\<forall>i<num e. ph e1 i \<in> {Idle, Registered, Ready}))"
  proof (cases "m_setup e")
    case True
    with r1 e assms False show ?thesis by (auto simp: keeping_def setup_ok_def same_flags_def)
  next
    case nset: False
    then have "\<forall>i<num e. ph e i \<in> {Idle, Registered, Ready}"
      using assms False by (simp add: keeping_def setup_ok_def)
    from setup_services_ok[OF e this, of W ok1 e1] r1 nset show ?thesis by (auto split: if_splits)
  qed
  show ?thesis
  proof (cases ok1)
    case ok: False
    then have "snd (engine_start W e) = e1" using False r1 by (simp add: engine_start_def Let_def)
    with ok c False assms show ?thesis by (auto simp: keeping_def setup_ok_def same_flags_def)
  next
    case True
    then have p: "\<forall>i<num e1. ph e1 i \<in> {Ready, Running}" using c by (simp add: same_flags_def)
    obtain ok2 e2 where r2: "each (handleStartEngineEvent W) (services e1) e1 = (ok2, e2)"
      by (cases "each (handleStartEngineEvent W) (services e1) e1")
    have l: "engine_ok ds e2" "same_flags e1 e2" "\<forall>i<num e1. ph e2 i \<in> {Ready, Running}"
      using start_loop[OF _ p, of ds W] c by (simp_all add: loop_ok_def r2)
    have "snd (engine_start W e) = (if ok2 then e2\<lparr>m_running := True\<rparr> else e2)"
      using False r1 True r2 by (simp add: engine_start_def Let_def)
    with l c True False assms show ?thesis
      by (auto simp: keeping_def setup_ok_def same_flags_def engine_ok_def flags_ok_def)
  qed
qed

lemma stop_keeps:
  assumes "keeping ds e"
  shows "keeping ds (snd (engine_stop W e))"
proof (cases "m_running e")
  case False
  with assms show ?thesis by (simp add: engine_stop_def)
next
  case True
  have e: "engine_ok ds e" and p: "\<forall>i<num e. ph e i \<in> {Ready, Running}" "m_setup e" "m_configured e" "m_initialized e"
    using assms True by (auto simp: keeping_def setup_ok_def split: if_splits)
  obtain ok e' where r: "each (handleStopEngineEvent W) (services e) e = (ok, e')"
    by (cases "each (handleStopEngineEvent W) (services e) e")
  have l: "engine_ok ds e'" "same_flags e e'" "\<forall>i<num e. ph e' i \<in> {Ready, Running}"
    using stop_loop[OF e p(1), of W] by (simp_all add: loop_ok_def r)
  have "snd (engine_stop W e) = (if ok then e'\<lparr>m_running := False\<rparr> else e')"
    using True r by (simp add: engine_stop_def Let_def)
  with l p show ?thesis by (auto simp: keeping_def setup_ok_def same_flags_def engine_ok_def flags_ok_def)
qed

text \<open>
  The last call of a service. A service is let go when this was \<open>Shutdown\<close>, whatever it answered, or a \<open>Stop\<close>
  that it refused; it may then still be initialized, or running.
\<close>

definition last_call :: "service_call list \<Rightarrow> nat \<Rightarrow> (hook \<times> bool) option" where
  "last_call c i = foldl (\<lambda>l (k, h, b). if k = i then Some (h, b) else l) None c"

definition let_go :: "service_call list \<Rightarrow> nat \<Rightarrow> bool" where
  "let_go c i \<longleftrightarrow> (case last_call c i of Some (h, b) \<Rightarrow> h = Shutdown \<or> h = Stop \<and> \<not> b | None \<Rightarrow> False)"

lemma last_call_snoc [simp]:
  "last_call (c @ [(k, h, b)]) i = (if k = i then Some (h, b) else last_call c i)"
  by (simp add: last_call_def)

text \<open>Shutting one service down.\<close>

definition shut_ok :: "engine \<Rightarrow> nat \<Rightarrow> engine \<Rightarrow> bool" where
  "shut_ok e i e' \<longleftrightarrow> orderly_calls (calls e') \<and> num e' = num e \<and>
     (\<forall>k<num e. k \<noteq> i \<longrightarrow> svc e' k = svc e k) \<and> (\<forall>k. k \<noteq> i \<longrightarrow> ph e' k = ph e k \<and> last_call (calls e') k = last_call (calls e) k) \<and>
     m_running e' = m_running e \<and> m_setup e' = m_setup e"

definition ask_shutdown :: "engine_world \<Rightarrow> nat \<Rightarrow> engine \<Rightarrow> bool \<times> engine" where
  "ask_shutdown W i e = (let (ok, e) = ask W i Shutdown e in
     if ok then (True, upd i (\<lambda>s. s\<lparr>s_initialized := False, s_context := False\<rparr>) e) else (False, e))"

lemma ask_shutdown_ok:
  assumes "orderly_calls (calls e)" and "alive (ph e i)" and "i < num e" and "ph e i \<noteq> Running"
  shows "shut_ok e i (snd (ask_shutdown W i e)) \<and> let_go (calls (snd (ask_shutdown W i e))) i"
proof -
  obtain b e' where a: "ask W i Shutdown e = (b, e')" by (cases "ask W i Shutdown e")
  have "permits (ph e i) Shutdown" using assms(2,4) by (cases "ph e i") (auto simp: permits_def alive_def)
  then have "orderly (calls e) i Shutdown" by (simp add: orderly_def)
  with assms show ?thesis
    by (auto simp: ask_shutdown_def a shut_ok_def ask_simps[OF a] svc_upd next_phase_def let_go_def)
qed

lemma shutdown_one:
  assumes "orderly_calls (calls e)" and "flags_ok e i" and "i < num e"
  shows "shut_ok e i (snd (handleShutdownEngineEvent W i e)) \<and>
    let_go (calls (snd (handleShutdownEngineEvent W i e))) i"
proof (cases "ph e i = Running")
  case False
  then have "handleShutdownEngineEvent W i e = ask_shutdown W i e"
    using assms(2) by (simp add: handleShutdownEngineEvent_def ask_shutdown_def flags_ok_def)
  with ask_shutdown_ok[OF assms(1) _ assms(3) False, of W] assms(2) show ?thesis by (simp add: flags_ok_def)
next
  case True
  obtain b e' where a: "ask W i Stop e = (b, e')" by (cases "ask W i Stop e")
  have o: "orderly_calls (calls e')"
    using assms(1) True by (simp add: ask_simps[OF a] orderly_def permits_def)
  show ?thesis
  proof (cases b)
    case False
    have "snd (handleShutdownEngineEvent W i e) = e'"
      using False a assms(2) True by (simp add: handleShutdownEngineEvent_def flags_ok_def)
    then show ?thesis
      using o True False by (auto simp: shut_ok_def ask_simps[OF a] next_phase_def let_go_def)
  next
    case b: True
    then have h: "handleShutdownEngineEvent W i e = ask_shutdown W i e'"
      using a assms(2) True by (simp add: handleShutdownEngineEvent_def ask_shutdown_def flags_ok_def)
    have "ph e' i = Ready" using True b by (simp add: ask_simps[OF a] next_phase_def)
    then have "shut_ok e' i (snd (ask_shutdown W i e')) \<and> let_go (calls (snd (ask_shutdown W i e'))) i"
      using o assms(3) by (intro ask_shutdown_ok) (simp_all add: ask_simps[OF a] alive_def)
    moreover have "shut_ok e i e'" using o by (auto simp: shut_ok_def ask_simps[OF a])
    ultimately show ?thesis unfolding h by (auto simp: shut_ok_def)
  qed
qed

lemma shutdown_loop:
  assumes "orderly_calls (calls e)" and "\<forall>i<num e. flags_ok e i" and "n \<le> num e"
  shows "let e' = fold (\<lambda>i e. snd (handleShutdownEngineEvent W i e)) [0..<n] e in
    orderly_calls (calls e') \<and> num e' = num e \<and> (\<forall>i<num e. n \<le> i \<longrightarrow> flags_ok e' i) \<and>
    (\<forall>i<n. let_go (calls e') i)"
  using assms(3)
proof (induction n)
  case 0
  with assms show ?case by simp
next
  case (Suc n)
  define e' where "e' = fold (\<lambda>i e. snd (handleShutdownEngineEvent W i e)) [0..<n] e"
  have c: "orderly_calls (calls e')" "num e' = num e" "\<forall>i<num e. n \<le> i \<longrightarrow> flags_ok e' i"
    "\<forall>i<n. let_go (calls e') i"
    using Suc unfolding e'_def by (simp_all add: Let_def)
  have s: "shut_ok e' n (snd (handleShutdownEngineEvent W n e')) \<and>
    let_go (calls (snd (handleShutdownEngineEvent W n e'))) n"
    using c Suc.prems by (intro shutdown_one) auto
  have "fold (\<lambda>i e. snd (handleShutdownEngineEvent W i e)) [0..<Suc n] e = snd (handleShutdownEngineEvent W n e')"
    by (simp add: e'_def)
  then show ?case
    using c s by (auto simp: shut_ok_def flags_ok_def let_go_def less_Suc_eq Let_def)
qed

lemma shutdown_closes:
  assumes "keeping ds e"
  shows "closed (snd (engine_shutdown W e))"
    and "i < num e \<Longrightarrow> let_go (calls (snd (engine_shutdown W e))) i"
proof -
  let ?s = "snd (engine_stop W e)"
  have k: "keeping ds ?s" by (rule stop_keeps[OF assms])
  then have c: "orderly_calls (calls ?s)" "\<forall>i<num ?s. flags_ok ?s i" by (auto simp: keeping_def engine_ok_def)
  have n: "num ?s = num e"
    using k assms unfolding keeping_def engine_ok_def by (metis length_map)
  define e' where "e' = fold (\<lambda>i e. snd (handleShutdownEngineEvent W i e)) (services ?s) ?s"
  note l = shutdown_loop[OF c le_refl, of W, folded services_def e'_def, unfolded Let_def]
  have "snd (engine_shutdown W e) = e'\<lparr>m_orderedServiceList := [], m_registeredServiceMap := Map.empty,
      m_initialized := False, m_configured := False\<rparr>"
    using assms by (simp add: engine_shutdown_def keeping_def setup_ok_def Let_def e'_def)
  with l n show "closed (snd (engine_shutdown W e))"
    and "i < num e \<Longrightarrow> let_go (calls (snd (engine_shutdown W e))) i"
    by (simp_all add: closed_def e'_def)
qed

subsection \<open>Creation\<close>

lemma instantiate_spec:
  assumes "instantiate fs e = (True, e')"
  shows "\<exists>ds. map newInstance fs = map Some ds \<and>
    m_orderedServiceList e' = m_orderedServiceList e @ map new_service ds \<and> calls e' = calls e \<and>
    m_running e' = m_running e \<and> m_setup e' = m_setup e \<and> m_configured e' = m_configured e \<and>
    m_initialized e' = m_initialized e"
  using assms
proof (induction fs arbitrary: e)
  case (Cons f fs)
  then obtain d where "newInstance f = Some d" by (auto split: option.splits)
  with Cons obtain ds where "map newInstance fs = map Some ds"
    "m_orderedServiceList e' = (m_orderedServiceList e @ [new_service d]) @ map new_service ds" "calls e' = calls e"
    "m_running e' = m_running e" "m_setup e' = m_setup e" "m_configured e' = m_configured e"
    "m_initialized e' = m_initialized e"
    by fastforce
  with \<open>newInstance f = Some d\<close> show ?case by (intro exI[of _ "d # ds"]) simp
qed simp

text \<open>The first \<open>k\<close> services are initialized, the others untouched.\<close>

definition init_ok :: "service_description list \<Rightarrow> nat \<Rightarrow> engine \<Rightarrow> bool" where
  "init_ok ds k e \<longleftrightarrow> orderly_calls (calls e) \<and> map s_description (m_orderedServiceList e) = ds \<and>
     (\<forall>i<k. flags_ok e i \<and> ph e i = Idle) \<and>
     (\<forall>i<num e. k \<le> i \<longrightarrow> ph e i = Fresh \<and> \<not> s_initialized (svc e i) \<and> \<not> s_running (svc e i)) \<and>
     \<not> m_running e \<and> \<not> m_setup e \<and> \<not> m_configured e \<and> \<not> m_initialized e"

lemma init_step:
  assumes "init_ok ds k e" and "k < num e"
  shows "num (snd (handleInitializeEngineEvent W k e)) = num e \<and>
    (if fst (handleInitializeEngineEvent W k e) then init_ok ds (Suc k) (snd (handleInitializeEngineEvent W k e)) else True)"
proof -
  let ?e = "upd k (s_context_update (\<lambda>_. True)) e"
  obtain b e' where a: "ask W k Initialize ?e = (b, e')" by (cases "ask W k Initialize ?e")
  have n: "k < num e'" using assms(2) ask_simps[OF a] by simp
  have f: "\<not> s_initialized (svc e k)" "ph e k = Fresh" using assms by (auto simp: init_ok_def)
  have "orderly_calls (calls e')"
    using assms f by (auto simp: ask_simps[OF a] init_ok_def orderly_def permits_def)
  moreover have "map s_description (m_orderedServiceList (upd k f e')) = ds" if "\<And>s. s_description (f s) = s_description s" for f
    using that n assms by (simp add: descriptions_upd ask_simps[OF a] init_ok_def)
  ultimately show ?thesis
    using assms f a n
    by (auto simp: handleInitializeEngineEvent_def init_ok_def ask_simps[OF a] svc_upd flags_ok_def next_phase_def
        alive_def less_Suc_eq)
qed

lemma initialize_keeping:
  assumes "distinct (map ftype registry)" and "\<forall>f\<in>set registry. newInstance f = Some (m_description f)"
    and "initialize_engine W registry new_engine = (True, e)"
  shows "\<exists>os. order_services registry = Inr os \<and> keeping (map m_description os) e \<and> \<not> m_running e \<and> \<not> m_configured e"
proof -
  obtain e1 where c: "checkServices registry new_engine = (True, e1)"
    using assms(3) by (auto simp: initialize_engine_def Let_def split: if_splits prod.splits)
  then obtain os where os: "order_services registry = Inr os" "instantiate os new_engine = (True, e1)"
    by (auto simp: checkServices_def split: sum.splits)
  from instantiate_spec[OF os(2)] obtain ds where ds: "map newInstance os = map Some ds"
    "m_orderedServiceList e1 = map new_service ds" "calls e1 = []" "\<not> m_running e1" "\<not> m_setup e1"
    "\<not> m_configured e1" "\<not> m_initialized e1"
    by (auto simp: new_engine_def)
  have "map newInstance os = map (Some \<circ> m_description) os"
    using assms(2) order_services_Inr(3)[OF assms(1) os(1)] by simp
  then have dd: "ds = map m_description os" using ds(1) by (simp flip: map_map)
  have "init_ok ds 0 e1" using ds by (simp add: init_ok_def new_service_def comp_def)
  let ?r = "each (handleInitializeEngineEvent W) (services e1) e1"
  have "(if fst ?r then init_ok ds (num e1) (snd ?r) else True) \<and> num (snd ?r) = num e1"
    by (rule each_rule[where I = "init_ok ds" and F = "\<lambda>_. True" and n = "num e1"])
      (use \<open>init_ok ds 0 e1\<close> init_step in auto)
  moreover have "fst ?r" "e = (snd ?r)\<lparr>m_initialized := True\<rparr>"
    using assms(3) c by (auto simp: initialize_engine_def Let_def new_engine_def split: if_splits prod.splits)
  ultimately have "init_ok ds (num e1) (snd ?r)" "num (snd ?r) = num e1" by simp_all
  then have "keeping ds e \<and> \<not> m_running e \<and> \<not> m_configured e"
    unfolding \<open>e = _\<close> keeping_def engine_ok_def setup_ok_def init_ok_def flags_ok_def by (simp add: alive_def)
  with os(1) dd show ?thesis by auto
qed

subsection \<open>Every sequence of requests\<close>

text \<open>\<open>m_orderedServiceList\<close> is empty after a shutdown, and then nothing is called any more.\<close>

definition shut_down :: "nat \<Rightarrow> engine \<Rightarrow> bool" where
  "shut_down n e \<longleftrightarrow> closed e \<and>
     (\<forall>i<n. let_go (calls e) i)"

definition served :: "service_description list \<Rightarrow> engine \<Rightarrow> bool" where
  "served ds e \<longleftrightarrow> keeping ds e \<or> shut_down (length ds) e"

lemma closed_serve:
  assumes "closed e"
  shows "closed (serve W r e) \<and> calls (serve W r e) = calls e"
proof -
  have s: "services e = []" "m_orderedServiceList e = []" "\<not> m_initialized e" "\<not> m_configured e"
    using assms by (auto simp: closed_def services_def)
  have "registerPlatformInterface W p e = (False, e)" for p
    using s by (simp add: registerPlatformInterface_def)
  then have "each (registerPlatformInterface W) ps e = (ps = [], e)" for ps by (cases ps) auto
  with s assms show ?thesis
    by (cases r)
      (auto simp: serve_def engine_configure_def configure_one_def registerPlatformInterface_def registerPlatformInterfaces_def
        engine_start_def engine_stop_def engine_shutdown_def setProperty_def getProperty_def getServiceFromPropertyKey_def Let_def closed_def)
qed

lemma keeping_num: "keeping ds e \<Longrightarrow> num e = length ds"
  unfolding keeping_def engine_ok_def by (metis length_map)

lemma serve_served:
  assumes "served ds e"
  shows "served ds (serve W r e)"
  using assms unfolding served_def
proof (elim disjE)
  assume "shut_down (length ds) e"
  then show "keeping ds (serve W r e) \<or> shut_down (length ds) (serve W r e)"
    using closed_serve[of e W r] by (simp add: shut_down_def)
next
  assume k: "keeping ds e"
  have one: "keeping ds (snd (configure_one W c e))" for c
    using k configure_keeps[OF k] by (simp add: configure_one_def)
  have "shut_down (length ds) (snd (engine_shutdown W e))"
    using shutdown_closes[OF k, where W = W] keeping_num[OF k] by (simp add: shut_down_def)
  then show "keeping ds (serve W r e) \<or> shut_down (length ds) (serve W r e)"
    using one configure_keeps[OF k] register_keeps[OF k] registers_keep[OF k] start_keeps[OF k] stop_keeps[OF k]
      property_keeps[OF k] by (cases r) (simp_all add: serve_def)
qed

lemma run_served: "served ds e \<Longrightarrow> served ds (fold (serve W) rs e)"
  by (induction rs arbitrary: e) (simp_all add: serve_served)

text \<open>What a registry has to be: distinct types, and constructors that keep the description.\<close>

definition proper_registry :: "service_factory list \<Rightarrow> bool" where
  "proper_registry registry \<longleftrightarrow> distinct (map ftype registry) \<and>
     (\<forall>f\<in>set registry. newInstance f = Some (m_description f))"

lemma created:
  assumes "proper_registry registry" and "create_engine W registry = (Some e0, c)"
  shows "\<exists>os. order_services registry = Inr os \<and> keeping (map m_description os) e0 \<and> dependency_ordered os \<and>
    served (map m_description os) (fold (serve W) rs e0)"
proof -
  have "initialize_engine W registry new_engine = (True, e0)"
    using assms(2) by (auto simp: create_engine_def Let_def split: prod.splits if_splits)
  from initialize_keeping[OF _ _ this] assms(1) obtain os where
    os: "order_services registry = Inr os" "keeping (map m_description os) e0" by (auto simp: proper_registry_def)
  moreover have "dependency_ordered os"
    using order_services_Inr(2)[OF _ os(1)] assms(1) by (simp add: proper_registry_def)
  moreover have "served (map m_description os) (fold (serve W) rs e0)"
    by (rule run_served) (use os(2) in \<open>simp add: served_def\<close>)
  ultimately show ?thesis by blast
qed

lemma served_orderly: "served ds e \<Longrightarrow> orderly_calls (calls e)"
  by (auto simp: served_def keeping_def engine_ok_def shut_down_def closed_def)

text \<open>Some service in front of number \<open>i\<close> satisfies the dependency \<open>d\<close> and is in the phase \<open>x\<close>.\<close>

definition backed :: "engine \<Rightarrow> service_call list \<Rightarrow> nat \<Rightarrow> phase \<Rightarrow> service_description \<Rightarrow> bool" where
  "backed e c i x d \<longleftrightarrow> (\<exists>k<i. getType (s_description (svc e k)) = getType d \<and>
     \<not> version_less (getVersion (s_description (svc e k))) (getVersion d) \<and> phase_after c k = x)"

text \<open>
  C5: whatever requests the platform makes and whatever the services answer, each service is called only as its
  phase permits (started only after it was initialized, registered and set up, stopped only while it runs, never
  called after its shutdown), and it is initialized and started only when, for each dependency, a service in
  front of it satisfies the dependency and is initialized, or running.
\<close>
theorem engine_drives_services_in_order:
  assumes "proper_registry registry" and "create_engine W registry = (Some e0, c)"
  shows "\<forall>pre i h b suf. i < num e0 \<longrightarrow> calls (fold (serve W) rs e0) = pre @ (i, h, b) # suf \<longrightarrow>
    permits (phase_after pre i) h \<and>
    (h = Initialize \<longrightarrow> (\<forall>d\<in>set (getDependencies (s_description (svc e0 i))). backed e0 pre i Idle d)) \<and>
    (h = Start \<longrightarrow> (\<forall>d\<in>set (getDependencies (s_description (svc e0 i))). backed e0 pre i Running d))"
proof (intro allI impI)
  fix pre i h b suf
  assume i: "i < num e0" and c: "calls (fold (serve W) rs e0) = pre @ (i, h, b) # suf"
  obtain os where os: "keeping (map m_description os) e0" "dependency_ordered os"
    "served (map m_description os) (fold (serve W) rs e0)"
    using created[OF assms, of rs] by blast
  have o: "orderly pre i h"
    using served_orderly[OF os(3)] c unfolding orderly_calls_def by blast
  have desc: "s_description (svc e0 k) = m_description (os ! k)" if "k < num e0" for k
    using os(1) that keeping_num[OF os(1)] unfolding keeping_def engine_ok_def by (metis length_map nth_map)
  have n: "i < length os" using i keeping_num[OF os(1)] by simp
  have "os = take i os @ os ! i # drop (Suc i) os" using n by (rule id_take_nth_drop)
  with os(2) have prov: "provided (take i os) (os ! i)" unfolding dependency_ordered_def by blast
  have "backed e0 pre i x d" if d: "d \<in> set (getDependencies (s_description (svc e0 i)))"
    and x: "\<forall>k<i. phase_after pre k = x" for d x
  proof -
    obtain g where "g \<in> set (take i os)" "satisfies d g"
      using prov d desc[OF i] by (auto simp: provided_def)
    then obtain k where "k < i" "os ! k = g" using n by (auto simp: in_set_conv_nth)
    with \<open>satisfies d g\<close> x desc[of k] i show ?thesis
      by (auto simp: backed_def satisfies_def intro!: exI[of _ k])
  qed
  with o show "permits (phase_after pre i) h \<and>
    (h = Initialize \<longrightarrow> (\<forall>d\<in>set (getDependencies (s_description (svc e0 i))). backed e0 pre i Idle d)) \<and>
    (h = Start \<longrightarrow> (\<forall>d\<in>set (getDependencies (s_description (svc e0 i))). backed e0 pre i Running d))"
    unfolding orderly_def by blast
qed

text \<open>
  C16: when the engine is destroyed, after any requests and answers, the last call each of its services has got is
  \<open>Shutdown\<close>, whatever it answered, or a \<open>Stop\<close> it refused in this run. A refused \<open>Shutdown\<close> is only logged.
\<close>
theorem engine_shuts_all_services_down:
  assumes "proper_registry registry" and "create_engine W registry = (Some e0, c)"
  shows "\<forall>i<num e0. \<exists>b. last_call (calls (destroy W (fold (serve W) rs e0))) i = Some (Shutdown, b) \<or>
    last_call (calls (destroy W (fold (serve W) rs e0))) i = Some (Stop, False)"
proof -
  let ?e = "fold (serve W) rs e0"
  obtain os :: "service_factory list" where os: "keeping (map m_description os) e0" "served (map m_description os) ?e"
    using created[OF assms, of rs] by blast
  from os(2) have "shut_down (length os) (destroy W ?e)"
    unfolding served_def
  proof (elim disjE)
    assume k: "keeping (map m_description os) ?e"
    then have "destroy W ?e = snd (engine_shutdown W ?e)" by (simp add: destroy_def keeping_def setup_ok_def)
    with shutdown_closes[OF k, where W = W] keeping_num[OF k] show ?thesis by (simp add: shut_down_def)
  next
    assume "shut_down (length (map m_description os)) ?e"
    then show ?thesis by (simp add: destroy_def shut_down_def closed_def)
  qed
  then show ?thesis using keeping_num[OF os(1)]
    by (auto simp: shut_down_def let_go_def split: option.splits)
qed

text \<open>
  C33: once a start has failed behind the first service, which then runs though the engine does not count as
  running, every further start fails and every stop succeeds, both without calling any service.
\<close>
theorem engine_failed_start_is_final:
  assumes "proper_registry registry" and "create_engine W registry = (Some e0, c)"
    and "m_orderedServiceList (fold (serve W) rs e0) \<noteq> []"
    and "s_running (svc (fold (serve W) rs e0) 0)" and "\<not> m_running (fold (serve W) rs e0)"
  shows "engine_start W (fold (serve W) rs e0) = (False, fold (serve W) rs e0) \<and>
    engine_stop W (fold (serve W) rs e0) = (True, fold (serve W) rs e0)"
proof -
  let ?e = "fold (serve W) rs e0"
  obtain os :: "service_factory list" where "served (map m_description os) ?e"
    using created[OF assms(1,2), of rs] by blast
  then have k: "engine_ok (map m_description os) ?e" "setup_ok ?e"
    using assms(3) by (auto simp: served_def shut_down_def closed_def keeping_def)
  have z: "0 < num ?e" using assms(3) by simp
  note f = engine_okD(1)[OF k(1) z]
  then have r: "ph ?e 0 = Running" using assms(4) by (simp add: flags_ok_def)
  then have "m_setup ?e" using k(2) z by (auto simp: setup_ok_def split: if_splits)
  moreover have "services ?e = 0 # [Suc 0..<num ?e]" using z by (simp add: services_def upt_conv_Cons)
  ultimately show ?thesis
    using assms(5) start_called(2)[OF f z r, of W] by (simp add: engine_start_def engine_stop_def Let_def)
qed

subsection \<open>Two services\<close>

text \<open>The second service depends on the first, and the hook \<open>h\<close> of service \<open>i\<close> fails.\<close>

definition refuses :: "nat \<Rightarrow> hook \<Rightarrow> engine_world" where
  "refuses i h = \<lparr>answer = (\<lambda>_ k g. \<not> (k = i \<and> g = h)), property_value = (\<lambda>_ _ _. []),
     json_parser = (\<lambda>_. Some (Object [(''a'', Object [])])), json_writer = (\<lambda>_. []),
     engine_version = \<lparr>m_major = 2, m_minor = 0, m_revision = 0, m_tag = []\<rparr>, signal_set = True\<rparr>"

definition demo_registry :: "service_factory list" where
  "demo_registry =
     (let v = \<lparr>m_major = 1, m_minor = 0, m_revision = 0, m_tag = []\<rparr>; a = ServiceDescription ''a'' v []
      in [plain_factory (ServiceDescription ''b'' v [a]), plain_factory a])"

lemma demo_proper: "proper_registry demo_registry"
  by (simp add: proper_registry_def demo_registry_def plain_factory_def newInstance_def Let_def)

lemma demo_created:
  obtains e0 c where "create_engine (refuses 1 Start) demo_registry = (Some e0, c)"
proof -
  have "\<not> Option.is_none (fst (create_engine (refuses 1 Start) demo_registry))" by code_simp
  with that show thesis by (metis is_none_code(1) not_Some_eq prod.collapse)
qed

theorem engine_drives_services_in_order_witness:
  "\<exists>e0 c. create_engine (refuses 1 Start) demo_registry = (Some e0, c) \<and>
    (\<forall>pre i h b suf. i < num e0 \<longrightarrow>
      calls (fold (serve (refuses 1 Start)) [Configure_with [Some ''c''], Start_engine] e0) = pre @ (i, h, b) # suf \<longrightarrow>
      permits (phase_after pre i) h \<and>
      (h = Initialize \<longrightarrow> (\<forall>d\<in>set (getDependencies (s_description (svc e0 i))). backed e0 pre i Idle d)) \<and>
      (h = Start \<longrightarrow> (\<forall>d\<in>set (getDependencies (s_description (svc e0 i))). backed e0 pre i Running d)))"
proof -
  obtain e0 c where c: "create_engine (refuses 1 Start) demo_registry = (Some e0, c)" by (rule demo_created)
  from engine_drives_services_in_order[OF demo_proper c] c show ?thesis by blast
qed

theorem engine_shuts_all_services_down_witness:
  "\<exists>e0 c. create_engine (refuses 1 Start) demo_registry = (Some e0, c) \<and>
    (let l = last_call (calls (destroy (refuses 1 Start)
        (fold (serve (refuses 1 Start)) [Configure_with [Some ''c''], Start_engine] e0))) in
     \<forall>i<num e0. \<exists>b. l i = Some (Shutdown, b) \<or> l i = Some (Stop, False))"
proof -
  obtain e0 c where c: "create_engine (refuses 1 Start) demo_registry = (Some e0, c)" by (rule demo_created)
  from engine_shuts_all_services_down[OF demo_proper c] c show ?thesis unfolding Let_def by blast
qed

theorem engine_failed_start_is_final_witness:
  "\<exists>e0 c. create_engine (refuses 1 Start) demo_registry = (Some e0, c) \<and>
    (let e = fold (serve (refuses 1 Start)) [Configure_with [Some ''c''], Start_engine] e0 in
     s_running (svc e 0) \<and> engine_start (refuses 1 Start) e = (False, e) \<and> engine_stop (refuses 1 Start) e = (True, e))"
proof -
  obtain e0 c where c: "create_engine (refuses 1 Start) demo_registry = (Some e0, c)" by (rule demo_created)
  let ?e = "fold (serve (refuses 1 Start)) [Configure_with [Some ''c''], Start_engine] e0"
  have "(case fst (create_engine (refuses 1 Start) demo_registry) of Some e \<Rightarrow>
    let e = fold (serve (refuses 1 Start)) [Configure_with [Some ''c''], Start_engine] e in
    m_orderedServiceList e \<noteq> [] \<and> s_running (svc e 0) \<and> \<not> m_running e | None \<Rightarrow> False)"
    by code_simp
  then have h: "m_orderedServiceList ?e \<noteq> []" "s_running (svc ?e 0)" "\<not> m_running ?e"
    unfolding c fst_conv option.case Let_def by blast+
  from engine_failed_start_is_final[OF demo_proper c h] h(2) c show ?thesis
    unfolding Let_def by blast
qed

text \<open>
  A creation that fails leaves the services initialized before it without a shutdown; a configuration that is
  reported as failed can be started all the same when only \<open>PreRegister\<close> failed, and one that a service
  refuses is reported as done; a stop reaches the first service while the one that depends on it runs.
\<close>

lemma create_failure_leaves_initialized:
  "Option.is_none (fst (create_engine (refuses 1 Initialize) demo_registry)) \<and>
   snd (create_engine (refuses 1 Initialize) demo_registry) = [(0, Initialize, True), (1, Initialize, False)]"
  by code_simp

lemma failed_configuration_starts:
  "(case fst (create_engine (refuses 1 PreRegister) demo_registry) of None \<Rightarrow> False | Some e \<Rightarrow>
    case engine_configure (refuses 1 PreRegister) [Some ''c''] e of (ok, e) \<Rightarrow> \<not> ok \<and> fst (engine_start (refuses 1 PreRegister) e))"
  by code_simp

lemma refused_configuration_accepted:
  "(case fst (create_engine (refuses 0 (Configure [])) demo_registry) of None \<Rightarrow> False | Some e \<Rightarrow>
    case engine_configure (refuses 0 (Configure [])) [Some ''c''] e of (ok, e) \<Rightarrow> ok \<and> (0, Configure [], False) \<in> set (calls e))"
  by code_simp

lemma stop_reaches_provider_first:
  "(case fst (create_engine (refuses 2 Start) demo_registry) of None \<Rightarrow> False | Some e \<Rightarrow>
    drop 10 (calls (fold (serve (refuses 2 Start)) [Configure_with [Some ''c''], Start_engine, Stop_engine] e)) =
      [(1, Start, True), (0, Stop, True), (1, Stop, True)])"
  by code_simp

end
