(* ===== verification/Engine_Config.thy ===== *)
theory Engine_Config
  imports Engine_Core
begin

text \<open>
  The merged configuration of \<open>EngineImpl::configure\<close>: what the documents say together, in whatever order they
  are given.
\<close>

text \<open>The document of one configuration object.\<close>

definition config_document :: "engine_world \<Rightarrow> string option \<Rightarrow> json option" where
  "config_document W c = Option.bind c (parse_json (json_parser W))"

lemma config_document_object: "config_document W c = Some d \<Longrightarrow> \<exists>ms. d = Object ms"
  by (auto simp: config_document_def parse_json_def bind_eq_Some_conv elim!: IsObjectE split: option.splits if_splits)

lemma agree_iff:
  "agree v w \<longleftrightarrow> (\<forall>p x y. view v p = Some x \<longrightarrow> view w p = Some y \<longrightarrow> x = None \<and> y = None)"
  by (auto simp: agree_def)

lemma view_union:
  assumes "agree v w" and "view r = view v ++ view w"
  shows "view r p = Some x \<longleftrightarrow> view v p = Some x \<or> view w p = Some x"
  using assms(1) unfolding agree_iff assms(2) map_add_Some_iff
  by (cases "view v p"; cases "view w p") auto

lemma agree_union:
  assumes "agree v w" and "view r = view v ++ view w"
  shows "agree r d \<longleftrightarrow> agree v d \<and> agree w d"
  unfolding agree_iff view_union[OF assms] by blast

text \<open>The loop succeeds exactly if all documents are there and agree in pairs.\<close>

lemma merge_configurations_spec:
  assumes "\<forall>c\<in>set cs. \<forall>d. config_document W c = Some d \<longrightarrow> wf_json d" and "wf_json (Object root)"
  shows "case merge_configurations W cs root of
      None \<Rightarrow> \<not> (\<exists>ds. map (config_document W) cs = map Some ds \<and> sorted_wrt agree (Object root # ds))
    | Some r \<Rightarrow> \<exists>ds. map (config_document W) cs = map Some ds \<and> sorted_wrt agree (Object root # ds) \<and>
        wf_json (Object r) \<and> (\<forall>p x. view (Object r) p = Some x \<longleftrightarrow> (\<exists>d\<in>set (Object root # ds). view d p = Some x))"
  using assms
proof (induction cs arbitrary: root)
  case (Cons c cs)
  show ?case
  proof (cases "config_document W c")
    case None
    then show ?thesis by (auto simp: config_document_def)
  next
    case (Some d)
    then obtain ms where d: "d = Object ms" using config_document_object by blast
    have wf: "wf_json (Object ms)" using Cons.prems(1) Some d by simp
    obtain ok r where m: "merge root ms = (ok, r)" by (cases "merge root ms")
    note mf = merge_facts[OF Cons.prems(2) wf, unfolded m fst_conv snd_conv]
    have step: "merge_configurations W (c # cs) root = (if ok then merge_configurations W cs r else None)"
      using Some d m by (simp add: config_document_def)
    have split: "(\<exists>ds. map (config_document W) (c # cs) = map Some ds \<and> sorted_wrt agree (Object root # ds) \<and> P ds) \<longleftrightarrow>
      (\<exists>ds. map (config_document W) cs = map Some ds \<and> sorted_wrt agree (Object root # Object ms # ds) \<and> P (Object ms # ds))" for P
      using Some d by (auto simp: map_eq_Cons_conv Cons_eq_map_conv)
    show ?thesis
    proof (cases ok)
      case False
      then have "\<not> agree (Object root) (Object ms)" using mf(1) by simp
      with False show ?thesis using split[of "\<lambda>_. True"] unfolding step by simp
    next
      case True
      have ag: "agree (Object root) (Object ms)" and vw: "view (Object r) = view (Object root) ++ view (Object ms)"
        using True mf by simp_all
      note u = agree_union[OF ag vw] and v = view_union[OF ag vw]
      have so: "sorted_wrt agree (Object r # ds) \<longleftrightarrow> sorted_wrt agree (Object root # Object ms # ds)" for ds
        using ag u by auto
      have vi: "(\<exists>d\<in>set (Object r # ds). view d p = Some x) \<longleftrightarrow>
          (\<exists>d\<in>set (Object root # Object ms # ds). view d p = Some x)" for ds p x
        using v by auto
      have split0: "(\<exists>ds. map (config_document W) (c # cs) = map Some ds \<and> sorted_wrt agree (Object root # ds)) \<longleftrightarrow>
          (\<exists>ds. map (config_document W) cs = map Some ds \<and> sorted_wrt agree (Object root # Object ms # ds))"
        using split[of "\<lambda>_. True"] by (simp only: simp_thms)
      have "\<forall>c\<in>set cs. \<forall>d. config_document W c = Some d \<longrightarrow> wf_json d" using Cons.prems(1) by simp
      note IH = Cons.IH[OF this mf(2), unfolded so vi]
      show ?thesis
      proof (cases "merge_configurations W cs r")
        case None
        show ?thesis using IH unfolding step if_P[OF True] None option.case split0 .
      next
        case (Some r')
        show ?thesis using IH unfolding step if_P[OF True] Some option.case split .
      qed
    qed
  qed
qed auto

lemma sorted_wrt_permute:
  assumes "\<And>x y. R x y \<Longrightarrow> R y x" and "sorted_wrt R xs" and "mset xs = mset ys"
  shows "sorted_wrt R ys"
  using assms(2,3)
proof (induction xs arbitrary: ys)
  case (Cons x xs)
  have "x \<in> set ys" using Cons.prems(2) by (metis list.set_intros(1) mset_eq_setD)
  then obtain as bs where ys: "ys = as @ x # bs" by (metis split_list)
  then have m: "mset xs = mset (as @ bs)" using Cons.prems(2) by simp
  then have "sorted_wrt R (as @ bs)" using Cons by simp
  moreover have "R x y" if "y \<in> set (as @ bs)" for y
    using Cons.prems(1) m that by (metis mset_eq_setD sorted_wrt.simps(2))
  ultimately show ?case using ys assms(1) by (auto simp: sorted_wrt_append)
qed simp

lemma permuted_documents:
  assumes "map f cs = map Some ds" and "mset cs = mset cs'"
  obtains ds' where "map f cs' = map Some ds'" and "mset ds = mset ds'"
proof -
  have "\<forall>c\<in>set cs. f c \<noteq> None" using assms(1) by (metis in_set_conv_nth length_map nth_map option.distinct(1))
  then have "\<forall>c\<in>set cs'. f c \<noteq> None" using mset_eq_setD[OF assms(2)] by simp
  then have "map f cs' = map Some (map (\<lambda>c. the (f c)) cs')" by (auto simp: comp_def)
  moreover have "ds = map (\<lambda>c. the (f c)) cs"
    using arg_cong[OF assms(1), of "map the"] by (simp add: comp_def)
  then have "mset ds = mset (map (\<lambda>c. the (f c)) cs')" using assms(2) by simp
  ultimately show thesis by (rule that)
qed

text \<open>
  C17: the configuration a set of files gives does not depend on their order: if no file repeats a name in an
  object, the merge succeeds in one order exactly if it does in the other, and says the same at every path; it
  succeeds exactly if all files parse as objects and agree in pairs, and then says what any of them says.
\<close>
theorem configuration_is_the_union:
  assumes "\<forall>c\<in>set cs. \<forall>d. config_document W c = Some d \<longrightarrow> wf_json d" and "mset cs = mset cs'"
  shows "case merge_configurations W cs [] of
      None \<Rightarrow> merge_configurations W cs' [] = None \<and>
        \<not> (\<exists>ds. map (config_document W) cs = map Some ds \<and> sorted_wrt agree ds)
    | Some r \<Rightarrow> \<exists>r'. merge_configurations W cs' [] = Some r' \<and> view (Object r) = view (Object r') \<and>
        (\<forall>p x. p \<noteq> [] \<longrightarrow> (view (Object r) p = Some x \<longleftrightarrow> (\<exists>c\<in>set cs. \<exists>d. config_document W c = Some d \<and> view d p = Some x)))"
proof -
  have wf': "\<forall>c\<in>set cs'. \<forall>d. config_document W c = Some d \<longrightarrow> wf_json d"
    using assms mset_eq_setD[OF assms(2)] by simp
  have wf0: "wf_json (Object [])" by simp
  note s = merge_configurations_spec[OF assms(1), of "[]", OF wf0]
  note s' = merge_configurations_spec[OF wf', of "[]", OF wf0]
  have root: "agree (Object []) d" if "d = Object ms" for d ms
    using that by (simp add: agree_Object)
  have roots: "\<forall>d\<in>set ds. agree (Object []) d" if "map (config_document W) xs = map Some ds" for xs ds
  proof
    fix d assume "d \<in> set ds"
    then have "Some d \<in> config_document W ` set xs" using arg_cong[OF that, of set] by simp
    then obtain c where "config_document W c = Some d" by (metis imageE)
    then show "agree (Object []) d" using config_document_object root by blast
  qed
  have perm: "\<exists>ds'. map (config_document W) ys = map Some ds' \<and> mset ds = mset ds' \<and> sorted_wrt agree ds'"
    if "map (config_document W) xs = map Some ds" "sorted_wrt agree ds" "mset xs = mset ys" for xs ys ds
  proof -
    note pd = permuted_documents[OF that(1,3)]
    obtain ds' where d: "map (config_document W) ys = map Some ds'" "mset ds = mset ds'" by (rule pd)
    with sorted_wrt_permute[of agree ds ds'] that(2) agree_sym show ?thesis by blast
  qed
  show ?thesis
  proof (cases "merge_configurations W cs []")
    case None
    with s have n: "\<not> (\<exists>ds. map (config_document W) cs = map Some ds \<and> sorted_wrt agree ds)"
      using roots[of cs] by auto
    then have "merge_configurations W cs' [] = None"
    proof (rule contrapos_np)
      assume "merge_configurations W cs' [] \<noteq> None"
      then obtain r' where r': "merge_configurations W cs' [] = Some r'" by blast
      from s'[unfolded r' option.case] obtain ds where
        ds: "map (config_document W) cs' = map Some ds" "sorted_wrt agree ds" unfolding sorted_wrt.simps by blast
      from perm[OF ds assms(2)[symmetric]]
      show "\<exists>ds. map (config_document W) cs = map Some ds \<and> sorted_wrt agree ds" by blast
    qed
    with None n show ?thesis by simp
  next
    case (Some r)
    from s[unfolded Some option.case] obtain ds where ds: "map (config_document W) cs = map Some ds" "sorted_wrt agree ds"
      "\<forall>p x. view (Object r) p = Some x \<longleftrightarrow> view (Object []) p = Some x \<or> (\<exists>d\<in>set ds. view d p = Some x)"
      unfolding list.set bex_simps sorted_wrt.simps by blast
    obtain ds' where ds': "map (config_document W) cs' = map Some ds'" "mset ds = mset ds'" "sorted_wrt agree ds'"
      using perm[OF ds(1,2) assms(2)] by blast
    obtain r' where r': "merge_configurations W cs' [] = Some r'"
      using s' ds'(1,3) roots[OF ds'(1)] by (cases "merge_configurations W cs' []") auto
    from s'[unfolded r' option.case] obtain es where es: "map (config_document W) cs' = map Some es"
      "\<forall>p x. view (Object r') p = Some x \<longleftrightarrow> view (Object []) p = Some x \<or> (\<exists>d\<in>set es. view d p = Some x)"
      unfolding list.set bex_simps by blast
    have "es = ds'" using es(1) ds'(1) by (metis list.inj_map_strong option.inject)
    then have "set es = set ds" using mset_eq_setD[OF ds'(2)] by simp
    then have "view (Object r) p = view (Object r') p" for p
      using ds(3) es(2) by (metis not_None_eq)
    moreover have "(\<exists>d\<in>set ds. view d p = Some x) \<longleftrightarrow>
        (\<exists>c\<in>set cs. \<exists>d. config_document W c = Some d \<and> view d p = Some x)" for p x
    proof -
      have eq: "Some ` set ds = config_document W ` set cs" using arg_cong[OF ds(1), of set] by simp
      have "(\<exists>d\<in>set ds. view d p = Some x) \<longleftrightarrow> (\<exists>y\<in>Some ` set ds. \<exists>d. y = Some d \<and> view d p = Some x)" by blast
      also have "\<dots> \<longleftrightarrow> (\<exists>c\<in>set cs. \<exists>d. config_document W c = Some d \<and> view d p = Some x)" unfolding eq by blast
      finally show ?thesis .
    qed
    moreover have "view (Object []) p = None" if "p \<noteq> []" for p using that by (cases p) simp_all
    ultimately show ?thesis using Some r' ds(3) by (auto simp: fun_eq_iff)
  qed
qed

text \<open>A parser that knows two files.\<close>

definition two_files :: engine_world where
  "two_files = \<lparr>answer = (\<lambda>_ _ _. True), property_value = (\<lambda>_ _ _. []),
     json_parser = (\<lambda>s. if s = ''1'' then Some (Object [(''a'', Object [(''x'', Null)])])
       else Some (Object [(''a'', Object [(''y'', Null)])])),
     json_writer = (\<lambda>_. []), engine_version = \<lparr>m_major = 2, m_minor = 0, m_revision = 0, m_tag = []\<rparr>,
     signal_set = True\<rparr>"

theorem configuration_is_the_union_witness:
  "case merge_configurations two_files [Some ''1'', Some ''2''] [] of
      None \<Rightarrow> merge_configurations two_files [Some ''2'', Some ''1''] [] = None \<and>
        \<not> (\<exists>ds. map (config_document two_files) [Some ''1'', Some ''2''] = map Some ds \<and> sorted_wrt agree ds)
    | Some r \<Rightarrow> \<exists>r'. merge_configurations two_files [Some ''2'', Some ''1''] [] = Some r' \<and> view (Object r) = view (Object r') \<and>
        (\<forall>p x. p \<noteq> [] \<longrightarrow> (view (Object r) p = Some x \<longleftrightarrow>
          (\<exists>c\<in>set [Some ''1'', Some ''2'']. \<exists>d. config_document two_files c = Some d \<and> view d p = Some x)))"
  by (rule configuration_is_the_union) (auto simp: config_document_def two_files_def parse_json_def)

end
