(* ===== verification/Engine_Sdk.thy ===== *)
theory Engine_Sdk
  imports Engine_Services
begin

text \<open>
  The descriptions with which the services of the SDK register themselves (the \<open>DESCRIBE\<close> macro in the
  header of each service), and that they can be loaded in every order.
\<close>

definition LoggerEngineService :: service_description where
  "LoggerEngineService = ServiceDescription ''aace.logger'' (version_of_string ''1.0'')
     []"

definition StorageEngineService :: service_description where
  "StorageEngineService = ServiceDescription ''aace.storage'' (version_of_string ''1.0'')
     []"

definition NetworkEngineService :: service_description where
  "NetworkEngineService = ServiceDescription ''aace.network'' (version_of_string ''1.0'')
     []"

definition AudioEngineService :: service_description where
  "AudioEngineService = ServiceDescription ''aace.audio'' (version_of_string ''1.0'')
     []"

definition LocationEngineService :: service_description where
  "LocationEngineService = ServiceDescription ''aace.location'' (version_of_string ''1.0'')
     []"

definition AddressBookEngineService :: service_description where
  "AddressBookEngineService = ServiceDescription ''aace.addressBook'' (version_of_string ''1.0'')
     []"

definition MetricsEngineService :: service_description where
  "MetricsEngineService = ServiceDescription ''aace.metrics'' (version_of_string ''1.0'')
     [LoggerEngineService]"

definition VehicleEngineService :: service_description where
  "VehicleEngineService = ServiceDescription ''aace.vehicle'' (version_of_string ''1.0'')
     [StorageEngineService]"

definition GStreamerEngineService :: service_description where
  "GStreamerEngineService = ServiceDescription ''aace.gstreamer'' (version_of_string ''1.0'')
     [AudioEngineService]"

definition AlexaEngineService :: service_description where
  "AlexaEngineService = ServiceDescription ''aace.alexa'' (version_of_string ''1.0'')
     [LocationEngineService, NetworkEngineService, VehicleEngineService,
     StorageEngineService, LoggerEngineService, AudioEngineService]"

definition CBLEngineService :: service_description where
  "CBLEngineService = ServiceDescription ''aace.cbl'' (version_of_string ''1.0'')
     [AlexaEngineService]"

definition PhoneCallControllerEngineService :: service_description where
  "PhoneCallControllerEngineService = ServiceDescription ''aace.phoneCallController'' (version_of_string ''1.0'')
     [AlexaEngineService]"

definition NavigationEngineService :: service_description where
  "NavigationEngineService = ServiceDescription ''aace.navigation'' (version_of_string ''1.0'')
     [AlexaEngineService]"

definition ContactUploaderEngineService :: service_description where
  "ContactUploaderEngineService = ServiceDescription ''aace.contactUploader'' (version_of_string ''1.0'')
     [AlexaEngineService]"

definition LoopbackDetectorEngineService :: service_description where
  "LoopbackDetectorEngineService = ServiceDescription ''aace.loopbackDetector'' (version_of_string ''1.0'')
     [AlexaEngineService]"

definition sdk_services :: "service_description list" where
  "sdk_services =
     [LoggerEngineService, StorageEngineService, NetworkEngineService, AudioEngineService,
      LocationEngineService, AddressBookEngineService, MetricsEngineService, VehicleEngineService,
      GStreamerEngineService, AlexaEngineService, CBLEngineService,
      PhoneCallControllerEngineService, NavigationEngineService,
      ContactUploaderEngineService, LoopbackDetectorEngineService]"

lemmas sdk_defs = sdk_services_def LoggerEngineService_def
  StorageEngineService_def
  NetworkEngineService_def
  AudioEngineService_def
  LocationEngineService_def
  AddressBookEngineService_def
  MetricsEngineService_def
  VehicleEngineService_def
  GStreamerEngineService_def
  AlexaEngineService_def
  CBLEngineService_def
  PhoneCallControllerEngineService_def
  NavigationEngineService_def
  ContactUploaderEngineService_def
  LoopbackDetectorEngineService_def

lemma sdk_types_distinct: "distinct (map getType sdk_services)"
  by (simp add: sdk_defs)

lemma sdk_dependencies:
  "getDependencies LoggerEngineService = []"
  "getDependencies StorageEngineService = []"
  "getDependencies NetworkEngineService = []"
  "getDependencies AudioEngineService = []"
  "getDependencies LocationEngineService = []"
  "getDependencies AddressBookEngineService = []"
  "getDependencies MetricsEngineService = [LoggerEngineService]"
  "getDependencies VehicleEngineService = [StorageEngineService]"
  "getDependencies GStreamerEngineService = [AudioEngineService]"
  "getDependencies AlexaEngineService = [LocationEngineService, NetworkEngineService, VehicleEngineService, StorageEngineService, LoggerEngineService, AudioEngineService]"
  "getDependencies CBLEngineService = [AlexaEngineService]"
  "getDependencies PhoneCallControllerEngineService = [AlexaEngineService]"
  "getDependencies NavigationEngineService = [AlexaEngineService]"
  "getDependencies ContactUploaderEngineService = [AlexaEngineService]"
  "getDependencies LoopbackDetectorEngineService = [AlexaEngineService]"
  by (simp_all only: service_description.sel LoggerEngineService_def StorageEngineService_def NetworkEngineService_def AudioEngineService_def LocationEngineService_def AddressBookEngineService_def MetricsEngineService_def VehicleEngineService_def GStreamerEngineService_def AlexaEngineService_def CBLEngineService_def PhoneCallControllerEngineService_def NavigationEngineService_def ContactUploaderEngineService_def LoopbackDetectorEngineService_def)

lemma sdk_closed: "d \<in> set sdk_services \<Longrightarrow> set (getDependencies d) \<subseteq> set sdk_services"
  by (auto simp: sdk_services_def sdk_dependencies)

text \<open>Descriptions cannot be cyclic, so a closed set of them can be loaded.\<close>

lemma closed_loadable:
  assumes "\<And>d. d \<in> D \<Longrightarrow> set (getDependencies d) \<subseteq> D" and "set fs = plain_factory ` D"
  shows "d \<in> D \<Longrightarrow> loadable fs (plain_factory d)"
proof (induction d)
  case (ServiceDescription t v ds)
  have "satisfies d (plain_factory d)" for d
    by (simp add: satisfies_def plain_factory_def version_less_def)
  moreover have "loadable fs (plain_factory d)" if "d \<in> set ds" for d
    using ServiceDescription.IH[OF that] assms(1)[OF ServiceDescription.prems] that by auto
  ultimately show ?case
    using assms(2) ServiceDescription.prems by (intro loadable) (auto simp: plain_factory_def)
qed

text \<open>
  C34: whatever order the registry of all the services of the SDK is iterated in, the dependencies are
  resolved, with the Alexa service behind the six it names and in front of the four that name it.
\<close>
theorem sdk_services_resolve:
  assumes "mset fs = mset (map plain_factory sdk_services)"
  shows "\<exists>os. order_services fs = Inr os \<and> mset os = mset fs \<and> dependency_ordered os"
proof -
  have set: "set fs = plain_factory ` set sdk_services"
    using mset_eq_setD[OF assms] by simp
  have "mset (map ftype fs) = mset (map ftype (map plain_factory sdk_services))"
    using assms by (simp only: mset_map)
  then have "distinct (map ftype fs)"
    using sdk_types_distinct mset_eq_imp_distinct_iff[of "map ftype fs" "map getType sdk_services"]
    by (simp add: plain_factory_def comp_def)
  from order_services_spec[OF this] show ?thesis
    using closed_loadable[OF sdk_closed set] set by (cases "order_services fs") auto
qed

theorem sdk_services_resolve_witness:
  "\<exists>os. order_services (map plain_factory (rev sdk_services)) = Inr os \<and>
     mset os = mset (map plain_factory (rev sdk_services)) \<and> dependency_ordered os"
  by (rule sdk_services_resolve) simp

text \<open>
  The address book service takes interfaces of \<open>aace.alexa\<close> and \<open>aace.network\<close>, but its description
  names no dependency: there are orders of the registry that put it in front of both.
\<close>

lemma address_book_undeclared:
  "dependency_ordered (map plain_factory [AddressBookEngineService, NetworkEngineService])"
  by (auto simp: dependency_ordered_def Cons_eq_append_conv provided_def plain_factory_def sdk_defs)

end
