(* ===== verification/Json_Storage.thy ===== *)
theory Json_Storage
  imports Json
begin

text \<open>
  The key-value storage of the engine in a JSON file (\<open>Storage/JSONStorage.cpp\<close>), with its transactions.
\<close>

text \<open>
  The JSON library: its parser, and its writer with the result of \<open>Accept\<close>. An operation ends in a failed
  assertion of the library when it takes a value for an object, a string or a member that it is not, and it
  may read memory given back. Strings are handed over as C strings where the code says \<open>c_str\<close>, and come
  back so.
\<close>

record json_library =
  lib_parse :: "string \<Rightarrow> json option"
  lib_print :: "json \<Rightarrow> bool \<times> string"

datatype storage_fault = Assertion | Use_after_free

text \<open>
  \<open>m_freed\<close>: the members of the document belong to the allocator of a document that is gone. \<open>data_file\<close> is the
  content of the data file, if there is one, and \<open>writable\<close> whether it can be opened for writing.
\<close>

record storage =
  m_document :: members
  m_freed :: bool
  m_transactionInProgress :: bool
  m_dirty :: bool
  data_file :: "string option"
  writable :: bool

definition root :: "storage \<Rightarrow> storage_fault + members" where
  "root s = (if m_freed s then Inl Use_after_free else Inr (m_document s))"

definition as_object :: "json option \<Rightarrow> storage_fault + members" where
  "as_object v = (case v of Some (Object ms) \<Rightarrow> Inr ms | _ \<Rightarrow> Inl Assertion)"

definition as_string :: "json option \<Rightarrow> storage_fault + string" where
  "as_string v = (case v of Some (Str s) \<Rightarrow> Inr (cstr s) | _ \<Rightarrow> Inl Assertion)"

text \<open>The stream is not asked whether it could be opened.\<close>

definition write_file :: "json_library \<Rightarrow> storage \<Rightarrow> storage_fault + bool \<times> storage" where
  "write_file L s = bindR (root s) (\<lambda>ms.
     let (accepted, text) = lib_print L (Object ms);
         s = (if writable s then s\<lparr>data_file := Some text\<rparr> else s)
     in Inr (if accepted then (True, s\<lparr>m_dirty := False\<rparr>) else (False, s)))"

definition initialize_storage :: "json_library \<Rightarrow> storage \<Rightarrow> storage_fault + bool \<times> storage" where
  "initialize_storage L s =
     (case data_file s of
        Some text \<Rightarrow> Inr (case lib_parse L text of Some (Object ms) \<Rightarrow> (True, s\<lparr>m_document := ms\<rparr>) | _ \<Rightarrow> (False, s))
      | None \<Rightarrow>
          if \<not> writable s then Inr (False, s)
          else write_file L (s\<lparr>data_file := Some [], m_document := []\<rparr>))"

definition create_storage :: "json_library \<Rightarrow> string option \<Rightarrow> bool \<Rightarrow> storage_fault + storage option" where
  "create_storage L f w =
     bindR (initialize_storage L \<lparr>m_document = [], m_freed = False, m_transactionInProgress = False,
       m_dirty = False, data_file = f, writable = w\<rparr>) (\<lambda>(ok, s). Inr (if ok then Some s else None))"

text \<open>What every change of the document ends with: write the file, or note that it has to be written.\<close>

definition changed :: "json_library \<Rightarrow> storage \<Rightarrow> storage_fault + bool \<times> storage" where
  "changed L s = (if m_transactionInProgress s then Inr (True, s\<lparr>m_dirty := True\<rparr>) else write_file L s)"

definition put :: "json_library \<Rightarrow> string \<Rightarrow> string \<Rightarrow> string \<Rightarrow> storage \<Rightarrow> storage_fault + bool \<times> storage" where
  "put L table key val s = bindR (root s) (\<lambda>ms.
     let ms = (if map_of ms (cstr table) = None then ms @ [(table, Object [])] else ms)
     in bindR (as_object (map_of ms (cstr table))) (\<lambda>node.
       let node = (if map_of node (cstr key) \<noteq> None then set_member (cstr key) (Str val) node
                   else node @ [(key, Str val)])
       in changed L (s\<lparr>m_document := set_member (cstr table) (Object node) ms\<rparr>)))"

definition containsKey :: "string \<Rightarrow> string \<Rightarrow> storage \<Rightarrow> storage_fault + bool" where
  "containsKey table key s =
     (if m_transactionInProgress s then Inr False
      else bindR (root s) (\<lambda>ms. Inr
        (case map_of ms (cstr table) of
           Some (Object node) \<Rightarrow> (case map_of node (cstr key) of Some v \<Rightarrow> IsString v | None \<Rightarrow> False)
         | _ \<Rightarrow> False)))"

definition containsTable :: "string \<Rightarrow> storage \<Rightarrow> storage_fault + bool" where
  "containsTable table s =
     (if m_transactionInProgress s then Inr False
      else bindR (root s) (\<lambda>ms. Inr (case map_of ms (cstr table) of Some v \<Rightarrow> IsObject v | None \<Rightarrow> False)))"

definition get :: "string \<Rightarrow> string \<Rightarrow> storage \<Rightarrow> storage_fault + string" where
  "get table key s =
     (if m_transactionInProgress s then Inr []
      else bindR (containsKey table key s) (\<lambda>found.
        if \<not> found then Inr []
        else bindR (root s) (\<lambda>ms. bindR (as_object (map_of ms (cstr table))) (\<lambda>node.
          as_string (map_of node (cstr key))))))"

definition get_default :: "string \<Rightarrow> string \<Rightarrow> string \<Rightarrow> storage \<Rightarrow> storage_fault + string" where
  "get_default table key defaultValue s =
     (if m_transactionInProgress s then Inr defaultValue
      else bindR (root s) (\<lambda>ms.
        if map_of ms (cstr table) = None then Inr defaultValue
        else bindR (as_object (map_of ms (cstr table))) (\<lambda>node.
          if map_of node (cstr key) = None then Inr defaultValue
          else as_string (map_of node (cstr key)))))"

definition removeKey :: "json_library \<Rightarrow> string \<Rightarrow> string \<Rightarrow> storage \<Rightarrow> storage_fault + bool \<times> storage" where
  "removeKey L table key s = bindR (containsKey table key s) (\<lambda>found.
     if \<not> found then Inr (True, s)
     else bindR (root s) (\<lambda>ms. bindR (as_object (map_of ms (cstr table))) (\<lambda>node.
       changed L (s\<lparr>m_document := set_member (cstr table) (Object (remove_member (cstr key) node)) ms\<rparr>))))"

definition removeTable :: "json_library \<Rightarrow> string \<Rightarrow> storage \<Rightarrow> storage_fault + bool \<times> storage" where
  "removeTable L table s = bindR (root s) (\<lambda>ms.
     if map_of ms (cstr table) = None then Inr (True, s)
     else changed L (s\<lparr>m_document := remove_member (cstr table) ms\<rparr>))"

definition string_members :: "members \<Rightarrow> (string \<times> string) list" where
  "string_members node = concat (map (\<lambda>(k, v). case v of Str w \<Rightarrow> [(cstr k, cstr w)] | _ \<Rightarrow> []) node)"

definition list_table :: "string \<Rightarrow> storage \<Rightarrow> storage_fault + (string \<times> string) list" where
  "list_table table s = bindR (containsTable table s) (\<lambda>found.
     if \<not> found then Inr []
     else bindR (root s) (\<lambda>ms. bindR (as_object (map_of ms (cstr table))) (\<lambda>node. Inr (string_members node))))"

definition keys_table :: "string \<Rightarrow> storage \<Rightarrow> storage_fault + string list" where
  "keys_table table s = bindR (containsTable table s) (\<lambda>found.
     if \<not> found then Inr []
     else bindR (root s) (\<lambda>ms. bindR (as_object (map_of ms (cstr table))) (\<lambda>node.
       Inr (map (\<lambda>(k, v). cstr k) (filter (\<lambda>(k, v). IsString v) node)))))"

text \<open>
  \<open>begin\<close> waits up to five seconds for the end of a transaction, which the caller's own thread cannot reach
  meanwhile: \<open>ended\<close> tells whether another thread does.
\<close>

definition begin_transaction :: "bool \<Rightarrow> storage \<Rightarrow> bool \<times> storage" where
  "begin_transaction ended s =
     (if m_transactionInProgress s \<and> \<not> ended then (False, s) else (True, s\<lparr>m_transactionInProgress := True\<rparr>))"

definition commit :: "json_library \<Rightarrow> storage \<Rightarrow> storage_fault + bool \<times> storage" where
  "commit L s =
     (if \<not> m_transactionInProgress s then Inr (False, s)
      else if m_dirty s then bindR (write_file L s) (\<lambda>(ok, s).
        if ok then Inr (True, s\<lparr>m_transactionInProgress := False\<rparr>) else Inr (False, s))
      else Inr (True, s\<lparr>m_transactionInProgress := False\<rparr>))"

text \<open>
  The value parsed anew is moved into the document, but its members stay with the allocator of the local
  variable, which is destroyed at the end; only an object without members has none.
\<close>

definition cancel :: "json_library \<Rightarrow> storage \<Rightarrow> bool \<times> storage" where
  "cancel L s =
     (if \<not> m_transactionInProgress s then (False, s)
      else case Option.bind (data_file s) (lib_parse L) of
          Some (Object ms) \<Rightarrow> (True, s\<lparr>m_document := ms, m_freed := (ms \<noteq> []), m_dirty := False,
            m_transactionInProgress := False\<rparr>)
        | _ \<Rightarrow> (False, s))"

subsection \<open>Sequences of operations\<close>

datatype store_op = Put string string string | Get string string | Get_default string string string
  | Remove_key string string | Remove_table string | Contains_key string string | Contains_table string
  | Keys string | List_pairs string | Begin | Commit | Cancel

datatype store_reply = RBool bool | RString string | RNames "string list" | RPairs "(string \<times> string) list"

definition told_reply :: "('a \<Rightarrow> store_reply) \<Rightarrow> 's \<Rightarrow> 'e + 'a \<Rightarrow> 'e + store_reply \<times> 's" where
  "told_reply f s r = bindR r (\<lambda>x. Inr (f x, s))"

definition done_with :: "'e + bool \<times> 's \<Rightarrow> 'e + store_reply \<times> 's" where
  "done_with r = bindR r (\<lambda>(b, s). Inr (RBool b, s))"

definition storage_step :: "json_library \<Rightarrow> store_op \<Rightarrow> storage \<Rightarrow> storage_fault + store_reply \<times> storage" where
  "storage_step L op s = (case op of
       Put t k v \<Rightarrow> done_with (put L t k v s)
     | Get t k \<Rightarrow> told_reply RString s (get t k s)
     | Get_default t k d \<Rightarrow> told_reply RString s (get_default t k d s)
     | Remove_key t k \<Rightarrow> done_with (removeKey L t k s)
     | Remove_table t \<Rightarrow> done_with (removeTable L t s)
     | Contains_key t k \<Rightarrow> told_reply RBool s (containsKey t k s)
     | Contains_table t \<Rightarrow> told_reply RBool s (containsTable t s)
     | Keys t \<Rightarrow> told_reply RNames s (keys_table t s)
     | List_pairs t \<Rightarrow> told_reply RPairs s (list_table t s)
     | Begin \<Rightarrow> done_with (Inr (begin_transaction False s))
     | Commit \<Rightarrow> done_with (commit L s)
     | Cancel \<Rightarrow> done_with (Inr (cancel L s)))"

fun run_ops :: "('op \<Rightarrow> 's \<Rightarrow> 'e + 'r \<times> 's) \<Rightarrow> 'op list \<Rightarrow> 's \<Rightarrow> 'e + 'r list \<times> 's" where
  "run_ops step [] s = Inr ([], s)"
| "run_ops step (op # ops) s = bindR (step op s) (\<lambda>(r, s). bindR (run_ops step ops s) (\<lambda>(rs, s). Inr (r # rs, s)))"

end
