(* ===== verification/Json_Store.thy ===== *)
theory Json_Store
  imports Json_Storage
begin

text \<open>
  The contract of \<open>LocalStorageInterface.h\<close> as the locale \<open>key_value_store\<close>, stated on a map of tables, each a
  map from keys to values, and its interpretation on the JSON storage; the typing of its document; and where
  the storage does something else.
\<close>

subsection \<open>The contract\<close>

text \<open>
  What a storage promises: a map of tables, and what of it is on the disk. Inside a transaction the reading
  operations refuse and the disk is left alone. Not promised, because the implementation differs: removing a
  key inside a transaction, and cancelling one over a disk that is not empty.
\<close>

type_synonym store = "string \<rightharpoonup> (string \<rightharpoonup> string)"

record store_state =
  tables :: store
  disk :: store
  in_transaction :: bool

definition value_at :: "store \<Rightarrow> string \<Rightarrow> string \<Rightarrow> string option" where
  "value_at m t k = Option.bind (m t) (\<lambda>n. n k)"

definition visible :: "store_state \<Rightarrow> store" where
  "visible a = (if in_transaction a then Map.empty else tables a)"

definition answers :: "store_state \<Rightarrow> store_op \<Rightarrow> store_reply \<Rightarrow> bool" where
  "answers a op r = (let m = visible a in case op of
       Put t k v \<Rightarrow> r = RBool True
     | Get t k \<Rightarrow> r = RString (case value_at m t k of Some v \<Rightarrow> v | None \<Rightarrow> [])
     | Get_default t k d \<Rightarrow> r = RString (case value_at m t k of Some v \<Rightarrow> v | None \<Rightarrow> d)
     | Remove_key t k \<Rightarrow> r = RBool True
     | Remove_table t \<Rightarrow> r = RBool True
     | Contains_key t k \<Rightarrow> r = RBool (value_at m t k \<noteq> None)
     | Contains_table t \<Rightarrow> r = RBool (m t \<noteq> None)
     | Keys t \<Rightarrow> (\<exists>ks. r = RNames ks \<and> distinct ks \<and> set ks = {k. value_at m t k \<noteq> None})
     | List_pairs t \<Rightarrow> (\<exists>ps. r = RPairs ps \<and> distinct (map fst ps) \<and> map_of ps = value_at m t)
     | Begin \<Rightarrow> r = RBool (\<not> in_transaction a)
     | Commit \<Rightarrow> r = RBool (in_transaction a)
     | Cancel \<Rightarrow> r = RBool (in_transaction a))"

definition set_tables :: "store \<Rightarrow> store_state \<Rightarrow> store_state" where
  "set_tables m a = a\<lparr>tables := m, disk := (if in_transaction a then disk a else m)\<rparr>"

definition store_next :: "store_state \<Rightarrow> store_op \<Rightarrow> store_state" where
  "store_next a op = (case op of
       Put t k v \<Rightarrow> set_tables ((tables a)(t \<mapsto> (case tables a t of Some n \<Rightarrow> n | None \<Rightarrow> Map.empty)(k \<mapsto> v))) a
     | Remove_key t k \<Rightarrow> (case tables a t of Some n \<Rightarrow> set_tables ((tables a)(t \<mapsto> n(k := None))) a | None \<Rightarrow> a)
     | Remove_table t \<Rightarrow> set_tables ((tables a)(t := None)) a
     | Begin \<Rightarrow> a\<lparr>in_transaction := True\<rparr>
     | Commit \<Rightarrow> (if in_transaction a then a\<lparr>disk := tables a, in_transaction := False\<rparr> else a)
     | Cancel \<Rightarrow> (if in_transaction a then a\<lparr>tables := disk a, in_transaction := False\<rparr> else a)
     | _ \<Rightarrow> a)"

definition nul_free :: "string \<Rightarrow> bool" where
  "nul_free s \<longleftrightarrow> CHR 0x00 \<notin> set s"

fun op_strings :: "store_op \<Rightarrow> string list" where
  "op_strings (Put t k v) = [t, k, v]"
| "op_strings (Get t k) = [t, k]"
| "op_strings (Get_default t k d) = [t, k]"
| "op_strings (Remove_key t k) = [t, k]"
| "op_strings (Remove_table t) = [t]"
| "op_strings (Contains_key t k) = [t, k]"
| "op_strings (Contains_table t) = [t]"
| "op_strings (Keys t) = [t]"
| "op_strings (List_pairs t) = [t]"
| "op_strings _ = []"

definition promised :: "store_state \<Rightarrow> store_op \<Rightarrow> bool" where
  "promised a op \<longleftrightarrow> list_all nul_free (op_strings op) \<and>
     (case op of Remove_key t k \<Rightarrow> \<not> in_transaction a
        | Cancel \<Rightarrow> in_transaction a \<longrightarrow> disk a = Map.empty | _ \<Rightarrow> True)"

fun promised_all :: "store_state \<Rightarrow> store_op list \<Rightarrow> bool" where
  "promised_all a [] = True"
| "promised_all a (op # ops) = (promised a op \<and> promised_all (store_next a op) ops)"

fun answers_all :: "store_state \<Rightarrow> store_op list \<Rightarrow> store_reply list \<Rightarrow> bool" where
  "answers_all a [] rs = (rs = [])"
| "answers_all a (op # ops) [] = False"
| "answers_all a (op # ops) (r # rs) = (answers a op r \<and> answers_all (store_next a op) ops rs)"

lemma answers_all_Cons [simp]:
  "answers_all a (op # ops) rs \<longleftrightarrow>
     (\<exists>r rs'. rs = r # rs' \<and> answers a op r \<and> answers_all (store_next a op) ops rs')"
  by (cases rs) auto

locale key_value_store =
  fixes step :: "store_op \<Rightarrow> 's \<Rightarrow> 'e + store_reply \<times> 's"
    and invar :: "'s \<Rightarrow> bool"
    and state_of :: "'s \<Rightarrow> store_state"
  assumes step_ok: "invar s \<Longrightarrow> promised (state_of s) op \<Longrightarrow>
    \<exists>r s'. step op s = Inr (r, s') \<and> invar s' \<and> answers (state_of s) op r \<and> state_of s' = store_next (state_of s) op"
begin

lemma runs_ok:
  assumes "invar s" and "promised_all (state_of s) ops"
  shows "\<exists>rs s'. run_ops step ops s = Inr (rs, s') \<and> invar s' \<and> answers_all (state_of s) ops rs \<and>
    state_of s' = foldl store_next (state_of s) ops"
  using assms
proof (induction ops arbitrary: s)
  case (Cons op ops)
  then obtain r s' where s': "step op s = Inr (r, s')" "invar s'" "answers (state_of s) op r"
    "state_of s' = store_next (state_of s) op"
    using step_ok[of s op] by auto
  with Cons.IH[of s'] Cons.prems(2) obtain rs t where "run_ops step ops s' = Inr (rs, t)" "invar t"
    "answers_all (state_of s') ops rs" "state_of t = foldl store_next (state_of s') ops"
    by auto
  with s' show ?case by auto
qed simp

text \<open>What was put is there.\<close>

lemma put_get:
  assumes "invar s" and "\<not> in_transaction (state_of s)" and "nul_free t" "nul_free k" "nul_free v"
  shows "\<exists>s'. run_ops step [Put t k v, Get t k] s = Inr ([RBool True, RString v], s')"
proof -
  let ?a = "store_next (state_of s) (Put t k v)"
  have a: "\<not> in_transaction ?a" "value_at (tables ?a) t k = Some v"
    using assms(2) by (simp_all add: store_next_def set_tables_def value_at_def)
  have "promised_all (state_of s) [Put t k v, Get t k]" using assms(3-5) by (simp add: promised_def)
  from runs_ok[OF assms(1) this] show ?thesis
    using a by (auto simp: answers_def visible_def Let_def simp del: run_ops.simps)
qed

end

subsection \<open>Documents of tables of strings\<close>

definition typed_value :: "json \<Rightarrow> bool" where
  "typed_value w \<longleftrightarrow> (case w of Str x \<Rightarrow> nul_free x | _ \<Rightarrow> False)"

definition typed_node :: "members \<Rightarrow> bool" where
  "typed_node node \<longleftrightarrow> distinct (map fst node) \<and> (\<forall>(k, w)\<in>set node. nul_free k \<and> typed_value w)"

definition typed_table :: "json \<Rightarrow> bool" where
  "typed_table v \<longleftrightarrow> (case v of Object node \<Rightarrow> typed_node node | _ \<Rightarrow> False)"

definition typed :: "members \<Rightarrow> bool" where
  "typed ms \<longleftrightarrow> distinct (map fst ms) \<and> (\<forall>(t, v)\<in>set ms. nul_free t \<and> typed_table v)"

lemma typed_value_iff: "typed_value w \<longleftrightarrow> (\<exists>x. w = Str x \<and> nul_free x)"
  by (simp add: typed_value_def split: json.split)

lemma typed_table_iff: "typed_table v \<longleftrightarrow> (\<exists>node. v = Object node \<and> typed_node node)"
  by (simp add: typed_table_def split: json.split)

lemmas typed_iffs = typed_value_iff typed_table_iff

definition node_map :: "members \<Rightarrow> string \<rightharpoonup> string" where
  "node_map node k = (case map_of node k of Some (Str v) \<Rightarrow> Some v | _ \<Rightarrow> None)"

definition store_of :: "members \<Rightarrow> store" where
  "store_of ms t = (case map_of ms t of Some (Object node) \<Rightarrow> Some (node_map node) | _ \<Rightarrow> None)"

lemma cstr_nul_free [simp]: "nul_free s \<Longrightarrow> cstr s = s"
  by (auto simp: cstr_def nul_free_def takeWhile_eq_all_conv)

lemma store_of_Nil [simp]: "store_of [] = Map.empty" "typed []"
  by (simp_all add: store_of_def typed_def fun_eq_iff)

lemma typed_tableE:
  assumes "typed ms" and "map_of ms t = Some v"
  obtains node where "v = Object node" and "typed_node node" and "store_of ms t = Some (node_map node)"
proof -
  have "(t, v) \<in> set ms" using assms(2) by (rule map_of_SomeD)
  then obtain node where "v = Object node" "typed_node node"
    using assms(1) by (auto simp: typed_def typed_iffs)
  with that assms(2) show thesis by (simp add: store_of_def)
qed

lemma typed_stringE:
  assumes "typed_node node" and "map_of node k = Some w"
  obtains x where "w = Str x" and "nul_free x" and "node_map node k = Some x"
proof -
  have "(k, w) \<in> set node" using assms(2) by (rule map_of_SomeD)
  then obtain x where "w = Str x" "nul_free x"
    using assms(1) by (auto simp: typed_node_def typed_iffs)
  with that assms(2) show thesis by (simp add: node_map_def)
qed

lemma store_of_None: "typed ms \<Longrightarrow> map_of ms t = None \<longleftrightarrow> store_of ms t = None"
  by (cases "map_of ms t") (auto elim: typed_tableE simp: store_of_def)

lemma node_map_None: "typed_node node \<Longrightarrow> map_of node k = None \<longleftrightarrow> node_map node k = None"
  by (cases "map_of node k") (auto elim: typed_stringE simp: node_map_def)

lemma node_map_put:
  "node_map (if map_of node k \<noteq> None then set_member k (Str v) node else node @ [(k, Str v)]) = (node_map node)(k \<mapsto> v)"
  using map_of_set_member[of node k "Str v"] map_of_snoc[of node k "Str v"]
  by (auto simp: node_map_def fun_eq_iff simp del: map_of_append)

lemma typed_node_put:
  assumes "typed_node node" and "nul_free k" and "nul_free v"
  shows "typed_node (if map_of node k \<noteq> None then set_member k (Str v) node else node @ [(k, Str v)])"
  using assms set_set_member[of k "Str v" node]
  by (auto simp: typed_node_def typed_iffs map_of_eq_None_iff)

lemma node_map_remove: "typed_node node \<Longrightarrow> node_map (remove_member k node) = (node_map node)(k := None)"
  by (simp add: node_map_def typed_node_def map_of_remove_member fun_eq_iff)

lemma typed_node_remove: "typed_node node \<Longrightarrow> typed_node (remove_member k node)"
  using set_remove_member[of k node]
  by (auto simp: typed_node_def distinct_remove_member)

lemma store_of_set:
  "map_of ms t \<noteq> None \<Longrightarrow> store_of (set_member t (Object node) ms) = (store_of ms)(t \<mapsto> node_map node)"
  by (simp add: store_of_def map_of_set_member fun_eq_iff)

lemma typed_set:
  assumes "typed ms" and "typed_node node" and "nul_free t"
  shows "typed (set_member t (Object node) ms)"
  using assms set_set_member[of t "Object node" ms] by (auto simp: typed_def typed_iffs)

lemma store_of_remove: "typed ms \<Longrightarrow> store_of (remove_member t ms) = (store_of ms)(t := None)"
  by (simp add: store_of_def typed_def map_of_remove_member fun_eq_iff)

lemma typed_remove: "typed ms \<Longrightarrow> typed (remove_member t ms)"
  using set_remove_member[of t ms] by (auto simp: typed_def distinct_remove_member)

lemma typed_new:
  assumes "typed ms" and "map_of ms t = None" and "nul_free t"
  shows "typed (ms @ [(t, Object [])])" and "store_of (ms @ [(t, Object [])]) = (store_of ms)(t \<mapsto> Map.empty)"
proof -
  show "typed (ms @ [(t, Object [])])"
    using assms by (auto simp: typed_def typed_node_def typed_iffs map_of_eq_None_iff)
  have "node_map [] = Map.empty" by (simp add: node_map_def fun_eq_iff)
  with assms(2) show "store_of (ms @ [(t, Object [])]) = (store_of ms)(t \<mapsto> Map.empty)"
    by (simp add: store_of_def fun_eq_iff map_of_snoc del: map_of_append)
qed

lemma string_members_spec:
  assumes "typed_node node"
  shows "distinct (map fst (string_members node))" and "map_of (string_members node) = node_map node"
    and "map (\<lambda>(k, v). cstr k) (filter (\<lambda>(k, v). IsString v) node) = map fst node"
proof -
  have *: "string_members node = map (\<lambda>(k, w). (k, case w of Str x \<Rightarrow> x)) node"
    using assms by (induction node) (auto simp: string_members_def typed_node_def typed_iffs)
  then have "map fst (string_members node) = map fst node" by (simp add: comp_def split_def)
  then show "distinct (map fst (string_members node))" using assms by (simp add: typed_node_def)
  show "map_of (string_members node) = node_map node"
    using assms unfolding * node_map_def fun_eq_iff
    by (induction node) (auto simp: typed_node_def typed_iffs)
  show "map (\<lambda>(k, v). cstr k) (filter (\<lambda>(k, v). IsString v) node) = map fst node"
    using assms by (induction node) (auto simp: typed_node_def typed_iffs)
qed

subsection \<open>The storage keeps the contract\<close>

text \<open>What the library documents: a document that was written is parsed again.\<close>

definition json_round_trip :: "json_library \<Rightarrow> bool" where
  "json_round_trip L \<longleftrightarrow> (\<forall>ms. typed ms \<longrightarrow> fst (lib_print L (Object ms)) \<and>
     lib_parse L (snd (lib_print L (Object ms))) = Some (Object ms))"

definition disk_document :: "json_library \<Rightarrow> storage \<Rightarrow> json option" where
  "disk_document L s = Option.bind (data_file s) (lib_parse L)"

definition storage_ok :: "json_library \<Rightarrow> storage \<Rightarrow> bool" where
  "storage_ok L s \<longleftrightarrow> json_round_trip L \<and> writable s \<and> \<not> m_freed s \<and> typed (m_document s) \<and>
     (\<exists>ms. disk_document L s = Some (Object ms) \<and> typed ms \<and> (\<not> m_dirty s \<longrightarrow> store_of ms = store_of (m_document s))) \<and>
     (m_dirty s \<longrightarrow> m_transactionInProgress s)"

definition storage_state :: "json_library \<Rightarrow> storage \<Rightarrow> store_state" where
  "storage_state L s = \<lparr>tables = store_of (m_document s),
     disk = (case disk_document L s of Some (Object ms) \<Rightarrow> store_of ms | _ \<Rightarrow> Map.empty),
     in_transaction = m_transactionInProgress s\<rparr>"

lemma storage_state_simps [simp]:
  "tables (storage_state L s) = store_of (m_document s)"
  "in_transaction (storage_state L s) = m_transactionInProgress s"
  by (simp_all add: storage_state_def)

definition readable :: "storage \<Rightarrow> bool" where
  "readable s \<longleftrightarrow> \<not> m_freed s \<and> typed (m_document s)"

lemma root_ok: "readable s \<Longrightarrow> root s = Inr (m_document s)"
  by (simp add: root_def readable_def)

lemma storage_ok_readable: "storage_ok L s \<Longrightarrow> readable s"
  by (simp add: storage_ok_def readable_def)

lemma write_ok:
  assumes "json_round_trip L" and "writable s" and "\<not> m_freed s" and "typed (m_document s)"
  shows "write_file L s = Inr (True, s\<lparr>data_file := Some (snd (lib_print L (Object (m_document s)))), m_dirty := False\<rparr>)"
  using assms by (simp add: write_file_def root_def json_round_trip_def split_def)

lemma written_ok:
  assumes "json_round_trip L" and "writable s" and "\<not> m_freed s" and "typed (m_document s)"
    and "s' = s\<lparr>data_file := Some (snd (lib_print L (Object (m_document s)))), m_dirty := False, m_transactionInProgress := b\<rparr>"
  shows "storage_ok L s'" and "storage_state L s' =
    \<lparr>tables = store_of (m_document s), disk = store_of (m_document s), in_transaction = b\<rparr>"
  using assms by (simp_all add: storage_ok_def storage_state_def disk_document_def json_round_trip_def)

lemma changed_ok:
  assumes "storage_ok L s" and "typed ms"
  shows "\<exists>s'. changed L (s\<lparr>m_document := ms\<rparr>) = Inr (True, s') \<and> storage_ok L s' \<and>
    storage_state L s' = set_tables (store_of ms) (storage_state L s)"
proof (cases "m_transactionInProgress s")
  case True
  then show ?thesis
    using assms by (auto simp: changed_def storage_ok_def storage_state_def set_tables_def disk_document_def)
next
  case False
  then have *: "json_round_trip L" "writable (s\<lparr>m_document := ms\<rparr>)" "\<not> m_freed (s\<lparr>m_document := ms\<rparr>)"
    "typed (m_document (s\<lparr>m_document := ms\<rparr>))"
    using assms by (simp_all add: storage_ok_def)
  note written_ok[OF * refl, of False]
  moreover have "s\<lparr>m_transactionInProgress := False\<rparr> = s" using False by (cases s) simp
  ultimately show ?thesis
    using False write_ok[OF *] by (cases s) (simp add: changed_def set_tables_def storage_state_def)
qed

definition keeps_op :: "json_library \<Rightarrow> storage \<Rightarrow> store_op \<Rightarrow> storage_fault + bool \<times> storage \<Rightarrow> bool" where
  "keeps_op L s op r \<longleftrightarrow> (\<exists>s'. r = Inr (True, s') \<and> storage_ok L s' \<and> storage_state L s' = store_next (storage_state L s) op)"

lemma put_changed:
  assumes "readable s" and "nul_free t" "nul_free k" "nul_free v"
  shows "\<exists>ms. put L t k v s = changed L (s\<lparr>m_document := ms\<rparr>) \<and> typed ms \<and> store_of ms =
    (store_of (m_document s))(t \<mapsto> (case store_of (m_document s) t of Some n \<Rightarrow> n | None \<Rightarrow> Map.empty)(k \<mapsto> v))"
proof -
  let ?ms = "if map_of (m_document s) t = None then m_document s @ [(t, Object [])] else m_document s"
  have ty: "typed (m_document s)" using assms(1) by (simp add: readable_def)
  have ms: "typed ?ms" "store_of ?ms t = Some (case store_of (m_document s) t of Some n \<Rightarrow> n | None \<Rightarrow> Map.empty)"
    "(store_of ?ms)(t \<mapsto> m) = (store_of (m_document s))(t \<mapsto> m)" for m
    using typed_new[OF ty _ assms(2)] ty store_of_None[OF ty, of t] by (auto split: option.splits)
  have pres: "map_of ?ms t \<noteq> None" using ms(1,2) store_of_None[OF ms(1), of t] by simp
  then obtain w where w: "map_of ?ms t = Some w" by blast
  obtain node where node: "w = Object node" "typed_node node" "store_of ?ms t = Some (node_map node)"
    using typed_tableE[OF ms(1) w] .
  let ?node = "if map_of node k \<noteq> None then set_member k (Str v) node else node @ [(k, Str v)]"
  have "put L t k v s = changed L (s\<lparr>m_document := set_member t (Object ?node) ?ms\<rparr>)"
    using assms(2-4) w node(1) by (simp add: put_def root_ok[OF assms(1)] as_object_def Let_def del: map_of_append)
  moreover have "typed (set_member t (Object ?node) ?ms)"
    by (intro typed_set typed_node_put ms(1) node(2) assms)
  moreover have "store_of (set_member t (Object ?node) ?ms) =
      (store_of (m_document s))(t \<mapsto> (case store_of (m_document s) t of Some n \<Rightarrow> n | None \<Rightarrow> Map.empty)(k \<mapsto> v))"
    using ms(2) node(3) unfolding store_of_set[OF pres] node_map_put ms(3) by simp
  ultimately show ?thesis by (intro exI conjI)
qed

lemma put_ok:
  assumes "storage_ok L s" and "nul_free t" "nul_free k" "nul_free v"
  shows "keeps_op L s (Put t k v) (put L t k v s)"
proof -
  obtain ms where ms: "put L t k v s = changed L (s\<lparr>m_document := ms\<rparr>)" "typed ms" "store_of ms =
    (store_of (m_document s))(t \<mapsto> (case store_of (m_document s) t of Some n \<Rightarrow> n | None \<Rightarrow> Map.empty)(k \<mapsto> v))"
    using put_changed[OF storage_ok_readable[OF assms(1)] assms(2-4)] by blast
  from changed_ok[OF assms(1) ms(2)] show ?thesis unfolding keeps_op_def ms(1,3) store_next_def by simp
qed

lemma set_tables_same:
  assumes "storage_ok L s"
  shows "set_tables (store_of (m_document s)) (storage_state L s) = storage_state L s"
  using assms by (auto simp: set_tables_def storage_state_def storage_ok_def)

lemma removeTable_ok:
  assumes "storage_ok L s" and "nul_free t"
  shows "keeps_op L s (Remove_table t) (removeTable L t s)"
proof -
  have ty: "typed (m_document s)" using assms(1) by (simp add: storage_ok_def)
  show ?thesis
  proof (cases "map_of (m_document s) t")
    case None
    then have "(store_of (m_document s))(t := None) = store_of (m_document s)"
      using store_of_None[OF ty, of t] by auto
    with None assms set_tables_same[OF assms(1)] show ?thesis
      by (simp add: keeps_op_def removeTable_def root_ok[OF storage_ok_readable] store_next_def)
  next
    case (Some v)
    with assms changed_ok[OF assms(1) typed_remove[OF ty], of t] show ?thesis
      by (simp add: keeps_op_def removeTable_def root_ok[OF storage_ok_readable] store_next_def store_of_remove[OF ty])
  qed
qed

lemma containsKey_ok:
  assumes "readable s" and "nul_free t" "nul_free k"
  shows "containsKey t k s = Inr (value_at (visible (storage_state L s)) t k \<noteq> None)"
proof -
  have ty: "typed (m_document s)" using assms(1) by (simp add: readable_def)
  show ?thesis
  proof (cases "map_of (m_document s) t")
    case None
    with assms ty store_of_None[OF ty, of t] show ?thesis
      by (simp add: containsKey_def root_ok visible_def value_at_def)
  next
    case (Some v)
    then obtain node where node: "v = Object node" "typed_node node" "store_of (m_document s) t = Some (node_map node)"
      by (rule typed_tableE[OF ty])
    have "(case map_of node k of Some v \<Rightarrow> IsString v | None \<Rightarrow> False) = (node_map node k \<noteq> None)"
      using node_map_None[OF node(2), of k] by (cases "map_of node k") (auto elim: typed_stringE[OF node(2)])
    with Some node assms show ?thesis
      by (simp add: containsKey_def root_ok visible_def value_at_def)
  qed
qed

lemma containsTable_ok:
  assumes "readable s" and "nul_free t"
  shows "containsTable t s = Inr (visible (storage_state L s) t \<noteq> None)"
proof -
  have ty: "typed (m_document s)" using assms(1) by (simp add: readable_def)
  with assms store_of_None[OF ty, of t] show ?thesis
    by (cases "map_of (m_document s) t")
      (auto simp: containsTable_def root_ok visible_def elim: typed_tableE[OF ty])
qed

lemma get_default_ok:
  assumes "readable s" and "nul_free t" "nul_free k"
  shows "get_default t k d s =
    Inr (case value_at (visible (storage_state L s)) t k of Some v \<Rightarrow> v | None \<Rightarrow> d)"
proof -
  have ty: "typed (m_document s)" using assms(1) by (simp add: readable_def)
  show ?thesis
  proof (cases "map_of (m_document s) t")
    case None
    with assms ty store_of_None[OF ty, of t] show ?thesis
      by (simp add: get_default_def root_ok visible_def value_at_def)
  next
    case (Some v)
    then obtain node where node: "v = Object node" "typed_node node" "store_of (m_document s) t = Some (node_map node)"
      by (rule typed_tableE[OF ty])
    have "as_string (map_of node k) = Inr x \<and> node_map node k = Some x" if "map_of node k = Some w" "w = Str x" "nul_free x" for w x
      using that by (simp add: as_string_def node_map_def)
    with Some node assms node_map_None[OF node(2), of k] show ?thesis
      by (cases "map_of node k")
        (auto simp: get_default_def root_ok visible_def value_at_def as_object_def elim!: typed_stringE[OF node(2)])
  qed
qed

lemma get_ok:
  assumes "readable s" and "nul_free t" "nul_free k"
  shows "get t k s = Inr (case value_at (visible (storage_state L s)) t k of Some v \<Rightarrow> v | None \<Rightarrow> [])"
proof -
  have "get t k s = (if value_at (visible (storage_state L s)) t k = None then Inr [] else get_default t k [] s)"
  proof (cases "m_transactionInProgress s \<or> value_at (visible (storage_state L s)) t k = None")
    case True
    then show ?thesis
      using containsKey_ok[OF assms, of L] by (auto simp: get_def visible_def value_at_def)
  next
    case False
    then have "containsKey t k s = Inr True" using containsKey_ok[OF assms, of L] by simp
    with False show ?thesis
      using assms root_ok[OF assms(1)]
      by (auto simp: get_def get_default_def containsKey_def as_object_def split: option.splits json.splits if_splits)
  qed
  then show ?thesis using get_default_ok[OF assms, of "[]" L] by auto
qed

lemma removeKey_ok:
  assumes "storage_ok L s" and "nul_free t" "nul_free k" and "\<not> m_transactionInProgress s"
  shows "keeps_op L s (Remove_key t k) (removeKey L t k s)"
proof -
  have ty: "typed (m_document s)" using assms(1) by (simp add: storage_ok_def)
  note found = containsKey_ok[OF storage_ok_readable[OF assms(1)] assms(2,3), of L]
  show ?thesis
  proof (cases "value_at (store_of (m_document s)) t k = None")
    case True
    then have "store_next (storage_state L s) (Remove_key t k) = storage_state L s"
      using set_tables_same[OF assms(1)]
      by (auto simp: store_next_def value_at_def fun_upd_idem split: option.splits)
    with True found assms show ?thesis by (simp add: keeps_op_def removeKey_def visible_def)
  next
    case False
    then obtain v where v: "map_of (m_document s) t = Some v"
      using store_of_None[OF ty, of t] by (cases "map_of (m_document s) t") (auto simp: value_at_def)
    obtain node where node: "v = Object node" "typed_node node" "store_of (m_document s) t = Some (node_map node)"
      using typed_tableE[OF ty v] .
    let ?ms = "set_member t (Object (remove_member k node)) (m_document s)"
    have r: "removeKey L t k s = changed L (s\<lparr>m_document := ?ms\<rparr>)"
      using False found assms v node(1) by (simp add: removeKey_def visible_def root_ok[OF storage_ok_readable] as_object_def)
    have st: "store_of ?ms = (store_of (m_document s))(t \<mapsto> (node_map node)(k := None))"
      using v node(2) by (simp add: store_of_set node_map_remove)
    have "typed ?ms" by (intro typed_set ty typed_node_remove node(2) assms)
    from changed_ok[OF assms(1) this] show ?thesis
      unfolding keeps_op_def r st store_next_def using node(3) by simp
  qed
qed

lemma list_ok:
  assumes "readable s" and "nul_free t"
  shows "\<exists>ps. list_table t s = Inr ps \<and> distinct (map fst ps) \<and> map_of ps = value_at (visible (storage_state L s)) t"
    and "\<exists>ks. keys_table t s = Inr ks \<and> distinct ks \<and> set ks = {k. value_at (visible (storage_state L s)) t k \<noteq> None}"
proof -
  have ty: "typed (m_document s)" using assms(1) by (simp add: readable_def)
  note found = containsTable_ok[OF assms, of L]
  have "(\<exists>ps. list_table t s = Inr ps \<and> distinct (map fst ps) \<and> map_of ps = value_at (visible (storage_state L s)) t) \<and>
    (\<exists>ks. keys_table t s = Inr ks \<and> distinct ks \<and> set ks = {k. value_at (visible (storage_state L s)) t k \<noteq> None})"
  proof (cases "visible (storage_state L s) t")
    case None
    with found show ?thesis
      by (simp add: list_table_def keys_table_def value_at_def fun_eq_iff)
  next
    case (Some m)
    then have tr: "\<not> m_transactionInProgress s" and m: "store_of (m_document s) t = Some m"
      by (auto simp: visible_def split: if_splits)
    then obtain v where v: "map_of (m_document s) t = Some v"
      using store_of_None[OF ty, of t] by (cases "map_of (m_document s) t") auto
    obtain node where node: "v = Object node" "typed_node node" "store_of (m_document s) t = Some (node_map node)"
      using typed_tableE[OF ty v] .
    have "value_at (visible (storage_state L s)) t = node_map node"
      using tr node(3) by (simp add: visible_def value_at_def fun_eq_iff)
    moreover have "set (map fst node) = {k. node_map node k \<noteq> None}"
      using node_map_None[OF node(2)] by (auto simp: map_of_eq_None_iff) (metis option.distinct(1))
    moreover have "list_table t s = Inr (string_members node)" "keys_table t s = Inr (map fst node)"
      using found Some assms v node(1) string_members_spec(3)[OF node(2)]
      by (simp_all add: list_table_def keys_table_def root_ok as_object_def)
    moreover have "distinct (map fst node)" using node(2) by (simp add: typed_node_def)
    ultimately show ?thesis using string_members_spec[OF node(2)] by simp
  qed
  then show "\<exists>ps. list_table t s = Inr ps \<and> distinct (map fst ps) \<and> map_of ps = value_at (visible (storage_state L s)) t"
    and "\<exists>ks. keys_table t s = Inr ks \<and> distinct ks \<and> set ks = {k. value_at (visible (storage_state L s)) t k \<noteq> None}"
    by blast+
qed

lemma begin_ok:
  assumes "storage_ok L s"
  shows "\<exists>s'. begin_transaction False s = (\<not> m_transactionInProgress s, s') \<and> storage_ok L s' \<and>
    storage_state L s' = store_next (storage_state L s) Begin"
  using assms
  by (cases "m_transactionInProgress s")
    (auto simp: begin_transaction_def storage_ok_def storage_state_def store_next_def disk_document_def)

lemma commit_ok:
  assumes "storage_ok L s"
  shows "\<exists>s'. commit L s = Inr (m_transactionInProgress s, s') \<and> storage_ok L s' \<and>
    storage_state L s' = store_next (storage_state L s) Commit"
proof (cases "m_transactionInProgress s \<and> m_dirty s")
  case True
  have *: "json_round_trip L" "writable s" "\<not> m_freed s" "typed (m_document s)"
    using assms by (simp_all add: storage_ok_def)
  show ?thesis
    using True write_ok[OF *] written_ok[OF * refl, of False]
    by (simp add: commit_def storage_state_def store_next_def)
next
  case False
  with assms show ?thesis
    by (auto simp: commit_def storage_state_def store_next_def storage_ok_def disk_document_def)
qed

lemma cancel_ok:
  assumes "storage_ok L s" and "promised (storage_state L s) Cancel"
  shows "\<exists>s'. cancel L s = (m_transactionInProgress s, s') \<and> storage_ok L s' \<and>
    storage_state L s' = store_next (storage_state L s) Cancel"
proof (cases "m_transactionInProgress s")
  case False
  with assms(1) show ?thesis by (simp add: cancel_def store_next_def)
next
  case True
  obtain ms where ms: "disk_document L s = Some (Object ms)" "typed ms"
    using assms(1) by (auto simp: storage_ok_def)
  have "store_of ms = Map.empty" using assms(2) True ms(1) by (simp add: promised_def storage_state_def)
  then have "map_of ms = Map.empty" using store_of_None[OF ms(2)] by (auto simp: fun_eq_iff)
  then have "ms = []" by simp
  with True ms assms(1) show ?thesis
    by (auto simp: cancel_def storage_ok_def storage_state_def store_next_def disk_document_def)
qed

lemma done_with_ok:
  assumes "keeps_op L s op r" and "storage_step L op s = done_with r" and "answers (storage_state L s) op (RBool True)"
  shows "\<exists>r s'. storage_step L op s = Inr (r, s') \<and> storage_ok L s' \<and> answers (storage_state L s) op r \<and>
    storage_state L s' = store_next (storage_state L s) op"
  using assms by (auto simp: keeps_op_def done_with_def)

lemma storage_step_ok:
  assumes "storage_ok L s" and "promised (storage_state L s) op"
  shows "\<exists>r s'. storage_step L op s = Inr (r, s') \<and> storage_ok L s' \<and> answers (storage_state L s) op r \<and>
    storage_state L s' = store_next (storage_state L s) op"
proof -
  note rd = storage_ok_readable[OF assms(1)]
  show ?thesis
  proof (cases op)
  case (Put t k v)
  with assms(2) have "keeps_op L s op (put L t k v s)"
    using put_ok[OF assms(1)] by (simp add: promised_def)
  then show ?thesis by (rule done_with_ok) (simp_all add: Put storage_step_def answers_def)
next
  case (Remove_key t k)
  with assms(2) have "keeps_op L s op (removeKey L t k s)"
    using removeKey_ok[OF assms(1)] by (simp add: promised_def)
  then show ?thesis by (rule done_with_ok) (simp_all add: Remove_key storage_step_def answers_def)
next
  case (Remove_table t)
  with assms(2) have "keeps_op L s op (removeTable L t s)"
    using removeTable_ok[OF assms(1)] by (simp add: promised_def)
  then show ?thesis by (rule done_with_ok) (simp_all add: Remove_table storage_step_def answers_def)
next
  case (Keys t)
  with list_ok(2)[OF rd, where t = t and L = L] assms show ?thesis
    by (auto simp: promised_def answers_def storage_step_def told_reply_def store_next_def)
next
  case (List_pairs t)
  with list_ok(1)[OF rd, where t = t and L = L] assms show ?thesis
    by (auto simp: promised_def answers_def storage_step_def told_reply_def store_next_def)
next
  case Cancel
  with cancel_ok[OF assms(1)] assms(2) show ?thesis
    by (auto simp: answers_def storage_step_def done_with_def)
qed (use begin_ok[OF assms(1)] commit_ok[OF assms(1)] assms get_ok[OF rd, where L = L] get_default_ok[OF rd, where L = L]
      containsKey_ok[OF rd, where L = L] containsTable_ok[OF rd, where L = L] in
      \<open>auto simp: promised_def answers_def storage_step_def told_reply_def done_with_def store_next_def\<close>)
qed

interpretation js: key_value_store "storage_step L" "storage_ok L" "storage_state L" for L
  by unfold_locales (rule storage_step_ok)

subsection \<open>A library that keeps what is assumed of it\<close>

text \<open>A length in dots, a bar, and that many items: enough to write tables of strings and to read them.\<close>

definition enc_list :: "('a \<Rightarrow> string) \<Rightarrow> 'a list \<Rightarrow> string" where
  "enc_list f xs = replicate (length xs) (CHR ''.'') @ ''|'' @ concat (map f xs)"

fun dec_items :: "(string \<Rightarrow> 'a \<times> string) \<Rightarrow> nat \<Rightarrow> string \<Rightarrow> 'a list \<times> string" where
  "dec_items d 0 s = ([], s)"
| "dec_items d (Suc n) s = (let (x, s) = d s; (xs, s) = dec_items d n s in (x # xs, s))"

definition dec_list :: "(string \<Rightarrow> 'a \<times> string) \<Rightarrow> string \<Rightarrow> 'a list \<times> string" where
  "dec_list d s = (let n = length (takeWhile (\<lambda>c. c = CHR ''.'') s) in dec_items d n (drop (Suc n) s))"

lemma dec_list_enc:
  assumes "\<And>x r. x \<in> set xs \<Longrightarrow> d (f x @ r) = (x, r)"
  shows "dec_list d (enc_list f xs @ r) = (xs, r)"
proof -
  have dots: "takeWhile (\<lambda>c. c = CHR ''.'') (replicate n (CHR ''.'') @ CHR ''|'' # s) = replicate n (CHR ''.'')" for n s
    by (induction n) auto
  have "dec_items d (length xs) (concat (map f xs) @ r) = (xs, r)"
    using assms by (induction xs) auto
  then show ?thesis by (simp add: dec_list_def enc_list_def dots)
qed

definition enc_string :: "string \<Rightarrow> string" where "enc_string = enc_list (\<lambda>c. [c])"

definition dec_string :: "string \<Rightarrow> string \<times> string" where "dec_string = dec_list (\<lambda>s. (hd s, tl s))"

definition enc_pair :: "('a \<Rightarrow> string) \<Rightarrow> string \<times> 'a \<Rightarrow> string" where
  "enc_pair f = (\<lambda>(k, v). enc_string k @ f v)"

definition dec_pair :: "(string \<Rightarrow> 'a \<times> string) \<Rightarrow> string \<Rightarrow> (string \<times> 'a) \<times> string" where
  "dec_pair d s = (let (k, s) = dec_string s; (v, s) = d s in ((k, v), s))"

lemma dec_string_enc [simp]: "dec_string (enc_string s @ r) = (s, r)"
  unfolding dec_string_def enc_string_def by (rule dec_list_enc) simp

lemma dec_pair_enc: "d (f v @ r) = (v, r) \<Longrightarrow> dec_pair d (enc_pair f (k, v) @ r) = ((k, v), r)"
  by (simp add: dec_pair_def enc_pair_def)

fun enc_value :: "json \<Rightarrow> string" where
  "enc_value (Str s) = enc_string s" | "enc_value v = []"

fun enc_table :: "json \<Rightarrow> string" where
  "enc_table (Object node) = enc_list (enc_pair enc_value) node" | "enc_table v = []"

definition dec_value :: "string \<Rightarrow> json \<times> string" where
  "dec_value s = map_prod Str id (dec_string s)"

definition dec_table :: "string \<Rightarrow> json \<times> string" where
  "dec_table s = map_prod Object id (dec_list (dec_pair dec_value) s)"

definition demo_library :: json_library where
  "demo_library = \<lparr>
     lib_parse = (\<lambda>s. if s = [] then None else Some (Object (fst (dec_list (dec_pair dec_table) s)))),
     lib_print = (\<lambda>v. case v of Object ms \<Rightarrow> (True, enc_list (enc_pair enc_table) ms) | _ \<Rightarrow> (True, []))\<rparr>"

lemma dec_value_enc: "typed_value w \<Longrightarrow> dec_value (enc_value w @ r) = (w, r)"
  by (auto simp: typed_value_iff dec_value_def)

lemma dec_table_enc:
  assumes "typed_table v"
  shows "dec_table (enc_table v @ r) = (v, r)"
proof -
  obtain node where v: "v = Object node" "typed_node node" using assms by (auto simp: typed_table_iff)
  have "dec_list (dec_pair dec_value) (enc_list (enc_pair enc_value) node @ r) = (node, r)"
    by (rule dec_list_enc)
      (use v(2) in \<open>auto simp: typed_node_def intro!: dec_pair_enc dec_value_enc\<close>)
  then show ?thesis by (simp add: v(1) dec_table_def)
qed

lemma demo_round_trip: "json_round_trip demo_library"
  unfolding json_round_trip_def
proof (intro allI impI)
  fix ms assume ty: "typed ms"
  have "dec_list (dec_pair dec_table) (enc_list (enc_pair enc_table) ms @ []) = (ms, [])"
    by (rule dec_list_enc) (use ty in \<open>auto simp: typed_def intro!: dec_pair_enc dec_table_enc\<close>)
  moreover have "enc_list (enc_pair enc_table) ms \<noteq> []" by (simp add: enc_list_def)
  ultimately show "fst (lib_print demo_library (Object ms)) \<and>
      lib_parse demo_library (snd (lib_print demo_library (Object ms))) = Some (Object ms)"
    by (simp add: demo_library_def)
qed

subsection \<open>Runs\<close>

lemma created_ok:
  assumes "json_round_trip L"
  shows "\<exists>s. create_storage L None True = Inr (Some s) \<and> storage_ok L s \<and>
    storage_state L s = \<lparr>tables = Map.empty, disk = Map.empty, in_transaction = False\<rparr>"
proof -
  let ?s = "\<lparr>m_document = [], m_freed = False, m_transactionInProgress = False, m_dirty = False,
    data_file = Some [], writable = True\<rparr>"
  have *: "writable ?s" "\<not> m_freed ?s" "typed (m_document ?s)" by simp_all
  show ?thesis
    using write_ok[OF assms *] written_ok[OF assms * refl, of False]
    by (simp add: create_storage_def initialize_storage_def)
qed

lemma reopened_ok:
  assumes "storage_ok L s" and "\<not> m_transactionInProgress s"
  shows "\<exists>s'. create_storage L (data_file s) True = Inr (Some s') \<and> storage_ok L s' \<and>
    storage_state L s' = storage_state L s"
proof -
  obtain ms where ms: "disk_document L s = Some (Object ms)" "typed ms" "store_of ms = store_of (m_document s)"
    using assms by (auto simp: storage_ok_def)
  then obtain f where "data_file s = Some f" "lib_parse L f = Some (Object ms)"
    by (auto simp: disk_document_def bind_eq_Some_conv)
  with ms assms show ?thesis
    by (auto simp: create_storage_def initialize_storage_def storage_ok_def storage_state_def disk_document_def)
qed

text \<open>
  C7: with a JSON library that reads back what it wrote and a file that can be written, any sequence of
  operations on a new storage, with names free of NUL, runs without a failed assertion and answers as the map
  of tables does, transactions included, as long as no key is removed inside a transaction and none is
  cancelled over a disk that is not empty; what the map says is on the disk is found when the file is opened
  again outside a transaction.
\<close>
theorem storage_runs_as_promised:
  assumes "json_round_trip L" and "create_storage L None True = Inr (Some s)"
    and "promised_all \<lparr>tables = Map.empty, disk = Map.empty, in_transaction = False\<rparr> ops"
  shows "\<exists>rs s'. run_ops (storage_step L) ops s = Inr (rs, s') \<and>
    answers_all \<lparr>tables = Map.empty, disk = Map.empty, in_transaction = False\<rparr> ops rs \<and>
    (let a = foldl store_next \<lparr>tables = Map.empty, disk = Map.empty, in_transaction = False\<rparr> ops in
     storage_state L s' = a \<and>
     (\<not> in_transaction a \<longrightarrow> (\<exists>s''. create_storage L (data_file s') True = Inr (Some s'') \<and> storage_state L s'' = a)))"
proof -
  have s: "storage_ok L s" "storage_state L s = \<lparr>tables = Map.empty, disk = Map.empty, in_transaction = False\<rparr>"
    using created_ok[OF assms(1)] assms(2) by auto
  obtain rs s' where run: "run_ops (storage_step L) ops s = Inr (rs, s')" "storage_ok L s'"
    "answers_all (storage_state L s) ops rs" "storage_state L s' = foldl store_next (storage_state L s) ops"
    using js.runs_ok[OF s(1), of ops] assms(3) s(2) by auto
  have "\<exists>s''. create_storage L (data_file s') True = Inr (Some s'') \<and> storage_state L s'' = storage_state L s'"
    if "\<not> in_transaction (storage_state L s')"
    using reopened_ok[OF run(2)] that by auto
  with run s(2) show ?thesis by (simp add: Let_def)
qed

theorem storage_runs_as_promised_witness:
  "\<exists>s. create_storage demo_library None True = Inr (Some s) \<and>
    (let ops = [Put ''t'' ''k'' ''v'', Begin, Put ''t'' ''l'' ''w'', Get ''t'' ''k'', Commit, Get ''t'' ''l''];
         a0 = \<lparr>tables = Map.empty, disk = Map.empty, in_transaction = False\<rparr> in
     \<exists>rs s'. run_ops (storage_step demo_library) ops s = Inr (rs, s') \<and> answers_all a0 ops rs \<and>
      (let a = foldl store_next a0 ops in storage_state demo_library s' = a \<and>
       (\<not> in_transaction a \<longrightarrow>
         (\<exists>s''. create_storage demo_library (data_file s') True = Inr (Some s'') \<and> storage_state demo_library s'' = a))))"
proof -
  obtain s where s: "create_storage demo_library None True = Inr (Some s)"
    using created_ok[OF demo_round_trip] by blast
  have "promised_all \<lparr>tables = Map.empty, disk = Map.empty, in_transaction = False\<rparr>
    [Put ''t'' ''k'' ''v'', Begin, Put ''t'' ''l'' ''w'', Get ''t'' ''k'', Commit, Get ''t'' ''l'']"
    by (simp add: promised_def nul_free_def)
  from storage_runs_as_promised[OF demo_round_trip s this] s show ?thesis
    unfolding Let_def by blast
qed

subsection \<open>The document stays well typed\<close>

text \<open>Whatever the file system does, and also where the contract is not kept.\<close>

definition storage_typed :: "json_library \<Rightarrow> storage \<Rightarrow> bool" where
  "storage_typed L s \<longleftrightarrow> json_round_trip L \<and> typed (m_document s) \<and>
     (\<forall>ms. disk_document L s = Some (Object ms) \<longrightarrow> typed ms)"

definition sound :: "json_library \<Rightarrow> storage_fault + 'a \<times> storage \<Rightarrow> bool" where
  "sound L r \<longleftrightarrow> (case r of Inl e \<Rightarrow> e = Use_after_free | Inr (x, s) \<Rightarrow> storage_typed L s)"

lemma sound_simps [simp]:
  "sound L (Inl e) \<longleftrightarrow> e = Use_after_free" "sound L (Inr (x, s)) \<longleftrightarrow> storage_typed L s"
  "sound L (done_with r) \<longleftrightarrow> sound L r" "sound L (told_reply f s (Inr y)) \<longleftrightarrow> storage_typed L s"
  by (auto simp: sound_def done_with_def told_reply_def split: sum.split)

lemma write_sound: "storage_typed L s \<Longrightarrow> sound L (write_file L s)"
  by (auto simp: write_file_def root_def storage_typed_def disk_document_def json_round_trip_def split_def)

lemma changed_sound: "storage_typed L s \<Longrightarrow> typed ms \<Longrightarrow> sound L (changed L (s\<lparr>m_document := ms\<rparr>))"
  unfolding changed_def by (auto intro!: write_sound) (simp_all add: storage_typed_def disk_document_def)

lemma freed_sound:
  assumes "storage_typed L s" and "m_freed s"
  shows "sound L (put L t k v s)" "sound L (removeKey L t k s)" "sound L (removeTable L t s)"
    "sound L (told_reply RString s (get t k s))" "sound L (told_reply RString s (get_default t k d s))"
    "sound L (told_reply RBool s (containsKey t k s))" "sound L (told_reply RBool s (containsTable t s))"
    "sound L (told_reply RNames s (keys_table t s))" "sound L (told_reply RPairs s (list_table t s))"
  using assms
  by (auto simp: put_def removeKey_def removeTable_def get_def get_default_def containsKey_def containsTable_def
      keys_table_def list_table_def root_def told_reply_def)

lemma removeKey_sound:
  assumes "storage_typed L s" and "readable s" and "nul_free t" "nul_free k"
  shows "sound L (removeKey L t k s)"
proof (cases "value_at (visible (storage_state L s)) t k = None")
  case True
  then show ?thesis using containsKey_ok[OF assms(2-4), of L] assms(1) by (simp add: removeKey_def)
next
  case False
  have ty: "typed (m_document s)" using assms(1) by (simp add: storage_typed_def)
  from False obtain v where v: "map_of (m_document s) t = Some v"
    using store_of_None[OF ty, of t]
    by (cases "map_of (m_document s) t") (auto simp: value_at_def visible_def split: if_splits)
  obtain node where node: "v = Object node" "typed_node node"
    using typed_tableE[OF ty v] .
  have "removeKey L t k s = changed L (s\<lparr>m_document := set_member t (Object (remove_member k node)) (m_document s)\<rparr>)"
    using False containsKey_ok[OF assms(2-4), of L] assms v node(1)
    by (simp add: removeKey_def root_ok as_object_def)
  moreover have "typed (set_member t (Object (remove_member k node)) (m_document s))"
    by (intro typed_set ty typed_node_remove node(2) assms)
  ultimately show ?thesis using changed_sound[OF assms(1)] by simp
qed

lemma step_sound:
  assumes "storage_typed L s" and "list_all nul_free (op_strings op)"
  shows "sound L (storage_step L op s)"
proof (cases "m_freed s \<or> op \<in> {Begin, Commit, Cancel}")
  case True
  have "sound L (commit L s)"
    using write_sound[OF assms(1)] assms(1)
    by (cases "write_file L s") (auto simp: commit_def storage_typed_def disk_document_def)
  moreover have "storage_typed L (snd (cancel L s))" "storage_typed L (snd (begin_transaction False s))"
    using assms(1)
    by (auto simp: cancel_def begin_transaction_def storage_typed_def disk_document_def split: option.splits json.splits)
  ultimately show ?thesis
    using True freed_sound[OF assms(1)]
    by (cases op; cases "cancel L s"; cases "begin_transaction False s") (auto simp: storage_step_def)
next
  case False
  then have rd: "readable s" using assms(1) by (simp add: readable_def storage_typed_def)
  have change: "sound L r" if "\<exists>ms. r = changed L (s\<lparr>m_document := ms\<rparr>) \<and> typed ms \<and> P ms" for r P
    using that changed_sound[OF assms(1)] by blast
  show ?thesis
  proof (cases op)
    case (Put t k v)
    with assms(2) change[OF put_changed[OF rd, of t k v L]] show ?thesis by (simp add: storage_step_def)
  next
    case (Remove_key t k)
    with assms(2) removeKey_sound[OF assms(1) rd] show ?thesis by (simp add: storage_step_def)
  next
    case (Remove_table t)
    have "typed (remove_member t (m_document s))" using rd by (simp add: readable_def typed_remove)
    with Remove_table assms changed_sound[OF assms(1)] root_ok[OF rd] show ?thesis
      by (simp add: storage_step_def removeTable_def)
  next
    case (Get t k)
    with assms get_ok[OF rd, of t k L] show ?thesis by (simp add: storage_step_def)
  next
    case (Get_default t k d)
    with assms get_default_ok[OF rd, of t k d L] show ?thesis by (simp add: storage_step_def)
  next
    case (Contains_key t k)
    with assms containsKey_ok[OF rd, of t k L] show ?thesis by (simp add: storage_step_def)
  next
    case (Contains_table t)
    with assms containsTable_ok[OF rd, of t L] show ?thesis by (simp add: storage_step_def)
  next
    case (Keys t)
    with assms list_ok(2)[OF rd, of t L] show ?thesis by (auto simp: storage_step_def)
  next
    case (List_pairs t)
    with assms list_ok(1)[OF rd, of t L] show ?thesis by (auto simp: storage_step_def)
  qed (use False in simp_all)
qed

lemma run_sound:
  assumes "storage_typed L s" and "list_all (\<lambda>op. list_all nul_free (op_strings op)) ops"
  shows "sound L (run_ops (storage_step L) ops s)"
  using assms
proof (induction ops arbitrary: s)
  case (Cons op ops)
  have step: "sound L (storage_step L op s)" using step_sound[OF Cons.prems(1)] Cons.prems(2) by simp
  show ?case
  proof (cases "storage_step L op s")
    case (Inl e)
    with step show ?thesis by simp
  next
    case (Inr rs)
    obtain r s' where rs: "rs = (r, s')" by (cases rs)
    with Inr step Cons.IH[of s'] Cons.prems(2) have "sound L (run_ops (storage_step L) ops s')" by simp
    then show ?thesis using Inr rs by (cases "run_ops (storage_step L) ops s'") auto
  qed
qed simp

text \<open>Only \<open>cancel\<close> leaves memory given back.\<close>

definition unfreed :: "storage_fault + 'a \<times> storage \<Rightarrow> bool" where
  "unfreed r \<longleftrightarrow> (case r of Inl e \<Rightarrow> e \<noteq> Use_after_free | Inr (x, s) \<Rightarrow> \<not> m_freed s)"

lemma unfreed_simps [simp]:
  "unfreed (Inl e) \<longleftrightarrow> e \<noteq> Use_after_free" "unfreed (Inr (x, s)) \<longleftrightarrow> \<not> m_freed s" "unfreed (done_with r) \<longleftrightarrow> unfreed r"
  by (auto simp: unfreed_def done_with_def split: sum.split)

lemma as_unfreed: "as_object v \<noteq> Inl Use_after_free" "as_string v \<noteq> Inl Use_after_free"
  by (simp_all add: as_object_def as_string_def split: option.split json.split)

lemma bind_unfreed: "r \<noteq> Inl Use_after_free \<Longrightarrow> (\<And>x. r = Inr x \<Longrightarrow> unfreed (f x)) \<Longrightarrow> unfreed (bindR r f)"
  by (cases r) auto

lemma told_unfreed: "r \<noteq> Inl Use_after_free \<Longrightarrow> \<not> m_freed s \<Longrightarrow> unfreed (told_reply f s r)"
  by (cases r) (auto simp: told_reply_def)

lemma bindR_Inl_iff: "bindR r f = Inl e \<longleftrightarrow> r = Inl e \<or> (\<exists>x. r = Inr x \<and> f x = Inl e)"
  by (cases r) auto

lemma changed_unfreed: "\<not> m_freed s \<Longrightarrow> unfreed (changed L s)"
  by (simp add: changed_def write_file_def root_def split_def Let_def)

lemma reads_unfreed:
  assumes "\<not> m_freed s"
  shows "get t k s \<noteq> Inl Use_after_free" "get_default t k d s \<noteq> Inl Use_after_free"
    "containsKey t k s \<noteq> Inl Use_after_free" "containsTable t s \<noteq> Inl Use_after_free"
    "keys_table t s \<noteq> Inl Use_after_free" "list_table t s \<noteq> Inl Use_after_free"
proof -
  show t: "containsTable t s \<noteq> Inl Use_after_free" using assms by (simp add: containsTable_def root_def)
  show "get t k s \<noteq> Inl Use_after_free" "get_default t k d s \<noteq> Inl Use_after_free"
    "containsKey t k s \<noteq> Inl Use_after_free"
    using assms by (auto simp: get_def get_default_def containsKey_def root_def Let_def bindR_Inl_iff as_unfreed split: if_splits)
  show "keys_table t s \<noteq> Inl Use_after_free" "list_table t s \<noteq> Inl Use_after_free"
    using assms t by (auto simp: keys_table_def list_table_def root_def bindR_Inl_iff as_unfreed split: if_splits)
qed

lemma step_unfreed: "\<not> m_freed s \<Longrightarrow> op \<noteq> Cancel \<Longrightarrow> unfreed (storage_step L op s)"
  using changed_unfreed reads_unfreed[of s]
  by (cases op) (auto simp: storage_step_def put_def removeKey_def removeTable_def root_def begin_transaction_def
      commit_def write_file_def split_def Let_def as_unfreed intro!: bind_unfreed told_unfreed)

lemma run_unfreed: "\<not> m_freed s \<Longrightarrow> Cancel \<notin> set ops \<Longrightarrow> unfreed (run_ops (storage_step L) ops s)"
proof (induction ops arbitrary: s)
  case (Cons op ops)
  show ?case
  proof (cases "storage_step L op s")
    case (Inl e)
    with step_unfreed[of s op L] Cons.prems show ?thesis by auto
  next
    case (Inr rs)
    obtain r s' where rs: "rs = (r, s')" by (cases rs)
    with Inr step_unfreed[of s op L] Cons.prems Cons.IH[of s'] have "unfreed (run_ops (storage_step L) ops s')" by auto
    then show ?thesis using Inr rs by (cases "run_ops (storage_step L) ops s'") auto
  qed
qed simp

text \<open>
  C8: a storage over a data file that is absent, or cannot be parsed, or holds tables of strings: after any
  operations with names and values free of NUL, in any order, and whether or not the file can be written, the
  document is an object of objects of strings without repeated names, and the file holds such a document
  whenever it can be parsed as an object. No assertion of the JSON library fails. Memory given back is used only
  if a transaction was cancelled before, and never without one.
\<close>
theorem storage_stays_typed:
  assumes "json_round_trip L"
    and "\<forall>ms. Option.bind f (lib_parse L) = Some (Object ms) \<longrightarrow> typed ms"
    and "create_storage L f w = Inr (Some s)"
    and "list_all (\<lambda>op. list_all nul_free (op_strings op)) ops"
  shows "case run_ops (storage_step L) ops s of
      Inl e \<Rightarrow> e = Use_after_free \<and> Cancel \<in> set ops
    | Inr (rs, s') \<Rightarrow> typed (m_document s') \<and> (\<forall>ms. disk_document L s' = Some (Object ms) \<longrightarrow> typed ms)"
proof -
  have "storage_typed L s"
  proof (cases f)
    case None
    then have "w" using assms(3) by (auto simp: create_storage_def initialize_storage_def split: if_splits)
    with None assms(3) created_ok[OF assms(1)] have "storage_ok L s" by auto
    then show ?thesis by (auto simp: storage_ok_def storage_typed_def)
  next
    case (Some content)
    with assms show ?thesis
      by (auto simp: create_storage_def initialize_storage_def storage_typed_def disk_document_def
          split: option.splits json.splits)
  qed
  moreover have "\<not> m_freed s"
    using assms(3) by (auto simp: create_storage_def initialize_storage_def write_file_def root_def bindR_Inr_iff
        split_def Let_def split: option.splits json.splits if_splits)
  ultimately show ?thesis
    using run_sound[of L s ops] run_unfreed[of s ops L] assms(4)
    by (cases "run_ops (storage_step L) ops s") (auto simp: sound_def storage_typed_def)
qed

theorem storage_stays_typed_witness:
  "\<exists>s. create_storage demo_library None True = Inr (Some s) \<and>
    (case run_ops (storage_step demo_library) [Put ''t'' ''k'' ''v'', Begin, Remove_key ''t'' ''k'', Cancel, Get ''t'' ''k''] s of
      Inl e \<Rightarrow> e = Use_after_free \<and> Cancel \<in> set [Put ''t'' ''k'' ''v'', Begin, Remove_key ''t'' ''k'', Cancel, Get ''t'' ''k'']
    | Inr (rs, s') \<Rightarrow> typed (m_document s') \<and>
        (\<forall>ms. disk_document demo_library s' = Some (Object ms) \<longrightarrow> typed ms))"
proof -
  obtain s where s: "create_storage demo_library None True = Inr (Some s)"
    using created_ok[OF demo_round_trip] by blast
  have "list_all (\<lambda>op. list_all nul_free (op_strings op))
    [Put ''t'' ''k'' ''v'', Begin, Remove_key ''t'' ''k'', Cancel, Get ''t'' ''k'']"
    by (simp add: nul_free_def)
  from storage_stays_typed[OF demo_round_trip _ s this] s show ?thesis by auto
qed

subsection \<open>Where the contract is not kept\<close>

text \<open>
  Inside a transaction \<open>containsKey\<close> refuses, so \<open>removeKey\<close> reports success and removes nothing; a file
  that cannot be opened for writing is not noticed; after a transaction was cancelled over a disk with a table
  in it, the document is memory given back.
\<close>

text \<open>A data file with a member that is no table is accepted, and the first change of that member fails an assertion.\<close>

lemma ill_typed_file_asserts:
  assumes "lib_parse L text = Some (Object [(t, Number n)])" and "nul_free t"
  shows "\<exists>s. create_storage L (Some text) w = Inr (Some s) \<and> put L t k v s = Inl Assertion"
  using assms
  by (simp add: create_storage_def initialize_storage_def put_def root_def as_object_def nul_free_def cstr_def
      takeWhile_eq_all_conv)

lemma removeKey_in_transaction: "m_transactionInProgress s \<Longrightarrow> removeKey L t k s = Inr (True, s)"
  by (simp add: removeKey_def containsKey_def)

lemma write_not_noticed:
  assumes "fst (lib_print L (Object (m_document s)))" and "\<not> writable s" and "\<not> m_freed s"
  shows "write_file L s = Inr (True, s\<lparr>m_dirty := False\<rparr>)"
  using assms by (simp add: write_file_def root_def split_def)

text \<open>
  When a transaction is cancelled while the file holds at least one table, the operation reports success and the
  next operation that looks into the document, outside a new transaction, uses memory that was given back.
\<close>
theorem cancel_leaves_freed_memory:
  assumes "m_transactionInProgress s" and "disk_document L s = Some (Object ms)" and "ms \<noteq> []"
  shows "fst (cancel L s) \<and> (let s' = snd (cancel L s) in
     put L t k v s' = Inl Use_after_free \<and> get_default t k d s' = Inl Use_after_free \<and>
     get t k s' = Inl Use_after_free \<and> removeKey L t k s' = Inl Use_after_free \<and>
     removeTable L t s' = Inl Use_after_free \<and> list_table t s' = Inl Use_after_free)"
  using assms
  by (simp add: cancel_def disk_document_def put_def get_def get_default_def removeKey_def removeTable_def
      list_table_def containsKey_def containsTable_def root_def)

theorem cancel_leaves_freed_memory_witness:
  "let s = \<lparr>m_document = [], m_freed = False, m_transactionInProgress = True, m_dirty = False,
       data_file = Some (snd (lib_print demo_library (Object [(''t'', Object [])]))), writable = True\<rparr> in
   fst (cancel demo_library s) \<and> (let s' = snd (cancel demo_library s) in
     put demo_library ''t'' ''k'' ''v'' s' = Inl Use_after_free \<and> get_default ''t'' ''k'' [] s' = Inl Use_after_free \<and>
     get ''t'' ''k'' s' = Inl Use_after_free \<and> removeKey demo_library ''t'' ''k'' s' = Inl Use_after_free \<and>
     removeTable demo_library ''t'' s' = Inl Use_after_free \<and> list_table ''t'' s' = Inl Use_after_free)"
proof -
  have "typed [(''t'', Object [])]" by (simp add: typed_def typed_iffs typed_node_def nul_free_def)
  then show ?thesis
    unfolding Let_def using demo_round_trip
    by (intro cancel_leaves_freed_memory[unfolded Let_def, where ms = "[(''t'', Object [])]"])
      (auto simp: disk_document_def json_round_trip_def)
qed

end
