(* ===== verification/Spec2Isabelle.thy ===== *)
theory Spec2Isabelle
  imports Queue_List Queue_Slist Queue_Simpleq Queue_Tailq Queue_Circleq Posixtm Makedevs_Root
    Pxaregs_Main Signgp Cmemdrv Uio_Imp Uio_Isp Jailhouse_Isolation
    Splay_Set Rb_Set Pong_Match Tunctl Usleep Audio_Player Audio_Stream
    Engine_Life Engine_Config Engine_Sdk Json_Store
begin

text \<open>
  Verification library for the C programs of the Automotive Grade Linux layers: the repository is a
  collection of build recipes (meta layers), and these are the programs, kernel modules and headers it
  carries itself, and the core of one vendored SDK. But for the parts of the SDK they do not call one another;
  each part below stands alone over \<open>Prelude\<close>.

  \<^bold>\<open>BSD queues\<close> (\<open>meta/recipes-core/musl/bsd-headers/sys-queue.h\<close>). \<open>Queue_Base\<close> holds the loops, the
  locales \<open>queue_impl\<close>, \<open>bidir_queue_impl\<close>, \<open>single_queue\<close> and \<open>safe_walk\<close>, and the list specification
  of a family of queues; \<open>Queue_Slist\<close>, \<open>Queue_List\<close>, \<open>Queue_Simpleq\<close> (with STAILQ), \<open>Queue_Tailq\<close> and
  \<open>Queue_Circleq\<close> model the macros over an explicit memory of link fields, with and without QUEUEDEBUG,
  and interpret the locales. Shown: any sequence of operations that keeps the preconditions of the
  macros behaves like the same sequence on lists, and the safe loops may remove elements. LIST_MOVE is
  not one of the operations: it leaves a back link to the old head, as \<open>Queue_List\<close> shows.

  \<^bold>\<open>Search trees\<close> (\<open>sys-tree.h\<close> beside it). \<open>Tree_Ops\<close> has the specification of the tree operations on
  the ascending list of elements and the locale \<open>ordered_tree\<close>; \<open>Splay\<close> models the macros over the links
  in memory, \<open>Splay_Loop\<close> the loop on functional trees, which \<open>Splay_Memory\<close> shows the memory to follow,
  and \<open>Splay_Set\<close> interprets the locale. \<open>Rb\<close> models the red-black macros with their parent links and
  colours, \<open>Rb_Trees\<close> the repairs of the colours on functional trees with a path to the root, \<open>Rb_Memory\<close>
  what rotating and painting do to a tree in memory, \<open>Rb_Insert\<close>, \<open>Rb_Remove\<close> and \<open>Rb_Unlink\<close> the
  operations, and \<open>Rb_Set\<close> interprets \<open>ordered_tree\<close> again and \<open>tree_cursor\<close> for the loops. Shown: any
  sequence of operations of either family behaves as specified; the splay loop ends for every
  comparison function; the red-black trees stay balanced.

  \<^bold>\<open>posixtm\<close> (\<open>meta/recipes-extended/at/at/posixtm.c\<close>). \<open>Calendar\<close> models the calendar of the C library,
  \<open>Posixtm\<close> the parser over a clock given as the locale \<open>local_time\<close>. Shown: the exact set of accepted
  strings, equality with a reference definition, and the round trip through printing.

  \<^bold>\<open>makedevs\<close> (\<open>meta/recipes-devtools/makedevs/makedevs/makedevs.c\<close>). \<open>Makedevs_Os\<close> models the file
  system calls, \<open>Makedevs\<close> the program, \<open>Makedevs_Tree\<close>, \<open>Makedevs_Lists\<close>, \<open>Makedevs_Table\<close> and
  \<open>Makedevs_Root\<close> hold the properties: the tree invariant of the file system, the passwd and group files
  read back, the lines of the device table, ranges of devices, and the cases that go wrong. Symbolic
  links and \<open>..\<close> are not modelled, and no call of the program can remove a path.

  \<^bold>\<open>pxaregs\<close> (\<open>meta-oe/recipes-support/pxaregs/pxaregs-1.14/pxaregs.c\<close>). \<open>Pxaregs\<close> models the accesses
  through /dev/mem, the dumps and the setting of a field; \<open>Pxaregs_Table\<close> is the table of registers with
  its preprocessor branches, one definition per block of registers; \<open>Pxaregs_Lemmas\<close> and
  \<open>Pxaregs_Main\<close> show that exactly the bits of the field change, that the dump with its cached word
  equals a specification without the cache, that every row of the table is sound, and that on a device
  that behaves as memory a dump shows the value that was set. The recipe
  patches this file before it builds it (\<open>munmap.patch\<close>, and three that add rows or drop an include);
  the model is of the file as it is in the repository.

  \<^bold>\<open>signGP\<close> (\<open>meta-ti/recipes-bsp/x-load/signgp/signGP.c\<close>): \<open>Signgp\<close>, the image header and its round
  trip.

  \<^bold>\<open>pong-clock\<close> (\<open>meta/recipes-graphics/pong-clock/pong-clock/pong-clock-no-flicker.c\<close>). \<open>Pong_Clock\<close> models
  the game, the requests a frame sends to the X server and the main loop; \<open>Pong_Game\<close> reads the time
  back from the screen; \<open>Pong_Match\<close> has the invariant of the game and shows that a minute ends with a
  point, given enough frames for two widths of the display, and what happens with fewer.

  \<^bold>\<open>tunctl\<close> (\<open>meta/recipes-devtools/qemu/qemu-helper/tunctl.c\<close>) and \<^bold>\<open>usleep\<close>
  (\<open>meta-oe/recipes-core/usleep/files/usleep.c\<close>). \<open>Getopt\<close> models the option parsing of the C library,
  \<open>Tunctl\<close> the program over any answers of the tun driver: its status, requests and output are those of a
  specification over the parsed options, and no persistent device is left that belongs to nobody. \<open>Usleep\<close> shows where the
  time is cut. \<open>C_Numbers\<close> has the reading and printing of numbers that these, pxaregs and makedevs share.

  \<^bold>\<open>Kernel modules of meta-rcar-gen3-adas\<close>. \<open>Cmem_Tiles\<close> and \<open>Cmemdrv\<close> model \<open>cmemdrv.c\<close>: the copy that
  undoes the tiled layout of an image equals a closed formula, loading is all or nothing, a mapping
  stays inside its area. \<open>Uio_Base\<close> has the locale \<open>shared_irq\<close>, the contract of a handler on a shared
  line, and the counted kernel resources; \<open>Uio_Imp\<close> models \<open>uio_imp.c\<close> (handlers, distributor, probing
  that gives everything back) and interprets the locale four times; \<open>Uio_Isp\<close> models \<open>uio_isp.c\<close>, whose
  switching of interrupt lines is also a step relation, because two of its callers take no lock.

  \<^bold>\<open>Jailhouse\<close> (\<open>meta-agl-devel/meta-agl-jailhouse\<close>, the configuration sources under \<open>files\<close>). \<open>Jailhouse\<close>
  holds the tables of memory, ports and PCI devices of the root cell and four demo cells, zero-filled or
  cut to their declared lengths as the compiler does; \<open>Jailhouse_Isolation\<close> shows that the root cell is
  consistent and that the memory three of the inmates are loaded into is disjoint, and where the tables
  contradict one another: one device window and one whole cell lie where they should not.

  \<^bold>\<open>Audio channel of the Alexa Auto SDK\<close> (\<open>modules/alexa/engine\<close> of \<open>external/alexa-auto-sdk\<close>,
  \<open>AudioChannelEngineImpl.cpp\<close>). \<open>Audio_Channel\<close> models the object: the calls of the client, the reports of
  the platform and the tasks of the executor. \<open>Audio_Events\<close> has the step relation of all interleavings
  and the account of events told, waiting and pending; \<open>Audio_Ids\<close> the invariant of the source
  identifiers and the pointers, where the counter of identifiers may hold anything at any time, because
  all channels share it without a common lock; \<open>Audio_Player\<close> the refinement of an abstract player under a platform
  that does as it is told, the volume, and the interleavings that go wrong; \<open>Audio_Stream\<close> the two audio
  streams.

  \<^bold>\<open>Engine of the Alexa Auto SDK\<close> (\<open>modules/core/engine\<close> of \<open>external/alexa-auto-sdk\<close>). \<open>Engine_Version\<close>
  models the versions and descriptions of \<open>ServiceDescription.cpp\<close>; \<open>Engine_Services\<close> the registry
  (\<open>EngineServiceManager.cpp\<close>) and the resolution of dependencies by \<open>EngineImpl::checkServices\<close>, and
  \<open>Engine_Sdk\<close> the descriptions of the services of the SDK; \<open>Engine_Core\<close> the object of \<open>EngineImpl.cpp\<close> with
  all its requests and the handlers of \<open>EngineService.cpp\<close>. The virtual functions a service overrides are
  recorded as calls, with any answers. \<open>Engine_Protocol\<close> has the life cycle a service may rely on and its
  invariant, \<open>Engine_Life\<close> the theorems about sequences of requests, \<open>Engine_Config\<close> the merged configuration.
  \<open>Json\<close> models the documents and \<open>Utils/JSON/JSON.cpp\<close>, \<open>Json_Storage\<close> the storage of
  \<open>Storage/JSONStorage.cpp\<close> with its file and transactions, and \<open>Json_Store\<close> its contract as the locale
  \<open>key_value_store\<close>. Shown: the order of services respects their dependencies whatever the order of the
  registry; every sequence of requests keeps the life cycle of each service; the merged configuration
  depends on the documents and not on their order; the storage behaves as a map of tables as long as the
  contract is kept; its document stays well typed from a well typed file on, and the only fault is the
  access to a document that a cancel has freed. Services do not call back into the engine and
  throw no exceptions. Parameters: the parser and writer of
  rapidjson, the iteration order of the unordered map of the registry, what the services answer, and the
  version the build inserts.

  \<^bold>\<open>State and errors.\<close> Memory is a map or a function in a record that the operations return updated;
  a null dereference, an out-of-range index, an exit or a debug abort is a value on the left of a sum.
  Machine words are \<open>Word\<close> values, or natural numbers with the wrap-around written out. Code outside
  the repository (the C library's clock, the kernel, the hardware behind a register) is a parameter,
  and its documented behaviour a named hypothesis or locale assumption.

  \<^bold>\<open>Bounds.\<close> Loops over pointers are \<open>partial_function (option)\<close> or have a termination proof; no result
  depends on fuel. Where a theorem limits sizes (a file below 2 GiB, an image whose byte offsets fit 32
  bits, a mapping that does not wrap around 64 bits) the limit is a hypothesis, and what happens beyond
  is a lemma where the code misbehaves.

  \<^bold>\<open>Not modelled.\<close> The rest of the vendored Alexa SDK: its adapters to the device SDK and to other
  libraries, the json library of its sample, SQLite storage, threads, and printing of documents, which
  are calls of libraries outside the repository. Image headers, generated tables (elfutils, hdf5),
  programs that only call a library or a socket, and the recipes and Python code. In the modelled files:
  consoles, interrupt chips, caches and the header flags of the cell configurations, log messages, names
  given to resources, and stubs that return 0.
\<close>

end
